(* ===== verification/Prelude.thy ===== *)
theory Prelude
  imports Main "HOL-Library.Word"
begin

text \<open>
  Shared vocabulary of the development: the exception classes of \<^verbatim>\<open>errors.py\<close> and the
  Python built-in ones the code lets escape, results as sums, Python bytes, and the generic
  list and arithmetic lemmas the components use.
\<close>

section \<open>Exceptions and results\<close>

text \<open>
  The exception hierarchy of \<^verbatim>\<open>errors.py\<close>, followed by the Python built-in exceptions that
  code under \<^verbatim>\<open>src/\<close> can raise or let through, and the one exception class of
  \<^verbatim>\<open>_wire_shapes.py\<close>. Messages are not modelled.
  \<open>ValueError\<close> stands for a plain \<open>ValueError\<close>; the SDK classes are subclasses of it
  in Python, which \<open>is_value_error\<close> records.
\<close>

datatype py_error =
    EncodingError
  | SerializationError
  | CryptoError
  | RPCError
  | BuilderError
  | ValueError
  | UnicodeEncodeError
  | UnicodeDecodeError
  | OverflowError
  | TypeError
  | RecursionError
  | AttributeError
  | KeyError
  | IndexError
  | JSONDecodeError
  | ShapeMismatch

fun is_phantasma_error :: "py_error \<Rightarrow> bool" where
  "is_phantasma_error EncodingError = True"
| "is_phantasma_error SerializationError = True"
| "is_phantasma_error CryptoError = True"
| "is_phantasma_error RPCError = True"
| "is_phantasma_error BuilderError = True"
| "is_phantasma_error _ = False"

fun is_value_error :: "py_error \<Rightarrow> bool" where
  "is_value_error RPCError = False"
| "is_value_error OverflowError = False"
| "is_value_error TypeError = False"
| "is_value_error RecursionError = False"
| "is_value_error AttributeError = False"
| "is_value_error KeyError = False"
| "is_value_error IndexError = False"
| "is_value_error ShapeMismatch = False"
| "is_value_error _ = True"

type_synonym 'a result = "py_error + 'a"

definition rthen :: "'a result \<Rightarrow> ('a \<Rightarrow> 'b result) \<Rightarrow> 'b result" where
  "rthen m f = (case m of Inl e \<Rightarrow> Inl e | Inr x \<Rightarrow> f x)"

lemma rthen_simps [simp]:
  "rthen (Inl e) f = Inl e"
  "rthen (Inr x) f = f x"
  by (simp_all add: rthen_def)

lemma rthen_Inr_iff: "rthen m f = Inr y \<longleftrightarrow> (\<exists>x. m = Inr x \<and> f x = Inr y)"
  by (cases m) auto

lemma rthen_Inl_iff: "rthen m f = Inl e \<longleftrightarrow> m = Inl e \<or> (\<exists>x. m = Inr x \<and> f x = Inl e)"
  by (cases m) auto

lemma rthen_assoc: "rthen (rthen m f) g = rthen m (\<lambda>x. rthen (f x) g)"
  by (cases m) auto

lemma rthen_cong [fundef_cong]:
  "m = m' \<Longrightarrow> (\<And>x. m' = Inr x \<Longrightarrow> f x = f' x) \<Longrightarrow> rthen m f = rthen m' f'"
  by (cases m') auto

text \<open>\<open>raise_unless c e\<close>: the guard \<^verbatim>\<open>if not c: raise e\<close>.\<close>

definition raise_unless :: "bool \<Rightarrow> py_error \<Rightarrow> unit result" where
  "raise_unless c e = (if c then Inr () else Inl e)"

lemma raise_unless_simps [simp]:
  "raise_unless True e = Inr ()"
  "raise_unless False e = Inl e"
  by (simp_all add: raise_unless_def)

lemma raise_unless_Inr [simp]: "raise_unless c e = Inr u \<longleftrightarrow> c"
  by (simp add: raise_unless_def)

text \<open>Applying a fallible function to every element, left to right, stopping at the first error.\<close>

fun rmap :: "('a \<Rightarrow> 'b result) \<Rightarrow> 'a list \<Rightarrow> 'b list result" where
  "rmap f [] = Inr []"
| "rmap f (x # xs) = rthen (f x) (\<lambda>y. rthen (rmap f xs) (\<lambda>ys. Inr (y # ys)))"

lemma rmap_length: "rmap f xs = Inr ys \<Longrightarrow> length ys = length xs"
  by (induction xs arbitrary: ys) (auto simp: rthen_Inr_iff)

lemma rmap_Inr: "(\<And>x. x \<in> set xs \<Longrightarrow> f x = Inr (g x)) \<Longrightarrow> rmap f xs = Inr (map g xs)"
  by (induction xs) auto

lemma rmap_cong [fundef_cong]:
  "xs = ys \<Longrightarrow> (\<And>x. x \<in> set ys \<Longrightarrow> f x = g x) \<Longrightarrow> rmap f xs = rmap g ys"
proof (induction xs arbitrary: ys)
  case (Cons x xs)
  from Cons.prems(1) [symmetric] show ?case using Cons.IH [OF refl] Cons.prems(2) by simp
qed simp

lemma rmap_error: "rmap f xs = Inl e \<Longrightarrow> \<exists>x \<in> set xs. f x = Inl e"
  by (induction xs) (auto simp: rthen_Inl_iff)

lemma rmap_all: "rmap f xs = Inr ys \<Longrightarrow> (\<And>x y. f x = Inr y \<Longrightarrow> P y) \<Longrightarrow> list_all P ys"
  by (induction xs arbitrary: ys) (auto simp: rthen_Inr_iff)

lemma rmap_determined:
  "rmap f xs = Inr ys \<Longrightarrow> (\<And>x y. f x = Inr y \<Longrightarrow> y = h x \<and> P x) \<Longrightarrow> ys = map h xs \<and> (\<forall>x \<in> set xs. P x)"
  by (induction xs arbitrary: ys) (auto simp: rthen_Inr_iff)

lemma rmap_map_id: "(\<And>x. x \<in> set xs \<Longrightarrow> f (g x) = Inr x) \<Longrightarrow> rmap f (map g xs) = Inr xs"
  by (induction xs) auto

lemma rmap_total:
  "(\<And>x. x \<in> set xs \<Longrightarrow> \<exists>y. f x = Inr y \<and> P y) \<Longrightarrow> \<exists>ys. rmap f xs = Inr ys \<and> list_all P ys"
  by (induction xs) fastforce+

section \<open>Bytes\<close>

type_synonym byte = "8 word"
type_synonym bytes = "byte list"

lemma uint_byte_bounds: "0 \<le> uint (b :: byte)" "uint (b :: byte) < 256"
  using uint_lt2p [of b] by simp_all

lemma unat_byte_less: "unat (b :: byte) < 256"
  using unsigned_less [of b] by simp

lemma word_of_nat_unat_byte: "n < 256 \<Longrightarrow> unat (word_of_nat n :: byte) = n"
  by (simp add: unat_of_nat)

lemma uint_word_of_int_byte: "uint (word_of_int v :: byte) = v mod 256"
  by (simp add: uint_word_of_int)

section \<open>Lists\<close>

lemma take_length_append [simp]: "take (length xs) (xs @ ys) = xs"
  by simp

lemma append_take_eq:
  "take (length (a @ b)) xs = a @ b \<longleftrightarrow>
   take (length a) xs = a \<and> take (length b) (drop (length a) xs) = b"
proof
  assume h: "take (length (a @ b)) xs = a @ b"
  have "take (length a) (take (length (a @ b)) xs) = a" by (simp only: h) simp
  then have "take (length a) xs = a" by simp
  moreover have "drop (length a) (take (length (a @ b)) xs) = b" by (simp only: h) simp
  ultimately show "take (length a) xs = a \<and> take (length b) (drop (length a) xs) = b"
    by (simp add: drop_take)
next
  assume "take (length a) xs = a \<and> take (length b) (drop (length a) xs) = b"
  then show "take (length (a @ b)) xs = a @ b"
    by (simp add: take_add)
qed

lemma take_eq_length_le: "take n xs = ys \<Longrightarrow> length ys = n \<Longrightarrow> n \<le> length xs"
  by auto

lemma last_conv_takeWhile:
  "length xs = length (takeWhile P xs) + length (dropWhile P xs)"
  by (metis length_append takeWhile_dropWhile_id)

end
