(* ===== verification/PyInt.thy ===== *)
theory PyInt
  imports Prelude
begin

text \<open>
  The parts of Python's \<open>int\<close> the SDK uses on bytes: \<open>int.to_bytes\<close>, \<open>int.from_bytes\<close>
  and \<open>int.bit_length\<close>, little and big endian, signed and unsigned, with the lemmas that
  relate them.
\<close>

section \<open>Little-endian bytes\<close>

text \<open>The \<open>n\<close> low bytes of the two's complement representation, least significant first.\<close>

fun le_bytes :: "nat \<Rightarrow> int \<Rightarrow> bytes" where
  "le_bytes 0 v = []"
| "le_bytes (Suc n) v = word_of_int v # le_bytes n (v div 256)"

text \<open>\<^verbatim>\<open>int.from_bytes(bs, "little", signed=False)\<close>\<close>

fun le_int :: "bytes \<Rightarrow> int" where
  "le_int [] = 0"
| "le_int (b # bs) = uint b + 256 * le_int bs"

text \<open>\<^verbatim>\<open>int.from_bytes(bs, "little", signed=True)\<close>: the sign bit is the top bit of the last byte.\<close>

definition le_int_signed :: "bytes \<Rightarrow> int" where
  "le_int_signed bs =
     (let u = le_int bs; m = 256 ^ length bs in if m \<le> 2 * u then u - m else u)"

text \<open>\<^verbatim>\<open>int.from_bytes(bs, "big")\<close>\<close>

definition be_int :: "bytes \<Rightarrow> int" where
  "be_int bs = le_int (rev bs)"

text \<open>\<^verbatim>\<open>v.to_bytes(n, "little", signed=...)\<close> raises \<open>OverflowError\<close> when \<open>v\<close> does not fit.\<close>

definition to_bytes_le :: "int \<Rightarrow> nat \<Rightarrow> bytes result" where
  "to_bytes_le v n = (if 0 \<le> v \<and> v < 256 ^ n then Inr (le_bytes n v) else Inl OverflowError)"

definition to_bytes_le_signed :: "int \<Rightarrow> nat \<Rightarrow> bytes result" where
  "to_bytes_le_signed v n =
     (if - (256 ^ n) \<le> 2 * v \<and> 2 * v < 256 ^ n then Inr (le_bytes n v) else Inl OverflowError)"

definition to_bytes_be :: "int \<Rightarrow> nat \<Rightarrow> bytes result" where
  "to_bytes_be v n = (if 0 \<le> v \<and> v < 256 ^ n then Inr (rev (le_bytes n v)) else Inl OverflowError)"

lemma length_le_bytes [simp]: "length (le_bytes n v) = n"
  by (induction n arbitrary: v) auto

lemma le_bytes_Nil_iff [simp]: "le_bytes n v = [] \<longleftrightarrow> n = 0"
  by (cases n) auto

lemma le_int_nonneg [simp]: "0 \<le> le_int bs"
  by (induction bs) auto

lemma le_int_less: "le_int bs < 256 ^ length bs"
proof (induction bs)
  case Nil
  then show ?case by simp
next
  case (Cons b bs)
  have "uint b < 256" by (rule uint_byte_bounds)
  with Cons show ?case by simp
qed

lemma le_int_le_bytes: "le_int (le_bytes n v) = v mod 256 ^ n"
proof (induction n arbitrary: v)
  case 0
  then show ?case by simp
next
  case (Suc n)
  have "le_int (le_bytes (Suc n) v) = v mod 256 + 256 * (v div 256 mod 256 ^ n)"
    by (simp add: Suc uint_word_of_int_byte)
  also have "\<dots> = v mod (256 * 256 ^ n)"
    by (simp add: zmod_zmult2_eq)
  finally show ?case by simp
qed

lemma le_bytes_le_int: "le_bytes (length bs) (le_int bs) = bs"
proof (induction bs)
  case Nil
  then show ?case by simp
next
  case (Cons b bs)
  have b: "0 \<le> uint b" "uint b < 256" by (rule uint_byte_bounds)+
  then have "(uint b + 256 * le_int bs) div 256 = le_int bs" by simp
  moreover have "word_of_int (uint b + 256 * le_int bs) = b"
  proof (rule word_uint_eqI)
    have "uint (word_of_int (uint b + 256 * le_int bs) :: byte) = (uint b + 256 * le_int bs) mod 256"
      by (rule uint_word_of_int_byte)
    also have "\<dots> = uint b" using b by simp
    finally show "uint (word_of_int (uint b + 256 * le_int bs) :: byte) = uint b" .
  qed
  ultimately show ?case by (simp add: Cons)
qed

lemma le_bytes_mod: "le_bytes n (v mod 256 ^ n) = le_bytes n v"
  using le_bytes_le_int [of "le_bytes n v"] by (simp add: le_int_le_bytes)

lemma le_bytes_eq_iff: "le_bytes n v = le_bytes n w \<longleftrightarrow> v mod 256 ^ n = w mod 256 ^ n"
  by (metis le_int_le_bytes le_bytes_mod)

lemma le_int_append: "le_int (a @ b) = le_int a + 256 ^ length a * le_int b"
  by (induction a) (auto simp: algebra_simps)

lemma le_int_replicate_0 [simp]: "le_int (replicate n 0) = 0"
  by (induction n) auto

lemma le_int_replicate_FF: "le_int (replicate n 255) = 256 ^ n - 1"
  by (induction n) auto

lemma le_int_inj: "le_int a = le_int b \<Longrightarrow> length a = length b \<Longrightarrow> a = b"
  by (metis le_bytes_le_int)

lemma le_int_signed_range:
  "- (256 ^ length bs) \<le> 2 * le_int_signed bs" "2 * le_int_signed bs < 256 ^ length bs"
  using le_int_nonneg [of bs] le_int_less [of bs]
  by (auto simp: le_int_signed_def Let_def simp del: le_int_nonneg)

lemma le_int_signed_mod: "le_int_signed bs mod 256 ^ length bs = le_int bs"
  using le_int_nonneg [of bs] le_int_less [of bs]
  by (auto simp: le_int_signed_def Let_def mod_pos_pos_trivial mod_diff_right_eq [symmetric]
      minus_mod_self2)

lemma int_signed_mod_unique:
  fixes a b m :: int
  assumes "a mod m = b mod m" "- m \<le> 2 * a" "2 * a < m" "- m \<le> 2 * b" "2 * b < m"
  shows "a = b"
proof -
  from assms(1) obtain k where k: "a = b + m * k"
    by (metis mod_eq_dvd_iff dvdE diff_eq_eq add.commute)
  have m: "0 < m" using assms(2,3) by linarith
  have "\<bar>m * k\<bar> < m" using assms(2-5) k by linarith
  then have "k = 0" using m
    by (metis abs_mult abs_of_pos less_irrefl mult.right_neutral mult_le_cancel_left_pos
        not_less zabs_less_one_iff linorder_not_le)
  with k show ?thesis by simp
qed

lemma le_int_signed_le_bytes:
  assumes "- (256 ^ n) \<le> 2 * v" "2 * v < 256 ^ n"
  shows "le_int_signed (le_bytes n v) = v"
proof (rule int_signed_mod_unique [where m = "256 ^ n"])
  show "le_int_signed (le_bytes n v) mod 256 ^ n = v mod 256 ^ n"
    using le_int_signed_mod [of "le_bytes n v"] by (simp add: le_int_le_bytes)
  show "- (256 ^ n) \<le> 2 * le_int_signed (le_bytes n v)"
    "2 * le_int_signed (le_bytes n v) < 256 ^ n"
    using le_int_signed_range [of "le_bytes n v"] by simp_all
qed (use assms in simp_all)

lemma le_bytes_le_int_signed: "le_bytes (length bs) (le_int_signed bs) = bs"
  using le_bytes_mod [of "length bs" "le_int_signed bs"]
  by (simp add: le_int_signed_mod le_bytes_le_int)

lemma le_int_le_bytes_id: "0 \<le> v \<Longrightarrow> v < 256 ^ n \<Longrightarrow> le_int (le_bytes n v) = v"
  by (simp add: le_int_le_bytes)

lemma le_bytes_append:
  "le_bytes (m + n) v = le_bytes m v @ le_bytes n (v div 256 ^ m)"
  by (induction m arbitrary: v) (auto simp: zdiv_zmult2_eq)

lemma le_bytes_zero: "le_bytes n 0 = replicate n 0"
  by (induction n) auto

lemma le_bytes_minus_one: "le_bytes n (- 1) = replicate n 255"
  by (induction n) (auto simp: word_eq_iff_unsigned)

lemma be_int_nonneg [simp]: "0 \<le> be_int bs"
  by (simp add: be_int_def)

section \<open>Bit length\<close>

fun nat_bit_length :: "nat \<Rightarrow> nat" where
  "nat_bit_length n = (if n = 0 then 0 else Suc (nat_bit_length (n div 2)))"

declare nat_bit_length.simps [simp del]

lemma nat_bit_length_0 [simp]: "nat_bit_length 0 = 0"
  by (simp add: nat_bit_length.simps)

text \<open>\<^verbatim>\<open>v.bit_length()\<close> counts the bits of the absolute value.\<close>

definition bit_length :: "int \<Rightarrow> nat" where
  "bit_length v = nat_bit_length (nat \<bar>v\<bar>)"

lemma nat_bit_length_le_iff: "nat_bit_length n \<le> k \<longleftrightarrow> n < 2 ^ k"
proof (induction n arbitrary: k rule: nat_bit_length.induct)
  case (1 n)
  show ?case
  proof (cases "n = 0")
    case True
    then show ?thesis by simp
  next
    case False
    then have eq: "nat_bit_length n = Suc (nat_bit_length (n div 2))"
      by (simp add: nat_bit_length.simps [of n])
    show ?thesis
    proof (cases k)
      case 0
      with False eq show ?thesis by simp
    next
      case (Suc j)
      have "nat_bit_length n \<le> k \<longleftrightarrow> n div 2 < 2 ^ j"
        using eq Suc 1 [OF False] by simp
      also have "\<dots> \<longleftrightarrow> n < 2 ^ k"
        using Suc by (simp add: div_less_iff_less_mult mult.commute)
      finally show ?thesis .
    qed
  qed
qed

lemma bit_length_le_iff: "bit_length v \<le> k \<longleftrightarrow> \<bar>v\<bar> < 2 ^ k"
proof -
  have "bit_length v \<le> k \<longleftrightarrow> nat \<bar>v\<bar> < 2 ^ k"
    by (simp add: bit_length_def nat_bit_length_le_iff)
  also have "\<dots> \<longleftrightarrow> \<bar>v\<bar> < 2 ^ k"
    by (simp add: nat_less_iff)
  finally show ?thesis .
qed

lemma bit_length_0 [simp]: "bit_length 0 = 0"
  by (simp add: bit_length_def)

lemma bit_length_bound: "\<bar>v\<bar> < 2 ^ bit_length v"
  using bit_length_le_iff [of v "bit_length v"] by simp

lemma bit_length_lower: "k < bit_length v \<longleftrightarrow> 2 ^ k \<le> \<bar>v\<bar>"
  using bit_length_le_iff [of v k] by linarith

lemma pow256: "(256::int) ^ n = 2 ^ (8 * n)"
  by (simp add: power_mult)

lemma bytes_for_bits:
  assumes "0 \<le> v" "w = (bit_length v + 7) div 8"
  shows "v < 256 ^ w"
proof -
  have "bit_length v \<le> 8 * w" using assms(2) by simp
  then have "\<bar>v\<bar> < 2 ^ (8 * w)" by (simp add: bit_length_le_iff)
  with assms(1) show ?thesis by (simp add: pow256)
qed

end
