(* ===== verification/PyStr.thy ===== *)
theory PyStr
  imports Prelude
begin

text \<open>
  Python \<open>str\<close> as a list of code points, its UTF-8 codec in strict mode, white space,
  ASCII case folding and hexadecimal text. Isabelle string literals enter through \<open>str\<close>.
\<close>

section \<open>Strings\<close>

type_synonym pystr = "nat list"

definition str :: "string \<Rightarrow> pystr" where
  "str s = map of_char s"

lemma str_Nil [simp]: "str [] = []"
  by (simp add: str_def)

lemma str_Cons [simp]: "str (c # s) = of_char c # str s"
  by (simp add: str_def)

lemma str_inject: "str s = str t \<longleftrightarrow> s = t"
  by (simp add: str_def inj_map_eq_map inj_on_def)

section \<open>UTF-8\<close>

definition byte_of :: "nat \<Rightarrow> byte" where
  "byte_of n = word_of_nat n"

lemma unat_byte_of [simp]: "n < 256 \<Longrightarrow> unat (byte_of n) = n"
  by (simp add: byte_of_def word_of_nat_unat_byte)

lemma byte_of_unat [simp]: "byte_of (unat b) = b"
  by (simp add: byte_of_def)

definition is_surrogate :: "nat \<Rightarrow> bool" where
  "is_surrogate c \<longleftrightarrow> 0xD800 \<le> c \<and> c \<le> 0xDFFF"

text \<open>The bytes of one code point; a lone surrogate cannot be encoded.\<close>

definition utf8_char :: "nat \<Rightarrow> bytes result" where
  "utf8_char c =
     (if c < 0x80 then Inr [byte_of c]
      else if c < 0x800 then Inr [byte_of (0xC0 + c div 64), byte_of (0x80 + c mod 64)]
      else if is_surrogate c then Inl UnicodeEncodeError
      else if c < 0x10000 then
        Inr [byte_of (0xE0 + c div 4096), byte_of (0x80 + c div 64 mod 64), byte_of (0x80 + c mod 64)]
      else if c < 0x110000 then
        Inr [byte_of (0xF0 + c div 262144), byte_of (0x80 + c div 4096 mod 64),
             byte_of (0x80 + c div 64 mod 64), byte_of (0x80 + c mod 64)]
      else Inl UnicodeEncodeError)"

text \<open>\<^verbatim>\<open>s.encode("utf-8")\<close>\<close>

fun utf8_encode :: "pystr \<Rightarrow> bytes result" where
  "utf8_encode [] = Inr []"
| "utf8_encode (c # s) = rthen (utf8_char c) (\<lambda>b. rthen (utf8_encode s) (\<lambda>bs. Inr (b @ bs)))"

definition is_cont :: "byte \<Rightarrow> bool" where
  "is_cont b \<longleftrightarrow> 0x80 \<le> unat b \<and> unat b < 0xC0"

text \<open>
  \<^verbatim>\<open>bs.decode("utf-8")\<close>, one code point at a time: lead byte \<open>a\<close>, then the bytes after it.
  Overlong forms, surrogates and code points past 0x10FFFF are refused.
\<close>

definition utf8_next :: "byte \<Rightarrow> bytes \<Rightarrow> (nat \<times> bytes) result" where
  "utf8_next a bs =
     (if unat a < 0x80 then Inr (unat a, bs)
      else if unat a < 0xC2 then Inl UnicodeDecodeError
      else if unat a < 0xE0 then
        (case bs of
           b # bs' \<Rightarrow>
             (let p = (unat a - 0xC0) * 64 + (unat b - 0x80)
              in if is_cont b then Inr (p, bs') else Inl UnicodeDecodeError)
         | _ \<Rightarrow> Inl UnicodeDecodeError)
      else if unat a < 0xF0 then
        (case bs of
           b # c # bs' \<Rightarrow>
             (let p = (unat a - 0xE0) * 4096 + (unat b - 0x80) * 64 + (unat c - 0x80)
              in if is_cont b \<and> is_cont c \<and> 0x800 \<le> p \<and> \<not> is_surrogate p
                 then Inr (p, bs') else Inl UnicodeDecodeError)
         | _ \<Rightarrow> Inl UnicodeDecodeError)
      else if unat a < 0xF5 then
        (case bs of
           b # c # d # bs' \<Rightarrow>
             (let p = (unat a - 0xF0) * 262144 + (unat b - 0x80) * 4096
                        + (unat c - 0x80) * 64 + (unat d - 0x80)
              in if is_cont b \<and> is_cont c \<and> is_cont d \<and> 0x10000 \<le> p \<and> p < 0x110000
                 then Inr (p, bs') else Inl UnicodeDecodeError)
         | _ \<Rightarrow> Inl UnicodeDecodeError)
      else Inl UnicodeDecodeError)"

lemma utf8_next_shorter: "utf8_next a bs = Inr (c, bs') \<Longrightarrow> length bs' \<le> length bs"
  by (auto simp: utf8_next_def Let_def split: if_splits list.splits)

lemma utf8_next_error: "utf8_next a bs = Inl e \<Longrightarrow> e = UnicodeDecodeError"
  by (auto simp: utf8_next_def Let_def split: if_splits list.splits)

function utf8_decode :: "bytes \<Rightarrow> pystr result" where
  "utf8_decode [] = Inr []"
| "utf8_decode (a # bs) =
     rthen (utf8_next a bs) (\<lambda>p. rthen (utf8_decode (snd p)) (\<lambda>s. Inr (fst p # s)))"
  by pat_completeness auto
termination
  by (relation "measure length") (auto dest: utf8_next_shorter)

lemma digits64_3: "c div 4096 * 4096 + c div 64 mod 64 * 64 + c mod 64 = (c :: nat)"
proof -
  have "c div 4096 = c div 64 div 64" by (simp add: div_mult2_eq [symmetric])
  then show ?thesis using div_mult_mod_eq [of "c div 64" 64] div_mult_mod_eq [of c 64] by linarith
qed

lemma digits64_4:
  "c div 262144 * 262144 + c div 4096 mod 64 * 4096 + c div 64 mod 64 * 64 + c mod 64 = (c :: nat)"
proof -
  have "c div 262144 = c div 4096 div 64" by (simp add: div_mult2_eq [symmetric])
  then show ?thesis using div_mult_mod_eq [of "c div 4096" 64] digits64_3 [of c] by linarith
qed

lemma utf8_next_char:
  assumes "utf8_char c = Inr b"
  shows "\<exists>a t. b = a # t \<and> utf8_next a (t @ bs) = Inr (c, bs)"
proof -
  have lt: "c div 4096 mod 64 < 64" "c div 64 mod 64 < 64" "c mod 64 < 64" by simp_all
  consider (one) "c < 0x80" | (two) "0x80 \<le> c" "c < 0x800"
    | (three) "0x800 \<le> c" "\<not> is_surrogate c" "c < 0x10000"
    | (four) "0x10000 \<le> c" "c < 0x110000"
    using assms by (fastforce simp: utf8_char_def split: if_splits)
  then show ?thesis
  proof cases
    case one
    with assms have "b = [byte_of c]" by (simp add: utf8_char_def)
    with one show ?thesis by (simp add: utf8_next_def)
  next
    case two
    then have d: "c div 64 < 32" "2 \<le> c div 64" by auto
    from two have "b = [byte_of (0xC0 + c div 64), byte_of (0x80 + c mod 64)]"
      using assms by (simp add: utf8_char_def)
    with d lt show ?thesis by (simp add: is_cont_def utf8_next_def)
  next
    case three
    then have a: "c div 4096 < 16" by auto
    from three have "b = [byte_of (0xE0 + c div 4096), byte_of (0x80 + c div 64 mod 64), byte_of (0x80 + c mod 64)]"
      using assms by (simp add: utf8_char_def)
    with a three lt show ?thesis
      by (simp add: is_cont_def Let_def utf8_next_def digits64_3)
  next
    case four
    then have a: "c div 262144 < 5" by auto
    from four have "b = [byte_of (0xF0 + c div 262144), byte_of (0x80 + c div 4096 mod 64),
         byte_of (0x80 + c div 64 mod 64), byte_of (0x80 + c mod 64)]"
      using assms by (auto simp: utf8_char_def is_surrogate_def)
    with a four lt show ?thesis
      by (simp add: is_cont_def Let_def utf8_next_def digits64_4)
  qed
qed

lemma utf8_decode_char:
  assumes "utf8_char c = Inr b"
  shows "utf8_decode (b @ bs) = rthen (utf8_decode bs) (\<lambda>s. Inr (c # s))"
  using utf8_next_char [OF assms, of bs] by auto

lemma utf8_decode_encode: "utf8_encode s = Inr bs \<Longrightarrow> utf8_decode bs = Inr s"
  by (induction s arbitrary: bs) (auto simp: rthen_Inr_iff utf8_decode_char)

lemma is_contE:
  assumes "is_cont b"
  obtains y where "y < 64" "unat b = 128 + y"
proof -
  have "unat b - 128 < 64" "unat b = 128 + (unat b - 128)"
    using assms by (auto simp: is_cont_def)
  then show ?thesis by (rule that)
qed

lemma unat_offsetE:
  assumes "k \<le> unat a" "unat a < m"
  obtains x where "unat a = k + x" "k + x < m"
  using assms by (metis le_add_diff_inverse)

lemma digit64: "y < 64 \<Longrightarrow> (x * 64 + y) div 64 = x" "y < 64 \<Longrightarrow> (x * 64 + y) mod 64 = (y :: nat)"
  by simp_all

lemma div4096: "p div 4096 = p div 64 div (64 :: nat)"
  by (simp add: div_mult2_eq [symmetric])

lemma div262144: "p div 262144 = p div 4096 div (64 :: nat)"
  by (simp add: div_mult2_eq [symmetric])

lemma utf8_two:
  assumes "194 \<le> unat a" "unat a < 224" "is_cont b"
  shows "utf8_char ((unat a - 0xC0) * 64 + (unat b - 0x80)) = Inr [a, b]"
proof -
  obtain x where x: "unat a = 194 + x" "194 + x < 224" using assms by (rule_tac unat_offsetE)
  obtain y where y: "y < 64" "unat b = 128 + y" using assms(3) by (rule is_contE)
  let ?p = "(x + 2) * 64 + y"
  have d: "?p div 64 = x + 2" "?p mod 64 = y" using y(1) by (rule digit64)+
  have "0x80 \<le> ?p" "?p < 0x800" using x y by auto
  then have "utf8_char ?p = Inr [byte_of (0xC0 + ?p div 64), byte_of (0x80 + ?p mod 64)]"
    unfolding utf8_char_def by simp
  also have "\<dots> = Inr [byte_of (unat a), byte_of (unat b)]"
    unfolding d x y by (simp add: add.commute)
  finally have "utf8_char ?p = Inr [a, b]" by (simp only: byte_of_unat)
  moreover have "(unat a - 0xC0) * 64 + (unat b - 0x80) = ?p" by (simp add: x y)
  ultimately show ?thesis by (simp only:)
qed

lemma utf8_three:
  assumes "224 \<le> unat a" "unat a < 240" "is_cont b" "is_cont c"
    and p: "p = (unat a - 0xE0) * 4096 + (unat b - 0x80) * 64 + (unat c - 0x80)"
    and "0x800 \<le> p" "\<not> is_surrogate p"
  shows "utf8_char p = Inr [a, b, c]"
proof -
  obtain x where x: "unat a = 224 + x" "224 + x < 240" using assms by (rule_tac unat_offsetE)
  obtain y where y: "y < 64" "unat b = 128 + y" using assms(3) by (rule is_contE)
  obtain z where z: "z < 64" "unat c = 128 + z" using assms(4) by (rule is_contE)
  have q: "p = (x * 64 + y) * 64 + z" unfolding p x y z by (simp add: algebra_simps)
  have d: "p div 64 = x * 64 + y" "p mod 64 = z" unfolding q using z(1) by (rule digit64)+
  have e: "p div 4096 = x" "p div 64 mod 64 = y"
    unfolding div4096 d using y(1) by (rule digit64)+
  have "x < 16" using x(2) by simp
  then have "x * 64 + y < 1024" using y(1) by simp
  then have "p < 0x10000" using z(1) unfolding q by simp
  with assms have "utf8_char p = Inr [byte_of (0xE0 + p div 4096), byte_of (0x80 + p div 64 mod 64), byte_of (0x80 + p mod 64)]"
    unfolding utf8_char_def by simp
  also have "\<dots> = Inr [byte_of (unat a), byte_of (unat b), byte_of (unat c)]"
    unfolding d(2) e x y z ..
  finally show ?thesis by simp
qed

lemma utf8_four:
  assumes "240 \<le> unat a" "unat a < 245" "is_cont b" "is_cont c" "is_cont d"
    and p: "p = (unat a - 0xF0) * 262144 + (unat b - 0x80) * 4096 + (unat c - 0x80) * 64 + (unat d - 0x80)"
    and "0x10000 \<le> p" "p < 0x110000"
  shows "utf8_char p = Inr [a, b, c, d]"
proof -
  obtain x where x: "unat a = 240 + x" "240 + x < 245" using assms by (rule_tac unat_offsetE)
  obtain y where y: "y < 64" "unat b = 128 + y" using assms(3) by (rule is_contE)
  obtain z where z: "z < 64" "unat c = 128 + z" using assms(4) by (rule is_contE)
  obtain w where w: "w < 64" "unat d = 128 + w" using assms(5) by (rule is_contE)
  have q: "p = ((x * 64 + y) * 64 + z) * 64 + w"
    unfolding p x y z w by (simp add: algebra_simps)
  have e1: "p div 64 = (x * 64 + y) * 64 + z" "p mod 64 = w" unfolding q using w(1) by (rule digit64)+
  have e2: "p div 4096 = x * 64 + y" "p div 64 mod 64 = z"
    unfolding div4096 e1 using z(1) by (rule digit64)+
  have e3: "p div 262144 = x" "p div 4096 mod 64 = y"
    unfolding div262144 e2 using y(1) by (rule digit64)+
  have "utf8_char p = Inr [byte_of (0xF0 + p div 262144), byte_of (0x80 + p div 4096 mod 64),
      byte_of (0x80 + p div 64 mod 64), byte_of (0x80 + p mod 64)]"
    using assms(7,8) unfolding utf8_char_def is_surrogate_def by simp
  also have "\<dots> = Inr [byte_of (unat a), byte_of (unat b), byte_of (unat c), byte_of (unat d)]"
    unfolding e1(2) e2(2) e3 x y z w ..
  finally show ?thesis by simp
qed

lemma utf8_one: "unat a < 0x80 \<Longrightarrow> utf8_char (unat a) = Inr [a]"
  by (simp add: utf8_char_def)

lemma utf8_next_Inr:
  assumes "utf8_next a bs = Inr (p, bs')"
  shows "\<exists>t. bs = t @ bs' \<and> utf8_char p = Inr (a # t)"
proof -
  consider (one) "unat a < 0x80" | (two) "0xC2 \<le> unat a" "unat a < 0xE0"
    | (three) "0xE0 \<le> unat a" "unat a < 0xF0" | (four) "0xF0 \<le> unat a" "unat a < 0xF5"
    using assms by (fastforce simp: utf8_next_def split: if_splits)
  then show ?thesis
  proof cases
    case one
    with assms show ?thesis by (auto simp: utf8_next_def utf8_one)
  next
    case two
    with assms obtain b where "bs = b # bs'" "is_cont b" "p = (unat a - 0xC0) * 64 + (unat b - 0x80)"
      by (auto simp: utf8_next_def Let_def split: if_splits list.splits)
    with two utf8_two [of a b] show ?thesis by (intro exI [of _ "[b]"]) simp
  next
    case three
    with assms obtain b c where *: "bs = b # c # bs'" "is_cont b" "is_cont c" "0x800 \<le> p" "\<not> is_surrogate p"
      "p = (unat a - 0xE0) * 4096 + (unat b - 0x80) * 64 + (unat c - 0x80)"
      by (auto simp: utf8_next_def Let_def split: if_splits list.splits)
    have "utf8_char p = Inr [a, b, c]" by (rule utf8_three [OF three *(2,3,6,4,5)])
    with *(1) show ?thesis by (intro exI [of _ "[b, c]"]) simp
  next
    case four
    with assms obtain b c d where *: "bs = b # c # d # bs'" "is_cont b" "is_cont c" "is_cont d"
      "0x10000 \<le> p" "p < 0x110000"
      "p = (unat a - 0xF0) * 262144 + (unat b - 0x80) * 4096 + (unat c - 0x80) * 64 + (unat d - 0x80)"
      by (auto simp: utf8_next_def Let_def split: if_splits list.splits)
    have "utf8_char p = Inr [a, b, c, d]" by (rule utf8_four [OF four *(2,3,4,7,5,6)])
    with *(1) show ?thesis by (intro exI [of _ "[b, c, d]"]) simp
  qed
qed

lemma utf8_encode_decode: "utf8_decode bs = Inr s \<Longrightarrow> utf8_encode s = Inr bs"
proof (induction bs arbitrary: s rule: utf8_decode.induct)
  case 1
  then show ?case by simp
next
  case (2 a bs)
  then obtain p bs' s' where *: "utf8_next a bs = Inr (p, bs')" "utf8_decode bs' = Inr s'" "s = p # s'"
    by (auto simp: rthen_Inr_iff)
  have "utf8_encode s' = Inr bs'" using "2.IH" [OF *(1)] *(2) by simp
  with * utf8_next_Inr [OF *(1)] show ?case by auto
qed

lemma utf8_encode_error: "utf8_encode s = Inl e \<Longrightarrow> e = UnicodeEncodeError"
  by (induction s) (auto simp: rthen_Inl_iff utf8_char_def split: if_splits)

lemma utf8_decode_error: "utf8_decode bs = Inl e \<Longrightarrow> e = UnicodeDecodeError"
  by (induction bs rule: utf8_decode.induct) (auto simp: rthen_Inl_iff dest: utf8_next_error)

lemma utf8_encode_append:
  "utf8_encode (s @ t) = rthen (utf8_encode s) (\<lambda>a. rthen (utf8_encode t) (\<lambda>b. Inr (a @ b)))"
  by (induction s) (auto simp: rthen_def split: sum.splits)

definition is_ascii :: "pystr \<Rightarrow> bool" where
  "is_ascii s \<longleftrightarrow> (\<forall>c\<in>set s. c < 0x80)"

lemma is_ascii_simps [simp]:
  "is_ascii []"
  "is_ascii (c # s) \<longleftrightarrow> c < 0x80 \<and> is_ascii s"
  "is_ascii (s @ t) \<longleftrightarrow> is_ascii s \<and> is_ascii t"
  by (auto simp: is_ascii_def)

lemma utf8_encode_ascii: "is_ascii s \<Longrightarrow> utf8_encode s = Inr (map byte_of s)"
  by (induction s) (auto simp: utf8_char_def)

lemma byte_of_eq_0: "n < 256 \<Longrightarrow> byte_of n = 0 \<longleftrightarrow> n = 0"
  by (metis unat_byte_of unat_0 byte_of_unat)

lemma utf8_char_zero:
  assumes "utf8_char c = Inr b"
  shows "0 \<in> set b \<longleftrightarrow> c = 0"
proof -
  have nz: "0 < n \<Longrightarrow> n < 256 \<Longrightarrow> 0 \<noteq> byte_of n" for n
    using byte_of_eq_0 [of n] by auto
  have cont: "0 \<noteq> byte_of (128 + n mod 64)" for n by (rule nz) auto
  show ?thesis
  proof (cases "c < 0x80")
    case True
    with assms byte_of_eq_0 [of c] show ?thesis by (auto simp: utf8_char_def)
  next
    case False
    have "0 \<noteq> byte_of (192 + c div 64)" if "c < 0x800" by (rule nz) (use that in auto)
    moreover have "0 \<noteq> byte_of (224 + c div 4096)" if "c < 0x10000" by (rule nz) (use that in auto)
    moreover have "0 \<noteq> byte_of (240 + c div 262144)" if "c < 0x110000" by (rule nz) (use that in auto)
    ultimately show ?thesis
      using assms False cont unfolding utf8_char_def by (auto split: if_splits)
  qed
qed

lemma utf8_encode_zero: "utf8_encode s = Inr bs \<Longrightarrow> 0 \<in> set bs \<longleftrightarrow> 0 \<in> set s"
  by (induction s arbitrary: bs) (auto simp: rthen_Inr_iff utf8_char_zero)

section \<open>White space and case\<close>

text \<open>\<^verbatim>\<open>str.isspace\<close> on one code point, the set \<^verbatim>\<open>str.strip()\<close> removes.\<close>

definition is_py_space :: "nat \<Rightarrow> bool" where
  "is_py_space c \<longleftrightarrow>
     (9 \<le> c \<and> c \<le> 13) \<or> (28 \<le> c \<and> c \<le> 32) \<or> c = 0x85 \<or> c = 0xA0 \<or> c = 0x1680 \<or>
     (0x2000 \<le> c \<and> c \<le> 0x200A) \<or> c = 0x2028 \<or> c = 0x2029 \<or> c = 0x202F \<or>
     c = 0x205F \<or> c = 0x3000"

definition py_lstrip :: "pystr \<Rightarrow> pystr" where
  "py_lstrip s = dropWhile is_py_space s"

definition py_strip :: "pystr \<Rightarrow> pystr" where
  "py_strip s = rev (dropWhile is_py_space (rev (dropWhile is_py_space s)))"

text \<open>
  Upper case of the ASCII letters. Comparing it with an ASCII word of the letters the code
  compares with (\<open>NULL\<close>, \<open>HALT\<close>, \<open>FAULT\<close>, \<open>BREAK\<close>) agrees with Python's full
  \<^verbatim>\<open>str.upper\<close>: no other code point maps to one of those letters or to a run of them.
\<close>

definition ascii_upper :: "pystr \<Rightarrow> pystr" where
  "ascii_upper s = map (\<lambda>c. if 97 \<le> c \<and> c \<le> 122 then c - 32 else c) s"

definition ascii_lower :: "pystr \<Rightarrow> pystr" where
  "ascii_lower s = map (\<lambda>c. if 65 \<le> c \<and> c \<le> 90 then c + 32 else c) s"

section \<open>Hexadecimal text\<close>

definition hex_digit :: "nat \<Rightarrow> nat" where
  "hex_digit d = (if d < 10 then 48 + d else 87 + d)"

text \<open>\<^verbatim>\<open>bs.hex()\<close>\<close>

fun bytes_hex :: "bytes \<Rightarrow> pystr" where
  "bytes_hex [] = []"
| "bytes_hex (b # bs) = hex_digit (unat b div 16) # hex_digit (unat b mod 16) # bytes_hex bs"

definition hex_value :: "nat \<Rightarrow> nat option" where
  "hex_value c =
     (if 48 \<le> c \<and> c \<le> 57 then Some (c - 48)
      else if 97 \<le> c \<and> c \<le> 102 then Some (c - 87)
      else if 65 \<le> c \<and> c \<le> 70 then Some (c - 55)
      else None)"

definition is_ascii_space :: "nat \<Rightarrow> bool" where
  "is_ascii_space c \<longleftrightarrow> (9 \<le> c \<and> c \<le> 13) \<or> c = 32"

text \<open>\<^verbatim>\<open>bytes.fromhex(s)\<close>: pairs of digits, ASCII white space allowed between the pairs.\<close>

fun fromhex :: "pystr \<Rightarrow> bytes result" where
  "fromhex [] = Inr []"
| "fromhex [c] = (if is_ascii_space c then Inr [] else Inl ValueError)"
| "fromhex (c # d # s) =
     (if is_ascii_space c then fromhex (d # s)
      else case (hex_value c, hex_value d) of
        (Some h, Some l) \<Rightarrow> rthen (fromhex s) (\<lambda>bs. Inr (byte_of (16 * h + l) # bs))
      | _ \<Rightarrow> Inl ValueError)"

lemma hex_value_digit [simp]: "d < 16 \<Longrightarrow> hex_value (hex_digit d) = Some d"
  by (auto simp: hex_value_def hex_digit_def)

lemma hex_digit_no_space [simp]: "d < 16 \<Longrightarrow> \<not> is_ascii_space (hex_digit d)"
  by (auto simp: is_ascii_space_def hex_digit_def)

lemma hex_digit_no_py_space [simp]: "d < 16 \<Longrightarrow> \<not> is_py_space (hex_digit d)"
  by (auto simp: is_py_space_def hex_digit_def)

lemma fromhex_bytes_hex [simp]: "fromhex (bytes_hex bs) = Inr bs"
proof (induction bs)
  case Nil
  then show ?case by simp
next
  case (Cons b bs)
  have "unat b div 16 < 16" using unat_byte_less [of b] by auto
  with Cons show ?case by simp
qed

lemma length_bytes_hex [simp]: "length (bytes_hex bs) = 2 * length bs"
  by (induction bs) auto

lemma bytes_hex_no_space: "c \<in> set (bytes_hex bs) \<Longrightarrow> \<not> is_py_space c"
proof (induction bs)
  case Nil
  then show ?case by simp
next
  case (Cons b bs)
  have "unat b div 16 < 16" using unat_byte_less [of b] by auto
  with Cons show ?case by auto
qed

lemma dropWhile_none: "(\<And>c. c \<in> set s \<Longrightarrow> \<not> P c) \<Longrightarrow> dropWhile P s = s"
  by (cases s) auto

lemma py_strip_bytes_hex [simp]: "py_strip (bytes_hex bs) = bytes_hex bs"
proof -
  have "dropWhile is_py_space (rev (bytes_hex bs)) = rev (bytes_hex bs)"
    by (rule dropWhile_none) (simp add: bytes_hex_no_space)
  moreover have "dropWhile is_py_space (bytes_hex bs) = bytes_hex bs"
    by (rule dropWhile_none) (simp add: bytes_hex_no_space)
  ultimately show ?thesis by (simp add: py_strip_def)
qed

lemma fromhex_error: "fromhex s = Inl e \<Longrightarrow> e = ValueError"
  by (induction s rule: fromhex.induct)
    (auto simp: rthen_Inl_iff split: if_splits option.splits)

section \<open>Decimal text\<close>

text \<open>\<^verbatim>\<open>str(v)\<close> of an integer.\<close>

fun decimal :: "nat \<Rightarrow> pystr" where
  "decimal n = (if n < 10 then [48 + n] else decimal (n div 10) @ [48 + n mod 10])"

declare decimal.simps [simp del]

definition py_str_int :: "int \<Rightarrow> pystr" where
  "py_str_int v = (if v < 0 then 45 # decimal (nat (- v)) else decimal (nat v))"

text \<open>The interpreter refuses to convert integers of more than 4300 digits.\<close>

definition py_str :: "int \<Rightarrow> pystr result" where
  "py_str v = (if \<bar>v\<bar> \<ge> 10 ^ 4300 then Inl ValueError else Inr (py_str_int v))"

lemma decimal_digits: "c \<in> set (decimal n) \<Longrightarrow> 48 \<le> c \<and> c \<le> 57"
  by (induction n rule: decimal.induct) (subst (asm) (2) decimal.simps, auto split: if_splits)

end
