(* ===== verification/ByteIO.thy ===== *)
theory ByteIO
  imports PyInt PyStr
begin

text \<open>
  Byte writers and readers. \<^verbatim>\<open>BinaryWriter\<close> and \<^verbatim>\<open>CarbonWriter\<close> are append-only buffers,
  \<^verbatim>\<open>BinaryReader\<close> and \<^verbatim>\<open>CarbonReader\<close> are a byte string with an offset; their
  \<^verbatim>\<open>write\<close>, \<^verbatim>\<open>read\<close>, \<^verbatim>\<open>remaining\<close> and \<^verbatim>\<open>assert_eof\<close> are the same code. A write
  call is a function on the writer that may raise; a read call returns a value and the moved
  reader, or raises.

  The predicates \<open>rt\<close> (what a writer appends, the reader reads back) and \<open>safe\<close> (a reader stays
  inside its data, and more data after it changes nothing) are closed under sequencing, so the
  codecs of the components follow from their fields. The locale \<open>codec\<close> states the contract
  \<^verbatim>\<open>serialize\<close>/\<^verbatim>\<open>deserialize\<close> rely on and proves its consequences once.
\<close>

named_theorems wire_rt \<open>a reader reads back what a writer appends\<close>
named_theorems wire_safe \<open>a reader stays inside its data\<close>
named_theorems wire_appends \<open>a write call only appends\<close>
named_theorems wire_raises \<open>the exceptions a reader raises\<close>

section \<open>Writers\<close>

record writer =
  buffer :: bytes

type_synonym wop = "writer \<Rightarrow> writer result"

definition w_write :: "bytes \<Rightarrow> wop" where
  "w_write bs w = Inr (w\<lparr>buffer := buffer w @ bs\<rparr>)"

definition w_fail :: "py_error \<Rightarrow> wop" where
  "w_fail e w = Inl e"

definition w_result :: "bytes result \<Rightarrow> wop" where
  "w_result m w = rthen m (\<lambda>bs. w_write bs w)"

text \<open>A value computed before the write, which may raise.\<close>

definition w_bind :: "'a result \<Rightarrow> ('a \<Rightarrow> wop) \<Rightarrow> wop" where
  "w_bind m f w = rthen m (\<lambda>x. f x w)"

text \<open>Statements run one after the other.\<close>

fun wseq :: "wop list \<Rightarrow> wop" where
  "wseq [] w = Inr w"
| "wseq (f # fs) w = rthen (f w) (wseq fs)"

declare wseq.simps [simp del]

definition new_writer :: writer where
  "new_writer = \<lparr>buffer = []\<rparr>"

text \<open>\<^verbatim>\<open>carbon.serialize\<close>: a fresh writer, the write call, the bytes.\<close>

definition serialize :: "wop \<Rightarrow> bytes result" where
  "serialize f = rthen (f new_writer) (\<lambda>w. Inr (buffer w))"

definition emits :: "wop \<Rightarrow> bytes result \<Rightarrow> bool" where
  "emits f res \<longleftrightarrow> (\<forall>w. f w = rthen res (\<lambda>bs. w_write bs w))"

definition appends :: "wop \<Rightarrow> bool" where
  "appends f \<longleftrightarrow> emits f (serialize f)"

lemma serialize_emits: "emits f res \<Longrightarrow> serialize f = res"
  by (cases res) (auto simp: emits_def serialize_def w_write_def new_writer_def)

lemma appendsI: "emits f res \<Longrightarrow> appends f"
  by (simp add: appends_def serialize_emits)

lemma emits_w_result: "emits (w_result m) m"
  by (simp add: emits_def w_result_def)

lemma w_result_Inr: "w_result (Inr bs) = w_write bs"
  by (simp add: fun_eq_iff w_result_def)

lemma w_result_Inl: "w_result (Inl e) = w_fail e"
  by (simp add: fun_eq_iff w_result_def w_fail_def)

lemma emits_write: "emits (w_write bs) (Inr bs)"
  by (simp add: emits_def)

lemma emits_fail: "emits (w_fail e) (Inl e)"
  by (simp add: emits_def w_fail_def)

lemma emits_Nil: "emits (wseq []) (Inr [])"
  by (simp add: emits_def w_write_def wseq.simps)

lemma emits_Cons:
  "emits f r \<Longrightarrow> emits (wseq fs) s \<Longrightarrow>
   emits (wseq (f # fs)) (rthen r (\<lambda>a. rthen s (\<lambda>b. Inr (a @ b))))"
  by (cases r; cases s) (auto simp: emits_def w_write_def wseq.simps)

lemma appends_write [wire_appends]: "appends (w_write bs)"
  by (rule appendsI [OF emits_write])

lemma appends_w_result [wire_appends]: "appends (w_result m)"
  by (rule appendsI [OF emits_w_result])

lemma appends_fail [wire_appends]: "appends (w_fail e)"
  by (rule appendsI [OF emits_fail])

lemma appends_wseq_set: "(\<And>f. f \<in> set fs \<Longrightarrow> appends f) \<Longrightarrow> appends (wseq fs)"
proof (induction fs)
  case Nil
  show ?case by (rule appendsI [OF emits_Nil])
next
  case (Cons f fs)
  then have "emits f (serialize f)" "emits (wseq fs) (serialize (wseq fs))"
    by (auto simp: appends_def)
  then show ?case by (rule appendsI [OF emits_Cons])
qed

lemma appends_wseq [wire_appends]: "list_all appends fs \<Longrightarrow> appends (wseq fs)"
  by (rule appends_wseq_set) (simp add: list_all_iff)

lemma w_bind_simps [simp]: "w_bind (Inl e) f = w_fail e" "w_bind (Inr x) f = f x"
  by (simp_all add: fun_eq_iff w_bind_def w_fail_def)

lemma appends_w_bind [wire_appends]: "(\<And>x. m = Inr x \<Longrightarrow> appends (f x)) \<Longrightarrow> appends (w_bind m f)"
  by (cases m) (auto intro: wire_appends)

lemma appends_if [wire_appends]: "appends f \<Longrightarrow> appends g \<Longrightarrow> appends (if c then f else g)"
  by simp

lemma serialize_write [simp]: "serialize (w_write bs) = Inr bs"
  by (rule serialize_emits [OF emits_write])

lemma serialize_w_result [simp]: "serialize (w_result m) = m"
  by (rule serialize_emits [OF emits_w_result])

lemma serialize_fail [simp]: "serialize (w_fail e) = Inl e"
  by (rule serialize_emits [OF emits_fail])

lemma serialize_w_bind: "serialize (w_bind m f) = rthen m (\<lambda>x. serialize (f x))"
  by (cases m) simp_all

lemma serialize_Nil [simp]: "serialize (wseq []) = Inr []"
  by (rule serialize_emits [OF emits_Nil])

lemma serialize_Cons:
  assumes "appends f" "\<And>g. g \<in> set fs \<Longrightarrow> appends g"
  shows "serialize (wseq (f # fs)) =
    rthen (serialize f) (\<lambda>a. rthen (serialize (wseq fs)) (\<lambda>b. Inr (a @ b)))"
proof (rule serialize_emits [OF emits_Cons])
  show "emits f (serialize f)" using assms(1) by (simp add: appends_def)
  show "emits (wseq fs) (serialize (wseq fs))"
    using appends_wseq_set [of fs] assms(2) by (simp add: appends_def)
qed

lemma serialize_wseq:
  "appends f \<Longrightarrow> list_all appends fs \<Longrightarrow> serialize (wseq (f # fs)) =
    rthen (serialize f) (\<lambda>a. rthen (serialize (wseq fs)) (\<lambda>b. Inr (a @ b)))"
  by (rule serialize_Cons) (auto simp: list_all_iff)

lemma wseq_nonempty [simp]:
  "appends f \<Longrightarrow> list_all appends fs \<Longrightarrow> serialize f \<noteq> Inr [] \<Longrightarrow> serialize (wseq (f # fs)) \<noteq> Inr []"
  by (simp add: serialize_wseq rthen_def split: sum.splits)

lemma serialize_wseq_Inl:
  "list_all appends fs \<Longrightarrow> serialize (wseq fs) = Inl e \<Longrightarrow> \<exists>f \<in> set fs. serialize f = Inl e"
proof (induction fs)
  case (Cons f fs)
  then show ?case by (auto simp: serialize_wseq rthen_Inl_iff)
qed simp

lemma serialize_wseq_Inr:
  "list_all appends fs \<Longrightarrow>
   (\<exists>bs. serialize (wseq fs) = Inr bs) \<longleftrightarrow> (\<forall>f \<in> set fs. \<exists>bs. serialize f = Inr bs)"
proof (induction fs)
  case (Cons f fs)
  then show ?case by (cases "serialize f"; cases "serialize (wseq fs)") (auto simp: serialize_wseq)
qed simp

declare wire_appends [simp]

section \<open>Range checks\<close>

text \<open>\<^verbatim>\<open>_check_unsigned\<close> and \<^verbatim>\<open>_check_signed\<close>, the same in \<^verbatim>\<open>binary.py\<close> and \<^verbatim>\<open>carbon.py\<close>.\<close>

definition check_unsigned :: "int \<Rightarrow> nat \<Rightarrow> int result" where
  "check_unsigned v bits = (if v < 0 \<or> v \<ge> 2 ^ bits then Inl SerializationError else Inr v)"

definition check_signed :: "int \<Rightarrow> nat \<Rightarrow> int result" where
  "check_signed v bits =
     (if v < - (2 ^ (bits - 1)) \<or> v > 2 ^ (bits - 1) - 1 then Inl SerializationError else Inr v)"

text \<open>\<^verbatim>\<open>struct.pack\<close> of an unsigned and of a signed little-endian integer of \<open>k\<close> bytes.\<close>

definition pack_unsigned :: "nat \<Rightarrow> int \<Rightarrow> bytes result" where
  "pack_unsigned k v = rthen (check_unsigned v (8 * k)) (\<lambda>v. Inr (le_bytes k v))"

definition pack_signed :: "nat \<Rightarrow> int \<Rightarrow> bytes result" where
  "pack_signed k v = rthen (check_signed v (8 * k)) (\<lambda>v. Inr (le_bytes k v))"

lemma pack_unsigned_if:
  "pack_unsigned k v = (if 0 \<le> v \<and> v < 2 ^ (8 * k) then Inr (le_bytes k v) else Inl SerializationError)"
  by (simp add: pack_unsigned_def check_unsigned_def)

lemma pack_signed_if:
  "pack_signed k v =
     (if - (2 ^ (8 * k - 1)) \<le> v \<and> v < 2 ^ (8 * k - 1) then Inr (le_bytes k v)
      else Inl SerializationError)"
  by (simp add: pack_signed_def check_signed_def)

section \<open>Readers\<close>

record reader =
  rdata :: bytes
  roffset :: nat

type_synonym 'a rop = "reader \<Rightarrow> ('a \<times> reader) result"

definition rret :: "'a \<Rightarrow> 'a rop" where
  "rret x r = Inr (x, r)"

definition rfail :: "py_error \<Rightarrow> 'a rop" where
  "rfail e r = Inl e"

definition rbind :: "'a rop \<Rightarrow> ('a \<Rightarrow> 'b rop) \<Rightarrow> 'b rop" where
  "rbind p f r = rthen (p r) (\<lambda>(x, r'). f x r')"

definition rlift :: "'a result \<Rightarrow> 'a rop" where
  "rlift m r = rthen m (\<lambda>x. Inr (x, r))"

text \<open>\<^verbatim>\<open>remaining\<close>, \<^verbatim>\<open>assert_eof\<close> and \<^verbatim>\<open>read\<close>, the same in both readers.\<close>

definition remaining :: "reader \<Rightarrow> int" where
  "remaining r = int (length (rdata r)) - int (roffset r)"

definition assert_eof :: "unit rop" where
  "assert_eof r = (if remaining r \<noteq> 0 then Inl SerializationError else Inr ((), r))"

definition read :: "int \<Rightarrow> bytes rop" where
  "read count r =
     (if count < 0 \<or> count > remaining r then Inl SerializationError
      else Inr (take (nat count) (drop (roffset r) (rdata r)),
                r\<lparr>roffset := roffset r + nat count\<rparr>))"

definition new_reader :: "bytes \<Rightarrow> reader" where
  "new_reader bs = \<lparr>rdata = bs, roffset = 0\<rparr>"

text \<open>\<^verbatim>\<open>carbon.deserialize\<close>: read one value from a fresh reader and require the end of the data.\<close>

definition deserialize :: "'a rop \<Rightarrow> bytes \<Rightarrow> 'a result" where
  "deserialize p bs =
     rthen (p (new_reader bs)) (\<lambda>(x, r). rthen (assert_eof r) (\<lambda>_. Inr x))"

text \<open>\<^verbatim>\<open>[p() for _ in range(n)]\<close>\<close>

fun read_n :: "nat \<Rightarrow> 'a rop \<Rightarrow> 'a list rop" where
  "read_n 0 p = rret []"
| "read_n (Suc n) p = rbind p (\<lambda>x. rbind (read_n n p) (\<lambda>xs. rret (x # xs)))"

lemma rbind_rret [simp]: "rbind (rret x) f = f x"
  by (simp add: fun_eq_iff rbind_def rret_def)

lemma rbind_rfail [simp]: "rbind (rfail e) f = rfail e"
  by (simp add: fun_eq_iff rbind_def rfail_def)

lemma rbind_assoc: "rbind (rbind p f) g = rbind p (\<lambda>x. rbind (f x) g)"
  by (simp add: fun_eq_iff rbind_def rthen_def split: sum.splits)

lemma rbind_cong [fundef_cong]:
  "p r = p' r' \<Longrightarrow> (\<And>x s. p' r' = Inr (x, s) \<Longrightarrow> f x s = f' x s) \<Longrightarrow> rbind p f r = rbind p' f' r'"
  by (auto simp: rbind_def rthen_def split: sum.splits)

subsection \<open>Reading a prefix\<close>

definition adv :: "nat \<Rightarrow> reader \<Rightarrow> reader" where
  "adv n r = r\<lparr>roffset := roffset r + n\<rparr>"

definition starts :: "reader \<Rightarrow> bytes \<Rightarrow> bool" where
  "starts r bs \<longleftrightarrow> take (length bs) (drop (roffset r) (rdata r)) = bs \<and> roffset r \<le> length (rdata r)"

definition parses :: "'a rop \<Rightarrow> bytes \<Rightarrow> 'a \<Rightarrow> bool" where
  "parses p bs x \<longleftrightarrow> (\<forall>r. starts r bs \<longrightarrow> p r = Inr (x, adv (length bs) r))"

lemma adv_0 [simp]: "adv 0 r = r"
  by (simp add: adv_def)

lemma adv_adv [simp]: "adv m (adv n r) = adv (n + m) r"
  by (simp add: adv_def add.assoc)

lemma adv_sel [simp]: "rdata (adv n r) = rdata r" "roffset (adv n r) = roffset r + n"
  by (simp_all add: adv_def)

lemma starts_append:
  "starts r (a @ b) \<longleftrightarrow> starts r a \<and> starts (adv (length a) r) b"
proof
  assume h: "starts r (a @ b)"
  then have t: "take (length (a @ b)) (drop (roffset r) (rdata r)) = a @ b"
    and o: "roffset r \<le> length (rdata r)" by (simp_all add: starts_def)
  have ab: "take (length a) (drop (roffset r) (rdata r)) = a"
    "take (length b) (drop (length a) (drop (roffset r) (rdata r))) = b"
    using t append_take_eq by blast+
  have "length a \<le> length (drop (roffset r) (rdata r))"
    using ab(1) by (metis length_take min.cobounded1)
  then have "roffset r + length a \<le> length (rdata r)" using o by simp
  with ab o show "starts r a \<and> starts (adv (length a) r) b"
    by (simp add: starts_def add.commute)
next
  assume "starts r a \<and> starts (adv (length a) r) b"
  then show "starts r (a @ b)"
    using append_take_eq [of a b "drop (roffset r) (rdata r)"]
    by (simp add: starts_def add.commute)
qed

lemma starts_remaining: "starts r bs \<Longrightarrow> int (length bs) \<le> remaining r"
proof -
  assume "starts r bs"
  then have "length (take (length bs) (drop (roffset r) (rdata r))) = length bs"
    "roffset r \<le> length (rdata r)" by (simp_all add: starts_def)
  then show ?thesis by (auto simp: remaining_def)
qed

lemma starts_new [simp]: "starts (new_reader (bs @ cs)) bs"
  by (simp add: starts_def new_reader_def)

lemma starts_new_self [simp]: "starts (new_reader bs) bs"
  by (simp add: starts_def new_reader_def)

lemma parses_ret: "parses (rret x) [] x"
  by (simp add: parses_def rret_def)

lemma parses_bind: "parses p a y \<Longrightarrow> parses (f y) b x \<Longrightarrow> parses (rbind p f) (a @ b) x"
  by (simp add: parses_def rbind_def starts_append)

lemma parses_read: "n = int (length bs) \<Longrightarrow> parses (read n) bs bs"
proof -
  assume n: "n = int (length bs)"
  have "read n r = Inr (bs, adv (length bs) r)" if "starts r bs" for r
    using starts_remaining [OF that] that n
    by (simp add: read_def starts_def adv_def)
  then show ?thesis by (simp add: parses_def)
qed

lemma parses_map: "parses p bs y \<Longrightarrow> x = f y \<Longrightarrow> parses (rbind p (\<lambda>y. rret (f y))) bs x"
  using parses_bind [of p bs y "\<lambda>y. rret (f y)" "[]" x] by (simp add: parses_ret)

lemma parses_lift: "parses p bs y \<Longrightarrow> m y = Inr x \<Longrightarrow> parses (rbind p (\<lambda>y. rlift (m y))) bs x"
  by (simp add: parses_def rbind_def rlift_def)

lemma parses_unique: "parses p bs x \<Longrightarrow> parses p bs y \<Longrightarrow> x = y"
  using starts_new_self [of bs] unfolding parses_def by fastforce

subsection \<open>Round trips\<close>

definition rt :: "wop \<Rightarrow> 'a rop \<Rightarrow> 'a \<Rightarrow> bool" where
  "rt f p x \<longleftrightarrow> appends f \<and> (\<forall>bs. serialize f = Inr bs \<longrightarrow> parses p bs x)"

lemma rtI: "emits f res \<Longrightarrow> (\<And>bs. res = Inr bs \<Longrightarrow> parses p bs x) \<Longrightarrow> rt f p x"
  by (simp add: rt_def appendsI serialize_emits)

lemma rt_appends: "rt f p x \<Longrightarrow> appends f"
  by (simp add: rt_def)

lemma rt_parses: "rt f p x \<Longrightarrow> serialize f = Inr bs \<Longrightarrow> parses p bs x"
  by (simp add: rt_def)

lemma rt_nil [wire_rt]: "x = y \<Longrightarrow> rt (wseq []) (rret y) x"
  by (rule rtI [OF emits_Nil]) (simp add: parses_ret)

lemma rt_cons [wire_rt]:
  assumes "rt f p y" "rt (wseq fs) (q y) x"
  shows "rt (wseq (f # fs)) (rbind p q) x"
proof (rule rtI [OF emits_Cons])
  show "emits f (serialize f)" "emits (wseq fs) (serialize (wseq fs))"
    using assms by (simp_all add: rt_def appends_def)
  fix bs
  assume "rthen (serialize f) (\<lambda>a. rthen (serialize (wseq fs)) (\<lambda>b. Inr (a @ b))) = Inr bs"
  then obtain a b where "serialize f = Inr a" "serialize (wseq fs) = Inr b" "bs = a @ b"
    by (auto simp: rthen_Inr_iff)
  with assms show "parses (rbind p q) bs x"
    by (auto simp: rt_def intro: parses_bind)
qed

lemma rt_last: "rt f p x \<Longrightarrow> rt (wseq [f]) p x"
proof -
  assume h: "rt f p x"
  have "rbind p rret = p"
    by (auto simp: fun_eq_iff rbind_def rret_def rthen_def split: sum.splits)
  moreover have "rt (wseq [f]) (rbind p rret) x"
    by (rule rt_cons [OF h]) (rule rt_nil [OF refl])
  ultimately show ?thesis by simp
qed

lemma rt_w_result:
  "(\<And>bs. m = Inr bs \<Longrightarrow> parses p bs x) \<Longrightarrow> rt (w_result m) p x"
  by (rule rtI [OF emits_w_result])

lemma rt_fail: "rt (w_fail e) p x"
  by (rule rtI [OF emits_fail]) simp

lemma rt_w_bind: "(\<And>y. m = Inr y \<Longrightarrow> rt (f y) p x) \<Longrightarrow> rt (w_bind m f) p x"
  by (cases m) (auto intro: rt_fail)

lemma rt_if [wire_rt]:
  "(c \<Longrightarrow> rt f p x) \<Longrightarrow> (\<not> c \<Longrightarrow> rt g q x) \<Longrightarrow> rt (if c then f else g) (if c then p else q) x"
  by simp

text \<open>Fixed-width little-endian integers behind a range check.\<close>

lemma rt_fixed:
  assumes "m = (if c then Inr (le_bytes k v) else Inl e)" "c \<Longrightarrow> g (le_bytes k v) = v" "n = int k"
  shows "rt (w_result m) (rbind (read n) (\<lambda>bs. rret (g bs))) v"
proof (rule rt_w_result)
  fix bs
  assume "m = Inr bs"
  with assms(1) have c: c and bs: "bs = le_bytes k v" by (auto split: if_splits)
  have "parses (read n) bs bs" by (rule parses_read) (simp add: bs assms(3))
  then show "parses (rbind (read n) (\<lambda>bs. rret (g bs))) bs v"
    by (rule parses_map) (use assms(2) c bs in simp)
qed

lemma rt_unsigned:
  "n = int k \<Longrightarrow> rt (w_result (pack_unsigned k v)) (rbind (read n) (\<lambda>bs. rret (le_int bs))) v"
  by (rule rt_fixed [OF pack_unsigned_if]) (simp_all add: le_int_le_bytes pow256)

lemma rt_signed:
  "n = int k \<Longrightarrow> 0 < k \<Longrightarrow>
   rt (w_result (pack_signed k v)) (rbind (read n) (\<lambda>bs. rret (le_int_signed bs))) v"
proof (rule rt_fixed [OF pack_signed_if])
  assume "0 < k"
  then have m: "8 * k = Suc (8 * k - 1)" by simp
  have p: "(256::int) ^ k = 2 * 2 ^ (8 * k - 1)" unfolding pow256 by (subst m) simp
  assume "- (2 ^ (8 * k - 1)) \<le> v \<and> v < 2 ^ (8 * k - 1)"
  then show "le_int_signed (le_bytes k v) = v"
    by (intro le_int_signed_le_bytes) (simp_all only: p, linarith+)
qed simp

lemma rt_bind_ret: "rt f p y \<Longrightarrow> q y = rret x \<Longrightarrow> rt f (rbind p q) x"
  by (auto simp: rt_def parses_def rbind_def rret_def)

lemma rt_bind_lift: "rt f p y \<Longrightarrow> q y = rlift (Inr x) \<Longrightarrow> rt f (rbind p q) x"
  by (auto simp: rt_def parses_def rbind_def rlift_def)

lemma rt_map: "rt f p y \<Longrightarrow> x = g y \<Longrightarrow> rt f (rbind p (\<lambda>y. rret (g y))) x"
  by (auto simp: rt_def intro: parses_map)

lemma rt_elements:
  "(\<And>x. x \<in> set xs \<Longrightarrow> rt (wr x) rd (g x)) \<Longrightarrow> rt (wseq (map wr xs)) (read_n (length xs) rd) (map g xs)"
proof (induction xs)
  case Nil
  show ?case by (simp add: rt_nil)
next
  case (Cons x xs)
  then have x: "rt (wr x) rd (g x)"
    and xs: "rt (wseq (map wr xs)) (read_n (length xs) rd) (map g xs)" by auto
  have "rt (wseq (map wr xs)) (rbind (read_n (length xs) rd) (\<lambda>ys. rret (g x # ys))) (g x # map g xs)"
    by (rule rt_map [OF xs refl])
  then show ?case by (simp add: rt_cons [OF x])
qed

lemma rt_deserialize:
  assumes "rt f p x" "serialize f = Inr bs"
  shows "deserialize p bs = Inr x"
proof -
  have "p (new_reader bs) = Inr (x, adv (length bs) (new_reader bs))"
    using rt_parses [OF assms] by (simp add: parses_def)
  then show ?thesis
    by (simp add: deserialize_def assert_eof_def remaining_def adv_def new_reader_def)
qed

lemma rt_deserialize_trailing:
  assumes "rt f p x" "serialize f = Inr bs" "cs \<noteq> []"
  shows "deserialize p (bs @ cs) = Inl SerializationError"
proof -
  have "p (new_reader (bs @ cs)) = Inr (x, adv (length bs) (new_reader (bs @ cs)))"
    using rt_parses [OF assms(1,2)] by (simp add: parses_def)
  then show ?thesis using assms(3)
    by (simp add: deserialize_def assert_eof_def remaining_def adv_def new_reader_def)
qed

subsection \<open>Bounds and stability of readers\<close>

definition more :: "bytes \<Rightarrow> reader \<Rightarrow> reader" where
  "more cs r = r\<lparr>rdata := rdata r @ cs\<rparr>"

definition safe :: "'a rop \<Rightarrow> bool" where
  "safe p \<longleftrightarrow> (\<forall>r x r'. roffset r \<le> length (rdata r) \<longrightarrow> p r = Inr (x, r') \<longrightarrow>
     rdata r' = rdata r \<and> roffset r \<le> roffset r' \<and> roffset r' \<le> length (rdata r) \<and>
     (\<forall>cs. p (more cs r) = Inr (x, more cs r')))"

lemma safeD:
  assumes "safe p" "roffset r \<le> length (rdata r)" "p r = Inr (x, r')"
  shows "rdata r' = rdata r" "roffset r \<le> roffset r'" "roffset r' \<le> length (rdata r)"
    "roffset r' \<le> length (rdata r')" "p (more cs r) = Inr (x, more cs r')"
  using assms unfolding safe_def by metis+

lemma safe_ret [wire_safe]: "safe (rret x)"
  by (simp add: safe_def rret_def)

lemma safe_fail [wire_safe]: "safe (rfail e)"
  by (simp add: safe_def rfail_def)

lemma safe_lift [wire_safe]: "safe (rlift m)"
  by (auto simp: safe_def rlift_def rthen_Inr_iff)

lemma safe_bind [wire_safe]:
  assumes p: "safe p" and f: "\<And>x. safe (f x)"
  shows "safe (rbind p f)"
  unfolding safe_def
proof (intro allI impI)
  fix r x r'
  assume o: "roffset r \<le> length (rdata r)" and "rbind p f r = Inr (x, r')"
  then obtain y s where y: "p r = Inr (y, s)" and s: "f y s = Inr (x, r')"
    by (auto simp: rbind_def rthen_Inr_iff)
  note P = safeD [OF p o y]
  note F = safeD [OF f P(4) s]
  show "rdata r' = rdata r \<and> roffset r \<le> roffset r' \<and> roffset r' \<le> length (rdata r) \<and>
    (\<forall>cs. rbind p f (more cs r) = Inr (x, more cs r'))"
    using P(1-3) F(1-3) by (auto simp: rbind_def P(5) F(5))
qed

lemma safe_if [wire_safe]: "safe p \<Longrightarrow> safe q \<Longrightarrow> safe (if c then p else q)"
  by simp

lemma safe_read [wire_safe]: "safe (read n)"
proof -
  have "take (nat n) (drop k (xs @ cs)) = take (nat n) (drop k xs)"
    if "nat n + k \<le> length xs" for k and xs cs :: bytes
    using that by simp
  then show ?thesis
    by (auto simp: safe_def read_def remaining_def more_def split: if_splits)
qed

lemma safe_read_n [wire_safe]: "safe p \<Longrightarrow> safe (read_n n p)"
  by (induction n) (auto intro!: wire_safe)

definition raises :: "'a rop \<Rightarrow> py_error set \<Rightarrow> bool" where
  "raises p E \<longleftrightarrow> (\<forall>r e. p r = Inl e \<longrightarrow> e \<in> E)"

lemma raises_mono: "raises p E \<Longrightarrow> E \<subseteq> F \<Longrightarrow> raises p F"
  by (auto simp: raises_def)

lemma raises_ret [wire_raises]: "raises (rret x) E"
  by (simp add: raises_def rret_def)

lemma raises_fail [wire_raises]: "e \<in> E \<Longrightarrow> raises (rfail e) E"
  by (simp add: raises_def rfail_def)

lemma raises_bind [wire_raises]: "raises p E \<Longrightarrow> (\<And>x. raises (f x) E) \<Longrightarrow> raises (rbind p f) E"
  by (auto simp: raises_def rbind_def rthen_Inl_iff)

lemma raises_read [wire_raises]: "SerializationError \<in> E \<Longrightarrow> raises (read n) E"
  by (auto simp: raises_def read_def)

lemma raises_lift [wire_raises]: "(\<And>e. m = Inl e \<Longrightarrow> e \<in> E) \<Longrightarrow> raises (rlift m) E"
  by (auto simp: raises_def rlift_def rthen_Inl_iff)

lemma raises_if [wire_raises]: "raises p E \<Longrightarrow> raises q E \<Longrightarrow> raises (if c then p else q) E"
  by simp

lemma raises_read_n [wire_raises]: "raises p E \<Longrightarrow> raises (read_n n p) E"
  by (induction n) (auto intro!: wire_raises)

lemma deserialize_raises:
  "raises p E \<Longrightarrow> SerializationError \<in> E \<Longrightarrow> deserialize p bs = Inl e \<Longrightarrow> e \<in> E"
  by (auto simp: deserialize_def raises_def rthen_Inl_iff assert_eof_def split: if_splits)

section \<open>The codec contract\<close>

text \<open>
  What \<^verbatim>\<open>write_carbon\<close>/\<^verbatim>\<open>read_carbon\<close> of a type promise each other: for a well-formed value
  the reader reads back what the writer appended, and the reader is bounds-checked.
\<close>

locale codec =
  fixes wr :: "'a \<Rightarrow> wop"
    and rd :: "'a rop"
    and ok :: "'a \<Rightarrow> bool"
  assumes rt: "ok x \<Longrightarrow> rt (wr x) rd x"
    and rd_safe: "safe rd"
begin

lemma roundtrip: "ok x \<Longrightarrow> serialize (wr x) = Inr bs \<Longrightarrow> deserialize rd bs = Inr x"
  by (rule rt_deserialize [OF rt])

lemma trailing:
  "ok x \<Longrightarrow> serialize (wr x) = Inr bs \<Longrightarrow> cs \<noteq> [] \<Longrightarrow>
   deserialize rd (bs @ cs) = Inl SerializationError"
  by (rule rt_deserialize_trailing [OF rt])

lemma injective:
  "ok x \<Longrightarrow> ok y \<Longrightarrow> serialize (wr x) = Inr bs \<Longrightarrow> serialize (wr y) = Inr bs \<Longrightarrow> x = y"
  using roundtrip [of x bs] roundtrip [of y bs] by simp

lemma truncated:
  assumes "ok x" "serialize (wr x) = Inr (bs @ cs)" "cs \<noteq> []"
  shows "\<exists>e. deserialize rd bs = Inl e"
proof (rule ccontr)
  assume "\<not> ?thesis"
  then obtain y where "deserialize rd bs = Inr y" by (cases "deserialize rd bs") auto
  then obtain r where r: "rd (new_reader bs) = Inr (y, r)"
    by (auto simp: deserialize_def rthen_Inr_iff)
  have o: "roffset (new_reader bs) \<le> length (rdata (new_reader bs))" by (simp add: new_reader_def)
  have "more cs (new_reader bs) = new_reader (bs @ cs)" by (simp add: more_def new_reader_def)
  with safeD(5) [OF rd_safe o r, of cs] have "rd (new_reader (bs @ cs)) = Inr (y, more cs r)"
    by simp
  moreover have "rd (new_reader (bs @ cs)) = Inr (x, adv (length (bs @ cs)) (new_reader (bs @ cs)))"
    using rt_parses [OF rt [OF assms(1)] assms(2)] by (simp add: parses_def)
  ultimately have "roffset (more cs r) = length (bs @ cs)" by (simp add: adv_def new_reader_def)
  moreover have "roffset r \<le> length bs" using safeD(3) [OF rd_safe o r] by (simp add: new_reader_def)
  ultimately show False using assms(3) by (simp add: more_def)
qed

lemma prefix_free:
  assumes "ok x" "ok y" "serialize (wr x) = Inr bs" "serialize (wr y) = Inr (bs @ cs)"
  shows "x = y \<and> cs = []"
proof (cases "cs = []")
  case True
  with assms show ?thesis using injective by auto
next
  case False
  from trailing [OF assms(1,3) False] roundtrip [OF assms(2,4)] show ?thesis by simp
qed

end

text \<open>A codec whose encodings are never empty can be the element of a counted array.\<close>

locale element_codec = codec +
  assumes nonempty: "serialize (wr x) \<noteq> Inr []"
    and wr_appends: "appends (wr x)"

end
