(* ===== verification/VmBinary.thy ===== *)
theory VmBinary
  imports ByteIO
begin

text \<open>
  \<^verbatim>\<open>binary.py\<close>: the Phantasma VM wire primitives (\<^verbatim>\<open>BinaryWriter\<close>, \<^verbatim>\<open>BinaryReader\<close>), the
  variable-length size prefix and the two byte forms of a big integer. The lemmas give the
  codec contract of each primitive and the minimality of the C\<open>#\<close> form.
\<close>

definition MAX_ARRAY_SIZE :: int where
  "MAX_ARRAY_SIZE = 0x1000000"

section \<open>Big integers\<close>

text \<open>\<^verbatim>\<open>_big_int_to_csharp_bytes\<close>: \<^verbatim>\<open>~value\<close> is \<open>- value - 1\<close>.\<close>

definition big_int_to_csharp_bytes :: "int \<Rightarrow> bytes result" where
  "big_int_to_csharp_bytes value =
     (if value = 0 then Inr [0]
      else let bit_count = (if value > 0 then bit_length value + 1 else bit_length (- value - 1) + 1);
               width = max 1 ((bit_count + 7) div 8)
           in to_bytes_le_signed value width)"

definition big_int_to_vm_bytes :: "int \<Rightarrow> bytes result" where
  "big_int_to_vm_bytes value =
     rthen (big_int_to_csharp_bytes value) (\<lambda>raw.
       Inr (if value < 0 then
              (if length raw = 1 then raw @ [0xFF, 0xFF]
               else if last raw = 0xFF then raw @ [0xFF]
               else raw)
            else if last raw \<noteq> 0 then raw @ [0] else raw))"

definition vm_bytes_to_big_int :: "bytes \<Rightarrow> int" where
  "vm_bytes_to_big_int data = (if length data = 0 then 0 else le_int_signed data)"

lemma signed_fits_iff:
  "- (256 ^ n) \<le> 2 * v \<and> 2 * v < 256 ^ n \<longleftrightarrow>
   (if 0 < v then bit_length v + 1 \<le> 8 * n else bit_length (- v - 1) + 1 \<le> 8 * n)"
  if n: "0 < n"
proof -
  define m where "m = 8 * n - 1"
  have m: "8 * n = Suc m" using n by (simp add: m_def)
  have p: "(256::int) ^ n = 2 * 2 ^ m" using m by (simp add: pow256)
  have "(2::int) ^ 1 \<le> 2 ^ m" using n by (intro power_increasing) (simp_all add: m_def)
  then show ?thesis
    unfolding p m by (auto simp: bit_length_le_iff abs_if)
qed

lemma csharp_width:
  assumes "value \<noteq> 0"
  defines "bits \<equiv> (if value > 0 then bit_length value + 1 else bit_length (- value - 1) + 1)"
  shows "- (256 ^ n) \<le> 2 * value \<and> 2 * value < 256 ^ n \<longleftrightarrow> max 1 ((bits + 7) div 8) \<le> n"
proof (cases "n = 0")
  case True
  with assms(1) show ?thesis by auto
next
  case False
  then have "- (256 ^ n) \<le> 2 * value \<and> 2 * value < 256 ^ n \<longleftrightarrow> bits \<le> 8 * n"
    using signed_fits_iff [of n "value"] by (simp add: bits_def)
  also have "\<dots> \<longleftrightarrow> max 1 ((bits + 7) div 8) \<le> n"
    using False by auto
  finally show ?thesis .
qed

lemma csharp_bytes:
  "\<exists>n. 0 < n \<and> big_int_to_csharp_bytes value = Inr (le_bytes n value) \<and>
       - (256 ^ n) \<le> 2 * value \<and> 2 * value < 256 ^ n \<and>
       (\<forall>m > 0. - (256 ^ m) \<le> 2 * value \<longrightarrow> 2 * value < 256 ^ m \<longrightarrow> n \<le> m)"
proof (cases "value = 0")
  case True
  then show ?thesis by (intro exI [of _ 1]) (simp add: big_int_to_csharp_bytes_def)
next
  case False
  define bits where "bits = (if value > 0 then bit_length value + 1 else bit_length (- value - 1) + 1)"
  define n where "n = max 1 ((bits + 7) div 8)"
  have iff: "- (256 ^ m) \<le> 2 * value \<and> 2 * value < 256 ^ m \<longleftrightarrow> n \<le> m" for m
    using csharp_width [OF False, of m] by (simp add: n_def bits_def)
  have "big_int_to_csharp_bytes value = to_bytes_le_signed value n"
    using False by (simp add: big_int_to_csharp_bytes_def n_def bits_def Let_def)
  also have "\<dots> = Inr (le_bytes n value)"
    using iff [of n] by (simp add: to_bytes_le_signed_def)
  finally have "big_int_to_csharp_bytes value = Inr (le_bytes n value)" .
  moreover have "0 < n" by (simp add: n_def)
  moreover have "- (256 ^ n) \<le> 2 * value \<and> 2 * value < 256 ^ n" by (simp only: iff order_refl)
  moreover have "\<forall>m>0. - (256 ^ m) \<le> 2 * value \<longrightarrow> 2 * value < 256 ^ m \<longrightarrow> n \<le> m"
    using iff by blast
  ultimately show ?thesis by blast
qed

lemma csharp_bytes_roundtrip:
  "big_int_to_csharp_bytes value = Inr bs \<Longrightarrow> bs \<noteq> [] \<and> vm_bytes_to_big_int bs = value"
  using csharp_bytes [of "value"]
  by (auto simp: vm_bytes_to_big_int_def le_int_signed_le_bytes)

lemma csharp_bytes_total: "\<exists>bs. big_int_to_csharp_bytes value = Inr bs"
  using csharp_bytes by blast

lemma csharp_bytes_minimal:
  assumes "big_int_to_csharp_bytes value = Inr bs" "ds \<noteq> []" "vm_bytes_to_big_int ds = value"
  shows "length bs \<le> length ds"
proof -
  have "le_int_signed ds = value" using assms(2,3) by (simp add: vm_bytes_to_big_int_def)
  then have "- (256 ^ length ds) \<le> 2 * value" "2 * value < 256 ^ length ds"
    using le_int_signed_range [of ds] by simp_all
  with csharp_bytes [of "value"] assms(1,2) show ?thesis by auto
qed

text \<open>Padding with sign bytes does not change the value.\<close>

lemma le_int_signed_append:
  assumes "bs \<noteq> []"
    and "cs = replicate k 0 \<and> 0 \<le> le_int_signed bs \<or> cs = replicate k 0xFF \<and> le_int_signed bs < 0"
  shows "le_int_signed (bs @ cs) = le_int_signed bs"
proof (rule int_signed_mod_unique [where m = "256 ^ length (bs @ cs)"])
  show "- (256 ^ length (bs @ cs)) \<le> 2 * le_int_signed (bs @ cs)"
    "2 * le_int_signed (bs @ cs) < 256 ^ length (bs @ cs)"
    using le_int_signed_range [of "bs @ cs"] by simp_all
  have le: "(256::int) ^ length bs \<le> 256 ^ length (bs @ cs)" by (simp add: power_increasing)
  then show "- (256 ^ length (bs @ cs)) \<le> 2 * le_int_signed bs"
    "2 * le_int_signed bs < 256 ^ length (bs @ cs)"
    using le_int_signed_range [of bs] by linarith+
  let ?s = "le_int_signed bs"
  have "le_int (bs @ cs) = ?s mod 256 ^ length (bs @ cs)"
  proof (cases "0 \<le> ?s")
    case True
    then have "?s = le_int bs" using le_int_less [of bs] by (auto simp: le_int_signed_def Let_def split: if_splits)
    moreover have "cs = replicate k 0" using True assms(2) by auto
    moreover have "?s < 256 ^ length (bs @ cs)"
      using le le_int_less [of bs] calculation(1) by linarith
    ultimately show ?thesis using True by (simp add: le_int_append)
  next
    case False
    then have s: "?s = le_int bs - 256 ^ length bs"
      by (auto simp: le_int_signed_def Let_def split: if_splits)
    have cs: "cs = replicate k 0xFF" using False assms(2) by auto
    have "le_int (bs @ cs) = ?s + 256 ^ length (bs @ cs)"
      by (simp add: le_int_append cs s le_int_replicate_FF power_add algebra_simps)
    moreover have "0 \<le> ?s + 256 ^ length (bs @ cs)" "?s + 256 ^ length (bs @ cs) < 256 ^ length (bs @ cs)"
      using False le le_int_signed_range(1) [of bs] by linarith+
    ultimately show ?thesis
      by (metis mod_add_self2 mod_pos_pos_trivial)
  qed
  then show "le_int_signed (bs @ cs) mod 256 ^ length (bs @ cs) = ?s mod 256 ^ length (bs @ cs)"
    using le_int_signed_mod [of "bs @ cs"] by simp
qed

lemma vm_bytes_roundtrip:
  assumes "big_int_to_vm_bytes value = Inr bs"
  shows "bs \<noteq> [] \<and> vm_bytes_to_big_int bs = value"
proof -
  from assms obtain raw where raw: "big_int_to_csharp_bytes value = Inr raw"
    and bs: "bs = raw \<or> (value < 0 \<and> (bs = raw @ [0xFF, 0xFF] \<or> bs = raw @ [0xFF])) \<or> (\<not> value < 0 \<and> bs = raw @ [0])"
    by (auto simp: big_int_to_vm_bytes_def rthen_Inr_iff split: if_splits)
  have r: "raw \<noteq> []" "le_int_signed raw = value"
    using csharp_bytes_roundtrip [OF raw] by (auto simp: vm_bytes_to_big_int_def)
  from bs consider "bs = raw" | "value < 0" "bs = raw @ replicate 2 0xFF"
    | "value < 0" "bs = raw @ replicate 1 0xFF" | "0 \<le> value" "bs = raw @ replicate 1 0"
    by (auto simp: numeral_2_eq_2)
  then show ?thesis
    using r le_int_signed_append [OF r(1), of _ 2] le_int_signed_append [OF r(1), of _ 1]
    by cases (auto simp: vm_bytes_to_big_int_def)
qed

lemma big_int_to_vm_bytes_total: "\<exists>bs. big_int_to_vm_bytes value = Inr bs"
  using csharp_bytes_total [of "value"] by (auto simp: big_int_to_vm_bytes_def)

section \<open>Writer and reader\<close>

definition write_u8 :: "int \<Rightarrow> wop" where
  "write_u8 value = w_result (if value < 0 \<or> value > 0xFF then Inl SerializationError else Inr [word_of_int value])"

definition write_u16_le :: "int \<Rightarrow> wop" where
  "write_u16_le value = w_result (pack_unsigned 2 value)"

definition write_u32_le :: "int \<Rightarrow> wop" where
  "write_u32_le value = w_result (pack_unsigned 4 value)"

definition write_u64_le :: "int \<Rightarrow> wop" where
  "write_u64_le value = w_result (pack_unsigned 8 value)"

definition write_i64_le :: "int \<Rightarrow> wop" where
  "write_i64_le value = w_result (pack_signed 8 value)"

definition write_bool :: "bool \<Rightarrow> wop" where
  "write_bool value = write_u8 (if value then 1 else 0)"

definition write_var_uint :: "int \<Rightarrow> wop" where
  "write_var_uint value =
     (if value < 0 then w_fail SerializationError
      else if value < 0xFD then write_u8 value
      else if value \<le> 0xFFFF then wseq [write_u8 0xFD, write_u16_le value]
      else if value \<le> 0xFFFFFFFF then wseq [write_u8 0xFE, write_u32_le value]
      else wseq [write_u8 0xFF, write_u64_le value])"

definition write_var_bytes :: "bytes \<Rightarrow> wop" where
  "write_var_bytes data = wseq [write_var_uint (int (length data)), w_write data]"

definition write_string :: "pystr \<Rightarrow> wop" where
  "write_string value = w_bind (utf8_encode value) write_var_bytes"

definition write_big_integer :: "int \<Rightarrow> wop" where
  "write_big_integer value = w_bind (big_int_to_vm_bytes value) write_var_bytes"

definition read_u8 :: "int rop" where
  "read_u8 = rbind (read 1) (\<lambda>bs. rret (uint (bs ! 0)))"

definition read_u16_le :: "int rop" where
  "read_u16_le = rbind (read 2) (\<lambda>bs. rret (le_int bs))"

definition read_u32_le :: "int rop" where
  "read_u32_le = rbind (read 4) (\<lambda>bs. rret (le_int bs))"

definition read_u64_le :: "int rop" where
  "read_u64_le = rbind (read 8) (\<lambda>bs. rret (le_int bs))"

definition read_i64_le :: "int rop" where
  "read_i64_le = rbind (read 8) (\<lambda>bs. rret (le_int_signed bs))"

definition read_bool :: "bool rop" where
  "read_bool = rbind read_u8 (\<lambda>v. rret (v \<noteq> 0))"

definition read_var_uint :: "int rop" where
  "read_var_uint = rbind read_u8 (\<lambda>first.
     if first = 0xFD then read_u16_le
     else if first = 0xFE then read_u32_le
     else if first = 0xFF then read_u64_le
     else rret first)"

definition read_var_bytes :: "int \<Rightarrow> bytes rop" where
  "read_var_bytes max_size = rbind read_var_uint (\<lambda>size.
     if size > max_size then rfail SerializationError else read size)"

definition read_string :: "pystr rop" where
  "read_string = rbind (read_var_bytes MAX_ARRAY_SIZE) (\<lambda>bs. rlift (utf8_decode bs))"

definition read_big_integer :: "int rop" where
  "read_big_integer = rbind (read_var_bytes MAX_ARRAY_SIZE) (\<lambda>bs. rret (vm_bytes_to_big_int bs))"

section \<open>Codec contracts\<close>

lemma write_u8_fixed:
  "(if value < 0 \<or> value > 0xFF then Inl SerializationError else Inr [word_of_int value]) =
   (if 0 \<le> value \<and> value \<le> 0xFF then Inr (le_bytes 1 value) else Inl SerializationError)"
  by simp

lemma rt_u8 [wire_rt]: "rt (write_u8 v) read_u8 v"
  unfolding write_u8_def read_u8_def
  by (rule rt_fixed [where k = 1, OF write_u8_fixed]) (simp_all add: uint_word_of_int_byte)

lemma rt_u16 [wire_rt]: "rt (write_u16_le v) read_u16_le v"
  unfolding write_u16_le_def read_u16_le_def by (rule rt_unsigned) simp

lemma rt_u32 [wire_rt]: "rt (write_u32_le v) read_u32_le v"
  unfolding write_u32_le_def read_u32_le_def by (rule rt_unsigned) simp

lemma rt_u64 [wire_rt]: "rt (write_u64_le v) read_u64_le v"
  unfolding write_u64_le_def read_u64_le_def by (rule rt_unsigned) simp

lemma rt_i64 [wire_rt]: "rt (write_i64_le v) read_i64_le v"
  unfolding write_i64_le_def read_i64_le_def by (rule rt_signed) simp_all

lemma rt_bool [wire_rt]: "rt (write_bool b) read_bool b"
  unfolding write_bool_def read_bool_def by (rule rt_map [OF rt_u8]) simp

lemma rt_var_uint [wire_rt]: "rt (write_var_uint v) read_var_uint v"
proof -
  have small: "rt (write_u8 v) read_var_uint v" if "v < 0xFD"
    unfolding read_var_uint_def by (rule rt_bind_ret [OF rt_u8]) (use that in simp)
  have wide: "rt (wseq [write_u8 0xFD, write_u16_le v]) read_var_uint v"
    "rt (wseq [write_u8 0xFE, write_u32_le v]) read_var_uint v"
    "rt (wseq [write_u8 0xFF, write_u64_le v]) read_var_uint v"
    unfolding read_var_uint_def by (rule rt_cons [OF rt_u8], simp, rule rt_last, rule wire_rt)+
  show ?thesis
    unfolding write_var_uint_def using small wide by (simp add: rt_fail)
qed

lemma rt_var_bytes_max:
  assumes "int (length bs) \<le> m"
  shows "rt (write_var_bytes bs) (read_var_bytes m) bs"
  unfolding write_var_bytes_def read_var_bytes_def
proof (rule rt_cons [OF rt_var_uint])
  have "rt (w_write bs) (read (int (length bs))) bs"
    by (rule rtI [OF emits_write]) (simp add: parses_read)
  then show "rt (wseq [w_write bs])
     (if m < int (length bs) then rfail SerializationError else read (int (length bs))) bs"
    using assms by (simp add: rt_last)
qed

lemma rt_string:
  assumes "\<And>bs. utf8_encode s = Inr bs \<Longrightarrow> int (length bs) \<le> MAX_ARRAY_SIZE"
  shows "rt (write_string s) read_string s"
  unfolding write_string_def read_string_def
proof (rule rt_w_bind)
  fix bs
  assume "utf8_encode s = Inr bs"
  then show "rt (write_var_bytes bs) (rbind (read_var_bytes MAX_ARRAY_SIZE) (\<lambda>bs. rlift (utf8_decode bs))) s"
    using assms by (intro rt_bind_lift [OF rt_var_bytes_max]) (simp_all add: utf8_decode_encode)
qed

lemma rt_big_integer:
  assumes "\<And>bs. big_int_to_vm_bytes v = Inr bs \<Longrightarrow> int (length bs) \<le> MAX_ARRAY_SIZE"
  shows "rt (write_big_integer v) read_big_integer v"
  unfolding write_big_integer_def read_big_integer_def
proof (rule rt_w_bind)
  fix bs
  assume "big_int_to_vm_bytes v = Inr bs"
  then show "rt (write_var_bytes bs) (rbind (read_var_bytes MAX_ARRAY_SIZE) (\<lambda>bs. rret (vm_bytes_to_big_int bs))) v"
    using assms vm_bytes_roundtrip by (intro rt_map [OF rt_var_bytes_max]) simp_all
qed

lemmas vm_read_defs = read_u8_def read_u16_le_def read_u32_le_def read_u64_le_def read_i64_le_def
  read_bool_def read_var_uint_def read_var_bytes_def read_string_def read_big_integer_def

lemma safe_vm_reads [wire_safe]:
  "safe read_u8" "safe read_u16_le" "safe read_u32_le" "safe read_u64_le" "safe read_i64_le"
  "safe read_bool" "safe read_var_uint" "safe (read_var_bytes m)" "safe read_string"
  "safe read_big_integer"
  unfolding vm_read_defs by (auto intro!: wire_safe)

lemma raises_vm_reads [wire_raises]:
  assumes "SerializationError \<in> E"
  shows "raises read_u8 E" "raises read_u16_le E" "raises read_u32_le E" "raises read_u64_le E"
    "raises read_i64_le E" "raises read_bool E" "raises read_var_uint E" "raises (read_var_bytes m) E"
    "raises read_big_integer E"
  unfolding vm_read_defs using assms by (auto intro!: wire_raises)

lemma raises_read_string [wire_raises]:
  "SerializationError \<in> E \<Longrightarrow> UnicodeDecodeError \<in> E \<Longrightarrow> raises read_string E"
  unfolding read_string_def by (auto intro!: wire_raises dest: utf8_decode_error)

interpretation var_uint: codec write_var_uint read_var_uint "\<lambda>_. True"
  by unfold_locales (auto intro: wire_rt wire_safe)

interpretation var_bytes: codec write_var_bytes "read_var_bytes MAX_ARRAY_SIZE"
    "\<lambda>bs. int (length bs) \<le> MAX_ARRAY_SIZE"
  by unfold_locales (auto intro: rt_var_bytes_max wire_safe)

interpretation vm_string: codec write_string read_string
    "\<lambda>s. \<forall>bs. utf8_encode s = Inr bs \<longrightarrow> int (length bs) \<le> MAX_ARRAY_SIZE"
  by unfold_locales (auto intro: rt_string wire_safe)

interpretation big_integer: codec write_big_integer read_big_integer
    "\<lambda>v. \<forall>bs. big_int_to_vm_bytes v = Inr bs \<longrightarrow> int (length bs) \<le> MAX_ARRAY_SIZE"
  by unfold_locales (auto intro: rt_big_integer wire_safe)

section \<open>Which values are written\<close>

lemma serialize_write_u8: "0 \<le> v \<Longrightarrow> v \<le> 0xFF \<Longrightarrow> serialize (write_u8 v) = Inr [word_of_int v]"
  by (simp add: write_u8_def)

lemma serialize_var_uint:
  "serialize (write_var_uint v) =
     (if v < 0 then Inl SerializationError
      else if v < 0xFD then Inr [word_of_int v]
      else if v \<le> 0xFFFF then Inr (0xFD # le_bytes 2 v)
      else if v \<le> 0xFFFFFFFF then Inr (0xFE # le_bytes 4 v)
      else if v < 2 ^ 64 then Inr (0xFF # le_bytes 8 v)
      else Inl SerializationError)"
proof -
  have two: "appends (w_result m)" for m :: "bytes result" by (rule wire_appends)
  show ?thesis
    by (simp add: write_var_uint_def write_u8_def write_u16_le_def write_u32_le_def write_u64_le_def
        serialize_wseq two pack_unsigned_if)
qed

lemma var_uint_written: "0 \<le> v \<Longrightarrow> v < 2 ^ 64 \<Longrightarrow> \<exists>bs. serialize (write_var_uint v) = Inr bs"
  by (cases "serialize (write_var_uint v)") (auto simp: serialize_var_uint split: if_splits)

lemma var_uint_length:
  "serialize (write_var_uint v) = Inr bs \<Longrightarrow>
   length bs = (if v < 0xFD then 1 else if v \<le> 0xFFFF then 3 else if v \<le> 0xFFFFFFFF then 5 else 9)"
  by (auto simp: serialize_var_uint split: if_splits)

section \<open>Properties\<close>

text \<open>Every Python integer survives the VM integer encoding: the C# style encoder always
  succeeds and the little-endian signed decoder gives the value back.\<close>

theorem vm_big_int_roundtrip:
  "rthen (big_int_to_vm_bytes v) (\<lambda>bs. Inr (vm_bytes_to_big_int bs)) = Inr v"
  using big_int_to_vm_bytes_total [of v] vm_bytes_roundtrip [of v] by auto

text \<open>A variable-length unsigned integer takes one, three, five or nine bytes and is read back for
  every 64-bit value; every other integer is refused with a serialization error.\<close>

theorem var_uint_roundtrip:
  "if 0 \<le> v \<and> v < 2 ^ 64
   then \<exists>bs. serialize (write_var_uint v) = Inr bs \<and> deserialize read_var_uint bs = Inr v \<and>
     length bs = (if v < 0xFD then 1 else if v \<le> 0xFFFF then 3 else if v \<le> 0xFFFFFFFF then 5 else 9)
   else serialize (write_var_uint v) = Inl SerializationError"
proof (cases "0 \<le> v \<and> v < 2 ^ 64")
  case True
  then obtain bs where bs: "serialize (write_var_uint v) = Inr bs"
    using var_uint_written by blast
  with True show ?thesis using var_uint.roundtrip [OF TrueI bs] var_uint_length [OF bs] by simp
next
  case False
  then show ?thesis by (auto simp: serialize_var_uint)
qed

text \<open>A byte string comes back from its length-prefixed form exactly when it is within the limit
  the reader is given; the writer has no such limit.\<close>

theorem var_bytes_limit:
  "if int (length bs) < 2 ^ 64
   then \<exists>enc. serialize (write_var_bytes bs) = Inr enc \<and>
     deserialize (read_var_bytes limit) enc =
       (if int (length bs) \<le> limit then Inr bs else Inl SerializationError)
   else serialize (write_var_bytes bs) = Inl SerializationError"
proof (cases "int (length bs) < 2 ^ 64")
  case True
  then obtain pre where pre: "serialize (write_var_uint (int (length bs))) = Inr pre"
    using var_uint_written [of "int (length bs)"] by auto
  have enc: "serialize (write_var_bytes bs) = Inr (pre @ bs)"
    using rt_appends [OF rt_var_uint] by (simp add: write_var_bytes_def serialize_wseq pre)
  have "deserialize (read_var_bytes limit) (pre @ bs) = Inl SerializationError" if "\<not> int (length bs) \<le> limit"
    using rt_parses [OF rt_var_uint pre] that
    by (simp add: deserialize_def read_var_bytes_def rbind_def parses_def rfail_def)
  then show ?thesis using True enc rt_deserialize [OF rt_var_bytes_max enc] by auto
next
  case False
  have "serialize (write_var_uint (int (length bs))) = Inl SerializationError"
    using False by (simp add: serialize_var_uint)
  then show ?thesis
    using False rt_appends [OF rt_var_uint] by (simp add: write_var_bytes_def serialize_wseq)
qed

end
