(* ===== verification/VmObject.thy ===== *)
theory VmObject
  imports VmBinary "HOL-Library.AList"
begin

text \<open>
  \<^verbatim>\<open>VMObject\<close> of \<^verbatim>\<open>vm.py\<close>: the decoded VM value, its wire form, its conversions and casts.
  A struct is a Python dict, here an association list in insertion order; a struct used as a key is
  unhashable (\<^verbatim>\<open>TypeError\<close>). The reader recurses once per nesting level, its first argument is the
  number of nested calls the interpreter still allows (\<^verbatim>\<open>RecursionError\<close> when it is used up).
  \<^verbatim>\<open>int(text)\<close> is the parameter \<open>to_int\<close> of the operations that use it.
\<close>

unbundle bit_operations_syntax

section \<open>Values\<close>

datatype vmo_type = T_NONE | T_STRUCT | T_BYTES | T_NUMBER | T_STRING | T_TIMESTAMP | T_BOOL | T_ENUM | T_OBJECT

fun vmo_code :: "vmo_type \<Rightarrow> int" where
  "vmo_code T_NONE = 0"
| "vmo_code T_STRUCT = 1"
| "vmo_code T_BYTES = 2"
| "vmo_code T_NUMBER = 3"
| "vmo_code T_STRING = 4"
| "vmo_code T_TIMESTAMP = 5"
| "vmo_code T_BOOL = 6"
| "vmo_code T_ENUM = 7"
| "vmo_code T_OBJECT = 8"

text \<open>\<^verbatim>\<open>read\<close> turns the \<^verbatim>\<open>ValueError\<close> of the enum constructor into a serialization error.\<close>

definition vmo_type_of :: "int \<Rightarrow> vmo_type result" where
  "vmo_type_of v =
     (if 0 \<le> v \<and> v < 9
      then Inr ([T_NONE, T_STRUCT, T_BYTES, T_NUMBER, T_STRING, T_TIMESTAMP, T_BOOL, T_ENUM, T_OBJECT] ! nat v)
      else Inl SerializationError)"

datatype vm_object =
    VNone
  | VStruct "(vm_object \<times> vm_object) list"
  | VBytes bytes
  | VNumber int
  | VString pystr
  | VTimestamp int
  | VBool bool
  | VEnum int
  | VObject bytes

fun vmo_kind :: "vm_object \<Rightarrow> vmo_type" where
  "vmo_kind VNone = T_NONE"
| "vmo_kind (VStruct items) = T_STRUCT"
| "vmo_kind (VBytes raw) = T_BYTES"
| "vmo_kind (VNumber v) = T_NUMBER"
| "vmo_kind (VString t) = T_STRING"
| "vmo_kind (VTimestamp t) = T_TIMESTAMP"
| "vmo_kind (VBool b) = T_BOOL"
| "vmo_kind (VEnum v) = T_ENUM"
| "vmo_kind (VObject raw) = T_OBJECT"

definition hashable :: "vm_object \<Rightarrow> bool" where
  "hashable v \<longleftrightarrow> vmo_kind v \<noteq> T_STRUCT"

section \<open>Wire form\<close>

function write_vm :: "vm_object \<Rightarrow> wop"
  and write_vm_items :: "(vm_object \<times> vm_object) list \<Rightarrow> wop" where
  "write_vm VNone = wseq [write_u8 0]"
| "write_vm (VStruct items) =
     wseq [write_u8 1, write_var_uint (int (length items)), write_vm_items items]"
| "write_vm (VBytes raw) = wseq [write_u8 2, write_var_bytes raw]"
| "write_vm (VNumber v) = wseq [write_u8 3, write_big_integer v]"
| "write_vm (VString t) = wseq [write_u8 4, write_string t]"
| "write_vm (VTimestamp t) = wseq [write_u8 5, write_u32_le t]"
| "write_vm (VBool b) = wseq [write_u8 6, write_bool b]"
| "write_vm (VEnum v) =
     wseq [write_u8 7, if v < 0 \<or> v > 0xFF then w_fail SerializationError else write_u8 v]"
| "write_vm (VObject raw) =
     wseq [write_u8 8, w_bind (serialize (write_var_bytes raw)) write_var_bytes]"
| "write_vm_items [] = wseq []"
| "write_vm_items ((k, v) # items) = wseq [write_vm k, write_vm v, write_vm_items items]"
  by pat_completeness auto
termination
  by (relation "measure (\<lambda>x. case x of Inl v \<Rightarrow> size v | Inr items \<Rightarrow> size_list (size_prod size size) items)") auto

definition vm_to_bytes :: "vm_object \<Rightarrow> bytes result" where
  "vm_to_bytes v = serialize (write_vm v)"

text \<open>\<^verbatim>\<open>items[key] = value\<close>\<close>

definition dict_set :: "vm_object \<Rightarrow> vm_object \<Rightarrow> (vm_object \<times> vm_object) list \<Rightarrow>
    (vm_object \<times> vm_object) list result" where
  "dict_set k v items = (if hashable k then Inr (AList.update k v items) else Inl TypeError)"

fun read_entries :: "nat \<Rightarrow> vm_object rop \<Rightarrow> (vm_object \<times> vm_object) list \<Rightarrow>
    (vm_object \<times> vm_object) list rop" where
  "read_entries 0 rd items = rret items"
| "read_entries (Suc n) rd items =
     rbind rd (\<lambda>k. rbind rd (\<lambda>v. rbind (rlift (dict_set k v items)) (\<lambda>items'. read_entries n rd items')))"

definition read_object :: "vm_object rop" where
  "read_object = rbind (read_var_bytes MAX_ARRAY_SIZE) (\<lambda>raw.
     rret (if length raw = 35 \<and> raw ! 0 = 34 then VObject (drop 1 raw) else VBytes raw))"

fun read_vm :: "nat \<Rightarrow> vm_object rop" where
  "read_vm 0 = rfail RecursionError"
| "read_vm (Suc depth) = rbind (rbind read_u8 (\<lambda>v. rlift (vmo_type_of v))) (\<lambda>ty.
     case ty of
       T_NONE \<Rightarrow> rret VNone
     | T_BOOL \<Rightarrow> rbind read_bool (\<lambda>b. rret (VBool b))
     | T_BYTES \<Rightarrow> rbind (read_var_bytes MAX_ARRAY_SIZE) (\<lambda>raw. rret (VBytes raw))
     | T_ENUM \<Rightarrow> rbind read_u8 (\<lambda>v. rret (VEnum v))
     | T_NUMBER \<Rightarrow> rbind read_big_integer (\<lambda>v. rret (VNumber v))
     | T_STRING \<Rightarrow> rbind read_string (\<lambda>t. rret (VString t))
     | T_TIMESTAMP \<Rightarrow> rbind read_u32_le (\<lambda>t. rret (VTimestamp t))
     | T_OBJECT \<Rightarrow> read_object
     | T_STRUCT \<Rightarrow> rbind read_var_uint (\<lambda>count.
         rbind (read_entries (nat count) (read_vm depth) []) (\<lambda>items. rret (VStruct items))))"

definition vm_from_bytes :: "nat \<Rightarrow> bytes \<Rightarrow> vm_object result" where
  "vm_from_bytes depth raw = deserialize (read_vm depth) raw"

text \<open>Values that come back: within the reader's size limit, addresses in objects, and structs whose
  keys are hashable and distinct.\<close>

fun vm_ok :: "vm_object \<Rightarrow> bool" where
  "vm_ok (VStruct items) \<longleftrightarrow>
     list_all (\<lambda>(k, v). vm_ok k \<and> vm_ok v \<and> hashable k) items \<and> distinct (map fst items)"
| "vm_ok (VBytes raw) \<longleftrightarrow> int (length raw) \<le> MAX_ARRAY_SIZE"
| "vm_ok (VNumber v) \<longleftrightarrow> (\<forall>bs. big_int_to_vm_bytes v = Inr bs \<longrightarrow> int (length bs) \<le> MAX_ARRAY_SIZE)"
| "vm_ok (VString t) \<longleftrightarrow> (\<forall>bs. utf8_encode t = Inr bs \<longrightarrow> int (length bs) \<le> MAX_ARRAY_SIZE)"
| "vm_ok (VObject raw) \<longleftrightarrow> length raw = 34"
| "vm_ok _ \<longleftrightarrow> True"

fun vm_depth :: "vm_object \<Rightarrow> nat" where
  "vm_depth (VStruct items) = Suc (foldr max (map (\<lambda>(k, v). max (vm_depth k) (vm_depth v)) items) 0)"
| "vm_depth _ = 1"

lemma foldr_max_bound: "foldr max ns 0 \<le> d \<longleftrightarrow> (\<forall>n \<in> set ns. n \<le> (d :: nat))"
  by (induction ns) auto

lemma vmo_type_of_code [simp]: "vmo_type_of (vmo_code t) = Inr t"
  by (cases t) (simp_all add: vmo_type_of_def)

lemma vm_write_appends:
  "appends (write_vm v)" "appends (write_vm_items items)"
proof -
  have vb: "appends (write_var_bytes bs)" for bs
    unfolding write_var_bytes_def using rt_appends [OF rt_var_uint] by simp
  note base = vb rt_appends [OF rt_var_uint] rt_appends [OF rt_u8] rt_appends [OF rt_u32] rt_appends [OF rt_bool]
  show "appends (write_vm v)" "appends (write_vm_items items)"
    by (induction v and items rule: write_vm_write_vm_items.induct)
      (simp_all add: base write_string_def write_big_integer_def)
qed

text \<open>Each value is its type byte followed by a body the matching branch of the reader reads.\<close>

lemma rt_typed:
  assumes "c = vmo_code t" "rt f (read_body t) x"
  shows "rt (wseq [write_u8 c, f]) (rbind (rbind read_u8 (\<lambda>v. rlift (vmo_type_of v))) read_body) x"
proof -
  have "rt (write_u8 c) (rbind read_u8 (\<lambda>v. rlift (vmo_type_of v))) t"
    by (rule rt_bind_lift [OF rt_u8]) (simp add: assms(1))
  then show ?thesis by (rule rt_cons [OF _ rt_last]) (rule assms(2))
qed

lemma rt_object:
  assumes "length raw = 34"
  shows "rt (w_bind (serialize (write_var_bytes raw)) write_var_bytes) read_object (VObject raw)"
proof -
  have b: "serialize (write_var_bytes raw) = Inr (34 # raw)"
    using assms rt_appends [OF rt_var_uint]
    by (simp add: write_var_bytes_def serialize_wseq serialize_var_uint)
  have "rt (write_var_bytes (34 # raw)) (read_var_bytes MAX_ARRAY_SIZE) (34 # raw)"
    by (rule rt_var_bytes_max) (simp add: assms MAX_ARRAY_SIZE_def)
  then have "rt (write_var_bytes (34 # raw)) read_object (VObject raw)"
    unfolding read_object_def by (rule rt_bind_ret) (simp add: assms)
  then show ?thesis by (simp add: b)
qed

lemma dict_set_new: "hashable k \<Longrightarrow> k \<notin> fst ` set items \<Longrightarrow> dict_set k v items = Inr (items @ [(k, v)])"
  unfolding dict_set_def by (induction items) auto

lemma rt_entries:
  assumes "\<And>k v. (k, v) \<in> set items \<Longrightarrow> rt (write_vm k) rd k \<and> rt (write_vm v) rd v \<and> hashable k"
    "distinct (map fst (done @ items))"
  shows "rt (write_vm_items items) (read_entries (length items) rd done) (done @ items)"
  using assms
proof (induction items arbitrary: "done")
  case Nil
  show ?case by (simp add: rt_nil)
next
  case (Cons e items)
  obtain k v where e: "e = (k, v)" by (cases e) auto
  have kv: "rt (write_vm k) rd k" "rt (write_vm v) rd v" "hashable k" using Cons.prems(1) e by auto
  have d: "dict_set k v done = Inr (done @ [(k, v)])"
    by (rule dict_set_new [OF kv(3)]) (use Cons.prems(2) e in \<open>auto simp: image_iff\<close>)
  have "rt (write_vm_items items) (read_entries (length items) rd (done @ [(k, v)])) ((done @ [(k, v)]) @ items)"
    by (rule Cons.IH) (use Cons.prems e in auto)
  then have "rt (write_vm_items items)
      (rbind (rlift (dict_set k v done)) (\<lambda>items'. read_entries (length items) rd items')) (done @ e # items)"
    by (simp add: d e rbind_def rlift_def rt_def parses_def)
  then show ?case by (simp add: e rt_cons [OF kv(1)] rt_cons [OF kv(2)] rt_last)
qed

lemma rt_vm: "vm_ok v \<Longrightarrow> vm_depth v \<le> d \<Longrightarrow> rt (write_vm v) (read_vm d) v"
proof (induction v arbitrary: d)
  case VNone
  then obtain d' where "d = Suc d'" by (cases d) auto
  moreover have "rt (write_u8 0) (rbind read_u8 (\<lambda>v. rlift (vmo_type_of v))) T_NONE"
    by (rule rt_bind_lift [OF rt_u8]) (simp add: vmo_type_of_def)
  ultimately show ?case unfolding write_vm.simps
    by (simp only: read_vm.simps) (erule rt_cons, simp add: rt_nil)
next
  case (VStruct items)
  then obtain d' where d: "d = Suc d'" by (cases d) auto
  have e: "rt (write_vm k) (read_vm d') k \<and> rt (write_vm v) (read_vm d') v \<and> hashable k" if "(k, v) \<in> set items" for k v
  proof -
    have "vm_ok k" "vm_ok v" "hashable k" "vm_depth k \<le> d'" "vm_depth v \<le> d'"
      using VStruct.prems that by (fastforce simp: d foldr_max_bound list_all_iff)+
    then show ?thesis using VStruct.IH [OF that, of k d'] VStruct.IH [OF that, of v d'] by simp
  qed
  have "rt (write_vm_items items) (read_entries (length items) (read_vm d') []) ([] @ items)"
    by (rule rt_entries) (use e VStruct.prems in auto)
  then have "rt (write_vm_items items)
    (rbind (read_entries (nat (int (length items))) (read_vm d') []) (\<lambda>items. rret (VStruct items))) (VStruct items)"
    by (simp add: rt_map)
  then have body: "rt (wseq [write_var_uint (int (length items)), write_vm_items items])
    (rbind read_var_uint (\<lambda>count. rbind (read_entries (nat count) (read_vm d') []) (\<lambda>items. rret (VStruct items))))
    (VStruct items)"
    by (rule rt_cons [OF rt_var_uint rt_last])
  have "rt (write_u8 1) (rbind read_u8 (\<lambda>v. rlift (vmo_type_of v))) T_STRUCT"
    by (rule rt_bind_lift [OF rt_u8]) (simp add: vmo_type_of_def)
  then show ?case unfolding write_vm.simps d read_vm.simps by (rule rt_cons) (use body in simp)
next
  case (VBytes raw)
  then obtain d' where "d = Suc d'" by (cases d) auto
  with VBytes show ?case by (auto intro!: rt_typed [where t = T_BYTES] rt_map [OF rt_var_bytes_max])
next
  case (VNumber v)
  then obtain d' where "d = Suc d'" by (cases d) auto
  with VNumber show ?case by (auto intro!: rt_typed [where t = T_NUMBER] rt_map [OF rt_big_integer])
next
  case (VString v)
  then obtain d' where "d = Suc d'" by (cases d) auto
  with VString show ?case by (auto intro!: rt_typed [where t = T_STRING] rt_map [OF rt_string])
next
  case (VTimestamp v)
  then obtain d' where "d = Suc d'" by (cases d) auto
  then show ?case by (auto intro!: rt_typed [where t = T_TIMESTAMP] rt_map [OF rt_u32])
next
  case (VBool v)
  then obtain d' where "d = Suc d'" by (cases d) auto
  then show ?case by (auto intro!: rt_typed [where t = T_BOOL] rt_map [OF rt_bool])
next
  case (VEnum v)
  then obtain d' where "d = Suc d'" by (cases d) auto
  moreover have "rt (if v < 0 \<or> v > 0xFF then w_fail SerializationError else write_u8 v)
    (rbind read_u8 (\<lambda>v. rret (VEnum v))) (VEnum v)"
    by (simp add: rt_fail rt_map [OF rt_u8])
  ultimately show ?case by (auto intro!: rt_typed [where t = T_ENUM])
next
  case (VObject raw)
  then obtain d' where "d = Suc d'" by (cases d) auto
  with VObject show ?case by (auto intro!: rt_typed [where t = T_OBJECT] rt_object)
qed

lemma safe_entries: "safe rd \<Longrightarrow> safe (read_entries n rd items)"
  by (induction n arbitrary: items) (auto intro!: wire_safe)

lemma safe_vm: "safe (read_vm d)"
proof (induction d)
  case (Suc d)
  have "safe read_object" unfolding read_object_def by (auto intro!: wire_safe)
  with Suc show ?case by (auto intro!: wire_safe safe_entries split: vmo_type.split)
qed (simp add: wire_safe)

text \<open>Everything deserialising a VM value can raise.\<close>

definition vm_errors :: "py_error set" where
  "vm_errors = {SerializationError, UnicodeDecodeError, TypeError, RecursionError}"

lemma raises_vm: "raises (read_vm d) vm_errors"
proof (induction d)
  case 0
  show ?case by (simp add: vm_errors_def wire_raises)
next
  case (Suc d)
  have E: "SerializationError \<in> vm_errors" "UnicodeDecodeError \<in> vm_errors" "TypeError \<in> vm_errors"
    by (simp_all add: vm_errors_def)
  have o: "raises read_object vm_errors" unfolding read_object_def using E by (auto intro!: wire_raises)
  have "raises (read_entries n (read_vm d) items) vm_errors" for n items
    using E Suc by (induction n arbitrary: items) (auto intro!: wire_raises simp: dict_set_def split: if_splits)
  with E o show ?case
    by (auto intro!: wire_raises simp: vmo_type_of_def split: vmo_type.split if_splits)
qed

interpretation vm_obj: codec write_vm "read_vm depth" "\<lambda>v. vm_ok v \<and> vm_depth v \<le> depth" for depth
  by unfold_locales (auto intro: rt_vm safe_vm)

section \<open>UTF-16 and Base64\<close>

text \<open>\<^verbatim>\<open>str.encode("utf-16-le")\<close> as code units, and \<^verbatim>\<open>bytes.decode("utf-16-le")\<close> from them.\<close>

fun utf16_encode :: "pystr \<Rightarrow> nat list result" where
  "utf16_encode [] = Inr []"
| "utf16_encode (c # s) =
     (if is_surrogate c \<or> c > 0x10FFFF then Inl UnicodeEncodeError
      else rthen (utf16_encode s) (\<lambda>us. Inr
        ((if c < 0x10000 then [c] else [0xD800 + (c - 0x10000) div 0x400, 0xDC00 + (c - 0x10000) mod 0x400]) @ us)))"

fun utf16_decode :: "nat list \<Rightarrow> pystr result" where
  "utf16_decode [] = Inr []"
| "utf16_decode (u # us) =
     (if u < 0xD800 \<or> 0xDFFF < u then rthen (utf16_decode us) (\<lambda>s. Inr (u # s))
      else if u < 0xDC00 then
        (case us of
           [] \<Rightarrow> Inl UnicodeDecodeError
         | w # ws \<Rightarrow>
             if 0xDC00 \<le> w \<and> w \<le> 0xDFFF
             then rthen (utf16_decode ws) (\<lambda>s. Inr ((0x10000 + (u - 0xD800) * 0x400 + (w - 0xDC00)) # s))
             else Inl UnicodeDecodeError)
      else Inl UnicodeDecodeError)"

definition base64_chars :: pystr where
  "base64_chars = str ''ABCDEFGHIJKLMNOPQRSTUVWXYZabcdefghijklmnopqrstuvwxyz0123456789+/''"

fun b64encode :: "bytes \<Rightarrow> pystr" where
  "b64encode [] = []"
| "b64encode [a] = [base64_chars ! (unat a div 4), base64_chars ! (unat a mod 4 * 16), 61, 61]"
| "b64encode [a, b] = [base64_chars ! (unat a div 4), base64_chars ! (unat a mod 4 * 16 + unat b div 16),
     base64_chars ! (unat b mod 16 * 4), 61]"
| "b64encode (a # b # c # bs) = [base64_chars ! (unat a div 4), base64_chars ! (unat a mod 4 * 16 + unat b div 16),
     base64_chars ! (unat b mod 16 * 4 + unat c div 64), base64_chars ! (unat c mod 64)] @ b64encode bs"

lemma utf16_decode_encode: "utf16_encode s = Inr us \<Longrightarrow> utf16_decode us = Inr s"
proof (induction s arbitrary: us)
  case (Cons c s)
  then obtain vs where vs: "utf16_encode s = Inr vs" and c: "\<not> is_surrogate c" "c \<le> 0x10FFFF"
    and us: "us = (if c < 0x10000 then [c] else [0xD800 + (c - 0x10000) div 0x400, 0xDC00 + (c - 0x10000) mod 0x400]) @ vs"
    by (auto simp: rthen_Inr_iff split: if_splits)
  note d = Cons.IH [OF vs]
  show ?case
  proof (cases "c < 0x10000")
    case True
    with c d us show ?thesis by (auto simp: is_surrogate_def)
  next
    case False
    then obtain k where k: "c = 0x10000 + k" by (metis le_Suc_ex not_less)
    with c have "k < 0x100000" by simp
    then have "k div 0x400 < 0x400" by auto
    with d us False k show ?thesis by simp
  qed
qed simp

section \<open>Conversions\<close>

definition struct_get :: "(vm_object \<times> vm_object) list \<Rightarrow> nat \<Rightarrow> vm_object option" where
  "struct_get items index = map_of items (VNumber (int index))"

text \<open>The loop of \<^verbatim>\<open>array_type\<close>.\<close>

fun array_scan :: "(vm_object \<times> vm_object) list \<Rightarrow> nat list \<Rightarrow> vmo_type option \<Rightarrow> vmo_type" where
  "array_scan items [] detected = (case detected of None \<Rightarrow> T_NONE | Some t \<Rightarrow> t)"
| "array_scan items (index # is) detected =
     (case struct_get items index of
        None \<Rightarrow> T_NONE
      | Some v \<Rightarrow>
          if detected \<noteq> None \<and> detected \<noteq> Some (vmo_kind v) then T_NONE
          else array_scan items is (Some (vmo_kind v)))"

definition array_type :: "vm_object \<Rightarrow> vmo_type" where
  "array_type v = (case v of VStruct items \<Rightarrow> array_scan items [0..<length items] None | _ \<Rightarrow> T_NONE)"

definition as_number :: "(pystr \<Rightarrow> int result) \<Rightarrow> vm_object \<Rightarrow> int result" where
  "as_number to_int v =
     (case v of
        VNumber n \<Rightarrow> Inr n
      | VBytes raw \<Rightarrow> Inr (vm_bytes_to_big_int raw)
      | VObject raw \<Rightarrow> if length raw = 32 then Inr (le_int raw) else Inl SerializationError
      | VBool b \<Rightarrow> Inr (if b then 1 else 0)
      | VString t \<Rightarrow> to_int t
      | VEnum n \<Rightarrow> Inr n
      | VTimestamp n \<Rightarrow> Inr n
      | VNone \<Rightarrow> Inr 0
      | VStruct items \<Rightarrow> Inl SerializationError)"

definition as_bytes :: "vm_object \<Rightarrow> bytes result" where
  "as_bytes v =
     (case v of
        VNone \<Rightarrow> Inl SerializationError
      | VString t \<Rightarrow> utf8_encode t
      | VBytes raw \<Rightarrow> Inr raw
      | VObject raw \<Rightarrow> Inr raw
      | VBool b \<Rightarrow> Inr (if b then [1] else [0])
      | VEnum n \<Rightarrow> to_bytes_le n 4
      | VTimestamp n \<Rightarrow> to_bytes_le n 4
      | VNumber n \<Rightarrow> big_int_to_vm_bytes n
      | VStruct items \<Rightarrow> vm_to_bytes v)"

text \<open>The UTF-16 code units of a number struct, by index.\<close>

fun struct_units :: "(pystr \<Rightarrow> int result) \<Rightarrow> (vm_object \<times> vm_object) list \<Rightarrow> nat list \<Rightarrow> nat list result" where
  "struct_units to_int items [] = Inr []"
| "struct_units to_int items (index # is) =
     (case struct_get items index of
        None \<Rightarrow> Inl SerializationError
      | Some v \<Rightarrow> rthen (as_number to_int v) (\<lambda>code_unit.
          if code_unit < 0 \<or> code_unit > 0xFFFF then Inl SerializationError
          else rthen (struct_units to_int items is) (\<lambda>us. Inr (nat code_unit # us))))"

definition as_string :: "(pystr \<Rightarrow> int result) \<Rightarrow> vm_object \<Rightarrow> pystr result" where
  "as_string to_int v =
     (case v of
        VString t \<Rightarrow> Inr t
      | VBytes raw \<Rightarrow> utf8_decode raw
      | VBool b \<Rightarrow> Inr (if b then str ''true'' else str ''false'')
      | VNumber n \<Rightarrow> py_str n
      | VEnum n \<Rightarrow> py_str n
      | VTimestamp n \<Rightarrow> py_str n
      | VNone \<Rightarrow> Inr (str ''Null'')
      | VStruct items \<Rightarrow>
          if array_type v = T_NUMBER
          then rthen (struct_units to_int items [0..<length items]) utf16_decode
          else rthen (as_bytes v) (\<lambda>raw. Inr (b64encode raw))
      | VObject raw \<Rightarrow> Inl SerializationError)"

definition as_bool :: "vm_object \<Rightarrow> bool result" where
  "as_bool v =
     (case v of
        VBool b \<Rightarrow> Inr b
      | VBytes raw \<Rightarrow> if length raw = 1 then Inr (raw ! 0 \<noteq> 0) else Inl SerializationError
      | VNumber n \<Rightarrow> Inr (n \<noteq> 0)
      | _ \<Rightarrow> Inl SerializationError)"

definition unit_items :: "nat list \<Rightarrow> (vm_object \<times> vm_object) list" where
  "unit_items us = map (\<lambda>(i, u). (VNumber (int i), VNumber (int u))) (enumerate 0 us)"

definition cast_to :: "(pystr \<Rightarrow> int result) \<Rightarrow> vm_object \<Rightarrow> vmo_type \<Rightarrow> vm_object result" where
  "cast_to to_int v target =
     (if vmo_kind v = target then Inr v
      else case target of
        T_NONE \<Rightarrow> Inr VNone
      | T_STRING \<Rightarrow> rthen (as_string to_int v) (\<lambda>t. Inr (VString t))
      | T_BYTES \<Rightarrow> rthen (as_bytes v) (\<lambda>raw. Inr (VBytes raw))
      | T_NUMBER \<Rightarrow> rthen (as_number to_int v) (\<lambda>n. Inr (VNumber n))
      | T_BOOL \<Rightarrow> rthen (as_bool v) (\<lambda>b. Inr (VBool b))
      | T_STRUCT \<Rightarrow>
          (case v of
             VString t \<Rightarrow> rthen (utf16_encode t) (\<lambda>us. Inr (VStruct (unit_items us)))
           | VObject raw \<Rightarrow> Inr v
           | _ \<Rightarrow> Inl SerializationError)
      | _ \<Rightarrow> Inl SerializationError)"

lemma map_of_unit_items:
  "map_of (map (\<lambda>(i, u). (VNumber (int i), VNumber (int u))) (enumerate k us)) (VNumber (int j)) =
     (if k \<le> j \<and> j < k + length us then Some (VNumber (int (us ! (j - k)))) else None)"
  by (induction us arbitrary: k) (auto simp: nth_Cons')

lemma struct_get_unit_items:
  "j < length us \<Longrightarrow> struct_get (unit_items us) j = Some (VNumber (int (us ! j)))"
  using map_of_unit_items [of 0 us j] by (simp add: struct_get_def unit_items_def)

lemma array_scan_units:
  "list_all (\<lambda>i. i < length us) is \<Longrightarrow>
   array_scan (unit_items us) is (Some T_NUMBER) = T_NUMBER"
  by (induction "is") (simp_all add: struct_get_unit_items)

lemma array_type_units: "us \<noteq> [] \<Longrightarrow> array_type (VStruct (unit_items us)) = T_NUMBER"
proof -
  assume u: "us \<noteq> []"
  have l: "length (unit_items us) = length us" by (simp add: unit_items_def)
  have "[0..<length us] = 0 # [1..<length us]" using u by (simp add: upt_rec)
  then show ?thesis
    using u by (simp add: array_type_def l struct_get_unit_items array_scan_units list_all_iff)
qed

lemma struct_units_unit_items:
  "list_all (\<lambda>u. u \<le> 0xFFFF) us \<Longrightarrow> list_all (\<lambda>i. i < length us) is \<Longrightarrow>
   struct_units to_int (unit_items us) is = Inr (map ((!) us) is)"
proof (induction "is")
  case (Cons i "is")
  then have "i < length us" by simp
  with Cons.prems(1) have "us ! i \<le> 0xFFFF" by (simp add: list_all_length)
  with Cons show ?case by (simp add: struct_get_unit_items as_number_def)
qed simp

lemma utf16_units: "utf16_encode s = Inr us \<Longrightarrow> list_all (\<lambda>u. u \<le> 0xFFFF) us"
proof (induction s arbitrary: us)
  case (Cons c s)
  have "(c - 65536) div 1024 < 1024" "(c - 65536) mod 1024 < 1024" if "c \<le> 1114111"
    using that by auto
  with Cons show ?case by (fastforce simp: rthen_Inr_iff split: if_splits)
qed simp

text \<open>A non-empty string cast to a struct and back is the string.\<close>

lemma string_struct_string:
  assumes "t \<noteq> []" "cast_to to_int (VString t) T_STRUCT = Inr v"
  shows "cast_to to_int v T_STRING = Inr (VString t)"
proof -
  from assms(2) obtain us where us: "utf16_encode t = Inr us" and v: "v = VStruct (unit_items us)"
    by (auto simp: cast_to_def rthen_Inr_iff)
  have "us \<noteq> []" using assms(1) us by (cases t) (auto simp: rthen_Inr_iff split: if_splits)
  then have a: "array_type v = T_NUMBER" by (simp add: v array_type_units)
  have "length (unit_items us) = length us" by (simp add: unit_items_def)
  moreover have "map ((!) us) [0..<length us] = us" by (rule map_nth)
  ultimately have "struct_units to_int (unit_items us) [0..<length (unit_items us)] = Inr us"
    using struct_units_unit_items [OF utf16_units [OF us], of "[0..<length us]"] by (simp add: list_all_iff)
  then show ?thesis
    using a utf16_decode_encode [OF us] by (simp add: cast_to_def as_string_def v)
qed

text \<open>The empty string does not come back: the empty struct has no detected element type.\<close>

lemma empty_string_struct_string:
  "cast_to to_int (VString []) T_STRUCT = Inr (VStruct [])"
  "cast_to to_int (VStruct []) T_STRING = Inr (VString (str ''AQA=''))"
proof -
  show "cast_to to_int (VString []) T_STRUCT = Inr (VStruct [])"
    by (simp add: cast_to_def unit_items_def)
  have b: "vm_to_bytes (VStruct []) = Inr [1, 0]"
    using rt_appends [OF rt_u8, of 1] rt_appends [OF rt_var_uint, of 0]
    by (simp add: vm_to_bytes_def serialize_wseq serialize_var_uint serialize_write_u8 vm_write_appends)
  show "cast_to to_int (VStruct []) T_STRING = Inr (VString (str ''AQA=''))"
    by (simp add: cast_to_def as_string_def array_type_def as_bytes_def b base64_chars_def)
qed

section \<open>Properties\<close>

text \<open>C10: A VM value that the reader can represent comes back from its wire form when the interpreter allows
  as many nested calls as the value is deep, and bytes after it are rejected.\<close>

theorem vm_object_roundtrip:
  assumes "vm_ok v" "vm_depth v \<le> depth" "vm_to_bytes v = Inr bs"
  shows "vm_from_bytes depth bs = Inr v \<and>
    (\<forall>cs. cs \<noteq> [] \<longrightarrow> vm_from_bytes depth (bs @ cs) = Inl SerializationError)"
  using vm_obj.roundtrip [of v depth bs] vm_obj.trailing [of v depth bs] assms
  by (simp add: vm_from_bytes_def vm_to_bytes_def)

theorem vm_object_roundtrip_witness:
  "\<exists>bs. vm_to_bytes (VStruct [(VEnum 0, VBool True), (VEnum 1, VStruct [])]) = Inr bs \<and>
     vm_from_bytes 5 bs = Inr (VStruct [(VEnum 0, VBool True), (VEnum 1, VStruct [])])"
proof -
  let ?v = "VStruct [(VEnum 0, VBool True), (VEnum 1, VStruct [])]"
  have a: "appends (write_u8 c)" "appends (write_var_uint i)" for c i
    using rt_appends [OF rt_u8] rt_appends [OF rt_var_uint] by simp_all
  have "\<exists>bs. vm_to_bytes ?v = Inr bs"
    by (simp add: vm_to_bytes_def serialize_wseq a vm_write_appends serialize_write_u8 serialize_var_uint write_bool_def)
  then obtain bs where bs: "vm_to_bytes ?v = Inr bs" by blast
  have ok: "vm_ok ?v" by (simp add: hashable_def)
  from vm_object_roundtrip [OF ok _ bs, of 5] bs show ?thesis by auto
qed

text \<open>Decoding a VM value from any bytes raises nothing but a serialization error, a decoding error, a
  \<^verbatim>\<open>TypeError\<close> for a struct used as a key, or the recursion limit.\<close>

theorem vm_object_errors:
  "vm_from_bytes depth bs \<in> range Inr \<union> Inl ` {SerializationError, UnicodeDecodeError, TypeError, RecursionError}"
proof (cases "vm_from_bytes depth bs")
  case (Inl e)
  have "SerializationError \<in> vm_errors" by (simp add: vm_errors_def)
  with Inl have "e \<in> vm_errors"
    unfolding vm_from_bytes_def using deserialize_raises [OF raises_vm] by blast
  with Inl show ?thesis by (auto simp: vm_errors_def)
qed auto

text \<open>Casting a string to a struct of UTF-16 code units and back gives the string, for every string that
  has code units, except that the empty string comes back as the Base64 text of the empty struct.\<close>

theorem string_struct_cast:
  assumes "utf16_encode t = Inr us"
  shows "rthen (cast_to to_int (VString t) T_STRUCT) (\<lambda>v. cast_to to_int v T_STRING) =
    Inr (VString (if t = [] then str ''AQA='' else t))"
proof (cases "t = []")
  case True
  then show ?thesis using empty_string_struct_string [of to_int] by simp
next
  case False
  have c: "cast_to to_int (VString t) T_STRUCT = Inr (VStruct (unit_items us))"
    using assms by (simp add: cast_to_def)
  show ?thesis using string_struct_string [OF False c] False by (simp add: c)
qed

theorem string_struct_cast_witness:
  "rthen (cast_to (\<lambda>_. Inl ValueError) (VString [0x1F600]) T_STRUCT)
     (\<lambda>v. cast_to (\<lambda>_. Inl ValueError) v T_STRING) = Inr (VString [0x1F600])"
  using string_struct_cast [of "[0x1F600]" "[0xD83D, 0xDE00]" "\<lambda>_. Inl ValueError"]
  by (simp add: is_surrogate_def)

text \<open>Casting a number to bytes and back gives the number, of any size and sign.\<close>

theorem number_bytes_cast:
  "rthen (cast_to to_int (VNumber n) T_BYTES) (\<lambda>v. cast_to to_int v T_NUMBER) = Inr (VNumber n)"
proof -
  obtain bs where bs: "big_int_to_vm_bytes n = Inr bs" using big_int_to_vm_bytes_total by blast
  show ?thesis
    using vm_bytes_roundtrip [OF bs] by (simp add: cast_to_def as_bytes_def as_number_def bs)
qed

end
