(* ===== verification/PyNum.thy ===== *)
theory PyNum
  imports PyStr
begin

text \<open>
  Reading integers from text, \<^verbatim>\<open>int(text)\<close> and \<^verbatim>\<open>int(raw_bytes)\<close> of Python: white space around the
  number, one sign, decimal digits of any script with single underscores between them, and the
  interpreter's limit of 4300 digits. The table of decimal digits is the one of Unicode 14, the version
  of Python 3.11, the oldest the package supports.
\<close>

section \<open>Decimal digits\<close>

definition decimal_starts :: "nat list" where
  "decimal_starts = [0x30, 0x660, 0x6F0, 0x7C0, 0x966, 0x9E6, 0xA66, 0xAE6, 0xB66, 0xBE6, 0xC66,
     0xCE6, 0xD66, 0xDE6, 0xE50, 0xED0, 0xF20, 0x1040, 0x1090, 0x17E0, 0x1810, 0x1946, 0x19D0,
     0x1A80, 0x1A90, 0x1B50, 0x1BB0, 0x1C40, 0x1C50, 0xA620, 0xA8D0, 0xA900, 0xA9D0, 0xA9F0,
     0xAA50, 0xABF0, 0xFF10, 0x104A0, 0x10D30, 0x11066, 0x110F0, 0x11136, 0x111D0, 0x112F0,
     0x11450, 0x114D0, 0x11650, 0x116C0, 0x11730, 0x118E0, 0x11950, 0x11C50, 0x11D50, 0x11DA0,
     0x16A60, 0x16AC0, 0x16B50, 0x1D7CE, 0x1D7D8, 0x1D7E2, 0x1D7EC, 0x1D7F6, 0x1E140, 0x1E2F0,
     0x1E950, 0x1FBF0]"

text \<open>\<^verbatim>\<open>unicodedata.decimal\<close>, and the ASCII digits alone.\<close>

definition decimal_digit :: "nat \<Rightarrow> nat option" where
  "decimal_digit c = map_option (\<lambda>s. c - s) (find (\<lambda>s. s \<le> c \<and> c < s + 10) decimal_starts)"

definition ascii_digit :: "nat \<Rightarrow> nat option" where
  "ascii_digit c = (if 48 \<le> c \<and> c \<le> 57 then Some (c - 48) else None)"

text \<open>The digits of a number. The flag says whether the text may end or have an underscore here.\<close>

fun int_digits :: "(nat \<Rightarrow> nat option) \<Rightarrow> bool \<Rightarrow> int \<Rightarrow> pystr \<Rightarrow> int option" where
  "int_digits digit after acc [] = (if after then Some acc else None)"
| "int_digits digit after acc (c # s) = (case digit c of
     Some d \<Rightarrow> int_digits digit True (10 * acc + int d) s
   | None \<Rightarrow> if c = 95 \<and> after then int_digits digit False acc s else None)"

definition int_body :: "(nat \<Rightarrow> nat option) \<Rightarrow> pystr \<Rightarrow> int result" where
  "int_body digit s =
     (if length (filter (\<lambda>c. c \<noteq> 95) s) > 4300 then Inl ValueError
      else case int_digits digit False 0 s of None \<Rightarrow> Inl ValueError | Some v \<Rightarrow> Inr v)"

definition int_signed :: "(nat \<Rightarrow> nat option) \<Rightarrow> pystr \<Rightarrow> int result" where
  "int_signed digit s = (case s of
     [] \<Rightarrow> Inl ValueError
   | c # t \<Rightarrow> if c = 45 then rthen (int_body digit t) (\<lambda>v. Inr (- v))
       else if c = 43 then int_body digit t
       else int_body digit s)"

definition py_int_text :: "pystr \<Rightarrow> int result" where
  "py_int_text s = int_signed decimal_digit (py_strip s)"

definition py_int_bytes :: "bytes \<Rightarrow> int result" where
  "py_int_bytes bs =
     int_signed ascii_digit (rev (dropWhile is_ascii_space (rev (dropWhile is_ascii_space (map unat bs)))))"

lemma int_body_error: "int_body digit s = Inl e \<Longrightarrow> e = ValueError"
  by (auto simp: int_body_def split: if_splits option.splits)

lemma int_signed_error: "int_signed digit s = Inl e \<Longrightarrow> e = ValueError"
  by (auto simp: int_signed_def rthen_Inl_iff dest: int_body_error split: if_splits list.splits)

lemmas py_int_error = int_signed_error [of decimal_digit, folded py_int_text_def]

section \<open>Decimal text reads back\<close>

lemma decimal_digit_ascii: "48 \<le> c \<Longrightarrow> c \<le> 57 \<Longrightarrow> decimal_digit c = Some (c - 48)"
  by (simp add: decimal_digit_def decimal_starts_def)

lemma int_digits_run:
  "\<forall>c \<in> set s. digit c \<noteq> None \<Longrightarrow> s \<noteq> [] \<Longrightarrow>
   int_digits digit after acc (s @ t) = int_digits digit True (foldl (\<lambda>a c. 10 * a + int (the (digit c))) acc s) t"
proof (induction s arbitrary: after acc)
  case (Cons x s)
  then show ?case by (cases "s = []") auto
qed simp

lemma decimal_nonempty: "decimal n \<noteq> []"
  by (subst decimal.simps) simp

lemma decimal_value:
  "foldl (\<lambda>a c. 10 * a + int (the (decimal_digit c))) 0 (decimal n) = int n"
proof (induction n rule: decimal.induct)
  case (1 n)
  show ?case
  proof (cases "n < 10")
    case True
    then show ?thesis by (subst decimal.simps) (simp add: decimal_digit_ascii)
  next
    case False
    have "decimal_digit (48 + n mod 10) = Some (n mod 10)"
      using decimal_digit_ascii [of "48 + n mod 10"] by simp
    moreover have "10 * int (n div 10) + int (n mod 10) = int n" by presburger
    ultimately show ?thesis using False 1 by (subst decimal.simps) simp
  qed
qed

lemma int_digits_decimal: "int_digits decimal_digit after 0 (decimal n) = Some (int n)"
proof -
  have "\<forall>c \<in> set (decimal n). decimal_digit c \<noteq> None"
    using decimal_digits decimal_digit_ascii by fastforce
  from int_digits_run [OF this decimal_nonempty, of after 0 "[]"] show ?thesis by (simp add: decimal_value)
qed

lemma decimal_length: "n < 10 ^ k \<Longrightarrow> 0 < k \<Longrightarrow> length (decimal n) \<le> k"
proof (induction k arbitrary: n)
  case (Suc k)
  show ?case
  proof (cases "n < 10")
    case True
    then show ?thesis by (subst decimal.simps) simp
  next
    case False
    then have "0 < k" using Suc.prems by (cases k) auto
    moreover have "n div 10 < 10 ^ k" using Suc.prems by (simp add: less_mult_imp_div_less mult.commute)
    ultimately have "length (decimal (n div 10)) \<le> k" by (intro Suc.IH)
    then show ?thesis using False by (subst decimal.simps) simp
  qed
qed simp

lemma int_body_decimal: "length (decimal n) \<le> 4300 \<Longrightarrow> int_body decimal_digit (decimal n) = Inr (int n)"
proof -
  assume "length (decimal n) \<le> 4300"
  then have "length (filter (\<lambda>c. c \<noteq> 95) (decimal n)) \<le> 4300"
    using length_filter_le le_trans by blast
  then show ?thesis by (simp add: int_body_def int_digits_decimal)
qed

lemma py_strip_none: "(\<And>c. c \<in> set s \<Longrightarrow> \<not> is_py_space c) \<Longrightarrow> py_strip s = s"
  using dropWhile_none [of s is_py_space] dropWhile_none [of "rev s" is_py_space] by (simp add: py_strip_def)

lemma nat_abs_less_pow: "\<bar>v\<bar> < 10 ^ k \<Longrightarrow> nat \<bar>v\<bar> < 10 ^ k"
  by (simp add: nat_less_iff)

text \<open>\<^verbatim>\<open>int(str(v)) == v\<close>, for every integer \<^verbatim>\<open>str\<close> converts.\<close>

lemma py_int_text_str: "py_str v = Inr s \<Longrightarrow> py_int_text s = Inr v"
proof -
  assume s: "py_str v = Inr s"
  have b: "\<bar>v\<bar> < 10 ^ 4300" and e: "s = py_str_int v"
    using s unfolding py_str_def by (simp_all only: not_le sum.inject sum.distinct split: if_splits)
  have l: "length (decimal (nat \<bar>v\<bar>)) \<le> 4300"
    by (rule decimal_length [OF nat_abs_less_pow [OF b]]) simp
  have d: "48 \<le> c \<and> c \<le> 57" if "c \<in> set (decimal m)" for c m using decimal_digits [OF that] .
  have "\<not> is_py_space c" if "c \<in> set s" for c
  proof -
    have "c = 45 \<or> 48 \<le> c \<and> c \<le> 57"
      using that d unfolding e py_str_int_def by (auto split: if_splits)
    then show ?thesis by (auto simp: is_py_space_def)
  qed
  then have st: "py_strip s = s" by (rule py_strip_none)
  obtain c t where ct: "decimal (nat \<bar>v\<bar>) = c # t" using decimal_nonempty by (cases "decimal (nat \<bar>v\<bar>)") auto
  have c: "48 \<le> c" using d [of c "nat \<bar>v\<bar>"] ct by simp
  note body = int_body_decimal [OF l, unfolded ct]
  show ?thesis
  proof (cases "v < 0")
    case True
    then have "s = 45 # c # t" using ct by (simp add: e py_str_int_def)
    with True body show ?thesis unfolding py_int_text_def st by (simp add: int_signed_def)
  next
    case False
    then have "s = c # t" using ct by (simp add: e py_str_int_def)
    with False body c show ?thesis unfolding py_int_text_def st by (simp add: int_signed_def)
  qed
qed

end
