(* ===== verification/Json.thy ===== *)
theory Json
  imports PyNum
begin

text \<open>
  JSON values as \<^verbatim>\<open>json.loads\<close> returns them. An object is an association list in source order whose keys are
  distinct, as in a Python dict. A floating point number is given by the text \<^verbatim>\<open>str\<close> shows for it.
\<close>

datatype json =
    JNull
  | JBool bool
  | JInt int
  | JFloat pystr
  | JStr pystr
  | JList "json list"
  | JObject "(pystr \<times> json) list"

text \<open>\<^verbatim>\<open>mapping.get(key)\<close>: a missing key is \<^verbatim>\<open>None\<close>, as \<open>JNull\<close> is.\<close>

definition json_get :: "(pystr \<times> json) list \<Rightarrow> pystr \<Rightarrow> json" where
  "json_get kvs key = (case map_of kvs key of None \<Rightarrow> JNull | Some v \<Rightarrow> v)"

end
