(* ===== verification/VmValue.thy ===== *)
theory VmValue
  imports Json
begin

text \<open>
  \<^verbatim>\<open>vm_value.py\<close>: values decoded from VM storage as the node answers them, a scalar, an array or a struct.
  The three attributes are kept as in the class, so that exactly one of them being set is an invariant and not
  a matter of typing. Nesting is as deep as the JSON parser lets it be; the recursion limit of the interpreter
  is not modelled here, nor is the limit on the digits of an int, which the parser has already enforced.
\<close>

datatype vm_value = VmValue
  (vv_text: "pystr option") (vv_items: "vm_value list option") (vv_fields: "(pystr \<times> vm_value) list option")

definition vm_value_default :: vm_value where
  "vm_value_default = VmValue (Some []) None None"

definition of_text :: "pystr \<Rightarrow> vm_value" where
  "of_text t = VmValue (Some t) None None"

definition of_items :: "vm_value list \<Rightarrow> vm_value" where
  "of_items xs = VmValue None (Some xs) None"

definition of_fields :: "(pystr \<times> vm_value) list \<Rightarrow> vm_value" where
  "of_fields fs = VmValue None None (Some fs)"

definition is_text :: "vm_value \<Rightarrow> bool" where
  "is_text v \<longleftrightarrow> vv_text v \<noteq> None"

definition as_text :: "vm_value \<Rightarrow> pystr option" where
  "as_text v = vv_text v"

definition as_items :: "vm_value \<Rightarrow> vm_value list option" where
  "as_items v = vv_items v"

definition as_fields :: "vm_value \<Rightarrow> (pystr \<times> vm_value) list option" where
  "as_fields v = vv_fields v"

definition vv_get :: "vm_value \<Rightarrow> pystr \<Rightarrow> vm_value option" where
  "vv_get v name = (case vv_fields v of None \<Rightarrow> None | Some fs \<Rightarrow> map_of fs name)"

definition vv_str :: "vm_value \<Rightarrow> pystr" where
  "vv_str v = (case vv_text v of None \<Rightarrow> [] | Some t \<Rightarrow> t)"

fun from_wire :: "json \<Rightarrow> vm_value" where
  "from_wire (JStr t) = of_text t"
| "from_wire (JObject kvs) = of_fields (map (\<lambda>(name, item). (name, from_wire item)) kvs)"
| "from_wire (JList xs) = of_items (map from_wire xs)"
| "from_wire JNull = of_text []"
| "from_wire (JBool b) = of_text (if b then str ''true'' else str ''false'')"
| "from_wire (JInt n) = of_text (py_str_int n)"
| "from_wire (JFloat t) = of_text t"

fun to_wire :: "vm_value \<Rightarrow> json" where
  "to_wire (VmValue text items flds) = (case items of
     Some xs \<Rightarrow> JList (map to_wire xs)
   | None \<Rightarrow> (case flds of
       Some fs \<Rightarrow> JObject (map (\<lambda>(name, item). (name, to_wire item)) fs)
     | None \<Rightarrow> (case text of Some t \<Rightarrow> JStr t | None \<Rightarrow> JNull)))"

section \<open>One shape at a time\<close>

text \<open>\<open>vm_shape\<close>: exactly one of the three attributes is set, all the way down.\<close>

fun vm_shape :: "vm_value \<Rightarrow> bool" where
  "vm_shape (VmValue text items flds) = (case text of
     Some t \<Rightarrow> items = None \<and> flds = None
   | None \<Rightarrow> (case items of
       Some xs \<Rightarrow> flds = None \<and> list_all vm_shape xs
     | None \<Rightarrow> (case flds of Some fs \<Rightarrow> list_all (\<lambda>(name, item). vm_shape item) fs | None \<Rightarrow> False)))"

text \<open>The JSON a value is written back as: numbers and booleans have become their text, null the empty text.\<close>

fun vm_json :: "json \<Rightarrow> json" where
  "vm_json (JStr t) = JStr t"
| "vm_json (JObject kvs) = JObject (map (\<lambda>(name, item). (name, vm_json item)) kvs)"
| "vm_json (JList xs) = JList (map vm_json xs)"
| "vm_json JNull = JStr []"
| "vm_json (JBool b) = JStr (if b then str ''true'' else str ''false'')"
| "vm_json (JInt n) = JStr (py_str_int n)"
| "vm_json (JFloat t) = JStr t"

lemmas vm_value_makers = of_text_def of_items_def of_fields_def

lemma from_wire_shape: "vm_shape (from_wire j)"
  by (induction j) (auto simp: vm_value_makers list_all_iff)

lemma to_from_wire: "to_wire (from_wire j) = vm_json j"
  by (induction j) (auto simp: vm_value_makers)

lemma from_to_wire: "vm_shape v \<Longrightarrow> from_wire (to_wire v) = v"
proof (induction v)
  case (VmValue t items flds)
  consider (scalar) s where "t = Some s" "items = None" "flds = None"
    | (array) xs where "t = None" "items = Some xs" "flds = None" "list_all vm_shape xs"
    | (struct) fs where "t = None" "items = None" "flds = Some fs" "list_all (\<lambda>(name, item). vm_shape item) fs"
    using VmValue.prems by (auto split: option.splits)
  then show ?case
  proof cases
    case array
    then have "map (\<lambda>x. from_wire (to_wire x)) xs = xs"
      using VmValue.IH(1) by (intro map_idI) (auto simp: list_all_iff)
    with array show ?thesis by (simp add: vm_value_makers comp_def)
  next
    case struct
    then have "map (\<lambda>(name, item). (name, from_wire (to_wire item))) fs = fs"
      using VmValue.IH(2) by (intro map_idI) (auto simp: list_all_iff)
    with struct show ?thesis by (simp add: vm_value_makers comp_def case_prod_unfold)
  qed (simp add: vm_value_makers)
qed

text \<open>A VM value read from any JSON is a scalar, an array or a struct, exactly one of them at every level;
  writing it back gives the JSON with its numbers and booleans as text and null as the empty text, and
  that JSON is read as the same value again.
\<close>

theorem vm_value_normalized:
  "vm_shape (from_wire j) \<and> to_wire (from_wire j) = vm_json j \<and> from_wire (vm_json j) = from_wire j"
  using from_wire_shape [of j] from_to_wire [of "from_wire j"] by (simp add: to_from_wire)

end
