(* ===== verification/WireShapes.thy ===== *)
theory WireShapes
  imports VmValue
begin

text \<open>
  \<^verbatim>\<open>_wire_shapes.py\<close>: strict decoding of JSON into dataclasses and writing them back. The code reads the
  fields of a class and their annotations at run time, so classes are data here: a \<open>pyclass\<close> is the list of
  its fields, and \<open>env\<close> is what \<^verbatim>\<open>get_type_hints\<close> resolves class names to, \<open>None\<close> for a name that is no
  dataclass. Objects are \<open>pyval\<close>s; the
  parameter \<open>'e\<close> stands for objects of classes with a \<^verbatim>\<open>from_wire\<close> and \<^verbatim>\<open>to_wire\<close> of their own.
\<close>

section \<open>Classes and objects\<close>

datatype annotation =
    AStr
  | AInt
  | ABool
  | AVmValue
  | AList annotation
  | ADict annotation
  | AOptional annotation
  | AClass string
  | AUnion
  | AOther

datatype 'e pyval =
    PNone
  | PBool bool
  | PInt int
  | PFloat pystr
  | PStr pystr
  | PList "'e pyval list"
  | PDict "(pystr \<times> 'e pyval) list"
  | PVmValue vm_value
  | PObject string "(string \<times> 'e pyval) list"
  | PSelf 'e

datatype 'e field_info = Field
  (fi_name: string) (fi_wire: "string option") (fi_type: annotation) (fi_default: "'e pyval")

type_synonym 'e pyclass = "'e field_info list"

fun of_json :: "json \<Rightarrow> 'e pyval" where
  "of_json JNull = PNone"
| "of_json (JBool b) = PBool b"
| "of_json (JInt n) = PInt n"
| "of_json (JFloat t) = PFloat t"
| "of_json (JStr s) = PStr s"
| "of_json (JList xs) = PList (map of_json xs)"
| "of_json (JObject kvs) = PDict (map (\<lambda>(k, v). (k, of_json v)) kvs)"

text \<open>An instance with every field at its default, and the value of one field.\<close>

definition new_object :: "string \<Rightarrow> 'e pyclass \<Rightarrow> 'e pyval" where
  "new_object c fs = PObject c (map (\<lambda>f. (fi_name f, fi_default f)) fs)"

section \<open>Names\<close>

text \<open>Field names are ASCII identifiers, so \<^verbatim>\<open>upper\<close> is needed for ASCII only.\<close>

fun split_on :: "char \<Rightarrow> string \<Rightarrow> string list" where
  "split_on sep [] = [[]]"
| "split_on sep (c # cs) =
     (if c = sep then [] # split_on sep cs
      else case split_on sep cs of [] \<Rightarrow> [[c]] | part # parts \<Rightarrow> (c # part) # parts)"

definition upper_char :: "char \<Rightarrow> char" where
  "upper_char c = (let n = (of_char c :: nat) in if 97 \<le> n \<and> n \<le> 122 then char_of (n - 32) else c)"

definition snake_to_camel :: "string \<Rightarrow> string" where
  "snake_to_camel value = (case split_on (CHR ''_'') value of
     [] \<Rightarrow> []
   | head # rest \<Rightarrow> head @ concat (map (\<lambda>part. map upper_char (take 1 part) @ drop 1 part) rest))"

definition wire_name_of :: "string \<Rightarrow> string option \<Rightarrow> string" where
  "wire_name_of field_name override = (case override of
     Some w \<Rightarrow> if w \<noteq> [] then w else snake_to_camel field_name
   | None \<Rightarrow> snake_to_camel field_name)"

definition fi_wire_name :: "'e field_info \<Rightarrow> string" where
  "fi_wire_name f = wire_name_of (fi_name f) (fi_wire f)"

section \<open>Strict decoding\<close>

lemma json_list_size: "x \<in> set xs \<Longrightarrow> size x < size (JList xs)"
  by (induction xs) auto

lemma json_object_size: "(k, x) \<in> set kvs \<Longrightarrow> size x < size (JObject kvs)"
  by (induction kvs) auto

lemma json_object_get_size: "map_of kvs k = Some x \<Longrightarrow> size x < size (JObject kvs)"
  by (rule json_object_size) (rule map_of_SomeD)

definition strict_get :: "(pystr \<times> json) list \<Rightarrow> 'e field_info \<Rightarrow> json option" where
  "strict_get raw f = (case map_of raw (str (fi_wire_name f)) of
     Some v \<Rightarrow> Some v
   | None \<Rightarrow> map_of raw (str (fi_name f)))"

lemma strict_get_size: "strict_get kvs f = Some x \<Longrightarrow> size x < size (JObject kvs)"
  by (auto simp: strict_get_def simp del: json.size intro: json_object_get_size split: option.splits)

function decode_field :: "(string \<Rightarrow> 'e pyclass option) \<Rightarrow> annotation \<Rightarrow> json \<Rightarrow> 'e pyval result"
  and decode_shape :: "(string \<Rightarrow> 'e pyclass option) \<Rightarrow> string \<Rightarrow> json \<Rightarrow> 'e pyval result" where
  "decode_field env (AOptional a) v = (if v = JNull then Inr PNone else decode_field env a v)"
| "decode_field env AUnion v = Inl ShapeMismatch"
| "decode_field env AVmValue v = Inr (PVmValue (from_wire v))"
| "decode_field env AStr v = (case v of JStr s \<Rightarrow> Inr (PStr s) | _ \<Rightarrow> Inl ShapeMismatch)"
| "decode_field env ABool v = (case v of JBool b \<Rightarrow> Inr (PBool b) | _ \<Rightarrow> Inl ShapeMismatch)"
| "decode_field env AInt v = (case v of JInt n \<Rightarrow> Inr (PInt n) | _ \<Rightarrow> Inl ShapeMismatch)"
| "decode_field env (AList a) v = (case v of
     JList xs \<Rightarrow> rthen (rmap (\<lambda>x. decode_field env a x) xs) (\<lambda>ys. Inr (PList ys))
   | _ \<Rightarrow> Inl ShapeMismatch)"
| "decode_field env (ADict a) v = (case v of
     JObject kvs \<Rightarrow> rthen (rmap (\<lambda>kv. rthen (decode_field env a (snd kv)) (\<lambda>y. Inr (fst kv, y))) kvs) (\<lambda>ys. Inr (PDict ys))
   | _ \<Rightarrow> Inl ShapeMismatch)"
| "decode_field env (AClass c) v = decode_shape env c v"
| "decode_field env AOther v = Inl ShapeMismatch"
| "decode_shape env c raw = (case raw of
     JObject kvs \<Rightarrow> (case env c of None \<Rightarrow> Inl ShapeMismatch
     | Some flds \<Rightarrow> rthen (rmap (\<lambda>f. case strict_get kvs f of
           None \<Rightarrow> Inr (fi_name f, fi_default f)
         | Some v \<Rightarrow> rthen (decode_field env (fi_type f) v) (\<lambda>x. Inr (fi_name f, x))) flds)
         (\<lambda>fs. Inr (PObject c fs)))
   | _ \<Rightarrow> Inl ShapeMismatch)"
  by pat_completeness auto

termination
proof (relation "inv_image (less_than <*lex*> less_than) (\<lambda>a. case a of
      Inl (env, a, v) \<Rightarrow> (size v, Suc (size a))
    | Inr (env, c, raw) \<Rightarrow> (size raw, 0))", goal_cases)
  case (3 env a v xs x)
  then show ?case using json_list_size by fastforce
next
  case (4 env a v kvs kv)
  then show ?case using json_object_size [of "fst kv" "snd kv" kvs] by (simp del: json.size)
next
  case (6 env c raw kvs flds f v)
  then show ?case using strict_get_size [of kvs f v] by (simp del: json.size)
qed auto

declare decode_shape.simps [simp del]

section \<open>Writing back\<close>

text \<open>
  The fields of an object are in the order of its class. \<open>self\<close> is the \<^verbatim>\<open>to_wire\<close> of the objects that have
  one of their own.
\<close>

definition class_wire_name :: "'e pyclass option \<Rightarrow> string \<Rightarrow> string" where
  "class_wire_name cls name = (case cls of None \<Rightarrow> wire_name_of name None
     | Some flds \<Rightarrow> (case find (\<lambda>f. fi_name f = name) flds of
         None \<Rightarrow> wire_name_of name None
       | Some f \<Rightarrow> fi_wire_name f))"

fun shape_to_wire :: "(string \<Rightarrow> 'e pyclass option) \<Rightarrow> ('e \<Rightarrow> json) \<Rightarrow> 'e pyval \<Rightarrow> json" where
  "shape_to_wire env self PNone = JNull"
| "shape_to_wire env self (PBool b) = JBool b"
| "shape_to_wire env self (PInt n) = JInt n"
| "shape_to_wire env self (PFloat t) = JFloat t"
| "shape_to_wire env self (PStr s) = JStr s"
| "shape_to_wire env self (PList xs) = JList (map (shape_to_wire env self) xs)"
| "shape_to_wire env self (PDict kvs) = JObject (map (\<lambda>(k, x). (k, shape_to_wire env self x)) kvs)"
| "shape_to_wire env self (PVmValue v) = to_wire v"
| "shape_to_wire env self (PSelf e) = self e"
| "shape_to_wire env self (PObject c fs) = JObject (concat (map (\<lambda>(name, x).
     if x = PNone then [] else [(str (class_wire_name (env c) name), shape_to_wire env self x)]) fs))"

section \<open>Objects that follow their annotations\<close>

text \<open>
  \<open>conforms env selfs a x\<close>: \<open>x\<close> is a value an annotation \<open>a\<close> promises, at every level; \<open>selfs c e\<close> says which
  objects of a self-decoding class \<open>c\<close> are meant.
\<close>

lemma pyval_list_size: "x \<in> set xs \<Longrightarrow> size x < size (PList xs)"
  by (induction xs) auto

lemma pyval_dict_size: "(k, x) \<in> set kvs \<Longrightarrow> size x < size (PDict kvs)"
  by (induction kvs) auto

lemma pyval_object_size: "(k, x) \<in> set fs \<Longrightarrow> size x < size (PObject c fs)"
  by (induction fs) auto

function conforms :: "(string \<Rightarrow> 'e pyclass option) \<Rightarrow> (string \<Rightarrow> 'e \<Rightarrow> bool) \<Rightarrow> annotation \<Rightarrow> 'e pyval \<Rightarrow> bool" where
  "conforms env selfs (AOptional a) x \<longleftrightarrow> x = PNone \<or> conforms env selfs a x"
| "conforms env selfs AStr x \<longleftrightarrow> (case x of PStr _ \<Rightarrow> True | _ \<Rightarrow> False)"
| "conforms env selfs AInt x \<longleftrightarrow> (case x of PInt _ \<Rightarrow> True | _ \<Rightarrow> False)"
| "conforms env selfs ABool x \<longleftrightarrow> (case x of PBool _ \<Rightarrow> True | _ \<Rightarrow> False)"
| "conforms env selfs AVmValue x \<longleftrightarrow> (case x of PVmValue v \<Rightarrow> vm_shape v | _ \<Rightarrow> False)"
| "conforms env selfs (AList a) x \<longleftrightarrow> (case x of PList xs \<Rightarrow> list_all (conforms env selfs a) xs | _ \<Rightarrow> False)"
| "conforms env selfs (ADict a) x \<longleftrightarrow>
     (case x of PDict kvs \<Rightarrow> list_all (\<lambda>kv. conforms env selfs a (snd kv)) kvs | _ \<Rightarrow> False)"
| "conforms env selfs (AClass c) x \<longleftrightarrow> (case x of
     PSelf e \<Rightarrow> selfs c e
   | PObject d fs \<Rightarrow> d = c \<and> (case env c of None \<Rightarrow> False | Some flds \<Rightarrow>
       map fst fs = map fi_name flds \<and> list_all (\<lambda>(f, nx). conforms env selfs (fi_type f) (snd nx)) (zip flds fs))
   | _ \<Rightarrow> False)"
| "conforms env selfs AUnion x \<longleftrightarrow> False"
| "conforms env selfs AOther x \<longleftrightarrow> False"
  by pat_completeness auto

termination
proof (relation "inv_image (less_than <*lex*> less_than) (\<lambda>(env, selfs, a, x). (size x, size a))", goal_cases)
  case (3 env selfs a x xs y)
  then show ?case using pyval_list_size by fastforce
next
  case (4 env selfs a x kvs kv)
  then show ?case using pyval_dict_size [of "fst kv" "snd kv" kvs] by (simp del: pyval.size)
next
  case (5 env selfs c x d fs flds f_nx f nx)
  then have "nx \<in> set fs" by (auto dest: set_zip_rightD)
  then have "size (snd nx) < size (PObject d fs)" using pyval_object_size [of "fst nx" "snd nx" fs] by simp
  with 5 show ?case by (simp del: pyval.size)
qed auto

section \<open>What is written is read back\<close>

text \<open>
  A class is fit for its wire form if no two fields share a wire name, no field is called like the wire name of
  another, and an optional field is absent by default.
\<close>

definition names_ok :: "string list \<Rightarrow> string list \<Rightarrow> bool" where
  "names_ok names wires \<longleftrightarrow> distinct names \<and> distinct wires \<and>
     list_all (\<lambda>(name, wire). name = wire \<or> name \<notin> set wires) (zip names wires)"

definition class_ok :: "'e pyclass \<Rightarrow> bool" where
  "class_ok flds \<longleftrightarrow> names_ok (map fi_name flds) (map fi_wire_name flds) \<and>
     list_all (\<lambda>f. case fi_type f of AOptional _ \<Rightarrow> (case fi_default f of PNone \<Rightarrow> True | _ \<Rightarrow> False) | _ \<Rightarrow> True) flds"

definition written_field :: "('v \<Rightarrow> bool) \<Rightarrow> ('v \<Rightarrow> json) \<Rightarrow> ('e field_info \<Rightarrow> 'v) \<Rightarrow> 'e field_info \<Rightarrow> (pystr \<times> json) list" where
  "written_field absent g h f = (if absent (h f) then [] else [(str (fi_wire_name f), g (h f))])"

lemma map_of_written_notin:
  "k \<notin> (str \<circ> fi_wire_name) ` set flds \<Longrightarrow> map_of (concat (map (written_field absent g h) flds)) k = None"
  by (induction flds) (auto simp: written_field_def)

lemma map_of_written:
  "distinct (map fi_wire_name flds) \<Longrightarrow> f \<in> set flds \<Longrightarrow>
   map_of (concat (map (written_field absent g h) flds)) (str (fi_wire_name f)) =
     (if absent (h f) then None else Some (g (h f)))"
proof (induction flds)
  case (Cons f' flds)
  show ?case
  proof (cases "f = f'")
    case True
    with Cons.prems have "str (fi_wire_name f) \<notin> (str \<circ> fi_wire_name) ` set flds"
      by (auto simp: str_inject)
    with True show ?thesis by (simp add: written_field_def [of _ _ _ f'] map_of_written_notin)
  next
    case False
    with Cons.prems have "fi_wire_name f \<in> fi_wire_name ` set flds" by simp
    with Cons.prems(1) have "fi_wire_name f \<noteq> fi_wire_name f'" by auto
    with False Cons show ?thesis by (auto simp: written_field_def [of _ _ _ f'] str_inject)
  qed
qed simp

lemma class_okD:
  assumes "class_ok flds"
  shows "distinct (map fi_name flds)" "distinct (map fi_wire_name flds)"
    "f \<in> set flds \<Longrightarrow> g \<in> set flds \<Longrightarrow> fi_name f = fi_wire_name g \<Longrightarrow> fi_name f = fi_wire_name f"
    "f \<in> set flds \<Longrightarrow> fi_type f = AOptional a \<Longrightarrow> fi_default f = PNone"
proof -
  show "distinct (map fi_name flds)" "distinct (map fi_wire_name flds)"
    using assms unfolding class_ok_def names_ok_def by blast+
  have "\<forall>f \<in> set flds. fi_name f = fi_wire_name f \<or> fi_name f \<notin> fi_wire_name ` set flds"
    using assms by (simp add: class_ok_def names_ok_def zip_map_map zip_same_conv_map list_all_iff)
  then show "f \<in> set flds \<Longrightarrow> g \<in> set flds \<Longrightarrow> fi_name f = fi_wire_name g \<Longrightarrow> fi_name f = fi_wire_name f"
    by blast
  assume f: "f \<in> set flds" "fi_type f = AOptional a"
  have "case fi_type f of AOptional _ \<Rightarrow> (case fi_default f of PNone \<Rightarrow> True | _ \<Rightarrow> False) | _ \<Rightarrow> True"
    using assms f(1) unfolding class_ok_def list_all_iff by blast
  with f(2) show "fi_default f = PNone" by (simp split: pyval.splits)
qed

lemma class_ok_name:
  assumes "class_ok flds" "f \<in> set flds"
  shows "map_of (concat (map (written_field absent g h) flds)) (str (fi_name f)) \<in>
    {None, map_of (concat (map (written_field absent g h) flds)) (str (fi_wire_name f))}"
proof (cases "str (fi_name f) \<in> (str \<circ> fi_wire_name) ` set flds")
  case True
  then obtain f' where "f' \<in> set flds" "fi_name f = fi_wire_name f'" by (auto simp: str_inject)
  from class_okD(3) [OF assms this] show ?thesis by simp
next
  case False
  then show ?thesis using map_of_written_notin by blast
qed

lemma object_fields:
  assumes "distinct (map fi_name flds)" "map fst fs = map fi_name flds"
  obtains h where "fs = map (\<lambda>f. (fi_name f, h f)) flds"
proof -
  define h where "h f = the (map_of fs (fi_name f))" for f :: "'a field_info"
  have "distinct (map fst fs)" using assms by simp
  then have "fs ! i = (fi_name (flds ! i), h (flds ! i))" if "i < length flds" for i
  proof -
    have l: "length fs = length flds" using arg_cong [OF assms(2), of length] by simp
    have n: "fst (fs ! i) = fi_name (flds ! i)" using arg_cong [OF assms(2), of "\<lambda>xs. xs ! i"] that l by simp
    have "map_of fs (fst (fs ! i)) = Some (snd (fs ! i))"
      using \<open>distinct (map fst fs)\<close> that l by (intro map_of_is_SomeI) simp_all
    with n show ?thesis by (simp add: h_def prod_eq_iff)
  qed
  moreover have "length fs = length flds" using arg_cong [OF assms(2), of length] by simp
  ultimately have "fs = map (\<lambda>f. (fi_name f, h f)) flds" by (intro nth_equalityI) simp_all
  then show ?thesis by (rule that)
qed

text \<open>
  What a decoder of annotated values promises. \<open>get\<close> picks the member of an object for a field, \<open>supports\<close>
  are the annotations the promises hold for.
\<close>

locale shape_decoder =
  fixes env :: "string \<Rightarrow> 'e pyclass option" and selfs :: "string \<Rightarrow> 'e \<Rightarrow> bool" and self :: "'e \<Rightarrow> json"
    and supports :: "annotation \<Rightarrow> bool" and get :: "(pystr \<times> json) list \<Rightarrow> 'e field_info \<Rightarrow> json option"
    and dec :: "annotation \<Rightarrow> json \<Rightarrow> 'e pyval result"
  assumes classes: "supports (AClass c) \<Longrightarrow> env c = Some flds \<Longrightarrow> class_ok flds \<and> list_all (supports \<circ> fi_type) flds"
    and parts: "supports (AList a) \<Longrightarrow> supports a" "supports (ADict a) \<Longrightarrow> supports a" "supports (AOptional a) \<Longrightarrow> supports a"
    and dec_scalar: "dec AStr (JStr s) = Inr (PStr s)" "dec AInt (JInt n) = Inr (PInt n)"
      "dec ABool (JBool b) = Inr (PBool b)" "dec AVmValue v = Inr (PVmValue (from_wire v))"
    and dec_optional: "supports (AOptional a) \<Longrightarrow> dec (AOptional a) v = (if v = JNull then Inr PNone else dec a v)"
    and dec_list: "supports (AList a) \<Longrightarrow> rmap (dec a) xs = Inr ys \<Longrightarrow> dec (AList a) (JList xs) = Inr (PList ys)"
    and dec_dict: "supports (ADict a) \<Longrightarrow> rmap (\<lambda>kv. rthen (dec a (snd kv)) (\<lambda>y. Inr (fst kv, y))) kvs = Inr members \<Longrightarrow>
      dec (ADict a) (JObject kvs) = Inr (PDict members)"
    and dec_class: "supports (AClass c) \<Longrightarrow> env c = Some flds \<Longrightarrow>
      rmap (\<lambda>f. case get kvs f of None \<Rightarrow> Inr (fi_name f, fi_default f)
        | Some v \<Rightarrow> rthen (dec (fi_type f) v) (\<lambda>x. Inr (fi_name f, x))) flds = Inr fs \<Longrightarrow>
      dec (AClass c) (JObject kvs) = Inr (PObject c fs)"
    and dec_self: "supports (AClass c) \<Longrightarrow> selfs c e \<Longrightarrow> dec (AClass c) (self e) = Inr (PSelf e)"
    and self_present: "selfs c e \<Longrightarrow> self e \<noteq> JNull"
    and get_written: "supports (AClass c) \<Longrightarrow> env c = Some flds \<Longrightarrow> f \<in> set flds \<Longrightarrow>
      map_of kvs (str (fi_name f)) \<in> {None, map_of kvs (str (fi_wire_name f))} \<Longrightarrow>
      get kvs f = map_of kvs (str (fi_wire_name f))"
begin

lemma written_present: "conforms env selfs a x \<Longrightarrow> x \<noteq> PNone \<Longrightarrow> shape_to_wire env self x \<noteq> JNull"
proof (induction a arbitrary: x)
  case AVmValue
  then obtain v where "x = PVmValue v" "vm_shape v" by (auto split: pyval.splits)
  then show ?case by (cases v) (auto split: option.splits)
qed (auto dest: self_present split: pyval.splits)

lemma object_written:
  assumes "env c = Some flds" "class_ok flds"
  shows "shape_to_wire env self (PObject c (map (\<lambda>f. (fi_name f, h f)) flds)) =
    JObject (concat (map (written_field (\<lambda>x. x = PNone) (shape_to_wire env self) h) flds))"
proof -
  have wire: "class_wire_name (Some flds) (fi_name f) = fi_wire_name f" if "f \<in> set flds" for f
  proof -
    have "find (\<lambda>g. fi_name g = fi_name f) flds = Some f" if "distinct (map fi_name flds)" "f \<in> set flds" for flds
      using that by (induction flds) (auto simp: image_iff)
    with class_okD(1) [OF assms(2)] that show ?thesis by (simp add: class_wire_name_def)
  qed
  show ?thesis
    by (simp add: comp_def assms(1), intro arg_cong [of _ _ concat] map_cong) (simp_all add: wire written_field_def assms(1))
qed

lemma fields_read:
  assumes "supports (AClass c)" "env c = Some flds"
    and "\<And>f. f \<in> set flds \<Longrightarrow> conforms env selfs (fi_type f) (h f)"
    and "\<And>f. f \<in> set flds \<Longrightarrow> dec (fi_type f) (shape_to_wire env self (h f)) = Inr (h f)"
  shows "dec (AClass c) (shape_to_wire env self (PObject c (map (\<lambda>f. (fi_name f, h f)) flds))) =
    Inr (PObject c (map (\<lambda>f. (fi_name f, h f)) flds))"
proof -
  note ok = conjunct1 [OF classes [OF assms(1,2)]]
  let ?W = "concat (map (written_field (\<lambda>x. x = PNone) (shape_to_wire env self) h) flds)"
  have written: "shape_to_wire env self (PObject c (map (\<lambda>f. (fi_name f, h f)) flds)) = JObject ?W"
    by (rule object_written [OF assms(2) ok])
  have "get ?W f = (if h f = PNone then None else Some (shape_to_wire env self (h f)))" if "f \<in> set flds" for f
    by (simp add: get_written [OF assms(1,2) that class_ok_name [OF ok that]]
        map_of_written [OF class_okD(2) [OF ok] that])
  then have step: "(case get ?W f of None \<Rightarrow> Inr (fi_name f, fi_default f)
        | Some v \<Rightarrow> rthen (dec (fi_type f) v) (\<lambda>x. Inr (fi_name f, x))) = Inr (fi_name f, h f)"
    if "f \<in> set flds" for f
    using that assms(3) [OF that] assms(4) [OF that] class_okD(4) [OF ok that]
    by (cases "fi_type f") (auto split: pyval.splits)
  show ?thesis unfolding written by (rule dec_class [OF assms(1,2) rmap_Inr [OF step]])
qed

lemma read_written_any:
  "e = env \<Longrightarrow> s = selfs \<Longrightarrow> conforms e s a x \<Longrightarrow> supports a \<Longrightarrow> dec a (shape_to_wire env self x) = Inr x"
proof (induction e s a x rule: conforms.induct)
  case (1 e s a x)
  show ?case
  proof (cases "x = PNone")
    case True
    with 1(5) show ?thesis by (simp add: dec_optional)
  next
    case False
    with 1(4) have c: "conforms e s a x" by simp
    have "dec a (shape_to_wire env self x) = Inr x"
      using 1(1) [OF 1(2,3) c] 1(5) parts(3) by blast
    moreover have "shape_to_wire env self x \<noteq> JNull" using written_present [OF _ False] c 1(2,3) by blast
    ultimately show ?thesis using 1(5) by (simp add: dec_optional)
  qed
next
  case (5 e s x)
  then show ?case by (auto simp: dec_scalar from_to_wire split: pyval.splits)
next
  case (6 e s a x)
  then obtain xs where x: "x = PList xs" and c: "list_all (conforms env selfs a) xs" by (auto split: pyval.splits)
  have "dec a (shape_to_wire env self y) = Inr y" if "y \<in> set xs" for y
    using 6(1) [OF x that 6(2,3)] c that 6(2,3) parts(1) [OF 6(5)] by (auto simp: list_all_iff)
  then have "rmap (dec a) (map (shape_to_wire env self) xs) = Inr xs" by (intro rmap_map_id)
  with 6(5) x show ?case by (simp add: dec_list)
next
  case (7 e s a x)
  then obtain kvs where x: "x = PDict kvs" and c: "list_all (\<lambda>kv. conforms env selfs a (snd kv)) kvs"
    by (auto split: pyval.splits)
  have "dec a (shape_to_wire env self (snd kv)) = Inr (snd kv)" if "kv \<in> set kvs" for kv
    using 7(1) [OF x that 7(2,3)] c that 7(2,3) parts(2) [OF 7(5)] by (auto simp: list_all_iff)
  then have "rmap (\<lambda>kv. rthen (dec a (snd kv)) (\<lambda>y. Inr (fst kv, y))) (map (\<lambda>(k, x). (k, shape_to_wire env self x)) kvs) = Inr kvs"
    by (intro rmap_map_id) (simp add: case_prod_unfold)
  with 7(5) x show ?case by (simp add: dec_dict)
next
  case (8 e s c x)
  show ?case
  proof (cases x)
    case (PSelf y)
    with 8 show ?thesis by (simp add: dec_self)
  next
    case (PObject d fs)
    with 8 obtain flds where o: "d = c" "env c = Some flds" "map fst fs = map fi_name flds"
      "list_all (\<lambda>(f, nx). conforms env selfs (fi_type f) (snd nx)) (zip flds fs)"
      by (auto split: option.splits)
    note cls = classes [OF 8(5) o(2)]
    then obtain h where fs: "fs = map (\<lambda>f. (fi_name f, h f)) flds"
      using object_fields [OF class_okD(1) [OF conjunct1 [OF cls]] o(3)] by metis
    have c: "conforms env selfs (fi_type f) (h f)" if "f \<in> set flds" for f
      using o(4) that by (auto simp: fs list_all_iff zip_map2 zip_same_conv_map)
    have r: "dec (fi_type f) (shape_to_wire env self (h f)) = Inr (h f)" if "f \<in> set flds" for f
    proof -
      have z: "(f, (fi_name f, h f)) \<in> set (zip flds fs)"
        using that by (auto simp: fs zip_map2 zip_same_conv_map)
      have "e c = Some flds" using o(2) 8(2) by simp
      from 8(1) [OF PObject this z refl 8(2,3)] c [OF that] that cls 8(2,3) show ?thesis
        by (simp add: list_all_iff)
    qed
    show ?thesis unfolding PObject o(1) fs by (rule fields_read [OF 8(5) o(2) c r])
  qed (use 8 in simp_all)
qed (auto simp: dec_scalar split: pyval.splits)

end

text \<open>The strict decoder keeps the contract whenever its classes are fit for their wire form.\<close>

lemma strict_decoder:
  assumes "\<And>c flds. env c = Some flds \<Longrightarrow> class_ok flds"
  shows "shape_decoder env (\<lambda>_ _. False) self (\<lambda>_. True) strict_get (decode_field env)"
proof
  fix c flds and f :: "'a field_info" and kvs :: "(pystr \<times> json) list"
  assume "map_of kvs (str (fi_name f)) \<in> {None, map_of kvs (str (fi_wire_name f))}"
  then show "strict_get kvs f = map_of kvs (str (fi_wire_name f))"
    by (auto simp: strict_get_def split: option.splits)
qed (use assms in \<open>auto simp: decode_shape.simps list_all_iff\<close>)

section \<open>What is decoded follows its annotations\<close>

definition defaults_ok :: "(string \<Rightarrow> 'e pyclass option) \<Rightarrow> 'e pyclass \<Rightarrow> bool" where
  "defaults_ok env flds \<longleftrightarrow> list_all (\<lambda>f. conforms env (\<lambda>_ _. False) (fi_type f) (fi_default f)) flds"

lemma rmap_zip:
  "rmap f xs = Inr ys \<Longrightarrow> length ys = length xs \<and> (\<forall>(x, y) \<in> set (zip xs ys). f x = Inr y)"
  by (induction xs arbitrary: ys) (auto simp: rthen_Inr_iff)

lemma rmap_elem: "rmap f xs = Inr ys \<Longrightarrow> y \<in> set ys \<Longrightarrow> \<exists>x \<in> set xs. f x = Inr y"
  by (induction xs arbitrary: ys) (auto simp: rthen_Inr_iff)

lemma rmap_names:
  "rmap f xs = Inr ys \<Longrightarrow> (\<And>x y. f x = Inr y \<Longrightarrow> fst y = g x) \<Longrightarrow> map fst ys = map g xs"
  by (induction xs arbitrary: ys) (auto simp: rthen_Inr_iff)

lemma decoded_conforms:
  "(\<forall>c flds. env c = Some flds \<longrightarrow> defaults_ok env flds) \<Longrightarrow> decode_field env a v = Inr x \<Longrightarrow>
    conforms env (\<lambda>_ _. False) a x"
  "(\<forall>c flds. env c = Some flds \<longrightarrow> defaults_ok env flds) \<Longrightarrow> decode_shape env c raw = Inr y \<Longrightarrow>
    conforms env (\<lambda>_ _. False) (AClass c) y"
proof (induction env a v and env c raw arbitrary: x and y rule: decode_field_decode_shape.induct)
  case (7 env a v)
  then obtain xs ys where v: "v = JList xs" "rmap (decode_field env a) xs = Inr ys" "x = PList ys"
    by (auto simp: rthen_Inr_iff split: json.splits)
  have "conforms env (\<lambda>_ _. False) a y" if "y \<in> set ys" for y
    using rmap_elem [OF v(2) that] 7(1) [OF v(1) _ 7(2)] by blast
  with v(3) show ?case by (simp add: list_all_iff)
next
  case (8 env a v)
  then obtain kvs ys where v: "v = JObject kvs" "x = PDict ys"
    "rmap (\<lambda>kv. rthen (decode_field env a (snd kv)) (\<lambda>y. Inr (fst kv, y))) kvs = Inr ys"
    by (auto simp: rthen_Inr_iff split: json.splits)
  have "conforms env (\<lambda>_ _. False) a (snd y)" if "y \<in> set ys" for y
  proof -
    from rmap_elem [OF v(3) that] obtain kv where "kv \<in> set kvs" "decode_field env a (snd kv) = Inr (snd y)"
      by (auto simp: rthen_Inr_iff)
    with 8(1) [OF v(1) _ 8(2)] show ?thesis by blast
  qed
  with v(2) show ?case by (simp add: list_all_iff)
next
  case (11 env c raw)
  let ?step = "\<lambda>kvs f. case strict_get kvs f of None \<Rightarrow> Inr (fi_name f, fi_default f)
         | Some v \<Rightarrow> rthen (decode_field env (fi_type f) v) (\<lambda>x. Inr (fi_name f, x))"
  from 11(3) obtain kvs flds fs where r: "raw = JObject kvs" "env c = Some flds" "y = PObject c fs"
    "rmap (?step kvs) flds = Inr fs"
    by (subst (asm) decode_shape.simps) (auto simp: rthen_Inr_iff split: json.splits option.splits)
  have names: "map fst fs = map fi_name flds"
    by (rule rmap_names [OF r(4)]) (auto simp: rthen_Inr_iff split: option.splits)
  have "conforms env (\<lambda>_ _. False) (fi_type f) (snd nx)" if z: "(f, nx) \<in> set (zip flds fs)" for f nx
  proof -
    have f: "f \<in> set flds" using z by (rule set_zip_leftD)
    have s: "?step kvs f = Inr nx" using rmap_zip [OF r(4)] z by blast
    show ?thesis
    proof (cases "strict_get kvs f")
      case None
      with s have "snd nx = fi_default f" by auto
      with 11(2) r(2) f show ?thesis by (auto simp: defaults_ok_def list_all_iff)
    next
      case (Some v)
      with s have "decode_field env (fi_type f) v = Inr (snd nx)" by (auto simp: rthen_Inr_iff)
      with 11(1) [OF r(1,2) f Some 11(2)] show ?thesis .
    qed
  qed
  with r names show ?case by (auto simp: list_all_iff)
qed (auto simp: from_wire_shape split: json.splits if_splits)

text \<open>Decoding raises nothing but \<^verbatim>\<open>ShapeMismatch\<close>.\<close>

lemma decode_error:
  "decode_field env a v = Inl e \<Longrightarrow> e = ShapeMismatch"
  "decode_shape env c raw = Inl e \<Longrightarrow> e = ShapeMismatch"
proof (induction env a v and env c raw rule: decode_field_decode_shape.induct)
  case (11 env c raw)
  from 11(2) show ?case
    by (subst (asm) decode_shape.simps)
      (auto simp: rthen_Inl_iff dest!: rmap_error intro: 11(1) split: json.splits option.splits)
qed (auto simp: rthen_Inl_iff dest!: rmap_error split: json.splits if_splits)



declare conforms.simps [simp del]

end
