(* ===== verification/ArgumentClasses.thy ===== *)
theory ArgumentClasses
  imports WireShapes
begin

text \<open>
  \<^verbatim>\<open>special_resolution_arguments.py\<close>: the argument classes of the calls in a special resolution, one
  definition per dataclass, the table from module and method to class, and the checks that the classes are fit
  for their wire form.
\<close>

section \<open>Classes\<close>

definition RawArguments :: "'e pyclass" where
  "RawArguments = [
     Field ''raw_args'' None AStr (PStr [])]"

definition GasConfigArguments :: "'e pyclass" where
  "GasConfigArguments = [
     Field ''version'' None AStr (PStr []),
     Field ''max_name_length'' None AStr (PStr []),
     Field ''max_token_symbol_length'' None AStr (PStr []),
     Field ''fee_shift'' None AStr (PStr []),
     Field ''max_structure_size'' None AStr (PStr []),
     Field ''fee_multiplier'' None AStr (PStr []),
     Field ''gas_token_id'' None AStr (PStr []),
     Field ''data_token_id'' None AStr (PStr []),
     Field ''minimum_gas_offer'' None AStr (PStr []),
     Field ''data_escrow_per_row'' None AStr (PStr []),
     Field ''gas_fee_transfer'' None AStr (PStr []),
     Field ''gas_fee_query'' None AStr (PStr []),
     Field ''gas_fee_create_token_base'' None AStr (PStr []),
     Field ''gas_fee_create_token_symbol'' None AStr (PStr []),
     Field ''gas_fee_create_token_series'' None AStr (PStr []),
     Field ''gas_fee_per_byte'' None AStr (PStr []),
     Field ''gas_fee_register_name'' None AStr (PStr []),
     Field ''gas_burn_ratio_mul'' None AStr (PStr []),
     Field ''gas_burn_ratio_shift'' None AStr (PStr []),
     Field ''minimum_gas_bill'' None (AOptional AStr) PNone,
     Field ''gas_producer_ratio_mul'' None (AOptional AStr) PNone,
     Field ''gas_producer_ratio_shift'' None (AOptional AStr) PNone,
     Field ''gas_dapp_ratio_mul'' None (AOptional AStr) PNone,
     Field ''gas_dapp_ratio_shift'' None (AOptional AStr) PNone,
     Field ''policy_fee_create_token_base'' None (AOptional AStr) PNone,
     Field ''policy_fee_create_token_symbol'' None (AOptional AStr) PNone,
     Field ''policy_fee_create_token_series'' None (AOptional AStr) PNone,
     Field ''policy_fee_register_name'' None (AOptional AStr) PNone,
     Field ''legacy_data_escrow_per_row'' None (AOptional AStr) PNone]"

definition ChainConfigArguments :: "'e pyclass" where
  "ChainConfigArguments = [
     Field ''version'' None AStr (PStr []),
     Field ''reserved1'' None AStr (PStr []),
     Field ''reserved2'' None AStr (PStr []),
     Field ''reserved3'' None AStr (PStr []),
     Field ''allowed_tx_types'' None AStr (PStr []),
     Field ''expiry_window'' None AStr (PStr []),
     Field ''block_rate_target'' None AStr (PStr [])]"

definition NestedResolutionArguments :: "'e pyclass" where
  "NestedResolutionArguments = [
     Field ''resolution_id'' None AStr (PStr [])]"

definition MetadataArguments :: "'e pyclass" where
  "MetadataArguments = [
     Field ''metadata'' None (ADict AVmValue) (PDict [])]"

definition ConsensusNode :: "'e pyclass" where
  "ConsensusNode = [
     Field ''id'' None AStr (PStr []),
     Field ''type'' None AStr (PStr [])]"

definition NodeConfigArguments :: "'e pyclass" where
  "NodeConfigArguments = [
     Field ''nodes'' None (AList (AClass ''ConsensusNode'')) (PList [])]"

definition RegisterNameArguments :: "'e pyclass" where
  "RegisterNameArguments = [
     Field ''address'' None AStr (PStr []),
     Field ''name'' None AStr (PStr [])]"

definition AddressArguments :: "'e pyclass" where
  "AddressArguments = [
     Field ''address'' None AStr (PStr [])]"

definition NameArguments :: "'e pyclass" where
  "NameArguments = [
     Field ''name'' None AStr (PStr [])]"

definition ExecuteScriptArguments :: "'e pyclass" where
  "ExecuteScriptArguments = [
     Field ''max_gas'' None AStr (PStr []),
     Field ''gas_from'' None AStr (PStr []),
     Field ''script'' None AStr (PStr [])]"

definition RegisterTokenContractArguments :: "'e pyclass" where
  "RegisterTokenContractArguments = [
     Field ''token_id'' None AStr (PStr []),
     Field ''symbol'' None AStr (PStr []),
     Field ''script'' None AStr (PStr []),
     Field ''abi'' None AStr (PStr []),
     Field ''token'' None (AOptional AStr) PNone]"

definition DeployContractArguments :: "'e pyclass" where
  "DeployContractArguments = [
     Field ''from_'' (Some ''from'') AStr (PStr []),
     Field ''contract_name'' None AStr (PStr []),
     Field ''script'' None AStr (PStr []),
     Field ''abi'' None AStr (PStr [])]"

definition PhantasmaVmConfigArguments :: "'e pyclass" where
  "PhantasmaVmConfigArguments = [
     Field ''feature_level'' None AStr (PStr []),
     Field ''gas_constructor'' None AStr (PStr []),
     Field ''gas_nexus'' None AStr (PStr []),
     Field ''gas_organization'' None AStr (PStr []),
     Field ''gas_account'' None AStr (PStr []),
     Field ''gas_leaderboard'' None AStr (PStr []),
     Field ''gas_standard'' None AStr (PStr []),
     Field ''gas_oracle'' None AStr (PStr []),
     Field ''fuel_per_contract_deploy'' None AStr (PStr [])]"

definition ContractStorageRow :: "'e pyclass" where
  "ContractStorageRow = [
     Field ''key'' None AStr (PStr []),
     Field ''value'' None AStr (PStr [])]"

definition ContractStorageTable :: "'e pyclass" where
  "ContractStorageTable = [
     Field ''name'' None AStr (PStr []),
     Field ''rows'' None (AList (AClass ''ContractStorageRow'')) (PList [])]"

definition ImportedContract :: "'e pyclass" where
  "ImportedContract = [
     Field ''name'' None AStr (PStr []),
     Field ''address'' None AStr (PStr []),
     Field ''owner'' None AStr (PStr []),
     Field ''script'' None AStr (PStr []),
     Field ''abi'' None AStr (PStr []),
     Field ''root_variables'' None (AList (AClass ''ContractStorageRow'')) (PList []),
     Field ''tables'' None (AList (AClass ''ContractStorageTable'')) (PList [])]"

definition ImportContractsArguments :: "'e pyclass" where
  "ImportContractsArguments = [
     Field ''contracts_count'' None AStr (PStr (str ''0'')),
     Field ''contracts'' None (AList (AClass ''ImportedContract'')) (PList [])]"

definition SeriesSupplement :: "'e pyclass" where
  "SeriesSupplement = [
     Field ''token'' None AStr (PStr []),
     Field ''token_id'' None AStr (PStr []),
     Field ''phantasma_series_id'' None AStr (PStr []),
     Field ''max_supply'' None AStr (PStr []),
     Field ''mint_count'' None AStr (PStr []),
     Field ''mode'' None AStr (PStr []),
     Field ''script'' None AStr (PStr []),
     Field ''abi'' None AStr (PStr []),
     Field ''rom'' None AStr (PStr [])]"

definition SeriesMintCountRepair :: "'e pyclass" where
  "SeriesMintCountRepair = [
     Field ''token'' None AStr (PStr []),
     Field ''token_id'' None AStr (PStr []),
     Field ''phantasma_series_id'' None AStr (PStr []),
     Field ''imported_live_count'' None AStr (PStr []),
     Field ''script'' None AStr (PStr []),
     Field ''abi'' None AStr (PStr [])]"

definition RepairSeriesArguments :: "'e pyclass" where
  "RepairSeriesArguments = [
     Field ''supplements_count'' None AStr (PStr (str ''0'')),
     Field ''supplements'' None (AList (AClass ''SeriesSupplement'')) (PList []),
     Field ''repairs_count'' None AStr (PStr (str ''0'')),
     Field ''repairs'' None (AList (AClass ''SeriesMintCountRepair'')) (PList [])]"

definition TokenRepair :: "'e pyclass" where
  "TokenRepair = [
     Field ''token'' None AStr (PStr []),
     Field ''token_id'' None AStr (PStr []),
     Field ''symbol'' None AStr (PStr []),
     Field ''script'' None AStr (PStr []),
     Field ''abi'' None AStr (PStr []),
     Field ''token_flags'' None AStr (PStr []),
     Field ''repair_mask'' None AStr (PStr [])]"

definition RepairTokenArguments :: "'e pyclass" where
  "RepairTokenArguments = [
     Field ''repairs_count'' None AStr (PStr (str ''0'')),
     Field ''repairs'' None (AList (AClass ''TokenRepair'')) (PList [])]"

definition TokenReferenceArguments :: "'e pyclass" where
  "TokenReferenceArguments = [
     Field ''token'' None AStr (PStr []),
     Field ''token_id'' None AStr (PStr [])]"

definition TokenSeriesReferenceArguments :: "'e pyclass" where
  "TokenSeriesReferenceArguments = TokenReferenceArguments @ [
     Field ''series_id'' None AStr (PStr [])]"

definition SymbolArguments :: "'e pyclass" where
  "SymbolArguments = [
     Field ''symbol'' None AStr (PStr [])]"

definition TransferFungibleArguments :: "'e pyclass" where
  "TransferFungibleArguments = TokenReferenceArguments @ [
     Field ''from_'' (Some ''from'') AStr (PStr []),
     Field ''to'' None AStr (PStr []),
     Field ''amount'' None AStr (PStr [])]"

definition TransferNonFungibleArguments :: "'e pyclass" where
  "TransferNonFungibleArguments = TokenReferenceArguments @ [
     Field ''from_'' (Some ''from'') AStr (PStr []),
     Field ''to'' None AStr (PStr []),
     Field ''instance_ids'' None (AList AStr) (PList [])]"

definition MintFungibleArguments :: "'e pyclass" where
  "MintFungibleArguments = TokenReferenceArguments @ [
     Field ''to'' None AStr (PStr []),
     Field ''amount'' None AStr (PStr [])]"

definition BurnFungibleArguments :: "'e pyclass" where
  "BurnFungibleArguments = TokenReferenceArguments @ [
     Field ''from_'' (Some ''from'') AStr (PStr []),
     Field ''amount'' None AStr (PStr [])]"

definition BalanceArguments :: "'e pyclass" where
  "BalanceArguments = TokenReferenceArguments @ [
     Field ''address'' None AStr (PStr [])]"

definition CreateTokenArguments :: "'e pyclass" where
  "CreateTokenArguments = [
     Field ''symbol'' None AStr (PStr []),
     Field ''owner'' None AStr (PStr []),
     Field ''max_supply'' None AStr (PStr []),
     Field ''decimals'' None AStr (PStr []),
     Field ''flags'' None AStr (PStr []),
     Field ''metadata'' None (AOptional (ADict AVmValue)) PNone,
     Field ''token_schemas'' None (AOptional AStr) PNone]"

definition TokenSeriesArguments :: "'e pyclass" where
  "TokenSeriesArguments = TokenReferenceArguments @ [
     Field ''owner'' None AStr (PStr []),
     Field ''max_mint'' None AStr (PStr []),
     Field ''max_supply'' None AStr (PStr []),
     Field ''metadata'' None (AOptional (ADict AVmValue)) PNone,
     Field ''series_id'' None (AOptional AStr) PNone,
     Field ''metadata_raw'' None (AOptional AStr) PNone]"

definition CreateMintedTokenSeriesArguments :: "'e pyclass" where
  "CreateMintedTokenSeriesArguments = TokenSeriesArguments @ [
     Field ''recipient'' None AStr (PStr []),
     Field ''roms'' None (AList AStr) (PList []),
     Field ''rams'' None (AList AStr) (PList [])]"

definition NftMint :: "'e pyclass" where
  "NftMint = [
     Field ''series_id'' None AStr (PStr []),
     Field ''rom'' None AStr (PStr []),
     Field ''ram'' None AStr (PStr [])]"

definition PhantasmaNftMint :: "'e pyclass" where
  "PhantasmaNftMint = [
     Field ''phantasma_series_id'' None AStr (PStr []),
     Field ''rom'' None AStr (PStr []),
     Field ''ram'' None AStr (PStr [])]"

definition MintNonFungibleArguments :: "'e pyclass" where
  "MintNonFungibleArguments = TokenReferenceArguments @ [
     Field ''owner'' None AStr (PStr []),
     Field ''tokens'' None (AList (AClass ''NftMint'')) (PList [])]"

definition MintPhantasmaNonFungibleArguments :: "'e pyclass" where
  "MintPhantasmaNonFungibleArguments = TokenReferenceArguments @ [
     Field ''owner'' None AStr (PStr []),
     Field ''tokens'' None (AList (AClass ''PhantasmaNftMint'')) (PList [])]"

definition BurnNonFungibleArguments :: "'e pyclass" where
  "BurnNonFungibleArguments = TokenReferenceArguments @ [
     Field ''address'' None AStr (PStr []),
     Field ''instance_ids'' None (AList AStr) (PList [])]"

definition NonFungibleInfoArguments :: "'e pyclass" where
  "NonFungibleInfoArguments = TokenReferenceArguments @ [
     Field ''instance_id'' None AStr (PStr []),
     Field ''get_schemas'' None AStr (PStr [])]"

definition NonFungibleInfoByRomIdArguments :: "'e pyclass" where
  "NonFungibleInfoByRomIdArguments = TokenReferenceArguments @ [
     Field ''rom_id'' None AStr (PStr []),
     Field ''get_schemas'' None AStr (PStr [])]"

definition SeriesInfoByMetaIdArguments :: "'e pyclass" where
  "SeriesInfoByMetaIdArguments = TokenReferenceArguments @ [
     Field ''rom_id'' None AStr (PStr [])]"

definition TokensConfigArguments :: "'e pyclass" where
  "TokensConfigArguments = [
     Field ''flags'' None AStr (PStr []),
     Field ''flags_names'' None (AList AStr) (PList [])]"

definition UpdateTokenMetadataArguments :: "'e pyclass" where
  "UpdateTokenMetadataArguments = TokenReferenceArguments @ [
     Field ''metadata'' None (AOptional (ADict AVmValue)) PNone]"

definition UpdateSeriesMetadataArguments :: "'e pyclass" where
  "UpdateSeriesMetadataArguments = TokenReferenceArguments @ [
     Field ''series_id'' None AStr (PStr []),
     Field ''metadata'' None AStr (PStr [])]"

definition argument_classes :: "(string \<times> 'e pyclass) list" where
  "argument_classes = [
     (''RawArguments'', RawArguments),
     (''GasConfigArguments'', GasConfigArguments),
     (''ChainConfigArguments'', ChainConfigArguments),
     (''NestedResolutionArguments'', NestedResolutionArguments),
     (''MetadataArguments'', MetadataArguments),
     (''ConsensusNode'', ConsensusNode),
     (''NodeConfigArguments'', NodeConfigArguments),
     (''RegisterNameArguments'', RegisterNameArguments),
     (''AddressArguments'', AddressArguments),
     (''NameArguments'', NameArguments),
     (''ExecuteScriptArguments'', ExecuteScriptArguments),
     (''RegisterTokenContractArguments'', RegisterTokenContractArguments),
     (''DeployContractArguments'', DeployContractArguments),
     (''PhantasmaVmConfigArguments'', PhantasmaVmConfigArguments),
     (''ContractStorageRow'', ContractStorageRow),
     (''ContractStorageTable'', ContractStorageTable),
     (''ImportedContract'', ImportedContract),
     (''ImportContractsArguments'', ImportContractsArguments),
     (''SeriesSupplement'', SeriesSupplement),
     (''SeriesMintCountRepair'', SeriesMintCountRepair),
     (''RepairSeriesArguments'', RepairSeriesArguments),
     (''TokenRepair'', TokenRepair),
     (''RepairTokenArguments'', RepairTokenArguments),
     (''TokenReferenceArguments'', TokenReferenceArguments),
     (''TokenSeriesReferenceArguments'', TokenSeriesReferenceArguments),
     (''SymbolArguments'', SymbolArguments),
     (''TransferFungibleArguments'', TransferFungibleArguments),
     (''TransferNonFungibleArguments'', TransferNonFungibleArguments),
     (''MintFungibleArguments'', MintFungibleArguments),
     (''BurnFungibleArguments'', BurnFungibleArguments),
     (''BalanceArguments'', BalanceArguments),
     (''CreateTokenArguments'', CreateTokenArguments),
     (''TokenSeriesArguments'', TokenSeriesArguments),
     (''CreateMintedTokenSeriesArguments'', CreateMintedTokenSeriesArguments),
     (''NftMint'', NftMint),
     (''PhantasmaNftMint'', PhantasmaNftMint),
     (''MintNonFungibleArguments'', MintNonFungibleArguments),
     (''MintPhantasmaNonFungibleArguments'', MintPhantasmaNonFungibleArguments),
     (''BurnNonFungibleArguments'', BurnNonFungibleArguments),
     (''NonFungibleInfoArguments'', NonFungibleInfoArguments),
     (''NonFungibleInfoByRomIdArguments'', NonFungibleInfoByRomIdArguments),
     (''SeriesInfoByMetaIdArguments'', SeriesInfoByMetaIdArguments),
     (''TokensConfigArguments'', TokensConfigArguments),
     (''UpdateTokenMetadataArguments'', UpdateTokenMetadataArguments),
     (''UpdateSeriesMetadataArguments'', UpdateSeriesMetadataArguments)]"

section \<open>Classes of the methods\<close>

definition ARGUMENT_SHAPES :: "(string \<times> (string \<times> string) list) list" where
  "ARGUMENT_SHAPES = [
     (''governance'', [
       (''SetGasConfig'', ''GasConfigArguments''),
       (''SetChainConfig'', ''ChainConfigArguments''),
       (''SpecialResolution'', ''NestedResolutionArguments''),
       (''SetMetadata'', ''MetadataArguments''),
       (''SetNodeConfig'', ''NodeConfigArguments''),
       (''RegisterName'', ''RegisterNameArguments''),
       (''LookupName'', ''AddressArguments''),
       (''LookupAddress'', ''NameArguments'')]),
     (''phantasma_vm'', [
       (''ExecuteScript'', ''ExecuteScriptArguments''),
       (''RegisterTokenContract'', ''RegisterTokenContractArguments''),
       (''DeployContract'', ''DeployContractArguments''),
       (''IsContractDeployed'', ''NameArguments''),
       (''SetConfig'', ''PhantasmaVmConfigArguments''),
       (''ImportContracts'', ''ImportContractsArguments''),
       (''RepairSeries'', ''RepairSeriesArguments''),
       (''RepairToken'', ''RepairTokenArguments'')]),
     (''token'', [
       (''TransferFungible'', ''TransferFungibleArguments''),
       (''TransferNonFungible'', ''TransferNonFungibleArguments''),
       (''CreateToken'', ''CreateTokenArguments''),
       (''MintFungible'', ''MintFungibleArguments''),
       (''BurnFungible'', ''BurnFungibleArguments''),
       (''GetBalance'', ''BalanceArguments''),
       (''CreateTokenSeries'', ''TokenSeriesArguments''),
       (''DeleteTokenSeries'', ''TokenSeriesReferenceArguments''),
       (''MintNonFungible'', ''MintNonFungibleArguments''),
       (''BurnNonFungible'', ''BurnNonFungibleArguments''),
       (''GetNonFungibleInfo'', ''NonFungibleInfoArguments''),
       (''GetNonFungibleInfoByRomId'', ''NonFungibleInfoByRomIdArguments''),
       (''GetSeriesInfo'', ''TokenSeriesReferenceArguments''),
       (''GetSeriesInfoByMetaId'', ''SeriesInfoByMetaIdArguments''),
       (''GetTokenInfo'', ''TokenReferenceArguments''),
       (''GetTokenInfoBySymbol'', ''SymbolArguments''),
       (''GetTokenSupply'', ''TokenReferenceArguments''),
       (''GetSeriesSupply'', ''TokenSeriesReferenceArguments''),
       (''GetTokenIdBySymbol'', ''SymbolArguments''),
       (''GetBalances'', ''AddressArguments''),
       (''CreateMintedTokenSeries'', ''CreateMintedTokenSeriesArguments''),
       (''ApplyInflation'', ''TokenReferenceArguments''),
       (''UpdateTokenMetadata'', ''UpdateTokenMetadataArguments''),
       (''GetNextTokenInflation'', ''TokenReferenceArguments''),
       (''SetTokensConfig'', ''TokensConfigArguments''),
       (''UpdateSeriesMetadata'', ''UpdateSeriesMetadataArguments''),
       (''MintPhantasmaNonFungible'', ''MintPhantasmaNonFungibleArguments'')])]"

definition argument_env :: "string \<Rightarrow> unit pyclass option" where
  "argument_env = map_of argument_classes"

section \<open>The classes are fit for their wire form\<close>

lemmas special_classes = RawArguments_def GasConfigArguments_def ChainConfigArguments_def
  NestedResolutionArguments_def MetadataArguments_def ConsensusNode_def NodeConfigArguments_def
  RegisterNameArguments_def AddressArguments_def NameArguments_def ExecuteScriptArguments_def
  RegisterTokenContractArguments_def DeployContractArguments_def PhantasmaVmConfigArguments_def
  ContractStorageRow_def ContractStorageTable_def ImportedContract_def ImportContractsArguments_def
  SeriesSupplement_def SeriesMintCountRepair_def RepairSeriesArguments_def TokenRepair_def
  RepairTokenArguments_def TokenReferenceArguments_def TokenSeriesReferenceArguments_def SymbolArguments_def
  TransferFungibleArguments_def TransferNonFungibleArguments_def MintFungibleArguments_def
  BurnFungibleArguments_def BalanceArguments_def CreateTokenArguments_def TokenSeriesArguments_def
  CreateMintedTokenSeriesArguments_def NftMint_def PhantasmaNftMint_def MintNonFungibleArguments_def
  MintPhantasmaNonFungibleArguments_def BurnNonFungibleArguments_def NonFungibleInfoArguments_def
  NonFungibleInfoByRomIdArguments_def SeriesInfoByMetaIdArguments_def TokensConfigArguments_def
  UpdateTokenMetadataArguments_def UpdateSeriesMetadataArguments_def

lemma argument_classes_ok: "list_all (\<lambda>(c, flds). class_ok flds) (argument_classes :: (string \<times> unit pyclass) list)"
  by code_simp

lemma argument_defaults_ok: "list_all (\<lambda>(c, flds). defaults_ok argument_env flds) argument_classes"
  by (simp add: special_classes argument_classes_def defaults_ok_def conforms.simps)

text \<open>Every class named in the table of methods, or in a field of a class, is one of the classes.\<close>

fun annotation_classes :: "annotation \<Rightarrow> string list" where
  "annotation_classes (AList a) = annotation_classes a"
| "annotation_classes (ADict a) = annotation_classes a"
| "annotation_classes (AOptional a) = annotation_classes a"
| "annotation_classes (AClass c) = [c]"
| "annotation_classes _ = []"

definition has_classes :: "(string \<times> 'e pyclass) list \<Rightarrow> string list \<Rightarrow> bool" where
  "has_classes table names \<longleftrightarrow> set names \<subseteq> fst ` set table"

lemma argument_classes_closed:
  "list_all (\<lambda>(module, methods). has_classes (argument_classes :: (string \<times> unit pyclass) list) (map snd methods)) ARGUMENT_SHAPES"
  "list_all (\<lambda>(c, flds). has_classes (argument_classes :: (string \<times> unit pyclass) list)
     (concat (map (annotation_classes \<circ> fi_type) flds))) (argument_classes :: (string \<times> unit pyclass) list)"
  by (simp_all add: ARGUMENT_SHAPES_def argument_classes_def special_classes has_classes_def)

text \<open>Only \<^verbatim>\<open>RawArguments\<close> has a member \<^verbatim>\<open>rawArgs\<close>.\<close>

lemma argument_wire_names:
  "list_all (\<lambda>(c, flds). c = ''RawArguments'' \<or> ''rawArgs'' \<notin> set (map fi_wire_name flds)) (argument_classes :: (string \<times> unit pyclass) list)"
  by code_simp

end
