(* ===== verification/WireReads.thy ===== *)
theory WireReads
  imports WireShapes
begin

text \<open>
  What JSON means under an annotation, said as a relation and without a decoder: the reference the decoders of
  \<^verbatim>\<open>_wire_shapes.py\<close> are compared with. A member of a class may be spelled with its wire name or its Python name,
  the wire name first; a member that is not there has the default; members no field asks for do not count.
\<close>

definition spelled :: "(pystr \<times> json) list \<Rightarrow> 'e field_info \<Rightarrow> json \<Rightarrow> bool" where
  "spelled kvs f v \<longleftrightarrow> map_of kvs (str (fi_wire_name f)) = Some v \<or>
     map_of kvs (str (fi_wire_name f)) = None \<and> map_of kvs (str (fi_name f)) = Some v"

lemma list_all2_monotone [mono]: "(\<And>x y. P x y \<longrightarrow> Q x y) \<Longrightarrow> list_all2 P xs ys \<longrightarrow> list_all2 Q xs ys"
  by (auto intro: list_all2_mono)

inductive denotes :: "(string \<Rightarrow> 'e pyclass option) \<Rightarrow> annotation \<Rightarrow> json \<Rightarrow> 'e pyval \<Rightarrow> bool" for env where
  denotes_str: "denotes env AStr (JStr s) (PStr s)"
| denotes_int: "denotes env AInt (JInt n) (PInt n)"
| denotes_bool: "denotes env ABool (JBool b) (PBool b)"
| denotes_vm: "denotes env AVmValue v (PVmValue (from_wire v))"
| denotes_none: "denotes env (AOptional a) JNull PNone"
| denotes_some: "v \<noteq> JNull \<Longrightarrow> denotes env a v x \<Longrightarrow> denotes env (AOptional a) v x"
| denotes_list: "list_all2 (denotes env a) vs xs \<Longrightarrow> denotes env (AList a) (JList vs) (PList xs)"
| denotes_dict: "list_all2 (\<lambda>kv kx. fst kv = fst kx \<and> denotes env a (snd kv) (snd kx)) kvs kxs \<Longrightarrow>
    denotes env (ADict a) (JObject kvs) (PDict kxs)"
| denotes_object: "env c = Some flds \<Longrightarrow>
    list_all2 (\<lambda>f nx. fst nx = fi_name f \<and>
      ((\<exists>v. spelled kvs f v \<and> denotes env (fi_type f) v (snd nx)) \<or> (\<nexists>v. spelled kvs f v) \<and> snd nx = fi_default f)) flds fs \<Longrightarrow>
    denotes env (AClass c) (JObject kvs) (PObject c fs)"

inductive_simps denotes_simps:
  "denotes env AStr v x" "denotes env AInt v x" "denotes env ABool v x" "denotes env AVmValue v x"
  "denotes env (AOptional a) v x" "denotes env (AList a) v x" "denotes env (ADict a) v x" "denotes env (AClass c) v x"
  "denotes env AUnion v x" "denotes env AOther v x"

lemma rmap_all2: "rmap f xs = Inr ys \<longleftrightarrow> list_all2 (\<lambda>x y. f x = Inr y) xs ys"
  by (induction xs arbitrary: ys) (auto simp: rthen_Inr_iff list_all2_Cons1)

lemma list_all2_same: "(\<And>x y. x \<in> set xs \<Longrightarrow> P x y \<longleftrightarrow> Q x y) \<Longrightarrow> list_all2 P xs ys \<longleftrightarrow> list_all2 Q xs ys"
  by (rule list.rel_cong) auto

text \<open>The decoder is exactly that relation.\<close>

theorem decode_denotes:
  "decode_field env a v = Inr x \<longleftrightarrow> denotes env a v x"
  "decode_shape env c raw = Inr y \<longleftrightarrow> denotes env (AClass c) raw y"
proof (induction env a v and env c raw arbitrary: x and y rule: decode_field_decode_shape.induct)
  case (1 env a v)
  then show ?case by (auto simp: denotes_simps(5))
next
  case (7 env a v)
  show ?case
  proof (cases v)
    case (JList vs)
    have "list_all2 (\<lambda>v x. decode_field env a v = Inr x) vs xs \<longleftrightarrow> list_all2 (denotes env a) vs xs" for xs
      using 7 [OF JList] by (intro list_all2_same) blast
    then show ?thesis by (auto simp: JList denotes_simps rthen_Inr_iff rmap_all2)
  qed (simp_all add: denotes_simps)
next
  case (8 env a v)
  show ?case
  proof (cases v)
    case (JObject kvs)
    have "list_all2 (\<lambda>kv kx. rthen (decode_field env a (snd kv)) (\<lambda>y. Inr (fst kv, y)) = Inr kx) kvs kxs \<longleftrightarrow>
        list_all2 (\<lambda>kv kx. fst kv = fst kx \<and> denotes env a (snd kv) (snd kx)) kvs kxs" for kxs
      using 8 [OF JObject] by (intro list_all2_same) (auto simp: rthen_Inr_iff)
    then show ?thesis by (auto simp: JObject denotes_simps rthen_Inr_iff rmap_all2)
  qed (simp_all add: denotes_simps)
next
  case (11 env c raw)
  show ?case
  proof (cases raw)
    case (JObject kvs)
    show ?thesis
    proof (cases "env c")
      case (Some flds)
      have "(case strict_get kvs f of None \<Rightarrow> Inr (fi_name f, fi_default f)
          | Some v \<Rightarrow> rthen (decode_field env (fi_type f) v) (\<lambda>x. Inr (fi_name f, x))) = Inr nx \<longleftrightarrow>
        fst nx = fi_name f \<and> ((\<exists>v. spelled kvs f v \<and> denotes env (fi_type f) v (snd nx)) \<or>
          (\<nexists>v. spelled kvs f v) \<and> snd nx = fi_default f)" if f: "f \<in> set flds" for f nx
      proof (cases "strict_get kvs f")
        case None
        then have "\<nexists>v. spelled kvs f v" by (auto simp: strict_get_def spelled_def split: option.splits)
        with None show ?thesis by (cases nx) auto
      next
        case (Some v)
        then have "spelled kvs f w \<longleftrightarrow> w = v" for w by (auto simp: strict_get_def spelled_def split: option.splits)
        with Some 11 [OF JObject \<open>env c = Some flds\<close> f Some] show ?thesis by (cases nx) (auto simp: rthen_Inr_iff)
      qed
      note members = list_all2_same [OF this]
      show ?thesis by (auto simp: decode_shape.simps JObject Some denotes_simps rthen_Inr_iff rmap_all2 members)
    qed (simp add: decode_shape.simps JObject denotes_simps)
  qed (simp_all add: decode_shape.simps denotes_simps)
qed (auto simp: denotes_simps split: json.splits)

text \<open>Members that no field of the class asks for change nothing, so they are not in the object.\<close>

lemma denotes_members:
  assumes "env c = Some flds"
    "list_all (\<lambda>f. map_of kvs (str (fi_wire_name f)) = map_of kvs' (str (fi_wire_name f)) \<and>
       map_of kvs (str (fi_name f)) = map_of kvs' (str (fi_name f))) flds"
  shows "denotes env (AClass c) (JObject kvs) x \<longleftrightarrow> denotes env (AClass c) (JObject kvs') x"
proof -
  have "spelled kvs f v \<longleftrightarrow> spelled kvs' f v" if "f \<in> set flds" for f v
    using assms(2) that by (simp add: spelled_def list_all_iff)
  then have "list_all2 (\<lambda>f nx. fst nx = fi_name f \<and>
      ((\<exists>v. spelled kvs f v \<and> denotes env (fi_type f) v (snd nx)) \<or> (\<nexists>v. spelled kvs f v) \<and> snd nx = fi_default f)) flds fs \<longleftrightarrow>
    list_all2 (\<lambda>f nx. fst nx = fi_name f \<and>
      ((\<exists>v. spelled kvs' f v \<and> denotes env (fi_type f) v (snd nx)) \<or> (\<nexists>v. spelled kvs' f v) \<and> snd nx = fi_default f)) flds fs" for fs
    by (intro list_all2_same) auto
  then show ?thesis by (simp add: denotes_simps(8) assms(1))
qed

end
