(* ===== verification/SpecialResolution.thy ===== *)
theory SpecialResolution
  imports ArgumentClasses WireReads
begin

text \<open>
  \<^verbatim>\<open>special_resolution_arguments.py\<close>: the dispatch from module and method to the class of the arguments.
  Arguments are either an object of a modelled class or the JSON as it came.
\<close>

section \<open>Dispatch\<close>

datatype special_resolution_arguments =
    ModelledArguments "unit pyval"
  | UnrecognizedArguments json

definition argument_shape :: "pystr \<Rightarrow> pystr \<Rightarrow> string option" where
  "argument_shape module meth = (case map_of (map (\<lambda>(k, v). (str k, v)) ARGUMENT_SHAPES) module of
     None \<Rightarrow> None
   | Some methods \<Rightarrow> map_of (map (\<lambda>(k, v). (str k, v)) methods) meth)"

text \<open>\<^verbatim>\<open>try: decode_shape ... except ShapeMismatch\<close>; no other exception comes out of decoding.\<close>

definition decode_or_keep :: "string \<Rightarrow> json \<Rightarrow> special_resolution_arguments result" where
  "decode_or_keep shape raw = (case decode_shape argument_env shape raw of
     Inr x \<Rightarrow> Inr (ModelledArguments x)
   | Inl e \<Rightarrow> if e = ShapeMismatch then Inr (UnrecognizedArguments raw) else Inl e)"

definition decode_special_resolution_arguments ::
  "pystr \<Rightarrow> pystr \<Rightarrow> json \<Rightarrow> special_resolution_arguments option result" where
  "decode_special_resolution_arguments module meth raw = (case raw of
     JNull \<Rightarrow> Inr None
   | JObject kvs \<Rightarrow>
       if map_of kvs (str ''rawArgs'') \<noteq> None then rthen (decode_or_keep ''RawArguments'' raw) (\<lambda>a. Inr (Some a))
       else (case argument_shape module meth of
           None \<Rightarrow> Inr (Some (UnrecognizedArguments raw))
         | Some shape \<Rightarrow> rthen (decode_or_keep shape raw) (\<lambda>a. Inr (Some a)))
   | _ \<Rightarrow> Inr (Some (UnrecognizedArguments raw)))"

lemma argument_class:
  assumes "argument_env c = Some flds"
  shows "class_ok flds" "defaults_ok argument_env flds" "c \<noteq> ''RawArguments'' \<Longrightarrow> ''rawArgs'' \<notin> set (map fi_wire_name flds)"
proof -
  have "(c, flds) \<in> set argument_classes" using assms by (simp add: argument_env_def map_of_SomeD)
  then show "class_ok flds" "defaults_ok argument_env flds"
    "c \<noteq> ''RawArguments'' \<Longrightarrow> ''rawArgs'' \<notin> set (map fi_wire_name flds)"
    using argument_classes_ok argument_defaults_ok argument_wire_names unfolding list_all_iff by blast+
qed

interpretation arguments: shape_decoder argument_env "\<lambda>_ _. False" "\<lambda>_. JNull" "\<lambda>_. True" strict_get
  "decode_field argument_env"
  by (rule strict_decoder) (rule argument_class(1))

section \<open>Writing arguments\<close>

definition arguments_to_wire :: "special_resolution_arguments \<Rightarrow> json" where
  "arguments_to_wire a = (case a of
     ModelledArguments x \<Rightarrow> shape_to_wire argument_env (\<lambda>_. JNull) x
   | UnrecognizedArguments data \<Rightarrow> data)"

text \<open>
  Arguments that belong to a call of a method: an object of the class of the method, or of \<^verbatim>\<open>RawArguments\<close>, or
  JSON that no class of the method takes.
\<close>

definition arguments_ok :: "pystr \<Rightarrow> pystr \<Rightarrow> special_resolution_arguments \<Rightarrow> bool" where
  "arguments_ok module meth a = (case a of
     ModelledArguments x \<Rightarrow> conforms argument_env (\<lambda>_ _. False) (AClass ''RawArguments'') x \<or>
       (case argument_shape module meth of None \<Rightarrow> False | Some c \<Rightarrow>
         c \<noteq> ''RawArguments'' \<and> conforms argument_env (\<lambda>_ _. False) (AClass c) x)
   | UnrecognizedArguments data \<Rightarrow> decode_special_resolution_arguments module meth data = Inr (Some a))"

lemma decode_or_keep_eq:
  "decode_or_keep c raw = Inr (case decode_shape argument_env c raw of
     Inr x \<Rightarrow> ModelledArguments x | Inl _ \<Rightarrow> UnrecognizedArguments raw)"
  by (auto simp: decode_or_keep_def dest: decode_error(2) split: sum.splits)

lemma decode_written:
  "conforms argument_env (\<lambda>_ _. False) (AClass c) x \<Longrightarrow>
   decode_shape argument_env c (shape_to_wire argument_env (\<lambda>_. JNull) x) = Inr x"
  using arguments.read_written_any [of argument_env "\<lambda>_ _. False" "AClass c" x] by simp

lemma conforms_object:
  assumes "conforms argument_env (\<lambda>_ _. False) (AClass c) x"
  obtains flds fs where "x = PObject c fs" "argument_env c = Some flds" "map fst fs = map fi_name flds"
    "list_all (\<lambda>(f, nx). conforms argument_env (\<lambda>_ _. False) (fi_type f) (snd nx)) (zip flds fs)"
  using assms by (auto simp: conforms.simps split: pyval.splits option.splits)

lemma raw_arguments_class: "argument_env ''RawArguments'' = Some RawArguments"
  by (simp add: argument_env_def argument_classes_def)

lemma raw_arguments_written:
  assumes "conforms argument_env (\<lambda>_ _. False) (AClass ''RawArguments'') x"
  obtains s where "shape_to_wire argument_env (\<lambda>_. JNull) x = JObject [(str ''rawArgs'', JStr s)]"
proof -
  have w: "class_wire_name (Some (RawArguments :: unit pyclass)) ''raw_args'' = ''rawArgs''" by code_simp
  obtain flds fs where x: "x = PObject ''RawArguments'' fs" "argument_env ''RawArguments'' = Some flds"
    and o: "map fst fs = map fi_name flds"
      "list_all (\<lambda>(f, nx). conforms argument_env (\<lambda>_ _. False) (fi_type f) (snd nx)) (zip flds fs)"
    using conforms_object [OF assms] .
  have flds: "flds = RawArguments" using x(2) raw_arguments_class by simp
  then obtain y where y: "fs = [(''raw_args'', y)]" using o(1) by (cases fs) (auto simp: RawArguments_def)
  with o(2) obtain s where "fs = [(''raw_args'', PStr s)]"
    unfolding flds by (auto simp: RawArguments_def conforms.simps split: pyval.splits)
  with x w raw_arguments_class that show ?thesis by simp
qed

lemma typed_arguments_written:
  assumes "conforms argument_env (\<lambda>_ _. False) (AClass c) x" "c \<noteq> ''RawArguments''"
  obtains kvs where "shape_to_wire argument_env (\<lambda>_. JNull) x = JObject kvs" "map_of kvs (str ''rawArgs'') = None"
proof -
  from conforms_object [OF assms(1)] obtain flds fs where x: "x = PObject c fs" "argument_env c = Some flds"
    "map fst fs = map fi_name flds" by blast
  note ok = argument_class(1) [OF x(2)]
  obtain h where fs: "fs = map (\<lambda>f. (fi_name f, h f)) flds" using object_fields [OF class_okD(1) [OF ok] x(3)] .
  have "map_of (concat (map (written_field (\<lambda>x. x = PNone) (shape_to_wire argument_env (\<lambda>_. JNull)) h) flds)) (str ''rawArgs'') = None"
    using argument_class(3) [OF x(2) assms(2)] by (intro map_of_written_notin) (auto simp: str_inject simp del: str_Cons)
  with arguments.object_written [OF x(2) ok, of h] x(1) fs that show ?thesis by simp
qed

lemma arguments_ok_read:
  assumes "arguments_ok module meth a"
  shows "decode_special_resolution_arguments module meth (arguments_to_wire a) = Inr (Some a)"
proof (cases a)
  case (ModelledArguments x)
  with assms consider (raw) "conforms argument_env (\<lambda>_ _. False) (AClass ''RawArguments'') x"
    | (typed) c where "argument_shape module meth = Some c" "c \<noteq> ''RawArguments''"
      "conforms argument_env (\<lambda>_ _. False) (AClass c) x"
    by (auto simp: arguments_ok_def split: option.splits)
  then show ?thesis
  proof cases
    case raw
    from raw_arguments_written [OF raw] obtain s where
      "shape_to_wire argument_env (\<lambda>_. JNull) x = JObject [(str ''rawArgs'', JStr s)]" .
    with decode_written [OF raw] ModelledArguments show ?thesis
      by (simp add: decode_special_resolution_arguments_def arguments_to_wire_def decode_or_keep_eq)
  next
    case typed
    from typed_arguments_written [OF typed(3,2)] obtain kvs where
      "shape_to_wire argument_env (\<lambda>_. JNull) x = JObject kvs" "map_of kvs (str ''rawArgs'') = None" .
    with decode_written [OF typed(3)] ModelledArguments typed(1) show ?thesis
      by (simp add: decode_special_resolution_arguments_def arguments_to_wire_def decode_or_keep_eq)
  qed
qed (use assms in \<open>simp add: arguments_ok_def arguments_to_wire_def\<close>)

lemma kept_or_typed:
  obtains x where "decode_or_keep c raw = Inr (ModelledArguments x)" "conforms argument_env (\<lambda>_ _. False) (AClass c) x"
    | "decode_or_keep c raw = Inr (UnrecognizedArguments raw)"
proof (cases "decode_shape argument_env c raw")
  case (Inr x)
  have "conforms argument_env (\<lambda>_ _. False) (AClass c) x"
    by (rule decoded_conforms(2) [OF _ Inr]) (use argument_class(2) in auto)
  with Inr that(1) show ?thesis by (simp add: decode_or_keep_eq)
qed (simp add: decode_or_keep_eq that(2))

lemma decoded_arguments:
  obtains "raw = JNull" "decode_special_resolution_arguments module meth raw = Inr None"
    | a where "raw \<noteq> JNull" "decode_special_resolution_arguments module meth raw = Inr (Some a)" "arguments_ok module meth a"
      "\<And>d. a = UnrecognizedArguments d \<Longrightarrow> d = raw"
proof -
  note found = that
  have unrecognized: thesis if "raw \<noteq> JNull"
    "decode_special_resolution_arguments module meth raw = Inr (Some (UnrecognizedArguments raw))"
    using that by (intro found(2) [of "UnrecognizedArguments raw"]) (simp_all add: arguments_ok_def)
  show thesis
  proof (cases raw)
    case JNull
    then show ?thesis by (intro found(1)) (simp_all add: decode_special_resolution_arguments_def)
  next
    case (JObject kvs)
    note d = decode_special_resolution_arguments_def JObject
    show ?thesis
    proof (cases "map_of kvs (str ''rawArgs'') = None")
      case False
      show ?thesis
      proof (rule kept_or_typed [where c = "''RawArguments''" and raw = raw])
        fix x assume "decode_or_keep ''RawArguments'' raw = Inr (ModelledArguments x)"
          "conforms argument_env (\<lambda>_ _. False) (AClass ''RawArguments'') x"
        with False show thesis by (intro found(2) [of "ModelledArguments x"]) (auto simp: d arguments_ok_def)
      next
        assume "decode_or_keep ''RawArguments'' raw = Inr (UnrecognizedArguments raw)"
        with False show thesis by (intro unrecognized) (auto simp: d)
      qed
    next
      case True
      show ?thesis
      proof (cases "argument_shape module meth")
        case None
        with True show ?thesis by (intro unrecognized) (auto simp: d)
      next
        case (Some c)
        show ?thesis
        proof (rule kept_or_typed [where c = c and raw = raw])
          fix x assume "decode_or_keep c raw = Inr (ModelledArguments x)" "conforms argument_env (\<lambda>_ _. False) (AClass c) x"
          with True Some show thesis
            by (intro found(2) [of "ModelledArguments x"]; cases "c = ''RawArguments''") (auto simp: d arguments_ok_def)
        next
          assume "decode_or_keep c raw = Inr (UnrecognizedArguments raw)"
          with True Some show thesis by (intro unrecognized) (auto simp: d)
        qed
      qed
    qed
  qed (rule unrecognized; simp add: decode_special_resolution_arguments_def)+
qed

section \<open>What arguments mean\<close>

text \<open>
  The class the arguments of a call are read as, if any, and the arguments that JSON denotes: none for null, an object
  of that class, or the JSON itself when it denotes no object of the class.
\<close>

definition class_asked :: "pystr \<Rightarrow> pystr \<Rightarrow> json \<Rightarrow> string option" where
  "class_asked module meth raw = (case raw of
     JObject kvs \<Rightarrow> if str ''rawArgs'' \<in> fst ` set kvs then Some ''RawArguments'' else argument_shape module meth
   | _ \<Rightarrow> None)"

inductive arguments_denoted :: "pystr \<Rightarrow> pystr \<Rightarrow> json \<Rightarrow> special_resolution_arguments option \<Rightarrow> bool" for module meth where
  no_arguments: "arguments_denoted module meth JNull None"
| modelled_arguments: "class_asked module meth raw = Some c \<Longrightarrow> denotes argument_env (AClass c) raw x \<Longrightarrow>
    arguments_denoted module meth raw (Some (ModelledArguments x))"
| kept_arguments: "raw \<noteq> JNull \<Longrightarrow> \<nexists>c x. class_asked module meth raw = Some c \<and> denotes argument_env (AClass c) raw x \<Longrightarrow>
    arguments_denoted module meth raw (Some (UnrecognizedArguments raw))"

inductive_simps arguments_denoted_simps:
  "arguments_denoted module meth raw None" "arguments_denoted module meth raw (Some (ModelledArguments x))"
  "arguments_denoted module meth raw (Some (UnrecognizedArguments data))"

lemma decode_or_keep_denotes:
  "decode_or_keep c raw = Inr a \<longleftrightarrow> (case a of ModelledArguments x \<Rightarrow> denotes argument_env (AClass c) raw x
     | UnrecognizedArguments data \<Rightarrow> data = raw \<and> (\<nexists>x. denotes argument_env (AClass c) raw x))"
  unfolding decode_denotes(2) [symmetric] decode_or_keep_eq
  by (cases a) (auto split: sum.splits)

lemma decode_class_asked:
  "decode_special_resolution_arguments module meth raw = (if raw = JNull then Inr None
     else case class_asked module meth raw of None \<Rightarrow> Inr (Some (UnrecognizedArguments raw))
       | Some c \<Rightarrow> rthen (decode_or_keep c raw) (\<lambda>a. Inr (Some a)))"
  by (auto simp: decode_special_resolution_arguments_def class_asked_def map_of_eq_None_iff split: json.splits)

lemma arguments_denoted_iff:
  "decode_special_resolution_arguments module meth raw = Inr a \<longleftrightarrow> arguments_denoted module meth raw a"
proof (cases "raw = JNull")
  case True
  then show ?thesis
    by (cases a; cases "the a") (auto simp: decode_class_asked arguments_denoted_simps class_asked_def)
next
  case False
  show ?thesis
  proof (cases a)
    case None
    with False show ?thesis
      by (auto simp: decode_class_asked arguments_denoted_simps rthen_Inr_iff split: option.splits)
  next
    case (Some b)
    with False show ?thesis
      by (cases b) (auto simp: decode_class_asked arguments_denoted_simps rthen_Inr_iff decode_or_keep_denotes split: option.splits)
  qed
qed

section \<open>Properties\<close>

text \<open>C40: Reading the arguments of a special resolution call never raises, and gives exactly what the JSON denotes: none
  for null, the object of the class of the method (of \<^verbatim>\<open>RawArguments\<close> when there is a member \<^verbatim>\<open>rawArgs\<close>) that has
  every declared member of the JSON and the default for each one missing, or the JSON as it came when no class takes
  it. Members the class does not declare are dropped. What was read is written to JSON that is read as the same
  arguments again.
\<close>

theorem special_arguments_exact:
  "(decode_special_resolution_arguments module meth raw = Inr a \<longleftrightarrow> arguments_denoted module meth raw a) \<and>
   (case decode_special_resolution_arguments module meth raw of
     Inl _ \<Rightarrow> False
   | Inr None \<Rightarrow> raw = JNull
   | Inr (Some b) \<Rightarrow> raw \<noteq> JNull \<and> arguments_ok module meth b \<and>
       decode_special_resolution_arguments module meth (arguments_to_wire b) = Inr (Some b))"
proof
  show "decode_special_resolution_arguments module meth raw = Inr a \<longleftrightarrow> arguments_denoted module meth raw a"
    by (rule arguments_denoted_iff)
  show "case decode_special_resolution_arguments module meth raw of
     Inl _ \<Rightarrow> False
   | Inr None \<Rightarrow> raw = JNull
   | Inr (Some b) \<Rightarrow> raw \<noteq> JNull \<and> arguments_ok module meth b \<and>
       decode_special_resolution_arguments module meth (arguments_to_wire b) = Inr (Some b)"
  proof (rule decoded_arguments [of raw module meth])
    fix b assume "raw \<noteq> JNull" "decode_special_resolution_arguments module meth raw = Inr (Some b)" "arguments_ok module meth b"
    then show ?thesis using arguments_ok_read [of module meth b] by simp
  qed simp
qed

text \<open>The module text says that what a newer node answers is never silently lost. A member a class does not declare is.\<close>

theorem undeclared_member_dropped:
  assumes "class_asked module meth (JObject kvs) = Some c" "argument_env c = Some flds"
    and "k \<notin> insert (str ''rawArgs'') (str ` (fi_wire_name ` set flds \<union> fi_name ` set flds))"
  shows "decode_special_resolution_arguments module meth (JObject ((k, v) # kvs)) = Inr (Some (ModelledArguments x)) \<longleftrightarrow>
    decode_special_resolution_arguments module meth (JObject kvs) = Inr (Some (ModelledArguments x))"
proof -
  have asked: "class_asked module meth (JObject ((k, v) # kvs)) = Some c"
  proof -
    have "str ''rawArgs'' \<in> fst ` set ((k, v) # kvs) \<longleftrightarrow> str ''rawArgs'' \<in> fst ` set kvs"
      using assms(3) by (simp del: str_Cons) blast
    then show ?thesis using assms(1) unfolding class_asked_def json.case by simp
  qed
  have "denotes argument_env (AClass c) (JObject ((k, v) # kvs)) x \<longleftrightarrow> denotes argument_env (AClass c) (JObject kvs) x"
    using assms(3) by (intro denotes_members [where flds = flds] assms(2)) (auto simp: list_all_iff)
  then show ?thesis by (simp add: arguments_denoted_iff arguments_denoted_simps asked assms(1) del: str_Cons)
qed

end
