(* ===== verification/ArgumentUnion.thy ===== *)
theory ArgumentUnion
  imports SpecialResolution
begin

text \<open>
  The union type \<^verbatim>\<open>SpecialResolutionArguments\<close> of \<^verbatim>\<open>special_resolution_arguments.py\<close>, as the list of its classes: the
  classes the dispatch decodes to are its members, and every member but the raw carriers is the class of some method.
\<close>

definition SpecialResolutionArguments :: "string list" where
  "SpecialResolutionArguments = [
     ''RawArguments'', ''UnrecognizedArguments'', ''GasConfigArguments'', ''ChainConfigArguments'',
     ''NestedResolutionArguments'', ''MetadataArguments'', ''NodeConfigArguments'', ''RegisterNameArguments'',
     ''AddressArguments'', ''NameArguments'', ''ExecuteScriptArguments'', ''RegisterTokenContractArguments'',
     ''DeployContractArguments'', ''PhantasmaVmConfigArguments'', ''ImportContractsArguments'',
     ''RepairSeriesArguments'', ''RepairTokenArguments'', ''TokenReferenceArguments'',
     ''TokenSeriesReferenceArguments'', ''SymbolArguments'', ''TransferFungibleArguments'',
     ''TransferNonFungibleArguments'', ''MintFungibleArguments'', ''BurnFungibleArguments'',
     ''BalanceArguments'', ''CreateTokenArguments'', ''TokenSeriesArguments'',
     ''CreateMintedTokenSeriesArguments'', ''MintNonFungibleArguments'', ''MintPhantasmaNonFungibleArguments'',
     ''BurnNonFungibleArguments'', ''NonFungibleInfoArguments'', ''NonFungibleInfoByRomIdArguments'',
     ''SeriesInfoByMetaIdArguments'', ''TokensConfigArguments'', ''UpdateTokenMetadataArguments'',
     ''UpdateSeriesMetadataArguments'']"

definition arguments_class :: "special_resolution_arguments \<Rightarrow> string" where
  "arguments_class a = (case a of
     ModelledArguments x \<Rightarrow> (case x of PObject c _ \<Rightarrow> c | _ \<Rightarrow> [])
   | UnrecognizedArguments _ \<Rightarrow> ''UnrecognizedArguments'')"

lemma shapes_in_union:
  "list_all (\<lambda>(module, methods). list_all (\<lambda>(meth, c). c \<in> set SpecialResolutionArguments) methods) ARGUMENT_SHAPES"
  by (simp add: ARGUMENT_SHAPES_def SpecialResolutionArguments_def)

lemma union_used:
  "list_all (\<lambda>c. c \<in> {''RawArguments'', ''UnrecognizedArguments''} \<or>
     list_ex (\<lambda>(module, methods). c \<in> set (map snd methods)) ARGUMENT_SHAPES) SpecialResolutionArguments"
  by (simp add: ARGUMENT_SHAPES_def SpecialResolutionArguments_def)

lemma argument_shape_member:
  assumes "argument_shape module meth = Some c"
  shows "c \<in> set SpecialResolutionArguments"
proof -
  obtain methods where "map_of (map (\<lambda>(k, v). (str k, v)) ARGUMENT_SHAPES) module = Some methods"
    "map_of (map (\<lambda>(k, v). (str k, v)) methods) meth = Some c"
    using assms by (auto simp: argument_shape_def split: option.splits)
  then obtain m n where "(m, methods) \<in> set ARGUMENT_SHAPES" "(n, c) \<in> set methods"
    by (auto dest!: map_of_SomeD)
  then show ?thesis using shapes_in_union unfolding list_all_iff by fastforce
qed

text \<open>Whatever arguments are decoded, they are of a class of the union.\<close>

lemma decoded_in_union:
  assumes "decode_special_resolution_arguments module meth raw = Inr (Some a)"
  shows "arguments_class a \<in> set SpecialResolutionArguments"
proof -
  have "arguments_ok module meth a"
    by (rule decoded_arguments [of raw module meth]) (use assms in auto)
  then show ?thesis
    by (auto simp: arguments_class_def arguments_ok_def dest: argument_shape_member
        elim!: conforms_object split: special_resolution_arguments.splits option.splits)
      (simp_all add: SpecialResolutionArguments_def)
qed

end
