(* ===== verification/Encoding.thy ===== *)
theory Encoding
  imports PyInt PyStr
begin

text \<open>
  \<^verbatim>\<open>encoding.py\<close>: Base58 with the Bitcoin alphabet, and hexadecimal text with an optional
  prefix. The lemmas show that both codecs invert each other and which inputs are refused.
\<close>

section \<open>Base58\<close>

definition BASE58_ALPHABET :: pystr where
  "BASE58_ALPHABET = str ''123456789ABCDEFGHJKLMNPQRSTUVWXYZabcdefghijkmnopqrstuvwxyz''"

definition BASE58_INDEX :: "nat \<rightharpoonup> int" where
  "BASE58_INDEX = map_of (zip BASE58_ALPHABET (map int [0..<58]))"

text \<open>The loop of \<^verbatim>\<open>encode_base58\<close>; the value is never negative, so \<open>v \<le> 0\<close> is its exit.\<close>

function base58_loop :: "int \<Rightarrow> pystr \<Rightarrow> pystr" where
  "base58_loop v encoded =
     (if v \<le> 0 then encoded
      else base58_loop (v div 58) (BASE58_ALPHABET ! nat (v mod 58) # encoded))"
  by pat_completeness auto
termination
  by (relation "measure (\<lambda>(v, _). nat v)") auto

declare base58_loop.simps [simp del]

definition leading_count :: "'a \<Rightarrow> 'a list \<Rightarrow> nat" where
  "leading_count z xs = length xs - length (dropWhile (\<lambda>x. x = z) xs)"

definition encode_base58 :: "bytes \<Rightarrow> pystr" where
  "encode_base58 data =
     replicate (leading_count 0 data) (of_char (CHR ''1'')) @ base58_loop (be_int data) []"

fun base58_fold :: "int \<Rightarrow> pystr \<Rightarrow> int result" where
  "base58_fold v [] = Inr v"
| "base58_fold v (c # s) =
     (case BASE58_INDEX c of
        None \<Rightarrow> Inl EncodingError
      | Some d \<Rightarrow> base58_fold (v * 58 + d) s)"

definition decode_base58 :: "pystr \<Rightarrow> bytes result" where
  "decode_base58 text =
     (if text = [] then Inl EncodingError
      else rthen (base58_fold 0 text) (\<lambda>v.
        rthen (if v \<noteq> 0 then to_bytes_be v ((bit_length v + 7) div 8) else Inr []) (\<lambda>raw.
        Inr (replicate (leading_count (of_char (CHR ''1'')) text) 0 @ raw))))"

lemma BASE58_ALPHABET_eval: "BASE58_ALPHABET =
  [49,50,51,52,53,54,55,56,57,65,66,67,68,69,70,71,72,74,75,76,77,78,80,81,82,83,84,85,86,87,88,
   89,90,97,98,99,100,101,102,103,104,105,106,107,109,110,111,112,113,114,115,116,117,118,119,120,121,122]"
  by (simp add: BASE58_ALPHABET_def)

lemma length_BASE58_ALPHABET [simp]: "length BASE58_ALPHABET = 58"
  by (simp add: BASE58_ALPHABET_eval)

lemma distinct_BASE58_ALPHABET: "distinct BASE58_ALPHABET"
  by (simp add: BASE58_ALPHABET_eval)

lemma is_ascii_BASE58_ALPHABET: "is_ascii BASE58_ALPHABET"
  by (simp add: BASE58_ALPHABET_eval)

lemma BASE58_INDEX_nth:
  assumes "0 \<le> d" "d < 58"
  shows "BASE58_INDEX (BASE58_ALPHABET ! nat d) = Some d"
proof -
  have "map_of (zip BASE58_ALPHABET (map int [0..<58])) (BASE58_ALPHABET ! nat d) = Some (map int [0..<58] ! nat d)"
    using assms distinct_BASE58_ALPHABET by (intro map_of_zip_nth) auto
  with assms show ?thesis by (simp add: BASE58_INDEX_def)
qed

lemma BASE58_INDEX_Some:
  assumes "BASE58_INDEX c = Some d"
  shows "0 \<le> d \<and> d < 58 \<and> c = BASE58_ALPHABET ! nat d"
proof -
  from assms have "(c, d) \<in> set (zip BASE58_ALPHABET (map int [0..<58]))"
    by (simp add: BASE58_INDEX_def map_of_SomeD)
  then obtain i where "i < 58" "c = BASE58_ALPHABET ! i" "d = int i"
    by (auto simp: set_zip)
  then show ?thesis by simp
qed

lemma BASE58_digit_zero: "0 \<le> d \<Longrightarrow> d < 58 \<Longrightarrow> BASE58_ALPHABET ! nat d = 49 \<longleftrightarrow> d = 0"
proof -
  assume d: "0 \<le> d" "d < 58"
  have "BASE58_ALPHABET ! 0 = 49" by (simp add: BASE58_ALPHABET_eval)
  then have "BASE58_ALPHABET ! nat d = 49 \<longleftrightarrow> BASE58_ALPHABET ! nat d = BASE58_ALPHABET ! 0" by simp
  also have "\<dots> \<longleftrightarrow> nat d = 0"
    using d distinct_BASE58_ALPHABET by (subst nth_eq_iff_index_eq) auto
  finally show ?thesis using d by auto
qed

lemma base58_loop_nonpos [simp]: "v \<le> 0 \<Longrightarrow> base58_loop v acc = acc"
  by (simp add: base58_loop.simps [of v])

lemma base58_loop_step:
  "0 < v \<Longrightarrow> base58_loop v acc = base58_loop (v div 58) (BASE58_ALPHABET ! nat (v mod 58) # acc)"
  by (simp add: base58_loop.simps [of v])

lemma base58_loop_append: "base58_loop v acc = base58_loop v [] @ acc"
proof (induction "nat v" arbitrary: v acc rule: less_induct)
  case less
  show ?case
  proof (cases "v \<le> 0")
    case True
    then show ?thesis by simp
  next
    case False
    then have lt: "nat (v div 58) < nat v" by auto
    let ?d = "BASE58_ALPHABET ! nat (v mod 58)"
    have "base58_loop v acc = base58_loop (v div 58) [] @ ?d # acc"
      using False less [OF lt, of "?d # acc"] by (simp add: base58_loop_step)
    moreover have "base58_loop v [] = base58_loop (v div 58) [] @ [?d]"
      using False less [OF lt, of "[?d]"] by (simp add: base58_loop_step)
    ultimately show ?thesis by simp
  qed
qed

lemma base58_loop_pos:
  "0 < v \<Longrightarrow> base58_loop v [] = base58_loop (v div 58) [] @ [BASE58_ALPHABET ! nat (v mod 58)]"
  using base58_loop_append [of "v div 58" "[BASE58_ALPHABET ! nat (v mod 58)]"]
  by (simp add: base58_loop_step)

lemma base58_fold_append:
  "base58_fold v (s @ t) = rthen (base58_fold v s) (\<lambda>u. base58_fold u t)"
  by (induction s arbitrary: v) (auto split: option.splits)

lemma base58_fold_loop: "0 \<le> v \<Longrightarrow> base58_fold 0 (base58_loop v []) = Inr v"
proof (induction "nat v" arbitrary: v rule: less_induct)
  case less
  show ?case
  proof (cases "v = 0")
    case True
    then show ?thesis by simp
  next
    case False
    with less.prems have v: "0 < v" by simp
    then have lt: "nat (v div 58) < nat v" "0 \<le> v div 58" by auto
    have "base58_fold 0 (base58_loop (v div 58) []) = Inr (v div 58)"
      using lt by (rule less.hyps)
    then show ?thesis
      using v BASE58_INDEX_nth [of "v mod 58"]
      by (simp add: base58_loop_pos base58_fold_append)
  qed
qed

lemma base58_loop_head: "0 < v \<Longrightarrow> base58_loop v [] \<noteq> [] \<and> hd (base58_loop v []) \<noteq> 49"
proof (induction "nat v" arbitrary: v rule: less_induct)
  case less
  show ?case
  proof (cases "v div 58 = 0")
    case True
    then have "v mod 58 = v" "v < 58" using less.prems by auto
    with True less.prems BASE58_digit_zero [of v] show ?thesis
      by (simp add: base58_loop_pos)
  next
    case False
    with less.prems have lt: "nat (v div 58) < nat v" "0 < v div 58"
      using pos_imp_zdiv_nonneg_iff [of 58 v] by auto
    have "base58_loop (v div 58) [] \<noteq> [] \<and> hd (base58_loop (v div 58) []) \<noteq> 49"
      using lt by (rule less.hyps)
    with less.prems show ?thesis by (simp add: base58_loop_pos)
  qed
qed

lemma base58_fold_nonneg: "0 \<le> v \<Longrightarrow> base58_fold v s = Inr u \<Longrightarrow> v \<le> u"
proof (induction s arbitrary: v)
  case Nil
  then show ?case by simp
next
  case (Cons c s)
  then obtain d where d: "BASE58_INDEX c = Some d" "base58_fold (v * 58 + d) s = Inr u"
    by (auto split: option.splits)
  with BASE58_INDEX_Some have "0 \<le> d" by blast
  with Cons.prems(1) Cons.IH [of "v * 58 + d"] d(2) show ?case by simp
qed

lemma base58_loop_fold:
  "base58_fold 0 s = Inr v \<Longrightarrow> s = [] \<or> hd s \<noteq> 49 \<Longrightarrow> base58_loop v [] = s \<and> (s \<noteq> [] \<longrightarrow> 0 < v)"
proof (induction s arbitrary: v rule: rev_induct)
  case Nil
  then show ?case by simp
next
  case (snoc c s)
  then obtain u d where u: "base58_fold 0 s = Inr u" and d: "BASE58_INDEX c = Some d" and v: "v = u * 58 + d"
    by (auto simp: base58_fold_append rthen_Inr_iff split: option.splits)
  from d have d': "0 \<le> d" "d < 58" "c = BASE58_ALPHABET ! nat d"
    using BASE58_INDEX_Some by blast+
  have IH: "base58_loop u [] = s \<and> (s \<noteq> [] \<longrightarrow> 0 < u)"
    using snoc.prems(2) by (intro snoc.IH [OF u]) (cases s, auto)
  have "0 < v"
  proof (cases "s = []")
    case True
    with u snoc.prems(2) d' have "u = 0" "d \<noteq> 0" using BASE58_digit_zero [of d] by auto
    with d' v show ?thesis by simp
  next
    case False
    with IH v d' show ?thesis by simp
  qed
  moreover have "v div 58 = u" "v mod 58 = d" using v d' by simp_all
  ultimately show ?case using IH d' by (simp add: base58_loop_pos)
qed

section \<open>Leading zeroes and minimal bytes\<close>

lemma leading_split: "xs = replicate (leading_count z xs) z @ dropWhile (\<lambda>x. x = z) xs"
proof (induction xs)
  case Nil
  then show ?case by (simp add: leading_count_def)
next
  case (Cons x xs)
  have "length (dropWhile (\<lambda>x. x = z) xs) \<le> length xs" by (rule length_dropWhile_le)
  with Cons show ?case by (auto simp: leading_count_def Suc_diff_le)
qed

lemma leading_count_replicate:
  assumes "ys = [] \<or> hd ys \<noteq> z"
  shows "leading_count z (replicate n z @ ys) = n"
proof -
  have "dropWhile (\<lambda>x. x = z) ys = ys" using assms by (cases ys) auto
  then have "dropWhile (\<lambda>x. x = z) (replicate n z @ ys) = ys" by (induction n) auto
  then show ?thesis by (simp add: leading_count_def)
qed

lemma dropWhile_hd: "dropWhile P xs = [] \<or> \<not> P (hd (dropWhile P xs))"
  by (induction xs) auto

lemma be_int_replicate_0: "be_int (replicate n 0 @ bs) = be_int bs"
  by (simp add: be_int_def le_int_append)

lemma be_int_less: "be_int bs < 256 ^ length bs"
  using le_int_less [of "rev bs"] by (simp add: be_int_def)

lemma be_int_ge:
  assumes "bs \<noteq> []" "hd bs \<noteq> 0"
  shows "256 ^ (length bs - 1) \<le> be_int bs"
proof -
  obtain b cs where bs: "bs = b # cs" "b \<noteq> 0" using assms by (cases bs) auto
  have "uint b \<noteq> 0" using bs by (simp add: uint_0_iff)
  then have "1 \<le> uint b" using uint_byte_bounds(1) [of b] by linarith
  then have "256 ^ length cs * 1 \<le> 256 ^ length cs * uint b"
    by (intro mult_left_mono) auto
  moreover have "0 \<le> le_int (rev cs)" by simp
  ultimately have "256 ^ length cs \<le> le_int (rev cs) + 256 ^ length cs * uint b" by linarith
  then show ?thesis using bs by (simp add: be_int_def le_int_append)
qed

lemma minimal_length:
  assumes "bs \<noteq> []" "hd bs \<noteq> 0"
  shows "(bit_length (be_int bs) + 7) div 8 = length bs"
proof -
  have "bit_length (be_int bs) \<le> 8 * length bs"
    using be_int_less [of bs] by (simp add: bit_length_le_iff pow256)
  moreover have "8 * (length bs - 1) < bit_length (be_int bs)"
    using be_int_ge [OF assms] by (simp add: bit_length_lower pow256)
  moreover have "length bs \<noteq> 0" using assms(1) by simp
  ultimately show ?thesis by linarith
qed

lemma to_bytes_be_int: "n = length bs \<Longrightarrow> to_bytes_be (be_int bs) n = Inr bs"
  using be_int_less [of bs] le_bytes_le_int [of "rev bs"]
  by (simp add: to_bytes_be_def be_int_def)

lemma be_int_eq_0:
  assumes "bs = [] \<or> hd bs \<noteq> 0"
  shows "be_int bs = 0 \<longleftrightarrow> bs = []"
proof (cases "bs = []")
  case True
  then show ?thesis by (simp add: be_int_def)
next
  case False
  with assms be_int_ge [of bs] zero_less_power [of "256 :: int" "length bs - 1"]
  have "256 ^ (length bs - 1) \<le> be_int bs" "(0::int) < 256 ^ (length bs - 1)" by auto
  then have "0 < be_int bs" by linarith
  with False show ?thesis by simp
qed

lemma decode_encode_base58:
  assumes "data \<noteq> []"
  shows "decode_base58 (encode_base58 data) = Inr data"
proof -
  define z where "z = leading_count 0 data"
  define rest where "rest = dropWhile (\<lambda>b. b = 0) data"
  define v where "v = be_int rest"
  have data: "data = replicate z 0 @ rest"
    unfolding z_def rest_def by (rule leading_split)
  have v: "be_int data = v" by (simp add: data be_int_replicate_0 v_def)
  have rest: "rest = [] \<or> hd rest \<noteq> 0"
    unfolding rest_def using dropWhile_hd [of "\<lambda>b. b = 0" data] by simp
  have enc: "encode_base58 data = replicate z 49 @ base58_loop v []"
    by (simp add: encode_base58_def v z_def)
  have v0: "0 \<le> v" by (simp add: v_def)
  have v_rest: "v = 0 \<longleftrightarrow> rest = []" unfolding v_def by (rule be_int_eq_0 [OF rest])
  have ones: "base58_fold 0 (replicate n 49 @ s) = base58_fold 0 s" for n s
    by (induction n) (use BASE58_INDEX_nth [of 0] in \<open>auto simp: BASE58_ALPHABET_eval\<close>)
  have hd: "base58_loop v [] = [] \<or> hd (base58_loop v []) \<noteq> 49"
    using base58_loop_head [of v] v0 by (cases "v = 0") auto
  have ne: "encode_base58 data \<noteq> []"
  proof (cases "rest = []")
    case True
    with data assms have "z \<noteq> 0" by auto
    then show ?thesis by (simp add: enc)
  next
    case False
    with v_rest v0 base58_loop_head [of v] show ?thesis by (simp add: enc)
  qed
  have lead: "leading_count 49 (encode_base58 data) = z"
    unfolding enc using hd by (rule leading_count_replicate)
  have "(if v \<noteq> 0 then to_bytes_be v ((bit_length v + 7) div 8) else Inr []) = Inr rest"
  proof (cases "v = 0")
    case True
    with v_rest show ?thesis by simp
  next
    case False
    with v_rest rest have "(bit_length v + 7) div 8 = length rest"
      unfolding v_def by (intro minimal_length) auto
    with False show ?thesis by (simp add: v_def to_bytes_be_int)
  qed
  then show ?thesis
    using ne lead v0 by (simp add: decode_base58_def enc ones base58_fold_loop data [symmetric])
qed

lemma encode_decode_base58:
  assumes "decode_base58 text = Inr data"
  shows "encode_base58 data = text"
proof -
  define z where "z = leading_count 49 text"
  define rest where "rest = dropWhile (\<lambda>c. c = 49) text"
  have tx: "text = replicate z 49 @ rest"
    unfolding z_def rest_def by (rule leading_split)
  have rest: "rest = [] \<or> hd rest \<noteq> 49"
    unfolding rest_def using dropWhile_hd [of "\<lambda>c. c = 49" "text"] by simp
  have ones: "base58_fold 0 (replicate n 49 @ s) = base58_fold 0 s" for n s
    by (induction n) (use BASE58_INDEX_nth [of 0] in \<open>auto simp: BASE58_ALPHABET_eval\<close>)
  have fold: "base58_fold 0 text = base58_fold 0 rest"
    using ones [of z rest] by (simp add: tx [symmetric])
  from assms obtain v raw where v: "base58_fold 0 rest = Inr v"
    and raw: "(if v \<noteq> 0 then to_bytes_be v ((bit_length v + 7) div 8) else Inr []) = Inr raw"
    and data: "data = replicate z 0 @ raw"
    by (auto simp: decode_base58_def rthen_Inr_iff z_def fold split: if_splits)
  have v0: "0 \<le> v" using base58_fold_nonneg [OF _ v] by simp
  have loop: "base58_loop v [] = rest" using base58_loop_fold [OF v rest] by simp
  show ?thesis
  proof (cases "v = 0")
    case True
    with raw data have "data = replicate z 0" by simp
    moreover have "rest = []" using loop True by simp
    ultimately show ?thesis
      using leading_count_replicate [of "[]" 0 z] be_int_replicate_0 [of z "[]"]
      by (simp add: encode_base58_def tx be_int_def)
  next
    case False
    define w where "w = (bit_length v + 7) div 8"
    have lt: "v < 256 ^ w" unfolding w_def by (rule bytes_for_bits [OF v0 refl])
    with raw False v0 have r: "raw = rev (le_bytes w v)" by (simp add: to_bytes_be_def w_def split: if_splits)
    have bv: "be_int raw = v" using lt v0 by (simp add: r be_int_def le_int_le_bytes_id)
    have "8 * (w - 1) < bit_length v"
      using False by (simp add: w_def bit_length_def nat_bit_length.simps [of "nat \<bar>v\<bar>"])
    then have ge: "256 ^ (w - 1) \<le> v" using v0 by (simp add: bit_length_lower pow256)
    have "raw = [] \<or> hd raw \<noteq> 0"
    proof (cases raw)
      case (Cons b bs)
      have "length bs = w - 1" using Cons r by (metis length_Cons length_le_bytes length_rev diff_Suc_1)
      then have "be_int bs < 256 ^ (w - 1)" using be_int_less [of bs] by simp
      moreover have "be_int raw = be_int bs" if "b = 0"
        using be_int_replicate_0 [of 1 bs] Cons that by simp
      ultimately show ?thesis using Cons bv ge by auto
    qed simp
    then have "leading_count 0 data = z" unfolding data by (rule leading_count_replicate)
    with loop bv show ?thesis
      by (simp add: encode_base58_def tx data be_int_replicate_0)
  qed
qed

lemma decode_base58_nonempty: "decode_base58 text = Inr data \<Longrightarrow> data \<noteq> []"
proof
  assume h: "decode_base58 text = Inr data" and "data = []"
  then have "text = []" using encode_decode_base58 [OF h] by (simp add: encode_base58_def leading_count_def be_int_def)
  with h show False by (simp add: decode_base58_def)
qed

lemma decode_base58_error: "decode_base58 text = Inl e \<Longrightarrow> e = EncodingError"
proof -
  assume e: "decode_base58 text = Inl e"
  have fold: "base58_fold v s = Inl e' \<Longrightarrow> e' = EncodingError" for v s e'
    by (induction s arbitrary: v) (auto split: option.splits)
  have "to_bytes_be v ((bit_length v + 7) div 8) = Inr (rev (le_bytes ((bit_length v + 7) div 8) v))"
    if "base58_fold 0 text = Inr v" for v
    using base58_fold_nonneg [OF _ that] bytes_for_bits [of v] by (simp add: to_bytes_be_def)
  with e show ?thesis
    by (auto simp: decode_base58_def rthen_Inl_iff dest: fold split: if_splits)
qed

lemma base58_loop_alphabet: "set (base58_loop v acc) \<subseteq> set BASE58_ALPHABET \<union> set acc"
proof (induction v acc rule: base58_loop.induct)
  case (1 v acc)
  show ?case
  proof (cases "v \<le> 0")
    case True
    then show ?thesis by simp
  next
    case False
    have "nat (v mod 58) < 58" by (simp add: nat_less_iff)
    then have "BASE58_ALPHABET ! nat (v mod 58) \<in> set BASE58_ALPHABET" by (intro nth_mem) simp
    with False 1 show ?thesis by (subst base58_loop.simps) auto
  qed
qed

section \<open>Hexadecimal\<close>

definition decode_hex :: "pystr \<Rightarrow> bytes result" where
  "decode_hex value =
     (let text = py_strip value;
          text = (if take 2 text = str ''0x'' \<or> take 2 text = str ''0X'' then drop 2 text else text)
      in if length text mod 2 \<noteq> 0 then Inl EncodingError
         else case fromhex text of Inl _ \<Rightarrow> Inl EncodingError | Inr bs \<Rightarrow> Inr bs)"

definition encode_hex :: "bytes \<Rightarrow> pystr" where
  "encode_hex data = bytes_hex data"

lemma hex_digit_not_x: "d < 16 \<Longrightarrow> hex_digit d \<noteq> 120 \<and> hex_digit d \<noteq> 88"
  by (auto simp: hex_digit_def)

lemma bytes_hex_no_prefix: "take 2 (bytes_hex bs) \<noteq> [48, 120] \<and> take 2 (bytes_hex bs) \<noteq> [48, 88]"
proof (cases bs)
  case Nil
  then show ?thesis by simp
next
  case (Cons b cs)
  have "unat b mod 16 < 16" by simp
  with Cons hex_digit_not_x [of "unat b mod 16"] show ?thesis by (simp add: numeral_2_eq_2)
qed

lemma decode_encode_hex: "decode_hex (encode_hex bs) = Inr bs"
  using bytes_hex_no_prefix [of bs] by (simp add: decode_hex_def encode_hex_def Let_def)

lemma decode_hex_prefixed: "decode_hex (str ''0x'' @ encode_hex bs) = Inr bs"
proof -
  have "c \<in> set (48 # 120 # bytes_hex bs) \<Longrightarrow> \<not> is_py_space c" for c
    using bytes_hex_no_space by (auto simp: is_py_space_def)
  then have "py_strip (48 # 120 # bytes_hex bs) = 48 # 120 # bytes_hex bs"
    unfolding py_strip_def using dropWhile_none [of "48 # 120 # bytes_hex bs" is_py_space]
      dropWhile_none [of "rev (48 # 120 # bytes_hex bs)" is_py_space]
    by (metis rev_rev_ident set_rev)
  then show ?thesis by (simp add: decode_hex_def encode_hex_def Let_def)
qed

lemma decode_hex_error: "decode_hex s = Inl e \<Longrightarrow> e = EncodingError"
  by (auto simp: decode_hex_def Let_def split: if_splits sum.splits)

section \<open>Properties\<close>

text \<open>Base58 is a bijection between the non-empty byte strings and the texts the decoder
  accepts: the decoder returns exactly the bytes whose encoding is the text, so no two texts decode
  to the same bytes and nothing outside the image of the encoder is accepted.\<close>

theorem base58_bijection:
  "decode_base58 text = Inr data \<longleftrightarrow> data \<noteq> [] \<and> encode_base58 data = text"
  using decode_encode_base58 encode_decode_base58 decode_base58_nonempty by blast

end
