(* ===== verification/Crypto.thy ===== *)
theory Crypto
  imports VmBinary Encoding
begin

text \<open>
  \<^verbatim>\<open>crypto.py\<close>: addresses, hashes, signatures and key pairs. SHA-256 and Ed25519 come from
  \<^verbatim>\<open>hashlib\<close> and the \<^verbatim>\<open>cryptography\<close> package; they are the fields of \<open>crypto_lib\<close>, an
  argument of the definitions that use them, and \<open>crypto_lib_ok\<close> states the documented behaviour
  the code relies on (digest, key and signature sizes, and that a signature verifies under the public
  key of the key that made it).
\<close>

unbundle bit_operations_syntax

section \<open>The cryptographic library\<close>

record crypto_lib =
  sha256_digest :: "bytes \<Rightarrow> bytes"
  ed25519_public :: "bytes \<Rightarrow> bytes"
  ed25519_sign :: "bytes \<Rightarrow> bytes \<Rightarrow> bytes"
  ed25519_verify :: "bytes \<Rightarrow> bytes \<Rightarrow> bytes \<Rightarrow> bool"

definition crypto_lib_ok :: "crypto_lib \<Rightarrow> bool" where
  "crypto_lib_ok L \<longleftrightarrow>
     (\<forall>m. length (sha256_digest L m) = 32) \<and>
     (\<forall>sk. length sk = 32 \<longrightarrow> length (ed25519_public L sk) = 32) \<and>
     (\<forall>sk m. length sk = 32 \<longrightarrow> length (ed25519_sign L sk m) = 64) \<and>
     (\<forall>sk m. length sk = 32 \<longrightarrow> ed25519_verify L (ed25519_public L sk) (ed25519_sign L sk m) m)"

text \<open>An instance, so that the hypothesis is satisfiable: the key signs with itself repeated.\<close>

definition example_lib :: crypto_lib where
  "example_lib = \<lparr>sha256_digest = (\<lambda>m. take 32 (m @ replicate 32 0)), ed25519_public = (\<lambda>sk. sk),
     ed25519_sign = (\<lambda>sk m. sk @ sk), ed25519_verify = (\<lambda>pk s m. s = pk @ pk)\<rparr>"

lemma example_lib_ok: "crypto_lib_ok example_lib"
  by (auto simp: crypto_lib_ok_def example_lib_def min_def)

section \<open>Addresses\<close>

definition ADDRESS_LENGTH :: nat where "ADDRESS_LENGTH = 34"
definition PRIVATE_KEY_LENGTH :: nat where "PRIVATE_KEY_LENGTH = 32"
definition PUBLIC_KEY_LENGTH :: nat where "PUBLIC_KEY_LENGTH = 32"
definition SIGNATURE_LENGTH :: nat where "SIGNATURE_LENGTH = 64"

lemmas length_consts [simp] = ADDRESS_LENGTH_def PRIVATE_KEY_LENGTH_def PUBLIC_KEY_LENGTH_def SIGNATURE_LENGTH_def

datatype address_kind = AK_INVALID | AK_USER | AK_SYSTEM | AK_INTEROP

record address =
  addr_data :: bytes

definition Address :: "bytes \<Rightarrow> address result" where
  "Address raw = (if length raw \<noteq> ADDRESS_LENGTH then Inl CryptoError else Inr \<lparr>addr_data = raw\<rparr>)"

definition address_ok :: "address \<Rightarrow> bool" where
  "address_ok a \<longleftrightarrow> length (addr_data a) = 34"

definition null_address :: address where
  "null_address = \<lparr>addr_data = replicate 34 0\<rparr>"

definition from_public_key :: "bytes \<Rightarrow> address result" where
  "from_public_key raw =
     (if length raw = PUBLIC_KEY_LENGTH then Address ([1, 0] @ raw)
      else if length raw = PUBLIC_KEY_LENGTH + 1 then Address ([1] @ raw)
      else if length raw = 64 then Address ([1, 0] @ take PUBLIC_KEY_LENGTH raw)
      else Inl CryptoError)"

definition is_null :: "address \<Rightarrow> bool" where
  "is_null a \<longleftrightarrow> addr_data a = replicate ADDRESS_LENGTH 0"

definition addr_kind :: "address \<Rightarrow> address_kind" where
  "addr_kind a =
     (if is_null a then AK_SYSTEM
      else if unat (addr_data a ! 0) \<ge> 3 then AK_INTEROP
      else if addr_data a ! 0 = 2 then AK_SYSTEM
      else if addr_data a ! 0 = 1 then AK_USER
      else AK_INVALID)"

definition from_text :: "pystr option \<Rightarrow> address result" where
  "from_text t =
     (case t of
        None \<Rightarrow> Inr null_address
      | Some s \<Rightarrow>
          if s = [] \<or> ascii_upper s = str ''NULL'' then Inr null_address
          else if length s < 2 then Inl CryptoError
          else
            let prefix = s ! 0 in
            rthen (decode_base58 (drop 1 s)) (\<lambda>raw.
            rthen (Address raw) (\<lambda>a.
              if prefix = of_char (CHR ''P'') \<and> addr_kind a \<noteq> AK_USER then Inl CryptoError
              else if prefix = of_char (CHR ''S'') \<and> addr_kind a \<noteq> AK_SYSTEM then Inl CryptoError
              else if prefix = of_char (CHR ''X'') \<and> addr_kind a \<noteq> AK_INTEROP then Inl CryptoError
              else if prefix \<notin> {of_char (CHR ''P''), of_char (CHR ''S''), of_char (CHR ''X'')} then Inl CryptoError
              else Inr a)))"

definition from_hash :: "crypto_lib \<Rightarrow> bytes \<Rightarrow> address result" where
  "from_hash L raw = Address ([1, 0] @ sha256_digest L raw)"

definition from_hash_text :: "crypto_lib \<Rightarrow> pystr \<Rightarrow> address result" where
  "from_hash_text L v = rthen (utf8_encode v) (from_hash L)"

definition addr_public_key :: "address \<Rightarrow> bytes result" where
  "addr_public_key a = (if addr_kind a \<noteq> AK_USER then Inl CryptoError else Inr (drop 2 (addr_data a)))"

definition addr_text :: "address \<Rightarrow> pystr" where
  "addr_text a =
     (if is_null a then str ''NULL''
      else let prefix = (if addr_kind a = AK_SYSTEM then str ''S''
                         else if addr_kind a = AK_INTEROP then str ''X''
                         else str ''P'')
           in prefix @ encode_base58 (addr_data a))"

definition prefixed_bytes :: "address \<Rightarrow> bytes result" where
  "prefixed_bytes a = serialize (write_var_bytes (addr_data a))"

lemma Address_Inr: "Address raw = Inr a \<longleftrightarrow> length raw = 34 \<and> a = \<lparr>addr_data = raw\<rparr>"
  by (auto simp: Address_def)

lemma null_address_null [simp]: "is_null null_address" "address_ok null_address"
  by (simp_all add: is_null_def null_address_def address_ok_def)

lemma is_null_iff: "is_null a \<longleftrightarrow> a = null_address"
  by (cases a) (simp add: is_null_def null_address_def)

lemma encode_base58_nonempty: "data \<noteq> [] \<Longrightarrow> encode_base58 data \<noteq> []"
  using decode_encode_base58 [of data] by (auto simp: decode_base58_def)

lemma from_text_ok: "from_text t = Inr a \<Longrightarrow> address_ok a \<and> addr_kind a \<noteq> AK_INVALID"
proof -
  have n: "addr_kind null_address \<noteq> AK_INVALID" by (simp add: addr_kind_def)
  show "from_text t = Inr a \<Longrightarrow> address_ok a \<and> addr_kind a \<noteq> AK_INVALID"
    using n by (auto simp: from_text_def rthen_Inr_iff Address_Inr address_ok_def Let_def null_address_def
        split: option.splits if_splits)
qed

text \<open>The prefix the text of an address starts with determines its kind.\<close>

lemma from_text_addr_text:
  assumes ok: "address_ok a" and k: "addr_kind a \<noteq> AK_INVALID"
  shows "from_text (Some (addr_text a)) = Inr a"
proof (cases "is_null a")
  case True
  then show ?thesis by (simp add: addr_text_def from_text_def is_null_iff ascii_upper_def)
next
  case False
  let ?e = "encode_base58 (addr_data a)"
  have d: "addr_data a \<noteq> []" using ok by (auto simp: address_ok_def)
  then have e: "?e \<noteq> []" "decode_base58 ?e = Inr (addr_data a)"
    by (simp_all add: encode_base58_nonempty decode_encode_base58)
  have A: "Address (addr_data a) = Inr a" using ok by (cases a) (simp add: Address_Inr address_ok_def)
  have "addr_kind a = AK_USER \<or> addr_kind a = AK_SYSTEM \<or> addr_kind a = AK_INTEROP"
    using k by (cases "addr_kind a") auto
  then show ?thesis
    using False e A by (auto simp: addr_text_def from_text_def Let_def ascii_upper_def Suc_le_eq)
qed

lemma addr_text_from_text:
  assumes h: "from_text (Some t) = Inr a" and n: "\<not> is_null a"
  shows "addr_text a = t"
proof -
  from h n have t: "t \<noteq> []" "ascii_upper t \<noteq> str ''NULL''" "\<not> length t < 2"
    by (auto simp: from_text_def split: if_splits)
  then obtain c u where tu: "t = c # u" by (cases t) auto
  from h t tu n have b: "decode_base58 u = Inr (addr_data a)"
    and c: "c = 80 \<and> addr_kind a = AK_USER \<or> c = 83 \<and> addr_kind a = AK_SYSTEM \<or>
      c = 88 \<and> addr_kind a = AK_INTEROP"
    by (auto simp: from_text_def Let_def rthen_Inr_iff Address_Inr split: if_splits)
  have "encode_base58 (addr_data a) = u" by (rule encode_decode_base58 [OF b])
  with c n tu show ?thesis by (auto simp: addr_text_def Let_def)
qed

lemma from_text_error:
  "from_text t = Inl e \<Longrightarrow> e = CryptoError \<or> e = EncodingError"
  by (auto simp: from_text_def Let_def rthen_Inl_iff Address_def dest: decode_base58_error
      split: option.splits if_splits)

lemma from_public_key_32:
  "length pk = 32 \<Longrightarrow> from_public_key pk = Inr \<lparr>addr_data = [1, 0] @ pk\<rparr>"
  by (simp add: from_public_key_def Address_def)

lemma user_address:
  assumes "length pk = 32"
  shows "addr_kind \<lparr>addr_data = [1, 0] @ pk\<rparr> = AK_USER" "addr_public_key \<lparr>addr_data = [1, 0] @ pk\<rparr> = Inr pk"
proof -
  have "\<not> is_null \<lparr>addr_data = [1, 0] @ pk\<rparr>" by (simp add: is_null_def numeral_eq_Suc)
  then show k: "addr_kind \<lparr>addr_data = [1, 0] @ pk\<rparr> = AK_USER" by (simp add: addr_kind_def)
  show "addr_public_key \<lparr>addr_data = [1, 0] @ pk\<rparr> = Inr pk" by (simp add: addr_public_key_def k [simplified])
qed

section \<open>Hashes\<close>

record hash =
  hash_data :: bytes

definition Hash :: "bytes \<Rightarrow> hash result" where
  "Hash raw = (if length raw \<noteq> 32 then Inl CryptoError else Inr \<lparr>hash_data = raw\<rparr>)"

definition hash_sha256 :: "crypto_lib \<Rightarrow> bytes \<Rightarrow> hash result" where
  "hash_sha256 L raw = Hash (sha256_digest L raw)"

definition hash_from_hex :: "pystr \<Rightarrow> hash result" where
  "hash_from_hex t = rthen (fromhex t) Hash"

definition hash_hex :: "hash \<Rightarrow> pystr" where
  "hash_hex h = ascii_upper (bytes_hex (hash_data h))"

text \<open>The two loops of \<^verbatim>\<open>difficulty\<close>: over the bits of a byte, and over the bytes.\<close>

fun bit_scan :: "nat \<Rightarrow> byte \<Rightarrow> nat list \<Rightarrow> nat \<Rightarrow> nat" where
  "bit_scan byte_index b [] last_set_bit = last_set_bit"
| "bit_scan byte_index b (j # js) last_set_bit =
     bit_scan byte_index b js
       (if b AND push_bit j 1 \<noteq> 0 then 1 + 8 * byte_index + j else last_set_bit)"

fun byte_scan :: "nat \<Rightarrow> bytes \<Rightarrow> nat \<Rightarrow> nat" where
  "byte_scan byte_index [] last_set_bit = last_set_bit"
| "byte_scan byte_index (b # bs) last_set_bit =
     byte_scan (Suc byte_index) bs (bit_scan byte_index b [0..<8] last_set_bit)"

definition hash_difficulty :: "hash \<Rightarrow> int" where
  "hash_difficulty h = 256 - int (byte_scan 0 (hash_data h) 0)"

lemma nat_bit_length_eq: "2 ^ k \<le> n \<Longrightarrow> n < 2 ^ Suc k \<Longrightarrow> nat_bit_length n = Suc k"
  using nat_bit_length_le_iff [of n k] nat_bit_length_le_iff [of n "Suc k"] by linarith

lemma nat_bit_length_byte:
  assumes "0 < m" "b < 256"
  shows "nat_bit_length (b + 256 * m) = 8 + nat_bit_length m"
proof -
  have le: "nat_bit_length (b + 256 * m) \<le> k + 8 \<longleftrightarrow> nat_bit_length m \<le> k" for k
  proof -
    have "b + 256 * m < 2 ^ (k + 8) \<longleftrightarrow> b + 256 * m < 256 * 2 ^ k" by (simp add: power_add mult.commute)
    also have "\<dots> \<longleftrightarrow> m < 2 ^ k" using assms by linarith
    finally show ?thesis by (simp add: nat_bit_length_le_iff)
  qed
  have "\<not> nat_bit_length (b + 256 * m) \<le> 8"
    using assms by (simp only: nat_bit_length_le_iff) simp
  then obtain k where k: "nat_bit_length (b + 256 * m) = k + 8" by (metis le_add_diff_inverse2 nat_le_linear)
  with le [of k] le [of "k - 1"] show ?thesis
    by (metis add.commute diff_le_self le_antisym le_refl nat_add_left_cancel_le
        add_le_cancel_right le [of "nat_bit_length m"])
qed

lemma bit_scan_append:
  "bit_scan i b (xs @ ys) l = bit_scan i b ys (bit_scan i b xs l)"
  by (induction xs arbitrary: l) auto

lemma bit_scan_upt:
  "bit_scan i b [0..<k] l =
     (if take_bit k (unat b) = 0 then l else 8 * i + nat_bit_length (take_bit k (unat b)))"
proof (induction k)
  case (Suc k)
  have t: "take_bit (Suc k) (unat b) = (if bit (unat b) k then 2 ^ k else 0) + take_bit k (unat b)"
    by (simp add: take_bit_Suc_from_most)
  have lt: "take_bit k (unat b) < 2 ^ k" by simp
  have a: "b AND push_bit k 1 \<noteq> 0 \<longleftrightarrow> bit (unat b) k"
  proof -
    have "b AND push_bit k 1 \<noteq> 0 \<longleftrightarrow> bit b k"
      by (metis and_exp_eq_0_iff_not_bit push_bit_of_1)
    then show ?thesis by (simp add: bit_unsigned_iff)
  qed
  show ?case
  proof (cases "bit (unat b) k")
    case True
    then have "nat_bit_length (take_bit (Suc k) (unat b)) = Suc k"
      unfolding t using lt by (intro nat_bit_length_eq) simp_all
    moreover have "take_bit (Suc k) (unat b) \<noteq> 0" unfolding t using True by simp
    ultimately show ?thesis using True a by (simp add: bit_scan_append)
  next
    case False
    then have "take_bit (Suc k) (unat b) = take_bit k (unat b)" unfolding t by simp
    with Suc.IH False a show ?thesis by (simp add: bit_scan_append)
  qed
qed simp

lemma bit_scan_byte:
  "bit_scan i b [0..<8] l = (if b = 0 then l else 8 * i + nat_bit_length (unat b))"
proof -
  have "take_bit 8 (unat b) = unat b"
    using unat_byte_less [of b] by (simp add: take_bit_nat_eq_self_iff)
  then show ?thesis using bit_scan_upt [of i b 8 l] by (simp add: unat_eq_zero)
qed

lemma byte_scan_eq:
  "byte_scan i bs l = (if le_int bs = 0 then l else 8 * i + nat_bit_length (nat (le_int bs)))"
proof (induction bs arbitrary: i l)
  case (Cons b bs)
  have u: "uint b = int (unat b)" "unat b < 256" using unat_byte_less [of b] by simp_all
  have sum0: "uint b + 256 * le_int bs = 0 \<longleftrightarrow> b = 0 \<and> le_int bs = 0"
  proof
    assume "uint b + 256 * le_int bs = 0"
    then have "uint b = 0 \<and> le_int bs = 0"
      using le_int_nonneg [of bs] uint_byte_bounds(1) [of b] by presburger
    then show "b = 0 \<and> le_int bs = 0" by (simp add: uint_0_iff)
  qed simp
  show ?case
  proof (cases "le_int bs = 0")
    case True
    then show ?thesis by (simp add: Cons bit_scan_byte uint_0_iff)
  next
    case False
    then have m: "0 < nat (le_int bs)" using le_int_nonneg [of bs] by linarith
    have "nat (uint b + 256 * le_int bs) = unat b + 256 * nat (le_int bs)"
      using u by (simp add: nat_add_distrib nat_mult_distrib)
    with nat_bit_length_byte [OF m u(2)] False sum0 show ?thesis by (simp add: Cons)
  qed
qed simp

text \<open>The scan finds the bit length of the hash read as a little-endian integer.\<close>

lemma hash_difficulty_eq: "hash_difficulty h = 256 - int (bit_length (le_int (hash_data h)))"
  by (simp add: hash_difficulty_def byte_scan_eq bit_length_def)

lemma hash_difficulty_bounds: "length (hash_data h) = 32 \<Longrightarrow> 0 \<le> hash_difficulty h \<and> hash_difficulty h \<le> 256"
proof -
  assume "length (hash_data h) = 32"
  then have "\<bar>le_int (hash_data h)\<bar> < 2 ^ 256" using le_int_less [of "hash_data h"] by (simp add: pow256)
  then have "bit_length (le_int (hash_data h)) \<le> 256" using bit_length_le_iff [of "le_int (hash_data h)" 256] by blast
  then show ?thesis by (simp add: hash_difficulty_eq)
qed

lemma hash_hex_roundtrip: "hash_from_hex (hash_hex h) = Hash (hash_data h)"
proof -
  have v: "hex_value (if 97 \<le> hex_digit d \<and> hex_digit d \<le> 122 then hex_digit d - 32 else hex_digit d) = Some d"
    if "d < 16" for d
    using that by (auto simp: hex_digit_def hex_value_def)
  have sp: "\<not> is_ascii_space (if 97 \<le> hex_digit d \<and> hex_digit d \<le> 122 then hex_digit d - 32 else hex_digit d)"
    if "d < 16" for d
    using that by (auto simp: hex_digit_def is_ascii_space_def)
  have "fromhex (ascii_upper (bytes_hex bs)) = Inr bs" for bs
  proof (induction bs)
    case Nil
    show ?case by (simp add: ascii_upper_def)
  next
    case (Cons b bs)
    have d: "unat b div 16 < 16" "unat b mod 16 < 16" using unat_byte_less [of b] by simp_all
    show ?case using Cons by (simp add: ascii_upper_def sp [OF d(1)] v [OF d(1)] v [OF d(2)])
  qed
  then show ?thesis by (simp add: hash_from_hex_def hash_hex_def)
qed

section \<open>Signatures\<close>

datatype signature_kind = SK_NONE | SK_ED25519 | SK_ECDSA | SK_RING

definition SignatureKind :: "int \<Rightarrow> signature_kind result" where
  "SignatureKind v =
     (if v = 0 then Inr SK_NONE else if v = 1 then Inr SK_ED25519
      else if v = 2 then Inr SK_ECDSA else if v = 3 then Inr SK_RING else Inl ValueError)"

record signature =
  sig_data :: bytes

definition Ed25519Signature :: "bytes \<Rightarrow> signature result" where
  "Ed25519Signature raw =
     (if length raw \<noteq> SIGNATURE_LENGTH then Inl CryptoError else Inr \<lparr>sig_data = raw\<rparr>)"

definition sig_kind :: "signature \<Rightarrow> int" where
  "sig_kind s = 1"

text \<open>The loop over the addresses; an address that is not a user address is skipped.\<close>

fun sig_verify :: "crypto_lib \<Rightarrow> signature \<Rightarrow> bytes \<Rightarrow> address list \<Rightarrow> bool" where
  "sig_verify L s message [] \<longleftrightarrow> False"
| "sig_verify L s message (a # as) \<longleftrightarrow>
     (if addr_kind a \<noteq> AK_USER then sig_verify L s message as
      else if ed25519_verify L (drop 2 (addr_data a)) (sig_data s) message then True
      else sig_verify L s message as)"

definition serialize_data :: "signature \<Rightarrow> bytes result" where
  "serialize_data s = serialize (write_var_bytes (sig_data s))"

lemma sig_verify_iff:
  "sig_verify L s m as \<longleftrightarrow>
     (\<exists>a \<in> set as. addr_kind a = AK_USER \<and> ed25519_verify L (drop 2 (addr_data a)) (sig_data s) m)"
  by (induction as) auto

section \<open>Key pairs\<close>

record keys =
  private_key :: bytes

definition PhantasmaKeys :: "bytes \<Rightarrow> keys result" where
  "PhantasmaKeys raw =
     (let raw' = (if length raw = 64 then take PRIVATE_KEY_LENGTH raw else raw)
      in if length raw' \<noteq> PRIVATE_KEY_LENGTH then Inl CryptoError else Inr \<lparr>private_key = raw'\<rparr>)"

definition keys_ok :: "keys \<Rightarrow> bool" where
  "keys_ok k \<longleftrightarrow> length (private_key k) = 32"

definition double_sha256 :: "crypto_lib \<Rightarrow> bytes \<Rightarrow> bytes" where
  "double_sha256 L raw = sha256_digest L (sha256_digest L raw)"

definition from_wif :: "crypto_lib \<Rightarrow> pystr \<Rightarrow> keys result" where
  "from_wif L wif =
     (if wif = [] then Inl CryptoError
      else rthen (decode_base58 wif) (\<lambda>raw.
        if length raw \<noteq> 38 then Inl CryptoError
        else let payload = take 34 raw; checksum = drop 34 raw in
          if take 4 (double_sha256 L payload) \<noteq> checksum then Inl CryptoError
          else if length payload \<noteq> 34 \<or> payload ! 0 \<noteq> 0x80 \<or> last payload \<noteq> 0x01 then Inl CryptoError
          else PhantasmaKeys (take 32 (drop 1 payload))))"

definition to_wif :: "crypto_lib \<Rightarrow> keys \<Rightarrow> pystr" where
  "to_wif L k =
     (let payload = [0x80] @ private_key k @ [0x01]
      in encode_base58 (payload @ take 4 (double_sha256 L payload)))"

definition public_key :: "crypto_lib \<Rightarrow> keys \<Rightarrow> bytes" where
  "public_key L k = ed25519_public L (private_key k)"

definition keys_address :: "crypto_lib \<Rightarrow> keys \<Rightarrow> address result" where
  "keys_address L k = from_public_key (public_key L k)"

definition keys_sign :: "crypto_lib \<Rightarrow> keys \<Rightarrow> bytes \<Rightarrow> signature result" where
  "keys_sign L k message = Ed25519Signature (ed25519_sign L (private_key k) message)"

lemma PhantasmaKeys_32: "length raw = 32 \<Longrightarrow> PhantasmaKeys raw = Inr \<lparr>private_key = raw\<rparr>"
  by (simp add: PhantasmaKeys_def)

lemma PhantasmaKeys_ok: "PhantasmaKeys raw = Inr k \<Longrightarrow> keys_ok k"
  by (auto simp: PhantasmaKeys_def keys_ok_def Let_def split: if_splits)

lemma from_wif_to_wif:
  assumes "crypto_lib_ok L" "keys_ok k"
  shows "from_wif L (to_wif L k) = Inr k"
proof -
  let ?p = "[0x80] @ private_key k @ [0x01]"
  let ?d = "?p @ take 4 (double_sha256 L ?p)"
  have k: "length (private_key k) = 32" using assms(2) by (simp add: keys_ok_def)
  have "length (double_sha256 L ?p) = 32"
    using assms(1) unfolding crypto_lib_ok_def double_sha256_def by blast
  then have l: "length ?d = 38" "take 34 ?d = ?p" "drop 34 ?d = take 4 (double_sha256 L ?p)"
    using k by simp_all
  have n: "encode_base58 ?d \<noteq> []" by (rule encode_base58_nonempty) simp
  have d: "decode_base58 (encode_base58 ?d) = Inr ?d" by (rule decode_encode_base58) simp
  have p: "length ?p = 34" "?p ! 0 = 0x80" "last ?p = 0x01" "take 32 (drop 1 ?p) = private_key k"
    using k by simp_all
  show ?thesis
    unfolding from_wif_def to_wif_def Let_def d rthen_simps
    unfolding l p
    using k n by (simp add: PhantasmaKeys_32)
qed

lemma to_wif_from_wif:
  assumes "from_wif L wif = Inr k"
  shows "to_wif L k = wif"
proof -
  from assms obtain raw where raw: "decode_base58 wif = Inr raw" and l: "length raw = 38"
    and c: "take 4 (double_sha256 L (take 34 raw)) = drop 34 raw"
    and p: "take 34 raw ! 0 = 0x80" "last (take 34 raw) = 0x01"
    and k: "PhantasmaKeys (take 32 (drop 1 (take 34 raw))) = Inr k"
    by (auto simp: from_wif_def Let_def rthen_Inr_iff split: if_splits)
  let ?p = "take 34 raw"
  have "private_key k = take 32 (drop 1 ?p)"
    using k l by (auto simp: PhantasmaKeys_def Let_def split: if_splits)
  have "?p = take 33 raw @ [raw ! 33]" using take_Suc_conv_app_nth [of 33 raw] l by simp
  moreover have "take 33 raw = raw ! 0 # take 32 (drop 1 raw)" using l by (cases raw) auto
  moreover have "take 32 (drop 1 ?p) = take 32 (drop 1 raw)" by (simp add: drop_take)
  moreover have "last ?p = raw ! 33" by (simp add: calculation(1))
  moreover have "?p ! 0 = raw ! 0" by simp
  ultimately have "?p = [0x80] @ private_key k @ [0x01]"
    using p \<open>private_key k = _\<close> by simp
  then have "to_wif L k = encode_base58 (?p @ drop 34 raw)" by (simp add: to_wif_def c [symmetric])
  then show ?thesis using encode_decode_base58 [OF raw] by simp
qed

lemma keys_address_user:
  assumes "crypto_lib_ok L" "keys_ok k"
  shows "keys_address L k = Inr \<lparr>addr_data = [1, 0] @ public_key L k\<rparr>" "length (public_key L k) = 32"
proof -
  show l: "length (public_key L k) = 32"
    using assms by (simp add: public_key_def crypto_lib_ok_def keys_ok_def)
  show "keys_address L k = Inr \<lparr>addr_data = [1, 0] @ public_key L k\<rparr>"
    unfolding keys_address_def by (rule from_public_key_32 [OF l])
qed

lemma keys_sign_ok:
  assumes "crypto_lib_ok L" "keys_ok k"
  shows "keys_sign L k m = Inr \<lparr>sig_data = ed25519_sign L (private_key k) m\<rparr>"
    "ed25519_verify L (public_key L k) (ed25519_sign L (private_key k) m) m"
    "length (ed25519_sign L (private_key k) m) = 64"
  using assms by (simp_all add: keys_sign_def Ed25519Signature_def public_key_def crypto_lib_ok_def keys_ok_def)

section \<open>Properties\<close>

text \<open>Keys for the witnesses.\<close>

definition example_keys :: keys where
  "example_keys = \<lparr>private_key = replicate 32 1\<rparr>"

lemma example_keys_ok: "keys_ok example_keys"
  by (simp add: keys_ok_def example_keys_def)

text \<open>C32: The parser accepts, for an address other than the null address, exactly its own text, and only
  addresses of a valid kind have one.\<close>

theorem address_text_unique:
  assumes "\<not> is_null a"
  shows "from_text (Some t) = Inr a \<longleftrightarrow> t = addr_text a \<and> address_ok a \<and> addr_kind a \<noteq> AK_INVALID"
  using from_text_ok [of "Some t" a] addr_text_from_text [of t a] from_text_addr_text [of a] assms by auto

theorem address_text_unique_witness:
  "from_text (Some (addr_text \<lparr>addr_data = [2, 0] @ replicate 32 5\<rparr>)) = Inr \<lparr>addr_data = [2, 0] @ replicate 32 5\<rparr>"
proof -
  let ?a = "\<lparr>addr_data = [2, 0] @ replicate 32 5\<rparr>"
  have n: "\<not> is_null ?a" by (simp add: is_null_def numeral_eq_Suc)
  have "address_ok ?a" "addr_kind ?a \<noteq> AK_INVALID" using n by (simp_all add: address_ok_def addr_kind_def)
  with address_text_unique [OF n, of "addr_text ?a"] show ?thesis by simp
qed

text \<open>The text printed for an address of no known kind starts with P and is refused by the parser,
  while the text of every other well-formed address is accepted and gives the address back.\<close>

theorem address_text_roundtrip:
  assumes "address_ok a"
  shows "from_text (Some (addr_text a)) = (if addr_kind a = AK_INVALID then Inl CryptoError else Inr a)"
proof (cases "addr_kind a = AK_INVALID")
  case True
  then have n: "\<not> is_null a" by (auto simp: addr_kind_def)
  have "addr_data a \<noteq> []" using assms by (auto simp: address_ok_def)
  then have e: "encode_base58 (addr_data a) \<noteq> []" "decode_base58 (encode_base58 (addr_data a)) = Inr (addr_data a)"
    by (simp_all add: encode_base58_nonempty decode_encode_base58)
  have "Address (addr_data a) = Inr a" using assms by (cases a) (simp add: Address_Inr address_ok_def)
  then show ?thesis
    using True n e by (auto simp: addr_text_def from_text_def Let_def ascii_upper_def Suc_le_eq)
qed (simp add: from_text_addr_text assms)

theorem address_text_roundtrip_witness:
  "from_text (Some (addr_text \<lparr>addr_data = replicate 33 0 @ [1]\<rparr>)) = Inl CryptoError"
proof -
  let ?a = "\<lparr>addr_data = replicate 33 0 @ [1]\<rparr>"
  have "address_ok ?a" by (simp add: address_ok_def)
  moreover have "addr_kind ?a = AK_INVALID" by (simp add: addr_kind_def is_null_def numeral_eq_Suc)
  ultimately show ?thesis using address_text_roundtrip [of ?a] by simp
qed

text \<open>A key pair is imported from exactly one WIF text, the one it exports.\<close>

theorem wif_unique:
  assumes "crypto_lib_ok L" "keys_ok k"
  shows "from_wif L wif = Inr k \<longleftrightarrow> wif = to_wif L k"
  using from_wif_to_wif [OF assms] to_wif_from_wif [of L wif k] by auto

theorem wif_unique_witness:
  "from_wif example_lib (to_wif example_lib example_keys) = Inr example_keys"
  using wif_unique [OF example_lib_ok example_keys_ok] by simp

text \<open>The difficulty of a hash is at least d exactly when the hash, read as a little-endian integer,
  is below 2^(256 - d).\<close>

theorem difficulty_threshold:
  assumes "length (hash_data h) = 32" "d \<le> 256"
  shows "int d \<le> hash_difficulty h \<longleftrightarrow> le_int (hash_data h) < 2 ^ (256 - d)"
proof -
  have "int d \<le> hash_difficulty h \<longleftrightarrow> bit_length (le_int (hash_data h)) \<le> 256 - d"
    using assms(2) by (auto simp: hash_difficulty_eq)
  also have "\<dots> \<longleftrightarrow> \<bar>le_int (hash_data h)\<bar> < 2 ^ (256 - d)" by (rule bit_length_le_iff)
  finally show ?thesis by simp
qed

theorem difficulty_threshold_witness:
  "hash_difficulty \<lparr>hash_data = replicate 31 0 @ [1]\<rparr> < 8"
proof -
  let ?h = "\<lparr>hash_data = replicate 31 0 @ [1]\<rparr>"
  have "\<not> le_int (hash_data ?h) < 2 ^ (256 - 8)" by (simp add: le_int_append)
  with difficulty_threshold [of ?h 8] show ?thesis by simp
qed

end
