(* ===== verification/Transaction.thy ===== *)
theory Transaction
  imports Crypto
begin

text \<open>
  \<^verbatim>\<open>transaction.py\<close>: the VM script transaction. \<open>to_bytes\<close> and \<open>from_bytes\<close> are the wire form,
  \<open>tx_sign\<close> and \<open>mine\<close> change the transaction in place, so they return the new transaction next to
  the result or the exception. \<open>mine_loop\<close> is the proof-of-work loop; it is total, because the
  4-byte nonce runs out (\<^verbatim>\<open>int.to_bytes\<close> raises \<^verbatim>\<open>OverflowError\<close>) at 2^32.
\<close>

record tx =
  nexus_name :: pystr
  chain_name :: pystr
  script :: bytes
  expiration :: int
  payload :: bytes
  signatures :: "signature list"

text \<open>\<^verbatim>\<open>SDK_PAYLOAD\<close>, for the version of the installed package.\<close>

definition SDK_PAYLOAD :: "pystr \<Rightarrow> bytes result" where
  "SDK_PAYLOAD version = utf8_encode (str ''PY-SDK-v'' @ version)"

section \<open>Wire form\<close>

definition write_signature :: "signature \<Rightarrow> wop" where
  "write_signature s = wseq [write_u8 (sig_kind s), write_var_bytes (sig_data s)]"

definition write_tx_body :: "tx \<Rightarrow> wop list" where
  "write_tx_body t = [
     write_string (nexus_name t),
     write_string (chain_name t),
     write_var_bytes (script t),
     write_u32_le (expiration t),
     write_var_bytes (payload t)]"

definition write_tx :: "tx \<Rightarrow> bool \<Rightarrow> wop" where
  "write_tx t with_signatures = wseq (write_tx_body t @
     (if with_signatures
      then write_var_uint (int (length (signatures t))) # map write_signature (signatures t)
      else []))"

definition to_bytes :: "tx \<Rightarrow> bool \<Rightarrow> bytes result" where
  "to_bytes t with_signatures = serialize (write_tx t with_signatures)"

definition read_signature :: "signature rop" where
  "read_signature =
     rbind (rbind read_u8 (\<lambda>v. rlift (SignatureKind v))) (\<lambda>kind.
       if kind \<noteq> SK_ED25519 then rfail ValueError
       else rbind (read_var_bytes MAX_ARRAY_SIZE) (\<lambda>raw. rlift (Ed25519Signature raw)))"

definition read_tx :: "tx rop" where
  "read_tx =
     rbind read_string (\<lambda>nexus.
     rbind read_string (\<lambda>chain.
     rbind (read_var_bytes MAX_ARRAY_SIZE) (\<lambda>scr.
     rbind read_u32_le (\<lambda>expires.
     rbind (read_var_bytes MAX_ARRAY_SIZE) (\<lambda>pay.
     rbind read_var_uint (\<lambda>count.
     rbind (read_n (nat count) read_signature) (\<lambda>sigs.
     rret \<lparr>nexus_name = nexus, chain_name = chain, script = scr, expiration = expires,
       payload = pay, signatures = sigs\<rparr>)))))))"

definition from_bytes :: "bytes \<Rightarrow> tx result" where
  "from_bytes raw = deserialize read_tx raw"

text \<open>What the reader relies on: the size limit of the readers, and 64-byte signatures.\<close>

definition tx_ok :: "tx \<Rightarrow> bool" where
  "tx_ok t \<longleftrightarrow>
     (\<forall>bs. utf8_encode (nexus_name t) = Inr bs \<longrightarrow> int (length bs) \<le> MAX_ARRAY_SIZE) \<and>
     (\<forall>bs. utf8_encode (chain_name t) = Inr bs \<longrightarrow> int (length bs) \<le> MAX_ARRAY_SIZE) \<and>
     int (length (script t)) \<le> MAX_ARRAY_SIZE \<and> int (length (payload t)) \<le> MAX_ARRAY_SIZE \<and>
     list_all (\<lambda>s. length (sig_data s) = 64) (signatures t)"

lemma vm_appends [simp]:
  "appends (write_u8 v)" "appends (write_u32_le v)" "appends (write_var_uint v)"
  "appends (write_var_bytes bs)" "appends (write_string s)" "appends (write_big_integer i)"
proof -
  have u: "\<And>v. appends (write_var_uint v)" by (rule rt_appends, rule wire_rt)
  then have b: "\<And>bs. appends (write_var_bytes bs)" by (simp add: write_var_bytes_def)
  then show "appends (write_var_uint v)" "appends (write_var_bytes bs)" "appends (write_string s)"
    "appends (write_big_integer i)"
    using u by (auto simp: write_string_def write_big_integer_def)
  show "appends (write_u8 v)" "appends (write_u32_le v)" by (rule rt_appends, rule wire_rt)+
qed

lemma appends_signature [simp]: "appends (write_signature s)"
  by (simp add: write_signature_def)

lemma rt_signature: "length (sig_data s) = 64 \<Longrightarrow> rt (write_signature s) read_signature s"
proof -
  assume l: "length (sig_data s) = 64"
  have e: "\<lparr>sig_data = sig_data s\<rparr> = s" by (cases s) simp
  have k: "rt (write_u8 (sig_kind s)) (rbind read_u8 (\<lambda>v. rlift (SignatureKind v))) SK_ED25519"
    by (rule rt_bind_lift [OF rt_u8]) (simp add: SignatureKind_def sig_kind_def)
  have "int (length (sig_data s)) \<le> MAX_ARRAY_SIZE" using l by (simp add: MAX_ARRAY_SIZE_def)
  then have "rt (write_var_bytes (sig_data s))
    (rbind (read_var_bytes MAX_ARRAY_SIZE) (\<lambda>raw. rlift (Ed25519Signature raw))) s"
    by (intro rt_bind_lift [OF rt_var_bytes_max]) (simp_all add: Ed25519Signature_def l e)
  then show ?thesis
    unfolding write_signature_def read_signature_def by (intro rt_cons [OF k] rt_last) simp
qed

lemma rt_tx: "tx_ok t \<Longrightarrow> rt (write_tx t True) read_tx t"
proof -
  assume ok: "tx_ok t"
  have "rt (wseq (map write_signature (signatures t)))
    (read_n (length (signatures t)) read_signature) (map (\<lambda>x. x) (signatures t))"
    using ok by (intro rt_elements rt_signature) (simp add: tx_ok_def list_all_iff)
  then have "rt (wseq (map write_signature (signatures t)))
    (rbind (read_n (nat (int (length (signatures t)))) read_signature) (\<lambda>sigs.
     rret \<lparr>nexus_name = nexus_name t, chain_name = chain_name t, script = script t,
       expiration = expiration t, payload = payload t, signatures = sigs\<rparr>)) t"
    by (simp, intro rt_map [where g = "\<lambda>sigs. \<lparr>nexus_name = nexus_name t, chain_name = chain_name t,
       script = script t, expiration = expiration t, payload = payload t, signatures = sigs\<rparr>"]) auto
  then show ?thesis
    unfolding write_tx_def write_tx_body_def read_tx_def using ok
    by (auto simp: tx_ok_def intro!: rt_cons [OF rt_string] rt_cons [OF rt_var_bytes_max]
        rt_cons [OF rt_u32] rt_cons [OF rt_var_uint])
qed

lemma safe_signature: "safe read_signature"
  unfolding read_signature_def by (auto intro!: wire_safe)

text \<open>Deserialising can raise \<^verbatim>\<open>ValueError\<close> and \<^verbatim>\<open>UnicodeDecodeError\<close> beside the SDK's own errors.\<close>

lemma raises_tx: "raises read_tx {SerializationError, UnicodeDecodeError, ValueError, CryptoError}"
proof -
  have "raises read_signature {SerializationError, UnicodeDecodeError, ValueError, CryptoError}"
    unfolding read_signature_def
    by (auto intro!: wire_raises simp: SignatureKind_def Ed25519Signature_def split: if_splits)
  then show ?thesis unfolding read_tx_def by (auto intro!: wire_raises)
qed

interpretation vm_tx: codec "\<lambda>t. write_tx t True" read_tx tx_ok
proof unfold_locales
  show "tx_ok t \<Longrightarrow> rt (write_tx t True) read_tx t" for t by (rule rt_tx)
  show "safe read_tx" unfolding read_tx_def by (auto intro!: wire_safe safe_signature)
qed

section \<open>Hash, signatures and proof of work\<close>

definition tx_hash :: "crypto_lib \<Rightarrow> tx \<Rightarrow> hash result" where
  "tx_hash L t = rthen (to_bytes t False) (hash_sha256 L)"

definition tx_sign :: "crypto_lib \<Rightarrow> tx \<Rightarrow> keys \<Rightarrow> (signature \<times> tx) result" where
  "tx_sign L t key_pair =
     rthen (to_bytes t False) (\<lambda>message.
     rthen (keys_sign L key_pair message) (\<lambda>s.
     Inr (s, t\<lparr>signatures := signatures t @ [s]\<rparr>)))"

definition is_signed_by :: "crypto_lib \<Rightarrow> tx \<Rightarrow> keys \<Rightarrow> bool result" where
  "is_signed_by L t key_pair =
     rthen (to_bytes t False) (\<lambda>message.
       if signatures t = [] then Inr False
       else rthen (keys_address L key_pair) (\<lambda>a.
         Inr (list_ex (\<lambda>s. sig_verify L s message [a]) (signatures t))))"

text \<open>The loop mutates \<^verbatim>\<open>self.payload\<close>; on an exception the transaction keeps its last payload.\<close>

function mine_loop :: "crypto_lib \<Rightarrow> tx \<Rightarrow> int \<Rightarrow> nat \<Rightarrow> unit result \<times> tx" where
  "mine_loop L t difficulty nonce =
     (case tx_hash L t of
        Inl e \<Rightarrow> (Inl e, t)
      | Inr h \<Rightarrow>
          if hash_difficulty h \<ge> difficulty then (Inr (), t)
          else if Suc nonce \<ge> 2 ^ 32 then (Inl OverflowError, t)
          else mine_loop L (t\<lparr>payload := le_bytes 4 (int (Suc nonce))\<rparr>) difficulty (Suc nonce))"
  by pat_completeness auto
termination
  by (relation "measure (\<lambda>(L, t, difficulty, nonce). 2 ^ 32 - nonce)") auto

declare mine_loop.simps [simp del]

definition mine :: "crypto_lib \<Rightarrow> tx \<Rightarrow> int \<Rightarrow> unit result \<times> tx" where
  "mine L t difficulty = (if difficulty \<le> 0 then (Inr (), t) else mine_loop L t difficulty 0)"

definition tx_state_is_success :: "pystr \<Rightarrow> bool" where
  "tx_state_is_success state \<longleftrightarrow> ascii_upper state = str ''HALT''"

definition tx_state_is_fault :: "pystr \<Rightarrow> bool" where
  "tx_state_is_fault state \<longleftrightarrow> ascii_upper state \<in> {str ''FAULT'', str ''BREAK''}"

lemma to_bytes_signatures [simp]: "to_bytes (t\<lparr>signatures := s\<rparr>) False = to_bytes t False"
  by (simp add: to_bytes_def write_tx_def write_tx_body_def)

lemma mine_loop_correct:
  "mine_loop L t difficulty nonce = (r, t') \<Longrightarrow>
   (\<exists>p. t' = t\<lparr>payload := p\<rparr> \<and> (p = payload t \<or> (\<exists>k. nonce < k \<and> k < 2 ^ 32 \<and> p = le_bytes 4 (int k)))) \<and>
   (case r of
      Inr _ \<Rightarrow> \<exists>h. tx_hash L t' = Inr h \<and> difficulty \<le> hash_difficulty h
    | Inl e \<Rightarrow> tx_hash L t' = Inl e \<or>
        e = OverflowError \<and> (\<exists>h. tx_hash L t' = Inr h \<and> hash_difficulty h < difficulty))"
proof (induction L t difficulty nonce rule: mine_loop.induct)
  case (1 L t difficulty nonce)
  note step = 1(2) [unfolded mine_loop.simps [of L t difficulty nonce]]
  have same: "\<exists>p. t = t\<lparr>payload := p\<rparr> \<and> (p = payload t \<or> (\<exists>k. nonce < k \<and> k < 2 ^ 32 \<and> p = le_bytes 4 (int k)))"
    by (rule exI [of _ "payload t"]) simp
  show ?case
  proof (cases "tx_hash L t")
    case (Inl e)
    with step have "r = Inl e" "t' = t" by simp_all
    with same Inl show ?thesis by simp
  next
    case (Inr h)
    consider "difficulty \<le> hash_difficulty h" | "\<not> difficulty \<le> hash_difficulty h" "Suc nonce \<ge> 2 ^ 32"
      | "\<not> difficulty \<le> hash_difficulty h" "\<not> Suc nonce \<ge> 2 ^ 32" by blast
    then show ?thesis
    proof cases
      case 1
      with step Inr have "r = Inr ()" "t' = t" by simp_all
      with same Inr 1 show ?thesis by simp
    next
      case 2
      with step Inr have "r = Inl OverflowError" "t' = t" by simp_all
      with same Inr 2 show ?thesis by simp
    next
      case 3
      let ?t = "t\<lparr>payload := le_bytes 4 (int (Suc nonce))\<rparr>"
      from 3 step Inr have m: "mine_loop L ?t difficulty (Suc nonce) = (r, t')" by simp
      note IH = 1(1) [OF Inr 3 m]
      then obtain p where p: "t' = ?t\<lparr>payload := p\<rparr>"
        "p = le_bytes 4 (int (Suc nonce)) \<or> (\<exists>k. Suc nonce < k \<and> k < 2 ^ 32 \<and> p = le_bytes 4 (int k))"
        by auto
      from p(2) obtain k where "nonce < k" "k < 2 ^ 32" "p = le_bytes 4 (int k)"
        using 3(2) by (metis Suc_lessD lessI not_le)
      with p(1) IH show ?thesis by auto
    qed
  qed
qed

lemma serialize_u8_Inl: "serialize (write_u8 v) = Inl e \<Longrightarrow> e = SerializationError"
  by (auto simp: write_u8_def split: if_splits)

lemma serialize_u32_Inl: "serialize (write_u32_le v) = Inl e \<Longrightarrow> e = SerializationError"
  by (auto simp: write_u32_le_def pack_unsigned_if split: if_splits)

lemma serialize_var_uint_Inl: "serialize (write_var_uint v) = Inl e \<Longrightarrow> e = SerializationError"
  by (auto simp: serialize_var_uint split: if_splits)

lemma serialize_var_bytes_Inl: "serialize (write_var_bytes bs) = Inl e \<Longrightarrow> e = SerializationError"
  unfolding write_var_bytes_def
  by (drule serialize_wseq_Inl [rotated]) (auto dest: serialize_var_uint_Inl)

lemma serialize_string_Inl:
  "serialize (write_string s) = Inl e \<Longrightarrow> e \<in> {SerializationError, UnicodeEncodeError}"
  by (auto simp: write_string_def serialize_w_bind rthen_Inl_iff
      dest: serialize_var_bytes_Inl utf8_encode_error)

lemma to_bytes_unsigned_Inl:
  "to_bytes t False = Inl e \<Longrightarrow> e \<in> {SerializationError, UnicodeEncodeError}"
  unfolding to_bytes_def write_tx_def write_tx_body_def
  by (drule serialize_wseq_Inl [rotated])
    (auto dest: serialize_string_Inl serialize_var_bytes_Inl serialize_u32_Inl)

lemma tx_hash_Inl:
  "tx_hash L t = Inl e \<Longrightarrow> e \<in> {SerializationError, UnicodeEncodeError, CryptoError}"
  by (auto simp: tx_hash_def rthen_Inl_iff hash_sha256_def Hash_def
      dest: to_bytes_unsigned_Inl split: if_splits)

lemma payload_payload [simp]: "t\<lparr>payload := p, payload := q\<rparr> = t\<lparr>payload := q\<rparr>"
  by (cases t) simp

text \<open>The loop gives up only after every nonce has been tried.\<close>

lemma mine_loop_exhausted:
  "mine_loop L t difficulty nonce = (Inl OverflowError, t') \<Longrightarrow> nonce < k \<Longrightarrow> k < 2 ^ 32 \<Longrightarrow>
   \<exists>h. tx_hash L (t\<lparr>payload := le_bytes 4 (int k)\<rparr>) = Inr h \<and> hash_difficulty h < difficulty"
proof (induction L t difficulty nonce rule: mine_loop.induct)
  case (1 L t difficulty nonce)
  note step = 1(2) [unfolded mine_loop.simps [of L t difficulty nonce]]
  show ?case
  proof (cases "tx_hash L t")
    case (Inl e)
    with step tx_hash_Inl [OF Inl] show ?thesis by auto
  next
    case (Inr h)
    have n: "\<not> difficulty \<le> hash_difficulty h" "\<not> 2 ^ 32 \<le> Suc nonce"
      using step Inr 1(3,4) by (auto split: if_splits)
    let ?t = "t\<lparr>payload := le_bytes 4 (int (Suc nonce))\<rparr>"
    have m: "mine_loop L ?t difficulty (Suc nonce) = (Inl OverflowError, t')"
      using step Inr n by simp
    show ?thesis
    proof (cases "k = Suc nonce")
      case False
      with 1(3) have "Suc nonce < k" by simp
      from 1(1) [OF Inr n m this 1(4)] show ?thesis by (simp only: payload_payload)
    next
      case True
      note step2 = m [unfolded mine_loop.simps [of L ?t difficulty "Suc nonce"]]
      show ?thesis
      proof (cases "tx_hash L ?t")
        case (Inl e)
        with step2 tx_hash_Inl [OF Inl] show ?thesis by auto
      next
        case (Inr h')
        with step2 have "\<not> difficulty \<le> hash_difficulty h'" by (auto split: if_splits)
        with Inr True show ?thesis by auto
      qed
    qed
  qed
qed

lemma tx_sign_signed:
  assumes L: "crypto_lib_ok L" and k: "keys_ok k" and s: "tx_sign L t k = Inr (s, t')"
  shows "is_signed_by L t' k = Inr True"
proof -
  from s obtain m where m: "to_bytes t False = Inr m" and sg: "keys_sign L k m = Inr s"
    and t': "t' = t\<lparr>signatures := signatures t @ [s]\<rparr>"
    by (auto simp: tx_sign_def rthen_Inr_iff)
  let ?a = "\<lparr>addr_data = [1, 0] @ public_key L k\<rparr>"
  have "addr_kind ?a = AK_USER" by (rule user_address(1) [OF keys_address_user(2) [OF L k]])
  moreover have "ed25519_verify L (public_key L k) (sig_data s) m"
    using keys_sign_ok [OF L k, of m] sg by simp
  ultimately have "sig_verify L s m [?a]" by (simp add: sig_verify_iff)
  then have "list_ex (\<lambda>s. sig_verify L s m [?a]) (signatures t')" by (simp only: t') (simp del: sig_verify.simps)
  moreover have "to_bytes t' False = Inr m" "signatures t' \<noteq> []" using m by (simp_all add: t')
  ultimately show ?thesis
    unfolding is_signed_by_def keys_address_user(1) [OF L k] by (simp only: rthen_simps if_False)
qed

section \<open>Properties\<close>

text \<open>A transaction for the witnesses.\<close>

definition example_tx :: tx where
  "example_tx = \<lparr>nexus_name = str ''mainnet'', chain_name = str ''main'', script = [11],
     expiration = 1700000000, payload = [1, 2], signatures = []\<rparr>"

lemma example_tx_ok: "tx_ok example_tx"
  by (simp add: tx_ok_def example_tx_def MAX_ARRAY_SIZE_def utf8_char_def)

lemma example_tx_written: "\<exists>bs. to_bytes (example_tx\<lparr>payload := le_bytes 4 k\<rparr>) False = Inr bs"
  "\<exists>bs. to_bytes example_tx w = Inr bs"
  by (simp_all add: to_bytes_def write_tx_def write_tx_body_def example_tx_def serialize_wseq
      write_string_def write_var_bytes_def serialize_var_uint write_u32_le_def pack_unsigned_if utf8_char_def)

text \<open>A script transaction comes back from its wire form with all its signatures; with bytes after it,
  or cut short, it is rejected.\<close>

theorem tx_roundtrip:
  assumes "tx_ok t" "to_bytes t True = Inr bs"
  shows "from_bytes bs = Inr t \<and>
    (\<forall>cs. cs \<noteq> [] \<longrightarrow> from_bytes (bs @ cs) = Inl SerializationError) \<and>
    (\<forall>pre post. bs = pre @ post \<longrightarrow> post \<noteq> [] \<longrightarrow> (\<exists>e. from_bytes pre = Inl e))"
  using vm_tx.roundtrip [OF assms(1)] vm_tx.trailing [OF assms(1)] vm_tx.truncated [OF assms(1)] assms(2)
  unfolding from_bytes_def to_bytes_def by blast

theorem tx_roundtrip_witness:
  "\<exists>bs. to_bytes example_tx True = Inr bs \<and> from_bytes bs = Inr example_tx"
  using tx_roundtrip [OF example_tx_ok] example_tx_written(2) [of True] by blast

text \<open>Parsing a transaction from any bytes raises nothing but a serialization or crypto error, a decoding
  error, or the plain \<^verbatim>\<open>ValueError\<close> of an unknown signature kind.\<close>

theorem tx_errors:
  "from_bytes bs \<in> range Inr \<union> Inl ` {SerializationError, UnicodeDecodeError, ValueError, CryptoError}"
proof (cases "from_bytes bs")
  case (Inl e)
  then show ?thesis
    unfolding from_bytes_def using deserialize_raises [OF raises_tx] by fastforce
qed auto

text \<open>C8: Signing a transaction that can be written succeeds, leaves what is signed unchanged, appends one
  signature, and the signed transaction is recognised as signed by the key.\<close>

theorem tx_sign_is_signed:
  assumes "crypto_lib_ok L" "keys_ok k" "to_bytes t False = Inr m"
  shows "\<exists>s t'. tx_sign L t k = Inr (s, t') \<and> signatures t' = signatures t @ [s] \<and>
    to_bytes t' False = Inr m \<and> is_signed_by L t' k = Inr True"
proof -
  obtain s where "keys_sign L k m = Inr s" using keys_sign_ok(1) [OF assms(1,2)] by blast
  then have "tx_sign L t k = Inr (s, t\<lparr>signatures := signatures t @ [s]\<rparr>)" by (simp add: tx_sign_def assms(3))
  with tx_sign_signed [OF assms(1,2) this] assms(3) show ?thesis by auto
qed

theorem tx_sign_is_signed_witness:
  "\<exists>s t'. tx_sign example_lib example_tx example_keys = Inr (s, t') \<and> is_signed_by example_lib t' example_keys = Inr True"
proof -
  obtain m where "to_bytes example_tx False = Inr m" using example_tx_written(2) by blast
  from tx_sign_is_signed [OF example_lib_ok example_keys_ok this] show ?thesis by blast
qed

text \<open>C7: Mining always returns, changes nothing but the payload, and when it returns normally for a positive
  difficulty the hash has that difficulty; it fails only when the hash itself fails, or with
  \<^verbatim>\<open>OverflowError\<close> and a hash below the difficulty.\<close>

theorem mine_correct:
  "case mine L t difficulty of (r, t') \<Rightarrow>
     (\<exists>p. t' = t\<lparr>payload := p\<rparr>) \<and>
     (case r of
        Inr _ \<Rightarrow> if difficulty \<le> 0 then t' = t else (\<exists>h. tx_hash L t' = Inr h \<and> difficulty \<le> hash_difficulty h)
      | Inl e \<Rightarrow> 0 < difficulty \<and> (tx_hash L t' = Inl e \<or>
          e = OverflowError \<and> (\<exists>h. tx_hash L t' = Inr h \<and> hash_difficulty h < difficulty)))"
proof (cases "difficulty \<le> 0")
  case True
  have "\<exists>p. t = t\<lparr>payload := p\<rparr>" by (rule exI [of _ "payload t"]) simp
  with True show ?thesis by (simp add: mine_def)
next
  case False
  obtain r t' where m: "mine_loop L t difficulty 0 = (r, t')" by (cases "mine_loop L t difficulty 0") auto
  note c = mine_loop_correct [OF m]
  from False have mine: "mine L t difficulty = (r, t')" by (simp add: mine_def m)
  show ?thesis unfolding mine using c False by (cases r) auto
qed

text \<open>When mining gives up with \<^verbatim>\<open>OverflowError\<close>, every 32-bit nonce has been tried and none
  reaches the difficulty.\<close>

theorem mine_exhaustive:
  assumes "mine L t difficulty = (Inl OverflowError, t')" "0 < k" "k < 2 ^ 32"
  shows "\<exists>h. tx_hash L (t\<lparr>payload := le_bytes 4 (int k)\<rparr>) = Inr h \<and> hash_difficulty h < difficulty"
proof -
  have "mine_loop L t difficulty 0 = (Inl OverflowError, t')"
    using assms(1) by (auto simp: mine_def split: if_splits)
  from mine_loop_exhausted [OF this assms(2,3)] show ?thesis .
qed

lemma example_hash:
  assumes "\<exists>bs. to_bytes t False = Inr bs"
  shows "\<exists>h. tx_hash example_lib t = Inr h \<and> hash_difficulty h < 257"
proof -
  obtain bs where bs: "to_bytes t False = Inr bs" using assms by blast
  have l: "length (sha256_digest example_lib bs) = 32" using example_lib_ok unfolding crypto_lib_ok_def by blast
  then have "hash_difficulty \<lparr>hash_data = sha256_digest example_lib bs\<rparr> \<le> 256"
    using hash_difficulty_bounds [of "\<lparr>hash_data = sha256_digest example_lib bs\<rparr>"] by simp
  then show ?thesis by (simp add: tx_hash_def bs hash_sha256_def Hash_def l)
qed

theorem mine_exhaustive_witness:
  "\<exists>h. tx_hash example_lib (example_tx\<lparr>payload := le_bytes 4 5\<rparr>) = Inr h \<and> hash_difficulty h < 257"
proof -
  obtain r t' where m: "mine_loop example_lib example_tx 257 0 = (r, t')"
    by (cases "mine_loop example_lib example_tx 257 0") auto
  note c = mine_loop_correct [OF m]
  then obtain h where h: "tx_hash example_lib t' = Inr h" "hash_difficulty h < 257"
    using example_hash [of t'] example_tx_written(1) example_tx_written(2) [of False] by auto
  with c have "r = Inl OverflowError" by (cases r) auto
  with m have "mine example_lib example_tx 257 = (Inl OverflowError, t')" by (simp add: mine_def)
  from mine_exhaustive [OF this, of 5] show ?thesis by simp
qed

end
