(* ===== verification/Package.thy ===== *)
theory Package
  imports Transaction "HOL-Library.Multiset"
begin

text \<open>
  The surface of the package: \<^verbatim>\<open>_version.py\<close>, the imports of \<^verbatim>\<open>__init__.py\<close> and its \<^verbatim>\<open>__all__\<close>.
  An import statement binds names to attributes of a module of the package; \<^verbatim>\<open>from phantasma_py import *\<close> then binds
  the names of \<^verbatim>\<open>__all__\<close>. The theorems say that the two lists agree: nothing is shadowed, missing or hidden.
\<close>

section \<open>The version\<close>

text \<open>The metadata of the installed distributions is an argument; \<open>None\<close> is \<^verbatim>\<open>PackageNotFoundError\<close>.\<close>

definition package_version :: "(string \<Rightarrow> pystr option) \<Rightarrow> pystr" where
  "package_version version = (case version ''phantasma-sdk-py'' of Some v \<Rightarrow> v | None \<Rightarrow> str ''0.0.0'')"

text \<open>The tag the SDK puts into transactions can be made unless the metadata hold a lone surrogate.\<close>

lemma version_tag:
  "SDK_PAYLOAD (package_version (\<lambda>_. None)) = Inr (map byte_of (str ''PY-SDK-v0.0.0''))"
  "version ''phantasma-sdk-py'' = Some v \<Longrightarrow> SDK_PAYLOAD (package_version version) = utf8_encode (str ''PY-SDK-v'' @ v)"
  by (simp add: package_version_def SDK_PAYLOAD_def, code_simp) (simp add: package_version_def SDK_PAYLOAD_def)

section \<open>Imports\<close>

text \<open>\<^verbatim>\<open>from .m import a as b, ...\<close>, and the form without \<^verbatim>\<open>as\<close>.\<close>

datatype import_stmt = ImportFrom string "(string \<times> string) list"

definition plain_import :: "string \<Rightarrow> string list \<Rightarrow> import_stmt" where
  "plain_import m names = ImportFrom m (map (\<lambda>a. (a, a)) names)"

text \<open>A namespace maps a name to the module and attribute it was imported from; later imports overwrite.\<close>

type_synonym namespace = "string \<rightharpoonup> string \<times> string"

fun run_import :: "import_stmt \<Rightarrow> namespace \<Rightarrow> namespace" where
  "run_import (ImportFrom m as) ns = foldl (\<lambda>ns (a, b). ns(b \<mapsto> (m, a))) ns as"

definition run_imports :: "import_stmt list \<Rightarrow> namespace \<Rightarrow> namespace" where
  "run_imports stmts ns = foldl (\<lambda>ns s. run_import s ns) ns stmts"

text \<open>\<^verbatim>\<open>from package import *\<close> with \<^verbatim>\<open>__all__\<close>: every listed name has to be there.\<close>

fun star_import :: "namespace \<Rightarrow> string list \<Rightarrow> namespace \<Rightarrow> namespace result" where
  "star_import package [] ns = Inr ns"
| "star_import package (n # names) ns = (case package n of
     None \<Rightarrow> Inl AttributeError
   | Some x \<Rightarrow> star_import package names (ns(n \<mapsto> x)))"

fun bound_names :: "import_stmt \<Rightarrow> string list" where
  "bound_names (ImportFrom m as) = map snd as"

fun bindings :: "import_stmt \<Rightarrow> (string \<times> string \<times> string) list" where
  "bindings (ImportFrom m as) = map (\<lambda>(a, b). (b, m, a)) as"

section \<open>The package\<close>

definition carbon_import :: import_stmt where
  "carbon_import =
     plain_import ''carbon'' [
       ''GAS_MODEL_V2_UNITS_PER_BLOCK_DATA_BYTE'', ''NATIVE_SIGNATURE_BYTES'', ''WITNESS_ARRAY_ENTRY_BYTES'',
       ''BurnFungibleArgs'', ''BurnNonFungibleArgs'', ''Bytes16'', ''Bytes32'', ''Bytes64'', ''CallArgSection'',
       ''CarbonReader'', ''CarbonWriter'', ''ChainConfig'', ''CreateMintedTokenSeriesArgs'',
       ''CreateSeriesFeeOptions'', ''CreateTokenFeeOptions'', ''CreateTokenSeriesArgs'', ''FeeOptions'',
       ''GasConfig'', ''IntX'', ''ListingType'', ''MarketBuyTokenArgs'', ''MarketBuyTokenByIDArgs'',
       ''MarketCancelSaleArgs'', ''MarketCancelSaleByIDArgs'', ''MarketConfig'', ''MarketConfigFlags'',
       ''MarketContractMethod'', ''MarketGetTokenListingCountArgs'', ''MarketGetTokenListingInfoArgs'',
       ''MarketGetTokenListingInfoByIDArgs'', ''MarketSellTokenArgs'', ''MarketSellTokenByIDArgs'',
       ''MintFungibleArgs'', ''MintNFTFeeOptions'', ''MintNonFungibleArgs'', ''MintPhantasmaNonFungibleArgs'',
       ''ModuleID'', ''MsgCallArgSections'', ''NativeFeeEstimate'', ''NativeFeeKind'', ''NFTMintInfo'',
       ''PhantasmaNFTMintInfo'', ''PhantasmaNFTMintResult'', ''SeriesInfo'', ''SignedTxMsg'', ''SmallString'',
       ''TokenContractMethod'', ''TokenFlags'', ''TokenInfo'', ''TokenListing'', ''TokenSchemaField'',
       ''TokenSchemas'', ''TokenSchemasJSON'', ''TokensConfig'', ''TokensConfigFlags'', ''TxMsg'',
       ''TxMsgBurnFungible'', ''TxMsgBurnFungibleGasPayer'', ''TxMsgBurnNonFungible'',
       ''TxMsgBurnNonFungibleGasPayer'', ''TxMsgCall'', ''TxMsgCallMulti'', ''TxMsgMintFungible'',
       ''TxMsgMintNonFungible'', ''TxMsgPhantasma'', ''TxMsgPhantasmaRaw'', ''TxMsgSpecialResolution'',
       ''TxMsgTrade'', ''TxMsgTransferFungible'', ''TxMsgTransferFungibleGasPayer'',
       ''TxMsgTransferNonFungibleMulti'', ''TxMsgTransferNonFungibleMultiGasPayer'',
       ''TxMsgTransferNonFungibleSingle'', ''TxMsgTransferNonFungibleSingleGasPayer'', ''TxType'',
       ''UpdateSeriesMetadataArgs'', ''UpdateTokenMetadataArgs'', ''VMDynamicStruct'', ''VMDynamicVariable'',
       ''VMNamedDynamicVariable'', ''VMNamedVariableSchema'', ''VMStructArray'', ''VMStructFlags'',
       ''VMStructSchema'', ''VMVariableSchema'', ''Witness'', ''build_and_serialize_token_schemas'',
       ''build_create_token_series_tx'', ''build_create_token_series_tx_and_sign'',
       ''build_create_token_series_tx_and_sign_hex'', ''build_create_token_tx'',
       ''build_create_token_tx_and_sign'', ''build_create_token_tx_and_sign_hex'', ''build_mint_non_fungible_tx'',
       ''build_mint_non_fungible_tx_and_sign'', ''build_mint_non_fungible_tx_and_sign_hex'',
       ''build_mint_phantasma_non_fungible_single_tx'', ''build_mint_phantasma_non_fungible_single_tx_and_sign'',
       ''build_mint_phantasma_non_fungible_single_tx_and_sign_hex'', ''build_mint_phantasma_non_fungible_tx'',
       ''build_mint_phantasma_non_fungible_tx_and_sign'', ''build_mint_phantasma_non_fungible_tx_and_sign_hex'',
       ''build_nft_rom'', ''build_phantasma_nft_public_mint_schema'', ''build_phantasma_nft_rom'',
       ''build_series_info'', ''build_token_info'', ''build_token_metadata'', ''build_token_schemas_from_fields'',
       ''build_token_series_metadata'', ''bytes32_from_phantasma_address'',
       ''bytes32_from_phantasma_address_text'', ''bytes32_from_public_key'', ''check_token_symbol'',
       ''default_market_config'', ''deserialize'', ''envelope_bytes_for'', ''estimate_native_fee'',
       ''get_nft_address'', ''now_unix_millis'', ''parse_create_token_result'',
       ''parse_create_token_series_result'', ''parse_mint_non_fungible_result'',
       ''parse_mint_phantasma_non_fungible_result'', ''parse_token_schemas_json'',
       ''prepare_standard_token_schemas'', ''serialize'', ''serialize_token_schemas'',
       ''serialize_token_schemas_hex'', ''sign_and_serialize_tx_msg'', ''sign_and_serialize_tx_msg_hex'',
       ''sign_tx_msg'', ''token_schemas_from_json'', ''unpack_nft_instance_id'', ''verify_token_schemas'',
       ''vm_type_from_string'', ''vm_type_name'']"

definition version_import :: import_stmt where
  "version_import = plain_import ''_version'' [''__version__'']"

definition other_imports :: "import_stmt list" where
  "other_imports = [
     ImportFrom ''carbon'' [(''VMType'', ''CarbonVMType'')],
     plain_import ''crypto'' [
       ''Address'', ''AddressKind'', ''Ed25519Signature'', ''Hash'', ''PhantasmaKeys'', ''SignatureKind''],
     plain_import ''errors'' [
       ''BuilderError'', ''CryptoError'', ''EncodingError'', ''PhantasmaError'', ''RPCError'',
       ''SerializationError''],
     plain_import ''extended_events'' [
       ''EventData'', ''EventExResult'', ''MarketOrderData'', ''SpecialResolutionCall'', ''SpecialResolutionData'',
       ''TokenCreateData'', ''TokenSeriesCreateData'', ''UnknownEventData'', ''decode_event_data''],
     plain_import ''rpc'' [
       ''EstimateTransactionResult'', ''GasConfigDataResult'', ''GasConfigResult'', ''JsonRpcClient'',
       ''PhantasmaRPC''],
     plain_import ''special_resolution_arguments'' [
       ''ARGUMENT_SHAPES'', ''RawArguments'', ''SpecialResolutionArguments'', ''UnrecognizedArguments'',
       ''decode_special_resolution_arguments''],
     plain_import ''transaction'' [
       ''Transaction'', ''tx_state_is_fault'', ''tx_state_is_success''],
     plain_import ''vm'' [
       ''Opcode'', ''ScriptBuilder'', ''VMObject'', ''VMType''],
     plain_import ''vm_value'' [
       ''VmValue'']]"

definition exported_values :: "string list" where
  "exported_values = [
     ''ARGUMENT_SHAPES'', ''Address'', ''AddressKind'', ''BuilderError'', ''BurnFungibleArgs'',
     ''BurnNonFungibleArgs'', ''Bytes16'', ''Bytes32'', ''Bytes64'', ''CallArgSection'', ''CarbonReader'',
     ''CarbonVMType'', ''CarbonWriter'', ''ChainConfig'', ''CreateMintedTokenSeriesArgs'',
     ''CreateSeriesFeeOptions'', ''CreateTokenFeeOptions'', ''CreateTokenSeriesArgs'', ''CryptoError'',
     ''Ed25519Signature'', ''EncodingError'']"

definition exported_fees :: "string list" where
  "exported_fees = [
     ''EstimateTransactionResult'', ''EventData'', ''EventExResult'', ''FeeOptions'',
     ''GAS_MODEL_V2_UNITS_PER_BLOCK_DATA_BYTE'', ''GasConfig'', ''GasConfigDataResult'', ''GasConfigResult'',
     ''Hash'', ''IntX'', ''JsonRpcClient'', ''ListingType'']"

definition exported_market :: "string list" where
  "exported_market = [
     ''MarketBuyTokenArgs'', ''MarketBuyTokenByIDArgs'', ''MarketCancelSaleArgs'', ''MarketCancelSaleByIDArgs'',
     ''MarketConfig'', ''MarketConfigFlags'', ''MarketContractMethod'', ''MarketGetTokenListingCountArgs'',
     ''MarketGetTokenListingInfoArgs'', ''MarketGetTokenListingInfoByIDArgs'', ''MarketOrderData'',
     ''MarketSellTokenArgs'', ''MarketSellTokenByIDArgs'']"

definition exported_mint :: "string list" where
  "exported_mint = [
     ''MintFungibleArgs'', ''MintNFTFeeOptions'', ''MintNonFungibleArgs'', ''MintPhantasmaNonFungibleArgs'',
     ''ModuleID'', ''MsgCallArgSections'', ''NATIVE_SIGNATURE_BYTES'', ''NFTMintInfo'', ''NativeFeeEstimate'',
     ''NativeFeeKind'', ''Opcode'']"

definition exported_client :: "string list" where
  "exported_client = [
     ''PhantasmaError'', ''PhantasmaKeys'', ''PhantasmaNFTMintInfo'', ''PhantasmaNFTMintResult'', ''PhantasmaRPC'',
     ''RPCError'', ''RawArguments'', ''ScriptBuilder'', ''SerializationError'', ''SeriesInfo'', ''SignatureKind'',
     ''SignedTxMsg'', ''SmallString'', ''SpecialResolutionArguments'', ''SpecialResolutionCall'',
     ''SpecialResolutionData'']"

definition exported_token :: "string list" where
  "exported_token = [
     ''TokenContractMethod'', ''TokenCreateData'', ''TokenFlags'', ''TokenInfo'', ''TokenListing'',
     ''TokenSchemaField'', ''TokenSchemas'', ''TokenSchemasJSON'', ''TokenSeriesCreateData'', ''TokensConfig'',
     ''TokensConfigFlags'']"

definition exported_tx :: "string list" where
  "exported_tx = [
     ''Transaction'', ''TxMsg'', ''TxMsgBurnFungible'', ''TxMsgBurnFungibleGasPayer'', ''TxMsgBurnNonFungible'',
     ''TxMsgBurnNonFungibleGasPayer'', ''TxMsgCall'', ''TxMsgCallMulti'', ''TxMsgMintFungible'',
     ''TxMsgMintNonFungible'', ''TxMsgPhantasma'', ''TxMsgPhantasmaRaw'', ''TxMsgSpecialResolution'',
     ''TxMsgTrade'', ''TxMsgTransferFungible'', ''TxMsgTransferFungibleGasPayer'',
     ''TxMsgTransferNonFungibleMulti'', ''TxMsgTransferNonFungibleMultiGasPayer'',
     ''TxMsgTransferNonFungibleSingle'', ''TxMsgTransferNonFungibleSingleGasPayer'', ''TxType'']"

definition exported_vm :: "string list" where
  "exported_vm = [
     ''UnknownEventData'', ''UnrecognizedArguments'', ''UpdateSeriesMetadataArgs'', ''UpdateTokenMetadataArgs'',
     ''VMDynamicStruct'', ''VMDynamicVariable'', ''VMNamedDynamicVariable'', ''VMNamedVariableSchema'',
     ''VMObject'', ''VMStructArray'', ''VMStructFlags'', ''VMStructSchema'', ''VMType'', ''VMVariableSchema'',
     ''VmValue'', ''WITNESS_ARRAY_ENTRY_BYTES'', ''Witness'', ''__version__'']"

definition exported_builders :: "string list" where
  "exported_builders = [
     ''build_and_serialize_token_schemas'', ''build_create_token_series_tx'',
     ''build_create_token_series_tx_and_sign'', ''build_create_token_series_tx_and_sign_hex'',
     ''build_create_token_tx'', ''build_create_token_tx_and_sign'', ''build_create_token_tx_and_sign_hex'',
     ''build_mint_non_fungible_tx'', ''build_mint_non_fungible_tx_and_sign'',
     ''build_mint_non_fungible_tx_and_sign_hex'', ''build_mint_phantasma_non_fungible_single_tx'',
     ''build_mint_phantasma_non_fungible_single_tx_and_sign'',
     ''build_mint_phantasma_non_fungible_single_tx_and_sign_hex'', ''build_mint_phantasma_non_fungible_tx'',
     ''build_mint_phantasma_non_fungible_tx_and_sign'', ''build_mint_phantasma_non_fungible_tx_and_sign_hex'',
     ''build_nft_rom'', ''build_phantasma_nft_public_mint_schema'', ''build_phantasma_nft_rom'',
     ''build_series_info'', ''build_token_info'', ''build_token_metadata'', ''build_token_schemas_from_fields'',
     ''build_token_series_metadata'']"

definition exported_checks :: "string list" where
  "exported_checks = [
     ''bytes32_from_phantasma_address'', ''bytes32_from_phantasma_address_text'', ''bytes32_from_public_key'',
     ''check_token_symbol'', ''decode_event_data'', ''decode_special_resolution_arguments'',
     ''default_market_config'', ''deserialize'', ''envelope_bytes_for'', ''estimate_native_fee'',
     ''get_nft_address'', ''now_unix_millis'']"

definition exported_serializers :: "string list" where
  "exported_serializers = [
     ''parse_create_token_result'', ''parse_create_token_series_result'', ''parse_mint_non_fungible_result'',
     ''parse_mint_phantasma_non_fungible_result'', ''parse_token_schemas_json'',
     ''prepare_standard_token_schemas'', ''serialize'', ''serialize_token_schemas'',
     ''serialize_token_schemas_hex'', ''sign_and_serialize_tx_msg'', ''sign_and_serialize_tx_msg_hex'',
     ''sign_tx_msg'', ''token_schemas_from_json'', ''tx_state_is_fault'', ''tx_state_is_success'',
     ''unpack_nft_instance_id'', ''verify_token_schemas'', ''vm_type_from_string'', ''vm_type_name'']"

definition export_groups :: "string list list" where
  "export_groups = [exported_values, exported_fees, exported_market, exported_mint, exported_client, exported_token, exported_tx, exported_vm, exported_builders, exported_checks, exported_serializers]"

definition package_imports :: "import_stmt list" where
  "package_imports = [version_import, carbon_import] @ other_imports"

definition exported_names :: "string list" where
  "exported_names = concat export_groups"

definition package_namespace :: namespace where
  "package_namespace = run_imports package_imports Map.empty"

section \<open>The imports and the exports\<close>

lemma run_import_bindings: "run_import s ns = ns ++ map_of (rev (bindings s))"
proof (cases s)
  case (ImportFrom m as)
  have "foldl (\<lambda>ns (a, b). ns(b \<mapsto> (m, a))) ns as = ns ++ map_of (rev (map (\<lambda>(a, b). (b, m, a)) as))"
    by (induction as arbitrary: ns) (auto simp: map_add_def fun_eq_iff split: option.splits)
  then show ?thesis by (simp add: ImportFrom)
qed

lemma run_imports_bindings: "run_imports stmts ns = ns ++ map_of (rev (concat (map bindings stmts)))"
  unfolding run_imports_def
  by (induction stmts arbitrary: ns) (simp_all add: run_import_bindings)

lemma bound_names_bindings: "map fst (bindings s) = bound_names s"
  by (cases s) auto

text \<open>
  The names come in ascending order, by the numbers of their characters. To see that the imports bind the same
  names, they are cut into runs in ascending order; \<open>export_runs\<close> says of every exported name which run it is in.
\<close>

fun text_less :: "string \<Rightarrow> string \<Rightarrow> bool" where
  "text_less [] ys \<longleftrightarrow> ys \<noteq> []"
| "text_less (x # xs) [] \<longleftrightarrow> False"
| "text_less (x # xs) (y # ys) \<longleftrightarrow> (if x = y then text_less xs ys else (of_char x :: nat) < of_char y)"

definition export_runs :: "nat list list" where
  "export_runs = [
     [9, 5, 5, 6, 2, 2, 2, 2, 2, 2, 2, 4, 2, 2, 2, 2, 2, 2, 6, 5, 6],
     [8, 7, 7, 2, 1, 2, 8, 8, 5, 2, 8, 2],
     [2, 2, 2, 2, 2, 2, 2, 2, 2, 2, 7, 2, 2],
     [2, 2, 2, 2, 2, 2, 1, 3, 2, 2, 11],
     [6, 5, 3, 3, 8, 6, 9, 11, 6, 3, 5, 3, 3, 9, 7, 7],
     [3, 7, 3, 3, 3, 3, 3, 3, 7, 3, 3],
     [10, 3, 3, 3, 3, 3, 3, 3, 3, 3, 3, 3, 3, 3, 3, 3, 3, 3, 3, 3, 3],
     [7, 9, 3, 3, 3, 3, 3, 3, 11, 3, 3, 3, 11, 3, 11, 1, 3, 0],
     [3, 3, 3, 3, 3, 3, 3, 3, 3, 3, 3, 3, 3, 3, 3, 3, 3, 3, 3, 3, 3, 3, 3, 3],
     [3, 3, 3, 3, 7, 9, 3, 3, 3, 3, 3, 3],
     [3, 3, 3, 3, 3, 3, 3, 3, 3, 3, 3, 3, 3, 10, 10, 3, 3, 3, 3]]"

fun pick :: "nat \<Rightarrow> string list \<Rightarrow> nat list \<Rightarrow> string list" where
  "pick r (n # ns) (k # ks) = (if k = r then n # pick r ns ks else pick r ns ks)"
| "pick r _ _ = []"

lemma text_less_trans: "text_less xs ys \<Longrightarrow> text_less ys zs \<Longrightarrow> text_less xs zs"
proof (induction xs ys arbitrary: zs rule: text_less.induct)
  case (1 ys)
  then show ?case by (cases ys; cases zs) (auto split: if_splits)
next
  case (3 x xs y ys)
  then show ?case by (cases zs) (auto split: if_splits)
qed simp

lemma text_less_irrefl: "\<not> text_less xs xs"
  by (induction xs) simp_all

lemma ascending_distinct: "successively text_less xs \<Longrightarrow> distinct xs"
proof -
  have "transp text_less" by (rule transpI) (rule text_less_trans)
  then show "successively text_less xs \<Longrightarrow> distinct xs"
    using text_less_irrefl by (induction xs) (auto simp: successively_conv_sorted_wrt)
qed

lemma exported_distinct: "distinct exported_names"
  by (rule ascending_distinct) code_simp

lemma picked_runs:
  "length ns = length ks \<Longrightarrow> list_all (\<lambda>k. k < b) ks \<Longrightarrow> (\<Sum>r\<leftarrow>[0..<b]. mset (pick r ns ks)) = mset ns"
proof (induction ns ks rule: list_induct2')
  case (4 n ns k ks)
  have "mset (pick r (n # ns) (k # ks)) = (if k = r then {#n#} else {#}) + mset (pick r ns ks)" for r by simp
  moreover have "(\<Sum>r\<leftarrow>[0..<b]. if k = r then {#n#} else {#}) = {#n#}"
    using 4(3) by (simp add: interv_sum_list_conv_sum_set_nat)
  ultimately show ?case using 4 by (simp add: sum_list_addf)
qed simp_all

lemma picked_groups:
  "list_all (\<lambda>(ns, ks). length ns = length ks \<and> list_all (\<lambda>k. k < b) ks) groups \<Longrightarrow>
   mset (concat (map (\<lambda>r. concat (map (\<lambda>(ns, ks). pick r ns ks) groups)) [0..<b])) = mset (concat (map fst groups))"
  by (induction groups) (auto simp: mset_concat comp_def sum_list_addf picked_runs)

lemma runs_imported:
  "concat (map (\<lambda>r. concat (map (\<lambda>(ns, ks). pick r ns ks) (zip export_groups export_runs))) [0..<12]) =
     concat (map bound_names package_imports)"
  by code_simp

lemma runs_ok:
  "list_all (\<lambda>(ns, ks). length ns = length ks \<and> list_all (\<lambda>k. k < 12) ks) (zip export_groups export_runs)"
  "length export_groups = length export_runs"
  by code_simp+

text \<open>No import shadows another, so a name of the package is what the one import of it says.\<close>

lemma package_names:
  "distinct (concat (map bound_names package_imports))" "set (concat (map bound_names package_imports)) = set exported_names"
proof -
  have "mset (concat (map bound_names package_imports)) = mset exported_names"
    using picked_groups [OF runs_ok(1)] runs_ok(2) by (simp only: runs_imported exported_names_def map_fst_zip)
  then show "distinct (concat (map bound_names package_imports))"
    "set (concat (map bound_names package_imports)) = set exported_names"
    using exported_distinct by (metis mset_eq_imp_distinct_iff, metis mset_eq_setD)
qed

lemma bindings_of: "(n, m, a) \<in> set (bindings s) \<longleftrightarrow> (\<exists>as. s = ImportFrom m as \<and> (a, n) \<in> set as)"
  by (cases s) auto

lemma package_lookup:
  "package_namespace n = Some (m, a) \<longleftrightarrow> (\<exists>as. ImportFrom m as \<in> set package_imports \<and> (a, n) \<in> set as)"
proof -
  let ?bs = "concat (map bindings package_imports)"
  have "map fst ?bs = concat (map bound_names package_imports)"
    by (simp add: map_concat comp_def bound_names_bindings)
  then have d: "distinct (map fst (rev ?bs))" using package_names(1) by (simp add: rev_map [symmetric])
  have "package_namespace n = Some (m, a) \<longleftrightarrow> (n, m, a) \<in> set (rev ?bs)"
    unfolding package_namespace_def run_imports_bindings using d by (simp add: map_of_eq_Some_iff)
  also have "\<dots> \<longleftrightarrow> (\<exists>s \<in> set package_imports. (n, m, a) \<in> set (bindings s))" by auto
  also have "\<dots> \<longleftrightarrow> (\<exists>as. ImportFrom m as \<in> set package_imports \<and> (a, n) \<in> set as)"
    by (simp only: bindings_of) blast
  finally show ?thesis .
qed

lemma star_import_map:
  "(\<And>n. n \<in> set names \<Longrightarrow> package n \<noteq> None) \<Longrightarrow> star_import package names ns = Inr (ns ++ package |` set names)"
proof (induction names arbitrary: ns)
  case (Cons n names)
  then obtain x where x: "package n = Some x" by fastforce
  have "ns(n \<mapsto> x) ++ package |` set names = ns ++ package |` set (n # names)"
    using x by (auto simp: fun_eq_iff map_add_def restrict_map_def split: option.splits)
  with Cons x show ?case by simp
qed simp

text \<open>
  The star import succeeds and binds exactly the names the package imports, each to the attribute it was
  imported from, and leaves every other name as it was.
\<close>

lemma star_import_package: "star_import package_namespace exported_names ns = Inr (ns ++ package_namespace)"
proof -
  have dom: "dom package_namespace = set exported_names"
  proof -
    have "dom package_namespace = fst ` set (concat (map bindings package_imports))"
      by (simp add: package_namespace_def run_imports_bindings dom_map_of_conv_image_fst)
    also have "\<dots> = set (concat (map (\<lambda>s. map fst (bindings s)) package_imports))" by auto
    finally show ?thesis by (simp only: bound_names_bindings package_names(2))
  qed
  have "package_namespace |` dom package_namespace = package_namespace"
    by (simp add: fun_eq_iff restrict_map_def domIff del: not_None_eq)
  with dom have "package_namespace |` set exported_names = package_namespace" by (simp only:)
  then show ?thesis
    using star_import_map [of exported_names package_namespace ns] dom by (metis domIff)
qed

text \<open>Two types of the same name in different modules are told apart by their names in the package.\<close>

lemma vm_types_apart:
  "package_namespace ''VMType'' = Some (''vm'', ''VMType'')" "package_namespace ''CarbonVMType'' = Some (''carbon'', ''VMType'')"
  unfolding package_lookup by (auto simp: package_imports_def other_imports_def plain_import_def)

end
