(* ===== verification/ExtendedEvents.thy ===== *)
theory ExtendedEvents
  imports SpecialResolution
begin

text \<open>
  \<^verbatim>\<open>extended_events.py\<close>: the typed data of extended transaction events. The kind of an event chooses the class
  of its data; a payload of an unknown kind, or one that does not match its class, is kept as it came. A
  special resolution holds calls, nested to any depth, whose arguments are typed by module and method.
\<close>

section \<open>Classes\<close>

definition TokenCreateData :: "'e pyclass" where
  "TokenCreateData = [
     Field ''symbol'' None AStr (PStr []),
     Field ''max_supply'' None AStr (PStr []),
     Field ''decimals'' None AInt (PInt 0),
     Field ''is_non_fungible'' None ABool (PBool False),
     Field ''carbon_token_id'' None AInt (PInt 0),
     Field ''metadata'' None (ADict AStr) (PDict [])]"

definition TokenSeriesCreateData :: "'e pyclass" where
  "TokenSeriesCreateData = [
     Field ''symbol'' None AStr (PStr []),
     Field ''series_id'' None AStr (PStr []),
     Field ''max_mint'' None AInt (PInt 0),
     Field ''max_supply'' None AInt (PInt 0),
     Field ''owner'' None AStr (PStr []),
     Field ''carbon_token_id'' None AInt (PInt 0),
     Field ''carbon_series_id'' None AInt (PInt 0),
     Field ''metadata'' None (ADict AStr) (PDict [])]"

definition MarketOrderData :: "'e pyclass" where
  "MarketOrderData = [
     Field ''base_symbol'' None AStr (PStr []),
     Field ''quote_symbol'' None AStr (PStr []),
     Field ''token_id'' None AStr (PStr []),
     Field ''carbon_base_token_id'' None AInt (PInt 0),
     Field ''carbon_quote_token_id'' None AInt (PInt 0),
     Field ''carbon_instance_id'' None AInt (PInt 0),
     Field ''seller'' None AStr (PStr []),
     Field ''buyer'' None AStr (PStr []),
     Field ''price'' None AStr (PStr []),
     Field ''end_price'' None AStr (PStr []),
     Field ''start_date'' None AInt (PInt 0),
     Field ''end_date'' None AInt (PInt 0),
     Field ''type'' None AStr (PStr [])]"

definition event_classes :: "(string \<times> 'e pyclass) list" where
  "event_classes = [
     (''TokenCreateData'', TokenCreateData),
     (''TokenSeriesCreateData'', TokenSeriesCreateData),
     (''MarketOrderData'', MarketOrderData)]"

definition event_env :: "string \<Rightarrow> unit pyclass option" where
  "event_env = map_of event_classes"

datatype special_resolution_call = SpecialResolutionCall
  (sc_module_id: int) (sc_module: pystr) (sc_method_id: int) (sc_method: pystr)
  (sc_arguments: "special_resolution_arguments option") (sc_calls: "special_resolution_call list")

datatype special_resolution_data = SpecialResolutionData
  (sd_resolution_id: int) (sd_description: "pystr option") (sd_calls: "special_resolution_call list")

datatype event_data =
    ModelledData "unit pyval"
  | ResolutionData special_resolution_data
  | UnknownEventData json

datatype EventExResult = EventExResult
  (ee_address: pystr) (ee_contract: pystr) (ee_kind: pystr) (ee_data: "event_data option")

definition EVENT_SHAPES :: "(string \<times> string) list" where
  "EVENT_SHAPES = [
     (''TokenCreate'', ''TokenCreateData''),
     (''TokenSeriesCreate'', ''TokenSeriesCreateData''),
     (''OrderCreated'', ''MarketOrderData''),
     (''OrderCancelled'', ''MarketOrderData''),
     (''OrderFilled'', ''MarketOrderData'')]"

definition event_shape :: "pystr \<Rightarrow> string option" where
  "event_shape kind = map_of (map (\<lambda>(k, c). (str k, c)) EVENT_SHAPES) kind"

section \<open>Reading\<close>

definition wire_str :: "json \<Rightarrow> pystr" where
  "wire_str v = (case v of JStr s \<Rightarrow> s | _ \<Rightarrow> [])"

definition wire_int :: "json \<Rightarrow> int" where
  "wire_int v = (case v of JInt n \<Rightarrow> n | _ \<Rightarrow> 0)"

definition wire_list :: "json \<Rightarrow> json list" where
  "wire_list v = (case v of JList xs \<Rightarrow> xs | _ \<Rightarrow> [])"

lemma wire_list_size: "x \<in> set (wire_list (json_get kvs key)) \<Longrightarrow> size x < size (JObject kvs)"
  using json_list_size json_object_get_size
  by (fastforce simp: wire_list_def json_get_def simp del: json.size split: json.splits option.splits)

function call_from_wire :: "json \<Rightarrow> special_resolution_call result" where
  "call_from_wire raw = (case raw of
     JObject kvs \<Rightarrow>
       let module = wire_str (json_get kvs (str ''module''));
           meth = wire_str (json_get kvs (str ''method''))
       in rthen (decode_special_resolution_arguments module meth (json_get kvs (str ''arguments''))) (\<lambda>arguments.
          rthen (rmap call_from_wire (wire_list (json_get kvs (str ''calls'')))) (\<lambda>calls.
          Inr (SpecialResolutionCall (wire_int (json_get kvs (str ''moduleId''))) module
            (wire_int (json_get kvs (str ''methodId''))) meth arguments calls)))
   | _ \<Rightarrow> Inr (SpecialResolutionCall 0 [] 0 [] None []))"
  by pat_completeness auto

termination
  by (relation "measure size") (auto simp del: json.size str_Cons intro: wire_list_size)

declare call_from_wire.simps [simp del]

definition resolution_from_wire :: "json \<Rightarrow> special_resolution_data result" where
  "resolution_from_wire raw = (case raw of
     JObject kvs \<Rightarrow> rthen (rmap call_from_wire (wire_list (json_get kvs (str ''calls'')))) (\<lambda>calls.
       Inr (SpecialResolutionData (wire_int (json_get kvs (str ''resolutionId'')))
         (case json_get kvs (str ''description'') of JStr s \<Rightarrow> Some s | _ \<Rightarrow> None) calls))
   | _ \<Rightarrow> Inr (SpecialResolutionData 0 None []))"

definition decode_event_data :: "pystr \<Rightarrow> json \<Rightarrow> event_data option result" where
  "decode_event_data kind raw =
     (if raw = JNull then Inr None
      else if kind = str ''SpecialResolution'' then rthen (resolution_from_wire raw) (\<lambda>d. Inr (Some (ResolutionData d)))
      else case event_shape kind of
          None \<Rightarrow> Inr (Some (UnknownEventData raw))
        | Some shape \<Rightarrow> (case decode_shape event_env shape raw of
            Inr x \<Rightarrow> Inr (Some (ModelledData x))
          | Inl e \<Rightarrow> if e = ShapeMismatch then Inr (Some (UnknownEventData raw)) else Inl e))"

definition event_from_wire :: "json \<Rightarrow> EventExResult result" where
  "event_from_wire raw = (case raw of
     JObject kvs \<Rightarrow>
       let kind = wire_str (json_get kvs (str ''kind''))
       in rthen (decode_event_data kind (json_get kvs (str ''data''))) (\<lambda>data.
          Inr (EventExResult (wire_str (json_get kvs (str ''address''))) (wire_str (json_get kvs (str ''contract'')))
            kind data))
   | _ \<Rightarrow> Inr (EventExResult [] [] [] None))"

section \<open>Writing\<close>

fun call_to_wire :: "special_resolution_call \<Rightarrow> json" where
  "call_to_wire (SpecialResolutionCall module_id module method_id meth arguments calls) = JObject (
     [(str ''moduleId'', JInt module_id), (str ''module'', JStr module),
      (str ''methodId'', JInt method_id), (str ''method'', JStr meth)] @
     (case arguments of None \<Rightarrow> [] | Some a \<Rightarrow> [(str ''arguments'', arguments_to_wire a)]) @
     (if calls = [] then [] else [(str ''calls'', JList (map call_to_wire calls))]))"

definition resolution_to_wire :: "special_resolution_data \<Rightarrow> json" where
  "resolution_to_wire d = JObject (
     [(str ''resolutionId'', JInt (sd_resolution_id d))] @
     (case sd_description d of None \<Rightarrow> [] | Some s \<Rightarrow> [(str ''description'', JStr s)]) @
     [(str ''calls'', JList (map call_to_wire (sd_calls d)))])"

definition event_data_to_wire :: "event_data \<Rightarrow> json" where
  "event_data_to_wire d = (case d of
     ModelledData x \<Rightarrow> shape_to_wire event_env (\<lambda>_. JNull) x
   | ResolutionData r \<Rightarrow> resolution_to_wire r
   | UnknownEventData data \<Rightarrow> data)"

definition event_to_wire :: "EventExResult \<Rightarrow> json" where
  "event_to_wire e = JObject (
     [(str ''address'', JStr (ee_address e)), (str ''contract'', JStr (ee_contract e)), (str ''kind'', JStr (ee_kind e))] @
     (case ee_data e of None \<Rightarrow> [] | Some d \<Rightarrow> [(str ''data'', event_data_to_wire d)]))"

section \<open>The classes are fit for their wire form\<close>

lemmas event_class_defs = TokenCreateData_def TokenSeriesCreateData_def MarketOrderData_def

lemma event_classes_ok: "list_all (\<lambda>(c, flds). class_ok flds) (event_classes :: (string \<times> unit pyclass) list)"
  by code_simp

lemma event_defaults_ok: "list_all (\<lambda>(c, flds). defaults_ok event_env flds) event_classes"
  by (simp add: event_class_defs event_classes_def defaults_ok_def conforms.simps)

lemma event_class:
  assumes "event_env c = Some flds"
  shows "class_ok flds" "defaults_ok event_env flds"
proof -
  have "(c, flds) \<in> set event_classes" using assms by (simp add: event_env_def map_of_SomeD)
  then show "class_ok flds" "defaults_ok event_env flds"
    using event_classes_ok event_defaults_ok unfolding list_all_iff by blast+
qed

interpretation event_payload: shape_decoder event_env "\<lambda>_ _. False" "\<lambda>_. JNull" "\<lambda>_. True" strict_get
  "decode_field event_env"
  by (rule strict_decoder) (rule event_class(1))

section \<open>Decoding is total, writing and reading agree\<close>

text \<open>Calls whose arguments belong to their method, at every depth, and data that belongs to the kind of its event.\<close>

fun call_ok :: "special_resolution_call \<Rightarrow> bool" where
  "call_ok (SpecialResolutionCall _ module _ meth arguments calls) \<longleftrightarrow>
     (case arguments of None \<Rightarrow> True | Some a \<Rightarrow> arguments_ok module meth a) \<and> list_all call_ok calls"

definition event_data_ok :: "pystr \<Rightarrow> event_data \<Rightarrow> bool" where
  "event_data_ok kind d = (case d of
     ResolutionData r \<Rightarrow> kind = str ''SpecialResolution'' \<and> list_all call_ok (sd_calls r)
   | ModelledData x \<Rightarrow> (case event_shape kind of None \<Rightarrow> False
       | Some shape \<Rightarrow> conforms event_env (\<lambda>_ _. False) (AClass shape) x)
   | UnknownEventData data \<Rightarrow> data \<noteq> JNull \<and> kind \<noteq> str ''SpecialResolution'' \<and>
       (case event_shape kind of None \<Rightarrow> True | Some shape \<Rightarrow> decode_shape event_env shape data = Inl ShapeMismatch))"

definition event_ok :: "EventExResult \<Rightarrow> bool" where
  "event_ok e = (case ee_data e of None \<Rightarrow> True | Some d \<Rightarrow> event_data_ok (ee_kind e) d)"

lemma json_get_simps [simp]:
  "json_get [] k = JNull"
  "json_get ((str a, v) # kvs) (str b) = (if a = b then v else json_get kvs (str b))"
  by (simp_all add: json_get_def str_inject del: str_Cons)

lemma wire_simps [simp]:
  "wire_str (JStr s) = s" "wire_int (JInt n) = n" "wire_list (JList xs) = xs"
  "wire_str JNull = []" "wire_int JNull = 0" "wire_list JNull = []"
  by (simp_all add: wire_str_def wire_int_def wire_list_def)

lemma event_shape_resolution: "event_shape (str ''SpecialResolution'') = None"
  by (simp add: event_shape_def EVENT_SHAPES_def str_inject del: str_Cons)

lemma no_arguments: "decode_special_resolution_arguments module meth JNull = Inr None"
  by (simp add: decode_special_resolution_arguments_def)

lemma call_read_written: "call_ok c \<Longrightarrow> call_from_wire (call_to_wire c) = Inr c"
proof (induction c)
  case (SpecialResolutionCall module_id module method_id meth arguments calls)
  have "rmap call_from_wire (map call_to_wire calls) = Inr calls"
    using SpecialResolutionCall by (intro rmap_map_id) (simp add: list_all_iff)
  moreover have "decode_special_resolution_arguments module meth
      (case arguments of None \<Rightarrow> JNull | Some a \<Rightarrow> arguments_to_wire a) = Inr arguments"
    using SpecialResolutionCall.prems
    by (cases arguments) (simp_all add: arguments_ok_read no_arguments)
  ultimately show ?case
    by (cases arguments; cases "calls = []") (simp_all add: call_from_wire.simps del: str_Cons)
qed

lemma call_from_wire_ok: "\<exists>c. call_from_wire raw = Inr c \<and> call_ok c"
proof (induction raw rule: call_from_wire.induct)
  case (1 raw)
  show ?case
  proof (cases raw)
    case (JObject kvs)
    let ?module = "wire_str (json_get kvs (str ''module''))" and ?meth = "wire_str (json_get kvs (str ''method''))"
    obtain a where a: "decode_special_resolution_arguments ?module ?meth (json_get kvs (str ''arguments'')) = Inr a"
      "case a of None \<Rightarrow> True | Some x \<Rightarrow> arguments_ok ?module ?meth x"
      by (rule decoded_arguments [of "json_get kvs (str ''arguments'')" ?module ?meth]) fastforce+
    obtain calls where "rmap call_from_wire (wire_list (json_get kvs (str ''calls''))) = Inr calls" "list_all call_ok calls"
      using rmap_total [of _ call_from_wire call_ok] 1 [OF JObject refl refl a(1)] by metis
    with a JObject show ?thesis by (simp add: call_from_wire.simps del: str_Cons split: option.splits)
  qed (simp_all add: call_from_wire.simps)
qed

lemma resolution_from_wire_ok: "\<exists>r. resolution_from_wire raw = Inr r \<and> list_all call_ok (sd_calls r)"
proof (cases raw)
  case (JObject kvs)
  obtain calls where "rmap call_from_wire (wire_list (json_get kvs (str ''calls''))) = Inr calls" "list_all call_ok calls"
    using rmap_total [of _ call_from_wire call_ok] call_from_wire_ok by metis
  with JObject show ?thesis by (simp add: resolution_from_wire_def)
qed (simp_all add: resolution_from_wire_def)

lemma resolution_read_written:
  assumes "list_all call_ok (sd_calls r)"
  shows "resolution_from_wire (resolution_to_wire r) = Inr r"
proof -
  have "rmap call_from_wire (map call_to_wire (sd_calls r)) = Inr (sd_calls r)"
    using assms by (intro rmap_map_id) (simp add: list_all_iff call_read_written)
  then show ?thesis
    by (cases r; cases "sd_description r") (simp_all add: resolution_from_wire_def resolution_to_wire_def del: str_Cons)
qed

lemma decode_event_written:
  "conforms event_env (\<lambda>_ _. False) (AClass c) x \<Longrightarrow>
   decode_shape event_env c (shape_to_wire event_env (\<lambda>_. JNull) x) = Inr x"
  using event_payload.read_written_any [of event_env "\<lambda>_ _. False" "AClass c" x] by simp

lemma event_data_read_written:
  assumes "event_data_ok kind d"
  shows "decode_event_data kind (event_data_to_wire d) = Inr (Some d)"
proof (cases d)
  case (ModelledData x)
  with assms obtain c where c: "event_shape kind = Some c" "conforms event_env (\<lambda>_ _. False) (AClass c) x"
    by (auto simp: event_data_ok_def split: option.splits)
  moreover have "shape_to_wire event_env (\<lambda>_. JNull) x \<noteq> JNull"
    using c(2) by (intro event_payload.written_present [OF c(2)]) (auto simp: conforms.simps)
  moreover have "kind \<noteq> str ''SpecialResolution''" using c(1) event_shape_resolution by auto
  ultimately show ?thesis
    by (simp add: ModelledData decode_event_data_def event_data_to_wire_def decode_event_written del: str_Cons)
next
  case (ResolutionData r)
  moreover have "resolution_to_wire r \<noteq> JNull" by (simp add: resolution_to_wire_def)
  ultimately show ?thesis
    using assms by (simp add: event_data_ok_def decode_event_data_def event_data_to_wire_def resolution_read_written del: str_Cons)
next
  case (UnknownEventData data)
  with assms show ?thesis
    by (auto simp: event_data_ok_def decode_event_data_def event_data_to_wire_def simp del: str_Cons split: option.splits)
qed

lemma decoded_event_data:
  obtains "raw = JNull" "decode_event_data kind raw = Inr None"
    | d where "raw \<noteq> JNull" "decode_event_data kind raw = Inr (Some d)" "event_data_ok kind d"
      "\<And>data. d = UnknownEventData data \<Longrightarrow> data = raw"
proof (cases "raw = JNull")
  case True
  then show ?thesis by (intro that(1)) (simp_all add: decode_event_data_def)
next
  case False
  note found = that(2) [OF False] and d = decode_event_data_def event_data_ok_def
  consider (resolution) "kind = str ''SpecialResolution''"
    | (unknown) "kind \<noteq> str ''SpecialResolution''" "event_shape kind = None"
    | (typed) shape where "kind \<noteq> str ''SpecialResolution''" "event_shape kind = Some shape" by fastforce
  then show ?thesis
  proof cases
    case resolution
    obtain r where "resolution_from_wire raw = Inr r" "list_all call_ok (sd_calls r)" using resolution_from_wire_ok by blast
    with resolution False show ?thesis by (intro found [of "ResolutionData r"]) (simp_all add: d del: str_Cons)
  next
    case unknown
    with False show ?thesis by (intro found [of "UnknownEventData raw"]) (simp_all add: d del: str_Cons)
  next
    case typed
    show ?thesis
    proof (cases "decode_shape event_env shape raw")
      case (Inl e)
      with decode_error(2) [OF Inl] typed False show ?thesis
        by (intro found [of "UnknownEventData raw"]) (simp_all add: d del: str_Cons)
    next
      case (Inr x)
      have "conforms event_env (\<lambda>_ _. False) (AClass shape) x"
        by (rule decoded_conforms(2) [OF _ Inr]) (use event_class(2) in auto)
      with Inr typed False show ?thesis by (intro found [of "ModelledData x"]) (simp_all add: d del: str_Cons)
    qed
  qed
qed

lemma event_read_written:
  assumes "event_ok e"
  shows "event_from_wire (event_to_wire e) = Inr e"
proof (cases "ee_data e")
  case None
  then show ?thesis by (cases e) (simp add: event_from_wire_def event_to_wire_def decode_event_data_def del: str_Cons)
next
  case (Some d)
  with assms have "decode_event_data (ee_kind e) (event_data_to_wire d) = Inr (Some d)"
    by (simp add: event_ok_def event_data_read_written)
  with Some show ?thesis by (cases e) (simp add: event_from_wire_def event_to_wire_def del: str_Cons)
qed

lemma event_from_wire_ok:
  "\<exists>e. event_from_wire raw = Inr e \<and> event_ok e \<and>
     (case ee_data e of
        Some (UnknownEventData data) \<Rightarrow> (case raw of JObject kvs \<Rightarrow> data = json_get kvs (str ''data'') | _ \<Rightarrow> False)
      | _ \<Rightarrow> True)"
proof (cases raw)
  case (JObject kvs)
  let ?kind = "wire_str (json_get kvs (str ''kind''))"
  show ?thesis
  proof (rule decoded_event_data [of "json_get kvs (str ''data'')" ?kind])
    assume "decode_event_data ?kind (json_get kvs (str ''data'')) = Inr None"
    with JObject show ?thesis by (simp add: event_from_wire_def event_ok_def del: str_Cons)
  next
    fix d assume "decode_event_data ?kind (json_get kvs (str ''data'')) = Inr (Some d)" "event_data_ok ?kind d"
      "\<And>data. d = UnknownEventData data \<Longrightarrow> data = json_get kvs (str ''data'')"
    with JObject show ?thesis by (cases d) (simp_all add: event_from_wire_def event_ok_def del: str_Cons)
  qed
qed (simp_all add: event_from_wire_def event_ok_def)

section \<open>What an event means\<close>

text \<open>
  What JSON denotes as an event, without a decoder. A member counts when it has the JSON type asked for: text, an
  integer (neither \<^verbatim>\<open>true\<close> nor \<^verbatim>\<open>1.0\<close>), a list; otherwise it is as if it were not there.
\<close>

definition text_member :: "(pystr \<times> json) list \<Rightarrow> string \<Rightarrow> pystr \<Rightarrow> bool" where
  "text_member kvs k s \<longleftrightarrow> map_of kvs (str k) = Some (JStr s) \<or> (\<nexists>t. map_of kvs (str k) = Some (JStr t)) \<and> s = []"

definition number_member :: "(pystr \<times> json) list \<Rightarrow> string \<Rightarrow> int \<Rightarrow> bool" where
  "number_member kvs k n \<longleftrightarrow> map_of kvs (str k) = Some (JInt n) \<or> (\<nexists>m. map_of kvs (str k) = Some (JInt m)) \<and> n = 0"

definition items_member :: "(pystr \<times> json) list \<Rightarrow> string \<Rightarrow> json list \<Rightarrow> bool" where
  "items_member kvs k xs \<longleftrightarrow> map_of kvs (str k) = Some (JList xs) \<or> (\<nexists>ys. map_of kvs (str k) = Some (JList ys)) \<and> xs = []"

definition any_member :: "(pystr \<times> json) list \<Rightarrow> string \<Rightarrow> json \<Rightarrow> bool" where
  "any_member kvs k v \<longleftrightarrow> map_of kvs (str k) = Some v \<or> map_of kvs (str k) = None \<and> v = JNull"

definition optional_text_member :: "(pystr \<times> json) list \<Rightarrow> string \<Rightarrow> pystr option \<Rightarrow> bool" where
  "optional_text_member kvs k d \<longleftrightarrow> (\<forall>s. d = Some s \<longleftrightarrow> map_of kvs (str k) = Some (JStr s))"

inductive call_denoted :: "json \<Rightarrow> special_resolution_call \<Rightarrow> bool" where
  call_object: "number_member kvs ''moduleId'' module_id \<Longrightarrow> text_member kvs ''module'' module \<Longrightarrow>
    number_member kvs ''methodId'' method_id \<Longrightarrow> text_member kvs ''method'' meth \<Longrightarrow>
    any_member kvs ''arguments'' v \<Longrightarrow> arguments_denoted module meth v arguments \<Longrightarrow>
    items_member kvs ''calls'' vs \<Longrightarrow> list_all2 call_denoted vs calls \<Longrightarrow>
    call_denoted (JObject kvs) (SpecialResolutionCall module_id module method_id meth arguments calls)"
| call_other: "\<nexists>kvs. raw = JObject kvs \<Longrightarrow> call_denoted raw (SpecialResolutionCall 0 [] 0 [] None [])"

inductive resolution_denoted :: "json \<Rightarrow> special_resolution_data \<Rightarrow> bool" where
  resolution_object: "number_member kvs ''resolutionId'' n \<Longrightarrow>
    optional_text_member kvs ''description'' description \<Longrightarrow>
    items_member kvs ''calls'' vs \<Longrightarrow> list_all2 call_denoted vs calls \<Longrightarrow>
    resolution_denoted (JObject kvs) (SpecialResolutionData n description calls)"
| resolution_other: "\<nexists>kvs. raw = JObject kvs \<Longrightarrow> resolution_denoted raw (SpecialResolutionData 0 None [])"

inductive payload_denoted :: "pystr \<Rightarrow> json \<Rightarrow> event_data option \<Rightarrow> bool" for kind where
  no_payload: "payload_denoted kind JNull None"
| resolution_payload: "raw \<noteq> JNull \<Longrightarrow> kind = str ''SpecialResolution'' \<Longrightarrow> resolution_denoted raw r \<Longrightarrow>
    payload_denoted kind raw (Some (ResolutionData r))"
| class_payload: "event_shape kind = Some c \<Longrightarrow> denotes event_env (AClass c) raw x \<Longrightarrow>
    payload_denoted kind raw (Some (ModelledData x))"
| kept_payload: "raw \<noteq> JNull \<Longrightarrow> kind \<noteq> str ''SpecialResolution'' \<Longrightarrow>
    \<nexists>c x. event_shape kind = Some c \<and> denotes event_env (AClass c) raw x \<Longrightarrow>
    payload_denoted kind raw (Some (UnknownEventData raw))"

inductive event_denoted :: "json \<Rightarrow> EventExResult \<Rightarrow> bool" where
  event_object: "text_member kvs ''address'' address \<Longrightarrow> text_member kvs ''contract'' contract \<Longrightarrow>
    text_member kvs ''kind'' kind \<Longrightarrow> any_member kvs ''data'' v \<Longrightarrow> payload_denoted kind v data \<Longrightarrow>
    event_denoted (JObject kvs) (EventExResult address contract kind data)"
| event_other: "\<nexists>kvs. raw = JObject kvs \<Longrightarrow> event_denoted raw (EventExResult [] [] [] None)"

inductive_simps call_denoted_simps: "call_denoted (JObject kvs) c" "call_denoted raw c"
inductive_simps resolution_denoted_simps: "resolution_denoted (JObject kvs) r" "resolution_denoted raw r"
inductive_simps payload_denoted_simps: "payload_denoted kind raw d"
inductive_simps event_denoted_simps: "event_denoted (JObject kvs) e" "event_denoted raw e"

lemma members:
  "text_member kvs k s \<longleftrightarrow> s = wire_str (json_get kvs (str k))" "number_member kvs k n \<longleftrightarrow> n = wire_int (json_get kvs (str k))"
  "items_member kvs k xs \<longleftrightarrow> xs = wire_list (json_get kvs (str k))" "any_member kvs k v \<longleftrightarrow> v = json_get kvs (str k)"
  "optional_text_member kvs k d \<longleftrightarrow> d = (case json_get kvs (str k) of JStr s \<Rightarrow> Some s | _ \<Rightarrow> None)"
  by (cases d) (auto simp: text_member_def optional_text_member_def number_member_def items_member_def any_member_def json_get_def wire_str_def wire_int_def
      wire_list_def split: option.splits json.splits)

lemma call_denoted_iff: "call_from_wire raw = Inr c \<longleftrightarrow> call_denoted raw c"
proof (induction raw arbitrary: c rule: call_from_wire.induct)
  case (1 raw)
  show ?case
  proof (cases raw)
    case (JObject kvs)
    let ?module = "wire_str (json_get kvs (str ''module''))" and ?meth = "wire_str (json_get kvs (str ''method''))"
    let ?items = "wire_list (json_get kvs (str ''calls''))"
    obtain a where a: "decode_special_resolution_arguments ?module ?meth (json_get kvs (str ''arguments'')) = Inr a"
      by (rule decoded_arguments [of "json_get kvs (str ''arguments'')" ?module ?meth]) auto
    have "list_all2 (\<lambda>v c. call_from_wire v = Inr c) ?items calls \<longleftrightarrow> list_all2 call_denoted ?items calls" for calls
      using 1 [OF JObject refl refl a] by (intro list_all2_same) blast
    then show ?thesis
      by (auto simp: JObject call_from_wire.simps Let_def call_denoted_simps(1) members rthen_Inr_iff rmap_all2 arguments_denoted_iff
          simp del: str_Cons)
  qed (auto simp: call_from_wire.simps call_denoted_simps(2))
qed

lemma resolution_denoted_iff: "resolution_from_wire raw = Inr r \<longleftrightarrow> resolution_denoted raw r"
proof (cases raw)
  case (JObject kvs)
  have "rmap call_from_wire vs = Inr calls \<longleftrightarrow> list_all2 call_denoted vs calls" for vs calls
    by (simp add: rmap_all2 call_denoted_iff)
  then show ?thesis
    by (auto simp: JObject resolution_from_wire_def resolution_denoted_simps(1) members rthen_Inr_iff simp del: str_Cons)
qed (auto simp: resolution_from_wire_def resolution_denoted_simps(2))

lemma payload_denoted_iff: "decode_event_data kind raw = Inr d \<longleftrightarrow> payload_denoted kind raw d"
proof (cases "raw = JNull")
  case True
  then show ?thesis by (auto simp: decode_event_data_def payload_denoted_simps denotes_simps)
next
  case False
  consider (resolution) "kind = str ''SpecialResolution''" "event_shape kind = None"
    | (unknown) "kind \<noteq> str ''SpecialResolution''" "event_shape kind = None"
    | (typed) c where "kind \<noteq> str ''SpecialResolution''" "event_shape kind = Some c"
    using event_shape_resolution by fastforce
  then show ?thesis
  proof cases
    case resolution
    then show ?thesis
      using False by (auto simp: decode_event_data_def payload_denoted_simps resolution_denoted_iff rthen_Inr_iff)
  next
    case unknown
    then show ?thesis using False by (auto simp: decode_event_data_def payload_denoted_simps)
  next
    case typed
    show ?thesis
    proof (cases "decode_shape event_env c raw")
      case (Inl e)
      then have "\<nexists>x. denotes event_env (AClass c) raw x" by (auto simp: decode_denotes(2) [symmetric])
      with Inl typed False decode_error(2) [OF Inl] show ?thesis
        by (auto simp: decode_event_data_def payload_denoted_simps)
    next
      case (Inr x)
      then have "denotes event_env (AClass c) raw y \<longleftrightarrow> y = x" for y by (auto simp: decode_denotes(2) [symmetric])
      with Inr typed False show ?thesis
        by (auto simp: decode_event_data_def payload_denoted_simps)
    qed
  qed
qed

lemma event_denoted_iff: "event_from_wire raw = Inr e \<longleftrightarrow> event_denoted raw e"
  by (cases raw) (auto simp: event_from_wire_def Let_def event_denoted_simps members rthen_Inr_iff payload_denoted_iff simp del: str_Cons)

section \<open>Properties\<close>

text \<open>C38: Reading an extended event never raises and gives exactly what the JSON denotes: every member of the declared
  type is in the event, the data follows the kind (every declared member of a class payload, every call of a
  resolution to any depth, with the arguments its method asks for), and a payload of an unknown kind, or of a kind
  whose class does not take it, is kept as it came. The module text promises the latter for every kind, but the
  method \<^verbatim>\<open>from_wire\<close> of a resolution does not do so: a \<^verbatim>\<open>SpecialResolution\<close> payload that is no object is read as the
  empty resolution, and what the node sent is lost.
\<close>

theorem extended_event_exact:
  "(event_from_wire raw = Inr e \<longleftrightarrow> event_denoted raw e) \<and> (\<exists>d. event_from_wire raw = Inr d \<and> event_ok d) \<and>
   event_from_wire (JObject [(str ''kind'', JStr (str ''SpecialResolution'')), (str ''data'', JList xs)]) =
     Inr (EventExResult [] [] (str ''SpecialResolution'') (Some (ResolutionData (SpecialResolutionData 0 None []))))"
proof (intro conjI event_denoted_iff)
  show "\<exists>d. event_from_wire raw = Inr d \<and> event_ok d" using event_from_wire_ok [of raw] by blast
  show "event_from_wire (JObject [(str ''kind'', JStr (str ''SpecialResolution'')), (str ''data'', JList xs)]) =
     Inr (EventExResult [] [] (str ''SpecialResolution'') (Some (ResolutionData (SpecialResolutionData 0 None []))))"
    by (simp add: event_from_wire_def decode_event_data_def resolution_from_wire_def del: str_Cons)
qed

text \<open>C39: An extended event whose data belongs to its kind is read back as it was written: class payloads, special
  resolutions with calls nested to any depth and their typed arguments, and payloads kept as JSON.
\<close>

theorem extended_event_roundtrip: "event_ok e \<Longrightarrow> event_from_wire (event_to_wire e) = Inr e"
  by (rule event_read_written)

theorem extended_event_roundtrip_witness:
  "\<exists>e :: EventExResult. ee_data e \<noteq> None \<and> event_from_wire (event_to_wire e) = Inr e"
proof (intro exI conjI)
  let ?transfer = "UnrecognizedArguments (JObject [(str ''from'', JInt 1)])"
  let ?inner = "SpecialResolutionCall 1 (str ''token'') 7 (str ''UnknownMethod'') (Some ?transfer) []"
  let ?outer = "SpecialResolutionCall 0 (str ''governance'') 5 (str ''x'') None [?inner]"
  let ?e = "EventExResult (str ''S1'') (str ''gov'') (str ''SpecialResolution'')
    (Some (ResolutionData (SpecialResolutionData 9 None [?outer])))"
  have "event_ok ?e" by code_simp
  then show "event_from_wire (event_to_wire ?e) = Inr ?e" by (rule extended_event_roundtrip)
  show "ee_data ?e \<noteq> None" by simp
qed

text \<open>A special resolution never falls back to kept JSON: a payload of that kind that is no object is read as
  the empty resolution, with no calls and identifier 0, so what the node sent is not in the result.
\<close>

theorem resolution_payload_not_kept:
  "decode_event_data (str ''SpecialResolution'') (JList xs) = Inr (Some (ResolutionData (SpecialResolutionData 0 None []))) \<and>
   decode_event_data (str ''SpecialResolution'') (JObject [(str ''calls'', JList [JStr s])]) =
     Inr (Some (ResolutionData (SpecialResolutionData 0 None [SpecialResolutionCall 0 [] 0 [] None []])))"
  by (simp add: decode_event_data_def resolution_from_wire_def call_from_wire.simps del: str_Cons)

end
