(* ===== verification/RpcModels.thy ===== *)
theory RpcModels
  imports ExtendedEvents
begin

text \<open>
  The response classes of \<^verbatim>\<open>rpc.py\<close> and the lenient decoder \<^verbatim>\<open>_decode_dataclass\<close>: a field that does not
  match its annotation is passed through as it came, members the class does not know are ignored, and a field is
  looked for under its Python name and then under its camel case name.
\<close>

section \<open>Classes\<close>

definition BalanceResult :: "'e pyclass" where
  "BalanceResult = [
     Field ''chain'' None AStr (PStr []),
     Field ''amount'' None AStr (PStr (str ''0'')),
     Field ''symbol'' None AStr (PStr []),
     Field ''decimals'' None AInt (PInt 0),
     Field ''ids'' None (AOptional (AList AStr)) PNone]"

definition InteropResult :: "'e pyclass" where
  "InteropResult = [
     Field ''local'' None AStr (PStr []),
     Field ''external'' None AStr (PStr [])]"

definition PlatformResult :: "'e pyclass" where
  "PlatformResult = [
     Field ''platform'' None AStr (PStr []),
     Field ''chain'' None AStr (PStr []),
     Field ''fuel'' None AStr (PStr []),
     Field ''tokens'' None (AList AStr) (PList []),
     Field ''interop'' None (AList (AClass ''InteropResult'')) (PList [])]"

definition GovernanceResult :: "'e pyclass" where
  "GovernanceResult = [
     Field ''name'' None AStr (PStr []),
     Field ''value'' None AStr (PStr [])]"

definition OrganizationResult :: "'e pyclass" where
  "OrganizationResult = [
     Field ''name'' None (AOptional AStr) PNone,
     Field ''owner'' None (AOptional AStr) PNone,
     Field ''carbon_owner'' None (AOptional AStr) PNone,
     Field ''metadata'' None (AList (AClass ''TokenPropertyResult'')) (PList []),
     Field ''member_count'' None (AOptional AStr) PNone]"

definition OrganizationMemberResult :: "'e pyclass" where
  "OrganizationMemberResult = [
     Field ''address'' None (AOptional AStr) PNone,
     Field ''carbon_address'' None (AOptional AStr) PNone,
     Field ''is_member'' None ABool (PBool False),
     Field ''member_time'' None (AOptional AInt) PNone]"

definition CrowdsaleResult :: "'e pyclass" where
  "CrowdsaleResult = [
     Field ''hash'' None AStr (PStr []),
     Field ''name'' None AStr (PStr []),
     Field ''creator'' None AStr (PStr []),
     Field ''flags'' None AStr (PStr []),
     Field ''start_date'' None AInt (PInt 0),
     Field ''end_date'' None AInt (PInt 0),
     Field ''sell_symbol'' None AStr (PStr []),
     Field ''receive_symbol'' None AStr (PStr []),
     Field ''price'' None AInt (PInt 0),
     Field ''global_soft_cap'' None AStr (PStr (str ''0'')),
     Field ''global_hard_cap'' None AStr (PStr (str ''0'')),
     Field ''user_soft_cap'' None AStr (PStr (str ''0'')),
     Field ''user_hard_cap'' None AStr (PStr (str ''0''))]"

definition StakeResult :: "'e pyclass" where
  "StakeResult = [
     Field ''amount'' None AStr (PStr (str ''0'')),
     Field ''time'' None AInt (PInt 0),
     Field ''unclaimed'' None AStr (PStr (str ''0''))]"

definition StorageResult :: "'e pyclass" where
  "StorageResult = [
     Field ''available'' None AInt (PInt 0),
     Field ''used'' None AInt (PInt 0),
     Field ''avatar'' None AStr (PStr []),
     Field ''archives'' None (AList (AClass ''ArchiveResult'')) (PList [])]"

definition AccountInfoResult :: "'e pyclass" where
  "AccountInfoResult = [
     Field ''address'' None AStr (PStr []),
     Field ''name'' None AStr (PStr []),
     Field ''stake'' None (AClass ''StakeResult'') (new_object ''StakeResult'' StakeResult)]"

definition AccountResult :: "'e pyclass" where
  "AccountResult = [
     Field ''address'' None AStr (PStr []),
     Field ''name'' None AStr (PStr []),
     Field ''stakes'' None (AClass ''StakeResult'') (new_object ''StakeResult'' StakeResult),
     Field ''stake'' None AStr (PStr (str ''0'')),
     Field ''unclaimed'' None AStr (PStr (str ''0'')),
     Field ''relay'' None (AOptional AStr) PNone,
     Field ''validator'' None AStr (PStr []),
     Field ''storage'' None (AClass ''StorageResult'') (new_object ''StorageResult'' StorageResult),
     Field ''balances'' None (AList (AClass ''BalanceResult'')) (PList []),
     Field ''txs'' None (AOptional (AList AStr)) PNone]"

definition AddressTransactionsResult :: "'e pyclass" where
  "AddressTransactionsResult = [
     Field ''address'' None AStr (PStr []),
     Field ''txs'' None (AList (AClass ''TransactionResult'')) (PList [])]"

definition LeaderboardRowResult :: "'e pyclass" where
  "LeaderboardRowResult = [
     Field ''address'' None AStr (PStr []),
     Field ''value'' None AStr (PStr [])]"

definition LeaderboardResult :: "'e pyclass" where
  "LeaderboardResult = [
     Field ''name'' None (AOptional AStr) PNone,
     Field ''rows'' None (AOptional (AList (AClass ''LeaderboardRowResult''))) PNone]"

definition DappResult :: "'e pyclass" where
  "DappResult = [
     Field ''name'' None AStr (PStr []),
     Field ''address'' None AStr (PStr []),
     Field ''chain'' None AStr (PStr [])]"

definition ChainResult :: "'e pyclass" where
  "ChainResult = [
     Field ''name'' None (AOptional AStr) PNone,
     Field ''address'' None (AOptional AStr) PNone,
     Field ''parent'' None (AOptional AStr) PNone,
     Field ''height'' None AInt (PInt 0),
     Field ''organization'' None (AOptional AStr) PNone,
     Field ''contracts'' None (AOptional (AList AStr)) PNone,
     Field ''dapps'' None (AOptional (AList AStr)) PNone]"

definition GasConfigDataResult :: "'e pyclass" where
  "GasConfigDataResult = [
     Field ''version'' None AInt (PInt 0),
     Field ''max_name_length'' None AInt (PInt 0),
     Field ''max_token_symbol_length'' None AInt (PInt 0),
     Field ''fee_shift'' None AInt (PInt 0),
     Field ''max_structure_size'' None AInt (PInt 0),
     Field ''fee_multiplier'' None (AOptional AStr) PNone,
     Field ''gas_token_id'' None (AOptional AStr) PNone,
     Field ''data_token_id'' None (AOptional AStr) PNone,
     Field ''minimum_gas_offer'' None (AOptional AStr) PNone,
     Field ''data_escrow_per_row'' None (AOptional AStr) PNone,
     Field ''gas_fee_transfer'' None (AOptional AStr) PNone,
     Field ''gas_fee_query'' None (AOptional AStr) PNone,
     Field ''gas_fee_create_token_base'' None (AOptional AStr) PNone,
     Field ''gas_fee_create_token_symbol'' None (AOptional AStr) PNone,
     Field ''gas_fee_create_token_series'' None (AOptional AStr) PNone,
     Field ''gas_fee_per_byte'' None (AOptional AStr) PNone,
     Field ''gas_fee_register_name'' None (AOptional AStr) PNone,
     Field ''gas_burn_ratio_mul'' None (AOptional AStr) PNone,
     Field ''gas_burn_ratio_shift'' None AInt (PInt 0),
     Field ''minimum_gas_bill'' None (AOptional AStr) PNone,
     Field ''gas_producer_ratio_mul'' None (AOptional AStr) PNone,
     Field ''gas_producer_ratio_shift'' None (AOptional AInt) PNone,
     Field ''gas_dapp_ratio_mul'' None (AOptional AStr) PNone,
     Field ''gas_dapp_ratio_shift'' None (AOptional AInt) PNone,
     Field ''policy_fee_create_token_base'' None (AOptional AStr) PNone,
     Field ''policy_fee_create_token_symbol'' None (AOptional AStr) PNone,
     Field ''policy_fee_create_token_series'' None (AOptional AStr) PNone,
     Field ''policy_fee_register_name'' None (AOptional AStr) PNone,
     Field ''legacy_data_escrow_per_row'' None (AOptional AStr) PNone]"

definition GasConfigResult :: "'e pyclass" where
  "GasConfigResult = [
     Field ''gas_model_version'' None AInt (PInt 0),
     Field ''gas_config'' None (AOptional (AClass ''GasConfigDataResult'')) PNone,
     Field ''block_rate_target'' None AInt (PInt 0),
     Field ''expiry_window'' None AInt (PInt 0),
     Field ''units_per_block_data_byte'' None (AOptional AInt) PNone]"

definition EstimateTransactionResult :: "'e pyclass" where
  "EstimateTransactionResult = [
     Field ''would_abort'' None ABool (PBool False),
     Field ''abort_reason'' None AStr (PStr []),
     Field ''gas_bill_kcal_base'' None (AOptional AStr) PNone,
     Field ''data_rows'' None (AOptional AStr) PNone,
     Field ''data_escrow_atoms'' None (AOptional AStr) PNone,
     Field ''data_refund_atoms'' None (AOptional AStr) PNone,
     Field ''recommended_max_gas'' None (AOptional AStr) PNone,
     Field ''recommended_max_data'' None (AOptional AStr) PNone]"

definition NexusResult :: "'e pyclass" where
  "NexusResult = [
     Field ''name'' None (AOptional AStr) PNone,
     Field ''protocol'' None AInt (PInt 0),
     Field ''platforms'' None (AOptional (AList (AClass ''PlatformResult''))) PNone,
     Field ''tokens'' None (AOptional (AList (AClass ''TokenResult''))) PNone,
     Field ''chains'' None (AOptional (AList (AClass ''ChainResult''))) PNone,
     Field ''governance'' None (AOptional (AList (AClass ''GovernanceResult''))) PNone,
     Field ''organizations'' None (AOptional (AList AStr)) PNone]"

definition EventResult :: "'e pyclass" where
  "EventResult = [
     Field ''address'' None AStr (PStr []),
     Field ''contract'' None AStr (PStr []),
     Field ''kind'' None AStr (PStr []),
     Field ''name'' None AStr (PStr []),
     Field ''data'' None AStr (PStr [])]"

definition OracleResult :: "'e pyclass" where
  "OracleResult = [
     Field ''url'' None AStr (PStr []),
     Field ''content'' None AStr (PStr [])]"

definition SignatureResult :: "'e pyclass" where
  "SignatureResult = [
     Field ''kind'' None AStr (PStr []),
     Field ''data'' None AStr (PStr [])]"

definition TransactionResult :: "'e pyclass" where
  "TransactionResult = [
     Field ''hash'' None AStr (PStr []),
     Field ''chain_address'' None AStr (PStr []),
     Field ''timestamp'' None AInt (PInt 0),
     Field ''block_height'' None AInt (PInt 0),
     Field ''block_hash'' None AStr (PStr []),
     Field ''script'' None AStr (PStr []),
     Field ''payload'' None AStr (PStr []),
     Field ''carbon_tx_type'' None AInt (PInt 0),
     Field ''carbon_tx_data'' None AStr (PStr []),
     Field ''debug_comment'' None (AOptional AStr) PNone,
     Field ''events'' None (AList (AClass ''EventResult'')) (PList []),
     Field ''extended_events'' None (AList (AClass ''EventExResult'')) (PList []),
     Field ''state'' None AStr (PStr []),
     Field ''result'' None AStr (PStr []),
     Field ''fee'' None AStr (PStr (str ''0'')),
     Field ''signatures'' None (AList (AClass ''SignatureResult'')) (PList []),
     Field ''sender'' None AStr (PStr []),
     Field ''gas_payer'' None AStr (PStr []),
     Field ''gas_target'' None AStr (PStr []),
     Field ''gas_price'' None AStr (PStr []),
     Field ''gas_limit'' None AStr (PStr []),
     Field ''expiration'' None AInt (PInt 0)]"

definition BlockResult :: "'e pyclass" where
  "BlockResult = [
     Field ''hash'' None AStr (PStr []),
     Field ''previous_hash'' None AStr (PStr []),
     Field ''timestamp'' None AInt (PInt 0),
     Field ''height'' None AInt (PInt 0),
     Field ''chain_address'' None AStr (PStr []),
     Field ''protocol'' None AInt (PInt 0),
     Field ''txs'' None (AList (AClass ''TransactionResult'')) (PList []),
     Field ''validator_address'' None AStr (PStr []),
     Field ''producer_address'' None (AOptional AStr) PNone,
     Field ''reward'' None AStr (PStr (str ''0'')),
     Field ''events'' None (AOptional (AList (AClass ''EventResult''))) PNone,
     Field ''oracles'' None (AOptional (AList (AClass ''OracleResult''))) PNone]"

definition TokenPropertyResult :: "'e pyclass" where
  "TokenPropertyResult = [
     Field ''key'' None AStr (PStr []),
     Field ''value'' None AVmValue (PVmValue vm_value_default)]"

definition TokenExternalResult :: "'e pyclass" where
  "TokenExternalResult = [
     Field ''platform'' None AStr (PStr []),
     Field ''hash'' None AStr (PStr [])]"

definition TokenPriceResult :: "'e pyclass" where
  "TokenPriceResult = [
     Field ''timestamp'' None AInt (PInt 0),
     Field ''open'' None AStr (PStr (str ''0'')),
     Field ''high'' None AStr (PStr (str ''0'')),
     Field ''low'' None AStr (PStr (str ''0'')),
     Field ''close'' None AStr (PStr (str ''0''))]"

definition VMVariableSchemaResult :: "'e pyclass" where
  "VMVariableSchemaResult = [
     Field ''type'' None AStr (PStr []),
     Field ''schema'' None (AOptional (AClass ''VMStructSchemaResult'')) PNone]"

definition VMNamedVariableSchemaResult :: "'e pyclass" where
  "VMNamedVariableSchemaResult = [
     Field ''name'' None AStr (PStr []),
     Field ''schema'' None (AClass ''VMVariableSchemaResult'') (new_object ''VMVariableSchemaResult'' VMVariableSchemaResult)]"

definition VMStructSchemaResult :: "'e pyclass" where
  "VMStructSchemaResult = [
     Field ''fields'' None (AList (AClass ''VMNamedVariableSchemaResult'')) (PList []),
     Field ''flags'' None AInt (PInt 0)]"

definition TokenSchemasResult :: "'e pyclass" where
  "TokenSchemasResult = [
     Field ''series_metadata'' None (AClass ''VMStructSchemaResult'') (new_object ''VMStructSchemaResult'' VMStructSchemaResult),
     Field ''rom'' None (AClass ''VMStructSchemaResult'') (new_object ''VMStructSchemaResult'' VMStructSchemaResult),
     Field ''ram'' None (AClass ''VMStructSchemaResult'') (new_object ''VMStructSchemaResult'' VMStructSchemaResult)]"

definition TokenSeriesResult :: "'e pyclass" where
  "TokenSeriesResult = [
     Field ''series_id'' None AStr (PStr []),
     Field ''carbon_token_id'' None AStr (PStr []),
     Field ''carbon_series_id'' None AStr (PStr []),
     Field ''owner_address'' None AStr (PStr []),
     Field ''max_mint'' None AStr (PStr (str ''0'')),
     Field ''mint_count'' None AStr (PStr (str ''0'')),
     Field ''current_supply'' None AStr (PStr (str ''0'')),
     Field ''max_supply'' None AStr (PStr (str ''0'')),
     Field ''burned_supply'' None (AOptional AStr) PNone,
     Field ''mode'' None (AOptional AStr) PNone,
     Field ''script'' None (AOptional AStr) PNone,
     Field ''methods'' None (AOptional (AList (AClass ''ABIMethodResult''))) PNone,
     Field ''metadata'' None (AList (AClass ''TokenPropertyResult'')) (PList [])]"

definition TokenResult :: "'e pyclass" where
  "TokenResult = [
     Field ''symbol'' None AStr (PStr []),
     Field ''name'' None AStr (PStr []),
     Field ''decimals'' None AInt (PInt 0),
     Field ''current_supply'' None AStr (PStr (str ''0'')),
     Field ''max_supply'' None AStr (PStr (str ''0'')),
     Field ''burned_supply'' None AStr (PStr (str ''0'')),
     Field ''address'' None AStr (PStr []),
     Field ''owner'' None AStr (PStr []),
     Field ''flags'' None AStr (PStr []),
     Field ''script'' None (AOptional AStr) PNone,
     Field ''series'' None (AList (AClass ''TokenSeriesResult'')) (PList []),
     Field ''carbon_id'' None AStr (PStr []),
     Field ''metadata'' None (AOptional (AList (AClass ''TokenPropertyResult''))) PNone,
     Field ''token_schemas'' None (AOptional (AClass ''TokenSchemasResult'')) PNone,
     Field ''external'' None (AOptional (AList (AClass ''TokenExternalResult''))) PNone,
     Field ''price'' None (AOptional (AList (AClass ''TokenPriceResult''))) PNone]"

definition TokenDataResult :: "'e pyclass" where
  "TokenDataResult = [
     Field ''id'' None AStr (PStr []),
     Field ''series'' None AStr (PStr []),
     Field ''carbon_token_id'' None AStr (PStr []),
     Field ''carbon_series_id'' None AStr (PStr []),
     Field ''carbon_nft_address'' None AStr (PStr []),
     Field ''mint'' None AStr (PStr []),
     Field ''chain_name'' None AStr (PStr []),
     Field ''owner_address'' None AStr (PStr []),
     Field ''creator_address'' None AStr (PStr []),
     Field ''ram'' None AStr (PStr []),
     Field ''rom'' None AStr (PStr []),
     Field ''status'' None AStr (PStr []),
     Field ''infusion'' None (AList (AClass ''TokenPropertyResult'')) (PList []),
     Field ''properties'' None (AList (AClass ''TokenPropertyResult'')) (PList [])]"

definition ScriptResult :: "'e pyclass" where
  "ScriptResult = [
     Field ''events'' None (AList (AClass ''EventResult'')) (PList []),
     Field ''result'' None (AOptional AStr) PNone,
     Field ''error'' None (AOptional AStr) PNone,
     Field ''results'' None (AList AStr) (PList []),
     Field ''oracles'' None (AList (AClass ''OracleResult'')) (PList []),
     Field ''state'' None (AOptional AStr) PNone,
     Field ''gas'' None (AOptional AStr) PNone]"

definition ArchiveResult :: "'e pyclass" where
  "ArchiveResult = [
     Field ''name'' None (AOptional AStr) PNone,
     Field ''hash'' None (AOptional AStr) PNone,
     Field ''time'' None AInt (PInt 0),
     Field ''size'' None AInt (PInt 0),
     Field ''encryption'' None (AOptional AStr) PNone,
     Field ''block_count'' None AInt (PInt 0),
     Field ''missing_blocks'' None (AOptional (AList AInt)) PNone,
     Field ''owners'' None (AOptional (AList AStr)) PNone]"

definition ABIParameterResult :: "'e pyclass" where
  "ABIParameterResult = [
     Field ''name'' None AStr (PStr []),
     Field ''type'' None AStr (PStr [])]"

definition ABIMethodResult :: "'e pyclass" where
  "ABIMethodResult = [
     Field ''name'' None AStr (PStr []),
     Field ''return_type'' None AStr (PStr []),
     Field ''parameters'' None (AList (AClass ''ABIParameterResult'')) (PList [])]"

definition ABIEventResult :: "'e pyclass" where
  "ABIEventResult = [
     Field ''value'' None AInt (PInt 0),
     Field ''name'' None AStr (PStr []),
     Field ''return_type'' None AStr (PStr []),
     Field ''description'' None AStr (PStr [])]"

definition ContractResult :: "'e pyclass" where
  "ContractResult = [
     Field ''name'' None AStr (PStr []),
     Field ''address'' None AStr (PStr []),
     Field ''script'' None AStr (PStr []),
     Field ''owner'' None (AOptional AStr) PNone,
     Field ''methods'' None (AOptional (AList (AClass ''ABIMethodResult''))) PNone,
     Field ''events'' None (AOptional (AList (AClass ''ABIEventResult''))) PNone]"

definition AuctionResult :: "'e pyclass" where
  "AuctionResult = [
     Field ''creator_address'' None AStr (PStr []),
     Field ''chain_address'' None AStr (PStr []),
     Field ''start_date'' None AInt (PInt 0),
     Field ''end_date'' None AInt (PInt 0),
     Field ''base_symbol'' None AStr (PStr []),
     Field ''quote_symbol'' None AStr (PStr []),
     Field ''token_id'' None AStr (PStr []),
     Field ''price'' None AStr (PStr (str ''0'')),
     Field ''end_price'' None AStr (PStr (str ''0'')),
     Field ''extension_period'' None AStr (PStr (str ''0'')),
     Field ''type'' None AStr (PStr []),
     Field ''rom'' None AStr (PStr []),
     Field ''ram'' None AStr (PStr []),
     Field ''listing_fee'' None AStr (PStr (str ''0'')),
     Field ''current_winner'' None AStr (PStr [])]"

definition ChannelResult :: "'e pyclass" where
  "ChannelResult = [
     Field ''creator_address'' None AStr (PStr []),
     Field ''target_address'' None AStr (PStr []),
     Field ''name'' None AStr (PStr []),
     Field ''chain'' None AStr (PStr []),
     Field ''creation_time'' None AInt (PInt 0),
     Field ''symbol'' None AStr (PStr []),
     Field ''fee'' None AStr (PStr (str ''0'')),
     Field ''balance'' None AStr (PStr (str ''0'')),
     Field ''active'' None ABool (PBool False),
     Field ''index'' None AInt (PInt 0)]"

definition ReceiptResult :: "'e pyclass" where
  "ReceiptResult = [
     Field ''nexus'' None AStr (PStr []),
     Field ''channel'' None AStr (PStr []),
     Field ''index'' None AStr (PStr []),
     Field ''timestamp'' None AInt (PInt 0),
     Field ''sender'' None AStr (PStr []),
     Field ''receiver'' None AStr (PStr []),
     Field ''script'' None AStr (PStr [])]"

definition PeerResult :: "'e pyclass" where
  "PeerResult = [
     Field ''url'' None AStr (PStr []),
     Field ''version'' None AStr (PStr []),
     Field ''flags'' None AStr (PStr []),
     Field ''fee'' None AStr (PStr (str ''0'')),
     Field ''pow'' None AInt (PInt 0)]"

definition ValidatorResult :: "'e pyclass" where
  "ValidatorResult = [
     Field ''address'' None AStr (PStr []),
     Field ''type'' None AStr (PStr [])]"

definition SwapResult :: "'e pyclass" where
  "SwapResult = [
     Field ''source_platform'' None AStr (PStr []),
     Field ''source_chain'' None AStr (PStr []),
     Field ''source_hash'' None AStr (PStr []),
     Field ''source_address'' None AStr (PStr []),
     Field ''destination_platform'' None AStr (PStr []),
     Field ''destination_chain'' None AStr (PStr []),
     Field ''destination_hash'' None AStr (PStr []),
     Field ''destination_address'' None AStr (PStr []),
     Field ''symbol'' None AStr (PStr []),
     Field ''value'' None AStr (PStr (str ''0''))]"

definition BuildInfoResult :: "'e pyclass" where
  "BuildInfoResult = [
     Field ''version'' None AStr (PStr []),
     Field ''commit'' None AStr (PStr []),
     Field ''build_time_utc'' None AStr (PStr [])]"

definition PhantasmaVMConfigResult :: "'e pyclass" where
  "PhantasmaVMConfigResult = [
     Field ''is_stored'' None ABool (PBool False),
     Field ''feature_level'' None AInt (PInt 0),
     Field ''gas_constructor'' None AStr (PStr (str ''0'')),
     Field ''gas_nexus'' None AStr (PStr (str ''0'')),
     Field ''gas_organization'' None AStr (PStr (str ''0'')),
     Field ''gas_account'' None AStr (PStr (str ''0'')),
     Field ''gas_leaderboard'' None AStr (PStr (str ''0'')),
     Field ''gas_standard'' None AStr (PStr (str ''0'')),
     Field ''gas_oracle'' None AStr (PStr (str ''0'')),
     Field ''fuel_per_contract_deploy'' None AStr (PStr (str ''0''))]"

definition response_classes :: "(string \<times> 'e pyclass) list" where
  "response_classes = [
     (''BalanceResult'', BalanceResult),
     (''InteropResult'', InteropResult),
     (''PlatformResult'', PlatformResult),
     (''GovernanceResult'', GovernanceResult),
     (''OrganizationResult'', OrganizationResult),
     (''OrganizationMemberResult'', OrganizationMemberResult),
     (''CrowdsaleResult'', CrowdsaleResult),
     (''StakeResult'', StakeResult),
     (''StorageResult'', StorageResult),
     (''AccountInfoResult'', AccountInfoResult),
     (''AccountResult'', AccountResult),
     (''AddressTransactionsResult'', AddressTransactionsResult),
     (''LeaderboardRowResult'', LeaderboardRowResult),
     (''LeaderboardResult'', LeaderboardResult),
     (''DappResult'', DappResult),
     (''ChainResult'', ChainResult),
     (''GasConfigDataResult'', GasConfigDataResult),
     (''GasConfigResult'', GasConfigResult),
     (''EstimateTransactionResult'', EstimateTransactionResult),
     (''NexusResult'', NexusResult),
     (''EventResult'', EventResult),
     (''OracleResult'', OracleResult),
     (''SignatureResult'', SignatureResult),
     (''TransactionResult'', TransactionResult),
     (''BlockResult'', BlockResult),
     (''TokenPropertyResult'', TokenPropertyResult),
     (''TokenExternalResult'', TokenExternalResult),
     (''TokenPriceResult'', TokenPriceResult),
     (''VMVariableSchemaResult'', VMVariableSchemaResult),
     (''VMNamedVariableSchemaResult'', VMNamedVariableSchemaResult),
     (''VMStructSchemaResult'', VMStructSchemaResult),
     (''TokenSchemasResult'', TokenSchemasResult),
     (''TokenSeriesResult'', TokenSeriesResult),
     (''TokenResult'', TokenResult),
     (''TokenDataResult'', TokenDataResult),
     (''ScriptResult'', ScriptResult),
     (''ArchiveResult'', ArchiveResult),
     (''ABIParameterResult'', ABIParameterResult),
     (''ABIMethodResult'', ABIMethodResult),
     (''ABIEventResult'', ABIEventResult),
     (''ContractResult'', ContractResult),
     (''AuctionResult'', AuctionResult),
     (''ChannelResult'', ChannelResult),
     (''ReceiptResult'', ReceiptResult),
     (''PeerResult'', PeerResult),
     (''ValidatorResult'', ValidatorResult),
     (''SwapResult'', SwapResult),
     (''BuildInfoResult'', BuildInfoResult),
     (''PhantasmaVMConfigResult'', PhantasmaVMConfigResult)]"

definition rpc_env :: "string \<Rightarrow> EventExResult pyclass option" where
  "rpc_env = map_of response_classes"

section \<open>The classes are fit for their wire form\<close>

fun no_dict :: "annotation \<Rightarrow> bool" where
  "no_dict (AList a) = no_dict a"
| "no_dict (AOptional a) = no_dict a"
| "no_dict (ADict a) = False"
| "no_dict AUnion = False"
| "no_dict AOther = False"
| "no_dict _ = True"

definition plain_class :: "'e pyclass \<Rightarrow> bool" where
  "plain_class flds \<longleftrightarrow> list_all (\<lambda>f. (case fi_wire f of None \<Rightarrow> True | Some _ \<Rightarrow> False) \<and> no_dict (fi_type f)) flds"

lemma response_classes_ok:
  "list_all (\<lambda>(c, flds). class_ok flds) (response_classes :: (string \<times> EventExResult pyclass) list)"
  by code_simp

lemma response_classes_plain:
  "list_all (\<lambda>(c, flds). c \<noteq> ''EventExResult'' \<and> plain_class flds) (response_classes :: (string \<times> EventExResult pyclass) list)"
  by code_simp

lemma response_class:
  assumes "rpc_env c = Some flds"
  shows "class_ok flds" "c \<noteq> ''EventExResult''"
    "f \<in> set flds \<Longrightarrow> fi_wire_name f = snake_to_camel (fi_name f)" "list_all (no_dict \<circ> fi_type) flds"
proof -
  have "(c, flds) \<in> set response_classes" using assms by (simp add: rpc_env_def map_of_SomeD)
  then have plain: "class_ok flds" "c \<noteq> ''EventExResult''" "plain_class flds"
    using response_classes_ok response_classes_plain unfolding list_all_iff by blast+
  then show "class_ok flds" "c \<noteq> ''EventExResult''" by blast+
  show "list_all (no_dict \<circ> fi_type) flds" using plain(3) by (auto simp: plain_class_def list_all_iff)
  show "fi_wire_name f = snake_to_camel (fi_name f)" if "f \<in> set flds"
    using plain(3) that by (auto simp: plain_class_def list_all_iff fi_wire_name_def wire_name_of_def split: option.splits)
qed

end
