(* ===== verification/PyFloat.thy ===== *)
theory PyFloat
  imports Json PyInt
begin

text \<open>
  Conversions of JSON values that Python applies: \<^verbatim>\<open>int(x)\<close>, \<^verbatim>\<open>str(x)\<close> and truth values. A floating point
  number is given by the text \<^verbatim>\<open>str\<close> shows for it, the shortest one that rounds to the number; \<^verbatim>\<open>int\<close> of it is
  computed from that text, by rounding to 53 bits where the number is large.
\<close>

section \<open>Integers from floating point numbers\<close>

definition digits_value :: "pystr \<Rightarrow> nat" where
  "digits_value s = foldl (\<lambda>a c. 10 * a + (c - 48)) 0 s"

text \<open>\<open>round_53 n\<close>: the multiple of a power of two nearest to \<open>n\<close> with at most 53 significant bits, ties to even.\<close>

definition round_53 :: "nat \<Rightarrow> nat" where
  "round_53 n = (let k = nat_bit_length n - 53; unit = 2 ^ k; q = n div unit; r = n mod unit
     in if 2 * r > unit \<or> (2 * r = unit \<and> odd q) then (q + 1) * unit else q * unit)"

text \<open>The integer part of the absolute value of a finite number.\<close>

definition float_magnitude :: "pystr \<Rightarrow> nat" where
  "float_magnitude t =
     (let mantissa = takeWhile (\<lambda>c. c \<noteq> 101) t; exponent = drop 1 (dropWhile (\<lambda>c. c \<noteq> 101) t);
          whole = takeWhile (\<lambda>c. c \<noteq> 46) mantissa; fraction = drop 1 (dropWhile (\<lambda>c. c \<noteq> 46) mantissa);
          shift = (case exponent of [] \<Rightarrow> 0
            | sign # ds \<Rightarrow> if sign = 45 then - int (digits_value ds) else int (digits_value ds)) - int (length fraction);
          m = digits_value (whole @ fraction);
          n = (if shift \<ge> 0 then m * 10 ^ nat shift else m div 10 ^ nat (- shift))
      in if n < 2 ^ 53 then n else round_53 n)"

definition float_int :: "pystr \<Rightarrow> int result" where
  "float_int t =
     (if t = str ''inf'' \<or> t = str ''-inf'' then Inl OverflowError
      else if t = str ''nan'' then Inl ValueError
      else case t of c # s \<Rightarrow> Inr (if c = 45 then - int (float_magnitude s) else int (float_magnitude t))
        | [] \<Rightarrow> Inl ValueError)"

section \<open>Conversions of JSON values\<close>

definition json_true :: "json \<Rightarrow> bool" where
  "json_true v = (case v of
     JNull \<Rightarrow> False
   | JBool b \<Rightarrow> b
   | JInt n \<Rightarrow> n \<noteq> 0
   | JFloat t \<Rightarrow> t \<noteq> str ''0.0'' \<and> t \<noteq> str ''-0.0''
   | JStr s \<Rightarrow> s \<noteq> []
   | JList xs \<Rightarrow> xs \<noteq> []
   | JObject kvs \<Rightarrow> kvs \<noteq> [])"

definition json_int :: "json \<Rightarrow> int result" where
  "json_int v = (case v of
     JBool b \<Rightarrow> Inr (of_bool b)
   | JInt n \<Rightarrow> Inr n
   | JFloat t \<Rightarrow> float_int t
   | JStr s \<Rightarrow> py_int_text s
   | _ \<Rightarrow> Inl TypeError)"

text \<open>The text of a list or an object is the parameter \<open>show\<close>, its \<^verbatim>\<open>repr\<close>.\<close>

definition json_str :: "(json \<Rightarrow> pystr) \<Rightarrow> json \<Rightarrow> pystr result" where
  "json_str show v = (case v of
     JNull \<Rightarrow> Inr (str ''None'')
   | JBool b \<Rightarrow> Inr (if b then str ''True'' else str ''False'')
   | JInt n \<Rightarrow> py_str n
   | JFloat t \<Rightarrow> Inr t
   | JStr s \<Rightarrow> Inr s
   | _ \<Rightarrow> Inr (show v))"

lemma json_int_error: "json_int v = Inl e \<Longrightarrow> e \<in> {TypeError, ValueError, OverflowError}"
  by (auto simp: json_int_def float_int_def py_int_text_def dest: int_signed_error split: json.splits if_splits list.splits)

end
