(* ===== verification/RpcDecode.thy ===== *)
theory RpcDecode
  imports RpcModels PyFloat
begin

text \<open>
  \<^verbatim>\<open>_decode_value\<close> and \<^verbatim>\<open>_decode_dataclass\<close> of \<^verbatim>\<open>rpc.py\<close>. The one class with a \<^verbatim>\<open>from_wire\<close> of its
  own among the annotations, besides \<^verbatim>\<open>VmValue\<close>, is \<^verbatim>\<open>EventExResult\<close>; its objects are the \<open>PSelf\<close> values.
\<close>

section \<open>Reading\<close>

text \<open>The elements \<^verbatim>\<open>for item in (value or [])\<close> goes through.\<close>

definition json_iter :: "json \<Rightarrow> json list result" where
  "json_iter v = (if \<not> json_true v then Inr [] else case v of
     JList xs \<Rightarrow> Inr xs
   | JStr s \<Rightarrow> Inr (map (\<lambda>c. JStr [c]) s)
   | JObject kvs \<Rightarrow> Inr (map (\<lambda>(k, _). JStr k) kvs)
   | _ \<Rightarrow> Inl TypeError)"

definition lenient_get :: "(pystr \<times> json) list \<Rightarrow> 'e field_info \<Rightarrow> json option" where
  "lenient_get raw f = (case map_of raw (str (fi_name f)) of
     Some v \<Rightarrow> Some v
   | None \<Rightarrow> map_of raw (str (snake_to_camel (fi_name f))))"

lemma lenient_get_size: "lenient_get kvs f = Some x \<Longrightarrow> size x < size (JObject kvs)"
  by (auto simp: lenient_get_def simp del: json.size intro: json_object_get_size split: option.splits)

lemma json_iter_size:
  assumes "json_iter v = Inr xs" "x \<in> set xs"
  shows "size x \<le> size v"
proof (cases v)
  case (JList ys)
  with assms show ?thesis using json_list_size [of x ys] by (auto simp: json_iter_def json_true_def split: if_splits)
qed (use assms in \<open>auto simp: json_iter_def json_true_def split: if_splits\<close>)

function decode_value :: "(string \<Rightarrow> EventExResult pyclass option) \<Rightarrow> annotation \<Rightarrow> json \<Rightarrow> EventExResult pyval result"
  and decode_dataclass :: "(string \<Rightarrow> EventExResult pyclass option) \<Rightarrow> string \<Rightarrow> json \<Rightarrow> EventExResult pyval result" where
  "decode_value env AVmValue v = Inr (PVmValue (from_wire v))"
| "decode_value env (AList a) v = rthen (json_iter v) (\<lambda>xs. rthen (rmap (\<lambda>x. decode_value env a x) xs) (\<lambda>ys. Inr (PList ys)))"
| "decode_value env (AOptional a) v = (if v = JNull then Inr PNone else decode_value env a v)"
| "decode_value env (AClass c) v =
     (if c = ''EventExResult'' then rthen (event_from_wire v) (\<lambda>e. Inr (PSelf e)) else decode_dataclass env c v)"
| "decode_value env AStr v = Inr (of_json v)"
| "decode_value env AInt v = Inr (of_json v)"
| "decode_value env ABool v = Inr (of_json v)"
| "decode_value env (ADict a) v = Inr (of_json v)"
| "decode_value env AUnion v = Inr (of_json v)"
| "decode_value env AOther v = Inr (of_json v)"
| "decode_dataclass env c raw = (case env c of
     None \<Rightarrow> Inr (of_json raw)
   | Some flds \<Rightarrow> (case raw of
       JObject kvs \<Rightarrow> rthen (rmap (\<lambda>f. case lenient_get kvs f of
             None \<Rightarrow> Inr (fi_name f, fi_default f)
           | Some v \<Rightarrow> rthen (decode_value env (fi_type f) v) (\<lambda>x. Inr (fi_name f, x))) flds)
           (\<lambda>fs. Inr (PObject c fs))
     | _ \<Rightarrow> Inl RPCError))"
  by pat_completeness auto

termination
proof (relation "inv_image (less_than <*lex*> less_than) (\<lambda>a. case a of
      Inl (env, a, v) \<Rightarrow> (size v, Suc (size a))
    | Inr (env, c, raw) \<Rightarrow> (size raw, 0))", goal_cases)
  case (2 env a v xs x)
  then show ?case using json_iter_size [of v xs x] by auto
next
  case (5 env c raw flds kvs f v)
  then show ?case using lenient_get_size [of kvs f v] by (simp del: json.size)
qed auto

declare decode_dataclass.simps [simp del]

section \<open>What is written is read back\<close>

definition event_self :: "string \<Rightarrow> EventExResult \<Rightarrow> bool" where
  "event_self c e \<longleftrightarrow> c = ''EventExResult'' \<and> event_ok e"

lemma event_written: "event_to_wire e \<noteq> JNull"
  by (simp add: event_to_wire_def)

interpretation response: shape_decoder rpc_env event_self event_to_wire no_dict lenient_get "decode_value rpc_env"
proof
  fix c and flds :: "EventExResult pyclass" and f and kvs :: "(pystr \<times> json) list"
  assume c: "rpc_env c = Some flds" "f \<in> set flds"
    and m: "map_of kvs (str (fi_name f)) \<in> {None, map_of kvs (str (fi_wire_name f))}"
  then show "lenient_get kvs f = map_of kvs (str (fi_wire_name f))"
    by (auto simp: lenient_get_def response_class(3) [OF c] split: option.splits)
next
  fix c and flds :: "EventExResult pyclass" and kvs :: "(pystr \<times> json) list" and fs
  assume "rpc_env c = Some flds" "rmap (\<lambda>f. case lenient_get kvs f of None \<Rightarrow> Inr (fi_name f, fi_default f)
      | Some v \<Rightarrow> rthen (decode_value rpc_env (fi_type f) v) (\<lambda>x. Inr (fi_name f, x))) flds = Inr fs"
  then show "decode_value rpc_env (AClass c) (JObject kvs) = Inr (PObject c fs)"
    using response_class(2) by (auto simp: decode_dataclass.simps)
next
  fix a xs ys assume "rmap (decode_value rpc_env a) xs = Inr ys"
  then show "decode_value rpc_env (AList a) (JList xs) = Inr (PList ys)"
    by (auto simp: json_iter_def json_true_def)
qed (use response_class in \<open>auto simp: event_self_def event_read_written event_written\<close>)

text \<open>
  What an answer means under the annotations of the response classes, said without a decoder and at every level: a
  member may have its Python name or its camel case name, the Python name first, in any place and among members the
  class does not know; a member that is missing has the default.
\<close>

definition answered :: "(pystr \<times> json) list \<Rightarrow> 'e field_info \<Rightarrow> json \<Rightarrow> bool" where
  "answered kvs f v \<longleftrightarrow> map_of kvs (str (fi_name f)) = Some v \<or>
     map_of kvs (str (fi_name f)) = None \<and> map_of kvs (str (fi_wire_name f)) = Some v"

inductive answers :: "annotation \<Rightarrow> json \<Rightarrow> EventExResult pyval \<Rightarrow> bool" where
  answers_str: "answers AStr (JStr s) (PStr s)"
| answers_int: "answers AInt (JInt n) (PInt n)"
| answers_bool: "answers ABool (JBool b) (PBool b)"
| answers_vm: "answers AVmValue v (PVmValue (from_wire v))"
| answers_none: "answers (AOptional a) JNull PNone"
| answers_some: "v \<noteq> JNull \<Longrightarrow> answers a v x \<Longrightarrow> answers (AOptional a) v x"
| answers_list: "list_all2 (answers a) vs xs \<Longrightarrow> answers (AList a) (JList vs) (PList xs)"
| answers_event: "event_denoted v e \<Longrightarrow> answers (AClass ''EventExResult'') v (PSelf e)"
| answers_object: "rpc_env c = Some flds \<Longrightarrow>
    list_all2 (\<lambda>f nx. fst nx = fi_name f \<and>
      ((\<exists>v. answered kvs f v \<and> answers (fi_type f) v (snd nx)) \<or> (\<nexists>v. answered kvs f v) \<and> snd nx = fi_default f)) flds fs \<Longrightarrow>
    answers (AClass c) (JObject kvs) (PObject c fs)"

lemma answered_get:
  assumes "rpc_env c = Some flds" "f \<in> set flds"
  shows "answered kvs f v \<longleftrightarrow> lenient_get kvs f = Some v"
  using response_class(3) [OF assms] by (auto simp: answered_def lenient_get_def split: option.splits)

lemma answers_decoded: "answers a v x \<Longrightarrow> decode_value rpc_env a v = Inr x"
proof (induction rule: answers.induct)
  case (answers_list a vs xs)
  then have "list_all2 (\<lambda>v x. decode_value rpc_env a v = Inr x) vs xs" by (auto elim: list_all2_mono)
  then show ?case by (auto simp: json_iter_def json_true_def rmap_all2 [symmetric])
next
  case (answers_event v e)
  then show ?case by (simp add: event_denoted_iff [symmetric])
next
  case (answers_object c flds kvs fs)
  let ?step = "\<lambda>f. case lenient_get kvs f of None \<Rightarrow> Inr (fi_name f, fi_default f)
    | Some v \<Rightarrow> rthen (decode_value rpc_env (fi_type f) v) (\<lambda>x. Inr (fi_name f, x))"
  have "list_all2 (\<lambda>f nx. ?step f = Inr nx) flds fs"
  proof (rule list.rel_mono_strong [OF answers_object(2)])
    fix f nx assume f: "f \<in> set flds" and "nx \<in> set fs"
      and m: "fst nx = fi_name f \<and> ((\<exists>v. answered kvs f v \<and> answers (fi_type f) v (snd nx) \<and>
        decode_value rpc_env (fi_type f) v = Inr (snd nx)) \<or> (\<nexists>v. answered kvs f v) \<and> snd nx = fi_default f)"
    note get = answered_get [OF answers_object(1) f]
    from m show "?step f = Inr nx" by (cases nx) (auto simp: get)
  qed
  then have "rmap ?step flds = Inr fs" by (simp add: rmap_all2)
  then show ?case
    using response_class(2) [OF answers_object(1)] by (simp add: decode_dataclass.simps answers_object(1))
qed simp_all

section \<open>Errors\<close>

lemma json_iter_error: "json_iter v = Inl e \<Longrightarrow> e = TypeError"
  by (auto simp: json_iter_def split: if_splits json.splits)

lemma decode_value_errors:
  "decode_value env a v = Inl e \<Longrightarrow> e \<in> {RPCError, TypeError}"
  "decode_dataclass env c raw = Inl e \<Longrightarrow> e \<in> {RPCError, TypeError}"
proof (induction env a v and env c raw rule: decode_value_decode_dataclass.induct)
  case (2 env a v)
  from 2(2) show ?case using 2(1) by (auto simp: rthen_Inl_iff dest: json_iter_error dest!: rmap_error)
next
  case (4 env c v)
  then show ?case using event_from_wire_ok [of v] by (auto simp: rthen_Inl_iff split: if_splits)
next
  case (11 env c raw)
  show ?case
  proof (cases "env c")
    case None
    with 11(2) show ?thesis by (simp add: decode_dataclass.simps)
  next
    case (Some flds)
    show ?thesis
    proof (cases raw)
      case (JObject kvs)
      with 11(2) Some obtain f where f: "f \<in> set flds"
        "(case lenient_get kvs f of None \<Rightarrow> Inr (fi_name f, fi_default f)
           | Some v \<Rightarrow> rthen (decode_value env (fi_type f) v) (\<lambda>x. Inr (fi_name f, x))) = Inl e"
        by (auto simp: decode_dataclass.simps rthen_Inl_iff dest!: rmap_error)
      then obtain v where "lenient_get kvs f = Some v" "decode_value env (fi_type f) v = Inl e"
        by (auto simp: rthen_Inl_iff split: option.splits)
      with 11(1) [OF Some JObject f(1)] show ?thesis by blast
    qed (use 11(2) Some in \<open>simp_all add: decode_dataclass.simps\<close>)
  qed
qed (auto split: if_splits)

section \<open>Properties\<close>

text \<open>C15: An answer is decoded to the response object it denotes, whatever the order of its members, with each member
  under its Python name or its camel case name, among members the class does not know, and the same at every level
  of nesting, VM values and extended events included; a missing member has its default. In particular every response
  object is read back from its own wire form.
\<close>

theorem response_roundtrip:
  assumes "rpc_env c = Some flds" "answers (AClass c) v x" "conforms rpc_env event_self (AClass c) y"
  shows "decode_dataclass rpc_env c v = Inr x \<and>
    decode_dataclass rpc_env c (shape_to_wire rpc_env event_to_wire y) = Inr y"
  using answers_decoded [OF assms(2)] response.read_written_any [of rpc_env event_self "AClass c" y] assms(3)
    response_class(2) [OF assms(1)] by simp

definition example_member :: "EventExResult pyval" where
  "example_member = PObject ''OrganizationMemberResult'' [(''address'', PStr (str ''P1'')),
     (''carbon_address'', PNone), (''is_member'', PBool True), (''member_time'', PInt 5)]"

theorem response_roundtrip_witness:
  "decode_dataclass rpc_env ''OrganizationMemberResult'' (JObject [(str ''is_member'', JBool True),
     (str ''extra'', JNull), (str ''memberTime'', JInt 5), (str ''address'', JStr (str ''P1''))]) = Inr example_member \<and>
   decode_dataclass rpc_env ''OrganizationMemberResult'' (shape_to_wire rpc_env event_to_wire example_member) = Inr example_member"
proof (rule response_roundtrip)
  show env: "rpc_env ''OrganizationMemberResult'' = Some OrganizationMemberResult"
    by (simp add: rpc_env_def response_classes_def)
  show "conforms rpc_env event_self (AClass ''OrganizationMemberResult'') example_member" by code_simp
  have names: "fi_wire_name (Field n None a d :: EventExResult field_info) = snake_to_camel n" for n a d
    by (simp add: fi_wire_name_def wire_name_of_def)
  have camel: "snake_to_camel ''carbon_address'' = ''carbonAddress''" "snake_to_camel ''is_member'' = ''isMember''"
    "snake_to_camel ''member_time'' = ''memberTime''" "snake_to_camel ''address'' = ''address''" by code_simp+
  show "answers (AClass ''OrganizationMemberResult'') (JObject [(str ''is_member'', JBool True),
     (str ''extra'', JNull), (str ''memberTime'', JInt 5), (str ''address'', JStr (str ''P1''))]) example_member"
    unfolding example_member_def
    by (rule answers_object [OF env])
      (simp add: OrganizationMemberResult_def answered_def names camel str_inject answers_str answers_int answers_bool answers_some del: str_Cons)
qed

text \<open>C21: Decoding an answer yields a complete object of the class or raises \<^verbatim>\<open>RPCError\<close> or \<^verbatim>\<open>TypeError\<close>. A
  field declared as a list is where the leniency ends: text is taken apart into its characters, a number or a
  truth value other than zero lets the built-in \<^verbatim>\<open>TypeError\<close> escape.
\<close>

theorem response_decode_outcomes:
  assumes "rpc_env c = Some flds"
  shows "(case decode_dataclass rpc_env c raw of
      Inl e \<Rightarrow> e \<in> {RPCError, TypeError}
    | Inr x \<Rightarrow> (case x of PObject d fs \<Rightarrow> d = c \<and> map fst fs = map fi_name flds | _ \<Rightarrow> False)) \<and>
    decode_value rpc_env (AList AStr) (JStr s) = Inr (PList (map (\<lambda>ch. PStr [ch]) s)) \<and>
    decode_value rpc_env (AList (AClass c)) (JInt n) = (if n = 0 then Inr (PList []) else Inl TypeError)"
proof (intro conjI)
  show "case decode_dataclass rpc_env c raw of
      Inl e \<Rightarrow> e \<in> {RPCError, TypeError}
    | Inr x \<Rightarrow> (case x of PObject d fs \<Rightarrow> d = c \<and> map fst fs = map fi_name flds | _ \<Rightarrow> False)"
  proof (cases "decode_dataclass rpc_env c raw")
    case (Inl e)
    with decode_value_errors(2) [OF Inl] show ?thesis by simp
  next
    case (Inr x)
    then obtain kvs fs where "x = PObject c fs"
      and r: "rmap (\<lambda>f. case lenient_get kvs f of None \<Rightarrow> Inr (fi_name f, fi_default f)
        | Some v \<Rightarrow> rthen (decode_value rpc_env (fi_type f) v) (\<lambda>x. Inr (fi_name f, x))) flds = Inr fs"
      using assms by (auto simp: decode_dataclass.simps rthen_Inr_iff split: json.splits)
    moreover have "map fst fs = map fi_name flds"
      by (rule rmap_names [OF r]) (auto simp: rthen_Inr_iff split: option.splits)
    ultimately show ?thesis using Inr by simp
  qed
  have "rmap (decode_value rpc_env AStr) (map (\<lambda>ch. JStr [ch]) s) = Inr (map (\<lambda>ch. PStr [ch]) s)"
    by (induction s) simp_all
  then show "decode_value rpc_env (AList AStr) (JStr s) = Inr (PList (map (\<lambda>ch. PStr [ch]) s))"
    by (simp add: json_iter_def json_true_def del: decode_value.simps(5))
  show "decode_value rpc_env (AList (AClass c)) (JInt n) = (if n = 0 then Inr (PList []) else Inl TypeError)"
    by (simp add: json_iter_def json_true_def)
qed

theorem response_decode_outcomes_witness:
  "(case decode_dataclass rpc_env ''StakeResult'' (JObject []) of Inl e \<Rightarrow> False
     | Inr x \<Rightarrow> x = PObject ''StakeResult'' [(''amount'', PStr (str ''0'')), (''time'', PInt 0), (''unclaimed'', PStr (str ''0''))]) \<and>
   decode_value rpc_env (AList (AClass ''StakeResult'')) (JInt 1) = Inl TypeError"
proof
  have "rpc_env ''StakeResult'' = Some StakeResult" by (simp add: rpc_env_def response_classes_def)
  from response_decode_outcomes [OF this, of "JNull" "[]" 1]
  show "decode_value rpc_env (AList (AClass ''StakeResult'')) (JInt 1) = Inl TypeError" by simp
  show "case decode_dataclass rpc_env ''StakeResult'' (JObject []) of Inl e \<Rightarrow> False
     | Inr x \<Rightarrow> x = PObject ''StakeResult'' [(''amount'', PStr (str ''0'')), (''time'', PInt 0), (''unclaimed'', PStr (str ''0''))]"
    by code_simp
qed

end
