(* ===== verification/RpcClient.thy ===== *)
theory RpcClient
  imports PyFloat
begin

text \<open>
  \<^verbatim>\<open>JsonRpcClient\<close> of \<^verbatim>\<open>rpc.py\<close>: reading a response within a size bound, and one JSON-RPC call with every
  way it fails. The HTTP session, the codecs other than UTF-8, \<^verbatim>\<open>json.loads\<close>, the \<^verbatim>\<open>repr\<close> of containers,
  \<^verbatim>\<open>str.lower\<close> and the clock are not under \<^verbatim>\<open>src\<close> or are library tables: they are the record \<open>rpc_lib\<close>. The
  session is a value \<open>'w\<close> that posting and closing change.
\<close>

section \<open>Requests and responses\<close>

record request =
  rq_url :: pystr
  rq_id :: pystr
  rq_method :: pystr
  rq_params :: "json list"
  rq_timeout :: pystr
  rq_api_key :: "pystr option"

text \<open>A chunk of the body, bytes or text, or the exception reading it raises.\<close>

datatype chunk = CBytes bytes | CText pystr | CRaise py_error

text \<open>
  A response has the attributes the code looks for, each of them optional. \<open>hr_headers\<close> is the \<^verbatim>\<open>get\<close> of the
  headers, \<open>None\<close> when there are none; \<open>hr_json\<close> is what \<^verbatim>\<open>json()\<close> does.
\<close>

record http_response =
  hr_status :: "int option"
  hr_headers :: "(pystr \<Rightarrow> pystr option) option"
  hr_chunks :: "chunk list option"
  hr_encoding :: "pystr option"
  hr_content :: "(bytes + pystr) option"
  hr_text :: "pystr option"
  hr_json :: "json result"
  hr_close :: bool

record 'w rpc_lib =
  rl_post :: "'w \<Rightarrow> request \<Rightarrow> http_response result \<times> 'w"
  rl_close :: "'w \<Rightarrow> http_response \<Rightarrow> 'w"
  rl_decode :: "pystr \<Rightarrow> bytes \<Rightarrow> pystr result"
  rl_loads :: "pystr \<Rightarrow> json result"
  rl_show :: "json \<Rightarrow> pystr"
  rl_lower :: "pystr \<Rightarrow> pystr"
  rl_clock :: "'w \<Rightarrow> int"

section \<open>Reading the response\<close>

definition content_length :: "http_response \<Rightarrow> int option" where
  "content_length response = (case hr_headers response of
     None \<Rightarrow> None
   | Some get \<Rightarrow>
       (case (case get (str ''content-length'') of
           Some v \<Rightarrow> if v \<noteq> [] then Some v else get (str ''Content-Length'')
         | None \<Rightarrow> get (str ''Content-Length'')) of
         None \<Rightarrow> None
       | Some v \<Rightarrow> (case py_int_text v of Inl _ \<Rightarrow> None | Inr n \<Rightarrow> Some n)))"

definition ensure_response_size :: "int \<Rightarrow> int \<Rightarrow> unit result" where
  "ensure_response_size n max_response_bytes = raise_unless (n \<le> max_response_bytes) RPCError"

definition chunk_bytes :: "chunk \<Rightarrow> bytes result" where
  "chunk_bytes chunk = (case chunk of CBytes bs \<Rightarrow> Inr bs | CText s \<Rightarrow> utf8_encode s | CRaise e \<Rightarrow> Inl e)"

definition chunk_empty :: "chunk \<Rightarrow> bool" where
  "chunk_empty chunk \<longleftrightarrow> (case chunk of CBytes bs \<Rightarrow> bs = [] | CText s \<Rightarrow> s = [] | CRaise _ \<Rightarrow> False)"

text \<open>\<open>acc\<close> are the bytes read so far.\<close>

fun read_chunks :: "int \<Rightarrow> bytes \<Rightarrow> chunk list \<Rightarrow> bytes result" where
  "read_chunks max_response_bytes acc [] = Inr acc"
| "read_chunks max_response_bytes acc (chunk # chunks) =
     (if chunk_empty chunk then read_chunks max_response_bytes acc chunks
      else rthen (chunk_bytes chunk) (\<lambda>raw.
        rthen (ensure_response_size (int (length (acc @ raw))) max_response_bytes) (\<lambda>_.
        read_chunks max_response_bytes (acc @ raw) chunks)))"

definition decode_body :: "'w rpc_lib \<Rightarrow> http_response \<Rightarrow> bytes \<Rightarrow> pystr result" where
  "decode_body L response raw =
     (let encoding = (case hr_encoding response of Some e \<Rightarrow> if e \<noteq> [] then e else str ''utf-8'' | None \<Rightarrow> str ''utf-8'')
      in if encoding = str ''utf-8'' then utf8_decode raw else rl_decode L encoding raw)"

definition read_response_text :: "'w rpc_lib \<Rightarrow> http_response \<Rightarrow> int \<Rightarrow> pystr option result" where
  "read_response_text L response max_response_bytes =
     rthen (case content_length response of None \<Rightarrow> Inr () | Some n \<Rightarrow> ensure_response_size n max_response_bytes) (\<lambda>_.
     case hr_chunks response of
       Some chunks \<Rightarrow> rthen (read_chunks max_response_bytes [] chunks) (\<lambda>raw.
         rthen (decode_body L response raw) (\<lambda>s. Inr (Some s)))
     | None \<Rightarrow> (case hr_content response of
         Some content \<Rightarrow> rthen (case content of Inl bs \<Rightarrow> Inr bs | Inr s \<Rightarrow> utf8_encode s) (\<lambda>raw.
           rthen (ensure_response_size (int (length raw)) max_response_bytes) (\<lambda>_.
           rthen (decode_body L response raw) (\<lambda>s. Inr (Some s))))
       | None \<Rightarrow> (case hr_text response of
           Some s \<Rightarrow> rthen (utf8_encode s) (\<lambda>raw.
             rthen (ensure_response_size (int (length raw)) max_response_bytes) (\<lambda>_. Inr (Some s)))
         | None \<Rightarrow> Inr None)))"

definition read_response_json :: "'w rpc_lib \<Rightarrow> http_response \<Rightarrow> int \<Rightarrow> json result" where
  "read_response_json L response max_response_bytes =
     rthen (read_response_text L response max_response_bytes) (\<lambda>t. case t of
       None \<Rightarrow> hr_json response
     | Some s \<Rightarrow> rl_loads L s)"

section \<open>One call\<close>

record 'w client =
  cl_endpoint :: pystr
  cl_session :: 'w
  cl_timeout :: pystr
  cl_max_response_bytes :: int
  cl_api_key :: "pystr option"
  cl_next_id :: nat

definition DEFAULT_MAX_RPC_RESPONSE_BYTES :: int where
  "DEFAULT_MAX_RPC_RESPONSE_BYTES = 16 * 1024 * 1024"

definition new_client :: "pystr \<Rightarrow> 'w \<Rightarrow> pystr \<Rightarrow> int \<Rightarrow> pystr option \<Rightarrow> 'w client result" where
  "new_client endpoint session timeout max_response_bytes api_key =
     (if max_response_bytes \<le> 0 then Inl ValueError
      else Inr \<lparr>cl_endpoint = endpoint, cl_session = session, cl_timeout = timeout,
        cl_max_response_bytes = max_response_bytes,
        cl_api_key = (case api_key of Some k \<Rightarrow> if k \<noteq> [] then Some k else None | None \<Rightarrow> None), cl_next_id = 0\<rparr>)"

text \<open>
  How a call fails: an \<^verbatim>\<open>RPCError\<close> of each kind, with the parts of its message and its attributes that come
  from the server, or an exception of another class.
\<close>

datatype rpc_failure =
    Raised py_error
  | HttpError int "pystr option"
  | InvalidBody
  | NotAnObject
  | MissingId
  | IdMismatch
  | ServerError pystr "int option" json
  | MissingResult

fun failure_class :: "rpc_failure \<Rightarrow> py_error" where
  "failure_class (Raised e) = e"
| "failure_class _ = RPCError"

definition optional_int :: "json \<Rightarrow> int option result" where
  "optional_int v = (if v = JNull then Inr None else case json_int v of
     Inr n \<Rightarrow> Inr (Some n)
   | Inl e \<Rightarrow> if e = TypeError \<or> is_value_error e then Inr None else Inl e)"

definition raised :: "'a result \<Rightarrow> (rpc_failure + 'a)" where
  "raised r = (case r of Inl e \<Rightarrow> Inl (Raised e) | Inr x \<Rightarrow> Inr x)"

definition status_code :: "http_response \<Rightarrow> int" where
  "status_code response = (case hr_status response of None \<Rightarrow> 200 | Some s \<Rightarrow> s)"

text \<open>The failure reported for an answer without an \<^verbatim>\<open>id\<close>, and for one with an \<^verbatim>\<open>error\<close>.\<close>

definition no_id_failure :: "http_response \<Rightarrow> (pystr \<times> json) list \<Rightarrow> rpc_failure" where
  "no_id_failure response body =
     (if status_code response \<ge> 400
      then let error = json_get body (str ''error'');
               detail = (if json_true error then error else json_get body (str ''message''))
           in HttpError (status_code response) (case detail of JStr s \<Rightarrow> Some s | _ \<Rightarrow> None)
      else MissingId)"

definition error_message :: "(pystr \<times> json) list \<Rightarrow> json" where
  "error_message error = (case map_of error (str ''message'') of None \<Rightarrow> JStr (str ''RPC error'') | Some v \<Rightarrow> v)"

definition error_failure :: "'w rpc_lib \<Rightarrow> json \<Rightarrow> rpc_failure" where
  "error_failure L error =
     (case (case error of
         JObject kvs \<Rightarrow>
           rthen (json_str (rl_show L) (error_message kvs)) (\<lambda>message.
           rthen (optional_int (json_get kvs (str ''code''))) (\<lambda>code.
           Inr (ServerError message code (json_get kvs (str ''data'')))))
       | _ \<Rightarrow> rthen (json_str (rl_show L) error) (\<lambda>message. Inr (ServerError message None JNull))) of
       Inl e \<Rightarrow> Raised e
     | Inr failure \<Rightarrow> failure)"

definition call_result :: "'w rpc_lib \<Rightarrow> int \<Rightarrow> pystr \<Rightarrow> http_response \<Rightarrow> rpc_failure + json" where
  "call_result L max_response_bytes request_id response =
     (case read_response_json L response max_response_bytes of
       Inl e \<Rightarrow> Inl (if e = RPCError then Raised RPCError
         else if status_code response \<ge> 400 then HttpError (status_code response) None else InvalidBody)
     | Inr (JObject body) \<Rightarrow>
         let wire_id = json_get body (str ''id''); error = json_get body (str ''error'')
         in if wire_id = JNull then Inl (no_id_failure response body)
            else (case json_str (rl_show L) wire_id of
              Inl e \<Rightarrow> Inl (Raised e)
            | Inr got \<Rightarrow>
                if got \<noteq> request_id then Inl IdMismatch
                else if json_true error then Inl (error_failure L error)
                else (case map_of body (str ''result'') of None \<Rightarrow> Inl MissingResult | Some r \<Rightarrow> Inr r))
     | Inr _ \<Rightarrow> Inl NotAnObject)"

type_synonym ('w, 'a) rpc_op = "'w client \<Rightarrow> (rpc_failure + 'a) \<times> 'w client"

definition call :: "'w rpc_lib \<Rightarrow> pystr \<Rightarrow> json list \<Rightarrow> ('w, json) rpc_op" where
  "call L meth params c =
     (let request_id = py_str_int (int (cl_next_id c));
          c = c\<lparr>cl_next_id := cl_next_id c + 1\<rparr>;
          payload = \<lparr>rq_url = cl_endpoint c, rq_id = request_id, rq_method = meth, rq_params = params,
            rq_timeout = cl_timeout c, rq_api_key = cl_api_key c\<rparr>
      in case rl_post L (cl_session c) payload of
        (Inl e, w) \<Rightarrow> (Inl (Raised e), c\<lparr>cl_session := w\<rparr>)
      | (Inr response, w) \<Rightarrow>
          (call_result L (cl_max_response_bytes c) request_id response,
           c\<lparr>cl_session := if hr_close response then rl_close L w response else w\<rparr>))"

section \<open>The size bound\<close>

lemma read_chunks_bounded:
  "read_chunks mx acc chunks = Inr raw \<Longrightarrow> int (length acc) \<le> mx \<Longrightarrow> int (length raw) \<le> mx"
  by (induction mx acc chunks rule: read_chunks.induct)
    (auto simp: rthen_Inr_iff ensure_response_size_def split: if_splits)

lemma chunk_empty_bytes: "chunk_empty chunk \<Longrightarrow> chunk_bytes chunk = Inr []"
  by (cases chunk) (simp_all add: chunk_empty_def chunk_bytes_def)

lemma read_chunks_read:
  "read_chunks mx acc chunks = Inr raw \<Longrightarrow> \<exists>raws. rmap chunk_bytes chunks = Inr raws \<and> raw = acc @ concat raws"
  by (induction mx acc chunks rule: read_chunks.induct)
    (auto simp: rthen_Inr_iff chunk_empty_bytes split: if_splits)

text \<open>Reading stops at the first chunk that goes over the bound, whatever comes after it.\<close>

lemma read_chunks_overrun:
  "rmap chunk_bytes chunks = Inr raws \<Longrightarrow> int (length acc) \<le> mx \<Longrightarrow> mx < int (length (acc @ concat raws)) \<Longrightarrow>
   read_chunks mx acc (chunks @ rest) = Inl RPCError"
proof (induction chunks arbitrary: acc raws)
  case (Cons chunk chunks)
  from Cons.prems(1) obtain raw raws' where r: "chunk_bytes chunk = Inr raw" "rmap chunk_bytes chunks = Inr raws'"
    "raws = raw # raws'" by (auto simp: rthen_Inr_iff)
  show ?case
  proof (cases "chunk_empty chunk")
    case True
    with r chunk_empty_bytes [OF True] Cons.prems show ?thesis by (auto intro!: Cons.IH)
  next
    case False
    show ?thesis
    proof (cases "int (length (acc @ raw)) \<le> mx")
      case True
      with r Cons.prems have "read_chunks mx (acc @ raw) (chunks @ rest) = Inl RPCError" by (intro Cons.IH) auto
      with False r(1) True show ?thesis by (simp add: ensure_response_size_def)
    qed (use False r(1) in \<open>simp add: ensure_response_size_def\<close>)
  qed
qed simp

lemma read_response_text_bounded:
  assumes "0 \<le> mx" "read_response_text L response mx = Inr (Some s)"
  obtains raw where "int (length raw) \<le> mx" "decode_body L response raw = Inr s \<or> utf8_encode s = Inr raw"
  using assms that
  by (auto simp: read_response_text_def rthen_Inr_iff ensure_response_size_def split: option.splits
      dest: read_chunks_bounded [of mx "[]"])

text \<open>C14: A response is read only if its body has at most the configured number of bytes, whichever attribute it
  comes from, and a streamed body is given up at the first chunk that goes over the bound: nothing after that
  chunk is read, and an announced length over the bound is refused before anything is read. A response object that
  offers no body, only its method \<^verbatim>\<open>json\<close>, is not measured.
\<close>

theorem response_bounded:
  assumes "0 \<le> mx"
  shows "(case read_response_text L response mx of
      Inr (Some s) \<Rightarrow> \<exists>raw. int (length raw) \<le> mx \<and> (decode_body L response raw = Inr s \<or> utf8_encode s = Inr raw)
    | _ \<Rightarrow> True) \<and>
    (rmap chunk_bytes chunks = Inr raws \<and> mx < int (length (concat raws)) \<longrightarrow>
      read_response_text L (response\<lparr>hr_chunks := Some (chunks @ rest)\<rparr>) mx = Inl RPCError) \<and>
    (content_length response = Some n \<and> mx < n \<longrightarrow> read_response_text L response mx = Inl RPCError)"
proof (intro conjI impI; (elim conjE)?)
  show "case read_response_text L response mx of
      Inr (Some s) \<Rightarrow> \<exists>raw. int (length raw) \<le> mx \<and> (decode_body L response raw = Inr s \<or> utf8_encode s = Inr raw)
    | _ \<Rightarrow> True"
    using read_response_text_bounded [OF assms, of L response] by (auto split: sum.split option.split)
next
  assume "rmap chunk_bytes chunks = Inr raws" "mx < int (length (concat raws))"
  then have "read_chunks mx [] (chunks @ rest) = Inl RPCError" using assms by (intro read_chunks_overrun) auto
  then show "read_response_text L (response\<lparr>hr_chunks := Some (chunks @ rest)\<rparr>) mx = Inl RPCError"
    by (auto simp: read_response_text_def content_length_def rthen_def ensure_response_size_def raise_unless_def
        split: option.splits)
qed (simp add: read_response_text_def ensure_response_size_def)

definition example_rpc_lib :: "request list rpc_lib" where
  "example_rpc_lib = \<lparr>rl_post = \<lambda>w rq. (Inl OverflowError, w @ [rq]), rl_close = \<lambda>w _. w,
     rl_decode = \<lambda>_ _. Inl UnicodeDecodeError, rl_loads = \<lambda>s. Inr (JStr s), rl_show = \<lambda>_. [], rl_lower = ascii_lower,
     rl_clock = \<lambda>_. 0\<rparr>"

definition example_response :: http_response where
  "example_response = \<lparr>hr_status = Some 200, hr_headers = None, hr_chunks = Some [CText (str ''ab''), CBytes [99]],
     hr_encoding = None, hr_content = None, hr_text = None, hr_json = Inl ValueError, hr_close = True\<rparr>"

theorem response_bounded_witness:
  "read_response_text example_rpc_lib example_response 3 = Inr (Some (str ''abc'')) \<and>
   read_response_text example_rpc_lib (example_response\<lparr>hr_chunks := Some ([CText (str ''ab''), CBytes [99]] @ [CRaise TypeError])\<rparr>) 2 =
     Inl RPCError"
proof
  have "rmap chunk_bytes [CText (str ''ab''), CBytes [99]] = Inr [[97, 98], [99]]" by code_simp
  then show "read_response_text example_rpc_lib (example_response\<lparr>hr_chunks := Some ([CText (str ''ab''), CBytes [99]] @ [CRaise TypeError])\<rparr>) 2 =
     Inl RPCError"
    using response_bounded [of 2 example_rpc_lib example_response "[CText (str ''ab''), CBytes [99]]" "[[97, 98], [99]]" "[CRaise TypeError]" 0]
    by (simp del: str_Cons)
  show "read_response_text example_rpc_lib example_response 3 = Inr (Some (str ''abc''))" by code_simp
qed

section \<open>One call\<close>

lemma call_result_Inr:
  "call_result L mx request_id response = Inr r \<longleftrightarrow>
     (\<exists>body. read_response_json L response mx = Inr (JObject body) \<and> json_get body (str ''id'') \<noteq> JNull \<and>
       json_str (rl_show L) (json_get body (str ''id'')) = Inr request_id \<and>
       \<not> json_true (json_get body (str ''error'')) \<and> map_of body (str ''result'') = Some r)"
  by (auto simp: call_result_def Let_def simp del: str_Cons split: sum.splits json.splits option.splits if_splits)

lemma py_str_int_inject: "py_str_int (int m) = py_str_int (int n) \<longleftrightarrow> m = n"
proof
  assume "py_str_int (int m) = py_str_int (int n)"
  then have "decimal m = decimal n" by (simp add: py_str_int_def)
  then have "Some (int m) = Some (int n)" by (metis int_digits_decimal)
  then show "m = n" by simp
qed simp

text \<open>C13: A call returns exactly the result member of an answer that names this request, has a result, and no
  error that counts as true; so an answer accepted for one request is refused for every other request of the client.
\<close>

theorem call_result_exact:
  "(call_result L mx request_id response = Inr r \<longleftrightarrow>
     (\<exists>body. read_response_json L response mx = Inr (JObject body) \<and> json_get body (str ''id'') \<noteq> JNull \<and>
       json_str (rl_show L) (json_get body (str ''id'')) = Inr request_id \<and>
       \<not> json_true (json_get body (str ''error'')) \<and> map_of body (str ''result'') = Some r)) \<and>
   (call_result L mx (py_str_int (int m)) response = Inr r \<and> m \<noteq> n \<longrightarrow>
     call_result L mx (py_str_int (int n)) response = Inl IdMismatch)"
proof (intro conjI impI)
  show "call_result L mx request_id response = Inr r \<longleftrightarrow>
     (\<exists>body. read_response_json L response mx = Inr (JObject body) \<and> json_get body (str ''id'') \<noteq> JNull \<and>
       json_str (rl_show L) (json_get body (str ''id'')) = Inr request_id \<and>
       \<not> json_true (json_get body (str ''error'')) \<and> map_of body (str ''result'') = Some r)"
    by (rule call_result_Inr)
  assume a: "call_result L mx (py_str_int (int m)) response = Inr r \<and> m \<noteq> n"
  then obtain body where "read_response_json L response mx = Inr (JObject body)" "json_get body (str ''id'') \<noteq> JNull"
    "json_str (rl_show L) (json_get body (str ''id'')) = Inr (py_str_int (int m))"
    unfolding call_result_Inr by blast
  with a show "call_result L mx (py_str_int (int n)) response = Inl IdMismatch"
    by (simp add: call_result_def py_str_int_inject del: str_Cons)
qed

theorem call_result_exact_witness:
  "call_result example_rpc_lib 100 (py_str_int (int 0)) (example_response\<lparr>hr_chunks := None,
     hr_json := Inr (JObject [(str ''id'', JStr (str ''0'')), (str ''result'', JNull)])\<rparr>) = Inr JNull \<and>
   call_result example_rpc_lib 100 (py_str_int (int 1)) (example_response\<lparr>hr_chunks := None,
     hr_json := Inr (JObject [(str ''id'', JStr (str ''0'')), (str ''result'', JNull)])\<rparr>) = Inl IdMismatch"
proof -
  let ?r = "example_response\<lparr>hr_chunks := None, hr_json := Inr (JObject [(str ''id'', JStr (str ''0'')), (str ''result'', JNull)])\<rparr>"
  have "call_result example_rpc_lib 100 (py_str_int (int 0)) ?r = Inr JNull" by code_simp
  with call_result_exact [of example_rpc_lib 100 "[]" ?r JNull 0 1] show ?thesis by simp
qed

lemma py_str_error: "py_str n = Inl e \<Longrightarrow> e = ValueError"
  unfolding py_str_def by (metis sum.distinct(1) sum.inject(1))

lemma json_str_error: "json_str show v = Inl e \<Longrightarrow> e = ValueError"
  by (auto simp: json_str_def dest: py_str_error split: json.splits if_splits)

lemma optional_int_error: "optional_int v = Inl e \<longleftrightarrow> e = OverflowError \<and> json_int v = Inl OverflowError"
  using json_int_error [of v] by (auto simp: optional_int_def json_int_def split: sum.splits if_splits)

lemma json_int_overflow: "json_int v = Inl OverflowError \<longleftrightarrow> v = JFloat (str ''inf'') \<or> v = JFloat (str ''-inf'')"
  by (auto simp: json_int_def float_int_def py_int_text_def simp del: str_Cons dest: int_signed_error
      split: json.splits if_splits list.splits)

lemma error_failure_class: "failure_class (error_failure L error) \<in> {RPCError, ValueError, OverflowError}"
  by (auto simp: error_failure_def rthen_Inl_iff optional_int_error dest!: json_str_error split: sum.splits json.splits)
    (auto simp: rthen_Inr_iff)

lemma error_failure_overflow:
  "error_failure L error = Raised OverflowError \<longleftrightarrow>
     (\<exists>kvs message. error = JObject kvs \<and> json_str (rl_show L) (error_message kvs) = Inr message \<and>
       json_get kvs (str ''code'') \<in> {JFloat (str ''inf''), JFloat (str ''-inf'')})"
proof (cases error)
  case (JObject kvs)
  show ?thesis
  proof (cases "json_str (rl_show L) (error_message kvs)")
    case (Inl e)
    with json_str_error [OF Inl] JObject show ?thesis by (simp add: error_failure_def)
  next
    case (Inr message)
    show ?thesis
    proof (cases "optional_int (json_get kvs (str ''code''))")
      case (Inl e)
      then have "e = OverflowError" "json_get kvs (str ''code'') \<in> {JFloat (str ''inf''), JFloat (str ''-inf'')}"
        by (simp_all add: optional_int_error json_int_overflow del: str_Cons)
      with JObject Inr Inl show ?thesis by (simp add: error_failure_def del: str_Cons)
    next
      case (Inr code)
      then have "json_int (json_get kvs (str ''code'')) \<noteq> Inl OverflowError"
        using optional_int_error [of "json_get kvs (str ''code'')" OverflowError] by auto
      with JObject Inr \<open>json_str (rl_show L) (error_message kvs) = Inr message\<close> show ?thesis
        by (auto simp: error_failure_def json_int_overflow simp del: str_Cons)
    qed
  qed
qed (auto simp: error_failure_def rthen_def dest: json_str_error split: sum.splits)

text \<open>C20: A call whose request was posted fails with \<^verbatim>\<open>RPCError\<close>, \<^verbatim>\<open>ValueError\<close> or \<^verbatim>\<open>OverflowError\<close>. The
  built-in \<^verbatim>\<open>OverflowError\<close> escapes exactly when the server reports an error whose code is an infinite number,
  which JSON text can hold; the message of the server is lost then.
\<close>

theorem call_failure_classes:
  "(case call_result L mx request_id response of
      Inl failure \<Rightarrow> failure_class failure \<in> {RPCError, ValueError, OverflowError}
    | Inr _ \<Rightarrow> True) \<and>
   (call_result L mx request_id response = Inl (Raised OverflowError) \<longleftrightarrow>
     (\<exists>body error message. read_response_json L response mx = Inr (JObject body) \<and> json_get body (str ''id'') \<noteq> JNull \<and>
       json_str (rl_show L) (json_get body (str ''id'')) = Inr request_id \<and>
       json_get body (str ''error'') = JObject error \<and> json_str (rl_show L) (error_message error) = Inr message \<and>
       json_get error (str ''code'') \<in> {JFloat (str ''inf''), JFloat (str ''-inf'')}))"
proof
  show "case call_result L mx request_id response of
      Inl failure \<Rightarrow> failure_class failure \<in> {RPCError, ValueError, OverflowError}
    | Inr _ \<Rightarrow> True"
    using error_failure_class [of L]
    by (auto simp: call_result_def no_id_failure_def Let_def simp del: str_Cons insert_iff
        dest!: json_str_error split: sum.splits json.splits option.splits)
qed (auto simp: call_result_def no_id_failure_def Let_def error_failure_overflow json_true_def json_get_def [of "[]"] simp del: str_Cons
    dest: json_str_error split: sum.splits json.splits option.splits if_splits)

section \<open>A client over its life\<close>

text \<open>
  The session with a record of what passes: every request posted, and every response closed. \<open>calls L c c'\<close>: any
  number of calls leads from \<open>c\<close> to \<open>c'\<close>, whatever the server does.
\<close>

datatype traffic = Sent request bool | Closed

definition logging :: "'w rpc_lib \<Rightarrow> (traffic list \<times> 'w) rpc_lib" where
  "logging L = \<lparr>
     rl_post = \<lambda>(log, w) rq. (case rl_post L w rq of (r, w') \<Rightarrow>
       (r, log @ [Sent rq (case r of Inl _ \<Rightarrow> False | Inr response \<Rightarrow> hr_close response)], w')),
     rl_close = \<lambda>(log, w) response. (log @ [Closed], rl_close L w response),
     rl_decode = rl_decode L, rl_loads = rl_loads L, rl_show = rl_show L, rl_lower = rl_lower L,
     rl_clock = \<lambda>(log, w). rl_clock L w\<rparr>"

inductive calls :: "'w rpc_lib \<Rightarrow> 'w client \<Rightarrow> 'w client \<Rightarrow> bool" for L where
  calls_none: "calls L c c"
| calls_more: "calls L c c' \<Longrightarrow> call L meth params c' = (r, c'') \<Longrightarrow> calls L c c''"

definition sent_ids :: "traffic list \<Rightarrow> pystr list" where
  "sent_ids log = concat (map (\<lambda>t. case t of Sent rq _ \<Rightarrow> [rq_id rq] | Closed \<Rightarrow> []) log)"

text \<open>Every response that can be closed is closed before the next request is sent, and nothing else is.\<close>

fun closed_in_turn :: "traffic list \<Rightarrow> bool" where
  "closed_in_turn [] \<longleftrightarrow> True"
| "closed_in_turn (Sent _ True # Closed # log) \<longleftrightarrow> closed_in_turn log"
| "closed_in_turn (Sent _ False # log) \<longleftrightarrow> closed_in_turn log"
| "closed_in_turn _ \<longleftrightarrow> False"

lemma closed_in_turn_append: "closed_in_turn log \<Longrightarrow> closed_in_turn (log @ log') = closed_in_turn log'"
  by (induction log rule: closed_in_turn.induct) auto

lemma logged_call:
  assumes "call (logging L) meth params c = (r, c')" "fst (cl_session c) = log"
  obtains rq where "rq_id rq = py_str_int (int (cl_next_id c))" "rq_method rq = meth" "rq_params rq = params"
    "cl_next_id c' = Suc (cl_next_id c)"
    "fst (cl_session c') = log @ [Sent rq True, Closed] \<or> fst (cl_session c') = log @ [Sent rq False]"
proof -
  let ?rq = "\<lparr>rq_url = cl_endpoint c, rq_id = py_str_int (int (cl_next_id c)), rq_method = meth, rq_params = params,
    rq_timeout = cl_timeout c, rq_api_key = cl_api_key c\<rparr>"
  obtain w where c: "cl_session c = (log, w)" using assms(2) by (cases "cl_session c") auto
  obtain p w' where p: "rl_post L w ?rq = (p, w')" by (cases "rl_post L w ?rq")
  have "c' = snd (call (logging L) meth params c)" using assms(1) by simp
  also have "\<dots> = (case p of
      Inl e \<Rightarrow> c\<lparr>cl_next_id := cl_next_id c + 1, cl_session := (log @ [Sent ?rq False], w')\<rparr>
    | Inr response \<Rightarrow> c\<lparr>cl_next_id := cl_next_id c + 1, cl_session :=
        (if hr_close response then (log @ [Sent ?rq True, Closed], rl_close L w' response) else (log @ [Sent ?rq False], w'))\<rparr>)"
    by (simp add: call_def logging_def c p Let_def split: sum.split)
  finally have "cl_next_id c' = Suc (cl_next_id c)"
    "fst (cl_session c') = log @ [Sent ?rq True, Closed] \<or> fst (cl_session c') = log @ [Sent ?rq False]"
    by (simp_all split: sum.split)
  then show ?thesis by (intro that [of ?rq]) simp_all
qed

lemma calls_log:
  assumes "calls (logging L) c c'" "fst (cl_session c) = []" "cl_next_id c = 0"
  shows "sent_ids (fst (cl_session c')) = map (\<lambda>n. py_str_int (int n)) [0..<cl_next_id c'] \<and> closed_in_turn (fst (cl_session c'))"
  using assms
proof (induction rule: calls.induct)
  case (calls_more c c' meth params r c'')
  from logged_call [OF calls_more.hyps(2) refl] obtain rq where rq: "rq_id rq = py_str_int (int (cl_next_id c'))"
    "rq_method rq = meth" "rq_params rq = params" "cl_next_id c'' = Suc (cl_next_id c')"
    "fst (cl_session c'') = fst (cl_session c') @ [Sent rq True, Closed] \<or> fst (cl_session c'') = fst (cl_session c') @ [Sent rq False]" .
  with calls_more.IH [OF calls_more.prems] show ?case by (auto simp: sent_ids_def closed_in_turn_append)
qed (simp add: sent_ids_def)

text \<open>C11: Over the whole life of a client, whatever calls are made and whatever the server answers or fails to, the
  requests posted carry the numbers 0, 1, 2, ... as their ids, so no two of them share an id; and every response
  that can be closed is closed, once, before the next request goes out.
\<close>

theorem client_traffic:
  assumes "new_client endpoint ([], w) timeout mx api_key = Inr c" "calls (logging L) c c'"
  shows "sent_ids (fst (cl_session c')) = map (\<lambda>n. py_str_int (int n)) [0..<cl_next_id c'] \<and>
    distinct (sent_ids (fst (cl_session c'))) \<and> closed_in_turn (fst (cl_session c'))"
proof -
  have "fst (cl_session c) = []" "cl_next_id c = 0" using assms(1) by (auto simp: new_client_def split: if_splits)
  from calls_log [OF assms(2) this] show ?thesis by (simp add: distinct_map inj_on_def py_str_int_inject)
qed

theorem client_traffic_witness:
  "\<exists>c :: (traffic list \<times> request list) client. new_client (str ''u'') ([], []) (str ''30.0'') 10 None = Inr c \<and>
     distinct (sent_ids (fst (cl_session (snd (call (logging example_rpc_lib) (str ''m'') [] (snd (call (logging example_rpc_lib) (str ''m'') [] c)))))))"
proof -
  let ?L = "logging example_rpc_lib" and ?m = "str ''m''"
  obtain c :: "(traffic list \<times> request list) client" where c: "new_client (str ''u'') ([], []) (str ''30.0'') 10 None = Inr c"
    by (simp add: new_client_def)
  have "calls ?L c (snd (call ?L ?m [] (snd (call ?L ?m [] c))))"
    by (rule calls_more [OF calls_more [OF calls_none surjective_pairing] surjective_pairing])
  from client_traffic [OF c this] c show ?thesis by blast
qed

end
