(* ===== verification/CarbonWire.thy ===== *)
theory CarbonWire
  imports ByteIO Encoding
begin

text \<open>
  The Carbon wire primitives of \<^verbatim>\<open>carbon.py\<close>: \<^verbatim>\<open>FixedBytes\<close>, \<^verbatim>\<open>SmallString\<close>,
  \<^verbatim>\<open>CarbonWriter\<close>, \<^verbatim>\<open>CarbonReader\<close>, the compact 256-bit integer and \<^verbatim>\<open>IntX\<close>, with the
  codec contract of each, and the counted array of any element codec.
\<close>

unbundle bit_operations_syntax

section \<open>Fixed-width bytes\<close>

text \<open>The constructors of \<^verbatim>\<open>Bytes16\<close>, \<^verbatim>\<open>Bytes32\<close> and \<^verbatim>\<open>Bytes64\<close> from bytes and from hex text.\<close>

definition FixedBytes :: "nat \<Rightarrow> bytes \<Rightarrow> bytes result" where
  "FixedBytes n raw =
     (let raw' = (if length raw = 0 \<and> n \<noteq> 0 then replicate n 0 else raw)
      in if length raw' \<noteq> n then Inl SerializationError else Inr raw')"

definition FixedBytes_text :: "nat \<Rightarrow> pystr \<Rightarrow> bytes result" where
  "FixedBytes_text n value = rthen (decode_hex value) (FixedBytes n)"

definition EMPTY_BYTES32 :: bytes where
  "EMPTY_BYTES32 = replicate 32 0"

lemma FixedBytes_length: "length bs = n \<Longrightarrow> 0 < n \<Longrightarrow> FixedBytes n bs = Inr bs"
  by (simp add: FixedBytes_def)

lemma FixedBytes_Inr: "FixedBytes n bs = Inr cs \<Longrightarrow> length cs = n"
  by (auto simp: FixedBytes_def Let_def split: if_splits)

section \<open>Integers\<close>

definition write1 :: "int \<Rightarrow> wop" where
  "write1 value = w_result (if value < 0 \<or> value > 0xFF then Inl SerializationError else Inr [word_of_int value])"

definition write2 :: "int \<Rightarrow> wop" where
  "write2 value = w_result (pack_signed 2 value)"

definition write4 :: "int \<Rightarrow> wop" where
  "write4 value = w_result (pack_signed 4 value)"

definition write4u :: "int \<Rightarrow> wop" where
  "write4u value = w_result (pack_unsigned 4 value)"

definition write8 :: "int \<Rightarrow> wop" where
  "write8 value = w_result (pack_signed 8 value)"

definition write8u :: "int \<Rightarrow> wop" where
  "write8u value = w_result (pack_unsigned 8 value)"

definition write16 :: "bytes \<Rightarrow> wop" where
  "write16 value = w_result (FixedBytes 16 value)"

definition write32 :: "bytes \<Rightarrow> wop" where
  "write32 value = w_result (FixedBytes 32 value)"

definition write64 :: "bytes \<Rightarrow> wop" where
  "write64 value = w_result (FixedBytes 64 value)"

definition read1 :: "int rop" where
  "read1 = rbind (read 1) (\<lambda>bs. rret (uint (bs ! 0)))"

definition read2 :: "int rop" where
  "read2 = rbind (read 2) (\<lambda>bs. rret (le_int_signed bs))"

definition read4 :: "int rop" where
  "read4 = rbind (read 4) (\<lambda>bs. rret (le_int_signed bs))"

definition read4u :: "int rop" where
  "read4u = rbind (read 4) (\<lambda>bs. rret (le_int bs))"

definition read8 :: "int rop" where
  "read8 = rbind (read 8) (\<lambda>bs. rret (le_int_signed bs))"

definition read8u :: "int rop" where
  "read8u = rbind (read 8) (\<lambda>bs. rret (le_int bs))"

definition read16 :: "bytes rop" where
  "read16 = rbind (read 16) (\<lambda>bs. rlift (FixedBytes 16 bs))"

definition read32 :: "bytes rop" where
  "read32 = rbind (read 32) (\<lambda>bs. rlift (FixedBytes 32 bs))"

definition read64 :: "bytes rop" where
  "read64 = rbind (read 64) (\<lambda>bs. rlift (FixedBytes 64 bs))"

definition read_length :: "int rop" where
  "read_length = rbind read4 (\<lambda>n r.
     if n < 0 then Inl SerializationError
     else if n > remaining r then Inl SerializationError
     else Inr (n, r))"

section \<open>Compact 256-bit integers\<close>

definition big_int_word :: "int \<Rightarrow> bytes result" where
  "big_int_word value =
     (if bit_length value > 256 then Inl SerializationError
      else to_bytes_le (value mod 2 ^ 256) 32)"

definition int_from_word :: "bytes \<Rightarrow> int result" where
  "int_from_word word =
     (if length word \<noteq> 32 then Inl SerializationError
      else let value = be_int (rev word)
           in Inr (if word ! 31 AND 0x80 \<noteq> 0 then value - 2 ^ 256 else value))"

text \<open>\<^verbatim>\<open>while length > 0 and word[length - 1] == fill: length -= 1\<close>\<close>

fun strip_fill :: "byte \<Rightarrow> bytes \<Rightarrow> nat \<Rightarrow> nat" where
  "strip_fill fill word 0 = 0"
| "strip_fill fill word (Suc n) = (if word ! n = fill then strip_fill fill word n else Suc n)"

definition write_big_int :: "int \<Rightarrow> wop" where
  "write_big_int value =
     (if value = 0 then write1 0
      else w_bind (big_int_word value) (\<lambda>word.
        let fill = (if word ! 31 AND 0x80 \<noteq> 0 then 0xFF else 0x00);
            n = strip_fill fill word (length word);
            header = int n AND 0x3F;
            header = (if fill = 0xFF then header OR 0x80 else header)
        in wseq [write1 header, w_write (take n word)]))"

definition read_big_int_with_header :: "int option \<Rightarrow> int rop" where
  "read_big_int_with_header h =
     rbind (case h of None \<Rightarrow> read1 | Some header \<Rightarrow> rret header) (\<lambda>header.
       if header = 0 then rret 0
       else let n = header AND 0x3F in
         if header AND 0x40 \<noteq> 0 \<or> n > 32 then rfail SerializationError
         else let fill = (if header AND 0x80 \<noteq> 0 then 0xFF else 0x00) in
           rbind (if n \<noteq> 0 then read n else rret []) (\<lambda>raw.
             let word = raw @ replicate (32 - nat n) fill
             in if uint (word ! 31) AND 0x80 \<noteq> header AND 0x80 then rfail SerializationError
                else rlift (int_from_word word)))"

definition read_big_int :: "int rop" where
  "read_big_int = read_big_int_with_header None"

definition int256 :: "int \<Rightarrow> bool" where
  "int256 v \<longleftrightarrow> - (2 ^ 255) \<le> v \<and> v < 2 ^ 255"

text \<open>The 256-bit two's complement value of an integer: what the 32-byte word denotes.\<close>

definition wrap256 :: "int \<Rightarrow> int" where
  "wrap256 v = le_int_signed (le_bytes 32 v)"

lemma wrap256_id: "int256 v \<Longrightarrow> wrap256 v = v"
  unfolding wrap256_def int256_def by (rule le_int_signed_le_bytes) simp_all

lemma and_exp_int: "x AND 2 ^ n = (if bit x n then 2 ^ n else (0::int))"
  by (rule bit_eqI) (auto simp: bit_and_iff bit_exp_iff)

lemma and128_int: "0 \<le> x \<Longrightarrow> x < 256 \<Longrightarrow> x AND 128 = (if 128 \<le> x then 128 else (0::int))"
proof -
  assume x: "0 \<le> x" "x < 256"
  have "bit x 7 \<longleftrightarrow> odd (x div 128)" by (simp add: bit_iff_odd)
  also have "x div 128 = (if 128 \<le> x then 1 else 0)" using x by auto
  finally show ?thesis using and_exp_int [of x 7] by simp
qed

lemma and128_byte: "b AND 0x80 \<noteq> 0 \<longleftrightarrow> 128 \<le> uint (b :: byte)"
proof -
  have "b AND 0x80 \<noteq> 0 \<longleftrightarrow> uint (b AND 0x80) \<noteq> 0" by (simp add: uint_0_iff)
  also have "uint (b AND 0x80) = uint b AND 128" by (simp add: uint_and)
  also have "\<dots> \<noteq> 0 \<longleftrightarrow> 128 \<le> uint b"
    using and128_int [of "uint b"] uint_byte_bounds [of b] by simp
  finally show ?thesis .
qed

lemma header_bits:
  assumes "n \<le> 32"
  shows "int n AND 63 = int n" "int n OR 128 = int n + 128" "(int n + 128) AND 63 = int n"
    "int n AND 64 = 0" "(int n + 128) AND 64 = 0" "int n AND 128 = 0" "(int n + 128) AND 128 = 128"
proof -
  have "list_all (\<lambda>n. int n AND 63 = int n \<and> int n OR 128 = int n + 128 \<and> (int n + 128) AND 63 = int n \<and>
    int n AND 64 = 0 \<and> (int n + 128) AND 64 = 0 \<and> int n AND 128 = 0 \<and> (int n + 128) AND 128 = 128) [0..<33]"
    by code_simp
  then have "int n AND 63 = int n \<and> int n OR 128 = int n + 128 \<and> (int n + 128) AND 63 = int n \<and>
    int n AND 64 = 0 \<and> (int n + 128) AND 64 = 0 \<and> int n AND 128 = 0 \<and> (int n + 128) AND 128 = 128"
    unfolding list_all_iff by (rule bspec) (use assms in simp)
  then show "int n AND 63 = int n" "int n OR 128 = int n + 128" "(int n + 128) AND 63 = int n"
    "int n AND 64 = 0" "(int n + 128) AND 64 = 0" "int n AND 128 = 0" "(int n + 128) AND 128 = 128"
    by simp_all
qed

lemma strip_fill_le: "strip_fill fill word n \<le> n"
  by (induction n) auto

lemma strip_fill_eq:
  "n \<le> length word \<Longrightarrow>
   take (strip_fill fill word n) word @ replicate (n - strip_fill fill word n) fill = take n word"
proof (induction n)
  case (Suc n)
  have le: "strip_fill fill word n \<le> n" by (rule strip_fill_le)
  have "take (Suc n) word = take n word @ [word ! n]"
    using Suc.prems by (simp add: take_Suc_conv_app_nth)
  moreover have "replicate (Suc n - strip_fill fill word n) fill =
    replicate (n - strip_fill fill word n) fill @ [fill]"
    using le by (simp add: Suc_diff_le replicate_append_same)
  ultimately have "take (strip_fill fill word n) word @ replicate (Suc n - strip_fill fill word n) fill =
    take n word @ [fill]"
    using Suc.IH Suc.prems by (metis Suc_leD append_assoc)
  then show ?case using \<open>take (Suc n) word = _\<close> by simp
qed simp

lemma big_int_word_if:
  "big_int_word v = (if \<bar>v\<bar> < 2 ^ 256 then Inr (le_bytes 32 v) else Inl SerializationError)"
proof -
  have "to_bytes_le (v mod 2 ^ 256) 32 = Inr (le_bytes 32 (v mod 2 ^ 256))"
    by (simp add: to_bytes_le_def)
  also have "le_bytes 32 (v mod 2 ^ 256) = le_bytes 32 v"
    using le_bytes_mod [of 32 v] by (simp add: pow256)
  finally show ?thesis
    using bit_length_le_iff [of v 256] unfolding big_int_word_def by (simp add: not_le [symmetric])
qed

lemma top_byte:
  assumes "length word = 32"
  shows "128 \<le> uint (word ! 31) \<longleftrightarrow> 2 ^ 255 \<le> le_int word"
proof -
  have w: "word = take 31 word @ [word ! 31]"
    using assms take_Suc_conv_app_nth [of 31 word] by simp
  have "le_int word = le_int (take 31 word) + 256 ^ 31 * uint (word ! 31)"
    using assms by (subst w) (simp add: le_int_append)
  moreover have "0 \<le> le_int (take 31 word)" "le_int (take 31 word) < 256 ^ 31"
    using le_int_less [of "take 31 word"] assms by simp_all
  ultimately show ?thesis by (simp; linarith)
qed

lemma int_from_word_eq: "length word = 32 \<Longrightarrow> int_from_word word = Inr (le_int_signed word)"
  using top_byte [of word]
  by (simp add: int_from_word_def be_int_def le_int_signed_def Let_def and128_byte pow256)

lemma rt_write1: "rt (write1 v) read1 v"
proof -
  have e: "(if v < 0 \<or> v > 0xFF then Inl SerializationError else Inr [word_of_int v]) =
    (if 0 \<le> v \<and> v \<le> 0xFF then Inr (le_bytes 1 v) else Inl SerializationError)"
    by simp
  show ?thesis unfolding write1_def read1_def
    by (rule rt_fixed [where k = 1, OF e]) (simp_all add: uint_word_of_int_byte)
qed

text \<open>The word, fill byte, kept length and header \<open>write_big_int\<close> computes.\<close>

definition big_fill :: "int \<Rightarrow> byte" where
  "big_fill v = (if le_bytes 32 v ! 31 AND 0x80 \<noteq> 0 then 0xFF else 0x00)"

definition big_len :: "int \<Rightarrow> nat" where
  "big_len v = strip_fill (big_fill v) (le_bytes 32 v) 32"

definition big_header :: "int \<Rightarrow> int" where
  "big_header v = (if big_fill v = 0xFF then int (big_len v) + 128 else int (big_len v))"

lemma big_len_le: "big_len v \<le> 32"
  by (simp add: big_len_def strip_fill_le)

lemma big_word: "take (big_len v) (le_bytes 32 v) @ replicate (32 - big_len v) (big_fill v) = le_bytes 32 v"
  using strip_fill_eq [of 32 "le_bytes 32 v" "big_fill v"] by (simp add: big_len_def)

lemma write_big_int_eq:
  "v \<noteq> 0 \<Longrightarrow> write_big_int v =
     (if \<bar>v\<bar> < 2 ^ 256 then wseq [write1 (big_header v), w_write (take (big_len v) (le_bytes 32 v))]
      else w_fail SerializationError)"
proof -
  assume v: "v \<noteq> 0"
  note hb = header_bits [OF big_len_le [of v]]
  have len: "strip_fill (big_fill v) (le_bytes 32 v) (length (le_bytes 32 v)) = big_len v"
    by (simp add: big_len_def)
  have head: "(if big_fill v = 0xFF then (int (big_len v) AND 0x3F) OR 0x80 else int (big_len v) AND 0x3F) = big_header v"
    by (simp only: hb big_header_def)
  show ?thesis
  proof (cases "\<bar>v\<bar> < 2 ^ 256")
    case True
    then have w: "big_int_word v = Inr (le_bytes 32 v)" by (simp only: big_int_word_if if_True)
    show ?thesis
      unfolding write_big_int_def w w_bind_simps Let_def big_fill_def [symmetric] len head
      by (simp only: v True if_True if_False)
  next
    case False
    then have w: "big_int_word v = Inl SerializationError" by (simp only: big_int_word_if if_False)
    show ?thesis
      unfolding write_big_int_def w w_bind_simps by (simp only: v False if_False)
  qed
qed

lemma big_header_nonzero: "v \<noteq> 0 \<Longrightarrow> \<bar>v\<bar> < 2 ^ 256 \<Longrightarrow> big_header v \<noteq> 0"
proof
  assume v: "v \<noteq> 0" "\<bar>v\<bar> < 2 ^ 256" and "big_header v = 0"
  then have "big_len v = 0" "big_fill v = 0"
    by (auto simp: big_header_def big_fill_def split: if_splits)
  with big_word [of v] have "le_bytes 32 v = replicate 32 0" by simp
  then have "le_int (le_bytes 32 v) = 0" by (simp only: le_int_replicate_0)
  then have "v mod 2 ^ 256 = 0" by (simp add: le_int_le_bytes)
  then have "2 ^ 256 dvd v" by (simp only: dvd_eq_mod_eq_0)
  with v(1) have "2 ^ 256 \<le> \<bar>v\<bar>" using dvd_imp_le_int [of v "2 ^ 256"] by simp
  with v(2) show False by simp
qed

lemma parses_big_int_body:
  assumes "v \<noteq> 0" "\<bar>v\<bar> < 2 ^ 256"
  shows "parses (read_big_int_with_header (Some (big_header v))) (take (big_len v) (le_bytes 32 v)) (wrap256 v)"
proof -
  let ?n = "big_len v" and ?w = "le_bytes 32 v"
  note n = big_len_le [of v] and hb = header_bits [OF big_len_le [of v]]
  have h: "big_header v AND 0x3F = int ?n" "big_header v AND 0x40 = 0"
    "big_header v AND 0x80 = (if big_fill v = 0xFF then 0x80 else 0)"
    by (simp_all add: big_header_def hb)
  have fill: "(if big_header v AND 0x80 \<noteq> 0 then 0xFF else 0x00) = big_fill v"
    by (simp add: h big_fill_def)
  have top: "uint (?w ! 31) AND 0x80 = big_header v AND 0x80"
    using and128_int [of "uint (?w ! 31)"] uint_byte_bounds [of "?w ! 31"]
    by (simp add: h big_fill_def and128_byte)
  have val: "int_from_word ?w = Inr (wrap256 v)" by (simp add: int_from_word_eq wrap256_def)
  have raw: "parses (if int ?n \<noteq> 0 then read (int ?n) else rret []) (take ?n ?w) (take ?n ?w)"
    using n by (auto intro: parses_read parses_ret)
  have "read_big_int_with_header (Some (big_header v)) =
    rbind (if int ?n \<noteq> 0 then read (int ?n) else rret []) (\<lambda>raw.
      let word = raw @ replicate (32 - ?n) (big_fill v)
      in if uint (word ! 31) AND 0x80 \<noteq> big_header v AND 0x80 then rfail SerializationError
         else rlift (int_from_word word))"
    using n big_header_nonzero [OF assms] fill
    by (simp add: read_big_int_with_header_def h(1,2) Let_def)
  then show ?thesis
    using parses_bind [OF raw, of _ "[]" "wrap256 v"]
    by (simp add: Let_def big_word top val rlift_def rret_def parses_def)
qed

lemma rt_big_int_wrap: "rt (write_big_int v) read_big_int (wrap256 v)"
proof (cases "v = 0")
  case True
  have "rt (write1 0) read_big_int 0"
    unfolding read_big_int_def read_big_int_with_header_def
    by (simp, rule rt_bind_ret [OF rt_write1]) simp
  then show ?thesis using True by (simp add: write_big_int_def wrap256_id int256_def)
next
  case v: False
  show ?thesis
  proof (cases "\<bar>v\<bar> < 2 ^ 256")
    case False
    then show ?thesis by (simp add: write_big_int_eq v rt_fail)
  next
    case True
    have r: "read_big_int = rbind read1 (\<lambda>h. read_big_int_with_header (Some h))"
      by (simp add: read_big_int_def read_big_int_with_header_def)
    have "rt (wseq [w_write (take (big_len v) (le_bytes 32 v))])
      (read_big_int_with_header (Some (big_header v))) (wrap256 v)"
      by (rule rt_last, rule rtI [OF emits_write]) (use parses_big_int_body [OF v True] in simp)
    then show ?thesis
      unfolding write_big_int_eq [OF v] r using True by (simp add: rt_cons [OF rt_write1])
  qed
qed

lemma write_big_int_written:
  "serialize (write_big_int v) = Inl e \<longleftrightarrow> \<not> \<bar>v\<bar> < 2 ^ 256 \<and> e = SerializationError"
proof (cases "v = 0")
  case True
  then show ?thesis by (simp add: write_big_int_def write1_def)
next
  case False
  have "0 \<le> big_header v" "big_header v \<le> 255" using big_len_le [of v] by (simp_all add: big_header_def)
  then show ?thesis
    using rt_write1 [THEN rt_appends, of "big_header v"]
    by (auto simp: write_big_int_eq [OF False] serialize_wseq wire_appends) (simp add: write1_def)
qed

lemma rt_big_int: "int256 v \<Longrightarrow> rt (write_big_int v) read_big_int v"
  using rt_big_int_wrap [of v] by (simp only: wrap256_id)

lemma rt_write2: "rt (write2 v) read2 v"
  unfolding write2_def read2_def by (rule rt_signed) simp_all

lemma rt_write4: "rt (write4 v) read4 v"
  unfolding write4_def read4_def by (rule rt_signed) simp_all

lemma rt_write4u: "rt (write4u v) read4u v"
  unfolding write4u_def read4u_def by (rule rt_unsigned) simp

lemma rt_write8: "rt (write8 v) read8 v"
  unfolding write8_def read8_def by (rule rt_signed) simp_all

lemma rt_write8u: "rt (write8u v) read8u v"
  unfolding write8u_def read8u_def by (rule rt_unsigned) simp

lemma rt_FixedBytes:
  assumes "length bs = n" "0 < n" "m = int n"
  shows "rt (w_result (FixedBytes n bs)) (rbind (read m) (\<lambda>bs. rlift (FixedBytes n bs))) bs"
proof -
  have e: "FixedBytes n bs = Inr bs" using assms by (simp add: FixedBytes_length)
  have "parses (rbind (read m) (\<lambda>bs. rlift (FixedBytes n bs))) bs bs"
    by (rule parses_lift [where m = "FixedBytes n", OF parses_read e]) (use assms in simp)
  then show ?thesis unfolding e by (intro rt_w_result) simp
qed

lemma rt_write16: "length bs = 16 \<Longrightarrow> rt (write16 bs) read16 bs"
  unfolding write16_def read16_def by (rule rt_FixedBytes) simp_all

lemma rt_write32: "length bs = 32 \<Longrightarrow> rt (write32 bs) read32 bs"
  unfolding write32_def read32_def by (rule rt_FixedBytes) simp_all

lemma rt_write64: "length bs = 64 \<Longrightarrow> rt (write64 bs) read64 bs"
  unfolding write64_def read64_def by (rule rt_FixedBytes) simp_all

lemmas rt_ints [wire_rt] = rt_write1 rt_write2 rt_write4 rt_write4u rt_write8 rt_write8u
  rt_write16 rt_write32 rt_write64 rt_big_int

lemmas appends_ints [wire_appends, simp] = rt_write1 [THEN rt_appends] rt_write2 [THEN rt_appends]
  rt_write4 [THEN rt_appends] rt_write4u [THEN rt_appends] rt_write8 [THEN rt_appends]
  rt_write8u [THEN rt_appends] rt_big_int_wrap [THEN rt_appends]

lemma appends_fixed [wire_appends, simp]: "appends (write16 bs)" "appends (write32 bs)" "appends (write64 bs)"
  by (simp_all add: write16_def write32_def write64_def wire_appends)

lemma safe_ints [wire_safe]:
  "safe read1" "safe read2" "safe read4" "safe read4u" "safe read8" "safe read8u"
  "safe read16" "safe read32" "safe read64"
  unfolding read1_def read2_def read4_def read4u_def read8_def read8u_def read16_def read32_def read64_def
  by (auto intro!: wire_safe)

lemma safe_read_length [wire_safe]: "safe read_length"
  unfolding read_length_def
  by (rule safe_bind [OF safe_ints(3)]) (auto simp: safe_def remaining_def more_def split: if_splits)

lemma safe_big_int_body [wire_safe]: "safe (read_big_int_with_header h)"
  unfolding read_big_int_with_header_def
  by (auto intro!: wire_safe simp: Let_def split: option.splits)

lemma safe_big_int [wire_safe]: "safe read_big_int"
  by (simp add: read_big_int_def wire_safe)

lemma raises_ints [wire_raises]:
  assumes "SerializationError \<in> E"
  shows "raises read1 E" "raises read2 E" "raises read4 E" "raises read4u E" "raises read8 E"
    "raises read8u E" "raises read16 E" "raises read32 E" "raises read64 E" "raises read_length E"
    "raises (read_big_int_with_header h) E" "raises read_big_int E"
proof -
  have F: "FixedBytes n bs = Inl e \<Longrightarrow> e \<in> E" for n bs e
    using assms by (auto simp: FixedBytes_def Let_def split: if_splits)
  have I: "int_from_word w = Inl e \<Longrightarrow> e \<in> E" for w e
    using assms by (auto simp: int_from_word_def Let_def split: if_splits)
  show r4: "raises read1 E" "raises read2 E" "raises read4 E" "raises read4u E" "raises read8 E"
    "raises read8u E" "raises read16 E" "raises read32 E" "raises read64 E"
    unfolding read1_def read2_def read4_def read4u_def read8_def read8u_def read16_def read32_def read64_def
    using assms F by (auto intro!: wire_raises)
  show "raises read_length E"
    unfolding read_length_def
    by (rule raises_bind [OF r4(3)]) (use assms in \<open>auto simp: raises_def split: if_splits\<close>)
  have "raises (read_big_int_with_header h) E" for h
    unfolding read_big_int_with_header_def
    using assms I r4 by (cases h) (auto intro!: wire_raises simp: Let_def)
  then show "raises (read_big_int_with_header h) E" "raises read_big_int E"
    by (simp_all add: read_big_int_def)
qed

lemma w_bind_nonempty: "(\<And>x. m = Inr x \<Longrightarrow> serialize (f x) \<noteq> Inr []) \<Longrightarrow> serialize (w_bind m f) \<noteq> Inr []"
  by (cases m) auto

lemma pack_nonempty: "0 < k \<Longrightarrow> pack_unsigned k v \<noteq> Inr []" "0 < k \<Longrightarrow> pack_signed k v \<noteq> Inr []"
  by (simp_all add: pack_unsigned_if pack_signed_if)

lemma int_nonempty [simp]:
  "serialize (write1 v) \<noteq> Inr []" "serialize (write2 v) \<noteq> Inr []" "serialize (write4 v) \<noteq> Inr []"
  "serialize (write4u v) \<noteq> Inr []" "serialize (write8 v) \<noteq> Inr []" "serialize (write8u v) \<noteq> Inr []"
  by (simp_all add: write1_def write2_def write4_def write4u_def write8_def write8u_def pack_nonempty)

section \<open>Counted arrays\<close>

text \<open>\<^verbatim>\<open>_write_carbon_array\<close> and \<^verbatim>\<open>_read_carbon_array\<close>, also the loops of the writer's own arrays.\<close>

definition write_carbon_array :: "('a \<Rightarrow> wop) \<Rightarrow> 'a list \<Rightarrow> wop" where
  "write_carbon_array wr values = wseq (write4 (int (length values)) # map wr values)"

definition read_carbon_array :: "'a rop \<Rightarrow> 'a list rop" where
  "read_carbon_array rd = rbind read_length (\<lambda>n. read_n (nat n) rd)"

lemma write_carbon_array_cong [fundef_cong]:
  "xs = ys \<Longrightarrow> (\<And>x. x \<in> set ys \<Longrightarrow> f x = g x) \<Longrightarrow> write_carbon_array f xs = write_carbon_array g ys"
  unfolding write_carbon_array_def by (metis map_cong)

lemma elements_length:
  "(\<And>x. x \<in> set xs \<Longrightarrow> appends (wr x) \<and> serialize (wr x) \<noteq> Inr []) \<Longrightarrow>
   serialize (wseq (map wr xs)) = Inr bs \<Longrightarrow> length xs \<le> length bs"
proof (induction xs arbitrary: bs)
  case (Cons x xs)
  then have "appends (wr x)" "list_all appends (map wr xs)" by (auto simp: list_all_iff)
  then obtain a b where a: "serialize (wr x) = Inr a" and b: "serialize (wseq (map wr xs)) = Inr b"
    and bs: "bs = a @ b"
    using Cons.prems(2) by (auto simp: serialize_wseq rthen_Inr_iff)
  have "a \<noteq> []" using Cons.prems(1) [of x] a by auto
  moreover have "length xs \<le> length b" using Cons b by auto
  ultimately show ?case by (cases a) (auto simp: bs)
qed simp

lemma parses_read_length:
  assumes "serialize (write4 n) = Inr a" "0 \<le> n" "n \<le> int (length b)" "parses (q n) b x"
  shows "parses (rbind read_length q) (a @ b) x"
  unfolding parses_def
proof (intro allI impI)
  fix r
  assume "starts r (a @ b)"
  then have sa: "starts r a" and sb: "starts (adv (length a) r) b" by (simp_all add: starts_append)
  have "parses read4 a n" by (rule rt_parses [OF rt_write4 assms(1)])
  with sa have "read4 r = Inr (n, adv (length a) r)" by (simp add: parses_def)
  then have "read_length r = Inr (n, adv (length a) r)"
    using starts_remaining [OF sb] assms(2,3) by (simp add: read_length_def rbind_def)
  then show "rbind read_length q r = Inr (x, adv (length (a @ b)) r)"
    using assms(4) sb by (simp add: rbind_def parses_def)
qed

lemma rt_counted:
  assumes "rt f (q n) x" "0 \<le> n" "\<And>bs. serialize f = Inr bs \<Longrightarrow> n \<le> int (length bs)"
    "appends (wseq (write4 n # fs))" "serialize (wseq (write4 n # fs)) = serialize (wseq [write4 n, f])"
  shows "rt (wseq (write4 n # fs)) (rbind read_length q) x"
  unfolding rt_def
proof (intro conjI allI impI)
  show "appends (wseq (write4 n # fs))" by (rule assms)
  fix bs
  assume "serialize (wseq (write4 n # fs)) = Inr bs"
  then have "serialize (wseq [write4 n, f]) = Inr bs" by (simp only: assms(5))
  then obtain a b where "serialize (write4 n) = Inr a" and b: "serialize f = Inr b" and "bs = a @ b"
    using rt_appends [OF assms(1)] by (auto simp: serialize_wseq wire_appends rthen_Inr_iff)
  then show "parses (rbind read_length q) bs x"
    using parses_read_length [of n a b q x] assms(2,3) rt_parses [OF assms(1) b] by auto
qed

lemma serialize_nested: "appends f \<Longrightarrow> list_all appends fs \<Longrightarrow>
  serialize (wseq [f, wseq fs]) = serialize (wseq (f # fs))"
  by (simp add: serialize_wseq wire_appends list_all_iff rthen_def split: sum.splits)

lemma rt_carbon_array_map:
  assumes "\<And>x. x \<in> set xs \<Longrightarrow> rt (wr x) rd (g x)" "\<And>x. x \<in> set xs \<Longrightarrow> serialize (wr x) \<noteq> Inr []"
  shows "rt (write_carbon_array wr xs) (read_carbon_array rd) (map g xs)"
  unfolding write_carbon_array_def read_carbon_array_def
proof (rule rt_counted)
  have a: "\<And>x. x \<in> set xs \<Longrightarrow> appends (wr x)" by (rule rt_appends [OF assms(1)])
  then have la: "list_all appends (map wr xs)" by (simp add: list_all_iff)
  show "rt (wseq (map wr xs)) (read_n (nat (int (length xs))) rd) (map g xs)"
    using rt_elements [of xs wr rd g] assms(1) by simp
  show "\<And>bs. serialize (wseq (map wr xs)) = Inr bs \<Longrightarrow> int (length xs) \<le> int (length bs)"
    using elements_length [of xs wr] a assms(2) by simp
  show "appends (wseq (write4 (int (length xs)) # map wr xs))"
    using la by simp
  show "serialize (wseq (write4 (int (length xs)) # map wr xs)) =
    serialize (wseq [write4 (int (length xs)), wseq (map wr xs)])"
    by (rule serialize_nested [symmetric]) (use la in \<open>simp_all add: wire_appends\<close>)
qed simp

lemma rt_carbon_array:
  "(\<And>x. x \<in> set xs \<Longrightarrow> rt (wr x) rd x) \<Longrightarrow> (\<And>x. x \<in> set xs \<Longrightarrow> serialize (wr x) \<noteq> Inr []) \<Longrightarrow>
   rt (write_carbon_array wr xs) (read_carbon_array rd) xs"
  using rt_carbon_array_map [of xs wr rd "\<lambda>x. x"] by simp

lemma appends_carbon_array [wire_appends, simp]:
  "(\<And>x. appends (wr x)) \<Longrightarrow> appends (write_carbon_array wr xs)"
  unfolding write_carbon_array_def by (simp add: list_all_iff)

lemma carbon_array_nonempty [simp]:
  "(\<And>x. appends (wr x)) \<Longrightarrow> serialize (write_carbon_array wr xs) \<noteq> Inr []"
  unfolding write_carbon_array_def by (simp add: list_all_iff)

lemma safe_carbon_array [wire_safe]: "safe rd \<Longrightarrow> safe (read_carbon_array rd)"
  unfolding read_carbon_array_def by (auto intro!: wire_safe)

lemma raises_carbon_array [wire_raises]:
  "raises rd E \<Longrightarrow> SerializationError \<in> E \<Longrightarrow> raises (read_carbon_array rd) E"
  unfolding read_carbon_array_def by (auto intro!: wire_raises)

sublocale element_codec \<subseteq> arr: codec "write_carbon_array wr" "read_carbon_array rd" "list_all ok"
  by unfold_locales
    (auto simp: list_all_iff nonempty rd_safe intro!: rt_carbon_array wire_safe intro: rt)

section \<open>Strings, byte arrays and integer arrays\<close>

definition write_big_int_array :: "int list \<Rightarrow> wop" where
  "write_big_int_array = write_carbon_array write_big_int"

definition write_string_z :: "pystr \<Rightarrow> wop" where
  "write_string_z value =
     (if 0 \<in> set value then w_fail SerializationError
      else w_bind (utf8_encode value) (\<lambda>raw. wseq [w_write raw, write1 0]))"

definition write_string_z_array :: "pystr list \<Rightarrow> wop" where
  "write_string_z_array = write_carbon_array write_string_z"

definition write_byte_array :: "bytes \<Rightarrow> wop" where
  "write_byte_array raw = wseq [write4 (int (length raw)), w_write raw]"

definition write_byte_arrays :: "bytes list \<Rightarrow> wop" where
  "write_byte_arrays = write_carbon_array write_byte_array"

definition write_int_element :: "int \<Rightarrow> bool \<Rightarrow> int \<Rightarrow> wop" where
  "write_int_element width is_signed value =
     (if width = 1 then write1 (value AND 0xFF)
      else if width = 2 then write2 value
      else if width = 4 then write4 value
      else if width = 8 then (if is_signed then write8 value else write8u value)
      else w_fail SerializationError)"

definition write_int_array :: "int list \<Rightarrow> int \<Rightarrow> bool \<Rightarrow> wop" where
  "write_int_array values width is_signed = write_carbon_array (write_int_element width is_signed) values"

definition read_big_int_array :: "int list rop" where
  "read_big_int_array = read_carbon_array read_big_int"

text \<open>The scan for the zero byte, from the offset to the end of the data.\<close>

definition string_z_raw :: "reader \<Rightarrow> bytes" where
  "string_z_raw r = takeWhile (\<lambda>b. b \<noteq> 0) (drop (roffset r) (rdata r))"

definition read_string_z :: "pystr rop" where
  "read_string_z r =
     (let raw = string_z_raw r
      in if roffset r + length raw \<ge> length (rdata r) then Inl SerializationError
         else rthen (utf8_decode raw) (\<lambda>s. Inr (s, r\<lparr>roffset := roffset r + length raw + 1\<rparr>)))"

definition read_string_z_array :: "pystr list rop" where
  "read_string_z_array = read_carbon_array read_string_z"

definition read_byte_array :: "bytes rop" where
  "read_byte_array = rbind read_length read"

definition read_byte_arrays :: "bytes list rop" where
  "read_byte_arrays = read_carbon_array read_byte_array"

definition read_int_element :: "int \<Rightarrow> bool \<Rightarrow> int rop" where
  "read_int_element width is_signed =
     (if width = 1 then rbind read1 (\<lambda>v. rret (if is_signed \<and> v \<ge> 0x80 then v - 0x100 else v))
      else if width = 2 then read2
      else if width = 4 then read4
      else if width = 8 then (if is_signed then read8 else read8u)
      else rfail SerializationError)"

definition read_int_array :: "int \<Rightarrow> bool \<Rightarrow> int list rop" where
  "read_int_array width is_signed = read_carbon_array (read_int_element width is_signed)"

lemma rt_string_z [wire_rt]: "rt (write_string_z s) read_string_z s"
proof (cases "0 \<in> set s")
  case True
  then show ?thesis by (simp add: write_string_z_def rt_fail)
next
  case z: False
  show ?thesis
  proof (cases "utf8_encode s")
    case (Inl e)
    with z show ?thesis by (simp add: write_string_z_def rt_fail)
  next
    case raw: (Inr raw)
    have nz: "0 \<notin> set raw" using utf8_encode_zero [OF raw] z by simp
    have "parses read_string_z (raw @ [0]) s"
      unfolding parses_def
    proof (intro allI impI)
      fix r
      assume "starts r (raw @ [0])"
      then have "take (length raw + 1) (drop (roffset r) (rdata r)) = raw @ [0]"
        by (simp add: starts_def)
      then have d: "drop (roffset r) (rdata r) = raw @ 0 # drop (length raw + 1) (drop (roffset r) (rdata r))"
        by (metis append_take_drop_id append.assoc append_Cons append_Nil)
      have tw: "string_z_raw r = raw"
        unfolding string_z_raw_def by (subst d) (use nz in \<open>auto simp: takeWhile_append\<close>)
      show "read_string_z r = Inr (s, adv (length (raw @ [0])) r)"
        using starts_remaining [OF \<open>starts r (raw @ [0])\<close>]
        by (simp add: read_string_z_def tw utf8_decode_encode [OF raw] adv_def remaining_def)
    qed
    moreover have "serialize (wseq [w_write raw, write1 0]) = Inr (raw @ [0])"
      by (simp add: serialize_wseq wire_appends) (simp add: write1_def)
    moreover have "appends (wseq [w_write raw, write1 0])" by (auto intro!: wire_appends)
    ultimately show ?thesis using z raw by (simp add: write_string_z_def rt_def)
  qed
qed

lemma string_z_raw_more:
  assumes "roffset r + length (string_z_raw r) < length (rdata r)"
  shows "string_z_raw (more cs r) = string_z_raw r"
proof -
  have tw: "takeWhile P (xs @ ys) = takeWhile P xs" if "length (takeWhile P xs) < length xs" for P and xs ys :: bytes
    using that by (metis takeWhile_append1 takeWhile_eq_all_conv less_irrefl)
  show ?thesis using assms by (simp add: string_z_raw_def more_def tw)
qed

lemma safe_string_z [wire_safe]: "safe read_string_z"
  unfolding safe_def
proof (intro allI impI)
  fix r x r'
  assume "read_string_z r = Inr (x, r')"
  then have n: "roffset r + length (string_z_raw r) < length (rdata r)"
    and d: "utf8_decode (string_z_raw r) = Inr x"
    and r': "r' = r\<lparr>roffset := roffset r + length (string_z_raw r) + 1\<rparr>"
    by (auto simp: read_string_z_def Let_def rthen_Inr_iff not_le split: if_splits)
  have "read_string_z (more cs r) = Inr (x, more cs r')" for cs
    using n d string_z_raw_more [OF n, of cs] unfolding r'
    by (simp add: read_string_z_def Let_def more_def)
  then show "rdata r' = rdata r \<and> roffset r \<le> roffset r' \<and> roffset r' \<le> length (rdata r) \<and>
      (\<forall>cs. read_string_z (more cs r) = Inr (x, more cs r'))"
    using n r' by simp
qed

lemma raises_string_z [wire_raises]:
  "SerializationError \<in> E \<Longrightarrow> UnicodeDecodeError \<in> E \<Longrightarrow> raises read_string_z E"
  by (auto simp: raises_def read_string_z_def Let_def rthen_Inl_iff dest: utf8_decode_error split: if_splits)

lemma rt_byte_array [wire_rt]: "rt (write_byte_array bs) read_byte_array bs"
  unfolding write_byte_array_def read_byte_array_def
proof (rule rt_counted [where f = "w_write bs"])
  show "rt (w_write bs) (read (int (length bs))) bs"
    by (rule rtI [OF emits_write]) (simp add: parses_read)
  show "appends (wseq [write4 (int (length bs)), w_write bs])" by (auto intro!: wire_appends)
qed simp_all

lemma safe_byte_array [wire_safe]: "safe read_byte_array"
  unfolding read_byte_array_def by (rule safe_bind [OF safe_read_length safe_read])

lemma raises_byte_array [wire_raises]: "SerializationError \<in> E \<Longrightarrow> raises read_byte_array E"
  unfolding read_byte_array_def by (auto intro!: wire_raises)

lemma fixed_nonempty [simp]:
  "serialize (write16 bs) \<noteq> Inr []" "serialize (write32 bs) \<noteq> Inr []" "serialize (write64 bs) \<noteq> Inr []"
  using FixedBytes_Inr by (fastforce simp: write16_def write32_def write64_def)+

lemma byte_array_nonempty [simp]: "serialize (write_byte_array bs) \<noteq> Inr []"
  unfolding write_byte_array_def
  by (rule wseq_nonempty) (auto intro: wire_appends)

lemma wseq_last_nonempty:
  "appends f \<Longrightarrow> appends g \<Longrightarrow> serialize g \<noteq> Inr [] \<Longrightarrow> serialize (wseq [f, g]) \<noteq> Inr []"
  by (auto simp: serialize_wseq rthen_Inr_iff)

lemma string_z_nonempty [simp]: "serialize (write_string_z s) \<noteq> Inr []"
proof (cases "0 \<in> set s")
  case False
  have "serialize (w_bind (utf8_encode s) (\<lambda>raw. wseq [w_write raw, write1 0])) \<noteq> Inr []"
    by (rule w_bind_nonempty, rule wseq_last_nonempty) (simp_all add: wire_appends)
  then show ?thesis by (simp add: write_string_z_def False)
qed (simp add: write_string_z_def)

lemma big_int_nonempty [simp]: "serialize (write_big_int v) \<noteq> Inr []"
proof (cases "v = 0")
  case False
  have "serialize (wseq [write1 (big_header v), w_write bs]) \<noteq> Inr []" for bs
    by (rule wseq_nonempty) (auto intro: wire_appends)
  then show ?thesis by (simp add: write_big_int_eq [OF False])
qed (simp add: write_big_int_def)

text \<open>What an element of an integer array reads back as: width 1 keeps the low byte only.\<close>

definition int_element_value :: "int \<Rightarrow> bool \<Rightarrow> int \<Rightarrow> int" where
  "int_element_value width is_signed v =
     (if width = 1 then (if is_signed \<and> 0x80 \<le> v mod 256 then v mod 256 - 256 else v mod 256) else v)"

lemma rt_int_element:
  "rt (write_int_element width s v) (read_int_element width s) (int_element_value width s v)"
proof -
  have "v AND 0xFF = v mod 256"
    using take_bit_eq_mask [of 8 v] by (simp add: mask_eq_exp_minus_1 take_bit_eq_mod)
  then have "rt (write1 (v AND 0xFF)) (rbind read1 (\<lambda>v. rret (if s \<and> v \<ge> 0x80 then v - 0x100 else v)))
    (if s \<and> 0x80 \<le> v mod 256 then v mod 256 - 256 else v mod 256)"
    by (simp only:) (rule rt_map [OF rt_write1], simp)
  then show ?thesis
    unfolding write_int_element_def read_int_element_def int_element_value_def
    by (simp add: wire_rt rt_fail)
qed

lemma int_element_nonempty: "serialize (write_int_element width s v) \<noteq> Inr []"
  by (simp add: write_int_element_def)

lemma rt_int_array:
  "rt (write_int_array vs width s) (read_int_array width s) (map (int_element_value width s) vs)"
  unfolding write_int_array_def read_int_array_def
  by (rule rt_carbon_array_map) (simp_all add: rt_int_element int_element_nonempty)

lemma rt_big_int_array: "rt (write_big_int_array vs) read_big_int_array (map wrap256 vs)"
  unfolding write_big_int_array_def read_big_int_array_def
  by (rule rt_carbon_array_map) (simp_all add: rt_big_int_wrap)

lemma rt_string_z_array [wire_rt]: "rt (write_string_z_array ss) read_string_z_array ss"
  unfolding write_string_z_array_def read_string_z_array_def
  by (rule rt_carbon_array) (simp_all add: rt_string_z)

lemma rt_byte_arrays [wire_rt]: "rt (write_byte_arrays bss) read_byte_arrays bss"
  unfolding write_byte_arrays_def read_byte_arrays_def
  by (rule rt_carbon_array) (simp_all add: rt_byte_array)

lemma map_int_element_8 [simp]: "map (int_element_value 8 False) vs = vs"
  by (simp add: map_idI int_element_value_def)

lemma rt_u64_array [wire_rt]: "rt (write_int_array vs 8 False) (read_int_array 8 False) vs"
  using rt_int_array [of vs 8 False] by simp

lemmas appends_arrays [wire_appends, simp] = rt_string_z [THEN rt_appends] rt_byte_array [THEN rt_appends]
  rt_int_array [THEN rt_appends] rt_big_int_array [THEN rt_appends] rt_string_z_array [THEN rt_appends]
  rt_byte_arrays [THEN rt_appends]

lemma safe_arrays [wire_safe]:
  "safe read_big_int_array" "safe read_string_z_array" "safe read_byte_arrays"
  unfolding read_big_int_array_def read_string_z_array_def read_byte_arrays_def
  by (auto intro!: wire_safe)

lemma safe_int_array [wire_safe]: "safe (read_int_array width s)"
  unfolding read_int_array_def read_int_element_def by (auto intro!: wire_safe)

section \<open>SmallString\<close>

type_synonym small_string = pystr

definition SmallString :: "pystr \<Rightarrow> small_string result" where
  "SmallString v = rthen (utf8_encode v) (\<lambda>raw. if length raw > 255 then Inl SerializationError else Inr v)"

definition write_small_string :: "small_string \<Rightarrow> wop" where
  "write_small_string v = w_bind (utf8_encode v) (\<lambda>raw. wseq [write1 (int (length raw)), w_write raw])"

definition read_small_string :: "small_string rop" where
  "read_small_string = rbind (rbind read1 read) (\<lambda>raw. rlift (rthen (utf8_decode raw) SmallString))"

lemma rt_small_string [wire_rt]: "rt (write_small_string s) read_small_string s"
  unfolding write_small_string_def
proof (rule rt_w_bind)
  fix raw
  assume raw: "utf8_encode s = Inr raw"
  have w: "rt (wseq [write1 (int (length raw)), w_write raw]) (rbind read1 read) raw"
    by (rule rt_cons [OF rt_write1], rule rt_last, rule rtI [OF emits_write]) (simp add: parses_read)
  show "rt (wseq [write1 (int (length raw)), w_write raw]) read_small_string s"
  proof (cases "length raw \<le> 255")
    case True
    then show ?thesis unfolding read_small_string_def
      by (intro rt_bind_lift [OF w]) (simp add: utf8_decode_encode [OF raw] SmallString_def raw)
  next
    case False
    then have "serialize (wseq [write1 (int (length raw)), w_write raw]) = Inl SerializationError"
      by (simp add: serialize_wseq wire_appends) (simp add: write1_def)
    then show ?thesis using rt_appends [OF w] by (simp add: rt_def)
  qed
qed

lemmas appends_small_string [wire_appends, simp] = rt_small_string [THEN rt_appends]

lemma small_string_written:
  "(\<exists>bs. serialize (write_small_string s) = Inr bs) \<longleftrightarrow> SmallString s = Inr s"
proof (cases "utf8_encode s")
  case (Inl e)
  then show ?thesis by (simp add: write_small_string_def SmallString_def)
next
  case (Inr raw)
  then show ?thesis
    by (simp add: write_small_string_def SmallString_def serialize_wseq wire_appends)
      (simp add: write1_def)
qed

lemma small_string_nonempty [simp]: "serialize (write_small_string s) \<noteq> Inr []"
  unfolding write_small_string_def
  by (rule w_bind_nonempty, rule wseq_nonempty) (auto intro: wire_appends)

lemma safe_small_string [wire_safe]: "safe read_small_string"
  unfolding read_small_string_def by (auto intro!: wire_safe)

lemma raises_small_string [wire_raises]:
  "SerializationError \<in> E \<Longrightarrow> UnicodeDecodeError \<in> E \<Longrightarrow> raises read_small_string E"
proof -
  assume E: "SerializationError \<in> E" "UnicodeDecodeError \<in> E"
  have "rthen (utf8_decode raw) SmallString = Inl e \<Longrightarrow> e \<in> E" for raw e
    using E utf8_decode_error [of raw] utf8_encode_decode [of raw]
    by (auto simp: rthen_Inl_iff SmallString_def split: if_splits)
  then show ?thesis
    unfolding read_small_string_def using E by (auto intro!: wire_raises)
qed

section \<open>IntX\<close>

definition is_8_byte_safe :: "int \<Rightarrow> bool" where
  "is_8_byte_safe v \<longleftrightarrow> - (2 ^ 63) \<le> v \<and> v \<le> 2 ^ 63 - 1"

definition write_int_x :: "int \<Rightarrow> wop" where
  "write_int_x v =
     (if is_8_byte_safe v then wseq [write1 (if v < 0 then 0x88 else 0x08), write8 v]
      else write_big_int v)"

definition read_int_x :: "int rop" where
  "read_int_x = rbind read1 (\<lambda>header.
     let n = header AND 0x3F in
     if n < 8 then rfail SerializationError
     else if n = 8 then
       rbind (read 8) (\<lambda>raw.
         let v = le_int_signed raw;
             header_negative = (header AND 0x80 \<noteq> 0)
         in if header_negative = (v < 0) then rret v
            else rlift (int_from_word (raw @ replicate 24 (if header_negative then 0xFF else 0x00))))
     else read_big_int_with_header (Some header))"

lemma big_fill_cases: "big_fill v = 0xFF \<or> big_fill v = 0"
  by (simp add: big_fill_def)

lemma big_value:
  assumes "- (2 ^ 255) \<le> v" "v < 2 ^ 255"
  shows "v = le_int (take (big_len v) (le_bytes 32 v)) - (if big_fill v = 0xFF then 256 ^ big_len v else 0)"
proof -
  let ?n = "big_len v" and ?t = "take (big_len v) (le_bytes 32 v)"
  have n: "?n \<le> 32" by (rule big_len_le)
  have l: "length ?t = ?n" using n by simp
  have "v mod 256 ^ 32 = le_int (?t @ replicate (32 - ?n) (big_fill v))"
    by (simp only: big_word le_int_le_bytes)
  also have "\<dots> = le_int ?t + 256 ^ ?n * le_int (replicate (32 - ?n) (big_fill v))"
    by (simp only: le_int_append l)
  also have "\<dots> = le_int ?t + (if big_fill v = 0xFF then 256 ^ 32 - 256 ^ ?n else 0)"
    using big_fill_cases [of v] n
    by (auto simp: le_int_replicate_FF right_diff_distrib power_add [symmetric])
  finally have m: "v mod 256 ^ 32 = le_int ?t + (if big_fill v = 0xFF then 256 ^ 32 - 256 ^ ?n else 0)" .
  have neg: "big_fill v = 0xFF \<longleftrightarrow> v < 0"
  proof -
    have "big_fill v = 0xFF \<longleftrightarrow> 2 ^ 255 \<le> v mod 256 ^ 32"
      using top_byte [of "le_bytes 32 v"] by (simp add: big_fill_def and128_byte le_int_le_bytes)
    also have "v mod 256 ^ 32 = (if v < 0 then v + 2 ^ 256 else v)"
      using assms mod_add_self2 [of v "2 ^ 256"] mod_pos_pos_trivial [of "v + 2 ^ 256" "2 ^ 256"]
      by (auto simp: mod_pos_pos_trivial)
    finally show ?thesis using assms by auto
  qed
  show ?thesis
  proof (cases "v < 0")
    case True
    then have "v mod 256 ^ 32 = v + 256 ^ 32"
      using assms mod_add_self2 [of v "256 ^ 32"] mod_pos_pos_trivial [of "v + 256 ^ 32" "256 ^ 32"] by simp
    with m neg True show ?thesis by simp
  next
    case False
    with assms m neg show ?thesis by (simp add: mod_pos_pos_trivial)
  qed
qed

lemma big_len_wide:
  assumes "- (2 ^ 255) \<le> v" "v < 2 ^ 255" "\<not> is_8_byte_safe v"
  shows "8 \<le> big_len v"
proof (rule ccontr)
  assume "\<not> 8 \<le> big_len v"
  then have n: "big_len v \<le> 7" by simp
  let ?t = "take (big_len v) (le_bytes 32 v)"
  have "length ?t = big_len v" using n by simp
  then have t: "0 \<le> le_int ?t" "le_int ?t < 256 ^ big_len v"
    using le_int_less [of ?t] le_int_nonneg [of ?t] by simp_all
  have p: "(256::int) ^ big_len v \<le> 256 ^ 7" using n by (rule power_increasing) simp
  have "v = le_int ?t - 256 ^ big_len v \<or> v = le_int ?t"
    using big_value [OF assms(1,2)] by (auto split: if_splits)
  then have "- (256 ^ 7) \<le> v \<and> v < 256 ^ 7" using t p by linarith
  with assms(3) show False by (simp add: is_8_byte_safe_def)
qed

definition int_x_body :: "int \<Rightarrow> int rop" where
  "int_x_body header =
    (let n = header AND 0x3F in
     if n < 8 then rfail SerializationError
     else if n = 8 then
       rbind (read 8) (\<lambda>raw.
         let v = le_int_signed raw;
             header_negative = (header AND 0x80 \<noteq> 0)
         in if header_negative = (v < 0) then rret v
            else rlift (int_from_word (raw @ replicate 24 (if header_negative then 0xFF else 0x00))))
     else read_big_int_with_header (Some header))"

lemma read_int_x_body: "read_int_x = rbind read1 int_x_body"
  unfolding read_int_x_def by (rule arg_cong [where f = "rbind read1"]) (simp add: int_x_body_def fun_eq_iff)

lemma int_x_body_8:
  "h AND 0x3F = 8 \<Longrightarrow> length raw = 8 \<Longrightarrow>
   parses (int_x_body h) raw
     (le_int raw - (if h AND 0x80 \<noteq> 0 then 256 ^ 8 else 0)) \<or>
   (h AND 0x80 \<noteq> 0) = (le_int_signed raw < 0) \<and> parses (int_x_body h) raw (le_int_signed raw)"
proof -
  assume h: "h AND 0x3F = 8" and l: "length raw = 8"
  have r: "parses (read 8) raw raw" by (rule parses_read) (simp add: l)
  define neg where "neg = (h AND 0x80 \<noteq> 0)"
  have body: "int_x_body h = rbind (read 8) (\<lambda>raw. if neg = (le_int_signed raw < 0) then rret (le_int_signed raw)
            else rlift (int_from_word (raw @ replicate 24 (if neg then 0xFF else 0x00))))"
    unfolding int_x_body_def Let_def neg_def [symmetric] h by simp
  show ?thesis
  proof (cases "neg = (le_int_signed raw < 0)")
    case True
    have "parses (int_x_body h) (raw @ []) (le_int_signed raw)"
      unfolding body by (rule parses_bind [OF r]) (simp add: True parses_ret)
    with True show ?thesis by (simp add: neg_def)
  next
    case False
    let ?w = "raw @ replicate 24 (if neg then 0xFF else 0x00)"
    have "le_int ?w = le_int raw + (if neg then 256 ^ 8 * (256 ^ 24 - 1) else 0)"
      using l by (simp add: le_int_append le_int_replicate_FF)
    moreover have "0 \<le> le_int raw" "le_int raw < 256 ^ 8" using le_int_less [of raw] l by simp_all
    ultimately have "le_int_signed ?w = le_int raw - (if neg then 256 ^ 8 else 0)"
      using l by (auto simp: le_int_signed_def Let_def)
    moreover have "length ?w = 32" using l by simp
    ultimately have "int_from_word ?w = Inr (le_int raw - (if neg then 256 ^ 8 else 0))"
      by (simp only: int_from_word_eq)
    then have "parses (int_x_body h) (raw @ []) (le_int raw - (if neg then 256 ^ 8 else 0))"
      unfolding body using False
      by (intro parses_bind [OF r]) (simp add: rlift_def parses_def)
    then show ?thesis by (simp add: neg_def)
  qed
qed

lemma le_int_signed_neg: "le_int_signed bs = le_int bs - (if le_int_signed bs < 0 then 256 ^ length bs else 0)"
  using le_int_less [of bs] le_int_nonneg [of bs]
  by (simp add: le_int_signed_def Let_def del: le_int_nonneg)

lemma parses_int_x_8:
  "h AND 0x3F = 8 \<Longrightarrow> length raw = 8 \<Longrightarrow>
   parses (int_x_body h) raw (le_int raw - (if h AND 0x80 \<noteq> 0 then 256 ^ 8 else 0))"
  using int_x_body_8 [of h raw] le_int_signed_neg [of raw] by (simp split: if_splits)

lemma rt_int_x [wire_rt]:
  assumes v256: "int256 v"
  shows "rt (write_int_x v) read_int_x v"
proof (cases "is_8_byte_safe v")
  case True
  have bnd: "- (256 ^ 8) \<le> 2 * v" "2 * v < 256 ^ 8"
    using True by (simp_all add: is_8_byte_safe_def)
  let ?h = "if v < 0 then 0x88 else 0x08 :: int"
  have h: "?h AND 0x3F = 8" "(?h AND 0x80 \<noteq> 0) = (v < 0)" by simp_all
  have "le_int (le_bytes 8 v) - (if v < 0 then 256 ^ 8 else 0) = v"
    using le_int_signed_neg [of "le_bytes 8 v"]
    unfolding le_int_signed_le_bytes [OF bnd] length_le_bytes by (rule sym)
  then have "parses (int_x_body ?h) (le_bytes 8 v) v"
    using parses_int_x_8 [OF h(1), of "le_bytes 8 v"] by (simp only: h(2) length_le_bytes)
  then have "rt (write8 v) (int_x_body ?h) v"
    unfolding write8_def by (intro rt_w_result) (auto simp: pack_signed_if split: if_splits)
  then show ?thesis
    unfolding write_int_x_def read_int_x_body using True by (simp only: if_True) (rule rt_cons [OF rt_write1 rt_last])
next
  case False
  have v: "v \<noteq> 0" using False by (auto simp: is_8_byte_safe_def)
  have range: "- (2 ^ 255) \<le> v" "v < 2 ^ 255" using v256 by (simp_all only: int256_def)
  then have r: "\<bar>v\<bar> < 2 ^ 256" by simp
  note hb = header_bits [OF big_len_le [of v]]
  have n: "8 \<le> big_len v" by (rule big_len_wide [OF range False])
  have h: "big_header v AND 0x3F = int (big_len v)" "(big_header v AND 0x80 \<noteq> 0) = (big_fill v = 0xFF)"
    by (simp_all add: big_header_def hb)
  have "parses (int_x_body (big_header v)) (take (big_len v) (le_bytes 32 v)) v"
  proof (cases "big_len v = 8")
    case True
    then show ?thesis
      using parses_int_x_8 [of "big_header v" "take (big_len v) (le_bytes 32 v)"] big_value [OF range]
      unfolding h(2) by (simp only: h(1) True) simp
  next
    case False
    then have "int_x_body (big_header v) = read_big_int_with_header (Some (big_header v))"
      using n by (simp add: int_x_body_def h Let_def)
    then show ?thesis using parses_big_int_body [OF v r] by (simp only: wrap256_id [OF v256])
  qed
  then have "rt (w_write (take (big_len v) (le_bytes 32 v))) (int_x_body (big_header v)) v"
    by (intro rtI [OF emits_write]) simp
  then show ?thesis
    unfolding write_int_x_def read_int_x_body write_big_int_eq [OF v] using False r
    by (simp only: if_True if_False) (rule rt_cons [OF rt_write1 rt_last])
qed

lemma appends_int_x [wire_appends, simp]: "appends (write_int_x v)"
  unfolding write_int_x_def by (auto intro!: wire_appends)

lemma int_x_nonempty [simp]: "serialize (write_int_x v) \<noteq> Inr []"
proof (cases "is_8_byte_safe v")
  case True
  have "serialize (wseq [write1 h, write8 v]) \<noteq> Inr []" for h
    by (rule wseq_nonempty) (auto intro: wire_appends)
  with True show ?thesis by (simp add: write_int_x_def)
qed (simp add: write_int_x_def)

lemma safe_int_x [wire_safe]: "safe read_int_x"
  unfolding read_int_x_def by (auto intro!: wire_safe simp: Let_def)

lemma raises_int_x [wire_raises]: "SerializationError \<in> E \<Longrightarrow> raises read_int_x E"
proof -
  assume E: "SerializationError \<in> E"
  have "int_from_word w = Inl e \<Longrightarrow> e \<in> E" for w e
    using E by (auto simp: int_from_word_def Let_def split: if_splits)
  then show ?thesis
    unfolding read_int_x_def using E raises_ints(11) [OF E]
    by (auto intro!: wire_raises simp: Let_def)
qed

section \<open>The contract of the Carbon types\<close>

text \<open>The exceptions \<^verbatim>\<open>read_carbon\<close> can raise: a bounds or format error, a string that is not
  UTF-8, an unknown enum value, or the interpreter's recursion limit on nested values.\<close>

definition carbon_errors :: "py_error set" where
  "carbon_errors = {SerializationError, UnicodeDecodeError, ValueError, RecursionError}"

lemma carbon_errors_simps [simp]:
  "SerializationError \<in> carbon_errors" "UnicodeDecodeError \<in> carbon_errors"
  "ValueError \<in> carbon_errors" "RecursionError \<in> carbon_errors"
  by (simp_all add: carbon_errors_def)

locale carbon_codec = element_codec +
  assumes rd_raises: "raises rd carbon_errors"
begin

lemma deserialize_errors: "deserialize rd bs = Inl e \<Longrightarrow> e \<in> carbon_errors"
  by (rule deserialize_raises [OF rd_raises]) simp_all

lemma arr_raises: "raises (read_carbon_array rd) carbon_errors"
  by (rule raises_carbon_array [OF rd_raises]) simp

end

interpretation int_x: carbon_codec write_int_x read_int_x int256
  by unfold_locales (simp_all add: rt_int_x safe_int_x raises_int_x)

interpretation small_string: carbon_codec write_small_string read_small_string "\<lambda>_. True"
  by unfold_locales (simp_all add: rt_small_string safe_small_string raises_small_string)

interpretation string_z: carbon_codec write_string_z read_string_z "\<lambda>_. True"
  by unfold_locales (simp_all add: rt_string_z safe_string_z raises_string_z)

interpretation byte_array: carbon_codec write_byte_array read_byte_array "\<lambda>_. True"
  by unfold_locales (simp_all add: rt_byte_array safe_byte_array raises_byte_array)

interpretation big_int: carbon_codec write_big_int read_big_int int256
  by unfold_locales (simp_all add: rt_big_int safe_big_int raises_ints)

lemma raises_int_array [wire_raises]: "SerializationError \<in> E \<Longrightarrow> raises (read_int_array width s) E"
  unfolding read_int_array_def read_int_element_def by (auto intro!: wire_raises)

lemma raises_arrays [wire_raises]:
  "raises read_big_int_array carbon_errors" "raises read_string_z_array carbon_errors"
  "raises read_byte_arrays carbon_errors"
  unfolding read_big_int_array_def read_string_z_array_def read_byte_arrays_def
  by (rule big_int.arr_raises string_z.arr_raises byte_array.arr_raises)+

section \<open>What the primitives write\<close>

lemma serialize_ints:
  "serialize (write1 v) = (if v < 0 \<or> v > 0xFF then Inl SerializationError else Inr [word_of_int v])"
  "serialize (write2 v) = (if - (2 ^ 15) \<le> v \<and> v < 2 ^ 15 then Inr (le_bytes 2 v) else Inl SerializationError)"
  "serialize (write4 v) = (if - (2 ^ 31) \<le> v \<and> v < 2 ^ 31 then Inr (le_bytes 4 v) else Inl SerializationError)"
  "serialize (write4u v) = (if 0 \<le> v \<and> v < 2 ^ 32 then Inr (le_bytes 4 v) else Inl SerializationError)"
  "serialize (write8 v) = (if - (2 ^ 63) \<le> v \<and> v < 2 ^ 63 then Inr (le_bytes 8 v) else Inl SerializationError)"
  "serialize (write8u v) = (if 0 \<le> v \<and> v < 2 ^ 64 then Inr (le_bytes 8 v) else Inl SerializationError)"
  by (simp_all add: write1_def write2_def write4_def write4u_def write8_def write8u_def
      pack_signed_if pack_unsigned_if)

lemma serialize_fixed:
  "length bs = 16 \<Longrightarrow> serialize (write16 bs) = Inr bs"
  "length bs = 32 \<Longrightarrow> serialize (write32 bs) = Inr bs"
  "length bs = 64 \<Longrightarrow> serialize (write64 bs) = Inr bs"
  by (simp_all add: write16_def write32_def write64_def FixedBytes_length)

lemma serialize_small_string:
  "utf8_encode s = Inr raw \<Longrightarrow> serialize (write_small_string s) =
    (if length raw \<le> 255 then Inr (word_of_nat (length raw) # raw) else Inl SerializationError)"
  by (simp add: write_small_string_def serialize_wseq serialize_ints)

text \<open>The written form of an \<^verbatim>\<open>IntX\<close>; every 256-bit signed value has one.\<close>

lemma int_x_written: "int256 v \<Longrightarrow> \<exists>bs. serialize (write_int_x v) = Inr bs"
proof (cases "is_8_byte_safe v")
  case True
  then show ?thesis by (auto simp: write_int_x_def serialize_wseq serialize_ints is_8_byte_safe_def)
next
  case False
  assume "int256 v"
  then have "- (2 ^ 255) \<le> v" "v < 2 ^ 255" by (simp_all only: int256_def)
  then have "\<bar>v\<bar> < 2 ^ 256" by simp
  with False show ?thesis
    using write_big_int_written [of v] by (cases "serialize (write_big_int v)") (auto simp: write_int_x_def)
qed

section \<open>Properties\<close>

text \<open>C33: What the compact 256-bit integer codec does to every integer: values of absolute value
  below 2^256 are written and read back as their 256-bit two's complement value, all others are
  refused by the writer.\<close>

theorem carbon_big_int_roundtrip:
  "rthen (serialize (write_big_int v)) (deserialize read_big_int) =
     (if \<bar>v\<bar> < 2 ^ 256 then Inr (wrap256 v) else Inl SerializationError)"
proof (cases "serialize (write_big_int v)")
  case (Inl e)
  then have "\<not> \<bar>v\<bar> < 2 ^ 256" "e = SerializationError" using write_big_int_written by blast+
  with Inl show ?thesis by simp
next
  case (Inr bs)
  have "\<bar>v\<bar> < 2 ^ 256" using write_big_int_written [of v SerializationError] unfolding Inr by simp
  moreover have "deserialize read_big_int bs = Inr (wrap256 v)"
    by (rule rt_deserialize [OF rt_big_int_wrap Inr])
  ultimately show ?thesis by (simp add: Inr)
qed

text \<open>Every 256-bit signed integer survives the \<^verbatim>\<open>IntX\<close> encoding, in the nine-byte short form
  exactly when it fits in 64 bits, and trailing bytes are rejected.\<close>

theorem int_x_roundtrip:
  assumes "int256 v"
  shows "\<exists>bs. serialize (write_int_x v) = Inr bs \<and> deserialize read_int_x bs = Inr v \<and>
    (is_8_byte_safe v \<longrightarrow> length bs = 9) \<and>
    (\<forall>cs. cs \<noteq> [] \<longrightarrow> deserialize read_int_x (bs @ cs) = Inl SerializationError)"
proof -
  obtain bs where bs: "serialize (write_int_x v) = Inr bs" using int_x_written [OF assms] by blast
  have "is_8_byte_safe v \<Longrightarrow> length bs = 9"
    using bs by (auto simp: write_int_x_def serialize_wseq serialize_ints is_8_byte_safe_def split: if_splits)
  then show ?thesis using bs int_x.roundtrip [OF assms bs] int_x.trailing [OF assms bs] by blast
qed

theorem int_x_roundtrip_witness:
  "\<exists>bs. serialize (write_int_x (2 ^ 63)) = Inr bs \<and> deserialize read_int_x bs = Inr (2 ^ 63)"
  using int_x_roundtrip [of "2 ^ 63"] by (force simp: int256_def)

text \<open>A string that fits the one-byte length prefix comes back from its \<^verbatim>\<open>SmallString\<close> form, and
  exactly the strings whose UTF-8 form has at most 255 bytes can be written.\<close>

theorem small_string_roundtrip:
  "case utf8_encode s of
     Inl e \<Rightarrow> serialize (write_small_string s) = Inl e
   | Inr raw \<Rightarrow> if length raw \<le> 255
       then rthen (serialize (write_small_string s)) (deserialize read_small_string) = Inr s
       else serialize (write_small_string s) = Inl SerializationError"
proof (cases "utf8_encode s")
  case (Inl e)
  then show ?thesis by (simp add: write_small_string_def)
next
  case (Inr raw)
  then show ?thesis
    using serialize_small_string [OF Inr] small_string.roundtrip [OF TrueI, of s] by auto
qed

end
