(* ===== verification/CarbonMsg.thy ===== *)
theory CarbonMsg
  imports CarbonWire
begin

text \<open>
  The fixed-layout Carbon messages of \<^verbatim>\<open>carbon.py\<close>: the chain, gas and token configuration, the
  token records, the arguments of the token and market contract methods. Every class is a record,
  its \<^verbatim>\<open>write_carbon\<close> and \<^verbatim>\<open>read_carbon\<close> are \<open>write_X\<close> and \<open>read_X\<close>; \<open>X_ok\<close> is what the
  annotations of the class state of its fields (a \<^verbatim>\<open>Bytes32\<close> has 32 bytes, an \<^verbatim>\<open>IntX\<close> is a
  signed 256-bit value) and what the reader relies on. Each class is an instance of the contract
  \<open>carbon_codec\<close>.
\<close>

section \<open>Configuration\<close>

record ChainConfig =
  cc_version :: int
  cc_reserved1 :: int
  cc_reserved2 :: int
  cc_reserved3 :: int
  cc_allowed_tx_types :: int
  cc_expiry_window :: int
  cc_block_rate_target :: int

definition ChainConfig_ok :: "ChainConfig \<Rightarrow> bool" where
  "ChainConfig_ok x \<longleftrightarrow> True"

definition write_ChainConfig :: "ChainConfig \<Rightarrow> wop" where
  "write_ChainConfig x = wseq [
     write1 (cc_version x),
     write1 (cc_reserved1 x),
     write1 (cc_reserved2 x),
     write1 (cc_reserved3 x),
     write4u (cc_allowed_tx_types x),
     write4u (cc_expiry_window x),
     write4u (cc_block_rate_target x)]"

definition read_ChainConfig :: "ChainConfig rop" where
  "read_ChainConfig =
     rbind read1 (\<lambda>version.
     rbind read1 (\<lambda>reserved1.
     rbind read1 (\<lambda>reserved2.
     rbind read1 (\<lambda>reserved3.
     rbind read4u (\<lambda>allowed_tx_types.
     rbind read4u (\<lambda>expiry_window.
     rbind read4u (\<lambda>block_rate_target.
     rret \<lparr>cc_version = version, cc_reserved1 = reserved1, cc_reserved2 = reserved2, cc_reserved3 = reserved3, cc_allowed_tx_types = allowed_tx_types, cc_expiry_window = expiry_window, cc_block_rate_target = block_rate_target\<rparr>)))))))"

interpretation chain_config: carbon_codec write_ChainConfig read_ChainConfig ChainConfig_ok
  by unfold_locales (auto simp: write_ChainConfig_def read_ChainConfig_def ChainConfig_ok_def intro!: wire_rt wire_safe wire_raises)

record GasConfig =
  gc_version :: int
  gc_max_name_length :: int
  gc_max_token_symbol_length :: int
  gc_fee_shift :: int
  gc_max_structure_size :: int
  gc_fee_multiplier :: int
  gc_gas_token_id :: int
  gc_data_token_id :: int
  gc_minimum_gas_offer :: int
  gc_data_escrow_per_row :: int
  gc_gas_fee_transfer :: int
  gc_gas_fee_query :: int
  gc_gas_fee_create_token_base :: int
  gc_gas_fee_create_token_symbol :: int
  gc_gas_fee_create_token_series :: int
  gc_gas_fee_per_byte :: int
  gc_gas_fee_register_name :: int
  gc_gas_burn_ratio_mul :: int
  gc_gas_burn_ratio_shift :: int
  gc_minimum_gas_bill :: int
  gc_gas_producer_ratio_mul :: int
  gc_gas_producer_ratio_shift :: int
  gc_gas_dapp_ratio_mul :: int
  gc_gas_dapp_ratio_shift :: int
  gc_policy_fee_create_token_base :: int
  gc_policy_fee_create_token_symbol :: int
  gc_policy_fee_create_token_series :: int
  gc_policy_fee_register_name :: int
  gc_legacy_data_escrow_per_row :: int

text \<open>A version-0 image carries no tail, so the fields of the tail are zero.\<close>

definition GasConfig_ok :: "GasConfig \<Rightarrow> bool" where
  "GasConfig_ok x \<longleftrightarrow> (gc_version x = 0 \<longrightarrow>
     gc_minimum_gas_bill x = 0 \<and>
     gc_gas_producer_ratio_mul x = 0 \<and>
     gc_gas_producer_ratio_shift x = 0 \<and>
     gc_gas_dapp_ratio_mul x = 0 \<and>
     gc_gas_dapp_ratio_shift x = 0 \<and>
     gc_policy_fee_create_token_base x = 0 \<and>
     gc_policy_fee_create_token_symbol x = 0 \<and>
     gc_policy_fee_create_token_series x = 0 \<and>
     gc_policy_fee_register_name x = 0 \<and>
     gc_legacy_data_escrow_per_row x = 0)"

definition has_gas_model_v2 :: "GasConfig \<Rightarrow> bool" where
  "has_gas_model_v2 x \<longleftrightarrow> gc_version x \<ge> 1"

definition write_GasConfig :: "GasConfig \<Rightarrow> wop" where
  "write_GasConfig x = wseq ([
     write1 (gc_version x),
     write1 (gc_max_name_length x),
     write1 (gc_max_token_symbol_length x),
     write1 (gc_fee_shift x),
     write4u (gc_max_structure_size x),
     write8u (gc_fee_multiplier x),
     write8u (gc_gas_token_id x),
     write8u (gc_data_token_id x),
     write8u (gc_minimum_gas_offer x),
     write8u (gc_data_escrow_per_row x),
     write8u (gc_gas_fee_transfer x),
     write8u (gc_gas_fee_query x),
     write8u (gc_gas_fee_create_token_base x),
     write8u (gc_gas_fee_create_token_symbol x),
     write8u (gc_gas_fee_create_token_series x),
     write8u (gc_gas_fee_per_byte x),
     write8u (gc_gas_fee_register_name x),
     write8u (gc_gas_burn_ratio_mul x),
     write1 (gc_gas_burn_ratio_shift x)] @
     (if gc_version x = 0 then [] else [
     write8u (gc_minimum_gas_bill x),
     write8u (gc_gas_producer_ratio_mul x),
     write1 (gc_gas_producer_ratio_shift x),
     write8u (gc_gas_dapp_ratio_mul x),
     write1 (gc_gas_dapp_ratio_shift x),
     write8u (gc_policy_fee_create_token_base x),
     write8u (gc_policy_fee_create_token_symbol x),
     write8u (gc_policy_fee_create_token_series x),
     write8u (gc_policy_fee_register_name x),
     write8u (gc_legacy_data_escrow_per_row x)]))"

definition read_GasConfig :: "GasConfig rop" where
  "read_GasConfig =
     rbind read1 (\<lambda>version.
     rbind read1 (\<lambda>max_name_length.
     rbind read1 (\<lambda>max_token_symbol_length.
     rbind read1 (\<lambda>fee_shift.
     rbind read4u (\<lambda>max_structure_size.
     rbind read8u (\<lambda>fee_multiplier.
     rbind read8u (\<lambda>gas_token_id.
     rbind read8u (\<lambda>data_token_id.
     rbind read8u (\<lambda>minimum_gas_offer.
     rbind read8u (\<lambda>data_escrow_per_row.
     rbind read8u (\<lambda>gas_fee_transfer.
     rbind read8u (\<lambda>gas_fee_query.
     rbind read8u (\<lambda>gas_fee_create_token_base.
     rbind read8u (\<lambda>gas_fee_create_token_symbol.
     rbind read8u (\<lambda>gas_fee_create_token_series.
     rbind read8u (\<lambda>gas_fee_per_byte.
     rbind read8u (\<lambda>gas_fee_register_name.
     rbind read8u (\<lambda>gas_burn_ratio_mul.
     rbind read1 (\<lambda>gas_burn_ratio_shift.
     let config = \<lparr>gc_version = version,
       gc_max_name_length = max_name_length,
       gc_max_token_symbol_length = max_token_symbol_length,
       gc_fee_shift = fee_shift,
       gc_max_structure_size = max_structure_size,
       gc_fee_multiplier = fee_multiplier,
       gc_gas_token_id = gas_token_id,
       gc_data_token_id = data_token_id,
       gc_minimum_gas_offer = minimum_gas_offer,
       gc_data_escrow_per_row = data_escrow_per_row,
       gc_gas_fee_transfer = gas_fee_transfer,
       gc_gas_fee_query = gas_fee_query,
       gc_gas_fee_create_token_base = gas_fee_create_token_base,
       gc_gas_fee_create_token_symbol = gas_fee_create_token_symbol,
       gc_gas_fee_create_token_series = gas_fee_create_token_series,
       gc_gas_fee_per_byte = gas_fee_per_byte,
       gc_gas_fee_register_name = gas_fee_register_name,
       gc_gas_burn_ratio_mul = gas_burn_ratio_mul,
       gc_gas_burn_ratio_shift = gas_burn_ratio_shift,
       gc_minimum_gas_bill = 0,
       gc_gas_producer_ratio_mul = 0,
       gc_gas_producer_ratio_shift = 0,
       gc_gas_dapp_ratio_mul = 0,
       gc_gas_dapp_ratio_shift = 0,
       gc_policy_fee_create_token_base = 0,
       gc_policy_fee_create_token_symbol = 0,
       gc_policy_fee_create_token_series = 0,
       gc_policy_fee_register_name = 0,
       gc_legacy_data_escrow_per_row = 0\<rparr>
     in if gc_version config = 0 then rret config else
     rbind read8u (\<lambda>minimum_gas_bill.
     rbind read8u (\<lambda>gas_producer_ratio_mul.
     rbind read1 (\<lambda>gas_producer_ratio_shift.
     rbind read8u (\<lambda>gas_dapp_ratio_mul.
     rbind read1 (\<lambda>gas_dapp_ratio_shift.
     rbind read8u (\<lambda>policy_fee_create_token_base.
     rbind read8u (\<lambda>policy_fee_create_token_symbol.
     rbind read8u (\<lambda>policy_fee_create_token_series.
     rbind read8u (\<lambda>policy_fee_register_name.
     rbind read8u (\<lambda>legacy_data_escrow_per_row.
     rret (config\<lparr>gc_minimum_gas_bill := minimum_gas_bill,
       gc_gas_producer_ratio_mul := gas_producer_ratio_mul,
       gc_gas_producer_ratio_shift := gas_producer_ratio_shift,
       gc_gas_dapp_ratio_mul := gas_dapp_ratio_mul,
       gc_gas_dapp_ratio_shift := gas_dapp_ratio_shift,
       gc_policy_fee_create_token_base := policy_fee_create_token_base,
       gc_policy_fee_create_token_symbol := policy_fee_create_token_symbol,
       gc_policy_fee_create_token_series := policy_fee_create_token_series,
       gc_policy_fee_register_name := policy_fee_register_name,
       gc_legacy_data_escrow_per_row := legacy_data_escrow_per_row\<rparr>))))))))))))))))))))))))))))))"

interpretation gas_config: carbon_codec write_GasConfig read_GasConfig GasConfig_ok
proof unfold_locales
  fix x
  assume ok: "GasConfig_ok x"
  show "rt (write_GasConfig x) read_GasConfig x"
    using ok unfolding write_GasConfig_def read_GasConfig_def
    by (cases x; cases "gc_version x = 0")
      (auto simp: GasConfig_ok_def Let_def intro!: wire_rt)
next
  show "safe read_GasConfig" "raises read_GasConfig carbon_errors"
    unfolding read_GasConfig_def Let_def by (auto intro!: wire_safe wire_raises)
next
  fix x
  show "serialize (write_GasConfig x) \<noteq> Inr []" "appends (write_GasConfig x)"
    unfolding write_GasConfig_def by auto
qed

record TokensConfig =
  tc_flags :: int

definition TokensConfig_ok :: "TokensConfig \<Rightarrow> bool" where
  "TokensConfig_ok x \<longleftrightarrow> True"

definition write_TokensConfig :: "TokensConfig \<Rightarrow> wop" where
  "write_TokensConfig x = wseq [
     write1 (tc_flags x)]"

definition read_TokensConfig :: "TokensConfig rop" where
  "read_TokensConfig =
     rbind read1 (\<lambda>flags.
     rret \<lparr>tc_flags = flags\<rparr>)"

interpretation tokens_config: carbon_codec write_TokensConfig read_TokensConfig TokensConfig_ok
  by unfold_locales (auto simp: write_TokensConfig_def read_TokensConfig_def TokensConfig_ok_def intro!: wire_rt wire_safe wire_raises)

section \<open>Tokens\<close>

record TokenInfo =
  ti_max_supply :: int
  ti_flags :: int
  ti_decimals :: int
  ti_owner :: bytes
  ti_symbol :: small_string
  ti_metadata :: bytes
  ti_token_schemas :: bytes

definition TokenFlags_BIG_FUNGIBLE :: int where
  "TokenFlags_BIG_FUNGIBLE = 1"

definition TokenFlags_NON_FUNGIBLE :: int where
  "TokenFlags_NON_FUNGIBLE = 2"

definition TokenInfo_ok :: "TokenInfo \<Rightarrow> bool" where
  "TokenInfo_ok x \<longleftrightarrow> int256 (ti_max_supply x) \<and> length (ti_owner x) = 32 \<and>
     (ti_flags x AND TokenFlags_NON_FUNGIBLE = 0 \<longrightarrow> ti_token_schemas x = [])"

definition write_TokenInfo :: "TokenInfo \<Rightarrow> wop" where
  "write_TokenInfo x = wseq ([
     write_int_x (ti_max_supply x),
     write1 (ti_flags x),
     write1 (ti_decimals x),
     write32 (ti_owner x),
     write_small_string (ti_symbol x),
     write_byte_array (ti_metadata x)] @
     (if ti_flags x AND TokenFlags_NON_FUNGIBLE \<noteq> 0 then [write_byte_array (ti_token_schemas x)] else []))"

definition read_TokenInfo :: "TokenInfo rop" where
  "read_TokenInfo =
     rbind read_int_x (\<lambda>max_supply.
     rbind read1 (\<lambda>flags.
     rbind read1 (\<lambda>decimals.
     rbind read32 (\<lambda>owner.
     rbind read_small_string (\<lambda>symbol.
     rbind read_byte_array (\<lambda>metadata.
     rbind (if flags AND TokenFlags_NON_FUNGIBLE \<noteq> 0 then read_byte_array else rret []) (\<lambda>token_schemas.
     rret \<lparr>ti_max_supply = max_supply, ti_flags = flags, ti_decimals = decimals, ti_owner = owner,
       ti_symbol = symbol, ti_metadata = metadata, ti_token_schemas = token_schemas\<rparr>)))))))"

interpretation token_info: carbon_codec write_TokenInfo read_TokenInfo TokenInfo_ok
proof unfold_locales
  fix x
  assume ok: "TokenInfo_ok x"
  show "rt (write_TokenInfo x) read_TokenInfo x"
    using ok unfolding write_TokenInfo_def read_TokenInfo_def
    by (cases x; cases "ti_flags x AND TokenFlags_NON_FUNGIBLE = 0")
      (auto simp: TokenInfo_ok_def intro!: wire_rt)
next
  show "safe read_TokenInfo" "raises read_TokenInfo carbon_errors"
    unfolding read_TokenInfo_def by (auto intro!: wire_safe wire_raises)
next
  fix x
  show "serialize (write_TokenInfo x) \<noteq> Inr []" "appends (write_TokenInfo x)"
    unfolding write_TokenInfo_def by auto
qed

record NFTMintInfo =
  nm_series_id :: int
  nm_rom :: bytes
  nm_ram :: bytes

definition NFTMintInfo_ok :: "NFTMintInfo \<Rightarrow> bool" where
  "NFTMintInfo_ok x \<longleftrightarrow> True"

definition write_NFTMintInfo :: "NFTMintInfo \<Rightarrow> wop" where
  "write_NFTMintInfo x = wseq [
     write4u (nm_series_id x),
     write_byte_array (nm_rom x),
     write_byte_array (nm_ram x)]"

definition read_NFTMintInfo :: "NFTMintInfo rop" where
  "read_NFTMintInfo =
     rbind read4u (\<lambda>series_id.
     rbind read_byte_array (\<lambda>rom.
     rbind read_byte_array (\<lambda>ram.
     rret \<lparr>nm_series_id = series_id, nm_rom = rom, nm_ram = ram\<rparr>)))"

interpretation nft_mint_info: carbon_codec write_NFTMintInfo read_NFTMintInfo NFTMintInfo_ok
  by unfold_locales (auto simp: write_NFTMintInfo_def read_NFTMintInfo_def NFTMintInfo_ok_def intro!: wire_rt wire_safe wire_raises)

lemmas nft_mint_info_wire [wire_rt] = nft_mint_info.rt nft_mint_info.arr.rt
lemmas nft_mint_info_safe [wire_safe] = nft_mint_info.rd_safe
lemmas nft_mint_info_raises [wire_raises] = nft_mint_info.rd_raises nft_mint_info.arr_raises
lemmas nft_mint_info_appends [simp] = nft_mint_info.wr_appends nft_mint_info.nonempty

record MintNonFungibleArgs =
  mn_token_id :: int
  mn_address :: bytes
  mn_tokens :: "NFTMintInfo list"

definition MintNonFungibleArgs_ok :: "MintNonFungibleArgs \<Rightarrow> bool" where
  "MintNonFungibleArgs_ok x \<longleftrightarrow> length (mn_address x) = 32 \<and> list_all NFTMintInfo_ok (mn_tokens x)"

definition write_MintNonFungibleArgs :: "MintNonFungibleArgs \<Rightarrow> wop" where
  "write_MintNonFungibleArgs x = wseq [
     write8u (mn_token_id x),
     write32 (mn_address x),
     write_carbon_array write_NFTMintInfo (mn_tokens x)]"

definition read_MintNonFungibleArgs :: "MintNonFungibleArgs rop" where
  "read_MintNonFungibleArgs =
     rbind read8u (\<lambda>token_id.
     rbind read32 (\<lambda>address.
     rbind (read_carbon_array read_NFTMintInfo) (\<lambda>tokens.
     rret \<lparr>mn_token_id = token_id, mn_address = address, mn_tokens = tokens\<rparr>)))"

interpretation mint_non_fungible_args: carbon_codec write_MintNonFungibleArgs read_MintNonFungibleArgs MintNonFungibleArgs_ok
  by unfold_locales (auto simp: write_MintNonFungibleArgs_def read_MintNonFungibleArgs_def MintNonFungibleArgs_ok_def intro!: wire_rt wire_safe wire_raises)

record PhantasmaNFTMintInfo =
  pm_phantasma_series_id :: int
  pm_rom :: bytes
  pm_ram :: bytes

definition PhantasmaNFTMintInfo_ok :: "PhantasmaNFTMintInfo \<Rightarrow> bool" where
  "PhantasmaNFTMintInfo_ok x \<longleftrightarrow> int256 (pm_phantasma_series_id x)"

definition write_PhantasmaNFTMintInfo :: "PhantasmaNFTMintInfo \<Rightarrow> wop" where
  "write_PhantasmaNFTMintInfo x = wseq [
     write_int_x (pm_phantasma_series_id x),
     write_byte_array (pm_rom x),
     write_byte_array (pm_ram x)]"

definition read_PhantasmaNFTMintInfo :: "PhantasmaNFTMintInfo rop" where
  "read_PhantasmaNFTMintInfo =
     rbind read_int_x (\<lambda>phantasma_series_id.
     rbind read_byte_array (\<lambda>rom.
     rbind read_byte_array (\<lambda>ram.
     rret \<lparr>pm_phantasma_series_id = phantasma_series_id, pm_rom = rom, pm_ram = ram\<rparr>)))"

interpretation phantasmanft_mint_info: carbon_codec write_PhantasmaNFTMintInfo read_PhantasmaNFTMintInfo PhantasmaNFTMintInfo_ok
  by unfold_locales (auto simp: write_PhantasmaNFTMintInfo_def read_PhantasmaNFTMintInfo_def PhantasmaNFTMintInfo_ok_def intro!: wire_rt wire_safe wire_raises)

lemmas phantasmanft_mint_info_wire [wire_rt] = phantasmanft_mint_info.rt phantasmanft_mint_info.arr.rt
lemmas phantasmanft_mint_info_safe [wire_safe] = phantasmanft_mint_info.rd_safe
lemmas phantasmanft_mint_info_raises [wire_raises] = phantasmanft_mint_info.rd_raises phantasmanft_mint_info.arr_raises
lemmas phantasmanft_mint_info_appends [simp] = phantasmanft_mint_info.wr_appends phantasmanft_mint_info.nonempty

record MintPhantasmaNonFungibleArgs =
  mp_token_id :: int
  mp_address :: bytes
  mp_tokens :: "PhantasmaNFTMintInfo list"

definition MintPhantasmaNonFungibleArgs_ok :: "MintPhantasmaNonFungibleArgs \<Rightarrow> bool" where
  "MintPhantasmaNonFungibleArgs_ok x \<longleftrightarrow> length (mp_address x) = 32 \<and> list_all PhantasmaNFTMintInfo_ok (mp_tokens x)"

definition write_MintPhantasmaNonFungibleArgs :: "MintPhantasmaNonFungibleArgs \<Rightarrow> wop" where
  "write_MintPhantasmaNonFungibleArgs x = wseq [
     write8u (mp_token_id x),
     write32 (mp_address x),
     write_carbon_array write_PhantasmaNFTMintInfo (mp_tokens x)]"

definition read_MintPhantasmaNonFungibleArgs :: "MintPhantasmaNonFungibleArgs rop" where
  "read_MintPhantasmaNonFungibleArgs =
     rbind read8u (\<lambda>token_id.
     rbind read32 (\<lambda>address.
     rbind (read_carbon_array read_PhantasmaNFTMintInfo) (\<lambda>tokens.
     rret \<lparr>mp_token_id = token_id, mp_address = address, mp_tokens = tokens\<rparr>)))"

interpretation mint_phantasma_non_fungible_args: carbon_codec write_MintPhantasmaNonFungibleArgs read_MintPhantasmaNonFungibleArgs MintPhantasmaNonFungibleArgs_ok
  by unfold_locales (auto simp: write_MintPhantasmaNonFungibleArgs_def read_MintPhantasmaNonFungibleArgs_def MintPhantasmaNonFungibleArgs_ok_def intro!: wire_rt wire_safe wire_raises)

record PhantasmaNFTMintResult =
  pr_phantasma_nft_id :: bytes
  pr_carbon_instance_id :: int

definition PhantasmaNFTMintResult_ok :: "PhantasmaNFTMintResult \<Rightarrow> bool" where
  "PhantasmaNFTMintResult_ok x \<longleftrightarrow> length (pr_phantasma_nft_id x) = 32"

definition write_PhantasmaNFTMintResult :: "PhantasmaNFTMintResult \<Rightarrow> wop" where
  "write_PhantasmaNFTMintResult x = wseq [
     write32 (pr_phantasma_nft_id x),
     write8u (pr_carbon_instance_id x)]"

definition read_PhantasmaNFTMintResult :: "PhantasmaNFTMintResult rop" where
  "read_PhantasmaNFTMintResult =
     rbind read32 (\<lambda>phantasma_nft_id.
     rbind read8u (\<lambda>carbon_instance_id.
     rret \<lparr>pr_phantasma_nft_id = phantasma_nft_id, pr_carbon_instance_id = carbon_instance_id\<rparr>))"

interpretation phantasmanft_mint_result: carbon_codec write_PhantasmaNFTMintResult read_PhantasmaNFTMintResult PhantasmaNFTMintResult_ok
  by unfold_locales (auto simp: write_PhantasmaNFTMintResult_def read_PhantasmaNFTMintResult_def PhantasmaNFTMintResult_ok_def intro!: wire_rt wire_safe wire_raises)

record MintFungibleArgs =
  mf_token_id :: int
  mf_to :: bytes
  mf_amount :: int

definition MintFungibleArgs_ok :: "MintFungibleArgs \<Rightarrow> bool" where
  "MintFungibleArgs_ok x \<longleftrightarrow> length (mf_to x) = 32 \<and> int256 (mf_amount x)"

definition write_MintFungibleArgs :: "MintFungibleArgs \<Rightarrow> wop" where
  "write_MintFungibleArgs x = wseq [
     write8u (mf_token_id x),
     write32 (mf_to x),
     write_int_x (mf_amount x)]"

definition read_MintFungibleArgs :: "MintFungibleArgs rop" where
  "read_MintFungibleArgs =
     rbind read8u (\<lambda>token_id.
     rbind read32 (\<lambda>to.
     rbind read_int_x (\<lambda>amount.
     rret \<lparr>mf_token_id = token_id, mf_to = to, mf_amount = amount\<rparr>)))"

interpretation mint_fungible_args: carbon_codec write_MintFungibleArgs read_MintFungibleArgs MintFungibleArgs_ok
  by unfold_locales (auto simp: write_MintFungibleArgs_def read_MintFungibleArgs_def MintFungibleArgs_ok_def intro!: wire_rt wire_safe wire_raises)

record TransferFungibleArgs =
  tf_to :: bytes
  tf_from_address :: bytes
  tf_token_id :: int
  tf_amount :: int

definition TransferFungibleArgs_ok :: "TransferFungibleArgs \<Rightarrow> bool" where
  "TransferFungibleArgs_ok x \<longleftrightarrow> length (tf_to x) = 32 \<and> length (tf_from_address x) = 32 \<and> int256 (tf_amount x)"

definition write_TransferFungibleArgs :: "TransferFungibleArgs \<Rightarrow> wop" where
  "write_TransferFungibleArgs x = wseq [
     write32 (tf_to x),
     write32 (tf_from_address x),
     write8u (tf_token_id x),
     write_int_x (tf_amount x)]"

definition read_TransferFungibleArgs :: "TransferFungibleArgs rop" where
  "read_TransferFungibleArgs =
     rbind read32 (\<lambda>to.
     rbind read32 (\<lambda>from_address.
     rbind read8u (\<lambda>token_id.
     rbind read_int_x (\<lambda>amount.
     rret \<lparr>tf_to = to, tf_from_address = from_address, tf_token_id = token_id, tf_amount = amount\<rparr>))))"

interpretation transfer_fungible_args: carbon_codec write_TransferFungibleArgs read_TransferFungibleArgs TransferFungibleArgs_ok
  by unfold_locales (auto simp: write_TransferFungibleArgs_def read_TransferFungibleArgs_def TransferFungibleArgs_ok_def intro!: wire_rt wire_safe wire_raises)

record TransferNonFungibleArgs =
  tn_to :: bytes
  tn_from_address :: bytes
  tn_token_id :: int
  tn_instance_ids :: "int list"

definition TransferNonFungibleArgs_ok :: "TransferNonFungibleArgs \<Rightarrow> bool" where
  "TransferNonFungibleArgs_ok x \<longleftrightarrow> length (tn_to x) = 32 \<and> length (tn_from_address x) = 32"

definition write_TransferNonFungibleArgs :: "TransferNonFungibleArgs \<Rightarrow> wop" where
  "write_TransferNonFungibleArgs x = wseq [
     write32 (tn_to x),
     write32 (tn_from_address x),
     write8u (tn_token_id x),
     write_int_array (tn_instance_ids x) 8 False]"

definition read_TransferNonFungibleArgs :: "TransferNonFungibleArgs rop" where
  "read_TransferNonFungibleArgs =
     rbind read32 (\<lambda>to.
     rbind read32 (\<lambda>from_address.
     rbind read8u (\<lambda>token_id.
     rbind (read_int_array 8 False) (\<lambda>instance_ids.
     rret \<lparr>tn_to = to, tn_from_address = from_address, tn_token_id = token_id, tn_instance_ids = instance_ids\<rparr>))))"

interpretation transfer_non_fungible_args: carbon_codec write_TransferNonFungibleArgs read_TransferNonFungibleArgs TransferNonFungibleArgs_ok
  by unfold_locales (auto simp: write_TransferNonFungibleArgs_def read_TransferNonFungibleArgs_def TransferNonFungibleArgs_ok_def intro!: wire_rt wire_safe wire_raises)

record BurnFungibleArgs =
  bf_token_id :: int
  bf_from_address :: bytes
  bf_amount :: int

definition BurnFungibleArgs_ok :: "BurnFungibleArgs \<Rightarrow> bool" where
  "BurnFungibleArgs_ok x \<longleftrightarrow> length (bf_from_address x) = 32 \<and> int256 (bf_amount x)"

definition write_BurnFungibleArgs :: "BurnFungibleArgs \<Rightarrow> wop" where
  "write_BurnFungibleArgs x = wseq [
     write8u (bf_token_id x),
     write32 (bf_from_address x),
     write_int_x (bf_amount x)]"

definition read_BurnFungibleArgs :: "BurnFungibleArgs rop" where
  "read_BurnFungibleArgs =
     rbind read8u (\<lambda>token_id.
     rbind read32 (\<lambda>from_address.
     rbind read_int_x (\<lambda>amount.
     rret \<lparr>bf_token_id = token_id, bf_from_address = from_address, bf_amount = amount\<rparr>)))"

interpretation burn_fungible_args: carbon_codec write_BurnFungibleArgs read_BurnFungibleArgs BurnFungibleArgs_ok
  by unfold_locales (auto simp: write_BurnFungibleArgs_def read_BurnFungibleArgs_def BurnFungibleArgs_ok_def intro!: wire_rt wire_safe wire_raises)

record BurnNonFungibleArgs =
  bn_token_id :: int
  bn_from_address :: bytes
  bn_instance_ids :: "int list"

definition BurnNonFungibleArgs_ok :: "BurnNonFungibleArgs \<Rightarrow> bool" where
  "BurnNonFungibleArgs_ok x \<longleftrightarrow> length (bn_from_address x) = 32"

definition write_BurnNonFungibleArgs :: "BurnNonFungibleArgs \<Rightarrow> wop" where
  "write_BurnNonFungibleArgs x = wseq [
     write8u (bn_token_id x),
     write32 (bn_from_address x),
     write_int_array (bn_instance_ids x) 8 False]"

definition read_BurnNonFungibleArgs :: "BurnNonFungibleArgs rop" where
  "read_BurnNonFungibleArgs =
     rbind read8u (\<lambda>token_id.
     rbind read32 (\<lambda>from_address.
     rbind (read_int_array 8 False) (\<lambda>instance_ids.
     rret \<lparr>bn_token_id = token_id, bn_from_address = from_address, bn_instance_ids = instance_ids\<rparr>)))"

interpretation burn_non_fungible_args: carbon_codec write_BurnNonFungibleArgs read_BurnNonFungibleArgs BurnNonFungibleArgs_ok
  by unfold_locales (auto simp: write_BurnNonFungibleArgs_def read_BurnNonFungibleArgs_def BurnNonFungibleArgs_ok_def intro!: wire_rt wire_safe wire_raises)

record UpdateSeriesMetadataArgs =
  us_token_id :: int
  us_series_id :: int
  us_metadata :: bytes

definition UpdateSeriesMetadataArgs_ok :: "UpdateSeriesMetadataArgs \<Rightarrow> bool" where
  "UpdateSeriesMetadataArgs_ok x \<longleftrightarrow> True"

definition write_UpdateSeriesMetadataArgs :: "UpdateSeriesMetadataArgs \<Rightarrow> wop" where
  "write_UpdateSeriesMetadataArgs x = wseq [
     write8u (us_token_id x),
     write4u (us_series_id x),
     write_byte_array (us_metadata x)]"

definition read_UpdateSeriesMetadataArgs :: "UpdateSeriesMetadataArgs rop" where
  "read_UpdateSeriesMetadataArgs =
     rbind read8u (\<lambda>token_id.
     rbind read4u (\<lambda>series_id.
     rbind read_byte_array (\<lambda>metadata.
     rret \<lparr>us_token_id = token_id, us_series_id = series_id, us_metadata = metadata\<rparr>)))"

interpretation update_series_metadata_args: carbon_codec write_UpdateSeriesMetadataArgs read_UpdateSeriesMetadataArgs UpdateSeriesMetadataArgs_ok
  by unfold_locales (auto simp: write_UpdateSeriesMetadataArgs_def read_UpdateSeriesMetadataArgs_def UpdateSeriesMetadataArgs_ok_def intro!: wire_rt wire_safe wire_raises)

section \<open>Market\<close>

text \<open>\<^verbatim>\<open>ListingType\<close> has the single member \<^verbatim>\<open>FIXED_PRICE\<close>.\<close>

definition ListingType :: "int \<Rightarrow> int result" where
  "ListingType v = (if v = 0 then Inr 0 else Inl ValueError)"

record TokenListing =
  tl_type :: int
  tl_seller :: bytes
  tl_quote_token_id :: int
  tl_price :: int
  tl_start_date :: int
  tl_end_date :: int

definition TokenListing_ok :: "TokenListing \<Rightarrow> bool" where
  "TokenListing_ok x \<longleftrightarrow> tl_type x = 0 \<and> length (tl_seller x) = 32 \<and> int256 (tl_price x)"

definition write_TokenListing :: "TokenListing \<Rightarrow> wop" where
  "write_TokenListing x = wseq [
     write1 (tl_type x),
     write32 (tl_seller x),
     write8u (tl_quote_token_id x),
     write_int_x (tl_price x),
     write8 (tl_start_date x),
     write8 (tl_end_date x)]"

definition read_TokenListing :: "TokenListing rop" where
  "read_TokenListing =
     rbind (rbind read1 (\<lambda>v. rlift (ListingType v))) (\<lambda>type.
     rbind read32 (\<lambda>seller.
     rbind read8u (\<lambda>quote_token_id.
     rbind read_int_x (\<lambda>price.
     rbind read8 (\<lambda>start_date.
     rbind read8 (\<lambda>end_date.
     rret \<lparr>tl_type = type, tl_seller = seller, tl_quote_token_id = quote_token_id,
       tl_price = price, tl_start_date = start_date, tl_end_date = end_date\<rparr>))))))"

interpretation token_listing: carbon_codec write_TokenListing read_TokenListing TokenListing_ok
proof unfold_locales
  fix x
  assume ok: "TokenListing_ok x"
  then have "rt (write1 (tl_type x)) (rbind read1 (\<lambda>v. rlift (ListingType v))) (tl_type x)"
    by (intro rt_bind_lift [OF rt_write1]) (simp add: ListingType_def TokenListing_ok_def)
  then show "rt (write_TokenListing x) read_TokenListing x"
    unfolding write_TokenListing_def read_TokenListing_def using ok
    by (auto simp: TokenListing_ok_def intro!: wire_rt)
qed (auto simp: write_TokenListing_def read_TokenListing_def ListingType_def
       intro!: wire_safe wire_raises split: if_splits)

record MarketConfig =
  mc_minimum_listing_time :: int
  mc_maximum_listing_time :: int
  mc_delisting_grace :: int
  mc_flags :: int

definition MarketConfig_ok :: "MarketConfig \<Rightarrow> bool" where
  "MarketConfig_ok x \<longleftrightarrow> True"

definition write_MarketConfig :: "MarketConfig \<Rightarrow> wop" where
  "write_MarketConfig x = wseq [
     write8u (mc_minimum_listing_time x),
     write8u (mc_maximum_listing_time x),
     write8u (mc_delisting_grace x),
     write4u (mc_flags x)]"

definition read_MarketConfig :: "MarketConfig rop" where
  "read_MarketConfig =
     rbind read8u (\<lambda>minimum_listing_time.
     rbind read8u (\<lambda>maximum_listing_time.
     rbind read8u (\<lambda>delisting_grace.
     rbind read4u (\<lambda>flags.
     rret \<lparr>mc_minimum_listing_time = minimum_listing_time, mc_maximum_listing_time = maximum_listing_time, mc_delisting_grace = delisting_grace, mc_flags = flags\<rparr>))))"

interpretation market_config: carbon_codec write_MarketConfig read_MarketConfig MarketConfig_ok
  by unfold_locales (auto simp: write_MarketConfig_def read_MarketConfig_def MarketConfig_ok_def intro!: wire_rt wire_safe wire_raises)

record MarketSellTokenArgs =
  ms_from_address :: bytes
  ms_token_id :: int
  ms_instance_id :: int
  ms_quote_token_id :: int
  ms_price :: int
  ms_end_date :: int

definition MarketSellTokenArgs_ok :: "MarketSellTokenArgs \<Rightarrow> bool" where
  "MarketSellTokenArgs_ok x \<longleftrightarrow> length (ms_from_address x) = 32 \<and> int256 (ms_price x)"

definition write_MarketSellTokenArgs :: "MarketSellTokenArgs \<Rightarrow> wop" where
  "write_MarketSellTokenArgs x = wseq [
     write32 (ms_from_address x),
     write8u (ms_token_id x),
     write8u (ms_instance_id x),
     write8u (ms_quote_token_id x),
     write_int_x (ms_price x),
     write8 (ms_end_date x)]"

definition read_MarketSellTokenArgs :: "MarketSellTokenArgs rop" where
  "read_MarketSellTokenArgs =
     rbind read32 (\<lambda>from_address.
     rbind read8u (\<lambda>token_id.
     rbind read8u (\<lambda>instance_id.
     rbind read8u (\<lambda>quote_token_id.
     rbind read_int_x (\<lambda>price.
     rbind read8 (\<lambda>end_date.
     rret \<lparr>ms_from_address = from_address, ms_token_id = token_id, ms_instance_id = instance_id, ms_quote_token_id = quote_token_id, ms_price = price, ms_end_date = end_date\<rparr>))))))"

interpretation market_sell_token_args: carbon_codec write_MarketSellTokenArgs read_MarketSellTokenArgs MarketSellTokenArgs_ok
  by unfold_locales (auto simp: write_MarketSellTokenArgs_def read_MarketSellTokenArgs_def MarketSellTokenArgs_ok_def intro!: wire_rt wire_safe wire_raises)

record MarketCancelSaleArgs =
  ca_token_id :: int
  ca_instance_id :: int

definition MarketCancelSaleArgs_ok :: "MarketCancelSaleArgs \<Rightarrow> bool" where
  "MarketCancelSaleArgs_ok x \<longleftrightarrow> True"

definition write_MarketCancelSaleArgs :: "MarketCancelSaleArgs \<Rightarrow> wop" where
  "write_MarketCancelSaleArgs x = wseq [
     write8u (ca_token_id x),
     write8u (ca_instance_id x)]"

definition read_MarketCancelSaleArgs :: "MarketCancelSaleArgs rop" where
  "read_MarketCancelSaleArgs =
     rbind read8u (\<lambda>token_id.
     rbind read8u (\<lambda>instance_id.
     rret \<lparr>ca_token_id = token_id, ca_instance_id = instance_id\<rparr>))"

interpretation market_cancel_sale_args: carbon_codec write_MarketCancelSaleArgs read_MarketCancelSaleArgs MarketCancelSaleArgs_ok
  by unfold_locales (auto simp: write_MarketCancelSaleArgs_def read_MarketCancelSaleArgs_def MarketCancelSaleArgs_ok_def intro!: wire_rt wire_safe wire_raises)

record MarketBuyTokenArgs =
  mb_from_address :: bytes
  mb_token_id :: int
  mb_instance_id :: int

definition MarketBuyTokenArgs_ok :: "MarketBuyTokenArgs \<Rightarrow> bool" where
  "MarketBuyTokenArgs_ok x \<longleftrightarrow> length (mb_from_address x) = 32"

definition write_MarketBuyTokenArgs :: "MarketBuyTokenArgs \<Rightarrow> wop" where
  "write_MarketBuyTokenArgs x = wseq [
     write32 (mb_from_address x),
     write8u (mb_token_id x),
     write8u (mb_instance_id x)]"

definition read_MarketBuyTokenArgs :: "MarketBuyTokenArgs rop" where
  "read_MarketBuyTokenArgs =
     rbind read32 (\<lambda>from_address.
     rbind read8u (\<lambda>token_id.
     rbind read8u (\<lambda>instance_id.
     rret \<lparr>mb_from_address = from_address, mb_token_id = token_id, mb_instance_id = instance_id\<rparr>)))"

interpretation market_buy_token_args: carbon_codec write_MarketBuyTokenArgs read_MarketBuyTokenArgs MarketBuyTokenArgs_ok
  by unfold_locales (auto simp: write_MarketBuyTokenArgs_def read_MarketBuyTokenArgs_def MarketBuyTokenArgs_ok_def intro!: wire_rt wire_safe wire_raises)

record MarketGetTokenListingCountArgs =
  lc_token_id :: int

definition MarketGetTokenListingCountArgs_ok :: "MarketGetTokenListingCountArgs \<Rightarrow> bool" where
  "MarketGetTokenListingCountArgs_ok x \<longleftrightarrow> True"

definition write_MarketGetTokenListingCountArgs :: "MarketGetTokenListingCountArgs \<Rightarrow> wop" where
  "write_MarketGetTokenListingCountArgs x = wseq [
     write8u (lc_token_id x)]"

definition read_MarketGetTokenListingCountArgs :: "MarketGetTokenListingCountArgs rop" where
  "read_MarketGetTokenListingCountArgs =
     rbind read8u (\<lambda>token_id.
     rret \<lparr>lc_token_id = token_id\<rparr>)"

interpretation market_get_token_listing_count_args: carbon_codec write_MarketGetTokenListingCountArgs read_MarketGetTokenListingCountArgs MarketGetTokenListingCountArgs_ok
  by unfold_locales (auto simp: write_MarketGetTokenListingCountArgs_def read_MarketGetTokenListingCountArgs_def MarketGetTokenListingCountArgs_ok_def intro!: wire_rt wire_safe wire_raises)

record MarketGetTokenListingInfoArgs =
  li_token_id :: int
  li_instance_id :: int

definition MarketGetTokenListingInfoArgs_ok :: "MarketGetTokenListingInfoArgs \<Rightarrow> bool" where
  "MarketGetTokenListingInfoArgs_ok x \<longleftrightarrow> True"

definition write_MarketGetTokenListingInfoArgs :: "MarketGetTokenListingInfoArgs \<Rightarrow> wop" where
  "write_MarketGetTokenListingInfoArgs x = wseq [
     write8u (li_token_id x),
     write8u (li_instance_id x)]"

definition read_MarketGetTokenListingInfoArgs :: "MarketGetTokenListingInfoArgs rop" where
  "read_MarketGetTokenListingInfoArgs =
     rbind read8u (\<lambda>token_id.
     rbind read8u (\<lambda>instance_id.
     rret \<lparr>li_token_id = token_id, li_instance_id = instance_id\<rparr>))"

interpretation market_get_token_listing_info_args: carbon_codec write_MarketGetTokenListingInfoArgs read_MarketGetTokenListingInfoArgs MarketGetTokenListingInfoArgs_ok
  by unfold_locales (auto simp: write_MarketGetTokenListingInfoArgs_def read_MarketGetTokenListingInfoArgs_def MarketGetTokenListingInfoArgs_ok_def intro!: wire_rt wire_safe wire_raises)

definition default_market_config :: MarketConfig where
  "default_market_config = \<lparr>mc_minimum_listing_time = 1000,
     mc_maximum_listing_time = 1000 * 60 * 60 * 24 * 90,
     mc_delisting_grace = 1000 * 60 * 60 * 24, mc_flags = 1 OR 2\<rparr>"

section \<open>Properties\<close>

text \<open>A configuration without the fields a version-0 image does not carry.\<close>

definition gas_config_image :: "GasConfig \<Rightarrow> GasConfig" where
  "gas_config_image x =
     (if gc_version x = 0
      then x\<lparr>gc_minimum_gas_bill := 0, gc_gas_producer_ratio_mul := 0, gc_gas_producer_ratio_shift := 0,
        gc_gas_dapp_ratio_mul := 0, gc_gas_dapp_ratio_shift := 0, gc_policy_fee_create_token_base := 0,
        gc_policy_fee_create_token_symbol := 0, gc_policy_fee_create_token_series := 0,
        gc_policy_fee_register_name := 0, gc_legacy_data_escrow_per_row := 0\<rparr>
      else x)"

lemma write_gas_config_image: "write_GasConfig (gas_config_image x) = write_GasConfig x"
  by (simp add: gas_config_image_def write_GasConfig_def)

lemma gas_config_image_ok: "GasConfig_ok (gas_config_image x)"
  by (simp add: gas_config_image_def GasConfig_ok_def)

lemma gas_config_image_id: "GasConfig_ok x \<Longrightarrow> gas_config_image x = x"
  by (cases x) (auto simp: gas_config_image_def GasConfig_ok_def)

text \<open>A chain configuration as of version 0, with a minimum bill that its image cannot carry.\<close>

definition example_gas_config :: GasConfig where
  "example_gas_config = \<lparr>gc_version = 0, gc_max_name_length = 32, gc_max_token_symbol_length = 10,
     gc_fee_shift = 0, gc_max_structure_size = 1048576, gc_fee_multiplier = 10000, gc_gas_token_id = 2,
     gc_data_token_id = 1, gc_minimum_gas_offer = 100000, gc_data_escrow_per_row = 1,
     gc_gas_fee_transfer = 10, gc_gas_fee_query = 1, gc_gas_fee_create_token_base = 10000000000,
     gc_gas_fee_create_token_symbol = 10000000000, gc_gas_fee_create_token_series = 2500000000,
     gc_gas_fee_per_byte = 1, gc_gas_fee_register_name = 1000000000, gc_gas_burn_ratio_mul = 1,
     gc_gas_burn_ratio_shift = 1, gc_minimum_gas_bill = 7, gc_gas_producer_ratio_mul = 0,
     gc_gas_producer_ratio_shift = 0, gc_gas_dapp_ratio_mul = 0, gc_gas_dapp_ratio_shift = 0,
     gc_policy_fee_create_token_base = 0, gc_policy_fee_create_token_symbol = 0,
     gc_policy_fee_create_token_series = 0, gc_policy_fee_register_name = 0,
     gc_legacy_data_escrow_per_row = 0\<rparr>"

lemma example_gas_config_written: "\<exists>bs. serialize (write_GasConfig example_gas_config) = Inr bs"
  by (simp add: write_GasConfig_def example_gas_config_def serialize_wseq serialize_ints)

text \<open>A gas configuration comes back from its image: a version-0 image drops the fields of the
  second gas model, every other image keeps all of them, and an image with bytes after it is rejected.\<close>

theorem gas_config_roundtrip:
  assumes "serialize (write_GasConfig x) = Inr bs"
  shows "deserialize read_GasConfig bs = Inr (gas_config_image x) \<and>
    (\<forall>cs. cs \<noteq> [] \<longrightarrow> deserialize read_GasConfig (bs @ cs) = Inl SerializationError)"
proof -
  have s: "serialize (write_GasConfig (gas_config_image x)) = Inr bs"
    using assms by (simp only: write_gas_config_image)
  show ?thesis
    using gas_config.roundtrip [OF gas_config_image_ok s] gas_config.trailing [OF gas_config_image_ok s] by simp
qed

theorem gas_config_roundtrip_witness:
  "\<exists>bs. serialize (write_GasConfig example_gas_config) = Inr bs \<and>
     deserialize read_GasConfig bs = Inr (example_gas_config\<lparr>gc_minimum_gas_bill := 0\<rparr>)"
proof -
  obtain bs where bs: "serialize (write_GasConfig example_gas_config) = Inr bs"
    using example_gas_config_written by blast
  have "gas_config_image example_gas_config = example_gas_config\<lparr>gc_minimum_gas_bill := 0\<rparr>"
    by (simp add: gas_config_image_def example_gas_config_def)
  with gas_config_roundtrip [OF bs] bs show ?thesis by simp
qed

text \<open>A token description comes back from its wire form; only a non-fungible token carries its
  schemas, and every strict prefix of the wire form is rejected.\<close>

theorem token_info_roundtrip:
  assumes "int256 (ti_max_supply x)" "length (ti_owner x) = 32" "serialize (write_TokenInfo x) = Inr bs"
  shows "deserialize read_TokenInfo bs =
      Inr (if ti_flags x AND TokenFlags_NON_FUNGIBLE = 0 then x\<lparr>ti_token_schemas := []\<rparr> else x) \<and>
    (\<forall>pre post. bs = pre @ post \<longrightarrow> post \<noteq> [] \<longrightarrow> (\<exists>e. deserialize read_TokenInfo pre = Inl e))"
proof -
  let ?y = "if ti_flags x AND TokenFlags_NON_FUNGIBLE = 0 then x\<lparr>ti_token_schemas := []\<rparr> else x"
  have ok: "TokenInfo_ok ?y" using assms(1,2) by (simp add: TokenInfo_ok_def)
  have s: "serialize (write_TokenInfo ?y) = Inr bs"
    using assms(3) by (cases "ti_flags x AND TokenFlags_NON_FUNGIBLE = 0") (simp_all add: write_TokenInfo_def)
  show ?thesis using token_info.roundtrip [OF ok s] token_info.truncated [OF ok] s by blast
qed

theorem token_info_roundtrip_witness:
  "\<exists>bs. serialize (write_TokenInfo \<lparr>ti_max_supply = 0, ti_flags = 0, ti_decimals = 8,
       ti_owner = replicate 32 7, ti_symbol = [], ti_metadata = [], ti_token_schemas = [1]\<rparr>) = Inr bs \<and>
     deserialize read_TokenInfo bs = Inr \<lparr>ti_max_supply = 0, ti_flags = 0, ti_decimals = 8,
       ti_owner = replicate 32 7, ti_symbol = [], ti_metadata = [], ti_token_schemas = []\<rparr>"
proof -
  let ?x = "\<lparr>ti_max_supply = 0, ti_flags = 0, ti_decimals = 8, ti_owner = replicate 32 7,
    ti_symbol = [], ti_metadata = [], ti_token_schemas = [1]\<rparr>"
  have s: "\<exists>bs. serialize (write_TokenInfo ?x) = Inr bs"
    by (simp add: write_TokenInfo_def serialize_wseq serialize_ints serialize_fixed serialize_small_string
        write_int_x_def is_8_byte_safe_def write_byte_array_def)
  then obtain bs where bs: "serialize (write_TokenInfo ?x) = Inr bs" by blast
  from token_info_roundtrip [OF _ _ bs] bs show ?thesis by (auto simp: int256_def)
qed

end
