(* ===== verification/CarbonSchema.thy ===== *)
theory CarbonSchema
  imports CarbonMsg
begin

text \<open>
  The VM schema types of \<^verbatim>\<open>carbon.py\<close>: \<^verbatim>\<open>VMType\<close>, the mutually recursive
  \<^verbatim>\<open>VMVariableSchema\<close>, \<^verbatim>\<open>VMNamedVariableSchema\<close> and \<^verbatim>\<open>VMStructSchema\<close>, and the messages
  that contain schemas (token schemas, series information and the series contract arguments).

  The readers recurse once per nesting level of the data. Their first argument is the number of
  nested reader calls the interpreter still allows; when it is used up Python raises
  \<^verbatim>\<open>RecursionError\<close>. \<open>read_struct_schema_enough_depth\<close> shows that an allowance above the number of
  remaining bytes is never used up, so with such an allowance the model is the loop-free function
  the code describes.
\<close>

section \<open>VM types\<close>

datatype vm_type =
    VM_DYNAMIC
  | VM_ARRAY_DYNAMIC
  | VM_BYTES
  | VM_ARRAY_BYTES
  | VM_STRUCT
  | VM_ARRAY_STRUCT
  | VM_INT8
  | VM_ARRAY_INT8
  | VM_INT16
  | VM_ARRAY_INT16
  | VM_INT32
  | VM_ARRAY_INT32
  | VM_INT64
  | VM_ARRAY_INT64
  | VM_INT256
  | VM_ARRAY_INT256
  | VM_BYTES16
  | VM_ARRAY_BYTES16
  | VM_BYTES32
  | VM_ARRAY_BYTES32
  | VM_BYTES64
  | VM_ARRAY_BYTES64
  | VM_STRING
  | VM_ARRAY_STRING

fun vm_code :: "vm_type \<Rightarrow> int" where
  "vm_code VM_DYNAMIC = 0"
| "vm_code VM_ARRAY_DYNAMIC = 1"
| "vm_code VM_BYTES = 2"
| "vm_code VM_ARRAY_BYTES = 3"
| "vm_code VM_STRUCT = 4"
| "vm_code VM_ARRAY_STRUCT = 5"
| "vm_code VM_INT8 = 6"
| "vm_code VM_ARRAY_INT8 = 7"
| "vm_code VM_INT16 = 8"
| "vm_code VM_ARRAY_INT16 = 9"
| "vm_code VM_INT32 = 10"
| "vm_code VM_ARRAY_INT32 = 11"
| "vm_code VM_INT64 = 12"
| "vm_code VM_ARRAY_INT64 = 13"
| "vm_code VM_INT256 = 14"
| "vm_code VM_ARRAY_INT256 = 15"
| "vm_code VM_BYTES16 = 16"
| "vm_code VM_ARRAY_BYTES16 = 17"
| "vm_code VM_BYTES32 = 18"
| "vm_code VM_ARRAY_BYTES32 = 19"
| "vm_code VM_BYTES64 = 20"
| "vm_code VM_ARRAY_BYTES64 = 21"
| "vm_code VM_STRING = 22"
| "vm_code VM_ARRAY_STRING = 23"

definition vm_types :: "vm_type list" where
  "vm_types = [VM_DYNAMIC, VM_ARRAY_DYNAMIC,
     VM_BYTES, VM_ARRAY_BYTES,
     VM_STRUCT, VM_ARRAY_STRUCT,
     VM_INT8, VM_ARRAY_INT8,
     VM_INT16, VM_ARRAY_INT16,
     VM_INT32, VM_ARRAY_INT32,
     VM_INT64, VM_ARRAY_INT64,
     VM_INT256, VM_ARRAY_INT256,
     VM_BYTES16, VM_ARRAY_BYTES16,
     VM_BYTES32, VM_ARRAY_BYTES32,
     VM_BYTES64, VM_ARRAY_BYTES64,
     VM_STRING, VM_ARRAY_STRING]"

text \<open>\<^verbatim>\<open>VMType(v)\<close>: the enum constructor raises \<^verbatim>\<open>ValueError\<close> for a value that is not a member.\<close>

definition VMType :: "int \<Rightarrow> vm_type result" where
  "VMType v = (if 0 \<le> v \<and> v < 24 then Inr (vm_types ! nat v) else Inl ValueError)"

lemma VMType_code [simp]: "VMType (vm_code t) = Inr t"
  by (cases t) (simp_all add: VMType_def vm_types_def)

lemma vm_code_VMType: "VMType v = Inr t \<Longrightarrow> vm_code t = v"
proof -
  have "list_all (\<lambda>i. vm_code (vm_types ! i) = int i) [0..<24]" by code_simp
  then have "i < 24 \<Longrightarrow> vm_code (vm_types ! i) = int i" for i by (simp add: list_all_iff)
  then show "VMType v = Inr t \<Longrightarrow> vm_code t = v"
    by (auto simp: VMType_def nat_less_iff split: if_splits)
qed

lemma VMType_error: "VMType v = Inl e \<Longrightarrow> e = ValueError"
  by (auto simp: VMType_def split: if_splits)

definition read_vm_type :: "vm_type rop" where
  "read_vm_type = rbind read1 (\<lambda>v. rlift (VMType v))"

lemma rt_vm_type [wire_rt]: "rt (write1 (vm_code t)) read_vm_type t"
  unfolding read_vm_type_def by (rule rt_bind_lift [OF rt_write1]) simp

lemma safe_vm_type [wire_safe]: "safe read_vm_type"
  unfolding read_vm_type_def by (auto intro!: wire_safe)

lemma raises_vm_type [wire_raises]: "raises read_vm_type carbon_errors"
  unfolding read_vm_type_def by (auto intro!: wire_raises dest: VMType_error)

definition is_struct_type :: "vm_type \<Rightarrow> bool" where
  "is_struct_type t \<longleftrightarrow> t = VM_STRUCT \<or> t = VM_ARRAY_STRUCT"

section \<open>Schemas\<close>

datatype var_schema = VMVariableSchema (vs_type: vm_type) (vs_struct: "struct_schema option")
  and named_schema = VMNamedVariableSchema (ns_name: small_string) (ns_schema: var_schema)
  and struct_schema = VMStructSchema (ss_fields: "named_schema list") (ss_flags: int)

text \<open>\<^verbatim>\<open>VMStructSchema()\<close>\<close>

definition empty_schema :: struct_schema where
  "empty_schema = VMStructSchema [] 0"

definition VMNamedVariableSchema_make :: "pystr \<Rightarrow> vm_type \<Rightarrow> struct_schema option \<Rightarrow> named_schema result" where
  "VMNamedVariableSchema_make name vm_type struct_def =
     rthen (SmallString name) (\<lambda>n. Inr (VMNamedVariableSchema n (VMVariableSchema vm_type struct_def)))"

fun write_var_schema :: "var_schema \<Rightarrow> wop"
  and write_named_schema :: "named_schema \<Rightarrow> wop"
  and write_struct_schema :: "struct_schema \<Rightarrow> wop" where
  "write_var_schema (VMVariableSchema ty None) =
     wseq (write1 (vm_code ty) # (if is_struct_type ty then [wseq [write4 0, write1 0]] else []))"
| "write_var_schema (VMVariableSchema ty (Some struct_def)) =
     wseq (write1 (vm_code ty) # (if is_struct_type ty then [write_struct_schema struct_def] else []))"
| "write_named_schema (VMNamedVariableSchema name schema) =
     wseq [write_small_string name, write_var_schema schema]"
| "write_struct_schema (VMStructSchema flds flags) =
     wseq [write_carbon_array write_named_schema flds, write1 flags]"

text \<open>A missing struct definition is written as the default \<^verbatim>\<open>VMStructSchema()\<close>.\<close>

lemma write_empty_schema: "serialize (write_struct_schema empty_schema) = serialize (wseq [write4 0, write1 0])"
  by (simp add: empty_schema_def write_carbon_array_def serialize_wseq rthen_def split: sum.splits)

fun read_var_schema :: "nat \<Rightarrow> var_schema rop"
  and read_named_schema :: "nat \<Rightarrow> named_schema rop"
  and read_struct_schema :: "nat \<Rightarrow> struct_schema rop" where
  "read_var_schema 0 = rfail RecursionError"
| "read_var_schema (Suc depth) = rbind read_vm_type (\<lambda>ty.
     rbind (if is_struct_type ty then rbind (read_struct_schema depth) (\<lambda>s. rret (Some s)) else rret None) (\<lambda>struct_def.
     rret (VMVariableSchema ty struct_def)))"
| "read_named_schema 0 = rfail RecursionError"
| "read_named_schema (Suc depth) = rbind read_small_string (\<lambda>name.
     rbind (read_var_schema depth) (\<lambda>schema.
     rret (VMNamedVariableSchema name schema)))"
| "read_struct_schema 0 = rfail RecursionError"
| "read_struct_schema (Suc depth) = rbind (read_carbon_array (read_named_schema depth)) (\<lambda>flds.
     rbind read1 (\<lambda>flags.
     rret (VMStructSchema flds flags)))"

text \<open>Values the reader returns: a struct definition exactly on the struct types.\<close>

fun var_schema_ok :: "var_schema \<Rightarrow> bool"
  and named_schema_ok :: "named_schema \<Rightarrow> bool"
  and struct_schema_ok :: "struct_schema \<Rightarrow> bool" where
  "var_schema_ok (VMVariableSchema ty None) \<longleftrightarrow> \<not> is_struct_type ty"
| "var_schema_ok (VMVariableSchema ty (Some s)) \<longleftrightarrow> is_struct_type ty \<and> struct_schema_ok s"
| "named_schema_ok (VMNamedVariableSchema name schema) \<longleftrightarrow> var_schema_ok schema"
| "struct_schema_ok (VMStructSchema flds flags) \<longleftrightarrow> list_all named_schema_ok flds"

text \<open>The number of nested reader calls a schema needs.\<close>

fun var_depth :: "var_schema \<Rightarrow> nat"
  and named_depth :: "named_schema \<Rightarrow> nat"
  and struct_depth :: "struct_schema \<Rightarrow> nat" where
  "var_depth (VMVariableSchema ty None) = 1"
| "var_depth (VMVariableSchema ty (Some s)) = Suc (struct_depth s)"
| "named_depth (VMNamedVariableSchema name schema) = Suc (var_depth schema)"
| "struct_depth (VMStructSchema flds flags) = Suc (foldr max (map named_depth flds) 0)"

definition schema_ok :: "nat \<Rightarrow> struct_schema \<Rightarrow> bool" where
  "schema_ok depth s \<longleftrightarrow> struct_schema_ok s \<and> struct_depth s \<le> depth"

lemma foldr_max_le: "foldr max ns 0 \<le> d \<longleftrightarrow> (\<forall>n \<in> set ns. n \<le> (d :: nat))"
  by (induction ns) auto

lemma schema_appends:
  "appends (write_var_schema v)" "appends (write_named_schema n)" "appends (write_struct_schema s)"
proof (induction v and n and s rule: write_var_schema_write_named_schema_write_struct_schema.induct)
  case (4 flds flags)
  then show ?case by (auto simp: write_carbon_array_def list_all_iff)
qed simp_all

lemma schema_nonempty:
  "serialize (write_var_schema v) \<noteq> Inr []" "serialize (write_named_schema n) \<noteq> Inr []"
  "serialize (write_struct_schema s) \<noteq> Inr []"
proof -
  show "serialize (write_named_schema n) \<noteq> Inr []" by (cases n) (simp add: schema_appends)
  show "serialize (write_struct_schema s) \<noteq> Inr []"
    by (cases s) (simp add: write_carbon_array_def schema_appends list_all_iff)
  show "serialize (write_var_schema v) \<noteq> Inr []"
  proof (cases v)
    case (VMVariableSchema ty sd)
    then show ?thesis by (cases sd) (simp_all add: schema_appends)
  qed
qed

lemma rt_schemas:
  "var_schema_ok v \<Longrightarrow> var_depth v \<le> d \<Longrightarrow> rt (write_var_schema v) (read_var_schema d) v"
  "named_schema_ok n \<Longrightarrow> named_depth n \<le> d \<Longrightarrow> rt (write_named_schema n) (read_named_schema d) n"
  "struct_schema_ok s \<Longrightarrow> struct_depth s \<le> d \<Longrightarrow> rt (write_struct_schema s) (read_struct_schema d) s"
proof (induction v and n and s arbitrary: d and d and d
    rule: write_var_schema_write_named_schema_write_struct_schema.induct)
  case (1 ty)
  then obtain d' where "d = Suc d'" by (cases d) auto
  with 1 show ?case by (auto intro!: wire_rt)
next
  case (2 ty s)
  then obtain d' where d: "d = Suc d'" by (cases d) auto
  have s: "is_struct_type ty" using 2 by simp
  then have "rt (write_struct_schema s) (read_struct_schema d') s" using 2 d by simp
  then have "rt (write_struct_schema s) (rbind (read_struct_schema d') (\<lambda>s. rret (Some s))) (Some s)"
    by (rule rt_map) simp
  with s show ?case by (auto simp: d intro!: wire_rt)
next
  case (3 name schema)
  then obtain d' where "d = Suc d'" by (cases d) auto
  with 3 show ?case by (auto intro!: wire_rt)
next
  case (4 flds flags)
  then obtain d' where d: "d = Suc d'" by (cases d) auto
  have "rt (write_named_schema n) (read_named_schema d') n" if "n \<in> set flds" for n
    using 4 that by (auto simp: d list_all_iff foldr_max_le)
  then have "rt (write_carbon_array write_named_schema flds) (read_carbon_array (read_named_schema d')) flds"
    by (rule rt_carbon_array) (simp_all add: schema_nonempty)
  then show ?case by (auto simp: d intro!: wire_rt)
qed

lemma safe_schemas:
  "safe (read_var_schema d)" "safe (read_named_schema d)" "safe (read_struct_schema d)"
proof -
  have "safe (read_var_schema d) \<and> safe (read_named_schema d) \<and> safe (read_struct_schema d)"
    by (induction d) (auto intro!: wire_safe)
  then show "safe (read_var_schema d)" "safe (read_named_schema d)" "safe (read_struct_schema d)" by auto
qed

lemma raises_schemas:
  "raises (read_var_schema d) carbon_errors" "raises (read_named_schema d) carbon_errors"
  "raises (read_struct_schema d) carbon_errors"
proof -
  have "raises (read_var_schema d) carbon_errors \<and> raises (read_named_schema d) carbon_errors \<and>
    raises (read_struct_schema d) carbon_errors"
    by (induction d) (auto intro!: wire_raises)
  then show "raises (read_var_schema d) carbon_errors" "raises (read_named_schema d) carbon_errors"
    "raises (read_struct_schema d) carbon_errors" by auto
qed

interpretation struct_schema: carbon_codec write_struct_schema "read_struct_schema depth" "schema_ok depth"
  for depth
  by unfold_locales (auto simp: schema_ok_def safe_schemas raises_schemas schema_appends schema_nonempty intro: rt_schemas)

lemmas struct_schema_wire [wire_rt] = struct_schema.rt
lemmas struct_schema_safe [wire_safe] = struct_schema.rd_safe
lemmas struct_schema_raises [wire_raises] = struct_schema.rd_raises
lemmas struct_schema_appends [simp] = struct_schema.wr_appends struct_schema.nonempty

subsection \<open>The depth allowance\<close>

text \<open>A reader that consumes at least \<open>k\<close> bytes, and one that stays within an allowance of \<open>d\<close>.\<close>

definition consumes :: "nat \<Rightarrow> 'a rop \<Rightarrow> bool" where
  "consumes k p \<longleftrightarrow> (\<forall>r x r'. roffset r \<le> length (rdata r) \<longrightarrow> p r = Inr (x, r') \<longrightarrow>
     roffset r' \<le> length (rdata r') \<and> remaining r' + int k \<le> remaining r)"

definition within :: "nat \<Rightarrow> 'a rop \<Rightarrow> bool" where
  "within d p \<longleftrightarrow>
     (\<forall>r. roffset r \<le> length (rdata r) \<longrightarrow> remaining r < int d \<longrightarrow> p r \<noteq> Inl RecursionError)"

lemma consumes_read: "0 \<le> n \<Longrightarrow> k = nat n \<Longrightarrow> consumes k (read n)"
  by (auto simp: consumes_def read_def remaining_def split: if_splits)

lemma consumes_read_any: "consumes 0 (read n)"
  by (auto simp: consumes_def read_def remaining_def split: if_splits)

lemma consumes_bind: "consumes k p \<Longrightarrow> (\<And>x. consumes j (f x)) \<Longrightarrow> consumes (k + j) (rbind p f)"
proof -
  assume p: "consumes k p" and f: "\<And>x. consumes j (f x)"
  show ?thesis
    unfolding consumes_def
  proof (intro allI impI)
    fix r x r'
    assume o: "roffset r \<le> length (rdata r)" and "rbind p f r = Inr (x, r')"
    then obtain y s where y: "p r = Inr (y, s)" and s: "f y s = Inr (x, r')"
      by (auto simp: rbind_def rthen_Inr_iff)
    from p o y have "roffset s \<le> length (rdata s)" "remaining s + int k \<le> remaining r"
      unfolding consumes_def by blast+
    moreover from this f s have "roffset r' \<le> length (rdata r')" "remaining r' + int j \<le> remaining s"
      unfolding consumes_def by blast+
    ultimately show "roffset r' \<le> length (rdata r') \<and> remaining r' + int (k + j) \<le> remaining r" by simp
  qed
qed

lemma consumes_bind_first: "consumes k p \<Longrightarrow> (\<And>x. consumes 0 (f x)) \<Longrightarrow> consumes k (rbind p f)"
  using consumes_bind [of k p 0 f] by simp

lemma consumes_le: "consumes k p \<Longrightarrow> j \<le> k \<Longrightarrow> consumes j p"
  by (fastforce simp: consumes_def)

lemma consumes_ret: "consumes 0 (rret x)" "consumes 0 (rlift m)" "consumes k (rfail e)"
  by (auto simp: consumes_def rret_def rlift_def rfail_def rthen_Inr_iff)

lemma consumes_read_n: "consumes 0 p \<Longrightarrow> consumes 0 (read_n n p)"
  by (induction n) (auto intro!: consumes_ret consumes_bind_first)

lemma consumes_read1: "consumes 1 read1"
  unfolding read1_def by (rule consumes_bind_first [OF consumes_read]) (simp_all add: consumes_ret)

lemma consumes_read_length: "consumes 4 read_length"
proof -
  have r4: "consumes 4 read4"
    unfolding read4_def by (rule consumes_bind_first [OF consumes_read]) (simp_all add: consumes_ret)
  show ?thesis
    unfolding read_length_def
    by (rule consumes_bind_first [OF r4]) (auto simp: consumes_def split: if_splits)
qed

lemma consumes_small_string: "consumes 1 read_small_string"
  unfolding read_small_string_def
  by (rule consumes_bind_first) (rule consumes_bind_first [OF consumes_read1 consumes_read_any], rule consumes_ret)

lemma consumes_vm_type: "consumes 1 read_vm_type"
  unfolding read_vm_type_def by (rule consumes_bind_first [OF consumes_read1 consumes_ret(2)])

lemma consumes_schemas:
  "consumes 0 (read_var_schema d)" "consumes 0 (read_named_schema d)" "consumes 0 (read_struct_schema d)"
proof -
  note leaf = consumes_ret consumes_le [OF consumes_vm_type] consumes_le [OF consumes_small_string]
    consumes_le [OF consumes_read_length] consumes_le [OF consumes_read1]
  have "consumes 0 (read_var_schema d) \<and> consumes 0 (read_named_schema d) \<and> consumes 0 (read_struct_schema d)"
    by (induction d) (auto simp: read_carbon_array_def intro!: consumes_bind_first consumes_read_n leaf)
  then show "consumes 0 (read_var_schema d)" "consumes 0 (read_named_schema d)" "consumes 0 (read_struct_schema d)"
    by auto
qed

lemma within_bind:
  "within d p \<Longrightarrow> consumes k p \<Longrightarrow> (\<And>x. within (d - k) (f x)) \<Longrightarrow> within d (rbind p f)"
proof -
  assume p: "within d p" and c: "consumes k p" and f: "\<And>x. within (d - k) (f x)"
  show ?thesis
    unfolding within_def
  proof (intro allI impI notI)
    fix r
    assume o: "roffset r \<le> length (rdata r)" "remaining r < int d" and e: "rbind p f r = Inl RecursionError"
    have "p r \<noteq> Inl RecursionError" using p o unfolding within_def by blast
    with e obtain y s where y: "p r = Inr (y, s)" and s: "f y s = Inl RecursionError"
      by (auto simp: rbind_def rthen_Inl_iff)
    from c o(1) y have "roffset s \<le> length (rdata s)" "remaining s + int k \<le> remaining r"
      unfolding consumes_def by blast+
    moreover from this have "0 \<le> remaining s" by (simp add: remaining_def)
    ultimately have "f y s \<noteq> Inl RecursionError" using f [of y] o(2) unfolding within_def by simp
    with s show False by simp
  qed
qed

lemma within_raises: "raises p (- {RecursionError}) \<Longrightarrow> within d p"
  by (auto simp: within_def raises_def)

lemma within_ret: "within d (rret x)"
  by (simp add: within_def rret_def)

lemma within_read_n: "within d p \<Longrightarrow> consumes 0 p \<Longrightarrow> within d (read_n n p)"
proof (induction n)
  case (Suc n)
  have "within (d - 0) (rbind (read_n n p) (\<lambda>xs. rret (x # xs)))" for x
    using Suc consumes_read_n [of p n] by (intro within_bind [where k = 0]) (auto intro: within_ret)
  with Suc.prems show ?case by (auto intro: within_bind [where k = 0])
qed (simp add: within_ret)

lemma within_schemas:
  "within d (read_var_schema d)" "within d (read_named_schema d)" "within d (read_struct_schema d)"
proof (induction d and d and d rule: read_var_schema_read_named_schema_read_struct_schema.induct)
  case (2 depth)
  have t: "within (Suc depth) read_vm_type"
    unfolding read_vm_type_def by (auto intro!: within_raises wire_raises dest: VMType_error)
  have "within depth (rbind (read_struct_schema depth) (\<lambda>s. rret (Some s)))" if "is_struct_type ty" for ty
    using 2 [OF that] by (auto intro!: within_bind [OF _ consumes_schemas(3)] within_ret)
  then show ?case
    unfolding read_var_schema.simps
    by (intro within_bind [OF t consumes_vm_type] within_bind [where k = 0])
      (auto intro!: within_ret consumes_bind_first consumes_schemas consumes_ret)
next
  case (4 depth)
  have t: "within (Suc depth) read_small_string" by (auto intro!: within_raises wire_raises)
  show ?case
    unfolding read_named_schema.simps
    by (rule within_bind [OF t consumes_small_string], rule within_bind [where k = 0])
      (use 4 in \<open>auto intro: within_ret consumes_schemas\<close>)
next
  case (6 depth)
  have l: "within (Suc depth) read_length" by (auto intro!: within_raises wire_raises)
  have "within (Suc depth - 4) (read_named_schema depth)"
    using 6 by (auto simp: within_def)
  then have "within (Suc depth - 4) (read_n n (read_named_schema depth))" for n
    by (rule within_read_n [OF _ consumes_schemas(2)])
  then have a: "within (Suc depth) (read_carbon_array (read_named_schema depth))"
    unfolding read_carbon_array_def by (rule within_bind [OF l consumes_read_length])
  have c: "consumes 0 (read_carbon_array (read_named_schema depth))"
    unfolding read_carbon_array_def
    by (rule consumes_bind_first [OF consumes_le [OF consumes_read_length]])
      (auto intro: consumes_read_n consumes_schemas)
  show ?case
    unfolding read_struct_schema.simps
    by (rule within_bind [OF a c], rule within_bind [OF _ consumes_le [OF consumes_read1]])
      (auto intro!: within_raises wire_raises within_ret)
qed (simp_all add: within_def remaining_def rfail_def)

text \<open>With an allowance above the number of bytes left, a schema reader never runs out of it.\<close>

lemma read_struct_schema_enough_depth:
  "roffset r \<le> length (rdata r) \<Longrightarrow> remaining r < int depth \<Longrightarrow> read_struct_schema depth r \<noteq> Inl RecursionError"
  using within_schemas(3) by (simp add: within_def)

section \<open>Messages that contain schemas\<close>


record TokenSchemas =
  ts_series_metadata :: struct_schema
  ts_rom :: struct_schema
  ts_ram :: struct_schema

definition TokenSchemas_ok :: "nat \<Rightarrow> TokenSchemas \<Rightarrow> bool" where
  "TokenSchemas_ok depth x \<longleftrightarrow> schema_ok depth (ts_series_metadata x) \<and> schema_ok depth (ts_rom x) \<and> schema_ok depth (ts_ram x)"

definition write_TokenSchemas :: "TokenSchemas \<Rightarrow> wop" where
  "write_TokenSchemas x = wseq [
     write_struct_schema (ts_series_metadata x),
     write_struct_schema (ts_rom x),
     write_struct_schema (ts_ram x)]"

definition read_TokenSchemas :: "nat \<Rightarrow> TokenSchemas rop" where
  "read_TokenSchemas depth =
     rbind (read_struct_schema depth) (\<lambda>series_metadata.
     rbind (read_struct_schema depth) (\<lambda>rom.
     rbind (read_struct_schema depth) (\<lambda>ram.
     rret \<lparr>ts_series_metadata = series_metadata, ts_rom = rom, ts_ram = ram\<rparr>)))"

interpretation token_schemas: carbon_codec write_TokenSchemas "read_TokenSchemas depth" "TokenSchemas_ok depth" for depth
  by unfold_locales (auto simp: write_TokenSchemas_def read_TokenSchemas_def TokenSchemas_ok_def intro!: wire_rt wire_safe wire_raises)

lemmas token_schemas_wire [wire_rt] = token_schemas.rt token_schemas.arr.rt
lemmas token_schemas_safe [wire_safe] = token_schemas.rd_safe
lemmas token_schemas_raises [wire_raises] = token_schemas.rd_raises token_schemas.arr_raises
lemmas token_schemas_appends [simp] = token_schemas.wr_appends token_schemas.nonempty


record SeriesInfo =
  si_max_mint :: int
  si_max_supply :: int
  si_owner :: bytes
  si_metadata :: bytes
  si_rom :: struct_schema
  si_ram :: struct_schema

definition SeriesInfo_ok :: "nat \<Rightarrow> SeriesInfo \<Rightarrow> bool" where
  "SeriesInfo_ok depth x \<longleftrightarrow> length (si_owner x) = 32 \<and> schema_ok depth (si_rom x) \<and> schema_ok depth (si_ram x)"

definition write_SeriesInfo :: "SeriesInfo \<Rightarrow> wop" where
  "write_SeriesInfo x = wseq [
     write4u (si_max_mint x),
     write4u (si_max_supply x),
     write32 (si_owner x),
     write_byte_array (si_metadata x),
     write_struct_schema (si_rom x),
     write_struct_schema (si_ram x)]"

definition read_SeriesInfo :: "nat \<Rightarrow> SeriesInfo rop" where
  "read_SeriesInfo depth =
     rbind read4u (\<lambda>max_mint.
     rbind read4u (\<lambda>max_supply.
     rbind read32 (\<lambda>owner.
     rbind read_byte_array (\<lambda>metadata.
     rbind (read_struct_schema depth) (\<lambda>rom.
     rbind (read_struct_schema depth) (\<lambda>ram.
     rret \<lparr>si_max_mint = max_mint, si_max_supply = max_supply, si_owner = owner, si_metadata = metadata, si_rom = rom, si_ram = ram\<rparr>))))))"

interpretation series_info: carbon_codec write_SeriesInfo "read_SeriesInfo depth" "SeriesInfo_ok depth" for depth
  by unfold_locales (auto simp: write_SeriesInfo_def read_SeriesInfo_def SeriesInfo_ok_def intro!: wire_rt wire_safe wire_raises)

lemmas series_info_wire [wire_rt] = series_info.rt series_info.arr.rt
lemmas series_info_safe [wire_safe] = series_info.rd_safe
lemmas series_info_raises [wire_raises] = series_info.rd_raises series_info.arr_raises
lemmas series_info_appends [simp] = series_info.wr_appends series_info.nonempty


record CreateTokenSeriesArgs =
  cs_token_id :: int
  cs_info :: SeriesInfo

definition CreateTokenSeriesArgs_ok :: "nat \<Rightarrow> CreateTokenSeriesArgs \<Rightarrow> bool" where
  "CreateTokenSeriesArgs_ok depth x \<longleftrightarrow> SeriesInfo_ok depth (cs_info x)"

definition write_CreateTokenSeriesArgs :: "CreateTokenSeriesArgs \<Rightarrow> wop" where
  "write_CreateTokenSeriesArgs x = wseq [
     write8u (cs_token_id x),
     write_SeriesInfo (cs_info x)]"

definition read_CreateTokenSeriesArgs :: "nat \<Rightarrow> CreateTokenSeriesArgs rop" where
  "read_CreateTokenSeriesArgs depth =
     rbind read8u (\<lambda>token_id.
     rbind (read_SeriesInfo depth) (\<lambda>info.
     rret \<lparr>cs_token_id = token_id, cs_info = info\<rparr>))"

interpretation create_token_series_args: carbon_codec write_CreateTokenSeriesArgs "read_CreateTokenSeriesArgs depth" "CreateTokenSeriesArgs_ok depth" for depth
  by unfold_locales (auto simp: write_CreateTokenSeriesArgs_def read_CreateTokenSeriesArgs_def CreateTokenSeriesArgs_ok_def intro!: wire_rt wire_safe wire_raises)


record CreateMintedTokenSeriesArgs =
  cm_token_id :: int
  cm_info :: SeriesInfo
  cm_address :: bytes
  cm_roms :: "bytes list"
  cm_rams :: "bytes list"

definition CreateMintedTokenSeriesArgs_ok :: "nat \<Rightarrow> CreateMintedTokenSeriesArgs \<Rightarrow> bool" where
  "CreateMintedTokenSeriesArgs_ok depth x \<longleftrightarrow> SeriesInfo_ok depth (cm_info x) \<and> length (cm_address x) = 32"

definition write_CreateMintedTokenSeriesArgs :: "CreateMintedTokenSeriesArgs \<Rightarrow> wop" where
  "write_CreateMintedTokenSeriesArgs x = wseq [
     write8u (cm_token_id x),
     write_SeriesInfo (cm_info x),
     write32 (cm_address x),
     write_byte_arrays (cm_roms x),
     write_byte_arrays (cm_rams x)]"

definition read_CreateMintedTokenSeriesArgs :: "nat \<Rightarrow> CreateMintedTokenSeriesArgs rop" where
  "read_CreateMintedTokenSeriesArgs depth =
     rbind read8u (\<lambda>token_id.
     rbind (read_SeriesInfo depth) (\<lambda>info.
     rbind read32 (\<lambda>address.
     rbind read_byte_arrays (\<lambda>roms.
     rbind read_byte_arrays (\<lambda>rams.
     rret \<lparr>cm_token_id = token_id, cm_info = info, cm_address = address, cm_roms = roms, cm_rams = rams\<rparr>)))))"

interpretation create_minted_token_series_args: carbon_codec write_CreateMintedTokenSeriesArgs "read_CreateMintedTokenSeriesArgs depth" "CreateMintedTokenSeriesArgs_ok depth" for depth
  by unfold_locales (auto simp: write_CreateMintedTokenSeriesArgs_def read_CreateMintedTokenSeriesArgs_def CreateMintedTokenSeriesArgs_ok_def intro!: wire_rt wire_safe wire_raises)

section \<open>Nesting is bounded by the length\<close>

text \<open>Every nested reader call is paid for by at least one byte of the encoding.\<close>

lemma element_length:
  assumes "list_all appends (map wr xs)" "serialize (wseq (map wr xs)) = Inr bs" "x \<in> set xs"
  shows "\<exists>b. serialize (wr x) = Inr b \<and> length b \<le> length bs"
  using assms
proof (induction xs arbitrary: bs)
  case (Cons y xs)
  from Cons.prems(1,2) obtain a b where ab: "serialize (wr y) = Inr a"
    "serialize (wseq (map wr xs)) = Inr b" "bs = a @ b"
    by (auto simp: serialize_wseq rthen_Inr_iff)
  show ?case
  proof (cases "x = y")
    case False
    with Cons.IH [OF _ ab(2)] Cons.prems obtain c where "serialize (wr x) = Inr c" "length c \<le> length b" by auto
    with ab(3) show ?thesis by auto
  qed (use ab in auto)
qed simp

lemma schema_depth_length:
  "var_schema_ok v \<Longrightarrow> serialize (write_var_schema v) = Inr bs \<Longrightarrow> var_depth v \<le> length bs"
  "named_schema_ok n \<Longrightarrow> serialize (write_named_schema n) = Inr bs \<Longrightarrow> named_depth n \<le> length bs"
  "struct_schema_ok s \<Longrightarrow> serialize (write_struct_schema s) = Inr bs \<Longrightarrow> struct_depth s \<le> length bs"
proof (induction v and n and s arbitrary: bs and bs and bs
    rule: write_var_schema_write_named_schema_write_struct_schema.induct)
  case (1 ty)
  then have "bs \<noteq> []" using schema_nonempty(1) by blast
  then show ?case by (cases bs) auto
next
  case (2 ty s)
  then show ?case
    by (auto simp: serialize_wseq rthen_Inr_iff schema_appends serialize_ints split: if_splits)
next
  case (3 name schema)
  then obtain a b where a: "serialize (write_small_string name) = Inr a" and
    b: "serialize (write_var_schema schema) = Inr b" and bs: "bs = a @ b"
    by (auto simp: serialize_wseq rthen_Inr_iff schema_appends)
  have "a \<noteq> []" using a small_string_nonempty by blast
  then have "1 \<le> length a" by (cases a) auto
  with 3(1) [OF _ b] 3(2) bs show ?case by simp
next
  case (4 flds flags)
  have ap: "list_all appends (map write_named_schema flds)" by (simp add: list_all_iff schema_appends)
  from 4(3) obtain b where b: "serialize (wseq (map write_named_schema flds)) = Inr b"
    and bs: "length bs = 5 + length b"
    by (auto simp: write_carbon_array_def serialize_wseq rthen_Inr_iff ap serialize_ints split: if_splits)
  have "named_depth n \<le> length b" if n: "n \<in> set flds" for n
  proof -
    obtain d where d: "serialize (write_named_schema n) = Inr d" "length d \<le> length b"
      using element_length [OF ap b n] by blast
    have "named_schema_ok n" using 4(2) n by (simp add: list_all_iff)
    from 4(1) [OF n this d(1)] d(2) show ?thesis by simp
  qed
  then show ?case using bs by (auto simp: foldr_max_le intro!: trans_le_add2)
qed

section \<open>Properties\<close>

text \<open>Token schemas come back from their wire form, with a recursion allowance no larger than the
  number of bytes, however deep the structs are nested.\<close>

theorem token_schemas_roundtrip:
  assumes "struct_schema_ok (ts_series_metadata x)" "struct_schema_ok (ts_rom x)" "struct_schema_ok (ts_ram x)"
    and "serialize (write_TokenSchemas x) = Inr bs" "length bs \<le> depth"
  shows "deserialize (read_TokenSchemas depth) bs = Inr x"
proof -
  from assms(4) obtain a b c where abc: "serialize (write_struct_schema (ts_series_metadata x)) = Inr a"
    "serialize (write_struct_schema (ts_rom x)) = Inr b" "serialize (write_struct_schema (ts_ram x)) = Inr c"
    "bs = a @ b @ c"
    by (auto simp: write_TokenSchemas_def serialize_wseq rthen_Inr_iff schema_appends)
  have "TokenSchemas_ok depth x"
    using assms(5) abc(4) assms(1-3) schema_depth_length(3) [OF assms(1) abc(1)]
      schema_depth_length(3) [OF assms(2) abc(2)] schema_depth_length(3) [OF assms(3) abc(3)]
    by (simp add: TokenSchemas_ok_def schema_ok_def)
  from token_schemas.roundtrip [OF this assms(4)] show ?thesis .
qed

theorem token_schemas_roundtrip_witness:
  "\<exists>bs. serialize (write_TokenSchemas \<lparr>ts_series_metadata = empty_schema,
       ts_rom = VMStructSchema [VMNamedVariableSchema [] (VMVariableSchema VM_STRUCT (Some empty_schema))] 0,
       ts_ram = empty_schema\<rparr>) = Inr bs \<and>
     deserialize (read_TokenSchemas 100) bs = Inr \<lparr>ts_series_metadata = empty_schema,
       ts_rom = VMStructSchema [VMNamedVariableSchema [] (VMVariableSchema VM_STRUCT (Some empty_schema))] 0,
       ts_ram = empty_schema\<rparr>"
proof -
  let ?x = "\<lparr>ts_series_metadata = empty_schema,
       ts_rom = VMStructSchema [VMNamedVariableSchema [] (VMVariableSchema VM_STRUCT (Some empty_schema))] 0,
       ts_ram = empty_schema\<rparr>"
  have "\<exists>bs. serialize (write_TokenSchemas ?x) = Inr bs \<and> length bs \<le> 100"
    by (simp add: write_TokenSchemas_def serialize_wseq serialize_ints serialize_small_string empty_schema_def
        write_carbon_array_def is_struct_type_def schema_appends)
  then obtain bs where bs: "serialize (write_TokenSchemas ?x) = Inr bs" "length bs \<le> 100" by blast
  have "struct_schema_ok empty_schema" by (simp add: empty_schema_def)
  with token_schemas_roundtrip [OF _ _ _ bs] bs(1) show ?thesis by (simp add: is_struct_type_def)
qed

text \<open>C34: Reading a struct schema from any bytes, well formed or not, never exceeds a recursion allowance
  above the number of bytes given.\<close>

theorem struct_schema_recursion_bounded:
  assumes "length bs < depth"
  shows "deserialize (read_struct_schema depth) bs \<noteq> Inl RecursionError"
proof
  assume "deserialize (read_struct_schema depth) bs = Inl RecursionError"
  then have "read_struct_schema depth (new_reader bs) = Inl RecursionError"
    by (auto simp: deserialize_def rthen_Inl_iff assert_eof_def split: if_splits)
  then show False
    using read_struct_schema_enough_depth [of "new_reader bs" depth] assms
    by (simp add: new_reader_def remaining_def)
qed

theorem struct_schema_recursion_bounded_witness:
  "deserialize (read_struct_schema 3) [1, 0] \<noteq> Inl RecursionError"
  by (rule struct_schema_recursion_bounded) simp

end
