(* ===== verification/CarbonTx.thy ===== *)
theory CarbonTx
  imports CarbonSchema
begin

text \<open>
  The Carbon transaction messages of \<^verbatim>\<open>carbon.py\<close>: contract calls with argument sections, the
  seventeen payload classes, \<^verbatim>\<open>TxMsg\<close>, \<^verbatim>\<open>Witness\<close> and \<^verbatim>\<open>SignedTxMsg\<close>. The union
  \<^verbatim>\<open>TxPayload\<close> is the datatype \<open>tx_payload\<close>; the dispatch of \<^verbatim>\<open>_read_payload\<close> on the
  transaction type is \<open>read_payload\<close>.
\<close>

section \<open>Contract calls\<close>

record CallArgSection =
  as_register_offset :: int
  as_args :: bytes

text \<open>A section is a register reference or an argument; only the one that is written comes back.\<close>

definition CallArgSection_ok :: "CallArgSection \<Rightarrow> bool" where
  "CallArgSection_ok x \<longleftrightarrow> as_register_offset x = 0 \<or> (as_register_offset x < 0 \<and> as_args x = [])"

definition write_CallArgSection :: "CallArgSection \<Rightarrow> wop" where
  "write_CallArgSection x =
     (if as_register_offset x < 0 then write4 (as_register_offset x)
      else wseq [write4 (int (length (as_args x))), w_write (as_args x)])"

definition read_CallArgSection :: "CallArgSection rop" where
  "read_CallArgSection = rbind read4 (\<lambda>v.
     if v < 0 then rret \<lparr>as_register_offset = v, as_args = []\<rparr>
     else rbind (read v) (\<lambda>args. rret \<lparr>as_register_offset = 0, as_args = args\<rparr>))"

lemma rt_raw: "rt (w_write bs) (read (int (length bs))) bs"
  by (rule rtI [OF emits_write]) (simp add: parses_read)

interpretation call_arg_section: carbon_codec write_CallArgSection read_CallArgSection CallArgSection_ok
proof unfold_locales
  fix x :: CallArgSection
  assume ok: "CallArgSection_ok x"
  show "rt (write_CallArgSection x) read_CallArgSection x"
  proof (cases "as_register_offset x < 0")
    case True
    with ok show ?thesis
      by (cases x) (auto simp: write_CallArgSection_def read_CallArgSection_def CallArgSection_ok_def
          intro!: rt_bind_ret [OF rt_write4])
  next
    case False
    have "rt (wseq [w_write (as_args x)]) (rbind (read (int (length (as_args x))))
      (\<lambda>args. rret \<lparr>as_register_offset = 0, as_args = args\<rparr>)) x"
      by (rule rt_cons [OF rt_raw], rule rt_nil) (use ok False in \<open>cases x, auto simp: CallArgSection_ok_def\<close>)
    then show ?thesis unfolding write_CallArgSection_def read_CallArgSection_def using False
      by (auto intro!: rt_cons [OF rt_write4])
  qed
next
  show "safe read_CallArgSection" "raises read_CallArgSection carbon_errors"
    unfolding read_CallArgSection_def by (auto intro!: wire_safe wire_raises)
next
  fix x
  show "serialize (write_CallArgSection x) \<noteq> Inr []" "appends (write_CallArgSection x)"
    unfolding write_CallArgSection_def by (cases "as_register_offset x < 0"; simp)+
qed

record MsgCallArgSections =
  ma_sections :: "CallArgSection list"

definition has_sections :: "MsgCallArgSections \<Rightarrow> bool" where
  "has_sections x \<longleftrightarrow> length (ma_sections x) > 0"

definition write_MsgCallArgSections :: "MsgCallArgSections \<Rightarrow> wop" where
  "write_MsgCallArgSections x =
     (if ma_sections x = [] then w_fail SerializationError
      else wseq (write4 (- int (length (ma_sections x))) # map write_CallArgSection (ma_sections x)))"

definition read_with_count :: "int \<Rightarrow> MsgCallArgSections rop" where
  "read_with_count count_negative =
     (if count_negative \<ge> 0 then rfail SerializationError
      else rbind (read_n (nat (- count_negative)) read_CallArgSection) (\<lambda>sections.
        rret \<lparr>ma_sections = sections\<rparr>))"

record TxMsgCall =
  cl_module_id :: int
  cl_method_id :: int
  cl_args :: bytes
  cl_sections :: "MsgCallArgSections option"

definition TxMsgCall_ok :: "TxMsgCall \<Rightarrow> bool" where
  "TxMsgCall_ok x \<longleftrightarrow> (case cl_sections x of
     None \<Rightarrow> True
   | Some s \<Rightarrow> cl_args x = [] \<and> has_sections s \<and> list_all CallArgSection_ok (ma_sections s))"

definition write_TxMsgCall :: "TxMsgCall \<Rightarrow> wop" where
  "write_TxMsgCall x = wseq ([write4u (cl_module_id x), write4u (cl_method_id x)] @
     (if cl_sections x \<noteq> None \<and> has_sections (the (cl_sections x))
      then [write_MsgCallArgSections (the (cl_sections x))]
      else [write4 (int (length (cl_args x))), w_write (cl_args x)]))"

definition read_TxMsgCall :: "TxMsgCall rop" where
  "read_TxMsgCall = rbind read4u (\<lambda>module_id. rbind read4u (\<lambda>method_id. rbind read4 (\<lambda>n.
     if n \<ge> 0 then rbind (read n) (\<lambda>args.
       rret \<lparr>cl_module_id = module_id, cl_method_id = method_id, cl_args = args, cl_sections = None\<rparr>)
     else rbind (read_with_count n) (\<lambda>sections.
       rret \<lparr>cl_module_id = module_id, cl_method_id = method_id, cl_args = [], cl_sections = Some sections\<rparr>))))"

lemma call_arg_section_appends: "list_all appends (map write_CallArgSection xs)"
  by (simp add: list_all_iff call_arg_section.wr_appends)

lemma appends_sections [simp]: "appends (write_MsgCallArgSections x)"
  by (simp add: write_MsgCallArgSections_def call_arg_section_appends)

lemma rt_sections:
  assumes "has_sections s" "list_all CallArgSection_ok (ma_sections s)"
  shows "rt (wseq (map write_CallArgSection (ma_sections s)))
    (read_with_count (- int (length (ma_sections s)))) s"
proof -
  have "rt (wseq (map write_CallArgSection (ma_sections s)))
    (read_n (length (ma_sections s)) read_CallArgSection) (map (\<lambda>x. x) (ma_sections s))"
    using assms(2) by (intro rt_elements call_arg_section.rt) (simp add: list_all_iff)
  then have "rt (wseq (map write_CallArgSection (ma_sections s)))
    (rbind (read_n (length (ma_sections s)) read_CallArgSection) (\<lambda>sections. rret \<lparr>ma_sections = sections\<rparr>)) s"
    by (rule rt_map) simp
  with assms(1) show ?thesis by (simp add: read_with_count_def has_sections_def)
qed

interpretation tx_msg_call: carbon_codec write_TxMsgCall read_TxMsgCall TxMsgCall_ok
proof unfold_locales
  fix x
  assume ok: "TxMsgCall_ok x"
  show "rt (write_TxMsgCall x) read_TxMsgCall x"
  proof (cases "cl_sections x")
    case None
    then show ?thesis
      unfolding write_TxMsgCall_def read_TxMsgCall_def
      by (cases x) (auto intro!: rt_cons [OF rt_write4u] rt_cons [OF rt_write4] rt_cons [OF rt_raw] rt_nil)
  next
    case (Some s)
    then have s: "has_sections s" "list_all CallArgSection_ok (ma_sections s)" "cl_args x = []"
      using ok by (auto simp: TxMsgCall_ok_def)
    let ?n = "- int (length (ma_sections s))"
    have n: "?n < 0" "ma_sections s \<noteq> []" using s(1) by (auto simp: has_sections_def)
    have "rt (wseq (map write_CallArgSection (ma_sections s))) (rbind (read_with_count ?n) (\<lambda>sections.
       rret \<lparr>cl_module_id = cl_module_id x, cl_method_id = cl_method_id x, cl_args = [], cl_sections = Some sections\<rparr>)) x"
      by (rule rt_map [OF rt_sections [OF s(1,2)]]) (use Some s in \<open>cases x, simp\<close>)
    with n have "rt (wseq (write4 ?n # map write_CallArgSection (ma_sections s))) (rbind read4 (\<lambda>n.
       if n \<ge> 0 then rbind (read n) (\<lambda>args.
         rret \<lparr>cl_module_id = cl_module_id x, cl_method_id = cl_method_id x, cl_args = args, cl_sections = None\<rparr>)
       else rbind (read_with_count n) (\<lambda>sections.
         rret \<lparr>cl_module_id = cl_module_id x, cl_method_id = cl_method_id x, cl_args = [], cl_sections = Some sections\<rparr>))) x"
      by (intro rt_cons [OF rt_write4]) simp
    then have "rt (wseq [write_MsgCallArgSections s]) (rbind read4 (\<lambda>n.
       if n \<ge> 0 then rbind (read n) (\<lambda>args.
         rret \<lparr>cl_module_id = cl_module_id x, cl_method_id = cl_method_id x, cl_args = args, cl_sections = None\<rparr>)
       else rbind (read_with_count n) (\<lambda>sections.
         rret \<lparr>cl_module_id = cl_module_id x, cl_method_id = cl_method_id x, cl_args = [], cl_sections = Some sections\<rparr>))) x"
      using n(2) by (intro rt_last) (simp add: write_MsgCallArgSections_def)
    then show ?thesis
      unfolding write_TxMsgCall_def read_TxMsgCall_def using Some s(1)
      by (simp add: rt_cons [OF rt_write4u])
  qed
next
  show "safe read_TxMsgCall" "raises read_TxMsgCall carbon_errors"
    unfolding read_TxMsgCall_def read_with_count_def
    by (auto intro!: wire_safe wire_raises call_arg_section.rd_safe call_arg_section.rd_raises)
next
  fix x
  show "serialize (write_TxMsgCall x) \<noteq> Inr []" "appends (write_TxMsgCall x)"
    unfolding write_TxMsgCall_def by (cases "cl_sections x \<noteq> None \<and> has_sections (the (cl_sections x))"; simp)+
qed

lemmas tx_msg_call_wire [wire_rt] = tx_msg_call.rt tx_msg_call.arr.rt
lemmas tx_msg_call_safe [wire_safe] = tx_msg_call.rd_safe
lemmas tx_msg_call_raises [wire_raises] = tx_msg_call.rd_raises tx_msg_call.arr_raises
lemmas tx_msg_call_appends [simp] = tx_msg_call.wr_appends tx_msg_call.nonempty

section \<open>Payloads\<close>

record TxMsgCallMulti =
  mu_calls :: "TxMsgCall list"

definition TxMsgCallMulti_ok :: "TxMsgCallMulti \<Rightarrow> bool" where
  "TxMsgCallMulti_ok x \<longleftrightarrow> list_all TxMsgCall_ok (mu_calls x)"

definition write_TxMsgCallMulti :: "TxMsgCallMulti \<Rightarrow> wop" where
  "write_TxMsgCallMulti x = wseq [
     write_carbon_array write_TxMsgCall (mu_calls x)]"

definition read_TxMsgCallMulti :: "TxMsgCallMulti rop" where
  "read_TxMsgCallMulti =
     rbind (read_carbon_array read_TxMsgCall) (\<lambda>calls.
     rret \<lparr>mu_calls = calls\<rparr>)"

interpretation tx_msg_call_multi: carbon_codec write_TxMsgCallMulti read_TxMsgCallMulti TxMsgCallMulti_ok
  by unfold_locales (auto simp: write_TxMsgCallMulti_def read_TxMsgCallMulti_def TxMsgCallMulti_ok_def intro!: wire_rt wire_safe wire_raises)

lemmas tx_msg_call_multi_wire [wire_rt] = tx_msg_call_multi.rt tx_msg_call_multi.arr.rt
lemmas tx_msg_call_multi_safe [wire_safe] = tx_msg_call_multi.rd_safe
lemmas tx_msg_call_multi_raises [wire_raises] = tx_msg_call_multi.rd_raises tx_msg_call_multi.arr_raises
lemmas tx_msg_call_multi_appends [simp] = tx_msg_call_multi.wr_appends tx_msg_call_multi.nonempty

record TxMsgSpecialResolution =
  sr_resolution_id :: int
  sr_calls :: "TxMsgCall list"

definition TxMsgSpecialResolution_ok :: "TxMsgSpecialResolution \<Rightarrow> bool" where
  "TxMsgSpecialResolution_ok x \<longleftrightarrow> list_all TxMsgCall_ok (sr_calls x)"

definition write_TxMsgSpecialResolution :: "TxMsgSpecialResolution \<Rightarrow> wop" where
  "write_TxMsgSpecialResolution x = wseq [
     write8u (sr_resolution_id x),
     write_carbon_array write_TxMsgCall (sr_calls x)]"

definition read_TxMsgSpecialResolution :: "TxMsgSpecialResolution rop" where
  "read_TxMsgSpecialResolution =
     rbind read8u (\<lambda>resolution_id.
     rbind (read_carbon_array read_TxMsgCall) (\<lambda>calls.
     rret \<lparr>sr_resolution_id = resolution_id, sr_calls = calls\<rparr>))"

interpretation tx_msg_special_resolution: carbon_codec write_TxMsgSpecialResolution read_TxMsgSpecialResolution TxMsgSpecialResolution_ok
  by unfold_locales (auto simp: write_TxMsgSpecialResolution_def read_TxMsgSpecialResolution_def TxMsgSpecialResolution_ok_def intro!: wire_rt wire_safe wire_raises)

record TxMsgTransferFungible =
  xf_to :: bytes
  xf_token_id :: int
  xf_amount :: int

definition TxMsgTransferFungible_ok :: "TxMsgTransferFungible \<Rightarrow> bool" where
  "TxMsgTransferFungible_ok x \<longleftrightarrow> length (xf_to x) = 32"

definition write_TxMsgTransferFungible :: "TxMsgTransferFungible \<Rightarrow> wop" where
  "write_TxMsgTransferFungible x = wseq [
     write32 (xf_to x),
     write8u (xf_token_id x),
     write8u (xf_amount x)]"

definition read_TxMsgTransferFungible :: "TxMsgTransferFungible rop" where
  "read_TxMsgTransferFungible =
     rbind read32 (\<lambda>to.
     rbind read8u (\<lambda>token_id.
     rbind read8u (\<lambda>amount.
     rret \<lparr>xf_to = to, xf_token_id = token_id, xf_amount = amount\<rparr>)))"

interpretation tx_msg_transfer_fungible: carbon_codec write_TxMsgTransferFungible read_TxMsgTransferFungible TxMsgTransferFungible_ok
  by unfold_locales (auto simp: write_TxMsgTransferFungible_def read_TxMsgTransferFungible_def TxMsgTransferFungible_ok_def intro!: wire_rt wire_safe wire_raises)

lemmas tx_msg_transfer_fungible_wire [wire_rt] = tx_msg_transfer_fungible.rt tx_msg_transfer_fungible.arr.rt
lemmas tx_msg_transfer_fungible_safe [wire_safe] = tx_msg_transfer_fungible.rd_safe
lemmas tx_msg_transfer_fungible_raises [wire_raises] = tx_msg_transfer_fungible.rd_raises tx_msg_transfer_fungible.arr_raises
lemmas tx_msg_transfer_fungible_appends [simp] = tx_msg_transfer_fungible.wr_appends tx_msg_transfer_fungible.nonempty

record TxMsgTransferFungibleGasPayer =
  xfg_to :: bytes
  xfg_from_address :: bytes
  xfg_token_id :: int
  xfg_amount :: int

definition TxMsgTransferFungibleGasPayer_ok :: "TxMsgTransferFungibleGasPayer \<Rightarrow> bool" where
  "TxMsgTransferFungibleGasPayer_ok x \<longleftrightarrow> length (xfg_to x) = 32 \<and> length (xfg_from_address x) = 32"

definition write_TxMsgTransferFungibleGasPayer :: "TxMsgTransferFungibleGasPayer \<Rightarrow> wop" where
  "write_TxMsgTransferFungibleGasPayer x = wseq [
     write32 (xfg_to x),
     write32 (xfg_from_address x),
     write8u (xfg_token_id x),
     write8u (xfg_amount x)]"

definition read_TxMsgTransferFungibleGasPayer :: "TxMsgTransferFungibleGasPayer rop" where
  "read_TxMsgTransferFungibleGasPayer =
     rbind read32 (\<lambda>to.
     rbind read32 (\<lambda>from_address.
     rbind read8u (\<lambda>token_id.
     rbind read8u (\<lambda>amount.
     rret \<lparr>xfg_to = to, xfg_from_address = from_address, xfg_token_id = token_id, xfg_amount = amount\<rparr>))))"

interpretation tx_msg_transfer_fungible_gas_payer: carbon_codec write_TxMsgTransferFungibleGasPayer read_TxMsgTransferFungibleGasPayer TxMsgTransferFungibleGasPayer_ok
  by unfold_locales (auto simp: write_TxMsgTransferFungibleGasPayer_def read_TxMsgTransferFungibleGasPayer_def TxMsgTransferFungibleGasPayer_ok_def intro!: wire_rt wire_safe wire_raises)

lemmas tx_msg_transfer_fungible_gas_payer_wire [wire_rt] = tx_msg_transfer_fungible_gas_payer.rt tx_msg_transfer_fungible_gas_payer.arr.rt
lemmas tx_msg_transfer_fungible_gas_payer_safe [wire_safe] = tx_msg_transfer_fungible_gas_payer.rd_safe
lemmas tx_msg_transfer_fungible_gas_payer_raises [wire_raises] = tx_msg_transfer_fungible_gas_payer.rd_raises tx_msg_transfer_fungible_gas_payer.arr_raises
lemmas tx_msg_transfer_fungible_gas_payer_appends [simp] = tx_msg_transfer_fungible_gas_payer.wr_appends tx_msg_transfer_fungible_gas_payer.nonempty

record TxMsgTransferNonFungibleSingle =
  xs_to :: bytes
  xs_token_id :: int
  xs_instance_id :: int

definition TxMsgTransferNonFungibleSingle_ok :: "TxMsgTransferNonFungibleSingle \<Rightarrow> bool" where
  "TxMsgTransferNonFungibleSingle_ok x \<longleftrightarrow> length (xs_to x) = 32"

definition write_TxMsgTransferNonFungibleSingle :: "TxMsgTransferNonFungibleSingle \<Rightarrow> wop" where
  "write_TxMsgTransferNonFungibleSingle x = wseq [
     write32 (xs_to x),
     write8u (xs_token_id x),
     write8u (xs_instance_id x)]"

definition read_TxMsgTransferNonFungibleSingle :: "TxMsgTransferNonFungibleSingle rop" where
  "read_TxMsgTransferNonFungibleSingle =
     rbind read32 (\<lambda>to.
     rbind read8u (\<lambda>token_id.
     rbind read8u (\<lambda>instance_id.
     rret \<lparr>xs_to = to, xs_token_id = token_id, xs_instance_id = instance_id\<rparr>)))"

interpretation tx_msg_transfer_non_fungible_single: carbon_codec write_TxMsgTransferNonFungibleSingle read_TxMsgTransferNonFungibleSingle TxMsgTransferNonFungibleSingle_ok
  by unfold_locales (auto simp: write_TxMsgTransferNonFungibleSingle_def read_TxMsgTransferNonFungibleSingle_def TxMsgTransferNonFungibleSingle_ok_def intro!: wire_rt wire_safe wire_raises)

lemmas tx_msg_transfer_non_fungible_single_wire [wire_rt] = tx_msg_transfer_non_fungible_single.rt tx_msg_transfer_non_fungible_single.arr.rt
lemmas tx_msg_transfer_non_fungible_single_safe [wire_safe] = tx_msg_transfer_non_fungible_single.rd_safe
lemmas tx_msg_transfer_non_fungible_single_raises [wire_raises] = tx_msg_transfer_non_fungible_single.rd_raises tx_msg_transfer_non_fungible_single.arr_raises
lemmas tx_msg_transfer_non_fungible_single_appends [simp] = tx_msg_transfer_non_fungible_single.wr_appends tx_msg_transfer_non_fungible_single.nonempty

record TxMsgTransferNonFungibleSingleGasPayer =
  xsg_to :: bytes
  xsg_from_address :: bytes
  xsg_token_id :: int
  xsg_instance_id :: int

definition TxMsgTransferNonFungibleSingleGasPayer_ok :: "TxMsgTransferNonFungibleSingleGasPayer \<Rightarrow> bool" where
  "TxMsgTransferNonFungibleSingleGasPayer_ok x \<longleftrightarrow> length (xsg_to x) = 32 \<and> length (xsg_from_address x) = 32"

definition write_TxMsgTransferNonFungibleSingleGasPayer :: "TxMsgTransferNonFungibleSingleGasPayer \<Rightarrow> wop" where
  "write_TxMsgTransferNonFungibleSingleGasPayer x = wseq [
     write32 (xsg_to x),
     write32 (xsg_from_address x),
     write8u (xsg_token_id x),
     write8u (xsg_instance_id x)]"

definition read_TxMsgTransferNonFungibleSingleGasPayer :: "TxMsgTransferNonFungibleSingleGasPayer rop" where
  "read_TxMsgTransferNonFungibleSingleGasPayer =
     rbind read32 (\<lambda>to.
     rbind read32 (\<lambda>from_address.
     rbind read8u (\<lambda>token_id.
     rbind read8u (\<lambda>instance_id.
     rret \<lparr>xsg_to = to, xsg_from_address = from_address, xsg_token_id = token_id, xsg_instance_id = instance_id\<rparr>))))"

interpretation tx_msg_transfer_non_fungible_single_gas_payer: carbon_codec write_TxMsgTransferNonFungibleSingleGasPayer read_TxMsgTransferNonFungibleSingleGasPayer TxMsgTransferNonFungibleSingleGasPayer_ok
  by unfold_locales (auto simp: write_TxMsgTransferNonFungibleSingleGasPayer_def read_TxMsgTransferNonFungibleSingleGasPayer_def TxMsgTransferNonFungibleSingleGasPayer_ok_def intro!: wire_rt wire_safe wire_raises)

lemmas tx_msg_transfer_non_fungible_single_gas_payer_wire [wire_rt] = tx_msg_transfer_non_fungible_single_gas_payer.rt tx_msg_transfer_non_fungible_single_gas_payer.arr.rt
lemmas tx_msg_transfer_non_fungible_single_gas_payer_safe [wire_safe] = tx_msg_transfer_non_fungible_single_gas_payer.rd_safe
lemmas tx_msg_transfer_non_fungible_single_gas_payer_raises [wire_raises] = tx_msg_transfer_non_fungible_single_gas_payer.rd_raises tx_msg_transfer_non_fungible_single_gas_payer.arr_raises
lemmas tx_msg_transfer_non_fungible_single_gas_payer_appends [simp] = tx_msg_transfer_non_fungible_single_gas_payer.wr_appends tx_msg_transfer_non_fungible_single_gas_payer.nonempty

record TxMsgTransferNonFungibleMulti =
  xm_to :: bytes
  xm_token_id :: int
  xm_instance_ids :: "int list"

definition TxMsgTransferNonFungibleMulti_ok :: "TxMsgTransferNonFungibleMulti \<Rightarrow> bool" where
  "TxMsgTransferNonFungibleMulti_ok x \<longleftrightarrow> length (xm_to x) = 32"

definition write_TxMsgTransferNonFungibleMulti :: "TxMsgTransferNonFungibleMulti \<Rightarrow> wop" where
  "write_TxMsgTransferNonFungibleMulti x = wseq [
     write32 (xm_to x),
     write8u (xm_token_id x),
     write_int_array (xm_instance_ids x) 8 False]"

definition read_TxMsgTransferNonFungibleMulti :: "TxMsgTransferNonFungibleMulti rop" where
  "read_TxMsgTransferNonFungibleMulti =
     rbind read32 (\<lambda>to.
     rbind read8u (\<lambda>token_id.
     rbind (read_int_array 8 False) (\<lambda>instance_ids.
     rret \<lparr>xm_to = to, xm_token_id = token_id, xm_instance_ids = instance_ids\<rparr>)))"

interpretation tx_msg_transfer_non_fungible_multi: carbon_codec write_TxMsgTransferNonFungibleMulti read_TxMsgTransferNonFungibleMulti TxMsgTransferNonFungibleMulti_ok
  by unfold_locales (auto simp: write_TxMsgTransferNonFungibleMulti_def read_TxMsgTransferNonFungibleMulti_def TxMsgTransferNonFungibleMulti_ok_def intro!: wire_rt wire_safe wire_raises)

lemmas tx_msg_transfer_non_fungible_multi_wire [wire_rt] = tx_msg_transfer_non_fungible_multi.rt tx_msg_transfer_non_fungible_multi.arr.rt
lemmas tx_msg_transfer_non_fungible_multi_safe [wire_safe] = tx_msg_transfer_non_fungible_multi.rd_safe
lemmas tx_msg_transfer_non_fungible_multi_raises [wire_raises] = tx_msg_transfer_non_fungible_multi.rd_raises tx_msg_transfer_non_fungible_multi.arr_raises
lemmas tx_msg_transfer_non_fungible_multi_appends [simp] = tx_msg_transfer_non_fungible_multi.wr_appends tx_msg_transfer_non_fungible_multi.nonempty

record TxMsgTransferNonFungibleMultiGasPayer =
  xmg_to :: bytes
  xmg_from_address :: bytes
  xmg_token_id :: int
  xmg_instance_ids :: "int list"

definition TxMsgTransferNonFungibleMultiGasPayer_ok :: "TxMsgTransferNonFungibleMultiGasPayer \<Rightarrow> bool" where
  "TxMsgTransferNonFungibleMultiGasPayer_ok x \<longleftrightarrow> length (xmg_to x) = 32 \<and> length (xmg_from_address x) = 32"

definition write_TxMsgTransferNonFungibleMultiGasPayer :: "TxMsgTransferNonFungibleMultiGasPayer \<Rightarrow> wop" where
  "write_TxMsgTransferNonFungibleMultiGasPayer x = wseq [
     write32 (xmg_to x),
     write32 (xmg_from_address x),
     write8u (xmg_token_id x),
     write_int_array (xmg_instance_ids x) 8 False]"

definition read_TxMsgTransferNonFungibleMultiGasPayer :: "TxMsgTransferNonFungibleMultiGasPayer rop" where
  "read_TxMsgTransferNonFungibleMultiGasPayer =
     rbind read32 (\<lambda>to.
     rbind read32 (\<lambda>from_address.
     rbind read8u (\<lambda>token_id.
     rbind (read_int_array 8 False) (\<lambda>instance_ids.
     rret \<lparr>xmg_to = to, xmg_from_address = from_address, xmg_token_id = token_id, xmg_instance_ids = instance_ids\<rparr>))))"

interpretation tx_msg_transfer_non_fungible_multi_gas_payer: carbon_codec write_TxMsgTransferNonFungibleMultiGasPayer read_TxMsgTransferNonFungibleMultiGasPayer TxMsgTransferNonFungibleMultiGasPayer_ok
  by unfold_locales (auto simp: write_TxMsgTransferNonFungibleMultiGasPayer_def read_TxMsgTransferNonFungibleMultiGasPayer_def TxMsgTransferNonFungibleMultiGasPayer_ok_def intro!: wire_rt wire_safe wire_raises)

lemmas tx_msg_transfer_non_fungible_multi_gas_payer_wire [wire_rt] = tx_msg_transfer_non_fungible_multi_gas_payer.rt tx_msg_transfer_non_fungible_multi_gas_payer.arr.rt
lemmas tx_msg_transfer_non_fungible_multi_gas_payer_safe [wire_safe] = tx_msg_transfer_non_fungible_multi_gas_payer.rd_safe
lemmas tx_msg_transfer_non_fungible_multi_gas_payer_raises [wire_raises] = tx_msg_transfer_non_fungible_multi_gas_payer.rd_raises tx_msg_transfer_non_fungible_multi_gas_payer.arr_raises
lemmas tx_msg_transfer_non_fungible_multi_gas_payer_appends [simp] = tx_msg_transfer_non_fungible_multi_gas_payer.wr_appends tx_msg_transfer_non_fungible_multi_gas_payer.nonempty

record TxMsgMintFungible =
  xmf_token_id :: int
  xmf_to :: bytes
  xmf_amount :: int

definition TxMsgMintFungible_ok :: "TxMsgMintFungible \<Rightarrow> bool" where
  "TxMsgMintFungible_ok x \<longleftrightarrow> length (xmf_to x) = 32 \<and> int256 (xmf_amount x)"

definition write_TxMsgMintFungible :: "TxMsgMintFungible \<Rightarrow> wop" where
  "write_TxMsgMintFungible x = wseq [
     write8u (xmf_token_id x),
     write32 (xmf_to x),
     write_int_x (xmf_amount x)]"

definition read_TxMsgMintFungible :: "TxMsgMintFungible rop" where
  "read_TxMsgMintFungible =
     rbind read8u (\<lambda>token_id.
     rbind read32 (\<lambda>to.
     rbind read_int_x (\<lambda>amount.
     rret \<lparr>xmf_token_id = token_id, xmf_to = to, xmf_amount = amount\<rparr>)))"

interpretation tx_msg_mint_fungible: carbon_codec write_TxMsgMintFungible read_TxMsgMintFungible TxMsgMintFungible_ok
  by unfold_locales (auto simp: write_TxMsgMintFungible_def read_TxMsgMintFungible_def TxMsgMintFungible_ok_def intro!: wire_rt wire_safe wire_raises)

lemmas tx_msg_mint_fungible_wire [wire_rt] = tx_msg_mint_fungible.rt tx_msg_mint_fungible.arr.rt
lemmas tx_msg_mint_fungible_safe [wire_safe] = tx_msg_mint_fungible.rd_safe
lemmas tx_msg_mint_fungible_raises [wire_raises] = tx_msg_mint_fungible.rd_raises tx_msg_mint_fungible.arr_raises
lemmas tx_msg_mint_fungible_appends [simp] = tx_msg_mint_fungible.wr_appends tx_msg_mint_fungible.nonempty

record TxMsgBurnFungible =
  xbf_token_id :: int
  xbf_amount :: int

definition TxMsgBurnFungible_ok :: "TxMsgBurnFungible \<Rightarrow> bool" where
  "TxMsgBurnFungible_ok x \<longleftrightarrow> int256 (xbf_amount x)"

definition write_TxMsgBurnFungible :: "TxMsgBurnFungible \<Rightarrow> wop" where
  "write_TxMsgBurnFungible x = wseq [
     write8u (xbf_token_id x),
     write_int_x (xbf_amount x)]"

definition read_TxMsgBurnFungible :: "TxMsgBurnFungible rop" where
  "read_TxMsgBurnFungible =
     rbind read8u (\<lambda>token_id.
     rbind read_int_x (\<lambda>amount.
     rret \<lparr>xbf_token_id = token_id, xbf_amount = amount\<rparr>))"

interpretation tx_msg_burn_fungible: carbon_codec write_TxMsgBurnFungible read_TxMsgBurnFungible TxMsgBurnFungible_ok
  by unfold_locales (auto simp: write_TxMsgBurnFungible_def read_TxMsgBurnFungible_def TxMsgBurnFungible_ok_def intro!: wire_rt wire_safe wire_raises)

lemmas tx_msg_burn_fungible_wire [wire_rt] = tx_msg_burn_fungible.rt tx_msg_burn_fungible.arr.rt
lemmas tx_msg_burn_fungible_safe [wire_safe] = tx_msg_burn_fungible.rd_safe
lemmas tx_msg_burn_fungible_raises [wire_raises] = tx_msg_burn_fungible.rd_raises tx_msg_burn_fungible.arr_raises
lemmas tx_msg_burn_fungible_appends [simp] = tx_msg_burn_fungible.wr_appends tx_msg_burn_fungible.nonempty

record TxMsgBurnFungibleGasPayer =
  xbfg_token_id :: int
  xbfg_from_address :: bytes
  xbfg_amount :: int

definition TxMsgBurnFungibleGasPayer_ok :: "TxMsgBurnFungibleGasPayer \<Rightarrow> bool" where
  "TxMsgBurnFungibleGasPayer_ok x \<longleftrightarrow> length (xbfg_from_address x) = 32 \<and> int256 (xbfg_amount x)"

definition write_TxMsgBurnFungibleGasPayer :: "TxMsgBurnFungibleGasPayer \<Rightarrow> wop" where
  "write_TxMsgBurnFungibleGasPayer x = wseq [
     write8u (xbfg_token_id x),
     write32 (xbfg_from_address x),
     write_int_x (xbfg_amount x)]"

definition read_TxMsgBurnFungibleGasPayer :: "TxMsgBurnFungibleGasPayer rop" where
  "read_TxMsgBurnFungibleGasPayer =
     rbind read8u (\<lambda>token_id.
     rbind read32 (\<lambda>from_address.
     rbind read_int_x (\<lambda>amount.
     rret \<lparr>xbfg_token_id = token_id, xbfg_from_address = from_address, xbfg_amount = amount\<rparr>)))"

interpretation tx_msg_burn_fungible_gas_payer: carbon_codec write_TxMsgBurnFungibleGasPayer read_TxMsgBurnFungibleGasPayer TxMsgBurnFungibleGasPayer_ok
  by unfold_locales (auto simp: write_TxMsgBurnFungibleGasPayer_def read_TxMsgBurnFungibleGasPayer_def TxMsgBurnFungibleGasPayer_ok_def intro!: wire_rt wire_safe wire_raises)

lemmas tx_msg_burn_fungible_gas_payer_wire [wire_rt] = tx_msg_burn_fungible_gas_payer.rt tx_msg_burn_fungible_gas_payer.arr.rt
lemmas tx_msg_burn_fungible_gas_payer_safe [wire_safe] = tx_msg_burn_fungible_gas_payer.rd_safe
lemmas tx_msg_burn_fungible_gas_payer_raises [wire_raises] = tx_msg_burn_fungible_gas_payer.rd_raises tx_msg_burn_fungible_gas_payer.arr_raises
lemmas tx_msg_burn_fungible_gas_payer_appends [simp] = tx_msg_burn_fungible_gas_payer.wr_appends tx_msg_burn_fungible_gas_payer.nonempty

record TxMsgMintNonFungible =
  xmn_token_id :: int
  xmn_to :: bytes
  xmn_series_id :: int
  xmn_rom :: bytes
  xmn_ram :: bytes

definition TxMsgMintNonFungible_ok :: "TxMsgMintNonFungible \<Rightarrow> bool" where
  "TxMsgMintNonFungible_ok x \<longleftrightarrow> length (xmn_to x) = 32"

definition write_TxMsgMintNonFungible :: "TxMsgMintNonFungible \<Rightarrow> wop" where
  "write_TxMsgMintNonFungible x = wseq [
     write8u (xmn_token_id x),
     write32 (xmn_to x),
     write4u (xmn_series_id x),
     write_byte_array (xmn_rom x),
     write_byte_array (xmn_ram x)]"

definition read_TxMsgMintNonFungible :: "TxMsgMintNonFungible rop" where
  "read_TxMsgMintNonFungible =
     rbind read8u (\<lambda>token_id.
     rbind read32 (\<lambda>to.
     rbind read4u (\<lambda>series_id.
     rbind read_byte_array (\<lambda>rom.
     rbind read_byte_array (\<lambda>ram.
     rret \<lparr>xmn_token_id = token_id, xmn_to = to, xmn_series_id = series_id, xmn_rom = rom, xmn_ram = ram\<rparr>)))))"

interpretation tx_msg_mint_non_fungible: carbon_codec write_TxMsgMintNonFungible read_TxMsgMintNonFungible TxMsgMintNonFungible_ok
  by unfold_locales (auto simp: write_TxMsgMintNonFungible_def read_TxMsgMintNonFungible_def TxMsgMintNonFungible_ok_def intro!: wire_rt wire_safe wire_raises)

lemmas tx_msg_mint_non_fungible_wire [wire_rt] = tx_msg_mint_non_fungible.rt tx_msg_mint_non_fungible.arr.rt
lemmas tx_msg_mint_non_fungible_safe [wire_safe] = tx_msg_mint_non_fungible.rd_safe
lemmas tx_msg_mint_non_fungible_raises [wire_raises] = tx_msg_mint_non_fungible.rd_raises tx_msg_mint_non_fungible.arr_raises
lemmas tx_msg_mint_non_fungible_appends [simp] = tx_msg_mint_non_fungible.wr_appends tx_msg_mint_non_fungible.nonempty

record TxMsgBurnNonFungible =
  xbn_token_id :: int
  xbn_instance_id :: int

definition TxMsgBurnNonFungible_ok :: "TxMsgBurnNonFungible \<Rightarrow> bool" where
  "TxMsgBurnNonFungible_ok x \<longleftrightarrow> True"

definition write_TxMsgBurnNonFungible :: "TxMsgBurnNonFungible \<Rightarrow> wop" where
  "write_TxMsgBurnNonFungible x = wseq [
     write8u (xbn_token_id x),
     write8u (xbn_instance_id x)]"

definition read_TxMsgBurnNonFungible :: "TxMsgBurnNonFungible rop" where
  "read_TxMsgBurnNonFungible =
     rbind read8u (\<lambda>token_id.
     rbind read8u (\<lambda>instance_id.
     rret \<lparr>xbn_token_id = token_id, xbn_instance_id = instance_id\<rparr>))"

interpretation tx_msg_burn_non_fungible: carbon_codec write_TxMsgBurnNonFungible read_TxMsgBurnNonFungible TxMsgBurnNonFungible_ok
  by unfold_locales (auto simp: write_TxMsgBurnNonFungible_def read_TxMsgBurnNonFungible_def TxMsgBurnNonFungible_ok_def intro!: wire_rt wire_safe wire_raises)

lemmas tx_msg_burn_non_fungible_wire [wire_rt] = tx_msg_burn_non_fungible.rt tx_msg_burn_non_fungible.arr.rt
lemmas tx_msg_burn_non_fungible_safe [wire_safe] = tx_msg_burn_non_fungible.rd_safe
lemmas tx_msg_burn_non_fungible_raises [wire_raises] = tx_msg_burn_non_fungible.rd_raises tx_msg_burn_non_fungible.arr_raises
lemmas tx_msg_burn_non_fungible_appends [simp] = tx_msg_burn_non_fungible.wr_appends tx_msg_burn_non_fungible.nonempty

record TxMsgBurnNonFungibleGasPayer =
  xbng_token_id :: int
  xbng_from_address :: bytes
  xbng_instance_id :: int

definition TxMsgBurnNonFungibleGasPayer_ok :: "TxMsgBurnNonFungibleGasPayer \<Rightarrow> bool" where
  "TxMsgBurnNonFungibleGasPayer_ok x \<longleftrightarrow> length (xbng_from_address x) = 32"

definition write_TxMsgBurnNonFungibleGasPayer :: "TxMsgBurnNonFungibleGasPayer \<Rightarrow> wop" where
  "write_TxMsgBurnNonFungibleGasPayer x = wseq [
     write8u (xbng_token_id x),
     write32 (xbng_from_address x),
     write8u (xbng_instance_id x)]"

definition read_TxMsgBurnNonFungibleGasPayer :: "TxMsgBurnNonFungibleGasPayer rop" where
  "read_TxMsgBurnNonFungibleGasPayer =
     rbind read8u (\<lambda>token_id.
     rbind read32 (\<lambda>from_address.
     rbind read8u (\<lambda>instance_id.
     rret \<lparr>xbng_token_id = token_id, xbng_from_address = from_address, xbng_instance_id = instance_id\<rparr>)))"

interpretation tx_msg_burn_non_fungible_gas_payer: carbon_codec write_TxMsgBurnNonFungibleGasPayer read_TxMsgBurnNonFungibleGasPayer TxMsgBurnNonFungibleGasPayer_ok
  by unfold_locales (auto simp: write_TxMsgBurnNonFungibleGasPayer_def read_TxMsgBurnNonFungibleGasPayer_def TxMsgBurnNonFungibleGasPayer_ok_def intro!: wire_rt wire_safe wire_raises)

lemmas tx_msg_burn_non_fungible_gas_payer_wire [wire_rt] = tx_msg_burn_non_fungible_gas_payer.rt tx_msg_burn_non_fungible_gas_payer.arr.rt
lemmas tx_msg_burn_non_fungible_gas_payer_safe [wire_safe] = tx_msg_burn_non_fungible_gas_payer.rd_safe
lemmas tx_msg_burn_non_fungible_gas_payer_raises [wire_raises] = tx_msg_burn_non_fungible_gas_payer.rd_raises tx_msg_burn_non_fungible_gas_payer.arr_raises
lemmas tx_msg_burn_non_fungible_gas_payer_appends [simp] = tx_msg_burn_non_fungible_gas_payer.wr_appends tx_msg_burn_non_fungible_gas_payer.nonempty

record TxMsgTrade =
  xt_transfer_f :: "TxMsgTransferFungibleGasPayer list"
  xt_transfer_n :: "TxMsgTransferNonFungibleSingleGasPayer list"
  xt_mint_f :: "TxMsgMintFungible list"
  xt_burn_f :: "TxMsgBurnFungibleGasPayer list"
  xt_mint_n :: "TxMsgMintNonFungible list"
  xt_burn_n :: "TxMsgBurnNonFungibleGasPayer list"

definition TxMsgTrade_ok :: "TxMsgTrade \<Rightarrow> bool" where
  "TxMsgTrade_ok x \<longleftrightarrow> list_all TxMsgTransferFungibleGasPayer_ok (xt_transfer_f x) \<and> list_all TxMsgTransferNonFungibleSingleGasPayer_ok (xt_transfer_n x) \<and> list_all TxMsgMintFungible_ok (xt_mint_f x) \<and> list_all TxMsgBurnFungibleGasPayer_ok (xt_burn_f x) \<and> list_all TxMsgMintNonFungible_ok (xt_mint_n x) \<and> list_all TxMsgBurnNonFungibleGasPayer_ok (xt_burn_n x)"

definition write_TxMsgTrade :: "TxMsgTrade \<Rightarrow> wop" where
  "write_TxMsgTrade x = wseq [
     write_carbon_array write_TxMsgTransferFungibleGasPayer (xt_transfer_f x),
     write_carbon_array write_TxMsgTransferNonFungibleSingleGasPayer (xt_transfer_n x),
     write_carbon_array write_TxMsgMintFungible (xt_mint_f x),
     write_carbon_array write_TxMsgBurnFungibleGasPayer (xt_burn_f x),
     write_carbon_array write_TxMsgMintNonFungible (xt_mint_n x),
     write_carbon_array write_TxMsgBurnNonFungibleGasPayer (xt_burn_n x)]"

definition read_TxMsgTrade :: "TxMsgTrade rop" where
  "read_TxMsgTrade =
     rbind (read_carbon_array read_TxMsgTransferFungibleGasPayer) (\<lambda>transfer_f.
     rbind (read_carbon_array read_TxMsgTransferNonFungibleSingleGasPayer) (\<lambda>transfer_n.
     rbind (read_carbon_array read_TxMsgMintFungible) (\<lambda>mint_f.
     rbind (read_carbon_array read_TxMsgBurnFungibleGasPayer) (\<lambda>burn_f.
     rbind (read_carbon_array read_TxMsgMintNonFungible) (\<lambda>mint_n.
     rbind (read_carbon_array read_TxMsgBurnNonFungibleGasPayer) (\<lambda>burn_n.
     rret \<lparr>xt_transfer_f = transfer_f, xt_transfer_n = transfer_n, xt_mint_f = mint_f, xt_burn_f = burn_f, xt_mint_n = mint_n, xt_burn_n = burn_n\<rparr>))))))"

interpretation tx_msg_trade: carbon_codec write_TxMsgTrade read_TxMsgTrade TxMsgTrade_ok
  by unfold_locales (auto simp: write_TxMsgTrade_def read_TxMsgTrade_def TxMsgTrade_ok_def intro!: wire_rt wire_safe wire_raises)

lemmas tx_msg_trade_wire [wire_rt] = tx_msg_trade.rt tx_msg_trade.arr.rt
lemmas tx_msg_trade_safe [wire_safe] = tx_msg_trade.rd_safe
lemmas tx_msg_trade_raises [wire_raises] = tx_msg_trade.rd_raises tx_msg_trade.arr_raises
lemmas tx_msg_trade_appends [simp] = tx_msg_trade.wr_appends tx_msg_trade.nonempty

record TxMsgPhantasma =
  xp_nexus :: small_string
  xp_chain :: small_string
  xp_script :: bytes

definition TxMsgPhantasma_ok :: "TxMsgPhantasma \<Rightarrow> bool" where
  "TxMsgPhantasma_ok x \<longleftrightarrow> True"

definition write_TxMsgPhantasma :: "TxMsgPhantasma \<Rightarrow> wop" where
  "write_TxMsgPhantasma x = wseq [
     write_small_string (xp_nexus x),
     write_small_string (xp_chain x),
     write_byte_array (xp_script x)]"

definition read_TxMsgPhantasma :: "TxMsgPhantasma rop" where
  "read_TxMsgPhantasma =
     rbind read_small_string (\<lambda>nexus.
     rbind read_small_string (\<lambda>chain.
     rbind read_byte_array (\<lambda>script.
     rret \<lparr>xp_nexus = nexus, xp_chain = chain, xp_script = script\<rparr>)))"

interpretation tx_msg_phantasma: carbon_codec write_TxMsgPhantasma read_TxMsgPhantasma TxMsgPhantasma_ok
  by unfold_locales (auto simp: write_TxMsgPhantasma_def read_TxMsgPhantasma_def TxMsgPhantasma_ok_def intro!: wire_rt wire_safe wire_raises)

lemmas tx_msg_phantasma_wire [wire_rt] = tx_msg_phantasma.rt tx_msg_phantasma.arr.rt
lemmas tx_msg_phantasma_safe [wire_safe] = tx_msg_phantasma.rd_safe
lemmas tx_msg_phantasma_raises [wire_raises] = tx_msg_phantasma.rd_raises tx_msg_phantasma.arr_raises
lemmas tx_msg_phantasma_appends [simp] = tx_msg_phantasma.wr_appends tx_msg_phantasma.nonempty

record TxMsgPhantasmaRaw =
  xpr_transaction :: bytes

definition TxMsgPhantasmaRaw_ok :: "TxMsgPhantasmaRaw \<Rightarrow> bool" where
  "TxMsgPhantasmaRaw_ok x \<longleftrightarrow> True"

definition write_TxMsgPhantasmaRaw :: "TxMsgPhantasmaRaw \<Rightarrow> wop" where
  "write_TxMsgPhantasmaRaw x = wseq [
     write_byte_array (xpr_transaction x)]"

definition read_TxMsgPhantasmaRaw :: "TxMsgPhantasmaRaw rop" where
  "read_TxMsgPhantasmaRaw =
     rbind read_byte_array (\<lambda>transaction.
     rret \<lparr>xpr_transaction = transaction\<rparr>)"

interpretation tx_msg_phantasma_raw: carbon_codec write_TxMsgPhantasmaRaw read_TxMsgPhantasmaRaw TxMsgPhantasmaRaw_ok
  by unfold_locales (auto simp: write_TxMsgPhantasmaRaw_def read_TxMsgPhantasmaRaw_def TxMsgPhantasmaRaw_ok_def intro!: wire_rt wire_safe wire_raises)

lemmas tx_msg_phantasma_raw_wire [wire_rt] = tx_msg_phantasma_raw.rt tx_msg_phantasma_raw.arr.rt
lemmas tx_msg_phantasma_raw_safe [wire_safe] = tx_msg_phantasma_raw.rd_safe
lemmas tx_msg_phantasma_raw_raises [wire_raises] = tx_msg_phantasma_raw.rd_raises tx_msg_phantasma_raw.arr_raises
lemmas tx_msg_phantasma_raw_appends [simp] = tx_msg_phantasma_raw.wr_appends tx_msg_phantasma_raw.nonempty

section \<open>Transaction types\<close>

datatype tx_type =
    TX_CALL
  | TX_CALL_MULTI
  | TX_TRADE
  | TX_TRANSFER_FUNGIBLE
  | TX_TRANSFER_FUNGIBLE_GAS_PAYER
  | TX_TRANSFER_NON_FUNGIBLE_SINGLE
  | TX_TRANSFER_NON_FUNGIBLE_SINGLE_GAS_PAYER
  | TX_TRANSFER_NON_FUNGIBLE_MULTI
  | TX_TRANSFER_NON_FUNGIBLE_MULTI_GAS_PAYER
  | TX_MINT_FUNGIBLE
  | TX_BURN_FUNGIBLE
  | TX_BURN_FUNGIBLE_GAS_PAYER
  | TX_MINT_NON_FUNGIBLE
  | TX_BURN_NON_FUNGIBLE
  | TX_BURN_NON_FUNGIBLE_GAS_PAYER
  | TX_PHANTASMA
  | TX_PHANTASMA_RAW

fun tx_code :: "tx_type \<Rightarrow> int" where
  "tx_code TX_CALL = 0"
| "tx_code TX_CALL_MULTI = 1"
| "tx_code TX_TRADE = 2"
| "tx_code TX_TRANSFER_FUNGIBLE = 3"
| "tx_code TX_TRANSFER_FUNGIBLE_GAS_PAYER = 4"
| "tx_code TX_TRANSFER_NON_FUNGIBLE_SINGLE = 5"
| "tx_code TX_TRANSFER_NON_FUNGIBLE_SINGLE_GAS_PAYER = 6"
| "tx_code TX_TRANSFER_NON_FUNGIBLE_MULTI = 7"
| "tx_code TX_TRANSFER_NON_FUNGIBLE_MULTI_GAS_PAYER = 8"
| "tx_code TX_MINT_FUNGIBLE = 9"
| "tx_code TX_BURN_FUNGIBLE = 10"
| "tx_code TX_BURN_FUNGIBLE_GAS_PAYER = 11"
| "tx_code TX_MINT_NON_FUNGIBLE = 12"
| "tx_code TX_BURN_NON_FUNGIBLE = 13"
| "tx_code TX_BURN_NON_FUNGIBLE_GAS_PAYER = 14"
| "tx_code TX_PHANTASMA = 15"
| "tx_code TX_PHANTASMA_RAW = 16"

definition tx_types :: "tx_type list" where
  "tx_types = [TX_CALL,
     TX_CALL_MULTI,
     TX_TRADE,
     TX_TRANSFER_FUNGIBLE,
     TX_TRANSFER_FUNGIBLE_GAS_PAYER,
     TX_TRANSFER_NON_FUNGIBLE_SINGLE,
     TX_TRANSFER_NON_FUNGIBLE_SINGLE_GAS_PAYER,
     TX_TRANSFER_NON_FUNGIBLE_MULTI,
     TX_TRANSFER_NON_FUNGIBLE_MULTI_GAS_PAYER,
     TX_MINT_FUNGIBLE,
     TX_BURN_FUNGIBLE,
     TX_BURN_FUNGIBLE_GAS_PAYER,
     TX_MINT_NON_FUNGIBLE,
     TX_BURN_NON_FUNGIBLE,
     TX_BURN_NON_FUNGIBLE_GAS_PAYER,
     TX_PHANTASMA,
     TX_PHANTASMA_RAW]"

definition TxType :: "int \<Rightarrow> tx_type result" where
  "TxType v = (if 0 \<le> v \<and> v < 17 then Inr (tx_types ! nat v) else Inl ValueError)"

lemma TxType_code [simp]: "TxType (tx_code t) = Inr t"
  by (cases t) (simp_all add: TxType_def tx_types_def)

lemma TxType_error: "TxType v = Inl e \<Longrightarrow> e = ValueError"
  by (auto simp: TxType_def split: if_splits)

datatype tx_payload =
    PMsgCall TxMsgCall
  | PMsgCallMulti TxMsgCallMulti
  | PMsgTrade TxMsgTrade
  | PMsgTransferFungible TxMsgTransferFungible
  | PMsgTransferFungibleGasPayer TxMsgTransferFungibleGasPayer
  | PMsgTransferNonFungibleSingle TxMsgTransferNonFungibleSingle
  | PMsgTransferNonFungibleSingleGasPayer TxMsgTransferNonFungibleSingleGasPayer
  | PMsgTransferNonFungibleMulti TxMsgTransferNonFungibleMulti
  | PMsgTransferNonFungibleMultiGasPayer TxMsgTransferNonFungibleMultiGasPayer
  | PMsgMintFungible TxMsgMintFungible
  | PMsgBurnFungible TxMsgBurnFungible
  | PMsgBurnFungibleGasPayer TxMsgBurnFungibleGasPayer
  | PMsgMintNonFungible TxMsgMintNonFungible
  | PMsgBurnNonFungible TxMsgBurnNonFungible
  | PMsgBurnNonFungibleGasPayer TxMsgBurnNonFungibleGasPayer
  | PMsgPhantasma TxMsgPhantasma
  | PMsgPhantasmaRaw TxMsgPhantasmaRaw

text \<open>The table of \<^verbatim>\<open>_read_payload\<close>, and the type each payload class belongs to.\<close>

fun payload_type :: "tx_payload \<Rightarrow> tx_type" where
  "payload_type (PMsgCall p) = TX_CALL"
| "payload_type (PMsgCallMulti p) = TX_CALL_MULTI"
| "payload_type (PMsgTrade p) = TX_TRADE"
| "payload_type (PMsgTransferFungible p) = TX_TRANSFER_FUNGIBLE"
| "payload_type (PMsgTransferFungibleGasPayer p) = TX_TRANSFER_FUNGIBLE_GAS_PAYER"
| "payload_type (PMsgTransferNonFungibleSingle p) = TX_TRANSFER_NON_FUNGIBLE_SINGLE"
| "payload_type (PMsgTransferNonFungibleSingleGasPayer p) = TX_TRANSFER_NON_FUNGIBLE_SINGLE_GAS_PAYER"
| "payload_type (PMsgTransferNonFungibleMulti p) = TX_TRANSFER_NON_FUNGIBLE_MULTI"
| "payload_type (PMsgTransferNonFungibleMultiGasPayer p) = TX_TRANSFER_NON_FUNGIBLE_MULTI_GAS_PAYER"
| "payload_type (PMsgMintFungible p) = TX_MINT_FUNGIBLE"
| "payload_type (PMsgBurnFungible p) = TX_BURN_FUNGIBLE"
| "payload_type (PMsgBurnFungibleGasPayer p) = TX_BURN_FUNGIBLE_GAS_PAYER"
| "payload_type (PMsgMintNonFungible p) = TX_MINT_NON_FUNGIBLE"
| "payload_type (PMsgBurnNonFungible p) = TX_BURN_NON_FUNGIBLE"
| "payload_type (PMsgBurnNonFungibleGasPayer p) = TX_BURN_NON_FUNGIBLE_GAS_PAYER"
| "payload_type (PMsgPhantasma p) = TX_PHANTASMA"
| "payload_type (PMsgPhantasmaRaw p) = TX_PHANTASMA_RAW"

fun write_payload :: "tx_payload \<Rightarrow> wop" where
  "write_payload (PMsgCall p) = write_TxMsgCall p"
| "write_payload (PMsgCallMulti p) = write_TxMsgCallMulti p"
| "write_payload (PMsgTrade p) = write_TxMsgTrade p"
| "write_payload (PMsgTransferFungible p) = write_TxMsgTransferFungible p"
| "write_payload (PMsgTransferFungibleGasPayer p) = write_TxMsgTransferFungibleGasPayer p"
| "write_payload (PMsgTransferNonFungibleSingle p) = write_TxMsgTransferNonFungibleSingle p"
| "write_payload (PMsgTransferNonFungibleSingleGasPayer p) = write_TxMsgTransferNonFungibleSingleGasPayer p"
| "write_payload (PMsgTransferNonFungibleMulti p) = write_TxMsgTransferNonFungibleMulti p"
| "write_payload (PMsgTransferNonFungibleMultiGasPayer p) = write_TxMsgTransferNonFungibleMultiGasPayer p"
| "write_payload (PMsgMintFungible p) = write_TxMsgMintFungible p"
| "write_payload (PMsgBurnFungible p) = write_TxMsgBurnFungible p"
| "write_payload (PMsgBurnFungibleGasPayer p) = write_TxMsgBurnFungibleGasPayer p"
| "write_payload (PMsgMintNonFungible p) = write_TxMsgMintNonFungible p"
| "write_payload (PMsgBurnNonFungible p) = write_TxMsgBurnNonFungible p"
| "write_payload (PMsgBurnNonFungibleGasPayer p) = write_TxMsgBurnNonFungibleGasPayer p"
| "write_payload (PMsgPhantasma p) = write_TxMsgPhantasma p"
| "write_payload (PMsgPhantasmaRaw p) = write_TxMsgPhantasmaRaw p"

fun read_payload :: "tx_type \<Rightarrow> tx_payload rop" where
  "read_payload TX_CALL = rbind read_TxMsgCall (\<lambda>p. rret (PMsgCall p))"
| "read_payload TX_CALL_MULTI = rbind read_TxMsgCallMulti (\<lambda>p. rret (PMsgCallMulti p))"
| "read_payload TX_TRADE = rbind read_TxMsgTrade (\<lambda>p. rret (PMsgTrade p))"
| "read_payload TX_TRANSFER_FUNGIBLE = rbind read_TxMsgTransferFungible (\<lambda>p. rret (PMsgTransferFungible p))"
| "read_payload TX_TRANSFER_FUNGIBLE_GAS_PAYER = rbind read_TxMsgTransferFungibleGasPayer (\<lambda>p. rret (PMsgTransferFungibleGasPayer p))"
| "read_payload TX_TRANSFER_NON_FUNGIBLE_SINGLE = rbind read_TxMsgTransferNonFungibleSingle (\<lambda>p. rret (PMsgTransferNonFungibleSingle p))"
| "read_payload TX_TRANSFER_NON_FUNGIBLE_SINGLE_GAS_PAYER = rbind read_TxMsgTransferNonFungibleSingleGasPayer (\<lambda>p. rret (PMsgTransferNonFungibleSingleGasPayer p))"
| "read_payload TX_TRANSFER_NON_FUNGIBLE_MULTI = rbind read_TxMsgTransferNonFungibleMulti (\<lambda>p. rret (PMsgTransferNonFungibleMulti p))"
| "read_payload TX_TRANSFER_NON_FUNGIBLE_MULTI_GAS_PAYER = rbind read_TxMsgTransferNonFungibleMultiGasPayer (\<lambda>p. rret (PMsgTransferNonFungibleMultiGasPayer p))"
| "read_payload TX_MINT_FUNGIBLE = rbind read_TxMsgMintFungible (\<lambda>p. rret (PMsgMintFungible p))"
| "read_payload TX_BURN_FUNGIBLE = rbind read_TxMsgBurnFungible (\<lambda>p. rret (PMsgBurnFungible p))"
| "read_payload TX_BURN_FUNGIBLE_GAS_PAYER = rbind read_TxMsgBurnFungibleGasPayer (\<lambda>p. rret (PMsgBurnFungibleGasPayer p))"
| "read_payload TX_MINT_NON_FUNGIBLE = rbind read_TxMsgMintNonFungible (\<lambda>p. rret (PMsgMintNonFungible p))"
| "read_payload TX_BURN_NON_FUNGIBLE = rbind read_TxMsgBurnNonFungible (\<lambda>p. rret (PMsgBurnNonFungible p))"
| "read_payload TX_BURN_NON_FUNGIBLE_GAS_PAYER = rbind read_TxMsgBurnNonFungibleGasPayer (\<lambda>p. rret (PMsgBurnNonFungibleGasPayer p))"
| "read_payload TX_PHANTASMA = rbind read_TxMsgPhantasma (\<lambda>p. rret (PMsgPhantasma p))"
| "read_payload TX_PHANTASMA_RAW = rbind read_TxMsgPhantasmaRaw (\<lambda>p. rret (PMsgPhantasmaRaw p))"

fun payload_ok :: "tx_payload \<Rightarrow> bool" where
  "payload_ok (PMsgCall p) \<longleftrightarrow> TxMsgCall_ok p"
| "payload_ok (PMsgCallMulti p) \<longleftrightarrow> TxMsgCallMulti_ok p"
| "payload_ok (PMsgTrade p) \<longleftrightarrow> TxMsgTrade_ok p"
| "payload_ok (PMsgTransferFungible p) \<longleftrightarrow> TxMsgTransferFungible_ok p"
| "payload_ok (PMsgTransferFungibleGasPayer p) \<longleftrightarrow> TxMsgTransferFungibleGasPayer_ok p"
| "payload_ok (PMsgTransferNonFungibleSingle p) \<longleftrightarrow> TxMsgTransferNonFungibleSingle_ok p"
| "payload_ok (PMsgTransferNonFungibleSingleGasPayer p) \<longleftrightarrow> TxMsgTransferNonFungibleSingleGasPayer_ok p"
| "payload_ok (PMsgTransferNonFungibleMulti p) \<longleftrightarrow> TxMsgTransferNonFungibleMulti_ok p"
| "payload_ok (PMsgTransferNonFungibleMultiGasPayer p) \<longleftrightarrow> TxMsgTransferNonFungibleMultiGasPayer_ok p"
| "payload_ok (PMsgMintFungible p) \<longleftrightarrow> TxMsgMintFungible_ok p"
| "payload_ok (PMsgBurnFungible p) \<longleftrightarrow> TxMsgBurnFungible_ok p"
| "payload_ok (PMsgBurnFungibleGasPayer p) \<longleftrightarrow> TxMsgBurnFungibleGasPayer_ok p"
| "payload_ok (PMsgMintNonFungible p) \<longleftrightarrow> TxMsgMintNonFungible_ok p"
| "payload_ok (PMsgBurnNonFungible p) \<longleftrightarrow> TxMsgBurnNonFungible_ok p"
| "payload_ok (PMsgBurnNonFungibleGasPayer p) \<longleftrightarrow> TxMsgBurnNonFungibleGasPayer_ok p"
| "payload_ok (PMsgPhantasma p) \<longleftrightarrow> TxMsgPhantasma_ok p"
| "payload_ok (PMsgPhantasmaRaw p) \<longleftrightarrow> TxMsgPhantasmaRaw_ok p"

lemma rt_payload: "payload_ok p \<Longrightarrow> rt (write_payload p) (read_payload (payload_type p)) p"
  by (cases p) (auto intro!: rt_map wire_rt)

lemma safe_payload: "safe (read_payload t)"
  by (cases t) (auto intro!: wire_safe)

lemma raises_payload: "raises (read_payload t) carbon_errors"
  by (cases t) (auto intro!: wire_raises)

lemma payload_appends: "appends (write_payload p)"
  by (cases p) simp_all

fun payload_from_address :: "tx_payload \<Rightarrow> bytes" where
  "payload_from_address (PMsgTransferFungibleGasPayer p) = xfg_from_address p"
| "payload_from_address (PMsgTransferNonFungibleSingleGasPayer p) = xsg_from_address p"
| "payload_from_address (PMsgTransferNonFungibleMultiGasPayer p) = xmg_from_address p"
| "payload_from_address (PMsgBurnFungibleGasPayer p) = xbfg_from_address p"
| "payload_from_address (PMsgBurnNonFungibleGasPayer p) = xbng_from_address p"
| "payload_from_address p = EMPTY_BYTES32"

section \<open>Transactions\<close>

record TxMsg =
  tm_type :: tx_type
  tm_expiry :: int
  tm_max_gas :: int
  tm_max_data :: int
  tm_gas_from :: bytes
  tm_payload :: small_string
  tm_msg :: tx_payload

definition TxMsg_ok :: "TxMsg \<Rightarrow> bool" where
  "TxMsg_ok x \<longleftrightarrow> tm_type x = payload_type (tm_msg x) \<and> length (tm_gas_from x) = 32 \<and> payload_ok (tm_msg x)"

definition write_TxMsg :: "TxMsg \<Rightarrow> wop" where
  "write_TxMsg x = wseq [
     write1 (tx_code (tm_type x)),
     write8 (tm_expiry x),
     write8u (tm_max_gas x),
     write8u (tm_max_data x),
     write32 (tm_gas_from x),
     write_small_string (tm_payload x),
     write_payload (tm_msg x)]"

definition read_TxMsg :: "TxMsg rop" where
  "read_TxMsg =
     rbind (rbind read1 (\<lambda>v. rlift (TxType v))) (\<lambda>tx_type.
     rbind read8 (\<lambda>expiry.
     rbind read8u (\<lambda>max_gas.
     rbind read8u (\<lambda>max_data.
     rbind read32 (\<lambda>gas_from.
     rbind read_small_string (\<lambda>payload.
     rbind (read_payload tx_type) (\<lambda>msg.
     rret \<lparr>tm_type = tx_type, tm_expiry = expiry, tm_max_gas = max_gas, tm_max_data = max_data,
       tm_gas_from = gas_from, tm_payload = payload, tm_msg = msg\<rparr>)))))))"

interpretation tx_msg: carbon_codec write_TxMsg read_TxMsg TxMsg_ok
proof unfold_locales
  fix x
  assume ok: "TxMsg_ok x"
  have "rt (write1 (tx_code (tm_type x))) (rbind read1 (\<lambda>v. rlift (TxType v))) (tm_type x)"
    by (rule rt_bind_lift [OF rt_write1]) simp
  then show "rt (write_TxMsg x) read_TxMsg x"
    unfolding write_TxMsg_def read_TxMsg_def using ok rt_payload [of "tm_msg x"]
    by (auto simp: TxMsg_ok_def intro!: wire_rt)
qed (auto simp: write_TxMsg_def read_TxMsg_def payload_appends safe_payload raises_payload
      intro!: wire_safe wire_raises dest: TxType_error)

lemmas tx_msg_wire [wire_rt] = tx_msg.rt tx_msg.arr.rt
lemmas tx_msg_safe [wire_safe] = tx_msg.rd_safe
lemmas tx_msg_raises [wire_raises] = tx_msg.rd_raises tx_msg.arr_raises
lemmas tx_msg_appends [simp] = tx_msg.wr_appends tx_msg.nonempty

record Witness =
  wi_address :: bytes
  wi_signature :: bytes

definition Witness_ok :: "Witness \<Rightarrow> bool" where
  "Witness_ok x \<longleftrightarrow> length (wi_address x) = 32 \<and> length (wi_signature x) = 64"

definition write_Witness :: "Witness \<Rightarrow> wop" where
  "write_Witness x = wseq [
     write32 (wi_address x),
     write64 (wi_signature x)]"

definition read_Witness :: "Witness rop" where
  "read_Witness =
     rbind read32 (\<lambda>address.
     rbind read64 (\<lambda>signature.
     rret \<lparr>wi_address = address, wi_signature = signature\<rparr>))"

interpretation witness: carbon_codec write_Witness read_Witness Witness_ok
  by unfold_locales (auto simp: write_Witness_def read_Witness_def Witness_ok_def intro!: wire_rt wire_safe wire_raises)

lemmas witness_wire [wire_rt] = witness.rt witness.arr.rt
lemmas witness_safe [wire_safe] = witness.rd_safe
lemmas witness_raises [wire_raises] = witness.rd_raises witness.arr_raises
lemmas witness_appends [simp] = witness.wr_appends witness.nonempty

record SignedTxMsg =
  sm_msg :: TxMsg
  sm_witnesses :: "Witness list"

text \<open>The groups of transaction types with one witness, with a gas payer, and with a witness list.\<close>

definition single_witness_types :: "tx_type set" where
  "single_witness_types = {TX_TRANSFER_FUNGIBLE,
     TX_TRANSFER_NON_FUNGIBLE_SINGLE,
     TX_TRANSFER_NON_FUNGIBLE_MULTI,
     TX_MINT_FUNGIBLE,
     TX_BURN_FUNGIBLE,
     TX_MINT_NON_FUNGIBLE,
     TX_BURN_NON_FUNGIBLE}"

definition gas_payer_types :: "tx_type set" where
  "gas_payer_types = {TX_TRANSFER_FUNGIBLE_GAS_PAYER,
     TX_TRANSFER_NON_FUNGIBLE_SINGLE_GAS_PAYER,
     TX_TRANSFER_NON_FUNGIBLE_MULTI_GAS_PAYER,
     TX_BURN_FUNGIBLE_GAS_PAYER,
     TX_BURN_NON_FUNGIBLE_GAS_PAYER}"

definition witness_list_types :: "tx_type set" where
  "witness_list_types = {TX_CALL, TX_CALL_MULTI, TX_TRADE, TX_PHANTASMA}"

definition write_witnesses :: "TxMsg \<Rightarrow> Witness list \<Rightarrow> wop" where
  "write_witnesses m ws =
     (if tm_type m \<in> single_witness_types then
        (if length ws \<noteq> 1 \<or> wi_address (ws ! 0) \<noteq> tm_gas_from m then w_fail SerializationError
         else write64 (wi_signature (ws ! 0)))
      else if tm_type m \<in> gas_payer_types then
        (if length ws \<noteq> 2 \<or> wi_address (ws ! 0) \<noteq> tm_gas_from m then w_fail SerializationError
         else wseq [write64 (wi_signature (ws ! 0)), write64 (wi_signature (ws ! 1))])
      else if tm_type m \<in> witness_list_types then write_carbon_array write_Witness ws
      else if tm_type m = TX_PHANTASMA_RAW then
        (if ws \<noteq> [] then w_fail SerializationError else wseq [])
      else w_fail SerializationError)"

definition write_SignedTxMsg :: "SignedTxMsg \<Rightarrow> wop" where
  "write_SignedTxMsg x = wseq [write_TxMsg (sm_msg x), write_witnesses (sm_msg x) (sm_witnesses x)]"

definition read_witnesses :: "TxMsg \<Rightarrow> Witness list rop" where
  "read_witnesses m =
     (if tm_type m \<in> single_witness_types then
        rbind read64 (\<lambda>s. rret [\<lparr>wi_address = tm_gas_from m, wi_signature = s\<rparr>])
      else if tm_type m \<in> gas_payer_types then
        rbind read64 (\<lambda>s. rbind read64 (\<lambda>t.
          rret [\<lparr>wi_address = tm_gas_from m, wi_signature = s\<rparr>,
                \<lparr>wi_address = payload_from_address (tm_msg m), wi_signature = t\<rparr>]))
      else if tm_type m \<in> witness_list_types then read_carbon_array read_Witness
      else if tm_type m = TX_PHANTASMA_RAW then rret []
      else rfail SerializationError)"

definition read_SignedTxMsg :: "SignedTxMsg rop" where
  "read_SignedTxMsg = rbind read_TxMsg (\<lambda>m. rbind (read_witnesses m) (\<lambda>ws.
     rret \<lparr>sm_msg = m, sm_witnesses = ws\<rparr>))"

text \<open>The second witness of a gas-payer transaction is not written with its address, so only the
  payload's sender comes back.\<close>

definition SignedTxMsg_ok :: "SignedTxMsg \<Rightarrow> bool" where
  "SignedTxMsg_ok x \<longleftrightarrow> TxMsg_ok (sm_msg x) \<and> list_all Witness_ok (sm_witnesses x) \<and>
     (tm_type (sm_msg x) \<in> gas_payer_types \<longrightarrow> length (sm_witnesses x) = 2 \<longrightarrow>
      wi_address (sm_witnesses x ! 1) = payload_from_address (tm_msg (sm_msg x)))"

lemma tx_type_groups:
  "t \<in> single_witness_types \<or> t \<in> gas_payer_types \<or> t \<in> witness_list_types \<or> t = TX_PHANTASMA_RAW"
  by (cases t) (simp_all add: single_witness_types_def gas_payer_types_def witness_list_types_def)

lemma tx_type_groups_disjoint:
  "t \<in> gas_payer_types \<Longrightarrow> t \<notin> single_witness_types"
  "t \<in> witness_list_types \<Longrightarrow> t \<notin> single_witness_types \<and> t \<notin> gas_payer_types"
  "TX_PHANTASMA_RAW \<notin> single_witness_types \<union> gas_payer_types \<union> witness_list_types"
  by (auto simp: single_witness_types_def gas_payer_types_def witness_list_types_def)

lemma rt_witnesses:
  assumes ok: "SignedTxMsg_ok \<lparr>sm_msg = m, sm_witnesses = ws\<rparr>"
  shows "rt (write_witnesses m ws) (read_witnesses m) ws"
proof -
  have w: "list_all Witness_ok ws" using ok by (simp add: SignedTxMsg_ok_def)
  consider "tm_type m \<in> single_witness_types" | "tm_type m \<in> gas_payer_types"
    | "tm_type m \<in> witness_list_types" | "tm_type m = TX_PHANTASMA_RAW"
    using tx_type_groups by blast
  then show ?thesis
  proof cases
    case 1
    then show ?thesis
    proof (cases "length ws \<noteq> 1 \<or> wi_address (ws ! 0) \<noteq> tm_gas_from m")
      case False
      then obtain u where u: "ws = [u]" "wi_address u = tm_gas_from m"
        by (cases ws) auto
      with 1 w show ?thesis
        by (cases u) (auto simp: write_witnesses_def read_witnesses_def Witness_ok_def
            intro!: rt_map [OF rt_write64])
    qed (simp add: write_witnesses_def rt_fail)
  next
    case 2
    note d = tx_type_groups_disjoint(1) [OF 2]
    show ?thesis
    proof (cases "length ws \<noteq> 2 \<or> wi_address (ws ! 0) \<noteq> tm_gas_from m")
      case False
      then obtain u v where u: "ws = [u, v]" "wi_address u = tm_gas_from m"
        by (cases ws; cases "tl ws") auto
      then have v: "wi_address v = payload_from_address (tm_msg m)"
        using ok 2 by (simp add: SignedTxMsg_ok_def)
      from 2 d u v w show ?thesis
        by (cases u; cases v) (auto simp: write_witnesses_def read_witnesses_def Witness_ok_def
            intro!: rt_cons [OF rt_write64] rt_nil)
    qed (simp add: write_witnesses_def rt_fail d 2)
  next
    case 3
    then show ?thesis
      using tx_type_groups_disjoint(2) [OF 3] witness.arr.rt [OF w]
      by (simp add: write_witnesses_def read_witnesses_def)
  next
    case 4
    then show ?thesis
      using tx_type_groups_disjoint(3)
      by (cases ws) (auto simp: write_witnesses_def read_witnesses_def rt_fail intro: rt_nil)
  qed
qed

lemma appends_witnesses [simp]: "appends (write_witnesses m ws)"
  unfolding write_witnesses_def by simp

interpretation signed_tx_msg: carbon_codec write_SignedTxMsg read_SignedTxMsg SignedTxMsg_ok
proof unfold_locales
  fix x
  assume ok: "SignedTxMsg_ok x"
  have "rt (write_witnesses (sm_msg x) (sm_witnesses x)) (read_witnesses (sm_msg x)) (sm_witnesses x)"
    by (rule rt_witnesses) (use ok in \<open>cases x, simp\<close>)
  then show "rt (write_SignedTxMsg x) read_SignedTxMsg x"
    unfolding write_SignedTxMsg_def read_SignedTxMsg_def using ok
    by (auto simp: SignedTxMsg_ok_def intro!: wire_rt)
next
  have "safe (read_witnesses m)" "raises (read_witnesses m) carbon_errors" for m
    unfolding read_witnesses_def by (auto intro!: wire_safe wire_raises)
  then show "safe read_SignedTxMsg" "raises read_SignedTxMsg carbon_errors"
    unfolding read_SignedTxMsg_def by (auto intro!: wire_safe wire_raises)
qed (simp_all add: write_SignedTxMsg_def)

section \<open>Properties\<close>

text \<open>A fungible transfer signed by the account that pays for it.\<close>

definition example_msg :: TxMsg where
  "example_msg = \<lparr>tm_type = TX_TRANSFER_FUNGIBLE, tm_expiry = 1759711416000, tm_max_gas = 10000000,
     tm_max_data = 1000, tm_gas_from = replicate 32 1, tm_payload = [],
     tm_msg = PMsgTransferFungible \<lparr>xf_to = replicate 32 2, xf_token_id = 1, xf_amount = 100000000\<rparr>\<rparr>"

definition example_signed :: SignedTxMsg where
  "example_signed = \<lparr>sm_msg = example_msg,
     sm_witnesses = [\<lparr>wi_address = replicate 32 1, wi_signature = replicate 64 9\<rparr>]\<rparr>"

lemma example_msg_written: "\<exists>bs. serialize (write_TxMsg example_msg) = Inr bs"
  by (simp add: example_msg_def write_TxMsg_def serialize_wseq serialize_ints serialize_fixed
      serialize_small_string write_TxMsgTransferFungible_def)

lemma example_msg_ok: "TxMsg_ok example_msg"
  by (simp add: example_msg_def TxMsg_ok_def TxMsgTransferFungible_ok_def)

lemma example_signed_written: "\<exists>bs. serialize (write_SignedTxMsg example_signed) = Inr bs"
proof -
  obtain bs where "serialize (write_TxMsg example_msg) = Inr bs" using example_msg_written by blast
  moreover have "serialize (write_witnesses example_msg [\<lparr>wi_address = replicate 32 1, wi_signature = replicate 64 9\<rparr>]) =
    Inr (replicate 64 9)"
    by (simp add: write_witnesses_def example_msg_def single_witness_types_def serialize_fixed)
  ultimately show ?thesis by (simp add: write_SignedTxMsg_def example_signed_def serialize_wseq)
qed

lemma example_signed_ok: "SignedTxMsg_ok example_signed"
  using example_msg_ok
  by (simp add: SignedTxMsg_ok_def example_signed_def Witness_ok_def)

text \<open>C1: A signed transaction comes back from its wire form, whatever its type; with bytes after it, or
  cut short, it is rejected.\<close>

theorem signed_tx_msg_roundtrip:
  assumes "SignedTxMsg_ok x" "serialize (write_SignedTxMsg x) = Inr bs"
  shows "deserialize read_SignedTxMsg bs = Inr x \<and>
    (\<forall>cs. cs \<noteq> [] \<longrightarrow> deserialize read_SignedTxMsg (bs @ cs) = Inl SerializationError) \<and>
    (\<forall>pre post. bs = pre @ post \<longrightarrow> post \<noteq> [] \<longrightarrow> (\<exists>e. deserialize read_SignedTxMsg pre = Inl e))"
  using signed_tx_msg.roundtrip [OF assms] signed_tx_msg.trailing [OF assms]
    signed_tx_msg.truncated [OF assms(1)] assms(2) by blast

theorem signed_tx_msg_roundtrip_witness:
  "\<exists>bs. serialize (write_SignedTxMsg example_signed) = Inr bs \<and>
     deserialize read_SignedTxMsg bs = Inr example_signed"
  using signed_tx_msg_roundtrip [OF example_signed_ok] example_signed_written by blast

text \<open>C3: No two well-formed unsigned messages share a wire form, and none is a prefix of another, so a
  signature over the wire form commits to one message.\<close>

theorem tx_msg_prefix_free:
  assumes "TxMsg_ok m" "TxMsg_ok n"
    and "serialize (write_TxMsg m) = Inr bs" "serialize (write_TxMsg n) = Inr (bs @ cs)"
  shows "m = n \<and> cs = []"
  using tx_msg.prefix_free [OF assms] .

theorem tx_msg_prefix_free_witness:
  "serialize (write_TxMsg example_msg) \<noteq> serialize (write_TxMsg (example_msg\<lparr>tm_max_data := 2000\<rparr>))"
proof
  let ?n = "example_msg\<lparr>tm_max_data := 2000\<rparr>"
  assume e: "serialize (write_TxMsg example_msg) = serialize (write_TxMsg ?n)"
  obtain bs where bs: "serialize (write_TxMsg example_msg) = Inr bs" using example_msg_written by blast
  then have n: "serialize (write_TxMsg ?n) = Inr (bs @ [])" by (simp add: e)
  have "TxMsg_ok ?n" using example_msg_ok by (simp add: TxMsg_ok_def)
  from tx_msg_prefix_free [OF example_msg_ok this bs n] show False by (simp add: example_msg_def)
qed

text \<open>Reading a signed transaction from any bytes raises nothing but a serialization error, a
  decoding error, an unknown enum value (a plain \<^verbatim>\<open>ValueError\<close>) or the recursion limit.\<close>

theorem signed_tx_msg_errors:
  "deserialize read_SignedTxMsg bs \<in> range Inr \<union> Inl ` {SerializationError, UnicodeDecodeError, ValueError, RecursionError}"
proof (cases "deserialize read_SignedTxMsg bs")
  case (Inl e)
  from signed_tx_msg.deserialize_errors [OF Inl] Inl show ?thesis by (auto simp: carbon_errors_def)
qed auto

end
