(* ===== verification/Fees.thy ===== *)
theory Fees
  imports CarbonTx
begin

text \<open>
  The fee options and the native fee estimator of \<^verbatim>\<open>carbon.py\<close>. The settlement formula of the
  second gas model is \<open>bill_v2\<close>, the scaling with saturation is \<open>mul_shift\<close>, and
  \<open>estimate_native_fee\<close> is the closed-form offer with its expected bill. Python shifts are
  divisions by powers of two; a negative shift raises \<^verbatim>\<open>ValueError\<close>.
\<close>

section \<open>Shifts and saturation\<close>

definition U64_MAX :: int where
  "U64_MAX = 2 ^ 64 - 1"

definition py_shr :: "int \<Rightarrow> int \<Rightarrow> int result" where
  "py_shr v shift = (if shift < 0 then Inl ValueError else Inr (v div 2 ^ nat shift))"

definition mul_shift :: "int \<Rightarrow> int \<Rightarrow> int \<Rightarrow> int result" where
  "mul_shift v multiplier shift =
     (if shift \<ge> 64 then Inr 0
      else rthen (py_shr (v * multiplier) shift) (\<lambda>x. Inr (min x U64_MAX)))"

definition symbol_shift :: "int \<Rightarrow> int \<Rightarrow> int result" where
  "symbol_shift n max_length =
     (if n < 0 then Inl ValueError
      else if n = 0 then Inr 0
      else let shift = n - 1 in
        if max_length \<noteq> 0 \<and> shift \<ge> max_length then Inl ValueError else Inr shift)"

definition round_up :: "int \<Rightarrow> int \<Rightarrow> int" where
  "round_up v step = (let r = v mod step in if r = 0 then v else v + (step - r))"

lemma round_up_bounds: "0 < step \<Longrightarrow> v \<le> round_up v step \<and> round_up v step < v + step \<and> step dvd round_up v step"
proof -
  assume s: "0 < step"
  have r: "0 \<le> v mod step" "v mod step < step" using s by simp_all
  have "v + (step - v mod step) = step * (v div step + 1)"
    by (simp add: minus_mod_eq_mult_div [symmetric] algebra_simps)
  then have d: "step dvd v + (step - v mod step)" by (metis dvd_triv_left)
  show ?thesis
  proof (cases "v mod step = 0")
    case True
    with s show ?thesis by (simp add: round_up_def dvd_eq_mod_eq_0)
  next
    case False
    with r have "0 < v mod step" by linarith
    with False r d show ?thesis unfolding round_up_def Let_def by simp
  qed
qed

section \<open>Fee options\<close>

text \<open>What a caller can pass as a count.\<close>

datatype count_arg = CountInt int | CountBool bool | CountSeq nat | CountOther

definition parse_positive_count :: "count_arg \<Rightarrow> int result" where
  "parse_positive_count v = (case v of CountInt n \<Rightarrow> if n \<le> 0 then Inl ValueError else Inr n | _ \<Rightarrow> Inl ValueError)"

definition parse_mint_count :: "count_arg \<Rightarrow> int result" where
  "parse_mint_count v =
     (case v of CountSeq n \<Rightarrow> parse_positive_count (CountInt (int n)) | _ \<Rightarrow> parse_positive_count v)"

record FeeOptions =
  fo_gas_fee_base :: int
  fo_fee_multiplier :: int

record CreateTokenFeeOptions = FeeOptions +
  fo_create_token_base :: int
  fo_create_token_symbol :: int

record CreateSeriesFeeOptions = FeeOptions +
  fo_create_series_base :: int

definition default_fee_options :: FeeOptions where
  "default_fee_options = \<lparr>fo_gas_fee_base = 10000, fo_fee_multiplier = 1000\<rparr>"

definition default_create_token_fee_options :: CreateTokenFeeOptions where
  "default_create_token_fee_options = \<lparr>fo_gas_fee_base = 10000, fo_fee_multiplier = 10000,
     fo_create_token_base = 10000000000, fo_create_token_symbol = 10000000000\<rparr>"

definition default_create_series_fee_options :: CreateSeriesFeeOptions where
  "default_create_series_fee_options = \<lparr>fo_gas_fee_base = 10000, fo_fee_multiplier = 10000,
     fo_create_series_base = 2500000000\<rparr>"

definition calculate_max_gas :: "FeeOptions \<Rightarrow> count_arg \<Rightarrow> int result" where
  "calculate_max_gas f count =
     rthen (parse_positive_count count) (\<lambda>n. Inr (fo_gas_fee_base f * fo_fee_multiplier f * n))"

definition calculate_max_gas_for_symbol :: "CreateTokenFeeOptions \<Rightarrow> small_string \<Rightarrow> int result" where
  "calculate_max_gas_for_symbol f symbol =
     rthen (utf8_encode symbol) (\<lambda>raw.
       let shift = max (int (length raw) - 1) 0 in
       rthen (if shift < 64 then py_shr (fo_create_token_symbol f) shift else Inr 0) (\<lambda>symbol_part.
       Inr ((fo_gas_fee_base f + fo_create_token_base f + symbol_part) * fo_fee_multiplier f)))"

definition series_calculate_max_gas :: "CreateSeriesFeeOptions \<Rightarrow> count_arg \<Rightarrow> int result" where
  "series_calculate_max_gas f count =
     rthen (parse_positive_count count) (\<lambda>n.
       if n \<noteq> 1 then Inl ValueError
       else Inr ((fo_gas_fee_base f + fo_create_series_base f) * fo_fee_multiplier f))"

definition mint_calculate_max_gas :: "FeeOptions \<Rightarrow> count_arg \<Rightarrow> int result" where
  "mint_calculate_max_gas f count =
     rthen (parse_mint_count count) (\<lambda>n. Inr (fo_gas_fee_base f * fo_fee_multiplier f * n))"

section \<open>Native fees\<close>

datatype fee_kind =
    FK_TRANSFER_FUNGIBLE | FK_TRANSFER_NON_FUNGIBLE | FK_MINT_FUNGIBLE | FK_MINT_NON_FUNGIBLE
  | FK_BURN_FUNGIBLE | FK_BURN_NON_FUNGIBLE | FK_CREATE_TOKEN | FK_CREATE_TOKEN_SERIES
  | FK_REGISTER_NAME | FK_SCRIPT

definition GAS_MODEL_V2_UNITS_PER_BLOCK_DATA_BYTE :: int where
  "GAS_MODEL_V2_UNITS_PER_BLOCK_DATA_BYTE = 25"

definition WITNESS_ARRAY_ENTRY_BYTES :: int where
  "WITNESS_ARRAY_ENTRY_BYTES = 96"

definition NATIVE_SIGNATURE_BYTES :: int where
  "NATIVE_SIGNATURE_BYTES = 64"

definition native_signature_kinds :: "fee_kind set" where
  "native_signature_kinds = {FK_TRANSFER_FUNGIBLE, FK_TRANSFER_NON_FUNGIBLE, FK_MINT_FUNGIBLE,
     FK_MINT_NON_FUNGIBLE, FK_BURN_FUNGIBLE, FK_BURN_NON_FUNGIBLE}"

record fee_estimate =
  fe_max_gas :: int
  fe_max_data :: int
  fe_expected_gas_bill :: int

text \<open>The keyword arguments of \<^verbatim>\<open>estimate_native_fee\<close> and their defaults.\<close>

record fee_inputs =
  in_count :: int
  in_symbol_length :: int
  in_name_length :: int
  in_envelope_bytes :: int
  in_payload_bytes :: int
  in_fresh_rows :: int
  in_rom_ram_bytes :: int
  in_script_units_allowance :: int

definition default_inputs :: fee_inputs where
  "default_inputs = \<lparr>in_count = 1, in_symbol_length = 0, in_name_length = 0, in_envelope_bytes = 0,
     in_payload_bytes = 0, in_fresh_rows = -1, in_rom_ram_bytes = 0, in_script_units_allowance = 5000\<rparr>"

definition envelope_bytes_for :: "fee_kind \<Rightarrow> int \<Rightarrow> int \<Rightarrow> int result" where
  "envelope_bytes_for kind serialized_message_length witness_count =
     (if serialized_message_length < 0 then Inl ValueError
      else if witness_count < 0 then Inl ValueError
      else if kind \<in> native_signature_kinds
      then Inr (serialized_message_length + NATIVE_SIGNATURE_BYTES * witness_count)
      else Inr (serialized_message_length + 4 + WITNESS_ARRAY_ENTRY_BYTES * witness_count))"

definition default_fresh_rows :: "fee_kind \<Rightarrow> int \<Rightarrow> int \<Rightarrow> int" where
  "default_fresh_rows kind count rom_ram_bytes =
     (case kind of
        FK_TRANSFER_FUNGIBLE \<Rightarrow> 1
      | FK_MINT_FUNGIBLE \<Rightarrow> 1
      | FK_TRANSFER_NON_FUNGIBLE \<Rightarrow> count + 1
      | FK_MINT_NON_FUNGIBLE \<Rightarrow> count * (2 + (rom_ram_bytes + 1023) div 1024) + 1
      | FK_BURN_FUNGIBLE \<Rightarrow> 0
      | FK_BURN_NON_FUNGIBLE \<Rightarrow> 0
      | FK_CREATE_TOKEN \<Rightarrow> 8
      | FK_CREATE_TOKEN_SERIES \<Rightarrow> 4
      | FK_REGISTER_NAME \<Rightarrow> 2
      | FK_SCRIPT \<Rightarrow> 4)"

definition default_envelope_bytes :: "fee_kind \<Rightarrow> int \<Rightarrow> int \<Rightarrow> int" where
  "default_envelope_bytes kind count rom_ram_bytes =
     (case kind of
        FK_TRANSFER_FUNGIBLE \<Rightarrow> 512
      | FK_MINT_FUNGIBLE \<Rightarrow> 512
      | FK_BURN_FUNGIBLE \<Rightarrow> 512
      | FK_REGISTER_NAME \<Rightarrow> 512
      | FK_TRANSFER_NON_FUNGIBLE \<Rightarrow> 512 + 8 * count
      | FK_BURN_NON_FUNGIBLE \<Rightarrow> 512 + 8 * count
      | FK_MINT_NON_FUNGIBLE \<Rightarrow> 512 + count * (64 + rom_ram_bytes)
      | FK_CREATE_TOKEN \<Rightarrow> 4096
      | FK_CREATE_TOKEN_SERIES \<Rightarrow> 2048
      | FK_SCRIPT \<Rightarrow> 1024)"

definition bill_v2 :: "int \<Rightarrow> int \<Rightarrow> int \<Rightarrow> int \<Rightarrow> int \<Rightarrow> GasConfig \<Rightarrow> int result" where
  "bill_v2 work_units envelope event_bytes rows policy_fee config =
     (let block_data = envelope + event_bytes + rows;
          byte_units = block_data * GAS_MODEL_V2_UNITS_PER_BLOCK_DATA_BYTE
      in rthen (mul_shift (work_units + byte_units) (gc_fee_multiplier config) (gc_fee_shift config)) (\<lambda>b.
         let bill = b + policy_fee in Inr (max (min bill U64_MAX) (gc_minimum_gas_bill config))))"

text \<open>The work units of the operation and the policy fee, by kind.\<close>

definition work_and_policy :: "fee_kind \<Rightarrow> GasConfig \<Rightarrow> fee_inputs \<Rightarrow> (int \<times> int) result" where
  "work_and_policy kind config i =
     (let v2 = has_gas_model_v2 config in
      case kind of
        FK_TRANSFER_FUNGIBLE \<Rightarrow> Inr (gc_gas_fee_transfer config, 0)
      | FK_MINT_FUNGIBLE \<Rightarrow> Inr (gc_gas_fee_transfer config, 0)
      | FK_BURN_FUNGIBLE \<Rightarrow> Inr (gc_gas_fee_transfer config, 0)
      | FK_TRANSFER_NON_FUNGIBLE \<Rightarrow> Inr (gc_gas_fee_transfer config * in_count i, 0)
      | FK_MINT_NON_FUNGIBLE \<Rightarrow> Inr (gc_gas_fee_transfer config * in_count i, 0)
      | FK_BURN_NON_FUNGIBLE \<Rightarrow> Inr (gc_gas_fee_transfer config * in_count i, 0)
      | FK_CREATE_TOKEN \<Rightarrow>
          rthen (symbol_shift (in_symbol_length i) (gc_max_token_symbol_length config)) (\<lambda>shift.
            if v2 then
              (if in_symbol_length i > 0
               then rthen (py_shr (gc_policy_fee_create_token_symbol config) shift) (\<lambda>s.
                 Inr (0, gc_policy_fee_create_token_base config + s))
               else Inr (0, gc_policy_fee_create_token_base config))
            else
              (if in_symbol_length i > 0
               then rthen (py_shr (gc_gas_fee_create_token_symbol config) shift) (\<lambda>s.
                 Inr (gc_gas_fee_create_token_base config + s, 0))
               else Inr (gc_gas_fee_create_token_base config, 0)))
      | FK_CREATE_TOKEN_SERIES \<Rightarrow>
          Inr (if v2 then 0 else gc_gas_fee_create_token_series config,
               if v2 then gc_policy_fee_create_token_series config else 0)
      | FK_REGISTER_NAME \<Rightarrow>
          if in_name_length i \<le> 0 then Inl ValueError
          else rthen (symbol_shift (in_name_length i) (gc_max_name_length config)) (\<lambda>shift.
            if v2 then rthen (py_shr (gc_policy_fee_register_name config) shift) (\<lambda>p. Inr (0, p))
            else rthen (py_shr (gc_gas_fee_register_name config) shift) (\<lambda>w. Inr (w, 0)))
      | FK_SCRIPT \<Rightarrow> Inr (in_script_units_allowance i, 0))"

text \<open>The inputs the caller may leave to the per-kind defaults.\<close>

definition fee_rows :: "fee_kind \<Rightarrow> fee_inputs \<Rightarrow> int" where
  "fee_rows kind i =
     (if in_fresh_rows i \<ge> 0 then in_fresh_rows i
      else default_fresh_rows kind (in_count i) (in_rom_ram_bytes i))"

definition fee_envelope :: "fee_kind \<Rightarrow> fee_inputs \<Rightarrow> int" where
  "fee_envelope kind i =
     (if in_envelope_bytes i > 0 then in_envelope_bytes i
      else default_envelope_bytes kind (in_count i) (in_rom_ram_bytes i))"

definition fee_events :: "fee_kind \<Rightarrow> int" where
  "fee_events kind = (if kind = FK_SCRIPT then 512 else 0)"

text \<open>The offer under the second and under the first gas model.\<close>

definition offer_v2 :: "GasConfig \<Rightarrow> int \<Rightarrow> int \<Rightarrow> int \<Rightarrow> int \<Rightarrow> int \<Rightarrow> fee_estimate result" where
  "offer_v2 config work_units policy_fee rows envelope event_bytes =
     rthen (bill_v2 work_units envelope event_bytes rows policy_fee config) (\<lambda>expected.
     rthen (bill_v2 work_units (round_up envelope 128) event_bytes rows policy_fee config) (\<lambda>padded.
     let max_gas = min (padded + padded div 4) U64_MAX;
         max_gas = max (max max_gas (gc_minimum_gas_bill config)) (gc_minimum_gas_offer config)
     in Inr \<lparr>fe_max_gas = max_gas, fe_max_data = min (rows * gc_data_escrow_per_row config) U64_MAX,
          fe_expected_gas_bill = expected\<rparr>))"

definition offer_v1 :: "GasConfig \<Rightarrow> int \<Rightarrow> int \<Rightarrow> int \<Rightarrow> int \<Rightarrow> fee_estimate result" where
  "offer_v1 config work_units payload_bytes rows event_bytes =
     rthen (mul_shift work_units (gc_fee_multiplier config) (gc_fee_shift config)) (\<lambda>work.
     let block_data = payload_bytes + event_bytes + rows;
         expected = min (work + block_data * gc_gas_fee_per_byte config) U64_MAX;
         byte_allowance = max block_data 1024;
         max_gas = min (gc_minimum_gas_offer config * 2 + work + byte_allowance * gc_gas_fee_per_byte config) U64_MAX
     in Inr \<lparr>fe_max_gas = max_gas, fe_max_data = min (rows * gc_data_escrow_per_row config) U64_MAX,
          fe_expected_gas_bill = expected\<rparr>)"

definition estimate_native_fee :: "fee_kind \<Rightarrow> GasConfig \<Rightarrow> fee_inputs \<Rightarrow> fee_estimate result" where
  "estimate_native_fee kind config i =
     (if in_count i < 1 then Inl ValueError
      else rthen (work_and_policy kind config i) (\<lambda>(work_units, policy_fee).
        if has_gas_model_v2 config
        then offer_v2 config work_units policy_fee (fee_rows kind i) (fee_envelope kind i) (fee_events kind)
        else offer_v1 config work_units (in_payload_bytes i) (fee_rows kind i) (fee_events kind)))"

section \<open>Configurations and inputs from the chain\<close>

definition is_u8 :: "int \<Rightarrow> bool" where "is_u8 v \<longleftrightarrow> 0 \<le> v \<and> v < 2 ^ 8"
definition is_u64 :: "int \<Rightarrow> bool" where "is_u64 v \<longleftrightarrow> 0 \<le> v \<and> v < 2 ^ 64"

text \<open>The ranges the wire format gives the fields the estimator reads.\<close>

definition gas_config_ranges :: "GasConfig \<Rightarrow> bool" where
  "gas_config_ranges c \<longleftrightarrow>
     is_u8 (gc_version c) \<and> is_u8 (gc_max_name_length c) \<and> is_u8 (gc_max_token_symbol_length c) \<and>
     is_u8 (gc_fee_shift c) \<and> is_u64 (gc_fee_multiplier c) \<and> is_u64 (gc_minimum_gas_offer c) \<and>
     is_u64 (gc_data_escrow_per_row c) \<and> is_u64 (gc_gas_fee_transfer c) \<and>
     is_u64 (gc_gas_fee_create_token_base c) \<and> is_u64 (gc_gas_fee_create_token_symbol c) \<and>
     is_u64 (gc_gas_fee_create_token_series c) \<and> is_u64 (gc_gas_fee_per_byte c) \<and>
     is_u64 (gc_gas_fee_register_name c) \<and> is_u64 (gc_minimum_gas_bill c) \<and>
     is_u64 (gc_policy_fee_create_token_base c) \<and> is_u64 (gc_policy_fee_create_token_symbol c) \<and>
     is_u64 (gc_policy_fee_create_token_series c) \<and> is_u64 (gc_policy_fee_register_name c)"

definition fee_inputs_ok :: "fee_inputs \<Rightarrow> bool" where
  "fee_inputs_ok i \<longleftrightarrow> 0 \<le> in_payload_bytes i \<and> 0 \<le> in_rom_ram_bytes i \<and> 0 \<le> in_script_units_allowance i"

lemma is_u64_iff: "is_u64 v \<longleftrightarrow> 0 \<le> v \<and> v \<le> U64_MAX"
  by (auto simp: is_u64_def U64_MAX_def)

lemma default_inputs_ok: "fee_inputs_ok default_inputs"
  by (simp add: fee_inputs_ok_def default_inputs_def)

lemma py_shr_nonneg: "py_shr v s = Inr x \<Longrightarrow> 0 \<le> v \<Longrightarrow> 0 \<le> x"
  by (auto simp: py_shr_def pos_imp_zdiv_nonneg_iff split: if_splits)

lemma mul_shift_Inr: "mul_shift v m s = Inr x \<longleftrightarrow>
    (s \<ge> 64 \<and> x = 0 \<or> 0 \<le> s \<and> s < 64 \<and> x = min (v * m div 2 ^ nat s) U64_MAX)"
  by (auto simp: mul_shift_def py_shr_def rthen_Inr_iff)

lemma mul_shift_bounds: "mul_shift v m s = Inr x \<Longrightarrow> 0 \<le> v \<Longrightarrow> 0 \<le> m \<Longrightarrow> 0 \<le> x \<and> x \<le> U64_MAX"
  by (auto simp: mul_shift_Inr U64_MAX_def pos_imp_zdiv_nonneg_iff)

lemma mul_shift_mono:
  "mul_shift v m s = Inr x \<Longrightarrow> mul_shift w m s = Inr y \<Longrightarrow> v \<le> w \<Longrightarrow> 0 \<le> m \<Longrightarrow> x \<le> y"
  by (auto simp: mul_shift_Inr intro!: min.mono zdiv_mono1 mult_right_mono)

lemma mul_shift_total: "0 \<le> s \<Longrightarrow> \<exists>x. mul_shift v m s = Inr x"
  by (simp add: mul_shift_def py_shr_def)

lemma bill_v2_mono:
  assumes "bill_v2 w e1 ev r p c = Inr x" "bill_v2 w e2 ev r p c = Inr y" "e1 \<le> e2" "0 \<le> gc_fee_multiplier c"
  shows "x \<le> y"
proof -
  from assms(1,2) obtain a b where
    a: "mul_shift (w + (e1 + ev + r) * 25) (gc_fee_multiplier c) (gc_fee_shift c) = Inr a"
      "x = max (min (a + p) U64_MAX) (gc_minimum_gas_bill c)" and
    b: "mul_shift (w + (e2 + ev + r) * 25) (gc_fee_multiplier c) (gc_fee_shift c) = Inr b"
      "y = max (min (b + p) U64_MAX) (gc_minimum_gas_bill c)"
    by (auto simp: bill_v2_def Let_def rthen_Inr_iff GAS_MODEL_V2_UNITS_PER_BLOCK_DATA_BYTE_def)
  have "a \<le> b" by (rule mul_shift_mono [OF a(1) b(1)]) (use assms(3,4) in simp_all)
  then show ?thesis unfolding a(2) b(2) by (intro max.mono min.mono) simp_all
qed

lemma bill_v2_bounds:
  "bill_v2 w e ev r p c = Inr x \<Longrightarrow> gc_minimum_gas_bill c \<le> x \<and> x \<le> max U64_MAX (gc_minimum_gas_bill c)"
  by (auto simp: bill_v2_def Let_def rthen_Inr_iff)

lemma work_and_policy_nonneg:
  assumes "gas_config_ranges c" "fee_inputs_ok i" "1 \<le> in_count i" "work_and_policy k c i = Inr (w, p)"
  shows "0 \<le> w \<and> 0 \<le> p"
  using assms
  by (cases k) (auto simp: work_and_policy_def Let_def rthen_Inr_iff gas_config_ranges_def is_u64_def
      fee_inputs_ok_def dest: py_shr_nonneg split: if_splits)

lemma default_rows_nonneg: "1 \<le> n \<Longrightarrow> 0 \<le> b \<Longrightarrow> 0 \<le> default_fresh_rows k n b"
  by (cases k) (auto simp: default_fresh_rows_def intro!: add_nonneg_nonneg mult_nonneg_nonneg)

lemma estimate_count: "estimate_native_fee k c i = Inr e \<Longrightarrow> 1 \<le> in_count i"
  by (auto simp: estimate_native_fee_def split: if_splits)

lemma fee_rows_nonneg: "fee_inputs_ok i \<Longrightarrow> 1 \<le> in_count i \<Longrightarrow> 0 \<le> fee_rows k i"
  using default_rows_nonneg by (simp add: fee_inputs_ok_def fee_rows_def)

lemma estimate_cases:
  assumes "estimate_native_fee k c i = Inr e"
  obtains w p where "work_and_policy k c i = Inr (w, p)" "has_gas_model_v2 c"
      "offer_v2 c w p (fee_rows k i) (fee_envelope k i) (fee_events k) = Inr e"
    | w p where "work_and_policy k c i = Inr (w, p)" "\<not> has_gas_model_v2 c"
      "offer_v1 c w (in_payload_bytes i) (fee_rows k i) (fee_events k) = Inr e"
  using assms
  by (cases "has_gas_model_v2 c") (auto simp: estimate_native_fee_def rthen_Inr_iff split: if_splits)

lemma config_facts:
  assumes "gas_config_ranges c"
  shows "0 \<le> gc_fee_multiplier c" "0 \<le> gc_gas_fee_per_byte c" "0 \<le> gc_data_escrow_per_row c"
    "0 \<le> gc_minimum_gas_bill c" "gc_minimum_gas_bill c \<le> U64_MAX"
    "0 \<le> gc_minimum_gas_offer c" "gc_minimum_gas_offer c \<le> U64_MAX" "0 \<le> U64_MAX"
  using assms by (simp_all add: gas_config_ranges_def is_u64_def U64_MAX_def)

lemma offer_v2_facts:
  assumes c: "gas_config_ranges c" and o: "offer_v2 c w p rows env ev = Inr e" and r: "0 \<le> rows"
  shows "fe_expected_gas_bill e \<le> fe_max_gas e" "gc_minimum_gas_bill c \<le> fe_expected_gas_bill e"
    "gc_minimum_gas_offer c \<le> fe_max_gas e"
    "is_u64 (fe_max_gas e) \<and> is_u64 (fe_max_data e) \<and> is_u64 (fe_expected_gas_bill e)"
proof -
  from o obtain x y where x: "bill_v2 w env ev rows p c = Inr x" and y: "bill_v2 w (round_up env 128) ev rows p c = Inr y"
    and e: "fe_max_gas e = max (max (min (y + y div 4) U64_MAX) (gc_minimum_gas_bill c)) (gc_minimum_gas_offer c)"
      "fe_max_data e = min (rows * gc_data_escrow_per_row c) U64_MAX" "fe_expected_gas_bill e = x"
    by (auto simp: offer_v2_def Let_def rthen_Inr_iff)
  note cf = config_facts [OF c]
  have le: "x \<le> y"
    by (rule bill_v2_mono [OF x y _ cf(1)]) (use round_up_bounds [of 128 env] in simp)
  have b: "gc_minimum_gas_bill c \<le> x" "x \<le> U64_MAX" using bill_v2_bounds [OF x] cf(5) by auto
  have "0 \<le> rows * gc_data_escrow_per_row c" using r cf(3) by simp
  with b cf e show "is_u64 (fe_max_gas e) \<and> is_u64 (fe_max_data e) \<and> is_u64 (fe_expected_gas_bill e)"
    by (simp add: is_u64_iff)
  have "x \<le> min (y + y div 4) U64_MAX" using le b cf by simp
  then show "fe_expected_gas_bill e \<le> fe_max_gas e"
    unfolding e by (intro max.coboundedI1)
  show "gc_minimum_gas_bill c \<le> fe_expected_gas_bill e" "gc_minimum_gas_offer c \<le> fe_max_gas e"
    by (simp_all add: e b)
qed

lemma offer_v1_facts:
  assumes c: "gas_config_ranges c" and o: "offer_v1 c w pb rows ev = Inr e"
    and nn: "0 \<le> w" "0 \<le> pb" "0 \<le> rows" "0 \<le> ev"
  shows "fe_expected_gas_bill e \<le> fe_max_gas e"
    "is_u64 (fe_max_gas e) \<and> is_u64 (fe_max_data e) \<and> is_u64 (fe_expected_gas_bill e)"
proof -
  let ?bd = "pb + ev + rows"
  from o obtain work where ms: "mul_shift w (gc_fee_multiplier c) (gc_fee_shift c) = Inr work"
    and e: "fe_max_gas e = min (gc_minimum_gas_offer c * 2 + work + max ?bd 1024 * gc_gas_fee_per_byte c) U64_MAX"
      "fe_max_data e = min (rows * gc_data_escrow_per_row c) U64_MAX"
      "fe_expected_gas_bill e = min (work + ?bd * gc_gas_fee_per_byte c) U64_MAX"
    by (auto simp: offer_v1_def Let_def rthen_Inr_iff)
  note cf = config_facts [OF c]
  have work: "0 \<le> work" using mul_shift_bounds [OF ms nn(1) cf(1)] by simp
  have bd: "0 \<le> ?bd * gc_gas_fee_per_byte c" using nn cf(2) by simp
  have le: "?bd * gc_gas_fee_per_byte c \<le> max ?bd 1024 * gc_gas_fee_per_byte c"
    by (rule mult_right_mono) (use cf in simp_all)
  then have "work + ?bd * gc_gas_fee_per_byte c \<le> gc_minimum_gas_offer c * 2 + work + max ?bd 1024 * gc_gas_fee_per_byte c"
    using cf(6) by linarith
  then show "fe_expected_gas_bill e \<le> fe_max_gas e" unfolding e by (rule min.mono) simp
  have "0 \<le> rows * gc_data_escrow_per_row c" using nn cf(3) by simp
  with work bd le cf show "is_u64 (fe_max_gas e) \<and> is_u64 (fe_max_data e) \<and> is_u64 (fe_expected_gas_bill e)"
    by (simp add: is_u64_iff e)
qed

lemma fee_events_nonneg: "0 \<le> fee_events k"
  by (simp add: fee_events_def)

lemma estimate_facts:
  assumes c: "gas_config_ranges c" and i: "fee_inputs_ok i" and e: "estimate_native_fee k c i = Inr e"
  shows "fe_expected_gas_bill e \<le> fe_max_gas e \<and>
    is_u64 (fe_max_gas e) \<and> is_u64 (fe_max_data e) \<and> is_u64 (fe_expected_gas_bill e) \<and>
    (has_gas_model_v2 c \<longrightarrow> gc_minimum_gas_bill c \<le> fe_expected_gas_bill e \<and> gc_minimum_gas_offer c \<le> fe_max_gas e)"
  using e
proof (cases rule: estimate_cases)
  case (1 w p)
  note f = offer_v2_facts [OF c 1(3) fee_rows_nonneg [OF i estimate_count [OF e]]]
  show ?thesis using f by simp
next
  case (2 w p)
  have "0 \<le> w" using work_and_policy_nonneg [OF c i estimate_count [OF e] 2(1)] by simp
  moreover have "0 \<le> in_payload_bytes i" using i by (simp add: fee_inputs_ok_def)
  ultimately have f: "fe_expected_gas_bill e \<le> fe_max_gas e"
    "is_u64 (fe_max_gas e) \<and> is_u64 (fe_max_data e) \<and> is_u64 (fe_expected_gas_bill e)"
    using offer_v1_facts [OF c 2(3) _ _ fee_rows_nonneg [OF i estimate_count [OF e]] fee_events_nonneg] by auto
  then show ?thesis using 2(2) by simp
qed

lemma symbol_shift_cases:
  "symbol_shift n m = (if n < 0 \<or> 0 < n \<and> m \<noteq> 0 \<and> m < n then Inl ValueError else Inr (max (n - 1) 0))"
  by (auto simp: symbol_shift_def Let_def)

text \<open>The estimator rejects exactly a count below one, and a symbol or name the chain would reject.\<close>

lemma estimate_errors:
  assumes c: "gas_config_ranges c"
  shows "estimate_native_fee k c i = Inl e \<longleftrightarrow> e = ValueError \<and>
    (in_count i < 1 \<or>
     k = FK_CREATE_TOKEN \<and> (in_symbol_length i < 0 \<or>
       0 < in_symbol_length i \<and> gc_max_token_symbol_length c \<noteq> 0 \<and> gc_max_token_symbol_length c < in_symbol_length i) \<or>
     k = FK_REGISTER_NAME \<and> (in_name_length i \<le> 0 \<or> gc_max_name_length c \<noteq> 0 \<and> gc_max_name_length c < in_name_length i))"
proof -
  have s: "0 \<le> gc_fee_shift c" using c by (simp add: gas_config_ranges_def is_u8_def)
  have m: "\<exists>x. mul_shift v (gc_fee_multiplier c) (gc_fee_shift c) = Inr x" for v
    by (rule mul_shift_total [OF s])
  then have b: "\<exists>x. bill_v2 w env ev r p c = Inr x" for w env ev r p
    by (metis (no_types, lifting) bill_v2_def rthen_simps(2))
  have o: "\<exists>x. offer_v2 c w p r env ev = Inr x" "\<exists>x. offer_v1 c w pb r ev = Inr x" for w p r env ev pb
    using b [of w env ev r p] b [of w "round_up env 128" ev r p] m [of w]
    by (auto simp: offer_v2_def offer_v1_def Let_def)
  have tail: "estimate_native_fee k c i = Inl e \<longleftrightarrow>
      (if in_count i < 1 then e = ValueError else work_and_policy k c i = Inl e)"
  proof (cases "work_and_policy k c i")
    case (Inr wp)
    obtain w p where wp: "wp = (w, p)" by (cases wp) auto
    show ?thesis
      using o(1) [of w p "fee_rows k i" "fee_envelope k i" "fee_events k"]
        o(2) [of w "in_payload_bytes i" "fee_rows k i" "fee_events k"]
      by (auto simp: estimate_native_fee_def Inr wp)
  qed (auto simp: estimate_native_fee_def)
  show ?thesis
    unfolding tail
    by (cases k) (auto simp: work_and_policy_def Let_def rthen_Inl_iff symbol_shift_cases py_shr_def split: if_splits)
qed

section \<open>Properties\<close>

text \<open>C5: A fee estimate under a configuration read from the chain offers at least the bill it expects, every
  amount fits in 64 bits, and under the second gas model the minimum bill and the minimum offer are respected.\<close>

theorem fee_estimate_covers_bill:
  assumes "gas_config_ranges c" "fee_inputs_ok i" "estimate_native_fee k c i = Inr e"
  shows "fe_expected_gas_bill e \<le> fe_max_gas e \<and>
    is_u64 (fe_max_gas e) \<and> is_u64 (fe_max_data e) \<and> is_u64 (fe_expected_gas_bill e) \<and>
    (has_gas_model_v2 c \<longrightarrow> gc_minimum_gas_bill c \<le> fe_expected_gas_bill e \<and> gc_minimum_gas_offer c \<le> fe_max_gas e)"
  by (rule estimate_facts [OF assms])

lemma example_ranges: "gas_config_ranges example_gas_config" "gas_config_ranges (example_gas_config\<lparr>gc_version := 1\<rparr>)"
  by (simp_all add: gas_config_ranges_def example_gas_config_def is_u8_def is_u64_def)

theorem fee_estimate_covers_bill_witness:
  "\<exists>e. estimate_native_fee FK_MINT_NON_FUNGIBLE (example_gas_config\<lparr>gc_version := 1\<rparr>) default_inputs = Inr e \<and>
     fe_expected_gas_bill e \<le> fe_max_gas e"
proof -
  let ?c = "example_gas_config\<lparr>gc_version := 1\<rparr>"
  have "\<exists>e. estimate_native_fee FK_MINT_NON_FUNGIBLE ?c default_inputs = Inr e"
    using estimate_errors [OF example_ranges(2), of FK_MINT_NON_FUNGIBLE default_inputs]
    by (cases "estimate_native_fee FK_MINT_NON_FUNGIBLE ?c default_inputs") (auto simp: default_inputs_def)
  then obtain e where e: "estimate_native_fee FK_MINT_NON_FUNGIBLE ?c default_inputs = Inr e" by blast
  from fee_estimate_covers_bill [OF example_ranges(2) default_inputs_ok e] e show ?thesis by blast
qed

text \<open>The estimator raises nothing but \<^verbatim>\<open>ValueError\<close>, exactly for a count below one, a symbol of
  negative length or longer than the chain allows, and a name without length or longer than the chain allows.\<close>

theorem fee_estimate_errors:
  assumes "gas_config_ranges c"
  shows "estimate_native_fee k c i = Inl e \<longleftrightarrow> e = ValueError \<and>
    (in_count i < 1 \<or>
     k = FK_CREATE_TOKEN \<and> (in_symbol_length i < 0 \<or>
       0 < in_symbol_length i \<and> gc_max_token_symbol_length c \<noteq> 0 \<and> gc_max_token_symbol_length c < in_symbol_length i) \<or>
     k = FK_REGISTER_NAME \<and> (in_name_length i \<le> 0 \<or> gc_max_name_length c \<noteq> 0 \<and> gc_max_name_length c < in_name_length i))"
  by (rule estimate_errors [OF assms])

theorem fee_estimate_errors_witness:
  "estimate_native_fee FK_REGISTER_NAME example_gas_config (default_inputs\<lparr>in_name_length := 33\<rparr>) = Inl ValueError"
  using fee_estimate_errors [OF example_ranges(1), of FK_REGISTER_NAME "default_inputs\<lparr>in_name_length := 33\<rparr>" ValueError]
  by (simp add: example_gas_config_def default_inputs_def)

end
