(* ===== verification/RpcResults.thy ===== *)
theory RpcResults
  imports RpcDecode RpcClient Fees VmObject Transaction
begin

text \<open>
  What \<^verbatim>\<open>rpc.py\<close> does with answers: decimal amounts, gas configuration and fee estimate from their decimal
  strings, flags and balances, script results, and the decoders of lists, pages, numbers and hashes.
\<close>

section \<open>Fields of response objects\<close>

definition attr :: "'e pyval \<Rightarrow> string \<Rightarrow> 'e pyval" where
  "attr x name = (case x of PObject c fs \<Rightarrow> (case map_of fs name of Some v \<Rightarrow> v | None \<Rightarrow> PNone) | _ \<Rightarrow> PNone)"

text \<open>\<^verbatim>\<open>str(x)\<close> of a scalar field; that of a list or a dict is the parameter \<open>show\<close>.\<close>

definition pyval_str :: "('e pyval \<Rightarrow> pystr) \<Rightarrow> 'e pyval \<Rightarrow> pystr result" where
  "pyval_str show x = (case x of
     PNone \<Rightarrow> Inr (str ''None'')
   | PBool b \<Rightarrow> Inr (if b then str ''True'' else str ''False'')
   | PInt n \<Rightarrow> py_str n
   | PFloat t \<Rightarrow> Inr t
   | PStr s \<Rightarrow> Inr s
   | _ \<Rightarrow> Inr (show x))"

definition pyval_index :: "'e pyval \<Rightarrow> int result" where
  "pyval_index x = (case x of PInt n \<Rightarrow> Inr n | PBool b \<Rightarrow> Inr (of_bool b) | _ \<Rightarrow> Inl TypeError)"

section \<open>Decimal amounts\<close>

text \<open>\<^verbatim>\<open>s.zfill(width)\<close>, the slices \<^verbatim>\<open>s[:i]\<close> and \<^verbatim>\<open>s[i:]\<close>, and \<^verbatim>\<open>s.rstrip("0")\<close>.\<close>

definition zfill :: "pystr \<Rightarrow> int \<Rightarrow> pystr" where
  "zfill s width = (let zeros = replicate (nat (width - int (length s))) 48
     in if zeros = [] then s else case s of
       c # t \<Rightarrow> if c = 43 \<or> c = 45 then c # zeros @ t else zeros @ s
     | [] \<Rightarrow> zeros)"

definition slice_bound :: "'a list \<Rightarrow> int \<Rightarrow> nat" where
  "slice_bound xs i = nat (if i < 0 then int (length xs) + i else i)"

definition slice_to :: "'a list \<Rightarrow> int \<Rightarrow> 'a list" where
  "slice_to xs i = take (slice_bound xs i) xs"

definition slice_from :: "'a list \<Rightarrow> int \<Rightarrow> 'a list" where
  "slice_from xs i = drop (slice_bound xs i) xs"

definition rstrip_zeros :: "pystr \<Rightarrow> pystr" where
  "rstrip_zeros s = rev (dropWhile (\<lambda>c. c = 48) (rev s))"

text \<open>\<open>raw\<close> is the text of the amount, \<^verbatim>\<open>str(raw)\<close>.\<close>

definition convert_decimals :: "pystr \<Rightarrow> int \<Rightarrow> pystr \<Rightarrow> pystr" where
  "convert_decimals raw decimals separator =
     (let negative = (take 1 raw = [45]);
          unsigned = (if negative then drop 1 raw else raw);
          filled = zfill unsigned (decimals + 1);
          integer = (if decimals \<noteq> 0 then slice_to filled (- decimals) else filled);
          fraction = rstrip_zeros (if decimals \<noteq> 0 then slice_from filled (- decimals) else []);
          out = (if fraction = [] then integer else integer @ separator @ fraction)
      in if negative then 45 # out else out)"

definition balance_decimal_amount :: "('e pyval \<Rightarrow> pystr) \<Rightarrow> 'e pyval \<Rightarrow> pystr result" where
  "balance_decimal_amount show balance =
     rthen (pyval_str show (attr balance ''amount'')) (\<lambda>raw.
     rthen (pyval_index (attr balance ''decimals'')) (\<lambda>decimals.
     Inr (convert_decimals raw decimals (str ''.''))))"

definition stake_decimal_amount :: "('e pyval \<Rightarrow> pystr) \<Rightarrow> 'e pyval \<Rightarrow> pystr result" where
  "stake_decimal_amount show stake =
     rthen (pyval_str show (attr stake ''amount'')) (\<lambda>raw. Inr (convert_decimals raw 8 (str ''.'')))"

section \<open>Decimal strings of 64-bit values\<close>

text \<open>\<^verbatim>\<open>s.isdigit()\<close>: decimal digits, and the digits that are no decimals (superscripts, circled digits, ...).\<close>

definition digit_ranges :: "(nat \<times> nat) list" where
  "digit_ranges = [(0xB2, 0xB3), (0xB9, 0xB9), (0x1369, 0x1371), (0x19DA, 0x19DA), (0x2070, 0x2070),
     (0x2074, 0x2079), (0x2080, 0x2089), (0x2460, 0x2468), (0x2474, 0x247C), (0x2488, 0x2490), (0x24EA, 0x24EA),
     (0x24F5, 0x24FD), (0x24FF, 0x24FF), (0x2776, 0x277E), (0x2780, 0x2788), (0x278A, 0x2792), (0x10A40, 0x10A43),
     (0x10E60, 0x10E68), (0x11052, 0x1105A), (0x1F100, 0x1F10A)]"

definition is_digit_char :: "nat \<Rightarrow> bool" where
  "is_digit_char c \<longleftrightarrow> decimal_digit c \<noteq> None \<or> list_ex (\<lambda>(a, b). a \<le> c \<and> c \<le> b) digit_ranges"

definition py_isdigit :: "pystr \<Rightarrow> bool" where
  "py_isdigit s \<longleftrightarrow> s \<noteq> [] \<and> list_all is_digit_char s"

definition parse_u64 :: "pystr option \<Rightarrow> int result" where
  "parse_u64 v = (case v of
     None \<Rightarrow> Inl RPCError
   | Some s \<Rightarrow> if s = [] then Inl RPCError else if \<not> py_isdigit s then Inl RPCError else py_int_text s)"

definition parse_estimate_u64 :: "pystr option \<Rightarrow> int result" where
  "parse_estimate_u64 v = (case v of
     None \<Rightarrow> Inl RPCError
   | Some s \<Rightarrow> if s = [] then Inl RPCError else if \<not> py_isdigit s then Inl RPCError else py_int_text s)"

section \<open>Gas configuration and fee estimate\<close>

text \<open>
  The objects as their annotations describe them; a response may hold other values, which these conversions pass
  on or trip over.
\<close>

record gas_config_data =
  gd_version :: int
  gd_max_name_length :: int
  gd_max_token_symbol_length :: int
  gd_fee_shift :: int
  gd_max_structure_size :: int
  gd_fee_multiplier :: "pystr option"
  gd_gas_token_id :: "pystr option"
  gd_data_token_id :: "pystr option"
  gd_minimum_gas_offer :: "pystr option"
  gd_data_escrow_per_row :: "pystr option"
  gd_gas_fee_transfer :: "pystr option"
  gd_gas_fee_query :: "pystr option"
  gd_gas_fee_create_token_base :: "pystr option"
  gd_gas_fee_create_token_symbol :: "pystr option"
  gd_gas_fee_create_token_series :: "pystr option"
  gd_gas_fee_per_byte :: "pystr option"
  gd_gas_fee_register_name :: "pystr option"
  gd_gas_burn_ratio_mul :: "pystr option"
  gd_gas_burn_ratio_shift :: int
  gd_minimum_gas_bill :: "pystr option"
  gd_gas_producer_ratio_mul :: "pystr option"
  gd_gas_producer_ratio_shift :: "int option"
  gd_gas_dapp_ratio_mul :: "pystr option"
  gd_gas_dapp_ratio_shift :: "int option"
  gd_policy_fee_create_token_base :: "pystr option"
  gd_policy_fee_create_token_symbol :: "pystr option"
  gd_policy_fee_create_token_series :: "pystr option"
  gd_policy_fee_register_name :: "pystr option"
  gd_legacy_data_escrow_per_row :: "pystr option"

record gas_config_result =
  gr_gas_model_version :: int
  gr_gas_config :: "gas_config_data option"
  gr_block_rate_target :: int
  gr_expiry_window :: int
  gr_units_per_block_data_byte :: "int option"

record estimate_transaction_result =
  et_would_abort :: bool
  et_abort_reason :: pystr
  et_gas_bill_kcal_base :: "pystr option"
  et_data_rows :: "pystr option"
  et_data_escrow_atoms :: "pystr option"
  et_data_refund_atoms :: "pystr option"
  et_recommended_max_gas :: "pystr option"
  et_recommended_max_data :: "pystr option"

text \<open>The configuration without the fields of the second gas model, and those fields added.\<close>

definition base_gas_config :: "gas_config_data \<Rightarrow> GasConfig result" where
  "base_gas_config d =
       rthen (parse_u64 (gd_fee_multiplier d)) (\<lambda>fee_multiplier.
       rthen (parse_u64 (gd_gas_token_id d)) (\<lambda>gas_token_id.
       rthen (parse_u64 (gd_data_token_id d)) (\<lambda>data_token_id.
       rthen (parse_u64 (gd_minimum_gas_offer d)) (\<lambda>minimum_gas_offer.
       rthen (parse_u64 (gd_data_escrow_per_row d)) (\<lambda>data_escrow_per_row.
       rthen (parse_u64 (gd_gas_fee_transfer d)) (\<lambda>gas_fee_transfer.
       rthen (parse_u64 (gd_gas_fee_query d)) (\<lambda>gas_fee_query.
       rthen (parse_u64 (gd_gas_fee_create_token_base d)) (\<lambda>gas_fee_create_token_base.
       rthen (parse_u64 (gd_gas_fee_create_token_symbol d)) (\<lambda>gas_fee_create_token_symbol.
       rthen (parse_u64 (gd_gas_fee_create_token_series d)) (\<lambda>gas_fee_create_token_series.
       rthen (parse_u64 (gd_gas_fee_per_byte d)) (\<lambda>gas_fee_per_byte.
       rthen (parse_u64 (gd_gas_fee_register_name d)) (\<lambda>gas_fee_register_name.
       rthen (parse_u64 (gd_gas_burn_ratio_mul d)) (\<lambda>gas_burn_ratio_mul.
       Inr \<lparr>gc_version = gd_version d,
           gc_max_name_length = gd_max_name_length d,
           gc_max_token_symbol_length = gd_max_token_symbol_length d,
           gc_fee_shift = gd_fee_shift d,
           gc_max_structure_size = gd_max_structure_size d,
           gc_fee_multiplier = fee_multiplier,
           gc_gas_token_id = gas_token_id,
           gc_data_token_id = data_token_id,
           gc_minimum_gas_offer = minimum_gas_offer,
           gc_data_escrow_per_row = data_escrow_per_row,
           gc_gas_fee_transfer = gas_fee_transfer,
           gc_gas_fee_query = gas_fee_query,
           gc_gas_fee_create_token_base = gas_fee_create_token_base,
           gc_gas_fee_create_token_symbol = gas_fee_create_token_symbol,
           gc_gas_fee_create_token_series = gas_fee_create_token_series,
           gc_gas_fee_per_byte = gas_fee_per_byte,
           gc_gas_fee_register_name = gas_fee_register_name,
           gc_gas_burn_ratio_mul = gas_burn_ratio_mul,
           gc_gas_burn_ratio_shift = gd_gas_burn_ratio_shift d,
           gc_minimum_gas_bill = 0,
           gc_gas_producer_ratio_mul = 0,
           gc_gas_producer_ratio_shift = 0,
           gc_gas_dapp_ratio_mul = 0,
           gc_gas_dapp_ratio_shift = 0,
           gc_policy_fee_create_token_base = 0,
           gc_policy_fee_create_token_symbol = 0,
           gc_policy_fee_create_token_series = 0,
           gc_policy_fee_register_name = 0,
           gc_legacy_data_escrow_per_row = 0\<rparr>)))))))))))))"

definition gas_config_tail :: "gas_config_data \<Rightarrow> GasConfig \<Rightarrow> GasConfig result" where
  "gas_config_tail d config =
       rthen (parse_u64 (gd_minimum_gas_bill d)) (\<lambda>minimum_gas_bill.
       rthen (parse_u64 (gd_gas_producer_ratio_mul d)) (\<lambda>gas_producer_ratio_mul.
       rthen (parse_u64 (gd_gas_dapp_ratio_mul d)) (\<lambda>gas_dapp_ratio_mul.
       rthen (parse_u64 (gd_policy_fee_create_token_base d)) (\<lambda>policy_fee_create_token_base.
       rthen (parse_u64 (gd_policy_fee_create_token_symbol d)) (\<lambda>policy_fee_create_token_symbol.
       rthen (parse_u64 (gd_policy_fee_create_token_series d)) (\<lambda>policy_fee_create_token_series.
       rthen (parse_u64 (gd_policy_fee_register_name d)) (\<lambda>policy_fee_register_name.
       rthen (parse_u64 (gd_legacy_data_escrow_per_row d)) (\<lambda>legacy_data_escrow_per_row.
       case gd_gas_producer_ratio_shift d of None \<Rightarrow> Inl RPCError
       | Some gas_producer_ratio_shift \<Rightarrow> (case gd_gas_dapp_ratio_shift d of None \<Rightarrow> Inl RPCError
         | Some gas_dapp_ratio_shift \<Rightarrow> Inr (config\<lparr>gc_minimum_gas_bill := minimum_gas_bill,
           gc_gas_producer_ratio_mul := gas_producer_ratio_mul,
           gc_gas_dapp_ratio_mul := gas_dapp_ratio_mul,
           gc_policy_fee_create_token_base := policy_fee_create_token_base,
           gc_policy_fee_create_token_symbol := policy_fee_create_token_symbol,
           gc_policy_fee_create_token_series := policy_fee_create_token_series,
           gc_policy_fee_register_name := policy_fee_register_name,
           gc_legacy_data_escrow_per_row := legacy_data_escrow_per_row,
           gc_gas_producer_ratio_shift := gas_producer_ratio_shift,
           gc_gas_dapp_ratio_shift := gas_dapp_ratio_shift\<rparr>))))))))))"

definition to_gas_config :: "gas_config_result \<Rightarrow> GasConfig result" where
  "to_gas_config self = (case gr_gas_config self of
     None \<Rightarrow> Inl RPCError
   | Some d \<Rightarrow> rthen (base_gas_config d) (\<lambda>config.
       if gc_version config \<ge> 1 then gas_config_tail d config else Inr config))"

definition to_fee_estimate :: "estimate_transaction_result \<Rightarrow> fee_estimate result" where
  "to_fee_estimate self =
     (if et_would_abort self then Inl RPCError
      else rthen (parse_estimate_u64 (et_recommended_max_gas self)) (\<lambda>max_gas.
        rthen (parse_estimate_u64 (et_recommended_max_data self)) (\<lambda>max_data.
        rthen (parse_estimate_u64 (et_gas_bill_kcal_base self)) (\<lambda>expected_gas_bill.
        Inr \<lparr>fe_max_gas = max_gas, fe_max_data = max_data, fe_expected_gas_bill = expected_gas_bill\<rparr>))))"

section \<open>Balances, flags and script results\<close>

text \<open>\<^verbatim>\<open>AccountResult.get_token_balance\<close> on the balances of the account: the balance, and the list it leaves.\<close>

definition account_token_balance :: "'e pyval list \<Rightarrow> pystr \<Rightarrow> int \<Rightarrow> 'e pyval \<times> 'e pyval list" where
  "account_token_balance balances symbol decimals =
     (case find (\<lambda>b. attr b ''symbol'' = PStr symbol) balances of
        Some b \<Rightarrow> (b, balances)
      | None \<Rightarrow>
          let b = PObject ''BalanceResult'' [(''chain'', PStr (str ''main'')), (''amount'', PStr (str ''0'')),
                (''symbol'', PStr symbol), (''decimals'', PInt decimals), (''ids'', PNone)]
          in (b, balances @ [b]))"

fun split_text :: "nat \<Rightarrow> pystr \<Rightarrow> pystr list" where
  "split_text sep [] = [[]]"
| "split_text sep (c # s) =
     (if c = sep then [] # split_text sep s
      else case split_text sep s of [] \<Rightarrow> [[c]] | part # parts \<Rightarrow> (c # part) # parts)"

text \<open>\<open>flags\<close> is the text of the field of that name.\<close>

definition has_flag :: "pystr \<Rightarrow> pystr \<Rightarrow> bool" where
  "has_flag flags flag \<longleftrightarrow> flag \<in> set (map py_strip (split_text 44 flags))"

definition is_burnable :: "pystr \<Rightarrow> bool" where
  "is_burnable flags \<longleftrightarrow> has_flag flags (str ''Burnable'')"

definition is_divisible :: "pystr \<Rightarrow> bool" where
  "is_divisible flags \<longleftrightarrow> has_flag flags (str ''Divisible'')"

definition is_fiat :: "pystr \<Rightarrow> bool" where
  "is_fiat flags \<longleftrightarrow> has_flag flags (str ''Fiat'')"

definition is_finite :: "pystr \<Rightarrow> bool" where
  "is_finite flags \<longleftrightarrow> has_flag flags (str ''Finite'')"

definition is_fuel :: "pystr \<Rightarrow> bool" where
  "is_fuel flags \<longleftrightarrow> has_flag flags (str ''Fuel'')"

definition is_fungible :: "pystr \<Rightarrow> bool" where
  "is_fungible flags \<longleftrightarrow> has_flag flags (str ''Fungible'')"

definition is_mintable :: "pystr \<Rightarrow> bool" where
  "is_mintable flags \<longleftrightarrow> has_flag flags (str ''Mintable'')"

definition is_stakable :: "pystr \<Rightarrow> bool" where
  "is_stakable flags \<longleftrightarrow> has_flag flags (str ''Stakable'')"

definition is_transferable :: "pystr \<Rightarrow> bool" where
  "is_transferable flags \<longleftrightarrow> has_flag flags (str ''Transferable'')"

definition state_is_success :: "pystr \<Rightarrow> bool" where
  "state_is_success state = tx_state_is_success state"

definition state_is_fault :: "pystr \<Rightarrow> bool" where
  "state_is_fault state = tx_state_is_fault state"

text \<open>\<open>depth\<close> is the recursion allowance of the interpreter.\<close>

definition decode_result :: "nat \<Rightarrow> pystr option \<Rightarrow> vm_object result" where
  "decode_result depth r = rthen (fromhex (case r of None \<Rightarrow> [] | Some s \<Rightarrow> s)) (vm_from_bytes depth)"

definition decode_results :: "nat \<Rightarrow> pystr list \<Rightarrow> int \<Rightarrow> vm_object result" where
  "decode_results depth rs index =
     (let i = (if index < 0 then int (length rs) + index else index)
      in if i < 0 \<or> int (length rs) \<le> i then Inl IndexError
         else rthen (fromhex (rs ! nat i)) (vm_from_bytes depth))"

section \<open>Lists, pages, numbers and hashes\<close>

record 'a paginated_result =
  pg_page :: int
  pg_page_size :: int
  pg_total :: int
  pg_total_pages :: int
  pg_result :: 'a

record 'a cursor_paginated_result =
  cp_result :: 'a
  cp_cursor :: "pystr option"

type_synonym response = "EventExResult pyval"

text \<open>Only \<^verbatim>\<open>TypeError\<close> and \<^verbatim>\<open>ValueError\<close> become \<^verbatim>\<open>RPCError\<close>.\<close>

definition coerce_int :: "json \<Rightarrow> int result" where
  "coerce_int v = (case json_int v of
     Inl e \<Rightarrow> if e = TypeError \<or> is_value_error e then Inl RPCError else Inl e
   | Inr n \<Rightarrow> Inr n)"

definition coerce_bool :: "(pystr \<Rightarrow> pystr) \<Rightarrow> json \<Rightarrow> bool result" where
  "coerce_bool lower v = (case v of
     JBool b \<Rightarrow> Inr b
   | JStr s \<Rightarrow> if lower s \<in> {str ''true'', str ''1''} then Inr True
       else if lower s \<in> {str ''false'', str ''0''} then Inr False
       else Inl RPCError
   | JInt n \<Rightarrow> Inr (n \<noteq> 0)
   | _ \<Rightarrow> Inl RPCError)"

text \<open>\<open>get_or kvs keys fallback\<close>: the member under the first of the keys that is there.\<close>

fun get_or :: "(pystr \<times> json) list \<Rightarrow> string list \<Rightarrow> json \<Rightarrow> json" where
  "get_or kvs [] fallback = fallback"
| "get_or kvs (k # ks) fallback = (case map_of kvs (str k) of Some v \<Rightarrow> v | None \<Rightarrow> get_or kvs ks fallback)"

definition decode_list :: "string \<Rightarrow> json \<Rightarrow> response list result" where
  "decode_list cls raw = (case raw of
     JNull \<Rightarrow> Inr []
   | JList xs \<Rightarrow> rmap (decode_dataclass rpc_env cls) xs
   | _ \<Rightarrow> Inl RPCError)"

definition decode_page :: "(json \<Rightarrow> 'a result) \<Rightarrow> json \<Rightarrow> json \<Rightarrow> 'a paginated_result result" where
  "decode_page decode fallback raw = (case raw of
     JObject kvs \<Rightarrow>
       rthen (coerce_int (get_or kvs [''page''] (JInt 0))) (\<lambda>page.
       rthen (coerce_int (get_or kvs [''pageSize'', ''page_size''] (JInt 0))) (\<lambda>page_size.
       rthen (coerce_int (get_or kvs [''total''] (JInt 0))) (\<lambda>total.
       rthen (coerce_int (get_or kvs [''totalPages'', ''total_pages''] (JInt 0))) (\<lambda>total_pages.
       rthen (decode (get_or kvs [''result''] fallback)) (\<lambda>result.
       Inr \<lparr>pg_page = page, pg_page_size = page_size, pg_total = total, pg_total_pages = total_pages,
         pg_result = result\<rparr>)))))
   | _ \<Rightarrow> Inl RPCError)"

definition decode_paginated :: "string \<Rightarrow> json \<Rightarrow> response paginated_result result" where
  "decode_paginated cls raw = decode_page (decode_dataclass rpc_env cls) (JObject []) raw"

definition decode_paginated_list :: "string \<Rightarrow> json \<Rightarrow> response list paginated_result result" where
  "decode_paginated_list cls raw = decode_page (decode_list cls) (JList []) raw"

definition decode_cursor :: "(json \<Rightarrow> pystr) \<Rightarrow> string \<Rightarrow> json \<Rightarrow> response list cursor_paginated_result result" where
  "decode_cursor show cls raw = (case raw of
     JObject kvs \<Rightarrow>
       rthen (decode_list cls (get_or kvs [''result''] (JList []))) (\<lambda>result.
       if json_get kvs (str ''cursor'') = JNull then Inr \<lparr>cp_result = result, cp_cursor = None\<rparr>
       else rthen (json_str show (json_get kvs (str ''cursor''))) (\<lambda>cursor.
         Inr \<lparr>cp_result = result, cp_cursor = Some cursor\<rparr>))
   | _ \<Rightarrow> Inl RPCError)"

definition extract_hash_result :: "(json \<Rightarrow> pystr) \<Rightarrow> json \<Rightarrow> pystr result" where
  "extract_hash_result show r = (case r of
     JStr s \<Rightarrow> Inr s
   | JObject kvs \<Rightarrow>
       let error = json_get kvs (str ''error'')
       in if json_true error then rthen (json_str show error) (\<lambda>_. Inl RPCError)
          else (case map_of kvs (str ''hash'') of Some h \<Rightarrow> json_str show h | None \<Rightarrow> Inl RPCError)
   | _ \<Rightarrow> Inl RPCError)"

text \<open>Trailing \<^verbatim>\<open>None\<close> values are dropped; \<open>JNull\<close> is \<^verbatim>\<open>None\<close> here.\<close>

definition optional_params :: "json list \<Rightarrow> json list" where
  "optional_params vs = rev (dropWhile (\<lambda>v. v = JNull) (rev vs))"

definition opt :: "('a \<Rightarrow> json) \<Rightarrow> 'a option \<Rightarrow> json" where
  "opt f v = (case v of None \<Rightarrow> JNull | Some x \<Rightarrow> f x)"

section \<open>What a decimal amount means\<close>

text \<open>\<open>low_digits d n\<close>: the last \<open>d\<close> decimal digits of \<open>n\<close>.\<close>

fun low_digits :: "nat \<Rightarrow> nat \<Rightarrow> pystr" where
  "low_digits 0 n = []"
| "low_digits (Suc d) n = low_digits d (n div 10) @ [48 + n mod 10]"

lemma length_low_digits [simp]: "length (low_digits d n) = d"
  by (induction d arbitrary: n) auto

lemma low_digits_range: "c \<in> set (low_digits d n) \<Longrightarrow> 48 \<le> c \<and> c \<le> 57"
  by (induction d arbitrary: n) auto

lemma low_digits_zero: "low_digits d 0 = replicate d 48"
  by (induction d) (simp_all add: replicate_append_same)

lemma digits_value_append: "digits_value (s @ t) = digits_value s * 10 ^ length t + digits_value t"
proof -
  have acc: "foldl (\<lambda>a c. 10 * a + (c - 48)) a t = a * 10 ^ length t + foldl (\<lambda>a c. 10 * a + (c - 48)) 0 t" for a :: nat
    by (induction t rule: rev_induct) simp_all
  show ?thesis unfolding digits_value_def foldl_append by (rule acc)
qed

lemma digits_value_low: "digits_value (low_digits d n) = n mod 10 ^ d"
proof (induction d arbitrary: n)
  case (Suc d)
  have "n div 10 mod 10 ^ d * 10 + n mod 10 = n mod (10 * 10 ^ d)" using mod_mult2_eq [of n 10 "10 ^ d"] by simp
  with Suc [of "n div 10"] show ?case by (simp add: digits_value_append) (simp add: digits_value_def)
qed (simp add: digits_value_def)

lemma digits_value_zeros: "digits_value (replicate k 48) = 0"
  by (induction k) (simp_all add: digits_value_def)

lemma zfill_snoc:
  assumes "s \<noteq> []" "hd s \<notin> {43, 45}"
  shows "zfill (s @ [c]) (width + 1) = zfill s width @ [c]"
  using assms by (cases s) (auto simp: zfill_def Let_def)

lemma decimal_hd: "hd (decimal n) \<notin> {43, 45}"
proof -
  have "hd (decimal n) \<in> set (decimal n)" by (rule hd_in_set [OF decimal_nonempty])
  from decimal_digits [OF this] show ?thesis by auto
qed

lemma zfill_decimal: "zfill (decimal n) (int d + 1) = decimal (n div 10 ^ d) @ low_digits d n"
proof (induction d arbitrary: n)
  case 0
  obtain c s where "decimal n = c # s" using decimal_nonempty by (cases "decimal n") auto
  then show ?case by (simp add: zfill_def)
next
  case (Suc d)
  show ?case
  proof (cases "n < 10")
    case True
    then have "decimal n = [48 + n]" "decimal 0 = [48]" by (simp_all add: decimal.simps)
    moreover have "n div 10 ^ Suc d = 0"
    proof (rule div_less)
      have "n < 10 * 1" using True by simp
      also have "\<dots> \<le> 10 * 10 ^ d" by (intro mult_le_mono2) simp
      finally show "n < 10 ^ Suc d" by simp
    qed
    ultimately show ?thesis using True
      by (simp add: zfill_def low_digits_zero nat_add_distrib del: power_Suc flip: replicate_append_same)
  next
    case False
    have d: "decimal n = decimal (n div 10) @ [48 + n mod 10]" using False by (subst decimal.simps) simp
    have "zfill (decimal n) (int (Suc d) + 1) = zfill (decimal (n div 10)) (int d + 1) @ [48 + n mod 10]"
      using zfill_snoc [OF decimal_nonempty decimal_hd, of "n div 10" "48 + n mod 10" "int d + 1"]
      unfolding d [symmetric] by (simp add: ac_simps)
    with Suc [of "n div 10"] show ?thesis by (simp add: div_mult2_eq)
  qed
qed

lemma rstrip_zeros_Nil: "rstrip_zeros [] = []"
  by (simp add: rstrip_zeros_def)

lemma rstrip_zeros_split:
  obtains k where "s = rstrip_zeros s @ replicate k 48"
proof -
  have "takeWhile (\<lambda>c. c = 48) (rev s) = replicate (length (takeWhile (\<lambda>c. c = 48) (rev s))) 48"
    by (metis (mono_tags) replicate_length_same set_takeWhileD)
  then have "rev s = replicate (length (takeWhile (\<lambda>c. c = 48) (rev s))) 48 @ dropWhile (\<lambda>c. c = 48) (rev s)"
    by (metis takeWhile_dropWhile_id)
  then have "s = rstrip_zeros s @ replicate (length (takeWhile (\<lambda>c. c = 48) (rev s))) 48"
    by (metis rev_append rev_replicate rev_rev_ident rstrip_zeros_def)
  then show ?thesis by (rule that)
qed

lemma rstrip_zeros_last: "rstrip_zeros s \<noteq> [] \<Longrightarrow> last (rstrip_zeros s) \<noteq> 48"
  unfolding rstrip_zeros_def using hd_dropWhile [of "\<lambda>c. c = 48" "rev s"] by (simp add: last_rev)

lemma convert_natural:
  "convert_decimals (decimal n) (int d) separator =
     (let fraction = rstrip_zeros (low_digits d n)
      in if fraction = [] then decimal (n div 10 ^ d) else decimal (n div 10 ^ d) @ separator @ fraction)"
proof -
  have "take 1 (decimal n) \<noteq> [45]" using decimal_hd [of n] decimal_nonempty [of n] by (cases "decimal n") auto
  moreover have "zfill (decimal n) 1 = decimal n" using zfill_decimal [of n 0] by simp
  ultimately show ?thesis
    by (cases "d = 0") (simp_all add: convert_decimals_def Let_def zfill_decimal slice_to_def slice_from_def slice_bound_def rstrip_zeros_Nil)
qed

lemma convert_negative:
  "convert_decimals (45 # decimal n) (int d) separator = 45 # convert_decimals (decimal n) (int d) separator"
proof -
  have "take 1 (decimal n) \<noteq> [45]" using decimal_hd [of n] decimal_nonempty [of n] by (cases "decimal n") auto
  then show ?thesis by (simp add: convert_decimals_def Let_def)
qed

text \<open>C19: The decimal text of an amount of \<open>n\<close> smallest units is its sign, the whole part in plain decimal, and
  after the separator at most \<open>d\<close> further digits that do not end in a zero, nothing when there are none; whole part
  and digits together are exactly \<open>n / 10 ^ d\<close>, whatever the size of \<open>n\<close>.
\<close>

theorem convert_decimals_value:
  "\<exists>fraction. convert_decimals (py_str_int n) (int d) separator =
      (if n < 0 then [45] else []) @ decimal (nat \<bar>n\<bar> div 10 ^ d) @ (if fraction = [] then [] else separator @ fraction) \<and>
    set fraction \<subseteq> {48..57} \<and> last (0 # fraction) \<noteq> 48 \<and> length fraction \<le> d \<and>
    nat \<bar>n\<bar> = nat \<bar>n\<bar> div 10 ^ d * 10 ^ d + digits_value fraction * 10 ^ (d - length fraction)"
proof -
  let ?f = "rstrip_zeros (low_digits d (nat \<bar>n\<bar>))"
  obtain k where k: "low_digits d (nat \<bar>n\<bar>) = ?f @ replicate k 48" by (rule rstrip_zeros_split)
  have l: "d = length ?f + k" using arg_cong [OF k, of length] by simp
  have "digits_value ?f * 10 ^ k = nat \<bar>n\<bar> mod 10 ^ d"
    using arg_cong [OF k, of digits_value] by (simp add: digits_value_low digits_value_append digits_value_zeros)
  moreover have "set ?f \<subseteq> {48..57}"
    using low_digits_range [of _ d "nat \<bar>n\<bar>"] by (subst (asm) k) auto
  moreover have "convert_decimals (py_str_int n) (int d) separator =
      (if n < 0 then [45] else []) @ decimal (nat \<bar>n\<bar> div 10 ^ d) @ (if ?f = [] then [] else separator @ ?f)"
    by (simp add: py_str_int_def convert_natural convert_negative Let_def)
  moreover have "d - length ?f = k" "length ?f \<le> d" using l by linarith+
  moreover have "last (0 # ?f) \<noteq> 48" using rstrip_zeros_last by auto
  ultimately show ?thesis
    by (intro exI [of _ ?f] conjI) (simp_all only: div_mult_mod_eq not_False_eq_True)
qed

section \<open>Which decimal strings are read\<close>

definition space_or_sign :: "nat list" where
  "space_or_sign = [9..<14] @ [28..<33] @ [0x85, 0xA0, 0x1680] @ [0x2000..<0x200B] @
     [0x2028, 0x2029, 0x202F, 0x205F, 0x3000] @ [43, 45, 95]"

lemma no_digit: "list_all (\<lambda>c. \<not> is_digit_char c) space_or_sign"
  by (simp add: space_or_sign_def is_digit_char_def decimal_digit_def decimal_starts_def digit_ranges_def upt_conv_Cons)

lemma digit_char_range: "is_digit_char c \<Longrightarrow> \<not> is_py_space c \<and> c \<notin> {43, 45, 95}"
proof -
  have "is_py_space c \<or> c \<in> {43, 45, 95} \<Longrightarrow> c \<in> set space_or_sign"
    unfolding is_py_space_def space_or_sign_def by (simp only: set_append set_upt) auto
  then show "is_digit_char c \<Longrightarrow> ?thesis" using no_digit by (auto simp: list_all_iff)
qed

lemma py_int_digits:
  assumes "py_isdigit s"
  shows "py_int_text s = (if length s > 4300 then Inl ValueError else
    case int_digits decimal_digit False 0 s of None \<Rightarrow> Inl ValueError | Some v \<Rightarrow> Inr v)"
proof -
  have chars: "\<not> is_py_space c \<and> c \<notin> {43, 45, 95}" if "c \<in> set s" for c
    using assms that digit_char_range by (auto simp: py_isdigit_def list_all_iff)
  then have strip: "py_strip s = s" by (intro py_strip_none) blast
  have "filter (\<lambda>c. c \<noteq> 95) s = s" using chars by (intro filter_True) auto
  moreover obtain c t where "s = c # t" using assms by (cases s) (auto simp: py_isdigit_def)
  moreover have "c \<noteq> 43" "c \<noteq> 45" using chars [of c] calculation(2) by auto
  ultimately show ?thesis unfolding py_int_text_def strip by (simp add: int_signed_def int_body_def)
qed

lemma int_digits_all:
  "95 \<notin> set s \<Longrightarrow> int_digits decimal_digit after acc s =
    (if (\<forall>c \<in> set s. decimal_digit c \<noteq> None) \<and> (s \<noteq> [] \<or> after)
     then Some (foldl (\<lambda>a c. 10 * a + int (the (decimal_digit c))) acc s) else None)"
  by (induction decimal_digit after acc s rule: int_digits.induct) (auto split: option.splits)

lemma parse_digits:
  "parse_u64 v = (case v of
     None \<Rightarrow> Inl RPCError
   | Some s \<Rightarrow>
       if \<not> py_isdigit s then Inl RPCError
       else if length s > 4300 \<or> list_ex (\<lambda>c. decimal_digit c = None) s then Inl ValueError
       else Inr (foldl (\<lambda>a c. 10 * a + int (the (decimal_digit c))) 0 s))"
proof (cases v)
  case (Some s)
  show ?thesis
  proof (cases "py_isdigit s")
    case True
    then have "95 \<notin> set s" "s \<noteq> []" using digit_char_range by (auto simp: py_isdigit_def list_all_iff)
    with True Some show ?thesis
      by (auto simp: parse_u64_def py_int_digits int_digits_all list_ex_iff)
  qed (simp add: Some parse_u64_def)
qed (simp add: parse_u64_def)

lemma parse_estimate_u64_eq: "parse_estimate_u64 = parse_u64"
  by (simp add: fun_eq_iff parse_u64_def parse_estimate_u64_def)

lemma parse_printed:
  assumes "0 \<le> n" "n < 10 ^ 4300"
  shows "parse_u64 (Some (py_str_int n)) = Inr n"
proof -
  have s: "py_str_int n = decimal (nat n)" using assms(1) by (simp add: py_str_int_def)
  have "is_digit_char c" if "c \<in> set (decimal (nat n))" for c
    using decimal_digits [OF that] by (simp add: is_digit_char_def decimal_digit_ascii)
  then have "py_isdigit (py_str_int n)" using decimal_nonempty by (simp add: s py_isdigit_def list_all_iff)
  moreover have "py_int_text (py_str_int n) = Inr n"
    by (rule py_int_text_str) (use assms in \<open>simp only: py_str_def abs_of_nonneg not_le [symmetric] if_False\<close>)
  ultimately show ?thesis using decimal_nonempty by (simp add: parse_u64_def s)
qed

text \<open>The decimal strings of a gas configuration or estimate: missing text, and text that is not all digits,
  raises \<^verbatim>\<open>RPCError\<close>; digits that are no decimals, such as superscripts, and more than 4300 of them let
  \<^verbatim>\<open>ValueError\<close> escape; everything else is read as its number, with no bound of 64 bits.
\<close>

theorem parse_u64_outcomes:
  "parse_u64 v = (case v of
     None \<Rightarrow> Inl RPCError
   | Some s \<Rightarrow>
       if \<not> py_isdigit s then Inl RPCError
       else if length s > 4300 \<or> list_ex (\<lambda>c. decimal_digit c = None) s then Inl ValueError
       else Inr (foldl (\<lambda>a c. 10 * a + int (the (decimal_digit c))) 0 s)) \<and>
   parse_estimate_u64 v = parse_u64 v \<and> parse_u64 (Some [0xB2]) = Inl ValueError \<and>
   (0 \<le> n \<and> n < 10 ^ 4300 \<longrightarrow> parse_u64 (Some (py_str_int n)) = Inr n)"
proof (intro conjI impI)
  have "py_isdigit [0xB2]" "decimal_digit 0xB2 = None"
    by (simp_all add: py_isdigit_def is_digit_char_def digit_ranges_def decimal_digit_def decimal_starts_def)
  then show "parse_u64 (Some [0xB2]) = Inl ValueError" by (subst parse_digits) simp
  show "parse_estimate_u64 v = parse_u64 v" by (simp only: parse_estimate_u64_eq)
  assume "0 \<le> n \<and> n < 10 ^ 4300"
  then show "parse_u64 (Some (py_str_int n)) = Inr n" by (elim conjE) (rule parse_printed)
qed (rule parse_digits)

theorem parse_u64_outcomes_witness: "parse_u64 (Some (py_str_int (2 ^ 64))) = Inr (2 ^ 64)"
proof -
  have "(2 :: int) ^ 64 < 10 ^ 4300"
  proof -
    have "(2 :: int) ^ 64 \<le> 10 ^ 64" by (rule power_mono) simp_all
    also have "\<dots> < 10 ^ 4300" by (rule power_strict_increasing) simp_all
    finally show ?thesis .
  qed
  then show ?thesis using parse_u64_outcomes [of None "2 ^ 64"] by (meson zero_le_numeral zero_le_power)
qed

end
