(* ===== verification/CarbonSign.thy ===== *)
theory CarbonSign
  imports Crypto CarbonTx Fees
begin

text \<open>
  Signing a Carbon transaction: \<^verbatim>\<open>bytes32_from_public_key\<close>, \<^verbatim>\<open>bytes32_from_phantasma_address\<close>,
  \<^verbatim>\<open>sign_tx_msg\<close>, \<^verbatim>\<open>sign_and_serialize_tx_msg\<close> of \<^verbatim>\<open>carbon.py\<close>. The theorems say for
  which transaction types signing with one key can be serialised, what the receiver reads back, and
  that \<^verbatim>\<open>envelope_bytes_for\<close> is the length of the signed message.
\<close>

section \<open>Addresses as 32 bytes\<close>

definition bytes32_from_public_key :: "bytes \<Rightarrow> bytes result" where
  "bytes32_from_public_key raw = (if length raw \<noteq> 32 then Inl CryptoError else FixedBytes 32 raw)"

definition bytes32_from_phantasma_address :: "address \<Rightarrow> bytes result" where
  "bytes32_from_phantasma_address a =
     (if addr_kind a \<notin> {AK_USER, AK_SYSTEM} then Inl CryptoError
      else FixedBytes 32 (drop 2 (addr_data a)))"

definition bytes32_from_phantasma_address_text :: "pystr \<Rightarrow> bytes result" where
  "bytes32_from_phantasma_address_text t = rthen (from_text (Some t)) bytes32_from_phantasma_address"

section \<open>Signing\<close>

definition sign_tx_msg :: "crypto_lib \<Rightarrow> TxMsg \<Rightarrow> keys \<Rightarrow> SignedTxMsg result" where
  "sign_tx_msg L msg key_pair =
     rthen (serialize (write_TxMsg msg)) (\<lambda>message.
     rthen (keys_sign L key_pair message) (\<lambda>signature.
     rthen (bytes32_from_public_key (public_key L key_pair)) (\<lambda>address.
     rthen (FixedBytes 64 (sig_data signature)) (\<lambda>sig64.
     Inr \<lparr>sm_msg = msg, sm_witnesses = [\<lparr>wi_address = address, wi_signature = sig64\<rparr>]\<rparr>))))"

definition sign_and_serialize_tx_msg :: "crypto_lib \<Rightarrow> TxMsg \<Rightarrow> keys \<Rightarrow> bytes result" where
  "sign_and_serialize_tx_msg L msg key_pair =
     rthen (sign_tx_msg L msg key_pair) (\<lambda>s. serialize (write_SignedTxMsg s))"

definition sign_and_serialize_tx_msg_hex :: "crypto_lib \<Rightarrow> TxMsg \<Rightarrow> keys \<Rightarrow> pystr result" where
  "sign_and_serialize_tx_msg_hex L msg key_pair =
     rthen (sign_and_serialize_tx_msg L msg key_pair) (\<lambda>bs. Inr (bytes_hex bs))"

text \<open>The witness the signer adds.\<close>

definition key_witness :: "crypto_lib \<Rightarrow> keys \<Rightarrow> bytes \<Rightarrow> Witness" where
  "key_witness L k message =
     \<lparr>wi_address = public_key L k, wi_signature = ed25519_sign L (private_key k) message\<rparr>"

lemma sign_tx_msg_eq:
  assumes "crypto_lib_ok L" "keys_ok k"
  shows "sign_tx_msg L m k = rthen (serialize (write_TxMsg m)) (\<lambda>message.
    Inr \<lparr>sm_msg = m, sm_witnesses = [key_witness L k message]\<rparr>)"
  using keys_sign_ok(1,3) [OF assms] keys_address_user(2) [OF assms]
  by (simp add: sign_tx_msg_def bytes32_from_public_key_def FixedBytes_length key_witness_def)

lemma key_witness_ok: "crypto_lib_ok L \<Longrightarrow> keys_ok k \<Longrightarrow> Witness_ok (key_witness L k message)"
  by (simp add: Witness_ok_def key_witness_def keys_sign_ok keys_address_user)

lemma serialize_Witness: "Witness_ok w \<Longrightarrow> serialize (write_Witness w) = Inr (wi_address w @ wi_signature w)"
  by (simp add: write_Witness_def Witness_ok_def serialize_wseq serialize_fixed)

lemma serialize_witness_seq:
  "list_all Witness_ok ws \<Longrightarrow>
   serialize (wseq (map write_Witness ws)) = Inr (concat (map (\<lambda>w. wi_address w @ wi_signature w) ws))"
proof (induction ws)
  case (Cons w ws)
  have "list_all appends (map write_Witness ws)" by (simp add: list_all_iff)
  with Cons show ?case by (simp add: serialize_wseq serialize_Witness)
qed simp

lemma witness_bytes_length:
  "list_all Witness_ok ws \<Longrightarrow> length (concat (map (\<lambda>w. wi_address w @ wi_signature w) ws)) = 96 * length ws"
  by (induction ws) (auto simp: Witness_ok_def)

lemma serialize_witness_array:
  assumes "list_all Witness_ok ws"
  shows "serialize (write_carbon_array write_Witness ws) =
    (if length ws < 2 ^ 31
     then Inr (le_bytes 4 (int (length ws)) @ concat (map (\<lambda>w. wi_address w @ wi_signature w) ws))
     else Inl SerializationError)"
proof -
  have "list_all appends (map write_Witness ws)" by (simp add: list_all_iff)
  then show ?thesis
    using assms by (simp add: write_carbon_array_def serialize_wseq serialize_witness_seq serialize_ints)
qed

text \<open>One signature for the single-witness and a counted array for the witness-list types.\<close>

lemma serialize_witnesses_length:
  assumes ws: "list_all Witness_ok ws" and s: "serialize (write_witnesses m ws) = Inr bs"
  shows "tm_type m \<in> single_witness_types \<union> gas_payer_types \<Longrightarrow> length bs = 64 * length ws"
    "tm_type m \<in> witness_list_types \<Longrightarrow> length bs = 4 + 96 * length ws"
proof -
  assume t: "tm_type m \<in> single_witness_types \<union> gas_payer_types"
  show "length bs = 64 * length ws"
  proof (cases "tm_type m \<in> single_witness_types")
    case True
    then have "length ws = 1" "serialize (write64 (wi_signature (ws ! 0))) = Inr bs"
      using s by (auto simp: write_witnesses_def split: if_splits)
    moreover have "Witness_ok (ws ! 0)" using ws calculation(1) by (simp add: list_all_length)
    ultimately show ?thesis by (simp add: Witness_ok_def serialize_fixed)
  next
    case False
    with t s have "length ws = 2"
      "serialize (wseq [write64 (wi_signature (ws ! 0)), write64 (wi_signature (ws ! 1))]) = Inr bs"
      by (auto simp: write_witnesses_def split: if_splits)
    moreover have "Witness_ok (ws ! 0)" "Witness_ok (ws ! 1)"
      using ws calculation(1) by (simp_all add: list_all_length)
    ultimately show ?thesis by (auto simp: Witness_ok_def serialize_wseq serialize_fixed)
  qed
next
  assume t: "tm_type m \<in> witness_list_types"
  then have "serialize (write_carbon_array write_Witness ws) = Inr bs"
    using s tx_type_groups_disjoint(2) [OF t] by (simp add: write_witnesses_def)
  then show "length bs = 4 + 96 * length ws"
    using witness_bytes_length [OF ws] by (auto simp: serialize_witness_array [OF ws] split: if_splits)
qed

lemma serialize_SignedTxMsg:
  "serialize (write_SignedTxMsg x) = rthen (serialize (write_TxMsg (sm_msg x))) (\<lambda>a.
     rthen (serialize (write_witnesses (sm_msg x) (sm_witnesses x))) (\<lambda>b. Inr (a @ b)))"
  by (simp add: write_SignedTxMsg_def serialize_wseq rthen_assoc)

text \<open>When one signature is enough for the message to be sent.\<close>

definition one_signer_ok :: "crypto_lib \<Rightarrow> TxMsg \<Rightarrow> keys \<Rightarrow> bool" where
  "one_signer_ok L m k \<longleftrightarrow> tm_type m \<in> witness_list_types \<or>
     tm_type m \<in> single_witness_types \<and> tm_gas_from m = public_key L k"

lemma one_witness:
  assumes "crypto_lib_ok L" "keys_ok k"
  shows "serialize (write_witnesses m [key_witness L k message]) =
    (if tm_type m \<in> witness_list_types
     then Inr (le_bytes 4 1 @ public_key L k @ ed25519_sign L (private_key k) message)
     else if one_signer_ok L m k then Inr (ed25519_sign L (private_key k) message)
     else Inl SerializationError)"
proof -
  note w = key_witness_ok [OF assms, of message]
  have sel: "wi_address (key_witness L k message) = public_key L k"
    "wi_signature (key_witness L k message) = ed25519_sign L (private_key k) message"
    by (simp_all add: key_witness_def)
  have l: "length (ed25519_sign L (private_key k) message) = 64" using keys_sign_ok(3) [OF assms] .
  note g = tx_type_groups [of "tm_type m"] tx_type_groups_disjoint(1,2) [of "tm_type m"] tx_type_groups_disjoint(3)
  show ?thesis
    using g w l serialize_witness_array [of "[key_witness L k message]"]
    by (auto simp: write_witnesses_def one_signer_ok_def sel serialize_fixed)
qed

lemma sign_and_serialize_eq:
  assumes "crypto_lib_ok L" "keys_ok k" "serialize (write_TxMsg m) = Inr message"
  shows "sign_and_serialize_tx_msg L m k = rthen (serialize (write_witnesses m [key_witness L k message]))
    (\<lambda>b. Inr (message @ b))"
  using assms by (simp add: sign_and_serialize_tx_msg_def sign_tx_msg_eq serialize_SignedTxMsg)

lemma signed_ok:
  assumes "crypto_lib_ok L" "keys_ok k" "TxMsg_ok m"
  shows "SignedTxMsg_ok \<lparr>sm_msg = m, sm_witnesses = [key_witness L k message]\<rparr>"
  using key_witness_ok [OF assms(1,2)] assms(3) by (simp add: SignedTxMsg_ok_def)

text \<open>Signing that succeeds, and what the receiver makes of it.\<close>

lemma sign_returns:
  assumes "crypto_lib_ok L" "keys_ok k" "TxMsg_ok m" "serialize (write_TxMsg m) = Inr message" "one_signer_ok L m k"
  shows "\<exists>bs w. sign_and_serialize_tx_msg L m k = Inr bs \<and>
      deserialize read_SignedTxMsg bs = Inr \<lparr>sm_msg = m, sm_witnesses = [w]\<rparr> \<and>
      wi_address w = public_key L k \<and> ed25519_verify L (wi_address w) (wi_signature w) message"
proof -
  let ?s = "\<lparr>sm_msg = m, sm_witnesses = [key_witness L k message]\<rparr>"
  obtain b where b: "serialize (write_witnesses m [key_witness L k message]) = Inr b"
    using assms(5) one_witness [OF assms(1,2), of m message] by (auto split: if_splits)
  then have s: "sign_and_serialize_tx_msg L m k = Inr (message @ b)"
    "serialize (write_SignedTxMsg ?s) = Inr (message @ b)"
    by (simp_all add: sign_and_serialize_eq [OF assms(1,2,4)] serialize_SignedTxMsg assms(4))
  have "deserialize read_SignedTxMsg (message @ b) = Inr ?s"
    by (rule signed_tx_msg.roundtrip [OF signed_ok [OF assms(1-3)] s(2)])
  with s(1) keys_sign_ok(2) [OF assms(1,2)] show ?thesis by (auto simp: key_witness_def)
qed

section \<open>Properties\<close>

text \<open>C2: Signing a serialisable message with one key gives bytes exactly for the witness-list types and for
  the single-witness types paid by that key; the receiver reads back the message with one witness, whose
  address is the key's and whose signature verifies. For every other type, in particular all gas-payer types,
  the result is a serialization error.\<close>

theorem sign_and_serialize_spec:
  assumes "crypto_lib_ok L" "keys_ok k" "TxMsg_ok m" "serialize (write_TxMsg m) = Inr message"
  shows "if one_signer_ok L m k
    then \<exists>bs w. sign_and_serialize_tx_msg L m k = Inr bs \<and>
      deserialize read_SignedTxMsg bs = Inr \<lparr>sm_msg = m, sm_witnesses = [w]\<rparr> \<and>
      wi_address w = public_key L k \<and> ed25519_verify L (wi_address w) (wi_signature w) message
    else sign_and_serialize_tx_msg L m k = Inl SerializationError"
proof (cases "one_signer_ok L m k")
  case True
  with sign_returns [OF assms] show ?thesis by simp
next
  case False
  then have "tm_type m \<notin> witness_list_types" by (simp add: one_signer_ok_def)
  with False show ?thesis
    using one_witness [OF assms(1,2), of m message] by (simp add: sign_and_serialize_eq [OF assms(1,2,4)])
qed

theorem sign_and_serialize_spec_witness:
  "\<exists>bs w. sign_and_serialize_tx_msg example_lib example_msg example_keys = Inr bs \<and>
     deserialize read_SignedTxMsg bs = Inr \<lparr>sm_msg = example_msg, sm_witnesses = [w]\<rparr>"
proof -
  obtain message where m: "serialize (write_TxMsg example_msg) = Inr message" using example_msg_written by blast
  have "one_signer_ok example_lib example_msg example_keys"
    by (simp add: one_signer_ok_def example_msg_def single_witness_types_def public_key_def example_lib_def example_keys_def)
  with sign_and_serialize_spec [OF example_lib_ok example_keys_ok example_msg_ok m] show ?thesis by auto
qed

text \<open>C36: The envelope size the fee helper computes from the message length is the exact length of the signed
  message, for one, two or a list of witnesses.\<close>

theorem envelope_bytes_exact:
  assumes "SignedTxMsg_ok x" "tm_type (sm_msg x) \<noteq> TX_PHANTASMA_RAW"
    and "kind \<in> native_signature_kinds \<longleftrightarrow> tm_type (sm_msg x) \<notin> witness_list_types"
    and "serialize (write_TxMsg (sm_msg x)) = Inr message" "serialize (write_SignedTxMsg x) = Inr bs"
  shows "envelope_bytes_for kind (int (length message)) (int (length (sm_witnesses x))) = Inr (int (length bs))"
proof -
  have ws: "list_all Witness_ok (sm_witnesses x)" using assms(1) by (simp add: SignedTxMsg_ok_def)
  from assms(4,5) obtain b where b: "serialize (write_witnesses (sm_msg x) (sm_witnesses x)) = Inr b"
    and bs: "bs = message @ b" by (auto simp: serialize_SignedTxMsg rthen_Inr_iff)
  note l = serialize_witnesses_length [OF ws b]
  show ?thesis
  proof (cases "tm_type (sm_msg x) \<in> witness_list_types")
    case True
    with l(2) assms(3) bs show ?thesis
      by (simp add: envelope_bytes_for_def WITNESS_ARRAY_ENTRY_BYTES_def)
  next
    case False
    with tx_type_groups [of "tm_type (sm_msg x)"] assms(2)
    have "tm_type (sm_msg x) \<in> single_witness_types \<union> gas_payer_types" by blast
    from l(1) [OF this] False assms(3) bs show ?thesis
      by (simp add: envelope_bytes_for_def NATIVE_SIGNATURE_BYTES_def)
  qed
qed

theorem envelope_bytes_exact_witness:
  "\<exists>message bs. serialize (write_TxMsg example_msg) = Inr message \<and>
     serialize (write_SignedTxMsg example_signed) = Inr bs \<and>
     envelope_bytes_for FK_TRANSFER_FUNGIBLE (int (length message)) 1 = Inr (int (length bs))"
proof -
  obtain message where m: "serialize (write_TxMsg example_msg) = Inr message" using example_msg_written by blast
  obtain bs where b: "serialize (write_SignedTxMsg example_signed) = Inr bs" using example_signed_written by blast
  have e: "sm_msg example_signed = example_msg" "length (sm_witnesses example_signed) = 1"
    by (simp_all add: example_signed_def)
  have "envelope_bytes_for FK_TRANSFER_FUNGIBLE (int (length message)) (int (length (sm_witnesses example_signed))) = Inr (int (length bs))"
    by (rule envelope_bytes_exact [OF example_signed_ok _ _ _ b])
      (use m in \<open>simp_all add: e example_msg_def native_signature_kinds_def witness_list_types_def\<close>)
  with m b e show ?thesis by simp
qed

text \<open>The 32 bytes that name an account in a Carbon message are the public key, whether they are taken from
  the key, from the address made of it, or from the text of that address.\<close>

theorem account_bytes_agree:
  assumes "length pk = 32"
  shows "bytes32_from_public_key pk = Inr pk \<and>
    rthen (from_public_key pk) bytes32_from_phantasma_address = Inr pk \<and>
    rthen (from_public_key pk) (\<lambda>a. bytes32_from_phantasma_address_text (addr_text a)) = Inr pk"
proof -
  let ?a = "\<lparr>addr_data = [1, 0] @ pk\<rparr>"
  note k = user_address(1) [OF assms]
  have "address_ok ?a" using assms by (simp add: address_ok_def)
  then have t: "from_text (Some (addr_text ?a)) = Inr ?a" by (rule from_text_addr_text) (simp add: k [simplified])
  have b: "bytes32_from_phantasma_address ?a = Inr pk"
    using k assms by (simp add: bytes32_from_phantasma_address_def FixedBytes_length)
  then show ?thesis
    using t assms by (simp add: bytes32_from_public_key_def FixedBytes_length from_public_key_32
        bytes32_from_phantasma_address_text_def)
qed

theorem account_bytes_agree_witness:
  "rthen (from_public_key (replicate 32 7)) (\<lambda>a. bytes32_from_phantasma_address_text (addr_text a)) = Inr (replicate 32 7)"
  using account_bytes_agree [of "replicate 32 7"] by simp

end
