(* ===== verification/CarbonDyn.thy ===== *)
theory CarbonDyn
  imports CarbonSchema PyNum "HOL-Library.List_Lexorder" "HOL-Library.Multiset"
begin

text \<open>
  The dynamic VM values of \<^verbatim>\<open>carbon.py\<close>: \<^verbatim>\<open>VMDynamicVariable\<close>, \<^verbatim>\<open>VMNamedDynamicVariable\<close>,
  \<^verbatim>\<open>VMDynamicStruct\<close> and \<^verbatim>\<open>VMStructArray\<close>, with their self-describing and their schema-driven wire forms.

  The field \<^verbatim>\<open>data: Any\<close> of a variable holds any Python value. The model's values are \<^verbatim>\<open>None\<close>,
  booleans, integers, strings, byte strings, the \<^verbatim>\<open>FixedBytes\<close> classes, sequences, mappings and the
  objects of this module; floating point numbers and objects of other classes are left out. The
  conversions the writer applies (\<^verbatim>\<open>int(x)\<close>, \<^verbatim>\<open>bytes(x)\<close>, \<^verbatim>\<open>list(x)\<close>, \<^verbatim>\<open>x or default\<close>) are written out for
  every class of value. Only \<^verbatim>\<open>str(x)\<close> of a value that is neither text nor a number is a
  parameter, \<open>py_text\<close>: Python's own \<^verbatim>\<open>repr\<close>, generated by the interpreter for these classes.

  Writing sorts the fields of a struct in place (\<^verbatim>\<open>_sort\<close>). The model writes the sorted copy; the order the
  object is left in is the order of that copy.
\<close>

section \<open>Values\<close>

datatype vm_data =
    DNone
  | DBool bool
  | DInt int
  | DStr pystr
  | DBytes bytes
  | DBytes16 bytes
  | DBytes32 bytes
  | DBytes64 bytes
  | DList "vm_data list"
  | DDict "(vm_data \<times> vm_data) list"
  | DVar dyn_var
  | DNamed named_var
  | DStruct dyn_struct
  | DStructArray struct_schema "dyn_struct list"
  and dyn_var = VMDynamicVariable (dv_type: vm_type) (dv_data: vm_data)
  and named_var = VMNamedDynamicVariable (nv_name: small_string) (nv_value: dyn_var)
  and dyn_struct = VMDynamicStruct (ds_fields: "named_var list")

definition VMNamedDynamicVariable_make :: "pystr \<Rightarrow> vm_type \<Rightarrow> vm_data \<Rightarrow> named_var result" where
  "VMNamedDynamicVariable_make name ty x =
     rthen (SmallString name) (\<lambda>n. Inr (VMNamedDynamicVariable n (VMDynamicVariable ty x)))"

section \<open>Python's conversions\<close>

text \<open>Truth of a value, for \<^verbatim>\<open>value or default\<close>.\<close>

fun py_true :: "vm_data \<Rightarrow> bool" where
  "py_true DNone = False"
| "py_true (DBool b) = b"
| "py_true (DInt n) = (n \<noteq> 0)"
| "py_true (DStr s) = (s \<noteq> [])"
| "py_true (DBytes bs) = (bs \<noteq> [])"
| "py_true (DBytes16 bs) = (bs \<noteq> [])"
| "py_true (DBytes32 bs) = (bs \<noteq> [])"
| "py_true (DBytes64 bs) = (bs \<noteq> [])"
| "py_true (DList xs) = (xs \<noteq> [])"
| "py_true (DDict kvs) = (kvs \<noteq> [])"
| "py_true _ = True"

definition py_or :: "vm_data \<Rightarrow> vm_data \<Rightarrow> vm_data" where
  "py_or x y = (if py_true x then x else y)"

text \<open>The byte string a value is, if it is one.\<close>

fun bytes_value :: "vm_data \<Rightarrow> bytes option" where
  "bytes_value (DBytes bs) = Some bs"
| "bytes_value (DBytes16 bs) = Some bs"
| "bytes_value (DBytes32 bs) = Some bs"
| "bytes_value (DBytes64 bs) = Some bs"
| "bytes_value _ = None"

text \<open>Integers proper, as \<^verbatim>\<open>operator.index\<close> accepts them.\<close>

fun py_index :: "vm_data \<Rightarrow> int result" where
  "py_index (DInt n) = Inr n"
| "py_index (DBool b) = Inr (of_bool b)"
| "py_index _ = Inl TypeError"

text \<open>\<^verbatim>\<open>int(x)\<close>\<close>

definition py_int :: "vm_data \<Rightarrow> int result" where
  "py_int x = (case x of
     DStr s \<Rightarrow> py_int_text s
   | _ \<Rightarrow> (case bytes_value x of Some bs \<Rightarrow> py_int_bytes bs | None \<Rightarrow> py_index x))"

text \<open>\<^verbatim>\<open>list(x)\<close>\<close>

definition py_list :: "vm_data \<Rightarrow> vm_data list result" where
  "py_list x = (case x of
     DList xs \<Rightarrow> Inr xs
   | DDict kvs \<Rightarrow> Inr (map fst kvs)
   | DStr s \<Rightarrow> Inr (map (\<lambda>c. DStr [c]) s)
   | _ \<Rightarrow> (case bytes_value x of Some bs \<Rightarrow> Inr (map (\<lambda>b. DInt (uint b)) bs) | None \<Rightarrow> Inl TypeError))"

text \<open>\<^verbatim>\<open>bytes(x)\<close>: a count of zero bytes for an integer, the elements for a sequence.\<close>

definition byte_element :: "vm_data \<Rightarrow> byte result" where
  "byte_element x = rthen (py_index x) (\<lambda>n.
     if 0 \<le> n \<and> n < 256 then Inr (word_of_int n) else Inl ValueError)"

definition py_bytes :: "vm_data \<Rightarrow> bytes result" where
  "py_bytes x = (case x of
     DStr s \<Rightarrow> Inl TypeError
   | DInt n \<Rightarrow> if n < 0 then Inl ValueError else Inr (replicate (nat n) 0)
   | DBool b \<Rightarrow> Inr (replicate (of_bool b) 0)
   | _ \<Rightarrow> (case bytes_value x of Some bs \<Rightarrow> Inr bs
       | None \<Rightarrow> rthen (py_list x) (rmap byte_element)))"

text \<open>\<^verbatim>\<open>BytesN(x)\<close>: text is read as hexadecimal.\<close>

definition py_fixed :: "nat \<Rightarrow> vm_data \<Rightarrow> bytes result" where
  "py_fixed n x = (case x of DStr s \<Rightarrow> FixedBytes_text n s | _ \<Rightarrow> rthen (py_bytes x) (FixedBytes n))"

text \<open>\<^verbatim>\<open>isinstance\<close> tests for the classes of this module, with the object.\<close>

fun as_var :: "vm_data \<Rightarrow> dyn_var option" where
  "as_var (DVar v) = Some v"
| "as_var _ = None"

fun as_named :: "vm_data \<Rightarrow> named_var option" where
  "as_named (DNamed n) = Some n"
| "as_named _ = None"

fun as_struct :: "vm_data \<Rightarrow> dyn_struct option" where
  "as_struct (DStruct s) = Some s"
| "as_struct _ = None"

fun as_struct_array :: "vm_data \<Rightarrow> (struct_schema \<times> dyn_struct list) option" where
  "as_struct_array (DStructArray sc ss) = Some (sc, ss)"
| "as_struct_array _ = None"

text \<open>The string \<^verbatim>\<open>write_string_z(x)\<close> encodes: the test for a zero byte, then \<^verbatim>\<open>x.encode\<close>.\<close>

definition string_z_argument :: "vm_data \<Rightarrow> pystr result" where
  "string_z_argument x = (case x of
     DStr s \<Rightarrow> Inr s
   | DList xs \<Rightarrow> Inl (if DStr [0] \<in> set xs then SerializationError else AttributeError)
   | DDict kvs \<Rightarrow> Inl (if DStr [0] \<in> fst ` set kvs then SerializationError else AttributeError)
   | _ \<Rightarrow> Inl TypeError)"

text \<open>\<^verbatim>\<open>str(x or "")\<close>\<close>

definition py_str_or_empty :: "(vm_data \<Rightarrow> pystr) \<Rightarrow> vm_data \<Rightarrow> pystr result" where
  "py_str_or_empty py_text x = (if \<not> py_true x then Inr [] else case x of
     DStr s \<Rightarrow> Inr s
   | DInt n \<Rightarrow> py_str n
   | DBytes16 bs \<Rightarrow> Inr (bytes_hex bs)
   | DBytes32 bs \<Rightarrow> Inr (bytes_hex bs)
   | DBytes64 bs \<Rightarrow> Inr (bytes_hex bs)
   | _ \<Rightarrow> Inr (py_text x))"

section \<open>Default values\<close>

definition default_vm_value :: "vm_type \<Rightarrow> vm_data" where
  "default_vm_value ty =
     (if ty = VM_BYTES then DBytes []
      else if ty = VM_STRUCT then DStruct (VMDynamicStruct [])
      else if ty \<in> {VM_INT8, VM_INT16, VM_INT32, VM_INT64, VM_INT256} then DInt 0
      else if ty = VM_BYTES16 then DBytes16 (replicate 16 0)
      else if ty = VM_BYTES32 then DBytes32 EMPTY_BYTES32
      else if ty = VM_BYTES64 then DBytes64 (replicate 64 0)
      else if ty = VM_STRING then DStr []
      else if ty = VM_ARRAY_STRUCT then DStructArray empty_schema []
      else if odd (vm_code ty) then DList []
      else DNone)"

section \<open>Looking fields up\<close>

definition struct_sort :: "dyn_struct \<Rightarrow> dyn_struct" where
  "struct_sort s = VMDynamicStruct (sort_key nv_name (ds_fields s))"

definition struct_get :: "dyn_struct \<Rightarrow> pystr \<Rightarrow> dyn_var option" where
  "struct_get s name = map_option nv_value (find (\<lambda>f. nv_name f = name) (ds_fields s))"

definition schema_has_field :: "struct_schema \<Rightarrow> pystr \<Rightarrow> bool" where
  "schema_has_field schema name = list_ex (\<lambda>f. ns_name f = name) (ss_fields schema)"

text \<open>The variable \<^verbatim>\<open>write_with_schema\<close> writes for a field of the schema, and its count of the fields found.\<close>

definition field_value :: "dyn_struct \<Rightarrow> named_schema \<Rightarrow> dyn_var" where
  "field_value s f = (case struct_get s (ns_name f) of
     None \<Rightarrow> VMDynamicVariable (vs_type (ns_schema f)) (default_vm_value (vs_type (ns_schema f)))
   | Some v \<Rightarrow> v)"

definition fields_found :: "struct_schema \<Rightarrow> dyn_struct \<Rightarrow> nat" where
  "fields_found schema s = length (filter (\<lambda>f. struct_get s (ns_name f) \<noteq> None) (ss_fields schema))"

section \<open>Writers\<close>

text \<open>
  The branches of \<^verbatim>\<open>write_static\<close> that hold no further variables, scalars first. The last branch is the
  code's final \<^verbatim>\<open>else\<close>.
\<close>

definition write_scalar :: "(vm_data \<Rightarrow> pystr) \<Rightarrow> vm_type \<Rightarrow> vm_data \<Rightarrow> wop" where
  "write_scalar py_text ty x = (case ty of
     VM_BYTES \<Rightarrow> w_bind (py_bytes (py_or x (DBytes []))) write_byte_array
   | VM_INT8 \<Rightarrow> w_bind (py_int x) (\<lambda>n. write1 (n AND 0xFF))
   | VM_INT16 \<Rightarrow> w_bind (py_int x) write2
   | VM_INT32 \<Rightarrow> w_bind (py_int x) write4
   | VM_INT64 \<Rightarrow> w_bind (py_int x) write8
   | VM_INT256 \<Rightarrow> w_bind (py_int (py_or x (DInt 0))) write_big_int
   | VM_BYTES16 \<Rightarrow> (case x of DBytes16 bs \<Rightarrow> write16 bs | _ \<Rightarrow> w_bind (py_fixed 16 (py_or x (DBytes []))) write16)
   | VM_BYTES32 \<Rightarrow> (case x of DBytes32 bs \<Rightarrow> write32 bs | _ \<Rightarrow> w_bind (py_fixed 32 (py_or x (DBytes []))) write32)
   | VM_BYTES64 \<Rightarrow> (case x of DBytes64 bs \<Rightarrow> write64 bs | _ \<Rightarrow> w_bind (py_fixed 64 (py_or x (DBytes []))) write64)
   | VM_STRING \<Rightarrow> w_bind (py_str_or_empty py_text x) write_string_z
   | _ \<Rightarrow> w_fail SerializationError)"

text \<open>The arrays. \<^verbatim>\<open>list(value or [])\<close> comes first in all of them.\<close>

definition write_int_values :: "int \<Rightarrow> vm_data list \<Rightarrow> wop" where
  "write_int_values width = write_carbon_array (\<lambda>x. w_bind (py_index x) (write_int_element width True))"

definition write_fixed_values :: "nat \<Rightarrow> (bytes \<Rightarrow> wop) \<Rightarrow> vm_data list \<Rightarrow> wop" where
  "write_fixed_values n wr xs = w_bind (rmap (py_fixed n) xs) (write_carbon_array wr)"

definition write_array_values :: "vm_type \<Rightarrow> vm_data list \<Rightarrow> wop" where
  "write_array_values ty xs = (case ty of
     VM_ARRAY_BYTES \<Rightarrow> write_carbon_array (\<lambda>x. w_bind (py_bytes x) write_byte_array) xs
   | VM_ARRAY_INT8 \<Rightarrow> write_int_values 1 xs
   | VM_ARRAY_INT16 \<Rightarrow> write_int_values 2 xs
   | VM_ARRAY_INT32 \<Rightarrow> write_int_values 4 xs
   | VM_ARRAY_INT64 \<Rightarrow> write_int_values 8 xs
   | VM_ARRAY_INT256 \<Rightarrow> w_bind (rmap py_int xs) write_big_int_array
   | VM_ARRAY_BYTES16 \<Rightarrow> write_fixed_values 16 write16 xs
   | VM_ARRAY_BYTES32 \<Rightarrow> write_fixed_values 32 write32 xs
   | VM_ARRAY_BYTES64 \<Rightarrow> write_fixed_values 64 write64 xs
   | VM_ARRAY_STRING \<Rightarrow> write_carbon_array (\<lambda>x. w_bind (string_z_argument x) write_string_z) xs
   | _ \<Rightarrow> w_fail SerializationError)"

definition write_plain :: "(vm_data \<Rightarrow> pystr) \<Rightarrow> vm_type \<Rightarrow> vm_data \<Rightarrow> wop" where
  "write_plain py_text ty x =
     (if odd (vm_code ty) then w_bind (py_list (py_or x (DList []))) (write_array_values ty)
      else write_scalar py_text ty x)"

lemma w_bind_cong [fundef_cong]:
  "m = m' \<Longrightarrow> (\<And>y. m' = Inr y \<Longrightarrow> f y = f' y) \<Longrightarrow> w_bind m f = w_bind m' f'"
  by (cases m') (auto simp: w_bind_def)

text \<open>The value \<^verbatim>\<open>write_static\<close> works on.\<close>

definition static_value :: "vm_type \<Rightarrow> dyn_var \<Rightarrow> vm_data" where
  "static_value ty v = (if dv_type v = ty then dv_data v else default_vm_value ty)"

text \<open>
  The recursive writers. \<open>write_dyn_item\<close> is the call \<^verbatim>\<open>value.write_carbon(writer)\<close> on an item of a dynamic array. \<^verbatim>\<open>write_static\<close> and \<^verbatim>\<open>write_with_schema\<close> also return a flag, the first component.
  A value whose own type is not the requested one is replaced by the type's default.
\<close>

function (sequential) write_dyn_var :: "(vm_data \<Rightarrow> pystr) \<Rightarrow> dyn_var \<Rightarrow> wop"
  and write_static :: "(vm_data \<Rightarrow> pystr) \<Rightarrow> vm_type \<Rightarrow> struct_schema option \<Rightarrow> dyn_var \<Rightarrow> bool \<times> wop"
  and write_dyn_item :: "(vm_data \<Rightarrow> pystr) \<Rightarrow> vm_data \<Rightarrow> wop"
  and write_named_dyn :: "(vm_data \<Rightarrow> pystr) \<Rightarrow> named_var \<Rightarrow> wop"
  and write_dyn_struct :: "(vm_data \<Rightarrow> pystr) \<Rightarrow> dyn_struct \<Rightarrow> wop"
  and write_with_schema :: "(vm_data \<Rightarrow> pystr) \<Rightarrow> struct_schema option \<Rightarrow> dyn_struct \<Rightarrow> bool \<times> wop" where
  "write_dyn_var py_text v = wseq [write1 (vm_code (dv_type v)), snd (write_static py_text (dv_type v) None v)]"
| "write_static py_text ty schema v =
     (let x = static_value ty v in
      if ty = VM_DYNAMIC then
        (True, case as_var x of
            Some inner \<Rightarrow> write_dyn_var py_text inner
          | None \<Rightarrow> wseq [write1 (vm_code VM_ARRAY_DYNAMIC), write4 0])
      else if ty = VM_STRUCT then
        write_with_schema py_text schema (case as_struct x of Some s \<Rightarrow> s | None \<Rightarrow> VMDynamicStruct [])
      else if ty = VM_ARRAY_DYNAMIC then
        (True, w_bind (py_list (py_or x (DList []))) (\<lambda>items. write_carbon_array (write_dyn_item py_text) items))
      else if ty = VM_ARRAY_STRUCT then
        (True, case as_struct_array x of
            Some (array_schema, structs) \<Rightarrow>
              (case schema of
                 Some used \<Rightarrow> wseq (write4 (int (length structs)) #
                   map (\<lambda>s. snd (write_with_schema py_text (Some used) s)) structs)
               | None \<Rightarrow> wseq (write4 (int (length structs)) # write_struct_schema array_schema #
                   map (\<lambda>s. snd (write_with_schema py_text
                     (if ss_fields array_schema \<noteq> [] then Some array_schema else None) s)) structs))
          | None \<Rightarrow> w_bind (py_list (py_or x (DList []))) (\<lambda>items.
              wseq (write4 (int (length items)) #
                (if schema = None then [write_struct_schema empty_schema] else []) @
                map (\<lambda>item. snd (write_with_schema py_text schema
                  (case as_struct item of Some s \<Rightarrow> s | None \<Rightarrow> VMDynamicStruct []))) items)))
      else (True, write_plain py_text ty x))"
| "write_dyn_item py_text x =
     (case as_var x of Some v \<Rightarrow> write_dyn_var py_text v | None \<Rightarrow>
     (case as_named x of Some n \<Rightarrow> write_named_dyn py_text n | None \<Rightarrow>
     (case as_struct x of Some s \<Rightarrow> write_dyn_struct py_text s | None \<Rightarrow> w_fail AttributeError)))"
| "write_named_dyn py_text n = wseq [write_small_string (nv_name n), write_dyn_var py_text (nv_value n)]"
| "write_dyn_struct py_text s = write_carbon_array (write_named_dyn py_text) (ds_fields (struct_sort s))"
| "write_with_schema py_text None s = (True, write_dyn_struct py_text s)"
| "write_with_schema py_text (Some schema) s =
     (let parts = map (\<lambda>f. write_static py_text (vs_type (ns_schema f)) (vs_struct (ns_schema f)) (field_value s f))
            (ss_fields schema);
          ok = list_all fst parts;
          extras = filter (\<lambda>n. \<not> schema_has_field schema (nv_name n)) (ds_fields s)
      in if even (ss_flags schema) then (ok, wseq (map snd parts))
         else if fields_found schema s = length (ss_fields schema) \<and> length (ds_fields s) = length (ss_fields schema)
         then (ok, wseq (map snd parts @ [write4u 0]))
         else (ok, wseq (map snd parts @ [write_carbon_array (write_named_dyn py_text) extras])))"
  apply pat_completeness
  by (simp_all only: sum.inject sum.distinct prod.inject option.inject option.distinct HOL.simp_thms)

text \<open>Every call is on a smaller value, or on a smaller schema when a field is missing.\<close>

fun data_weight :: "vm_data \<Rightarrow> nat"
  and var_weight :: "dyn_var \<Rightarrow> nat"
  and named_weight :: "named_var \<Rightarrow> nat"
  and struct_weight :: "dyn_struct \<Rightarrow> nat" where
  "data_weight (DList xs) = Suc (sum_list (map data_weight xs))"
| "data_weight (DDict kvs) = Suc (sum_list (map (\<lambda>kv. data_weight (fst kv)) kvs))"
| "data_weight (DVar v) = Suc (var_weight v)"
| "data_weight (DNamed n) = Suc (named_weight n)"
| "data_weight (DStruct s) = Suc (struct_weight s)"
| "data_weight (DStructArray sc ss) = Suc (size sc + sum_list (map struct_weight ss))"
| "data_weight _ = 0"
| "var_weight (VMDynamicVariable ty x) = Suc (data_weight x)"
| "named_weight (VMNamedDynamicVariable n v) = Suc (var_weight v)"
| "struct_weight (VMDynamicStruct fs) = Suc (sum_list (map named_weight fs))"

lemma as_weight:
  "as_var x = Some v \<Longrightarrow> var_weight v < data_weight x"
  "as_named x = Some n \<Longrightarrow> named_weight n < data_weight x"
  "as_struct x = Some s \<Longrightarrow> struct_weight s < data_weight x"
  "as_struct_array x = Some (sc, ss) \<Longrightarrow> size sc + sum_list (map struct_weight ss) < data_weight x"
  by (cases x; simp)+

lemma dv_weight: "data_weight (dv_data v) < var_weight v"
  by (cases v) simp

lemma nv_weight: "var_weight (nv_value n) < named_weight n"
  by (cases n) simp

lemma in_weight: "x \<in> set xs \<Longrightarrow> f x \<le> sum_list (map (f :: 'a \<Rightarrow> nat) xs)"
  by (induction xs) auto

lemma ds_weight: "n \<in> set (ds_fields s) \<Longrightarrow> named_weight n < struct_weight s"
  by (cases s) (auto dest: in_weight [of _ _ named_weight])

lemma py_list_weight: "py_list (py_or x (DList [])) = Inr xs \<Longrightarrow> y \<in> set xs \<Longrightarrow> data_weight y \<le> data_weight x"
proof (cases "py_true x")
  case True
  assume l: "py_list (py_or x (DList [])) = Inr xs" "y \<in> set xs"
  show ?thesis
  proof (cases x)
    case (DDict kvs)
    with True l have "y \<in> fst ` set kvs" by (auto simp: py_list_def py_or_def)
    then show ?thesis using in_weight [of _ kvs "\<lambda>kv. data_weight (fst kv)"] by (fastforce simp: DDict)
  next
    case (DList ys)
    with True l have "y \<in> set ys" by (simp add: py_list_def py_or_def)
    then show ?thesis using in_weight [of y ys data_weight] by (simp add: DList)
  qed (use True l in \<open>auto simp: py_list_def py_or_def\<close>)
qed (auto simp: py_list_def py_or_def)

lemma schema_field_weight:
  "f \<in> set (ss_fields s) \<Longrightarrow> (case vs_struct (ns_schema f) of None \<Rightarrow> 0 | Some t \<Rightarrow> size t) + 4 \<le> size s"
proof (cases s)
  case (VMStructSchema flds flags)
  assume "f \<in> set (ss_fields s)"
  then have "f \<in> set flds" by (simp add: VMStructSchema)
  then have "size f < size_list size flds" by (induction flds) auto
  moreover have "(case vs_struct (ns_schema f) of None \<Rightarrow> 0 | Some t \<Rightarrow> size t) + 2 \<le> size f"
    by (cases f; cases "ns_schema f") (auto split: option.splits)
  ultimately show ?thesis by (simp add: VMStructSchema)
qed

lemma default_weight: "var_weight (VMDynamicVariable ty (default_vm_value ty)) \<le> 4"
  by (simp add: default_vm_value_def empty_schema_def)

lemma struct_get_weight: "struct_get s name = Some v \<Longrightarrow> var_weight v < struct_weight s"
  by (auto simp: struct_get_def find_Some_iff) (metis ds_weight nv_weight nth_mem less_trans)

definition schema_weight :: "struct_schema option \<Rightarrow> nat" where
  "schema_weight s = (case s of None \<Rightarrow> 0 | Some s \<Rightarrow> size s)"

definition item_weight :: "vm_data \<Rightarrow> nat" where
  "item_weight x = (case as_var x of Some v \<Rightarrow> var_weight v | None \<Rightarrow>
     (case as_named x of Some n \<Rightarrow> named_weight n | None \<Rightarrow>
     (case as_struct x of Some s \<Rightarrow> struct_weight s | None \<Rightarrow> 0)))"


lemma item_weight_le: "item_weight y \<le> data_weight y"
  by (auto simp: item_weight_def less_imp_le dest: as_weight split: option.splits)

lemma var_weight_pos: "0 < var_weight v" "0 < struct_weight s"
  by (cases v; simp) (cases s; simp)

lemma as_default:
  "as_var (default_vm_value ty) = None"
  "as_struct (default_vm_value ty) = Some s \<Longrightarrow> s = VMDynamicStruct []"
  "as_struct_array (default_vm_value ty) = Some (sc, ss) \<Longrightarrow> sc = empty_schema \<and> ss = []"
  by (auto simp: default_vm_value_def split: if_splits)

lemma list_default: "py_list (py_or (default_vm_value ty) (DList [])) = Inr xs \<Longrightarrow> y \<in> set xs \<Longrightarrow> data_weight y = 0"
  by (auto simp: default_vm_value_def py_list_def py_or_def split: if_splits)

text \<open>The value \<^verbatim>\<open>write_static\<close> works on is no larger than the variable.\<close>

lemma static_value_weight:
  assumes "x = static_value ty v"
  shows "as_var x = Some w \<Longrightarrow> var_weight w < var_weight v"
    and "struct_weight (case as_struct x of Some s \<Rightarrow> s | None \<Rightarrow> VMDynamicStruct []) \<le> var_weight v"
    and "as_struct_array x = Some (sc, ss) \<Longrightarrow> s \<in> set ss \<Longrightarrow> size sc + struct_weight s < var_weight v"
    and "py_list (py_or x (DList [])) = Inr xs \<Longrightarrow> y \<in> set xs \<Longrightarrow> data_weight y < var_weight v"
proof -
  note d = dv_weight [of v]
  show "as_var x = Some w \<Longrightarrow> var_weight w < var_weight v"
    using as_weight(1) [of x w] d by (auto simp: assms static_value_def as_default split: if_splits)
  show "struct_weight (case as_struct x of Some s \<Rightarrow> s | None \<Rightarrow> VMDynamicStruct []) \<le> var_weight v"
    using as_weight(3) [of "dv_data v"] d var_weight_pos(1) [of v] as_default(2) [of ty]
    by (force simp: assms static_value_def Suc_le_eq split: option.splits)
  show "as_struct_array x = Some (sc, ss) \<Longrightarrow> s \<in> set ss \<Longrightarrow> size sc + struct_weight s < var_weight v"
    using as_weight(4) [of x sc ss] d in_weight [of s ss struct_weight]
    by (auto simp: assms static_value_def dest: as_default(3) split: if_splits)
  show "py_list (py_or x (DList [])) = Inr xs \<Longrightarrow> y \<in> set xs \<Longrightarrow> data_weight y < var_weight v"
    using py_list_weight [of x xs y] d var_weight_pos(1) [of v] list_default [of ty xs y]
    by (auto simp: assms static_value_def split: if_splits)
qed

lemma item_struct_weight:
  "data_weight x < var_weight v \<Longrightarrow>
   struct_weight (case as_struct x of Some s \<Rightarrow> s | None \<Rightarrow> VMDynamicStruct []) \<le> var_weight v"
  using as_weight(3) [of x] var_weight_pos(1) [of v] by (force simp: Suc_le_eq split: option.splits)

lemma field_value_weight: "var_weight (field_value s f) \<le> struct_weight s + 3"
  using struct_get_weight [of s "ns_name f"] default_weight [of "vs_type (ns_schema f)"] var_weight_pos(2) [of s]
  unfolding field_value_def by (force split: option.splits)

termination write_dyn_var
proof (relation "measure (\<lambda>a. case a of
      Inl b \<Rightarrow> (case b of
          Inl (py_text, v) \<Rightarrow> 10 * var_weight v + 4
        | Inr c \<Rightarrow> (case c of
            Inl (py_text, ty, schema, v) \<Rightarrow> 10 * (var_weight v + schema_weight schema) + 3
          | Inr (py_text, x) \<Rightarrow> 10 * item_weight x + 5))
    | Inr b \<Rightarrow> (case b of
          Inl (py_text, n) \<Rightarrow> 10 * named_weight n
        | Inr c \<Rightarrow> (case c of
            Inl (py_text, s) \<Rightarrow> 10 * struct_weight s + 1
          | Inr (py_text, schema, s) \<Rightarrow> 10 * (struct_weight s + schema_weight schema) + 2)))", goal_cases)
  case (3 py_text ty schema v x inner)
  then show ?case using static_value_weight(1) [of x ty v inner] by simp
next
  case (4 py_text ty schema v x)
  then show ?case using static_value_weight(2) [of x ty v] by simp
next
  case (5 py_text ty schema v x items y)
  then show ?case
    using static_value_weight(4) [of x ty v items y] item_weight_le [of y] by simp
next
  case (6 py_text ty schema v x items y)
  then show ?case
    using static_value_weight(4) [of x ty v items y] item_struct_weight [of y v] by simp
next
  case (7 py_text ty schema v x p sc ss s)
  then show ?case
    using static_value_weight(3) [of x ty v sc ss s] by (auto simp: schema_weight_def)
next
  case (8 py_text ty schema v x p sc ss used s)
  then show ?case
    using static_value_weight(3) [of x ty v sc ss s] by (auto simp: schema_weight_def)
next
  case (12 py_text n)
  then show ?case using nv_weight [of n] by simp
next
  case (15 py_text schema s f)
  then show ?case
    using schema_field_weight [of f schema] field_value_weight [of s f]
    by (simp add: schema_weight_def)
qed (auto simp: item_weight_def schema_weight_def nv_weight struct_sort_def split: option.splits
    dest: ds_weight)

declare write_static.simps [simp del] write_dyn_item.simps [simp del] write_with_schema.simps [simp del]
  write_dyn_struct.simps [simp del] write_named_dyn.simps [simp del] write_dyn_var.simps [simp del]

text \<open>The four branches of \<^verbatim>\<open>write_static\<close> that go on to other values, and the rest.\<close>

lemma write_static_cases:
  "write_static py_text VM_DYNAMIC schema v =
     (True, case as_var (static_value VM_DYNAMIC v) of
        Some inner \<Rightarrow> write_dyn_var py_text inner
      | None \<Rightarrow> wseq [write1 (vm_code VM_ARRAY_DYNAMIC), write4 0])"
  "write_static py_text VM_STRUCT schema v =
     write_with_schema py_text schema
       (case as_struct (static_value VM_STRUCT v) of Some s \<Rightarrow> s | None \<Rightarrow> VMDynamicStruct [])"
  "write_static py_text VM_ARRAY_DYNAMIC schema v =
     (True, w_bind (py_list (py_or (static_value VM_ARRAY_DYNAMIC v) (DList [])))
        (\<lambda>items. write_carbon_array (write_dyn_item py_text) items))"
  "ty \<notin> {VM_DYNAMIC, VM_STRUCT, VM_ARRAY_DYNAMIC, VM_ARRAY_STRUCT} \<Longrightarrow>
     write_static py_text ty schema v = (True, write_plain py_text ty (static_value ty v))"
  by (simp_all add: write_static.simps)

definition used_schema :: "struct_schema option \<Rightarrow> struct_schema \<Rightarrow> struct_schema option" where
  "used_schema schema array_schema = (case schema of
     Some used \<Rightarrow> Some used
   | None \<Rightarrow> if ss_fields array_schema \<noteq> [] then Some array_schema else None)"

lemma write_static_structs:
  "write_static py_text VM_ARRAY_STRUCT schema v =
     (True, case as_struct_array (static_value VM_ARRAY_STRUCT v) of
        Some (array_schema, structs) \<Rightarrow>
          wseq (write4 (int (length structs)) #
            (if schema = None then [write_struct_schema array_schema] else []) @
            map (\<lambda>s. snd (write_with_schema py_text (used_schema schema array_schema) s)) structs)
      | None \<Rightarrow> w_bind (py_list (py_or (static_value VM_ARRAY_STRUCT v) (DList []))) (\<lambda>items.
          wseq (write4 (int (length items)) #
            (if schema = None then [write_struct_schema empty_schema] else []) @
            map (\<lambda>item. snd (write_with_schema py_text schema
              (case as_struct item of Some s \<Rightarrow> s | None \<Rightarrow> VMDynamicStruct []))) items)))"
  by (subst write_static.simps) (auto simp: used_schema_def split: option.split)

text \<open>The wire form of a struct under a schema: the fields of the schema, then what follows them.\<close>

definition struct_extras :: "struct_schema \<Rightarrow> dyn_struct \<Rightarrow> named_var list" where
  "struct_extras schema s = filter (\<lambda>n. \<not> schema_has_field schema (nv_name n)) (ds_fields s)"

definition extras_tail :: "(vm_data \<Rightarrow> pystr) \<Rightarrow> struct_schema \<Rightarrow> dyn_struct \<Rightarrow> wop list" where
  "extras_tail py_text schema s =
     (if even (ss_flags schema) then []
      else if fields_found schema s = length (ss_fields schema) \<and> length (ds_fields s) = length (ss_fields schema)
      then [write4u 0]
      else [write_carbon_array (write_named_dyn py_text) (struct_extras schema s)])"

definition write_field :: "(vm_data \<Rightarrow> pystr) \<Rightarrow> dyn_struct \<Rightarrow> named_schema \<Rightarrow> bool \<times> wop" where
  "write_field py_text s f = write_static py_text (vs_type (ns_schema f)) (vs_struct (ns_schema f)) (field_value s f)"

lemma write_with_schema_some:
  "write_with_schema py_text (Some schema) s =
     (list_all (\<lambda>f. fst (write_field py_text s f)) (ss_fields schema),
      wseq (map (\<lambda>f. snd (write_field py_text s f)) (ss_fields schema) @ extras_tail py_text schema s))"
  by (simp add: write_with_schema.simps Let_def extras_tail_def struct_extras_def write_field_def list.pred_map comp_def)

section \<open>Readers\<close>

text \<open>The readers take a recursion allowance, as the schema readers do.\<close>

fun read_each :: "('a \<Rightarrow> 'b rop) \<Rightarrow> 'a list \<Rightarrow> 'b list rop" where
  "read_each f [] = rret []"
| "read_each f (x # xs) = rbind (f x) (\<lambda>y. rbind (read_each f xs) (\<lambda>ys. rret (y # ys)))"

text \<open>The branches of \<^verbatim>\<open>read_static\<close> that hold no further variables.\<close>

definition read_as :: "('a \<Rightarrow> vm_data) \<Rightarrow> 'a rop \<Rightarrow> vm_data rop" where
  "read_as f p = rbind p (\<lambda>x. rret (f x))"

definition read_plain :: "vm_type \<Rightarrow> vm_data rop" where
  "read_plain ty = (case ty of
     VM_BYTES \<Rightarrow> read_as DBytes read_byte_array
   | VM_INT8 \<Rightarrow> read_as (\<lambda>v. DInt (if v \<ge> 0x80 then v - 0x100 else v)) read1
   | VM_INT16 \<Rightarrow> read_as DInt read2
   | VM_INT32 \<Rightarrow> read_as DInt read4
   | VM_INT64 \<Rightarrow> read_as DInt read8
   | VM_INT256 \<Rightarrow> read_as DInt read_big_int
   | VM_BYTES16 \<Rightarrow> read_as DBytes16 read16
   | VM_BYTES32 \<Rightarrow> read_as DBytes32 read32
   | VM_BYTES64 \<Rightarrow> read_as DBytes64 read64
   | VM_STRING \<Rightarrow> read_as DStr read_string_z
   | VM_ARRAY_BYTES \<Rightarrow> read_as (\<lambda>xs. DList (map DBytes xs)) read_byte_arrays
   | VM_ARRAY_INT8 \<Rightarrow> read_as (\<lambda>xs. DList (map DInt xs)) (read_int_array 1 True)
   | VM_ARRAY_INT16 \<Rightarrow> read_as (\<lambda>xs. DList (map DInt xs)) (read_int_array 2 True)
   | VM_ARRAY_INT32 \<Rightarrow> read_as (\<lambda>xs. DList (map DInt xs)) (read_int_array 4 True)
   | VM_ARRAY_INT64 \<Rightarrow> read_as (\<lambda>xs. DList (map DInt xs)) (read_int_array 8 True)
   | VM_ARRAY_INT256 \<Rightarrow> read_as (\<lambda>xs. DList (map DInt xs)) read_big_int_array
   | VM_ARRAY_BYTES16 \<Rightarrow> read_as (\<lambda>xs. DList (map DBytes16 xs)) (read_carbon_array read16)
   | VM_ARRAY_BYTES32 \<Rightarrow> read_as (\<lambda>xs. DList (map DBytes32 xs)) (read_carbon_array read32)
   | VM_ARRAY_BYTES64 \<Rightarrow> read_as (\<lambda>xs. DList (map DBytes64 xs)) (read_carbon_array read64)
   | VM_ARRAY_STRING \<Rightarrow> read_as (\<lambda>xs. DList (map DStr xs)) read_string_z_array
   | _ \<Rightarrow> rfail SerializationError)"

fun read_dyn_var :: "nat \<Rightarrow> dyn_var rop"
  and read_static :: "nat \<Rightarrow> vm_type \<Rightarrow> struct_schema option \<Rightarrow> vm_data rop"
  and read_named_dyn :: "nat \<Rightarrow> named_var rop"
  and read_dyn_struct :: "nat \<Rightarrow> dyn_struct rop"
  and read_with_schema :: "nat \<Rightarrow> struct_schema option \<Rightarrow> dyn_struct rop" where
  "read_dyn_var 0 = rfail RecursionError"
| "read_dyn_var (Suc depth) = rbind read_vm_type (\<lambda>ty.
     rbind (read_static depth ty None) (\<lambda>x.
     rret (VMDynamicVariable ty x)))"
| "read_static 0 ty schema = rfail RecursionError"
| "read_static (Suc depth) ty schema =
     (if ty = VM_DYNAMIC then rbind (read_dyn_var depth) (\<lambda>v. rret (DVar v))
      else if ty = VM_STRUCT then rbind (read_with_schema depth schema) (\<lambda>s. rret (DStruct s))
      else if ty = VM_ARRAY_DYNAMIC then
        rbind (read_carbon_array (read_dyn_var depth)) (\<lambda>vs. rret (DList (map DVar vs)))
      else if ty = VM_ARRAY_STRUCT then
        rbind read_length (\<lambda>count.
        rbind (case schema of Some s \<Rightarrow> rret s | None \<Rightarrow> read_struct_schema depth) (\<lambda>array_schema.
        rbind (read_n (nat count) (read_with_schema depth
          (if schema = None \<and> ss_fields array_schema = [] then None else Some array_schema))) (\<lambda>structs.
        rret (DStructArray array_schema structs))))
      else read_plain ty)"
| "read_named_dyn 0 = rfail RecursionError"
| "read_named_dyn (Suc depth) = rbind read_small_string (\<lambda>name.
     rbind (read_dyn_var depth) (\<lambda>value.
     rret (VMNamedDynamicVariable name value)))"
| "read_dyn_struct 0 = rfail RecursionError"
| "read_dyn_struct (Suc depth) = rbind (read_carbon_array (read_named_dyn depth)) (\<lambda>flds.
     rret (struct_sort (VMDynamicStruct flds)))"
| "read_with_schema 0 schema = rfail RecursionError"
| "read_with_schema (Suc depth) None = read_dyn_struct depth"
| "read_with_schema (Suc depth) (Some schema) =
     rbind (read_each (\<lambda>f.
       rbind (read_static depth (vs_type (ns_schema f)) (vs_struct (ns_schema f))) (\<lambda>x.
       rret (VMNamedDynamicVariable (ns_name f) (VMDynamicVariable (vs_type (ns_schema f)) x)))) (ss_fields schema)) (\<lambda>flds.
     rbind (if odd (ss_flags schema) then read_carbon_array (read_named_dyn depth) else rret []) (\<lambda>extras.
     rret (struct_sort (VMDynamicStruct (flds @ extras)))))"

text \<open>\<^verbatim>\<open>_write_dynamic_struct_with_schema\<close>\<close>

definition write_dynamic_struct_with_schema :: "(vm_data \<Rightarrow> pystr) \<Rightarrow> dyn_struct \<Rightarrow> struct_schema \<Rightarrow> bytes result" where
  "write_dynamic_struct_with_schema py_text structure schema =
     (let (ok, wr) = write_with_schema py_text (Some schema) structure in
      rthen (serialize wr) (\<lambda>bs. if ok then Inr bs else Inl BuilderError))"

section \<open>Readers are bounds-checked\<close>

lemma read_each_simps [wire_safe]: "(\<And>x. x \<in> set xs \<Longrightarrow> safe (f x)) \<Longrightarrow> safe (read_each f xs)"
  by (induction xs) (auto intro!: wire_safe)

lemma raises_each [wire_raises]: "(\<And>x. x \<in> set xs \<Longrightarrow> raises (f x) E) \<Longrightarrow> raises (read_each f xs) E"
  by (induction xs) (auto intro!: wire_raises)

lemma safe_as [wire_safe]: "safe p \<Longrightarrow> safe (read_as f p)"
  unfolding read_as_def by (auto intro!: wire_safe)

lemma raises_as [wire_raises]: "raises p E \<Longrightarrow> raises (read_as f p) E"
  unfolding read_as_def by (auto intro!: wire_raises)

lemma safe_plain [wire_safe]: "safe (read_plain ty)"
  unfolding read_plain_def by (cases ty) (auto intro!: wire_safe)

lemma raises_plain [wire_raises]: "raises (read_plain ty) carbon_errors"
  unfolding read_plain_def by (cases ty) (auto intro!: wire_raises)

lemma safe_dyn:
  "safe (read_dyn_var d)" "safe (read_static d ty schema)" "safe (read_named_dyn d)" "safe (read_dyn_struct d)"
  "safe (read_with_schema d schema)"
proof -
  have "safe (read_dyn_var d) \<and> (\<forall>ty schema. safe (read_static d ty schema)) \<and> safe (read_named_dyn d) \<and>
    safe (read_dyn_struct d) \<and> (\<forall>schema. safe (read_with_schema d schema))"
  proof (induction d)
    case (Suc d)
    have "safe (read_with_schema (Suc d) schema)" for schema
      using Suc by (cases schema) (auto intro!: wire_safe)
    moreover have "safe (read_static (Suc d) ty schema)" for ty schema
      using Suc by (auto intro!: wire_safe split: option.splits)
    ultimately show ?case using Suc by (auto intro!: wire_safe)
  qed (auto intro!: wire_safe)
  then show "safe (read_dyn_var d)" "safe (read_static d ty schema)" "safe (read_named_dyn d)"
    "safe (read_dyn_struct d)" "safe (read_with_schema d schema)" by auto
qed

lemma raises_dyn:
  "raises (read_dyn_var d) carbon_errors" "raises (read_static d ty schema) carbon_errors"
  "raises (read_named_dyn d) carbon_errors" "raises (read_dyn_struct d) carbon_errors"
  "raises (read_with_schema d schema) carbon_errors"
proof -
  have "raises (read_dyn_var d) carbon_errors \<and> (\<forall>ty schema. raises (read_static d ty schema) carbon_errors) \<and>
    raises (read_named_dyn d) carbon_errors \<and> raises (read_dyn_struct d) carbon_errors \<and>
    (\<forall>schema. raises (read_with_schema d schema) carbon_errors)"
  proof (induction d)
    case (Suc d)
    have "raises (read_with_schema (Suc d) schema) carbon_errors" for schema
      using Suc by (cases schema) (auto intro!: wire_raises)
    moreover have "raises (read_static (Suc d) ty schema) carbon_errors" for ty schema
      using Suc by (auto intro!: wire_raises split: option.splits)
    ultimately show ?case using Suc by (auto intro!: wire_raises)
  qed (auto intro!: wire_raises)
  then show "raises (read_dyn_var d) carbon_errors" "raises (read_static d ty schema) carbon_errors"
    "raises (read_named_dyn d) carbon_errors" "raises (read_dyn_struct d) carbon_errors"
    "raises (read_with_schema d schema) carbon_errors" by auto
qed

section \<open>The flag of the writers\<close>

text \<open>Every path returns \<^verbatim>\<open>True\<close>: the writers never report a mismatch.\<close>

lemma appends_elements: "(\<And>x. x \<in> set xs \<Longrightarrow> appends (wr x)) \<Longrightarrow> appends (write_carbon_array wr xs)"
  unfolding write_carbon_array_def by (simp add: list_all_iff)

lemma appends_int_element: "appends (write_int_element width s n)"
  by (simp add: write_int_element_def)

lemma appends_plain: "appends (write_plain py_text ty x)"
proof -
  have "appends (write_scalar py_text ty x)" if "\<not> odd (vm_code ty)"
    using that by (cases ty; simp add: write_scalar_def split: vm_data.split)
  moreover have "appends (write_array_values ty xs)" if "odd (vm_code ty)" for xs
    using that by (cases ty; simp add: write_array_values_def write_int_values_def write_fixed_values_def
        write_big_int_array_def appends_int_element)
  ultimately show ?thesis by (simp add: write_plain_def)
qed

lemma dyn_appends:
  "appends (write_dyn_var py_text v)"
  "appends (snd (write_static py_text ty schema v)) \<and> fst (write_static py_text ty schema v)"
  "appends (write_dyn_item py_text x)" "appends (write_named_dyn py_text n)" "appends (write_dyn_struct py_text s)"
  "appends (snd (write_with_schema py_text schema s)) \<and> fst (write_with_schema py_text schema s)"
proof (induction py_text v and py_text ty schema v and py_text x and py_text n and py_text s and py_text schema s
    rule: write_dyn_var_write_static_write_dyn_item_write_named_dyn_write_dyn_struct_write_with_schema.induct)
  case (1 py_text v)
  then show ?case by (simp add: write_dyn_var.simps)
next
  case (2 py_text ty schema v)
  consider (dynamic) "ty = VM_DYNAMIC" | (struct) "ty = VM_STRUCT" | (array) "ty = VM_ARRAY_DYNAMIC"
    | (structs) "ty = VM_ARRAY_STRUCT" | (plain) "ty \<notin> {VM_DYNAMIC, VM_STRUCT, VM_ARRAY_DYNAMIC, VM_ARRAY_STRUCT}"
    by blast
  then show ?case
  proof cases
    case structs
    have items: "appends (snd (write_with_schema py_text schema
        (case as_struct y of Some s \<Rightarrow> s | None \<Rightarrow> VMDynamicStruct [])))"
      if "as_struct_array (static_value ty v) = None" "py_list (py_or (static_value ty v) (DList [])) = Inr ys"
        "y \<in> set ys" for y ys
      using 2(4) [OF refl] structs that by simp
    have array: "appends (snd (write_with_schema py_text
        (used_schema schema sc) s))"
      if "as_struct_array (static_value ty v) = Some (sc, ss)" "s \<in> set ss" for sc ss s
      using 2(5) [OF refl] 2(6) [OF refl] structs that by (cases schema) (simp_all add: used_schema_def)
    show ?thesis using items array unfolding structs write_static_structs
      by (cases schema) (auto simp: list_all_iff schema_appends split: option.split)
  next
    case dynamic
    with 2(1) [OF refl] show ?thesis by (simp add: write_static_cases split: option.split)
  next
    case struct
    with 2(2) [OF refl] show ?thesis by (simp add: write_static_cases)
  next
    case array
    with 2(3) [OF refl] show ?thesis by (simp add: write_static_cases appends_elements)
  next
    case plain
    then show ?thesis by (simp add: write_static_cases appends_plain)
  qed
next
  case (3 py_text x)
  then show ?case by (auto simp: write_dyn_item.simps split: option.splits)
next
  case (4 py_text n)
  then show ?case by (simp add: write_named_dyn.simps)
next
  case (5 py_text s)
  then show ?case by (auto simp: write_dyn_struct.simps intro: appends_elements)
next
  case (6 py_text s)
  then show ?case by (simp add: write_with_schema.simps)
next
  case (7 py_text schema s)
  have f: "appends (snd (write_field py_text s f)) \<and> fst (write_field py_text s f)" if "f \<in> set (ss_fields schema)" for f
    using 7(1) that by (simp add: write_field_def)
  have "list_all appends (extras_tail py_text schema s)"
  proof (cases "odd (ss_flags schema) \<and>
      \<not> (fields_found schema s = length (ss_fields schema) \<and> length (ds_fields s) = length (ss_fields schema))")
    case True
    then have "appends (write_named_dyn py_text n)" if "n \<in> set (struct_extras schema s)" for n
      using 7(2) [OF refl refl refl] that by (auto simp: struct_extras_def)
    with True show ?thesis by (auto simp: extras_tail_def appends_elements)
  qed (auto simp: extras_tail_def)
  with f show ?case
    unfolding write_with_schema_some by (auto simp: list_all_iff intro!: appends_wseq)
qed

section \<open>Values the readers return\<close>

text \<open>
  \<open>plain_ok ty x\<close>: \<open>x\<close> has the class of value \<^verbatim>\<open>read_static\<close> stores for a type without inner variables,
  and is not a number or byte string of another width.
\<close>

fun is_DBytes :: "vm_data \<Rightarrow> bool" where
  "is_DBytes (DBytes bs) = True"
| "is_DBytes _ = False"

fun is_DStr :: "vm_data \<Rightarrow> bool" where
  "is_DStr (DStr s) = True"
| "is_DStr _ = False"

fun int_in :: "(int \<Rightarrow> bool) \<Rightarrow> vm_data \<Rightarrow> bool" where
  "int_in P (DInt n) = P n"
| "int_in P _ = False"

fun is_fixed :: "nat \<Rightarrow> vm_data \<Rightarrow> bool" where
  "is_fixed n (DBytes16 bs) = (n = 16 \<and> length bs = 16)"
| "is_fixed n (DBytes32 bs) = (n = 32 \<and> length bs = 32)"
| "is_fixed n (DBytes64 bs) = (n = 64 \<and> length bs = 64)"
| "is_fixed n _ = False"

definition all_items :: "(vm_data \<Rightarrow> bool) \<Rightarrow> vm_data \<Rightarrow> bool" where
  "all_items P x = (case x of DList xs \<Rightarrow> list_all P xs | _ \<Rightarrow> False)"

definition int8 :: "int \<Rightarrow> bool" where
  "int8 n \<longleftrightarrow> - 128 \<le> n \<and> n < 128"

definition plain_ok :: "vm_type \<Rightarrow> vm_data \<Rightarrow> bool" where
  "plain_ok ty x = (case ty of
     VM_BYTES \<Rightarrow> is_DBytes x
   | VM_INT8 \<Rightarrow> int_in int8 x
   | VM_INT16 \<Rightarrow> int_in (\<lambda>_. True) x
   | VM_INT32 \<Rightarrow> int_in (\<lambda>_. True) x
   | VM_INT64 \<Rightarrow> int_in (\<lambda>_. True) x
   | VM_INT256 \<Rightarrow> int_in int256 x
   | VM_BYTES16 \<Rightarrow> is_fixed 16 x
   | VM_BYTES32 \<Rightarrow> is_fixed 32 x
   | VM_BYTES64 \<Rightarrow> is_fixed 64 x
   | VM_STRING \<Rightarrow> is_DStr x
   | VM_ARRAY_BYTES \<Rightarrow> all_items is_DBytes x
   | VM_ARRAY_INT8 \<Rightarrow> all_items (int_in int8) x
   | VM_ARRAY_INT16 \<Rightarrow> all_items (int_in (\<lambda>_. True)) x
   | VM_ARRAY_INT32 \<Rightarrow> all_items (int_in (\<lambda>_. True)) x
   | VM_ARRAY_INT64 \<Rightarrow> all_items (int_in (\<lambda>_. True)) x
   | VM_ARRAY_INT256 \<Rightarrow> all_items (int_in int256) x
   | VM_ARRAY_BYTES16 \<Rightarrow> all_items (is_fixed 16) x
   | VM_ARRAY_BYTES32 \<Rightarrow> all_items (is_fixed 32) x
   | VM_ARRAY_BYTES64 \<Rightarrow> all_items (is_fixed 64) x
   | VM_ARRAY_STRING \<Rightarrow> all_items is_DStr x
   | _ \<Rightarrow> False)"

lemma item_shapes:
  "is_DBytes x \<longleftrightarrow> (\<exists>bs. x = DBytes bs)"
  "is_DStr x \<longleftrightarrow> (\<exists>s. x = DStr s)"
  "int_in P x \<longleftrightarrow> (\<exists>n. x = DInt n \<and> P n)"
  "is_fixed 16 x \<longleftrightarrow> (\<exists>bs. x = DBytes16 bs \<and> length bs = 16)"
  "is_fixed 32 x \<longleftrightarrow> (\<exists>bs. x = DBytes32 bs \<and> length bs = 32)"
  "is_fixed 64 x \<longleftrightarrow> (\<exists>bs. x = DBytes64 bs \<and> length bs = 64)"
  by (cases x; simp)+

lemma items_map:
  assumes "\<And>y. Q y \<longleftrightarrow> (\<exists>z. y = C z \<and> P z)"
  shows "list_all Q xs \<longleftrightarrow> (\<exists>zs. xs = map C zs \<and> list_all P zs)"
proof (induction xs)
  case (Cons x xs)
  have "list_all Q (x # xs) \<longleftrightarrow> (\<exists>z. x = C z \<and> P z) \<and> (\<exists>zs. xs = map C zs \<and> list_all P zs)"
    unfolding list.pred_inject(2) assms [of x] Cons.IH ..
  also have "\<dots> \<longleftrightarrow> (\<exists>zs. x # xs = map C zs \<and> list_all P zs)" (is "?l \<longleftrightarrow> ?r")
  proof
    assume ?l
    then obtain z zs where "x # xs = map C (z # zs)" "list_all P (z # zs)" by auto
    then show ?r by (intro exI [of _ "z # zs"] conjI)
  qed (auto simp: Cons_eq_map_conv)
  finally show ?case .
qed simp

lemma all_items_map:
  "(\<And>y. Q y \<longleftrightarrow> (\<exists>z. y = C z \<and> P z)) \<Longrightarrow> all_items Q x \<longleftrightarrow> (\<exists>zs. x = DList (map C zs) \<and> list_all P zs)"
  using items_map [of Q C P] by (cases x) (auto simp: all_items_def)

lemma item_list_shapes:
  "all_items is_DBytes x \<longleftrightarrow> (\<exists>zs. x = DList (map DBytes zs))"
  "all_items is_DStr x \<longleftrightarrow> (\<exists>zs. x = DList (map DStr zs))"
  "all_items (int_in P) x \<longleftrightarrow> (\<exists>zs. x = DList (map DInt zs) \<and> list_all P zs)"
  "all_items (is_fixed 16) x \<longleftrightarrow> (\<exists>zs. x = DList (map DBytes16 zs) \<and> list_all (\<lambda>bs. length bs = 16) zs)"
  "all_items (is_fixed 32) x \<longleftrightarrow> (\<exists>zs. x = DList (map DBytes32 zs) \<and> list_all (\<lambda>bs. length bs = 32) zs)"
  "all_items (is_fixed 64) x \<longleftrightarrow> (\<exists>zs. x = DList (map DBytes64 zs) \<and> list_all (\<lambda>bs. length bs = 64) zs)"
  using all_items_map [of is_DBytes DBytes "\<lambda>_. True" x] all_items_map [of is_DStr DStr "\<lambda>_. True" x]
    all_items_map [of "int_in P" DInt P x] all_items_map [of "is_fixed 16" DBytes16 "\<lambda>bs. length bs = 16" x]
    all_items_map [of "is_fixed 32" DBytes32 "\<lambda>bs. length bs = 32" x]
    all_items_map [of "is_fixed 64" DBytes64 "\<lambda>bs. length bs = 64" x]
  by (simp_all add: item_shapes list_all_iff)

lemma write_carbon_array_map: "write_carbon_array wr (map C ys) = write_carbon_array (\<lambda>y. wr (C y)) ys"
  by (simp add: write_carbon_array_def comp_def)

lemma py_list_or_list [simp]: "py_list (py_or (DList xs) (DList [])) = Inr xs"
  by (simp add: py_list_def py_or_def)

lemma w_bind_Inr [simp]: "w_bind (Inr x) f = f x"
  by (simp add: w_bind_def)

lemma rmap_map: "(\<And>y. f (C y) = Inr (g y)) \<Longrightarrow> rmap f (map C ys) = Inr (map g ys)"
  by (induction ys) auto

lemma rt_read_as: "rt f p y \<Longrightarrow> x = g y \<Longrightarrow> rt f (read_as g p) x"
  unfolding read_as_def by (rule rt_map)


text \<open>What the writer does with values of the class the reader stores.\<close>

lemma conversions [simp]:
  "py_bytes (DBytes bs) = Inr bs" "py_int (DInt n) = Inr n" "string_z_argument (DStr s) = Inr s"
  by (simp_all add: py_bytes_def py_int_def string_z_argument_def)

lemma fixed_items: "length bs = n \<Longrightarrow> 0 < n \<Longrightarrow>
   py_fixed n (DBytes16 bs) = Inr bs \<and> py_fixed n (DBytes32 bs) = Inr bs \<and> py_fixed n (DBytes64 bs) = Inr bs"
  by (simp add: py_fixed_def py_bytes_def FixedBytes_length)

lemma rmap_fixed:
  "list_all (\<lambda>bs. length bs = 16) bss \<Longrightarrow> rmap (py_fixed 16) (map DBytes16 bss) = Inr bss"
  "list_all (\<lambda>bs. length bs = 32) bss \<Longrightarrow> rmap (py_fixed 32) (map DBytes32 bss) = Inr bss"
  "list_all (\<lambda>bs. length bs = 64) bss \<Longrightarrow> rmap (py_fixed 64) (map DBytes64 bss) = Inr bss"
  by (induction bss) (auto simp: fixed_items)

lemma write_scalar_typed:
  "write_plain py_text VM_BYTES (DBytes bs) = write_byte_array bs"
  "write_plain py_text VM_INT8 (DInt n) = write1 (n AND 0xFF)"
  "write_plain py_text VM_INT16 (DInt n) = write2 n"
  "write_plain py_text VM_INT32 (DInt n) = write4 n"
  "write_plain py_text VM_INT64 (DInt n) = write8 n"
  "write_plain py_text VM_INT256 (DInt n) = write_big_int n"
  "write_plain py_text VM_BYTES16 (DBytes16 bs) = write16 bs"
  "write_plain py_text VM_BYTES32 (DBytes32 bs) = write32 bs"
  "write_plain py_text VM_BYTES64 (DBytes64 bs) = write64 bs"
  "write_plain py_text VM_STRING (DStr s) = write_string_z s"
  by (auto simp: write_plain_def write_scalar_def py_or_def py_bytes_def py_int_def py_str_or_empty_def)

lemma write_plain_array:
  "odd (vm_code ty) \<Longrightarrow> write_plain py_text ty (DList xs) = write_array_values ty xs"
  by (simp add: write_plain_def)

lemma odd_codes: "odd (vm_code ty) \<longleftrightarrow> ty \<in> {VM_ARRAY_DYNAMIC, VM_ARRAY_BYTES, VM_ARRAY_STRUCT, VM_ARRAY_INT8,
    VM_ARRAY_INT16, VM_ARRAY_INT32, VM_ARRAY_INT64, VM_ARRAY_INT256, VM_ARRAY_BYTES16, VM_ARRAY_BYTES32,
    VM_ARRAY_BYTES64, VM_ARRAY_STRING}"
  by (cases ty) simp_all

lemma write_array_typed:
  "write_plain py_text VM_ARRAY_BYTES (DList (map DBytes bss)) = write_byte_arrays bss"
  "write_plain py_text VM_ARRAY_INT8 (DList (map DInt ns)) = write_int_array ns 1 True"
  "write_plain py_text VM_ARRAY_INT16 (DList (map DInt ns)) = write_int_array ns 2 True"
  "write_plain py_text VM_ARRAY_INT32 (DList (map DInt ns)) = write_int_array ns 4 True"
  "write_plain py_text VM_ARRAY_INT64 (DList (map DInt ns)) = write_int_array ns 8 True"
  "write_plain py_text VM_ARRAY_INT256 (DList (map DInt ns)) = write_big_int_array ns"
  "write_plain py_text VM_ARRAY_STRING (DList (map DStr ss)) = write_string_z_array ss"
  by (simp_all only: write_plain_array odd_codes insert_iff simp_thms write_array_values_def vm_type.case
      write_int_values_def write_carbon_array_map write_byte_arrays_def write_int_array_def write_string_z_array_def
      conversions py_index.simps rmap_map [where g = "\<lambda>n. n"] w_bind_Inr list.map_ident)

lemma write_fixed_typed:
  "list_all (\<lambda>bs. length bs = 16) bss \<Longrightarrow>
     write_plain py_text VM_ARRAY_BYTES16 (DList (map DBytes16 bss)) = write_carbon_array write16 bss"
  "list_all (\<lambda>bs. length bs = 32) bss \<Longrightarrow>
     write_plain py_text VM_ARRAY_BYTES32 (DList (map DBytes32 bss)) = write_carbon_array write32 bss"
  "list_all (\<lambda>bs. length bs = 64) bss \<Longrightarrow>
     write_plain py_text VM_ARRAY_BYTES64 (DList (map DBytes64 bss)) = write_carbon_array write64 bss"
  by (simp_all only: write_plain_array odd_codes insert_iff simp_thms write_array_values_def vm_type.case
      write_fixed_values_def rmap_fixed w_bind_Inr)

lemma int8_mod: "int8 n \<Longrightarrow> (if 128 \<le> n mod 256 then n mod 256 - 256 else n mod 256) = n"
proof -
  assume n: "int8 n"
  show ?thesis
  proof (cases "n < 0")
    case True
    then have "n mod 256 = n + 256"
      using n mod_add_self2 [of n 256] mod_pos_pos_trivial [of "n + 256" 256] by (simp add: int8_def)
    with True n show ?thesis by (simp add: int8_def)
  next
    case False
    then have "n mod 256 = n" using n by (simp add: int8_def)
    with False n show ?thesis by (simp add: int8_def)
  qed
qed

lemma map_int_element [simp]:
  "map (int_element_value 2 True) ns = ns" "map (int_element_value 4 True) ns = ns"
  "map (int_element_value 8 True) ns = ns"
  "list_all int8 ns \<Longrightarrow> map (int_element_value 1 True) ns = ns"
  using int8_mod by (auto simp: int_element_value_def list_all_iff intro!: map_idI)

lemma rt_int_arrays:
  "list_all int8 ns \<Longrightarrow> rt (write_int_array ns 1 True) (read_int_array 1 True) ns"
  "rt (write_int_array ns 2 True) (read_int_array 2 True) ns"
  "rt (write_int_array ns 4 True) (read_int_array 4 True) ns"
  "rt (write_int_array ns 8 True) (read_int_array 8 True) ns"
  using rt_int_array [of ns 1 True] rt_int_array [of ns 2 True] rt_int_array [of ns 4 True]
    rt_int_array [of ns 8 True] by simp_all

lemma map_wrap256: "list_all int256 ns \<Longrightarrow> map wrap256 ns = ns"
  by (induction ns) (simp_all add: wrap256_id)

lemma rt_wide_arrays:
  "list_all int256 ns \<Longrightarrow> rt (write_big_int_array ns) read_big_int_array ns"
  "list_all (\<lambda>bs. length bs = 16) bss \<Longrightarrow> rt (write_carbon_array write16 bss) (read_carbon_array read16) bss"
  "list_all (\<lambda>bs. length bs = 32) bss \<Longrightarrow> rt (write_carbon_array write32 bss) (read_carbon_array read32) bss"
  "list_all (\<lambda>bs. length bs = 64) bss \<Longrightarrow> rt (write_carbon_array write64 bss) (read_carbon_array read64) bss"
  using rt_big_int_array [of ns]
  by (auto simp: map_wrap256 list_all_iff intro!: rt_carbon_array rt_ints)

text \<open>The round trip of the values that hold no further variables.\<close>

lemma rt_int8: "int8 n \<Longrightarrow> rt (write1 (n AND 0xFF)) (read_plain VM_INT8) (DInt n)"
proof -
  assume n: "int8 n"
  have "n AND 0xFF = n mod 256"
    using take_bit_eq_mask [of 8 n] by (simp add: mask_eq_exp_minus_1 take_bit_eq_mod)
  moreover have "rt (write1 (n mod 256)) (read_as (\<lambda>v. DInt (if v \<ge> 0x80 then v - 0x100 else v)) read1) (DInt n)"
    by (rule rt_read_as [OF rt_write1]) (use int8_mod [OF n] in simp)
  ultimately show ?thesis by (simp add: read_plain_def)
qed

lemma rt_plain: "plain_ok ty x \<Longrightarrow> rt (write_plain py_text ty x) (read_plain ty) x"
proof -
  assume ok: "plain_ok ty x"
  show ?thesis
  proof (cases ty)
    case VM_INT8
    with ok show ?thesis by (auto simp: plain_ok_def item_shapes write_scalar_typed rt_int8)
  qed (use ok in \<open>simp_all only: plain_ok_def vm_type.case item_shapes item_list_shapes\<close>,
      auto simp: write_scalar_typed write_array_typed write_fixed_typed read_plain_def
        intro!: rt_read_as rt_int_arrays rt_wide_arrays rt_ints rt_byte_array rt_string_z rt_byte_arrays rt_string_z_array)
qed

text \<open>
  The values that come back unchanged, within a recursion allowance: classes as the reader stores them, the
  fields of a struct sorted by name, and under a schema exactly one field of the right type for every name of
  the schema, with further fields only where the schema allows them. In an array of structs written under a
  schema, each struct must take at least one byte (\<open>writes_bytes\<close>), because the reader refuses a count above
  the number of bytes left.
\<close>

definition writes_bytes :: "struct_schema \<Rightarrow> bool" where
  "writes_bytes schema \<longleftrightarrow> odd (ss_flags schema) \<or> list_ex (\<lambda>f. vs_type (ns_schema f) \<noteq> VM_STRUCT) (ss_fields schema)"

definition struct_sorted :: "dyn_struct \<Rightarrow> bool" where
  "struct_sorted s = sorted (map nv_name (ds_fields s))"

definition the_field :: "dyn_struct \<Rightarrow> pystr \<Rightarrow> named_var option" where
  "the_field s name = (case filter (\<lambda>n. nv_name n = name) (ds_fields s) of [n] \<Rightarrow> Some n | _ \<Rightarrow> None)"

fun var_ok :: "nat \<Rightarrow> dyn_var \<Rightarrow> bool"
  and static_ok :: "nat \<Rightarrow> vm_type \<Rightarrow> struct_schema option \<Rightarrow> vm_data \<Rightarrow> bool"
  and named_ok :: "nat \<Rightarrow> named_var \<Rightarrow> bool"
  and struct_ok :: "nat \<Rightarrow> dyn_struct \<Rightarrow> bool"
  and conforms :: "nat \<Rightarrow> struct_schema option \<Rightarrow> dyn_struct \<Rightarrow> bool" where
  "var_ok 0 v = False"
| "var_ok (Suc depth) v = static_ok depth (dv_type v) None (dv_data v)"
| "static_ok 0 ty schema x = False"
| "static_ok (Suc depth) ty schema x =
     (if ty = VM_DYNAMIC then (case as_var x of Some v \<Rightarrow> var_ok depth v | None \<Rightarrow> False)
      else if ty = VM_STRUCT then (case as_struct x of Some s \<Rightarrow> conforms depth schema s | None \<Rightarrow> False)
      else if ty = VM_ARRAY_DYNAMIC then
        all_items (\<lambda>y. case as_var y of Some v \<Rightarrow> var_ok depth v | None \<Rightarrow> False) x
      else if ty = VM_ARRAY_STRUCT then (case as_struct_array x of
          Some (array_schema, structs) \<Rightarrow>
            (case schema of Some s \<Rightarrow> array_schema = s | None \<Rightarrow> schema_ok depth array_schema) \<and>
            list_all (conforms depth (used_schema schema array_schema)) structs \<and>
            (structs = [] \<or> (case used_schema schema array_schema of None \<Rightarrow> True | Some s \<Rightarrow> writes_bytes s))
        | None \<Rightarrow> False)
      else plain_ok ty x)"
| "named_ok 0 n = False"
| "named_ok (Suc depth) n = var_ok depth (nv_value n)"
| "struct_ok 0 s = False"
| "struct_ok (Suc depth) s \<longleftrightarrow> struct_sorted s \<and> list_all (named_ok depth) (ds_fields s)"
| "conforms 0 schema s = False"
| "conforms (Suc depth) None s = struct_ok depth s"
| "conforms (Suc depth) (Some schema) s \<longleftrightarrow>
     struct_sorted s \<and> distinct (map ns_name (ss_fields schema)) \<and>
     list_all (\<lambda>f. case the_field s (ns_name f) of
         None \<Rightarrow> False
       | Some n \<Rightarrow> dv_type (nv_value n) = vs_type (ns_schema f) \<and>
           static_ok depth (vs_type (ns_schema f)) (vs_struct (ns_schema f)) (dv_data (nv_value n))) (ss_fields schema) \<and>
     (if odd (ss_flags schema) then list_all (named_ok depth) (struct_extras schema s) else struct_extras schema s = [])"

lemma as_Some [simp]:
  "as_var x = Some v \<longleftrightarrow> x = DVar v" "as_named x = Some n \<longleftrightarrow> x = DNamed n"
  "as_struct x = Some s \<longleftrightarrow> x = DStruct s" "as_struct_array x = Some p \<longleftrightarrow> x = DStructArray (fst p) (snd p)"
  by (cases x; auto)+

section \<open>Sorting\<close>

lemma filter_count: "count (mset xs) x = count (mset (filter (\<lambda>y. f y = f x) xs)) x"
  by (induction xs) auto

text \<open>A stable sort is determined by the elements of each key, in order.\<close>

lemma sort_key_unique:
  assumes "sorted (map f ys)" "\<And>k. filter (\<lambda>x. f x = k) xs = filter (\<lambda>x. f x = k) ys"
  shows "sort_key f xs = ys"
proof (rule properties_for_sort_key)
  show "mset ys = mset xs"
  proof (rule multiset_eqI)
    fix x
    show "count (mset ys) x = count (mset xs) x"
      using filter_count [of ys x f] filter_count [of xs x f] assms(2) [of "f x"] by metis
  qed
  show "filter (\<lambda>x. f k = f x) ys = filter (\<lambda>x. f k = f x) xs" if "k \<in> set ys" for k
    using assms(2) [of "f k"] by (simp add: eq_commute [of "f k"])
qed (rule assms)

lemma filter_key: "distinct (map h xs) \<Longrightarrow> g \<in> set xs \<Longrightarrow> filter (\<lambda>f. h f = h g) xs = [g]"
proof (induction xs)
  case (Cons x xs)
  then show ?case by (cases "x = g") (auto simp: filter_empty_conv rev_image_eqI)
qed simp

lemma the_field_Some:
  "the_field s name = Some n \<longleftrightarrow> filter (\<lambda>m. nv_name m = name) (ds_fields s) = [n]"
  by (auto simp: the_field_def split: list.splits)

lemma the_field_name: "the_field s name = Some n \<Longrightarrow> nv_name n = name"
  by (auto simp: the_field_Some dest: filter_eq_ConsD)

lemma find_filter: "find P xs = (case filter P xs of [] \<Rightarrow> None | x # _ \<Rightarrow> Some x)"
  by (induction xs) auto

lemma the_field_get: "the_field s name = Some n \<Longrightarrow> struct_get s name = Some (nv_value n)"
  by (simp add: the_field_Some struct_get_def find_filter)

text \<open>The fields of the schema followed by the others, sorted, are the fields of the struct.\<close>

lemma schema_order_sorts:
  assumes s: "struct_sorted s" and d: "distinct (map ns_name (ss_fields schema))"
    and f: "\<And>f. f \<in> set (ss_fields schema) \<Longrightarrow> the_field s (ns_name f) = Some (pick f)"
  shows "struct_sort (VMDynamicStruct (map pick (ss_fields schema) @ struct_extras schema s)) = s"
proof -
  have "sort_key nv_name (map pick (ss_fields schema) @ struct_extras schema s) = ds_fields s"
  proof (rule sort_key_unique)
    show "sorted (map nv_name (ds_fields s))" using s by (simp add: struct_sorted_def)
    fix k
    have picked: "filter (\<lambda>x. nv_name x = k) (map pick (ss_fields schema)) =
      map pick (filter (\<lambda>f. ns_name f = k) (ss_fields schema))"
      using the_field_name [OF f] by (auto simp: filter_map comp_def intro!: arg_cong [where f = "map pick"] filter_cong)
    show "filter (\<lambda>x. nv_name x = k) (map pick (ss_fields schema) @ struct_extras schema s) =
      filter (\<lambda>x. nv_name x = k) (ds_fields s)"
    proof (cases "schema_has_field schema k")
      case False
      then have "filter (\<lambda>f. ns_name f = k) (ss_fields schema) = []"
        by (auto simp: schema_has_field_def list_ex_iff filter_empty_conv)
      moreover have "filter (\<lambda>x. nv_name x = k) (struct_extras schema s) = filter (\<lambda>x. nv_name x = k) (ds_fields s)"
        using False by (auto simp: struct_extras_def intro!: filter_cong)
      ultimately show ?thesis by (simp add: picked)
    next
      case True
      then obtain g where g: "g \<in> set (ss_fields schema)" "ns_name g = k"
        by (auto simp: schema_has_field_def list_ex_iff)
      have "filter (\<lambda>f. ns_name f = k) (ss_fields schema) = [g]"
        using filter_key [OF d g(1)] g(2) by simp
      moreover have "filter (\<lambda>x. nv_name x = k) (struct_extras schema s) = []"
        using True by (auto simp: struct_extras_def filter_empty_conv)
      ultimately show ?thesis using f [OF g(1)] g(2) by (simp add: picked the_field_Some)
    qed
  qed
  then show ?thesis by (cases s) (simp add: struct_sort_def)
qed

section \<open>Round trip\<close>

lemma plain_nonempty: "serialize (write_plain py_text ty x) \<noteq> Inr []"
proof -
  have "serialize (write_scalar py_text ty x) \<noteq> Inr []"
    by (cases ty; simp add: write_scalar_def w_bind_nonempty split: vm_data.split)
  moreover have "serialize (write_array_values ty xs) \<noteq> Inr []" for xs
    by (cases ty; simp add: write_array_values_def write_int_values_def write_fixed_values_def
        write_big_int_array_def appends_int_element w_bind_nonempty)
  ultimately show ?thesis by (simp add: write_plain_def w_bind_nonempty)
qed

lemma wseq_some_nonempty:
  "list_all appends fs \<Longrightarrow> f \<in> set fs \<Longrightarrow> serialize f \<noteq> Inr [] \<Longrightarrow> serialize (wseq fs) \<noteq> Inr []"
proof (induction fs)
  case (Cons g fs)
  then show ?case by (cases "f = g") (auto simp: serialize_wseq rthen_Inr_iff)
qed simp

lemma dyn_var_nonempty [simp]: "serialize (write_dyn_var py_text v) \<noteq> Inr []"
  by (simp add: write_dyn_var.simps dyn_appends)

lemma named_dyn_nonempty [simp]: "serialize (write_named_dyn py_text n) \<noteq> Inr []"
  by (simp add: write_named_dyn.simps dyn_appends)

lemma dyn_struct_nonempty [simp]: "serialize (write_dyn_struct py_text s) \<noteq> Inr []"
  by (simp add: write_dyn_struct.simps dyn_appends)

lemma static_nonempty: "ty \<noteq> VM_STRUCT \<Longrightarrow> serialize (snd (write_static py_text ty schema v)) \<noteq> Inr []"
proof -
  assume "ty \<noteq> VM_STRUCT"
  then consider "ty = VM_DYNAMIC" | "ty = VM_ARRAY_DYNAMIC" | "ty = VM_ARRAY_STRUCT"
    | "ty \<notin> {VM_DYNAMIC, VM_STRUCT, VM_ARRAY_DYNAMIC, VM_ARRAY_STRUCT}" by blast
  then show ?thesis
    by cases (auto simp: write_static_cases write_static_structs plain_nonempty dyn_appends list_all_iff
        schema_appends intro!: w_bind_nonempty split: option.split)
qed

lemma with_schema_nonempty:
  assumes "writes_bytes schema"
  shows "serialize (snd (write_with_schema py_text (Some schema) s)) \<noteq> Inr []"
proof -
  let ?fs = "map (\<lambda>f. snd (write_field py_text s f)) (ss_fields schema) @ extras_tail py_text schema s"
  have "list_all appends (extras_tail py_text schema s)"
    by (simp add: extras_tail_def dyn_appends)
  then have a: "list_all appends ?fs"
    using dyn_appends(2) by (auto simp: list_all_iff write_field_def)
  have "\<exists>f \<in> set ?fs. serialize f \<noteq> Inr []"
  proof (cases "odd (ss_flags schema)")
    case True
    then have "\<exists>f \<in> set (extras_tail py_text schema s). serialize f \<noteq> Inr []"
      by (simp add: extras_tail_def dyn_appends)
    then show ?thesis by auto
  next
    case False
    then obtain f where "f \<in> set (ss_fields schema)" "vs_type (ns_schema f) \<noteq> VM_STRUCT"
      using assms by (auto simp: writes_bytes_def list_ex_iff)
    then have "serialize (snd (write_field py_text s f)) \<noteq> Inr []"
      unfolding write_field_def by (intro static_nonempty)
    with \<open>f \<in> set (ss_fields schema)\<close> show ?thesis by auto
  qed
  then show ?thesis unfolding write_with_schema_some using wseq_some_nonempty [OF a] by auto
qed

lemma wseq_flatten: "wseq (wseq fs # gs) = wseq (fs @ gs)"
proof (induction fs)
  case Nil
  show ?case by (simp add: fun_eq_iff wseq.simps)
next
  case (Cons f fs)
  then show ?case by (simp add: fun_eq_iff wseq.simps rthen_assoc)
qed

lemma rt_append: "rt (wseq fs) p y \<Longrightarrow> rt (wseq gs) (q y) x \<Longrightarrow> rt (wseq (fs @ gs)) (rbind p q) x"
  unfolding wseq_flatten [symmetric] by (rule rt_cons)

lemma rt_each:
  "(\<And>f. f \<in> set fs \<Longrightarrow> rt (wr f) (rd f) (g f)) \<Longrightarrow> rt (wseq (map wr fs)) (read_each rd fs) (map g fs)"
proof (induction fs)
  case (Cons f fs)
  have "rt (wseq (map wr fs)) (rbind (read_each rd fs) (\<lambda>ys. rret (g f # ys))) (g f # map g fs)"
    by (rule rt_map [OF Cons.IH refl]) (use Cons.prems in auto)
  then show ?case using Cons.prems by (auto intro: rt_cons)
qed (simp add: rt_nil)

text \<open>The tail of a struct under a schema.\<close>

lemma found_all:
  assumes d: "distinct (map ns_name (ss_fields schema))"
    and f: "fields_found schema s = length (ss_fields schema)"
    and l: "length (ds_fields s) = length (ss_fields schema)"
  shows "struct_extras schema s = []"
proof -
  have "filter (\<lambda>f. struct_get s (ns_name f) \<noteq> None) (ss_fields schema) = ss_fields schema"
    using f unfolding fields_found_def by (metis filter_True length_filter_less less_irrefl)
  then have "struct_get s (ns_name f) \<noteq> None" if "f \<in> set (ss_fields schema)" for f
    using that unfolding filter_id_conv by blast
  then have sub: "set (map ns_name (ss_fields schema)) \<subseteq> set (map nv_name (ds_fields s))"
  proof (intro subsetI)
    fix name
    assume "name \<in> set (map ns_name (ss_fields schema))"
    then obtain f where "f \<in> set (ss_fields schema)" "name = ns_name f" by auto
    then have "struct_get s name \<noteq> None" using \<open>\<And>f. f \<in> set (ss_fields schema) \<Longrightarrow> struct_get s (ns_name f) \<noteq> None\<close> by blast
    then show "name \<in> set (map nv_name (ds_fields s))" by (auto simp: struct_get_def find_Some_iff)
  qed
  have "card (set (map nv_name (ds_fields s))) \<le> card (set (map ns_name (ss_fields schema)))"
    using card_length [of "map nv_name (ds_fields s)"] distinct_card [OF d] l by simp
  with sub have "set (map ns_name (ss_fields schema)) = set (map nv_name (ds_fields s))"
    by (intro card_seteq) simp_all
  then have "nv_name n \<in> ns_name ` set (ss_fields schema)" if "n \<in> set (ds_fields s)" for n
    using that by auto
  then show ?thesis
    by (fastforce simp: struct_extras_def filter_empty_conv schema_has_field_def list_ex_iff)
qed

lemma rt_extras:
  assumes n: "\<And>n. n \<in> set (struct_extras schema s) \<Longrightarrow> rt (write_named_dyn py_text n) rd n"
    and z: "fields_found schema s = length (ss_fields schema) \<Longrightarrow>
      length (ds_fields s) = length (ss_fields schema) \<Longrightarrow> struct_extras schema s = []"
    and e: "even (ss_flags schema) \<Longrightarrow> struct_extras schema s = []"
  shows "rt (wseq (extras_tail py_text schema s))
    (if odd (ss_flags schema) then read_carbon_array rd else rret []) (struct_extras schema s)"
proof -
  have a: "rt (write_carbon_array (write_named_dyn py_text) (struct_extras schema s)) (read_carbon_array rd)
      (struct_extras schema s)"
    by (rule rt_carbon_array) (simp_all add: n)
  have s0: "serialize (write4u 0) = serialize (write_carbon_array (write_named_dyn py_text) [])"
    by (simp add: write_carbon_array_def serialize_wseq serialize_ints)
  show ?thesis
  proof (cases "even (ss_flags schema)")
    case False
    have "rt (write4u 0) (read_carbon_array rd) (struct_extras schema s)" if "struct_extras schema s = []"
      using a that s0 by (simp add: rt_def)
    with False a z show ?thesis by (auto simp: extras_tail_def intro: rt_last)
  qed (use e in \<open>simp add: extras_tail_def rt_nil\<close>)
qed

lemma rt_struct_step:
  assumes "\<And>n. named_ok d n \<Longrightarrow> rt (write_named_dyn py_text n) (read_named_dyn d) n" "struct_ok (Suc d) s"
  shows "rt (write_dyn_struct py_text s) (read_dyn_struct (Suc d)) s"
proof -
  have s: "struct_sort s = s" using assms(2)
    by (cases s) (simp add: struct_sort_def struct_sorted_def sort_key_id_if_sorted)
  have "rt (write_carbon_array (write_named_dyn py_text) (ds_fields s)) (read_carbon_array (read_named_dyn d)) (ds_fields s)"
    by (rule rt_carbon_array) (use assms in \<open>auto simp: list_all_iff\<close>)
  then show ?thesis
    unfolding write_dyn_struct.simps read_dyn_struct.simps s by (rule rt_map) (simp add: s)
qed

text \<open>
  What a struct comes back as when it is written under a schema: every field of the schema, with the default
  value where the struct has no field of that name or one of another type, and the remaining fields if the
  schema allows them.
\<close>

definition written_field :: "dyn_struct \<Rightarrow> named_schema \<Rightarrow> named_var" where
  "written_field s f = VMNamedDynamicVariable (ns_name f)
     (VMDynamicVariable (vs_type (ns_schema f)) (static_value (vs_type (ns_schema f)) (field_value s f)))"

definition under_schema :: "struct_schema \<Rightarrow> dyn_struct \<Rightarrow> dyn_struct" where
  "under_schema schema s = struct_sort (VMDynamicStruct
     (map (written_field s) (ss_fields schema) @ (if odd (ss_flags schema) then struct_extras schema s else [])))"

definition writable_under :: "nat \<Rightarrow> struct_schema \<Rightarrow> dyn_struct \<Rightarrow> bool" where
  "writable_under depth schema s \<longleftrightarrow>
     distinct (map ns_name (ss_fields schema)) \<and>
     list_all (\<lambda>f. static_ok depth (vs_type (ns_schema f)) (vs_struct (ns_schema f))
       (dv_data (nv_value (written_field s f)))) (ss_fields schema) \<and>
     (odd (ss_flags schema) \<longrightarrow> list_all (named_ok depth) (struct_extras schema s))"

lemma rt_under_schema_step:
  assumes named: "\<And>n. named_ok d n \<Longrightarrow> rt (write_named_dyn py_text n) (read_named_dyn d) n"
    and static: "\<And>ty sc v. static_ok d ty sc (static_value ty v) \<Longrightarrow>
      rt (snd (write_static py_text ty sc v)) (read_static d ty sc) (static_value ty v)"
    and ok: "writable_under d schema s"
  shows "rt (snd (write_with_schema py_text (Some schema) s)) (read_with_schema (Suc d) (Some schema)) (under_schema schema s)"
proof -
  let ?extras = "if odd (ss_flags schema) then struct_extras schema s else []"
  have dist: "distinct (map ns_name (ss_fields schema))" using ok by (simp add: writable_under_def)
  have fld: "rt (snd (write_field py_text s f))
      (rbind (read_static d (vs_type (ns_schema f)) (vs_struct (ns_schema f))) (\<lambda>x.
        rret (VMNamedDynamicVariable (ns_name f) (VMDynamicVariable (vs_type (ns_schema f)) x)))) (written_field s f)"
    if f: "f \<in> set (ss_fields schema)" for f
    unfolding write_field_def written_field_def
    by (rule rt_map [OF static refl]) (use ok f in \<open>auto simp: writable_under_def list_all_iff written_field_def\<close>)
  have extras: "rt (wseq (extras_tail py_text schema s))
      (if odd (ss_flags schema) then read_carbon_array (read_named_dyn d) else rret []) ?extras"
  proof (cases "odd (ss_flags schema)")
    case True
    have "rt (wseq (extras_tail py_text schema s))
        (if odd (ss_flags schema) then read_carbon_array (read_named_dyn d) else rret []) (struct_extras schema s)"
      by (rule rt_extras) (use ok True in \<open>auto simp: writable_under_def list_all_iff intro!: named found_all [OF dist]\<close>)
    with True show ?thesis by simp
  qed (simp add: extras_tail_def rt_nil)
  have "rt (wseq (extras_tail py_text schema s))
      (rbind (if odd (ss_flags schema) then read_carbon_array (read_named_dyn d) else rret [])
        (\<lambda>extras. rret (struct_sort (VMDynamicStruct (map (written_field s) (ss_fields schema) @ extras)))))
      (under_schema schema s)"
    by (rule rt_map [OF extras]) (simp add: under_schema_def)
  then show ?thesis
    unfolding write_with_schema_some read_with_schema.simps snd_conv
    by (rule rt_append [where y = "map (written_field s) (ss_fields schema)", rotated]) (rule rt_each [OF fld])
qed

text \<open>A struct that conforms to the schema comes back as it is.\<close>

lemma conforms_under_schema:
  assumes "conforms (Suc d) (Some schema) s"
  shows "under_schema schema s = s" "writable_under d schema s"
proof -
  define pick where "pick f = the (the_field s (ns_name f))" for f
  have sorted: "struct_sorted s" and dist: "distinct (map ns_name (ss_fields schema))" using assms by auto
  have pick: "the_field s (ns_name f) = Some (pick f)" "dv_type (nv_value (pick f)) = vs_type (ns_schema f)"
    "static_ok d (vs_type (ns_schema f)) (vs_struct (ns_schema f)) (dv_data (nv_value (pick f)))"
    if "f \<in> set (ss_fields schema)" for f
    using assms that by (auto simp: pick_def list_all_iff split: option.splits)
  have w: "written_field s f = pick f" if f: "f \<in> set (ss_fields schema)" for f
  proof -
    have "field_value s f = nv_value (pick f)" using the_field_get [OF pick(1) [OF f]] by (simp add: field_value_def)
    then show ?thesis using pick(2) [OF f] the_field_name [OF pick(1) [OF f]]
      by (simp add: written_field_def static_value_def) (metis dyn_var.collapse named_var.collapse)
  qed
  have e: "(if odd (ss_flags schema) then struct_extras schema s else []) = struct_extras schema s"
    using assms by (auto split: if_splits)
  have m: "map (written_field s) (ss_fields schema) = map pick (ss_fields schema)" using w by simp
  show "under_schema schema s = s"
    unfolding under_schema_def e m by (rule schema_order_sorts [OF sorted dist pick(1)])
  show "writable_under d schema s"
    using dist pick(3) w assms by (auto simp: writable_under_def list_all_iff split: if_splits)
qed

lemma rt_schema_step:
  assumes "\<And>n. named_ok d n \<Longrightarrow> rt (write_named_dyn py_text n) (read_named_dyn d) n"
    and "\<And>ty sc v. static_ok d ty sc (static_value ty v) \<Longrightarrow>
      rt (snd (write_static py_text ty sc v)) (read_static d ty sc) (static_value ty v)"
    and ok: "conforms (Suc d) (Some schema) s"
  shows "rt (snd (write_with_schema py_text (Some schema) s)) (read_with_schema (Suc d) (Some schema)) s"
  using rt_under_schema_step [of d py_text schema s, OF assms(1,2)] conforms_under_schema [OF ok] by simp

lemma rt_structs_step:
  assumes sch: "\<And>schema s. conforms d schema s \<Longrightarrow>
      rt (snd (write_with_schema py_text schema s)) (read_with_schema d schema) s"
    and ok: "static_ok (Suc d) VM_ARRAY_STRUCT schema (DStructArray sc structs)"
  shows "rt (wseq (write4 (int (length structs)) #
      (if schema = None then [write_struct_schema sc] else []) @
      map (\<lambda>s. snd (write_with_schema py_text (used_schema schema sc) s)) structs))
    (read_static (Suc d) VM_ARRAY_STRUCT schema) (DStructArray sc structs)"
proof -
  let ?used = "used_schema schema sc"
  let ?wr = "\<lambda>s. snd (write_with_schema py_text ?used s)"
  let ?head = "if schema = None then [write_struct_schema sc] else []"
  have used: "(if schema = None \<and> ss_fields sc = [] then None else Some sc) = ?used"
    using ok by (cases schema) (auto simp: used_schema_def)
  have structs: "conforms d ?used s" if "s \<in> set structs" for s
    using ok that by (auto simp: list_all_iff)
  have el: "rt (wseq (map ?wr structs)) (read_n (length structs) (read_with_schema d ?used)) structs"
    using rt_elements [of structs ?wr "read_with_schema d ?used" "\<lambda>s. s"] sch [OF structs] by simp
  have body: "rt (wseq (?head @ map ?wr structs))
      (rbind (case schema of Some s \<Rightarrow> rret s | None \<Rightarrow> read_struct_schema d) (\<lambda>array_schema.
       rbind (read_n (nat (int (length structs))) (read_with_schema d
          (if schema = None \<and> ss_fields array_schema = [] then None else Some array_schema))) (\<lambda>structs.
       rret (DStructArray array_schema structs)))) (DStructArray sc structs)"
  proof (rule rt_append [where y = sc])
    show "rt (wseq ?head) (case schema of Some s \<Rightarrow> rret s | None \<Rightarrow> read_struct_schema d) sc"
      using ok by (cases schema) (auto intro!: rt_nil rt_last struct_schema.rt)
    show "rt (wseq (map ?wr structs)) (rbind (read_n (nat (int (length structs))) (read_with_schema d
        (if schema = None \<and> ss_fields sc = [] then None else Some sc))) (\<lambda>structs. rret (DStructArray sc structs)))
        (DStructArray sc structs)"
      unfolding used nat_int by (rule rt_map [OF el refl])
  qed
  have ap: "list_all appends (?head @ map ?wr structs)"
    using dyn_appends(6) by (auto simp: list_all_iff schema_appends)
  have count: "int (length structs) \<le> int (length bs)" if "serialize (wseq (?head @ map ?wr structs)) = Inr bs" for bs
  proof (cases "structs = []")
    case False
    then have w: "serialize (?wr s) \<noteq> Inr []" for s
      using ok with_schema_nonempty by (cases ?used) (auto simp: write_with_schema.simps)
    have "\<exists>b. serialize (wseq (map ?wr structs)) = Inr b \<and> length b \<le> length bs"
      using that ap by (cases schema) (auto simp: serialize_wseq rthen_Inr_iff)
    then obtain b where b: "serialize (wseq (map ?wr structs)) = Inr b" "length b \<le> length bs" by blast
    have "length structs \<le> length b"
      by (rule elements_length [OF _ b(1)]) (use w dyn_appends(6) in auto)
    with b(2) show ?thesis by simp
  qed simp
  have "rt (wseq (write4 (int (length structs)) # ?head @ map ?wr structs))
      (rbind read_length (\<lambda>count.
       rbind (case schema of Some s \<Rightarrow> rret s | None \<Rightarrow> read_struct_schema d) (\<lambda>array_schema.
       rbind (read_n (nat count) (read_with_schema d
          (if schema = None \<and> ss_fields array_schema = [] then None else Some array_schema))) (\<lambda>structs.
       rret (DStructArray array_schema structs))))) (DStructArray sc structs)"
    by (rule rt_counted [where f = "wseq (?head @ map ?wr structs)"])
      (use body count ap in \<open>simp_all add: serialize_nested\<close>)
  then show ?thesis by simp
qed

lemma rt_static_step:
  assumes var: "\<And>v. var_ok d v \<Longrightarrow> rt (write_dyn_var py_text v) (read_dyn_var d) v"
    and sch: "\<And>schema s. conforms d schema s \<Longrightarrow>
      rt (snd (write_with_schema py_text schema s)) (read_with_schema d schema) s"
    and ok: "static_ok (Suc d) ty schema (static_value ty v)"
  shows "rt (snd (write_static py_text ty schema v)) (read_static (Suc d) ty schema) (static_value ty v)"
proof -
  consider (dynamic) "ty = VM_DYNAMIC" | (struct) "ty = VM_STRUCT" | (array) "ty = VM_ARRAY_DYNAMIC"
    | (structs) "ty = VM_ARRAY_STRUCT" | (plain) "ty \<notin> {VM_DYNAMIC, VM_STRUCT, VM_ARRAY_DYNAMIC, VM_ARRAY_STRUCT}"
    by blast
  then show ?thesis
  proof cases
    case dynamic
    with ok obtain w where "static_value ty v = DVar w" "var_ok d w" by (auto split: option.splits)
    with dynamic show ?thesis by (auto simp: write_static_cases intro!: rt_map [OF var])
  next
    case struct
    with ok obtain s where "static_value ty v = DStruct s" "conforms d schema s" by (auto split: option.splits)
    with struct show ?thesis by (auto simp: write_static_cases intro!: rt_map [OF sch])
  next
    case array
    have shape: "(case as_var y of Some v \<Rightarrow> var_ok d v | None \<Rightarrow> False) \<longleftrightarrow> (\<exists>w. y = DVar w \<and> var_ok d w)" for y
      by (auto split: option.splits)
    from array ok obtain vs where vs: "static_value ty v = DList (map DVar vs)" "list_all (var_ok d) vs"
      using all_items_map [OF shape, of "static_value ty v"] by auto
    have "rt (write_carbon_array (write_dyn_var py_text) vs) (read_carbon_array (read_dyn_var d)) vs"
      by (rule rt_carbon_array) (use vs(2) in \<open>auto simp: list_all_iff intro: var\<close>)
    then show ?thesis using vs(1) unfolding array
      by (auto simp: write_static_cases write_carbon_array_map write_dyn_item.simps intro!: rt_map)
  next
    case structs
    with ok obtain sc ss where x: "static_value ty v = DStructArray sc ss"
      by (auto split: option.splits)
    with structs ok rt_structs_step [of d py_text schema sc ss, OF sch] show ?thesis
      by (simp add: write_static_structs)
  next
    case plain
    with ok have "plain_ok ty (static_value ty v)" by auto
    with plain show ?thesis by (simp add: write_static_cases rt_plain)
  qed
qed

lemma rt_dyn:
  "var_ok d v \<Longrightarrow> rt (write_dyn_var py_text v) (read_dyn_var d) v"
  "static_ok d ty schema (static_value ty w) \<Longrightarrow>
     rt (snd (write_static py_text ty schema w)) (read_static d ty schema) (static_value ty w)"
  "named_ok d n \<Longrightarrow> rt (write_named_dyn py_text n) (read_named_dyn d) n"
  "struct_ok d s \<Longrightarrow> rt (write_dyn_struct py_text s) (read_dyn_struct d) s"
  "conforms d schema s \<Longrightarrow> rt (snd (write_with_schema py_text schema s)) (read_with_schema d schema) s"
proof (induction d arbitrary: v ty schema w n s)
  case (Suc d)
  {
    case 1
    have "static_value (dv_type v) v = dv_data v" by (simp add: static_value_def)
    with 1 Suc(2) [of "dv_type v" None v] have
      "rt (snd (write_static py_text (dv_type v) None v)) (read_static d (dv_type v) None) (dv_data v)" by simp
    then show ?case by (auto simp: write_dyn_var.simps intro!: rt_cons rt_vm_type rt_nil)
  next
    case 2
    then show ?case by (rule rt_static_step [OF Suc(1) Suc(5), rotated 2]) simp_all
  next
    case 3
    then show ?case by (cases n) (auto simp: write_named_dyn.simps intro!: rt_cons rt_small_string Suc(1) rt_nil)
  next
    case 4
    then show ?case by (rule rt_struct_step [OF Suc(3), rotated]) simp
  next
    case 5
    then show ?case
    proof (cases schema)
      case None
      with 5 show ?thesis by (simp add: write_with_schema.simps Suc(4))
    next
      case (Some sc)
      with 5 rt_schema_step [of d py_text sc s, OF Suc(3) Suc(2)] show ?thesis by simp
    qed
  }
qed simp_all


interpretation dyn_var: carbon_codec "write_dyn_var py_text" "read_dyn_var depth" "var_ok depth" for py_text depth
  by unfold_locales (simp_all add: rt_dyn safe_dyn raises_dyn dyn_appends)

interpretation dyn_struct: carbon_codec "write_dyn_struct py_text" "read_dyn_struct depth" "struct_ok depth"
  for py_text depth
  by unfold_locales (simp_all add: rt_dyn safe_dyn raises_dyn dyn_appends)

interpretation schema_struct: codec "\<lambda>s. snd (write_with_schema py_text schema s)" "read_with_schema depth schema"
    "conforms depth schema"
  for py_text schema depth
  by unfold_locales (simp_all add: rt_dyn safe_dyn)

section \<open>What the readers return is well typed\<close>

text \<open>\<open>yields p P\<close>: whatever the reader \<open>p\<close> returns satisfies \<open>P\<close>.\<close>

definition yields :: "'a rop \<Rightarrow> ('a \<Rightarrow> bool) \<Rightarrow> bool" where
  "yields p P \<longleftrightarrow> (\<forall>r x r'. p r = Inr (x, r') \<longrightarrow> P x)"

lemma yields_ret: "P x \<Longrightarrow> yields (rret x) P"
  by (simp add: yields_def rret_def)

lemma yields_fail: "yields (rfail e) P"
  by (simp add: yields_def rfail_def)

lemma yields_bind: "(\<And>x. yields (f x) P) \<Longrightarrow> yields (rbind p f) P"
  by (auto simp: yields_def rbind_def rthen_Inr_iff)

lemma yields_lift: "(\<And>x. m = Inr x \<Longrightarrow> P x) \<Longrightarrow> yields (rlift m) P"
  by (auto simp: yields_def rlift_def rthen_Inr_iff)

lemma yields_then: "yields p Q \<Longrightarrow> (\<And>x. Q x \<Longrightarrow> yields (f x) P) \<Longrightarrow> yields (rbind p f) P"
  by (fastforce simp: yields_def rbind_def rthen_Inr_iff)

lemma yields_map: "yields p Q \<Longrightarrow> (\<And>x. Q x \<Longrightarrow> P (g x)) \<Longrightarrow> yields (rbind p (\<lambda>x. rret (g x))) P"
  by (auto simp: yields_def rbind_def rret_def rthen_Inr_iff)

lemma yields_as: "yields p Q \<Longrightarrow> (\<And>x. Q x \<Longrightarrow> P (g x)) \<Longrightarrow> yields (read_as g p) P"
  unfolding read_as_def by (rule yields_map)

lemma yields_any: "yields p (\<lambda>_. True)"
  by (simp add: yields_def)

lemma yields_cons:
  "yields p P \<Longrightarrow> yields q (list_all P) \<Longrightarrow> yields (rbind p (\<lambda>x. rbind q (\<lambda>xs. rret (x # xs)))) (list_all P)"
  by (rule yields_then, assumption, rule yields_map, assumption) simp

lemma yields_n: "yields p P \<Longrightarrow> yields (read_n n p) (list_all P)"
  by (induction n) (auto intro: yields_ret yields_cons)

lemma yields_array: "yields p P \<Longrightarrow> yields (read_carbon_array p) (list_all P)"
  unfolding read_carbon_array_def by (intro yields_bind yields_n)

lemma yields_each: "(\<And>x. x \<in> set xs \<Longrightarrow> yields (f x) P) \<Longrightarrow> yields (read_each f xs) (list_all P)"
  by (induction xs) (auto intro: yields_ret yields_cons)

lemma yields_read1: "yields read1 (\<lambda>v. 0 \<le> v \<and> v < 256)"
  unfolding read1_def
proof (rule yields_map [where Q = "\<lambda>bs. length bs = 1"])
  show "yields (read 1) (\<lambda>bs. length bs = 1)"
    by (auto simp: yields_def read_def remaining_def split: if_splits)
  show "0 \<le> uint (x ! 0) \<and> uint (x ! 0) < 256" for x :: bytes
    using uint_byte_bounds by blast
qed

lemma yields_big_int: "yields read_big_int int256"
proof -
  have w: "int256 v" if "int_from_word word = Inr v" for word v
  proof -
    have l: "length word = 32" using that by (simp add: int_from_word_def split: if_splits)
    with that have v: "v = le_int_signed word" by (simp add: int_from_word_eq)
    have p: "(256::int) ^ 32 = 2 * 2 ^ 255" by simp
    show ?thesis using le_int_signed_range [of word] unfolding l p v int256_def by linarith
  qed
  have z: "int256 0" by (simp add: int256_def)
  show ?thesis
    unfolding read_big_int_def read_big_int_with_header_def option.case
    by (intro yields_bind) (auto simp: Let_def intro!: yields_ret yields_fail yields_bind yields_lift w z)
qed

lemma yields_fixed:
  "yields read16 (\<lambda>bs. length bs = 16)" "yields read32 (\<lambda>bs. length bs = 32)" "yields read64 (\<lambda>bs. length bs = 64)"
  unfolding read16_def read32_def read64_def by (auto intro!: yields_bind yields_lift dest: FixedBytes_Inr)

lemma yields_int8: "yields (read_int_element 1 True) int8"
proof -
  have "yields (rbind read1 (\<lambda>v. rret (if True \<and> v \<ge> 0x80 then v - 0x100 else v))) int8"
    by (rule yields_map [OF yields_read1]) (auto simp: int8_def)
  then show ?thesis by (simp add: read_int_element_def)
qed

lemma yields_plain: "yields (read_plain ty) (plain_ok ty)"
proof -
  note arrays = yields_array [OF yields_fixed(1)] yields_array [OF yields_fixed(2)] yields_array [OF yields_fixed(3)]
    yields_array [OF yields_int8, folded read_int_array_def] yields_array [OF yields_big_int, folded read_big_int_array_def]
  have all: "list_all (\<lambda>_. True) xs" for xs :: "'x list" by (simp add: list_all_iff)
  consider (int8) "ty = VM_INT8"
    | (free) "ty \<in> {VM_BYTES, VM_INT16, VM_INT32, VM_INT64, VM_STRING, VM_ARRAY_BYTES, VM_ARRAY_INT16,
        VM_ARRAY_INT32, VM_ARRAY_INT64, VM_ARRAY_STRING}"
    | (ranged) "ty \<in> {VM_INT256, VM_BYTES16, VM_BYTES32, VM_BYTES64, VM_ARRAY_INT8, VM_ARRAY_INT256,
        VM_ARRAY_BYTES16, VM_ARRAY_BYTES32, VM_ARRAY_BYTES64}"
    | (none) "ty \<in> {VM_DYNAMIC, VM_STRUCT, VM_ARRAY_DYNAMIC, VM_ARRAY_STRUCT}"
    by (cases ty) simp_all
  then show ?thesis
  proof cases
    case int8
    have "yields (read_as (\<lambda>v. DInt (if v \<ge> 0x80 then v - 0x100 else v)) read1) (plain_ok ty)"
      by (rule yields_as [OF yields_read1]) (auto simp: int8 plain_ok_def int8_def)
    then show ?thesis by (simp add: int8 read_plain_def)
  next
    case free
    then show ?thesis
      by (auto simp: read_plain_def plain_ok_def all_items_def list.pred_map comp_def all intro!: yields_as [OF yields_any])
  next
    case ranged
    then show ?thesis
      by (auto simp: read_plain_def plain_ok_def all_items_def list.pred_map comp_def intro!: yields_as [OF yields_big_int]
          yields_as [OF yields_fixed(1)] yields_as [OF yields_fixed(2)] yields_as [OF yields_fixed(3)]
          yields_as [OF arrays(1)] yields_as [OF arrays(2)] yields_as [OF arrays(3)]
          yields_as [OF arrays(4)] yields_as [OF arrays(5)])
  next
    case none
    then show ?thesis by (auto simp: read_plain_def intro: yields_fail)
  qed
qed

fun data_typed :: "vm_type \<Rightarrow> vm_data \<Rightarrow> bool"
  and var_typed :: "dyn_var \<Rightarrow> bool"
  and named_typed :: "named_var \<Rightarrow> bool"
  and struct_typed :: "dyn_struct \<Rightarrow> bool" where
  "data_typed ty (DVar v) \<longleftrightarrow> ty = VM_DYNAMIC \<and> var_typed v"
| "data_typed ty (DStruct s) \<longleftrightarrow> ty = VM_STRUCT \<and> struct_typed s"
| "data_typed ty (DStructArray sc ss) \<longleftrightarrow> ty = VM_ARRAY_STRUCT \<and> list_all struct_typed ss"
| "data_typed ty (DList xs) \<longleftrightarrow>
     (if ty = VM_ARRAY_DYNAMIC then list_all (data_typed VM_DYNAMIC) xs else plain_ok ty (DList xs))"
| "data_typed ty x \<longleftrightarrow> plain_ok ty x"
| "var_typed (VMDynamicVariable ty x) \<longleftrightarrow> data_typed ty x"
| "named_typed (VMNamedDynamicVariable name v) \<longleftrightarrow> var_typed v"
| "struct_typed (VMDynamicStruct fs) \<longleftrightarrow> sorted (map nv_name fs) \<and> list_all named_typed fs"

lemma plain_typed: "plain_ok ty x \<Longrightarrow> data_typed ty x"
  by (cases x) (auto simp: plain_ok_def all_items_def split: vm_type.splits)

lemma struct_sort_typed: "list_all named_typed fs \<Longrightarrow> struct_typed (struct_sort (VMDynamicStruct fs))"
  by (simp add: struct_sort_def list_all_iff)

lemma yields_dyn:
  "yields (read_dyn_var d) var_typed" "yields (read_static d ty schema) (data_typed ty)"
  "yields (read_named_dyn d) named_typed" "yields (read_dyn_struct d) struct_typed"
  "yields (read_with_schema d schema) struct_typed"
proof (induction d arbitrary: ty schema)
  case (Suc d)
  note named = yields_array [OF Suc(3)]
  {
    case 1
    show ?case by (auto intro!: yields_bind yields_map [OF Suc(2)])
  next
    case 2
    consider (array) "ty = VM_ARRAY_DYNAMIC" | (structs) "ty = VM_ARRAY_STRUCT" | (other) "ty \<noteq> VM_ARRAY_DYNAMIC" "ty \<noteq> VM_ARRAY_STRUCT"
      by blast
    then show ?case
    proof cases
      case array
      show ?thesis unfolding array
        by (simp, rule yields_map [OF yields_array [OF Suc(1)]]) (simp add: list_all_iff)
    next
      case structs
      show ?thesis unfolding structs
        by (simp, rule yields_bind, rule yields_bind, rule yields_map [OF yields_n [OF Suc(5)]]) simp
    next
      case other
      have "yields (read_plain ty) (data_typed ty)"
        using yields_plain [of ty] plain_typed by (auto simp: yields_def)
      with other show ?thesis
        by (auto intro!: yields_map [OF Suc(1)] yields_map [OF Suc(5)])
    qed
  next
    case 3
    show ?case by (auto intro!: yields_bind yields_map [OF Suc(1)])
  next
    case 4
    show ?case by (auto intro!: yields_map [OF named] struct_sort_typed)
  next
    case 5
    show ?case
    proof (cases schema)
      case (Some sc)
      have fld: "yields (rbind (read_static d (vs_type (ns_schema f)) (vs_struct (ns_schema f))) (\<lambda>x.
          rret (VMNamedDynamicVariable (ns_name f) (VMDynamicVariable (vs_type (ns_schema f)) x)))) named_typed" for f
        by (rule yields_map [OF Suc(2)]) simp
      have extras: "yields (if odd (ss_flags sc) then read_carbon_array (read_named_dyn d) else rret [])
          (list_all named_typed)"
        using named by (simp add: yields_ret)
      show ?thesis unfolding Some read_with_schema.simps
        by (rule yields_then [OF yields_each [OF fld]], rule yields_map [OF extras])
          (simp add: struct_sort_typed)
    qed (simp add: Suc(4))
  }
qed (simp_all add: yields_fail)

section \<open>A struct as a finite map\<close>

text \<open>
  The abstract view of a struct: a finite map from names to variables. \<open>struct_get\<close> looks names up in it,
  sorting does not change it, and the wire form of a struct without duplicate names depends on nothing else.
\<close>

definition struct_map :: "dyn_struct \<Rightarrow> pystr \<rightharpoonup> dyn_var" where
  "struct_map s = map_of (map (\<lambda>n. (nv_name n, nv_value n)) (ds_fields s))"

lemma struct_get_map: "struct_get s name = struct_map s name"
proof -
  have "map_option nv_value (find (\<lambda>f. nv_name f = name) ns) = map_of (map (\<lambda>n. (nv_name n, nv_value n)) ns) name" for ns
    by (induction ns) auto
  then show ?thesis by (simp add: struct_get_def struct_map_def)
qed

lemma struct_map_in:
  "distinct (map nv_name (ds_fields s)) \<Longrightarrow> n \<in> set (ds_fields s) \<longleftrightarrow> struct_map s (nv_name n) = Some (nv_value n)"
proof -
  assume "distinct (map nv_name (ds_fields s))"
  then have "distinct (map fst (map (\<lambda>n. (nv_name n, nv_value n)) (ds_fields s)))" by (simp add: comp_def)
  then have "struct_map s (nv_name n) = Some (nv_value n) \<longleftrightarrow>
      (nv_name n, nv_value n) \<in> set (map (\<lambda>n. (nv_name n, nv_value n)) (ds_fields s))"
    unfolding struct_map_def by (rule map_of_eq_Some_iff)
  also have "\<dots> \<longleftrightarrow> n \<in> set (ds_fields s)" by (auto simp: image_iff) (metis named_var.expand)
  finally show ?thesis by simp
qed

lemma struct_sort_fields: "distinct (map nv_name (ds_fields s)) \<Longrightarrow>
   distinct (map nv_name (ds_fields (struct_sort s))) \<and> set (ds_fields (struct_sort s)) = set (ds_fields s) \<and>
   sorted (map nv_name (ds_fields (struct_sort s)))"
  by (cases s) (auto simp: struct_sort_def distinct_map)

lemma struct_sort_map: "distinct (map nv_name (ds_fields s)) \<Longrightarrow> struct_map (struct_sort s) = struct_map s"
proof
  fix name
  assume d: "distinct (map nv_name (ds_fields s))"
  note ds = struct_sort_fields [OF d]
  show "struct_map (struct_sort s) name = struct_map s name"
  proof (cases "struct_map s name")
    case (Some v)
    let ?n = "VMNamedDynamicVariable name v"
    have "?n \<in> set (ds_fields s)" using struct_map_in [OF d, of ?n] Some by simp
    then have "?n \<in> set (ds_fields (struct_sort s))" using ds by blast
    then show ?thesis using struct_map_in [of "struct_sort s" ?n] ds Some by simp
  next
    case None
    show ?thesis
    proof (cases "struct_map (struct_sort s) name")
      case (Some v)
      let ?n = "VMNamedDynamicVariable name v"
      have "?n \<in> set (ds_fields (struct_sort s))" using struct_map_in [of "struct_sort s" ?n] ds Some by simp
      then have "?n \<in> set (ds_fields s)" using ds by blast
      then show ?thesis using struct_map_in [OF d, of ?n] None by simp
    qed (simp add: None)
  qed
qed

lemma sorted_fields_unique:
  assumes "sorted (map nv_name xs)" "distinct (map nv_name xs)"
    "sorted (map nv_name ys)" "distinct (map nv_name ys)" "set xs = set ys"
  shows "xs = ys"
proof (rule map_inj_on [where f = nv_name])
  show "map nv_name xs = map nv_name ys"
    using assms by (intro sorted_distinct_set_unique) auto
  show "inj_on nv_name (set xs \<union> set ys)"
    using assms(2,5) by (simp add: distinct_map)
qed

lemma struct_sort_unique:
  assumes "distinct (map nv_name (ds_fields s))" "distinct (map nv_name (ds_fields t))" "struct_map s = struct_map t"
  shows "struct_sort s = struct_sort t"
proof -
  note s = struct_sort_fields [OF assms(1)] and t = struct_sort_fields [OF assms(2)]
  have "n \<in> set (ds_fields s) \<longleftrightarrow> n \<in> set (ds_fields t)" for n
    using struct_map_in assms by metis
  then have "ds_fields (struct_sort s) = ds_fields (struct_sort t)"
    using s t by (intro sorted_fields_unique) auto
  then show ?thesis by (rule dyn_struct.expand)
qed

text \<open>The flag is always true, so the writer's check of it never fails.\<close>

lemma write_dynamic_struct_eq:
  "write_dynamic_struct_with_schema py_text s schema = serialize (snd (write_with_schema py_text (Some schema) s))"
proof -
  have "fst (write_with_schema py_text (Some schema) s)" using dyn_appends(6) by blast
  then show ?thesis
    by (cases "serialize (snd (write_with_schema py_text (Some schema) s))")
      (auto simp: write_dynamic_struct_with_schema_def split: prod.split)
qed

subsection \<open>An example\<close>

definition example_var :: dyn_var where
  "example_var = VMDynamicVariable VM_STRUCT (DStruct (VMDynamicStruct [
     VMNamedDynamicVariable [97] (VMDynamicVariable VM_INT8 (DInt (- 1))),
     VMNamedDynamicVariable [98] (VMDynamicVariable VM_ARRAY_STRING (DList [DStr [120]]))]))"


text \<open>A struct with a field of another type than \<open>example_schema\<close> says, one outside it, and one missing.\<close>

definition example_struct :: dyn_struct where
  "example_struct = VMDynamicStruct [
     VMNamedDynamicVariable [98] (VMDynamicVariable VM_INT8 (DInt 5)),
     VMNamedDynamicVariable [99] (VMDynamicVariable VM_INT8 (DInt 6))]"

lemma example_items: "write_plain py_text VM_ARRAY_STRING (DList [DStr s]) = write_string_z_array [s]"
  using write_array_typed(7) [of py_text "[s]"] by simp

lemma example_var_written: "serialize (write_dyn_var py_text example_var) = Inr
   [4, 2, 0, 0, 0, 1, 97, 6, 255, 1, 98, 23, 1, 0, 0, 0, 120, 0]"
  by (simp add: example_var_def write_dyn_var.simps write_static_cases static_value_def write_with_schema.simps
      write_dyn_struct.simps struct_sort_def write_named_dyn.simps write_scalar_typed example_items
      write_carbon_array_def serialize_wseq serialize_ints serialize_small_string dyn_appends
      utf8_char_def byte_of_def write_string_z_def write_string_z_array_def eval_nat_numeral)

section \<open>Properties\<close>

text \<open>C24: A dynamic variable, however deeply its values, structs and arrays are nested, comes back from its
  self-describing wire form, and bytes left over after it are refused.\<close>

theorem dyn_var_roundtrip:
  assumes "var_ok depth v" "serialize (write_dyn_var py_text v) = Inr bs"
  shows "deserialize (read_dyn_var depth) (bs @ rest) = (if rest = [] then Inr v else Inl SerializationError)"
  using dyn_var.roundtrip [OF assms] dyn_var.trailing [OF assms, of rest] by simp

theorem dyn_var_roundtrip_witness:
  "deserialize (read_dyn_var 9) [4, 2, 0, 0, 0, 1, 97, 6, 255, 1, 98, 23, 1, 0, 0, 0, 120, 0] = Inr example_var"
proof -
  have "var_ok 9 example_var"
    by (simp add: example_var_def struct_sorted_def plain_ok_def all_items_def int8_def eval_nat_numeral)
  from dyn_var_roundtrip [OF this example_var_written, of "[]"] show ?thesis by simp
qed



text \<open>The check \<^verbatim>\<open>metadata does not match schema\<close> never fires: the flag it looks at is always true, so
  a struct of another shape than the schema is written all the same.\<close>

theorem schema_mismatch_not_reported:
  "write_dynamic_struct_with_schema py_text s schema = serialize (snd (write_with_schema py_text (Some schema) s))"
  by (rule write_dynamic_struct_eq)

text \<open>C29: Whatever bytes a dynamic variable is read from, its value has the class its type says, at every
  level, numbers within the width of their type, fixed byte strings of their size and struct fields sorted.\<close>

theorem dyn_var_well_typed:
  assumes "deserialize (read_dyn_var depth) bs = Inr v"
  shows "var_typed v"
  using assms yields_dyn(1) [of depth] by (auto simp: deserialize_def yields_def rthen_Inr_iff)

theorem dyn_var_well_typed_witness:
  "\<exists>v. deserialize (read_dyn_var 9) [4, 2, 0, 0, 0, 1, 97, 6, 255, 1, 98, 23, 1, 0, 0, 0, 120, 0] = Inr v \<and> var_typed v"
proof -
  have "var_ok 9 example_var"
    by (simp add: example_var_def struct_sorted_def plain_ok_def all_items_def int8_def eval_nat_numeral)
  from dyn_var.roundtrip [OF this example_var_written] dyn_var_well_typed show ?thesis by blast
qed

text \<open>C28: A struct refines a finite map: \<^verbatim>\<open>get\<close> is lookup in the map, sorting leaves the map alone, and two
  structs without duplicate names have the same wire form if they are the same map, whatever the order of their
  fields.\<close>

theorem struct_refines_map:
  assumes "distinct (map nv_name (ds_fields s))" "distinct (map nv_name (ds_fields t))" "struct_map s = struct_map t"
  shows "struct_get s name = struct_map s name \<and> struct_map (struct_sort s) = struct_map s \<and>
    serialize (write_dyn_struct py_text s) = serialize (write_dyn_struct py_text t)"
  using struct_sort_unique [OF assms]
  by (simp_all add: struct_get_map struct_sort_map assms write_dyn_struct.simps)

theorem struct_refines_map_witness:
  "\<exists>bs. serialize (write_dyn_struct (\<lambda>_. []) (VMDynamicStruct [
       VMNamedDynamicVariable [98] (VMDynamicVariable VM_INT8 (DInt 1)),
       VMNamedDynamicVariable [97] (VMDynamicVariable VM_INT8 (DInt 2))])) = bs \<and>
     serialize (write_dyn_struct (\<lambda>_. []) (VMDynamicStruct [
       VMNamedDynamicVariable [97] (VMDynamicVariable VM_INT8 (DInt 2)),
       VMNamedDynamicVariable [98] (VMDynamicVariable VM_INT8 (DInt 1))])) = bs"
  using struct_refines_map [of "VMDynamicStruct [
       VMNamedDynamicVariable [98] (VMDynamicVariable VM_INT8 (DInt 1)),
       VMNamedDynamicVariable [97] (VMDynamicVariable VM_INT8 (DInt 2))]" "VMDynamicStruct [
       VMNamedDynamicVariable [97] (VMDynamicVariable VM_INT8 (DInt 2)),
       VMNamedDynamicVariable [98] (VMDynamicVariable VM_INT8 (DInt 1))]" _ "\<lambda>_. []"]
  by (simp add: struct_map_def fun_upd_twist)

text \<open>Structs in an array under a schema with no fields take no bytes at all: their fields are dropped, and
  the array cannot be read back, because its count exceeds the number of bytes that follow.\<close>

theorem zero_byte_structs_unreadable:
  assumes "structs \<noteq> []" "length structs < 2 ^ 31"
  shows "\<exists>bs. serialize (snd (write_static py_text VM_ARRAY_STRUCT (Some empty_schema)
       (VMDynamicVariable VM_ARRAY_STRUCT (DStructArray empty_schema structs)))) = Inr bs \<and>
     length bs = 4 \<and>
     deserialize (read_static (Suc depth) VM_ARRAY_STRUCT (Some empty_schema)) bs = Inl SerializationError"
proof -
  let ?n = "int (length structs)"
  have e: "snd (write_with_schema py_text (Some empty_schema) s) = wseq []" for s
    by (simp add: write_with_schema_some extras_tail_def empty_schema_def)
  have w: "wseq (map (\<lambda>s. wseq []) structs) = wseq []"
    by (induction structs) (simp_all add: fun_eq_iff wseq.simps)
  have "serialize (snd (write_static py_text VM_ARRAY_STRUCT (Some empty_schema)
       (VMDynamicVariable VM_ARRAY_STRUCT (DStructArray empty_schema structs)))) = serialize (wseq (write4 ?n # map (\<lambda>s. wseq []) structs))"
    by (simp add: write_static_structs static_value_def used_schema_def e)
  also have "\<dots> = serialize (write4 ?n)"
    by (cases "serialize (write4 ?n)") (simp_all add: serialize_wseq list_all_iff w)
  finally have ser: "serialize (snd (write_static py_text VM_ARRAY_STRUCT (Some empty_schema)
       (VMDynamicVariable VM_ARRAY_STRUCT (DStructArray empty_schema structs)))) = serialize (write4 ?n)" .
  have b: "serialize (write4 ?n) = Inr (le_bytes 4 ?n)" using assms(2) by (simp add: serialize_ints)
  have "read4 (new_reader (le_bytes 4 ?n)) = Inr (?n, adv 4 (new_reader (le_bytes 4 ?n)))"
    using rt_parses [OF rt_write4 b] starts_new_self [of "le_bytes 4 ?n"] by (simp add: parses_def)
  then have "read_length (new_reader (le_bytes 4 ?n)) = Inl SerializationError"
    using assms(1) by (simp add: read_length_def rbind_def remaining_def adv_def new_reader_def)
  then have "deserialize (read_static (Suc depth) VM_ARRAY_STRUCT (Some empty_schema)) (le_bytes 4 ?n) = Inl SerializationError"
    by (simp add: deserialize_def rbind_def)
  with ser b show ?thesis by simp
qed

theorem zero_byte_structs_unreadable_witness:
  "\<exists>bs. serialize (snd (write_static (\<lambda>_. []) VM_ARRAY_STRUCT (Some empty_schema)
       (VMDynamicVariable VM_ARRAY_STRUCT (DStructArray empty_schema [example_struct])))) = Inr bs \<and>
     length bs = 4 \<and>
     deserialize (read_static 1 VM_ARRAY_STRUCT (Some empty_schema)) bs = Inl SerializationError"
  using zero_byte_structs_unreadable [of "[example_struct]" "\<lambda>_. []" 0] by simp

end
