(* ===== verification/Metadata.thy ===== *)
theory Metadata
  imports CarbonDyn
begin

text \<open>
  Coercion of user-supplied metadata to VM values, the \<^verbatim>\<open>_coerce_*\<close> and \<^verbatim>\<open>_ensure_*\<close> functions of
  \<^verbatim>\<open>carbon.py\<close>: a value is checked against the type of its schema field, hexadecimal text becomes bytes, unsigned
  numbers become signed ones, objects become structs with the fields of the schema. Metadata is a list of names
  and values; a mapping is an association list. The names the functions take only for their error messages are
  left out. \<^verbatim>\<open>str.lower\<close> is a parameter, \<open>lower\<close>.
\<close>

section \<open>Checks of single values\<close>

definition ensure_metadata_key :: "vm_data \<Rightarrow> pystr result" where
  "ensure_metadata_key key = (case key of DStr s \<Rightarrow> Inr s | _ \<Rightarrow> Inl BuilderError)"

definition ensure_metadata_string :: "vm_data \<Rightarrow> pystr result" where
  "ensure_metadata_string x = (case x of
     DStr s \<Rightarrow> if py_strip s = [] then Inl BuilderError else Inr s
   | _ \<Rightarrow> Inl BuilderError)"

definition removeprefix :: "pystr \<Rightarrow> pystr \<Rightarrow> pystr" where
  "removeprefix p s = (if take (length p) s = p then drop (length p) s else s)"

definition decode_flexible_hex :: "pystr \<Rightarrow> bytes result" where
  "decode_flexible_hex value =
     (let t = removeprefix [48, 88] (removeprefix [48, 120] (py_strip value));
          t' = (if odd (length t) then 48 # t else t)
      in case fromhex t' of
           Inl e \<Rightarrow> Inl (if is_value_error e then BuilderError else e)
         | Inr bs \<Rightarrow> Inr bs)"

definition ensure_metadata_bytes :: "vm_data \<Rightarrow> bytes result" where
  "ensure_metadata_bytes x = (case bytes_value x of
     Some bs \<Rightarrow> Inr bs
   | None \<Rightarrow> (case x of
       DStr s \<Rightarrow> if py_strip s = [] then Inl BuilderError
         else decode_flexible_hex (py_strip s)
     | _ \<Rightarrow> Inl BuilderError))"

text \<open>The object of the class \<^verbatim>\<open>Bytes16\<close>, \<^verbatim>\<open>Bytes32\<close> or \<^verbatim>\<open>Bytes64\<close>, by its size.\<close>

definition fixed_object :: "nat \<Rightarrow> bytes \<Rightarrow> vm_data" where
  "fixed_object n bs = (if n = 16 then DBytes16 bs else if n = 32 then DBytes32 bs else DBytes64 bs)"

definition is_fixed_class :: "nat \<Rightarrow> vm_data \<Rightarrow> bool" where
  "is_fixed_class n x = (case x of
     DBytes16 _ \<Rightarrow> n = 16 | DBytes32 _ \<Rightarrow> n = 32 | DBytes64 _ \<Rightarrow> n = 64 | _ \<Rightarrow> False)"

definition ensure_fixed_metadata_bytes :: "nat \<Rightarrow> vm_data \<Rightarrow> vm_data result" where
  "ensure_fixed_metadata_bytes n x =
     (if is_fixed_class n x then Inr x
      else rthen (ensure_metadata_bytes x) (\<lambda>bs.
        if length bs \<noteq> n then Inl BuilderError
        else rthen (FixedBytes n bs) (\<lambda>raw. Inr (fixed_object n raw))))"

definition ensure_metadata_sequence :: "vm_data \<Rightarrow> vm_data list result" where
  "ensure_metadata_sequence x = (case x of DList xs \<Rightarrow> Inr xs | _ \<Rightarrow> Inl BuilderError)"

definition ensure_metadata_integer :: "vm_data \<Rightarrow> int result" where
  "ensure_metadata_integer x = (case x of DInt n \<Rightarrow> Inr n | _ \<Rightarrow> Inl BuilderError)"

definition require_required_int :: "vm_data \<Rightarrow> int result" where
  "require_required_int x = (case x of DInt n \<Rightarrow> Inr n | _ \<Rightarrow> Inl BuilderError)"

definition coerce_integer_for_vm_type :: "nat \<Rightarrow> vm_data \<Rightarrow> int result" where
  "coerce_integer_for_vm_type bit_width x =
     rthen (ensure_metadata_integer x) (\<lambda>n.
       let signed_min = - (2 ^ (bit_width - 1));
           signed_max = 2 ^ (bit_width - 1) - 1;
           unsigned_max = 2 ^ bit_width - 1
       in if \<not> ((signed_min \<le> n \<and> n \<le> signed_max) \<or> (0 \<le> n \<and> n \<le> unsigned_max)) then Inl BuilderError
          else if bit_width = 8 \<or> n \<le> signed_max then Inr n
          else Inr (n - 2 ^ bit_width))"

definition coerce_int256 :: "vm_data \<Rightarrow> int result" where
  "coerce_int256 x =
     rthen (ensure_metadata_integer x) (\<lambda>n.
       if \<not> ((- (2 ^ 255) \<le> n \<and> n \<le> 2 ^ 255 - 1) \<or> (0 \<le> n \<and> n \<le> 2 ^ 256 - 1)) then Inl BuilderError
       else Inr n)"

section \<open>Looking metadata up\<close>

text \<open>\<open>None\<close> is the code's \<^verbatim>\<open>_MISSING\<close>. A name in another case is an error.\<close>

definition find_metadata_field ::
  "(pystr \<Rightarrow> pystr) \<Rightarrow> (pystr \<times> vm_data) list \<Rightarrow> pystr \<Rightarrow> vm_data option result" where
  "find_metadata_field lower metadata name = (case find (\<lambda>kv. fst kv = name) metadata of
     Some kv \<Rightarrow> Inr (Some (snd kv))
   | None \<Rightarrow> if list_ex (\<lambda>kv. lower (fst kv) = lower name) metadata then Inl BuilderError else Inr None)"

definition metadata_bytes :: "(pystr \<Rightarrow> pystr) \<Rightarrow> (pystr \<times> vm_data) list \<Rightarrow> pystr \<Rightarrow> bytes result" where
  "metadata_bytes lower metadata name = rthen (find_metadata_field lower metadata name) (\<lambda>m.
     case m of None \<Rightarrow> Inr [] | Some x \<Rightarrow> ensure_metadata_bytes x)"

definition has_default_field :: "named_schema list \<Rightarrow> pystr \<Rightarrow> bool" where
  "has_default_field defaults name = list_ex (\<lambda>f. ns_name f = name) defaults"

definition metadata_struct_item :: "vm_data \<Rightarrow> (pystr \<times> vm_data) result" where
  "metadata_struct_item item = (case item of
     DNamed n \<Rightarrow> Inr (nv_name n, dv_data (nv_value n))
   | DList [key, x] \<Rightarrow> rthen (ensure_metadata_key key) (\<lambda>k. Inr (k, x))
   | _ \<Rightarrow> Inl BuilderError)"

definition metadata_struct_input_to_fields :: "vm_data \<Rightarrow> (pystr \<times> vm_data) list result" where
  "metadata_struct_input_to_fields x = (case x of
     DDict kvs \<Rightarrow> rmap (\<lambda>kv. rthen (ensure_metadata_key (fst kv)) (\<lambda>k. Inr (k, snd kv))) kvs
   | DList items \<Rightarrow> rmap metadata_struct_item items
   | _ \<Rightarrow> Inl BuilderError)"

section \<open>Coercion\<close>

text \<open>The branches of \<^verbatim>\<open>_coerce_metadata_value\<close> that do not look into struct schemas.\<close>

definition coerce_items :: "('a \<Rightarrow> vm_data) \<Rightarrow> (vm_data \<Rightarrow> 'a result) \<Rightarrow> vm_data \<Rightarrow> vm_data result" where
  "coerce_items c f x = rthen (ensure_metadata_sequence x) (\<lambda>xs. rthen (rmap f xs) (\<lambda>ys. Inr (DList (map c ys))))"

definition coerce_plain :: "vm_type \<Rightarrow> vm_data \<Rightarrow> vm_data result" where
  "coerce_plain ty x = (case ty of
     VM_BYTES \<Rightarrow> rthen (ensure_metadata_bytes x) (\<lambda>bs. Inr (DBytes bs))
   | VM_STRING \<Rightarrow> rthen (ensure_metadata_string x) (\<lambda>s. Inr (DStr s))
   | VM_INT8 \<Rightarrow> rthen (coerce_integer_for_vm_type 8 x) (\<lambda>n. Inr (DInt n))
   | VM_INT16 \<Rightarrow> rthen (coerce_integer_for_vm_type 16 x) (\<lambda>n. Inr (DInt n))
   | VM_INT32 \<Rightarrow> rthen (coerce_integer_for_vm_type 32 x) (\<lambda>n. Inr (DInt n))
   | VM_INT64 \<Rightarrow> rthen (coerce_integer_for_vm_type 64 x) (\<lambda>n. Inr (DInt n))
   | VM_INT256 \<Rightarrow> rthen (coerce_int256 x) (\<lambda>n. Inr (DInt n))
   | VM_BYTES16 \<Rightarrow> ensure_fixed_metadata_bytes 16 x
   | VM_BYTES32 \<Rightarrow> ensure_fixed_metadata_bytes 32 x
   | VM_BYTES64 \<Rightarrow> ensure_fixed_metadata_bytes 64 x
   | VM_ARRAY_DYNAMIC \<Rightarrow> rthen (ensure_metadata_sequence x) (\<lambda>xs.
       if \<not> list_all (\<lambda>y. as_var y \<noteq> None) xs then Inl BuilderError else Inr (DList xs))
   | VM_ARRAY_BYTES \<Rightarrow> coerce_items DBytes ensure_metadata_bytes x
   | VM_ARRAY_STRING \<Rightarrow> coerce_items DStr ensure_metadata_string x
   | VM_ARRAY_INT8 \<Rightarrow> coerce_items DInt (coerce_integer_for_vm_type 8) x
   | VM_ARRAY_INT16 \<Rightarrow> coerce_items DInt (coerce_integer_for_vm_type 16) x
   | VM_ARRAY_INT32 \<Rightarrow> coerce_items DInt (coerce_integer_for_vm_type 32) x
   | VM_ARRAY_INT64 \<Rightarrow> coerce_items DInt (coerce_integer_for_vm_type 64) x
   | VM_ARRAY_INT256 \<Rightarrow> coerce_items DInt coerce_int256 x
   | VM_ARRAY_BYTES16 \<Rightarrow> coerce_items id (ensure_fixed_metadata_bytes 16) x
   | VM_ARRAY_BYTES32 \<Rightarrow> coerce_items id (ensure_fixed_metadata_bytes 32) x
   | VM_ARRAY_BYTES64 \<Rightarrow> coerce_items id (ensure_fixed_metadata_bytes 64) x
   | _ \<Rightarrow> Inr x)"

text \<open>\<open>schema_size\<close> bounds the recursion: a struct schema inside a field is smaller than the schema around it.\<close>

definition schema_size :: "struct_schema option \<Rightarrow> nat" where
  "schema_size s = (case s of None \<Rightarrow> 0 | Some s \<Rightarrow> size s)"

function coerce_metadata_value :: "(pystr \<Rightarrow> pystr) \<Rightarrow> var_schema \<Rightarrow> vm_data \<Rightarrow> vm_data result"
  and coerce_metadata_struct :: "(pystr \<Rightarrow> pystr) \<Rightarrow> struct_schema option \<Rightarrow> vm_data \<Rightarrow> dyn_struct result"
  and metadata_dynamic_fields ::
    "(pystr \<Rightarrow> pystr) \<Rightarrow> struct_schema \<Rightarrow> named_schema list \<Rightarrow> (pystr \<times> vm_data) list \<Rightarrow> named_var list result" where
  "coerce_metadata_value lower schema x =
     (if x = DNone then Inl BuilderError
      else if vs_type schema = VM_STRUCT then
        rthen (coerce_metadata_struct lower (vs_struct schema) x) (\<lambda>s. Inr (DStruct s))
      else if vs_type schema = VM_ARRAY_STRUCT then
        (case as_struct_array x of Some p \<Rightarrow> Inr x
         | None \<Rightarrow> rthen (ensure_metadata_sequence x) (\<lambda>items.
             case vs_struct schema of None \<Rightarrow> Inl BuilderError
             | Some sc \<Rightarrow> rthen (rmap (\<lambda>item. coerce_metadata_struct lower (vs_struct schema) item) items) (\<lambda>ss.
                 Inr (DStructArray sc ss))))
      else coerce_plain (vs_type schema) x)"
| "coerce_metadata_struct lower schema x =
     (case as_struct x of Some s \<Rightarrow> Inr s
      | None \<Rightarrow> (case schema of None \<Rightarrow> Inl BuilderError
         | Some sc \<Rightarrow> rthen (metadata_struct_input_to_fields x) (\<lambda>provided.
             rthen (metadata_dynamic_fields lower sc [] provided) (\<lambda>out.
             if list_all (\<lambda>kv. lower (fst kv) \<in> set (map (\<lambda>f. lower (ns_name f)) (ss_fields sc))) provided
             then Inr (VMDynamicStruct out) else Inl BuilderError))))"
| "metadata_dynamic_fields lower schema defaults metadata =
     rthen (rmap (\<lambda>f.
       if has_default_field defaults (ns_name f) then Inr []
       else rthen (find_metadata_field lower metadata (ns_name f)) (\<lambda>m.
         case m of None \<Rightarrow> Inl BuilderError
         | Some x \<Rightarrow> if x = DNone then Inl BuilderError
             else rthen (coerce_metadata_value lower (ns_schema f) x) (\<lambda>y.
               Inr [VMNamedDynamicVariable (ns_name f) (VMDynamicVariable (vs_type (ns_schema f)) y)])))
       (ss_fields schema)) (\<lambda>parts. Inr (concat parts))"
  apply pat_completeness
  by (simp_all only: sum.inject sum.distinct prod.inject option.inject option.distinct HOL.simp_thms)

termination
proof (relation "measure (\<lambda>a. case a of
      Inl (lower, schema, x) \<Rightarrow> 2 * schema_size (vs_struct schema) + 1
    | Inr (Inl (lower, schema, x)) \<Rightarrow> 2 * schema_size schema
    | Inr (Inr (lower, schema, defaults, metadata)) \<Rightarrow> 2 * size schema - 1)", goal_cases)
  case (4 lower schema x sc provided)
  then show ?case by (cases sc) (simp add: schema_size_def)
next
  case (5 lower schema defaults metadata f m x)
  then show ?case
    using schema_field_weight [of f schema] by (simp add: schema_size_def split: option.splits)
qed (auto simp: schema_size_def split: option.splits)

declare coerce_metadata_value.simps [simp del] coerce_metadata_struct.simps [simp del]
  metadata_dynamic_fields.simps [simp del]

section \<open>Errors\<close>

text \<open>Coercion refuses a value with \<^verbatim>\<open>BuilderError\<close> and nothing else.\<close>

lemma decode_flexible_hex_error: "decode_flexible_hex s = Inl e \<Longrightarrow> e = BuilderError"
  by (auto simp: decode_flexible_hex_def Let_def dest: fromhex_error split: sum.splits if_splits)

lemma FixedBytes_ok: "length bs = n \<Longrightarrow> 0 < n \<Longrightarrow> FixedBytes n bs \<noteq> Inl e"
  by (simp add: FixedBytes_length)

lemma ensure_errors:
  "ensure_metadata_key x = Inl e \<Longrightarrow> e = BuilderError"
  "ensure_metadata_string x = Inl e \<Longrightarrow> e = BuilderError"
  "ensure_metadata_bytes x = Inl e \<Longrightarrow> e = BuilderError"
  "ensure_metadata_sequence x = Inl e \<Longrightarrow> e = BuilderError"
  "coerce_integer_for_vm_type k x = Inl e \<Longrightarrow> e = BuilderError"
  "coerce_int256 x = Inl e \<Longrightarrow> e = BuilderError"
  by (auto simp: ensure_metadata_key_def ensure_metadata_string_def ensure_metadata_bytes_def
      ensure_metadata_sequence_def coerce_integer_for_vm_type_def coerce_int256_def ensure_metadata_integer_def
      rthen_Inl_iff Let_def dest: decode_flexible_hex_error split: vm_data.splits option.splits if_splits)

lemma ensure_fixed_error: "0 < n \<Longrightarrow> ensure_fixed_metadata_bytes n x = Inl e \<Longrightarrow> e = BuilderError"
  using FixedBytes_ok ensure_errors(3)
  by (fastforce simp: ensure_fixed_metadata_bytes_def rthen_Inl_iff split: if_splits)

lemma find_metadata_error: "find_metadata_field lower metadata name = Inl e \<Longrightarrow> e = BuilderError"
  by (auto simp: find_metadata_field_def split: option.splits if_splits)

lemma coerce_items_error:
  "(\<And>x e. f x = Inl e \<Longrightarrow> e = BuilderError) \<Longrightarrow> coerce_items c f x = Inl e \<Longrightarrow> e = BuilderError"
  by (auto simp: coerce_items_def rthen_Inl_iff dest!: rmap_error dest: ensure_errors(4))

lemma coerce_plain_error: "coerce_plain ty x = Inl e \<Longrightarrow> e = BuilderError"
  by (cases ty) (auto simp: coerce_plain_def rthen_Inl_iff dest!: ensure_errors ensure_fixed_error [rotated]
      coerce_items_error [rotated] split: if_splits)

lemma struct_input_error: "metadata_struct_input_to_fields x = Inl e \<Longrightarrow> e = BuilderError"
proof -
  have item: "metadata_struct_item y = Inl e' \<Longrightarrow> e' = BuilderError" for y e'
    by (auto simp: metadata_struct_item_def rthen_Inl_iff dest: ensure_errors(1)
        split: vm_data.splits list.splits)
  show "metadata_struct_input_to_fields x = Inl e \<Longrightarrow> e = BuilderError"
    by (cases x) (auto simp: metadata_struct_input_to_fields_def rthen_Inl_iff dest!: rmap_error item
        dest: ensure_errors(1))
qed

lemma coerce_errors:
  "coerce_metadata_value lower schema x = Inl e \<Longrightarrow> e = BuilderError"
  "coerce_metadata_struct lower sd x = Inl e \<Longrightarrow> e = BuilderError"
  "metadata_dynamic_fields lower sc defaults metadata = Inl e \<Longrightarrow> e = BuilderError"
proof (induction lower schema x and lower sd x and lower sc defaults metadata arbitrary: e and e and e
    rule: coerce_metadata_value_coerce_metadata_struct_metadata_dynamic_fields.induct)
  case (1 lower schema x)
  from 1(3) show ?case
    by (subst (asm) coerce_metadata_value.simps)
      (auto simp: rthen_Inl_iff dest!: rmap_error coerce_plain_error ensure_errors(4) intro: 1(1,2)
        split: if_splits option.splits)
next
  case (2 lower sd x)
  from 2(2) show ?case
    by (subst (asm) coerce_metadata_struct.simps)
      (auto simp: rthen_Inl_iff dest!: struct_input_error intro: 2(1) split: if_splits option.splits)
next
  case (3 lower sc defaults metadata)
  from 3(2) obtain f where f: "f \<in> set (ss_fields sc)" "\<not> has_default_field defaults (ns_name f)"
    and "rthen (find_metadata_field lower metadata (ns_name f)) (\<lambda>m.
         case m of None \<Rightarrow> Inl BuilderError
         | Some x \<Rightarrow> if x = DNone then Inl BuilderError
             else rthen (coerce_metadata_value lower (ns_schema f) x) (\<lambda>y.
               Inr [VMNamedDynamicVariable (ns_name f) (VMDynamicVariable (vs_type (ns_schema f)) y)])) = Inl e"
    by (subst (asm) metadata_dynamic_fields.simps)
      (auto simp: rthen_Inl_iff [of "rmap _ _"] dest!: rmap_error split: if_splits)
  then consider "find_metadata_field lower metadata (ns_name f) = Inl e" | "e = BuilderError"
    | x where "find_metadata_field lower metadata (ns_name f) = Inr (Some x)" "x \<noteq> DNone"
      "coerce_metadata_value lower (ns_schema f) x = Inl e"
    by (auto simp: rthen_Inl_iff split: option.splits if_splits)
  then show ?case
    by cases (use 3(1) [OF f] in \<open>auto dest: find_metadata_error\<close>)
qed

section \<open>What coerced values read back as\<close>

text \<open>Types whose values hold no further variables.\<close>

definition flat_type :: "vm_type \<Rightarrow> bool" where
  "flat_type ty \<longleftrightarrow> ty \<notin> {VM_DYNAMIC, VM_STRUCT, VM_ARRAY_DYNAMIC, VM_ARRAY_STRUCT}"

text \<open>
  An 8-bit number is written as its low byte and a 256-bit number as its word: both are read back as the signed
  number of that width. Every other value of the class its type asks for is read back as it is.
\<close>

fun map_int :: "(int \<Rightarrow> int) \<Rightarrow> vm_data \<Rightarrow> vm_data" where
  "map_int f (DInt n) = DInt (f n)"
| "map_int f (DList xs) = DList (map (map_int f) xs)"
| "map_int f x = x"

definition read_back_as :: "vm_type \<Rightarrow> vm_data \<Rightarrow> vm_data" where
  "read_back_as ty x =
     (if ty = VM_INT8 \<or> ty = VM_ARRAY_INT8 then map_int (int_element_value 1 True) x
      else if ty = VM_INT256 \<or> ty = VM_ARRAY_INT256 then map_int wrap256 x
      else x)"

definition of_class :: "vm_type \<Rightarrow> vm_data \<Rightarrow> bool" where
  "of_class ty x =
     (if ty = VM_INT8 \<or> ty = VM_INT256 then int_in (\<lambda>_. True) x
      else if ty = VM_ARRAY_INT8 \<or> ty = VM_ARRAY_INT256 then all_items (int_in (\<lambda>_. True)) x
      else plain_ok ty x)"

lemma map_map_int: "map_int f \<circ> DInt = DInt \<circ> f"
  by (simp add: fun_eq_iff)

lemma rt_of_class:
  assumes "of_class ty x"
  shows "rt (write_plain py_text ty x) (read_plain ty) (read_back_as ty x)"
proof -
  have true: "list_all (\<lambda>_. True) ns" for ns :: "int list" by (simp add: list_all_iff)
  consider (i8) "ty = VM_INT8" | (i256) "ty = VM_INT256" | (a8) "ty = VM_ARRAY_INT8" | (a256) "ty = VM_ARRAY_INT256"
    | (other) "ty \<notin> {VM_INT8, VM_INT256, VM_ARRAY_INT8, VM_ARRAY_INT256}" by blast
  then show ?thesis
  proof cases
    case i8
    with assms obtain n where x: "x = DInt n" by (auto simp: of_class_def item_shapes)
    let ?m = "int_element_value 1 True n"
    have m: "int8 ?m" "?m mod 256 = n mod 256"
      by (auto simp: int_element_value_def int8_def mod_diff_left_eq [symmetric] minus_mod_self2)
    have a: "k AND 0xFF = k mod 256" for k :: int
      using take_bit_eq_mask [of 8 k] by (simp add: mask_eq_exp_minus_1 take_bit_eq_mod)
    have "rt (write1 (?m AND 0xFF)) (read_plain VM_INT8) (DInt ?m)" by (rule rt_int8 [OF m(1)])
    then show ?thesis using m(2) by (simp add: i8 x a write_scalar_typed read_back_as_def)
  next
    case i256
    with assms obtain n where x: "x = DInt n" by (auto simp: of_class_def item_shapes)
    show ?thesis
      using rt_read_as [OF rt_big_int_wrap refl, of n DInt]
      by (simp add: i256 x write_scalar_typed read_back_as_def read_plain_def)
  next
    case a8
    with assms obtain ns where x: "x = DList (map DInt ns)" by (auto simp: of_class_def item_list_shapes)
    show ?thesis
      using rt_read_as [OF rt_int_array refl, of ns 1 True "\<lambda>xs. DList (map DInt xs)"]
      by (simp only: a8 x write_array_typed) (simp add: read_back_as_def read_plain_def map_map_int)
  next
    case a256
    with assms obtain ns where x: "x = DList (map DInt ns)" by (auto simp: of_class_def item_list_shapes)
    show ?thesis
      using rt_read_as [OF rt_big_int_array refl, of ns "\<lambda>xs. DList (map DInt xs)"]
      by (simp only: a256 x write_array_typed) (simp add: read_back_as_def read_plain_def map_map_int)
  next
    case other
    then show ?thesis using assms by (auto simp: of_class_def read_back_as_def intro: rt_plain)
  qed
qed

text \<open>A \<^verbatim>\<open>Bytes16\<close> object holds 16 bytes, and so on: the constructor sees to it.\<close>

fun fixed_sizes :: "vm_data \<Rightarrow> bool" where
  "fixed_sizes (DBytes16 bs) \<longleftrightarrow> length bs = 16"
| "fixed_sizes (DBytes32 bs) \<longleftrightarrow> length bs = 32"
| "fixed_sizes (DBytes64 bs) \<longleftrightarrow> length bs = 64"
| "fixed_sizes (DList xs) \<longleftrightarrow> list_all fixed_sizes xs"
| "fixed_sizes _ \<longleftrightarrow> True"

lemma ensure_fixed_sizes:
  "n \<in> {16, 32, 64} \<Longrightarrow> fixed_sizes x \<Longrightarrow> ensure_fixed_metadata_bytes n x = Inr y \<Longrightarrow> is_fixed n y"
  by (auto simp: ensure_fixed_metadata_bytes_def is_fixed_class_def fixed_object_def rthen_Inr_iff
      dest: FixedBytes_Inr split: if_splits vm_data.splits)

lemma rmap_sizes:
  "rmap (ensure_fixed_metadata_bytes n) xs = Inr ys \<Longrightarrow> n \<in> {16, 32, 64} \<Longrightarrow> list_all fixed_sizes xs \<Longrightarrow>
   list_all (is_fixed n) ys"
  by (induction xs arbitrary: ys) (auto 0 4 simp: rthen_Inr_iff intro: ensure_fixed_sizes [rotated])

lemma coerce_plain_class:
  assumes "flat_type ty" "fixed_sizes x" "coerce_plain ty x = Inr y"
  shows "of_class ty y"
proof -
  show ?thesis
    using assms
    by (cases ty) (auto simp: flat_type_def coerce_plain_def of_class_def plain_ok_def coerce_items_def
        rthen_Inr_iff all_items_def list_all_iff ensure_metadata_sequence_def
        dest!: rmap_sizes [of 16] rmap_sizes [of 32] rmap_sizes [of 64]
        dest: ensure_fixed_sizes [of 16, rotated 2] ensure_fixed_sizes [of 32, rotated 2] ensure_fixed_sizes [of 64, rotated 2]
        split: vm_data.splits)
qed

text \<open>
  A value written under a field of a schema and read back as \<open>read_back_as\<close> says: of a flat type, a value of its class;
  of a nested type (structs, dynamic values, arrays of them), a value that comes back unchanged within the recursion
  allowance.
\<close>

definition value_fits :: "nat \<Rightarrow> var_schema \<Rightarrow> vm_data \<Rightarrow> bool" where
  "value_fits depth sc y \<longleftrightarrow>
     (if flat_type (vs_type sc) then of_class (vs_type sc) y else static_ok depth (vs_type sc) (vs_struct sc) y)"

lemma read_back_nested: "\<not> flat_type ty \<Longrightarrow> read_back_as ty y = y"
  by (auto simp: flat_type_def read_back_as_def)

lemma rt_fitting_schema:
  assumes cls: "\<And>f. f \<in> set (ss_fields schema) \<Longrightarrow> value_fits (Suc d) (ns_schema f) (g f)"
    and val: "\<And>f. f \<in> set (ss_fields schema) \<Longrightarrow> static_value (vs_type (ns_schema f)) (field_value s f) = g f"
    and ex: "struct_extras schema s = []"
  shows "rt (snd (write_with_schema py_text (Some schema) s)) (read_with_schema (Suc (Suc d)) (Some schema))
    (struct_sort (VMDynamicStruct (map (\<lambda>f. VMNamedDynamicVariable (ns_name f)
      (VMDynamicVariable (vs_type (ns_schema f)) (read_back_as (vs_type (ns_schema f)) (g f)))) (ss_fields schema))))"
proof -
  let ?var = "\<lambda>f. VMNamedDynamicVariable (ns_name f)
      (VMDynamicVariable (vs_type (ns_schema f)) (read_back_as (vs_type (ns_schema f)) (g f)))"
  have fld: "rt (snd (write_field py_text s f))
      (rbind (read_static (Suc d) (vs_type (ns_schema f)) (vs_struct (ns_schema f))) (\<lambda>x.
        rret (VMNamedDynamicVariable (ns_name f) (VMDynamicVariable (vs_type (ns_schema f)) x)))) (?var f)"
    if f: "f \<in> set (ss_fields schema)" for f
  proof -
    have "rt (snd (write_field py_text s f)) (read_static (Suc d) (vs_type (ns_schema f)) (vs_struct (ns_schema f)))
        (read_back_as (vs_type (ns_schema f)) (g f))"
    proof (cases "flat_type (vs_type (ns_schema f))")
      case True
      then have "rt (write_plain py_text (vs_type (ns_schema f)) (g f)) (read_plain (vs_type (ns_schema f)))
          (read_back_as (vs_type (ns_schema f)) (g f))"
        using cls [OF f] by (intro rt_of_class) (simp add: value_fits_def)
      then show ?thesis using True val [OF f] by (simp add: write_field_def write_static_cases flat_type_def)
    next
      case False
      then have "static_ok (Suc d) (vs_type (ns_schema f)) (vs_struct (ns_schema f))
          (static_value (vs_type (ns_schema f)) (field_value s f))"
        using cls [OF f] val [OF f] by (simp add: value_fits_def del: static_ok.simps)
      from rt_dyn(2) [OF this] show ?thesis
        using val [OF f] False by (simp add: write_field_def read_back_nested del: read_static.simps)
    qed
    then show ?thesis by (rule rt_map) simp
  qed
  have extras: "rt (wseq (extras_tail py_text schema s))
      (if odd (ss_flags schema) then read_carbon_array (read_named_dyn (Suc d)) else rret []) []"
    using rt_extras [of schema s py_text "read_named_dyn (Suc d)"] ex by simp
  have "rt (wseq (extras_tail py_text schema s))
      (rbind (if odd (ss_flags schema) then read_carbon_array (read_named_dyn (Suc d)) else rret [])
        (\<lambda>extras. rret (struct_sort (VMDynamicStruct (map ?var (ss_fields schema) @ extras)))))
      (struct_sort (VMDynamicStruct (map ?var (ss_fields schema))))"
    by (rule rt_map [OF extras]) simp
  then show ?thesis
    unfolding write_with_schema_some read_with_schema.simps snd_conv
    by (rule rt_append [where y = "map ?var (ss_fields schema)", rotated]) (rule rt_each [OF fld])
qed

text \<open>The fields \<^verbatim>\<open>_metadata_dynamic_fields_for_schema\<close> makes: one for each field without a default.\<close>

lemma coerce_flat_class:
  assumes "flat_type (vs_type sc)" "fixed_sizes x" "coerce_metadata_value lower sc x = Inr y"
  shows "of_class (vs_type sc) y"
proof -
  have "coerce_plain (vs_type sc) x = Inr y"
    using assms(1,3) by (auto simp: coerce_metadata_value.simps flat_type_def split: if_splits)
  with coerce_plain_class [OF assms(1,2)] show ?thesis by blast
qed

lemma metadata_fields_given:
  assumes "metadata_dynamic_fields lower schema defaults metadata = Inr vars"
  obtains g where "\<And>f. f \<in> set (ss_fields schema) \<Longrightarrow> \<not> has_default_field defaults (ns_name f) \<Longrightarrow>
       \<exists>x. map_of metadata (ns_name f) = Some x \<and> coerce_metadata_value lower (ns_schema f) x = Inr (g f)"
    and "vars = map (\<lambda>f. VMNamedDynamicVariable (ns_name f) (VMDynamicVariable (vs_type (ns_schema f)) (g f)))
       (filter (\<lambda>f. \<not> has_default_field defaults (ns_name f)) (ss_fields schema))"
proof -
  let ?step = "\<lambda>f. if has_default_field defaults (ns_name f) then Inr [] else
         rthen (find_metadata_field lower metadata (ns_name f)) (\<lambda>m.
         case m of None \<Rightarrow> Inl BuilderError
         | Some x \<Rightarrow> if x = DNone then Inl BuilderError
             else rthen (coerce_metadata_value lower (ns_schema f) x) (\<lambda>y.
               Inr [VMNamedDynamicVariable (ns_name f) (VMDynamicVariable (vs_type (ns_schema f)) y)]))"
  define g where "g f = projr (coerce_metadata_value lower (ns_schema f) (the (map_of metadata (ns_name f))))" for f
  let ?var = "\<lambda>f. VMNamedDynamicVariable (ns_name f) (VMDynamicVariable (vs_type (ns_schema f)) (g f))"
  let ?part = "\<lambda>f. if has_default_field defaults (ns_name f) then [] else [?var f]"
  have find: "map_option snd (find (\<lambda>kv. fst kv = name) kvs) = map_of kvs name" for name and kvs :: "(pystr \<times> vm_data) list"
    by (induction kvs) auto
  have step: "ys = ?part f \<and> (\<not> has_default_field defaults (ns_name f) \<longrightarrow> (\<exists>x. map_of metadata (ns_name f) = Some x \<and>
      coerce_metadata_value lower (ns_schema f) x = Inr (g f)))" if "?step f = Inr ys" for f ys
    using that find [of "ns_name f" metadata]
    by (auto simp: rthen_Inr_iff find_metadata_field_def g_def split: option.splits if_splits)
  from assms obtain parts where p: "rmap ?step (ss_fields schema) = Inr parts" "vars = concat parts"
    by (auto simp: metadata_dynamic_fields.simps rthen_Inr_iff [of "rmap _ _"])
  have q: "parts = map ?part (ss_fields schema) \<and> (\<forall>f \<in> set (ss_fields schema).
      \<not> has_default_field defaults (ns_name f) \<longrightarrow>
      (\<exists>x. map_of metadata (ns_name f) = Some x \<and> coerce_metadata_value lower (ns_schema f) x = Inr (g f)))"
    by (rule rmap_determined [OF p(1) step])
  have "concat (map ?part fs) = map ?var (filter (\<lambda>f. \<not> has_default_field defaults (ns_name f)) fs)" for fs
    by (induction fs) auto
  then show ?thesis using that [of g] p(2) q by simp
qed

text \<open>
  Written under a schema that names every field of the struct, no name twice, a struct comes back with its values
  as they are read. \<open>fits\<close> says that a struct has a value of the right type that fits for each field, and nothing else.
\<close>

definition fits :: "nat \<Rightarrow> struct_schema \<Rightarrow> dyn_struct \<Rightarrow> bool" where
  "fits depth schema s \<longleftrightarrow> struct_extras schema s = [] \<and> list_all (\<lambda>f. case struct_get s (ns_name f) of None \<Rightarrow> False
     | Some v \<Rightarrow> dv_type v = vs_type (ns_schema f) \<and> value_fits depth (ns_schema f) (dv_data v)) (ss_fields schema)"

definition read_var :: "dyn_var \<Rightarrow> dyn_var" where
  "read_var v = VMDynamicVariable (dv_type v) (read_back_as (dv_type v) (dv_data v))"

lemma struct_reads_back:
  assumes names: "distinct (map ns_name (ss_fields schema))" and fits: "fits (Suc d) schema s"
    and w: "write_dynamic_struct_with_schema py_text s schema = Inr bs"
  obtains t where "deserialize (read_with_schema (Suc (Suc d)) (Some schema)) bs = Inr t"
    and "struct_map t = (\<lambda>name. if schema_has_field schema name then map_option read_var (struct_get s name) else None)"
proof -
  define g where "g f = dv_data (the (struct_get s (ns_name f)))" for f
  let ?var = "\<lambda>f. VMNamedDynamicVariable (ns_name f)
      (VMDynamicVariable (vs_type (ns_schema f)) (read_back_as (vs_type (ns_schema f)) (g f)))"
  let ?t = "struct_sort (VMDynamicStruct (map ?var (ss_fields schema)))"
  have f: "struct_get s (ns_name f) = Some (VMDynamicVariable (vs_type (ns_schema f)) (g f)) \<and>
      value_fits (Suc d) (ns_schema f) (g f)" if "f \<in> set (ss_fields schema)" for f
  proof -
    from fits that obtain v where "struct_get s (ns_name f) = Some v" "dv_type v = vs_type (ns_schema f)"
      "value_fits (Suc d) (ns_schema f) (dv_data v)"
      by (auto simp: fits_def list_all_iff split: option.splits)
    then show ?thesis by (cases v) (simp add: g_def)
  qed
  have "rt (snd (write_with_schema py_text (Some schema) s)) (read_with_schema (Suc (Suc d)) (Some schema)) ?t"
    using f fits by (intro rt_fitting_schema) (auto simp: field_value_def static_value_def fits_def)
  then have r: "deserialize (read_with_schema (Suc (Suc d)) (Some schema)) bs = Inr ?t"
    using w by (simp add: write_dynamic_struct_eq rt_deserialize)
  have m: "struct_map ?t = struct_map (VMDynamicStruct (map ?var (ss_fields schema)))"
    using names by (intro struct_sort_map) (simp add: comp_def)
  have "struct_map (VMDynamicStruct (map ?var fs)) name =
      (if name \<in> ns_name ` set fs then map_option read_var (struct_get s name) else None)"
    if "set fs \<subseteq> set (ss_fields schema)" for fs name
    using that f by (induction fs) (auto simp: struct_map_def read_var_def)
  from this [of "ss_fields schema"] have "struct_map ?t =
      (\<lambda>name. if schema_has_field schema name then map_option read_var (struct_get s name) else None)"
    unfolding m by (auto simp: fun_eq_iff schema_has_field_def list_ex_iff)
  with r show ?thesis by (rule that)
qed

section \<open>Integers\<close>

definition int_bits :: "vm_type \<Rightarrow> nat option" where
  "int_bits ty = (case ty of VM_INT8 \<Rightarrow> Some 8 | VM_INT16 \<Rightarrow> Some 16 | VM_INT32 \<Rightarrow> Some 32 | VM_INT64 \<Rightarrow> Some 64
     | VM_INT256 \<Rightarrow> Some 256 | _ \<Rightarrow> None)"

lemma int_bits_cases:
  assumes "int_bits ty = Some k"
  obtains "ty = VM_INT8" "k = 8" | "ty = VM_INT16" "k = 16" | "ty = VM_INT32" "k = 32" | "ty = VM_INT64" "k = 64"
    | "ty = VM_INT256" "k = 256"
  using assms by (cases ty) (simp_all add: int_bits_def)

lemma wrap256_upper: "2 ^ 255 \<le> n \<Longrightarrow> n < 2 ^ 256 \<Longrightarrow> wrap256 n = n - 2 ^ 256"
proof -
  assume n: "2 ^ 255 \<le> n" "n < 2 ^ 256"
  have "le_bytes 32 n = le_bytes 32 (n - 2 ^ 256)" by (simp add: le_bytes_eq_iff)
  then have "wrap256 n = wrap256 (n - 2 ^ 256)" by (simp add: wrap256_def)
  also have "\<dots> = n - 2 ^ 256" by (rule wrap256_id) (use n in \<open>simp add: int256_def\<close>)
  finally show ?thesis .
qed

lemma int8_element:
  assumes "- 128 \<le> n" "n < 256"
  shows "int_element_value 1 True n = (if n < 128 then n else n - 256)"
proof (cases "0 \<le> n")
  case True
  with assms show ?thesis by (simp add: int_element_value_def)
next
  case False
  have "n mod 256 = (n + 256) mod 256" by simp
  also have "\<dots> = n + 256" using assms False by (intro mod_pos_pos_trivial) simp_all
  finally show ?thesis using assms False by (simp add: int_element_value_def)
qed

definition signed_value :: "nat \<Rightarrow> int \<Rightarrow> int" where
  "signed_value k n = (if n < 2 ^ (k - 1) then n else n - 2 ^ k)"

lemma coerce_plain_int:
  assumes "int_bits ty = Some k"
  shows "coerce_plain ty (DInt n) =
    (if - (2 ^ (k - 1)) \<le> n \<and> n < 2 ^ k
     then Inr (DInt (if ty = VM_INT8 \<or> ty = VM_INT256 then n else signed_value k n)) else Inl BuilderError)"
  using assms
  by (cases rule: int_bits_cases)
    (auto simp: coerce_plain_def coerce_integer_for_vm_type_def coerce_int256_def ensure_metadata_integer_def
      signed_value_def)

lemma int_read_back:
  assumes "int_bits ty = Some k" "- (2 ^ (k - 1)) \<le> n" "n < 2 ^ k"
  shows "read_back_as ty (DInt (if ty = VM_INT8 \<or> ty = VM_INT256 then n else signed_value k n)) = DInt (signed_value k n)"
  using assms(1)
proof (cases rule: int_bits_cases)
  case 1
  with assms show ?thesis by (simp add: read_back_as_def int8_element signed_value_def)
next
  case 5
  with assms(2,3) have "wrap256 n = signed_value 256 n"
    by (cases "n < 2 ^ 255") (simp_all add: signed_value_def wrap256_upper wrap256_id int256_def)
  with 5 show ?thesis by (simp add: read_back_as_def)
qed (simp_all add: read_back_as_def)

lemma int_of_class:
  assumes "int_bits ty = Some k" "- (2 ^ (k - 1)) \<le> n" "n < 2 ^ k"
  shows "of_class ty (DInt (if ty = VM_INT8 \<or> ty = VM_INT256 then n else signed_value k n))"
  using assms by (cases rule: int_bits_cases) (simp_all add: of_class_def plain_ok_def signed_value_def)

lemma int_written:
  assumes "int_bits ty = Some k" "- (2 ^ (k - 1)) \<le> n" "n < 2 ^ k"
  shows "\<exists>bs. serialize (write_plain py_text ty (DInt (if ty = VM_INT8 \<or> ty = VM_INT256 then n else signed_value k n))) = Inr bs"
  using assms(1)
proof (cases rule: int_bits_cases)
  case 1
  have "n AND 0xFF = n mod 256"
    using take_bit_eq_mask [of 8 n] by (simp add: mask_eq_exp_minus_1 take_bit_eq_mod)
  with 1 show ?thesis by (simp add: write_scalar_typed serialize_ints not_less)
next
  case 5
  have "\<bar>n\<bar> < 2 ^ 256" using assms(2,3) 5 by (cases "0 \<le> n") simp_all
  then have "serialize (write_big_int n) \<noteq> Inl e" for e by (simp add: write_big_int_written)
  then obtain bs where "serialize (write_big_int n) = Inr bs" by (cases "serialize (write_big_int n)") auto
  with 5 show ?thesis by (simp add: write_scalar_typed)
qed (use assms in \<open>simp_all add: write_scalar_typed serialize_ints signed_value_def\<close>)

text \<open>C31: A metadata integer is accepted for a field of k bits exactly from -2^(k-1) up to 2^k - 1. What is
  accepted can always be written in that width, and reads back as the signed number with the same low k bits;
  anything else is refused with a builder error.\<close>

theorem metadata_integer_fits:
  assumes "int_bits ty = Some k"
  shows "if - (2 ^ (k - 1)) \<le> n \<and> n < 2 ^ k
    then \<exists>m bs. coerce_plain ty (DInt n) = Inr (DInt m) \<and> serialize (write_plain py_text ty (DInt m)) = Inr bs \<and>
      deserialize (read_plain ty) bs = Inr (DInt (signed_value k n))
    else coerce_plain ty (DInt n) = Inl BuilderError"
proof (cases "- (2 ^ (k - 1)) \<le> n \<and> n < 2 ^ k")
  case True
  let ?m = "if ty = VM_INT8 \<or> ty = VM_INT256 then n else signed_value k n"
  from int_written [OF assms] True obtain bs where bs: "serialize (write_plain py_text ty (DInt ?m)) = Inr bs" by blast
  from True have "of_class ty (DInt ?m)" by (intro int_of_class [OF assms]) simp_all
  note r = rt_deserialize [OF rt_of_class [OF this] bs]
  have "coerce_plain ty (DInt n) = Inr (DInt ?m)" using True by (simp add: coerce_plain_int [OF assms])
  moreover have "deserialize (read_plain ty) bs = Inr (DInt (signed_value k n))"
    using r int_read_back [OF assms, of n] True by simp
  ultimately show ?thesis using True bs by auto
next
  case False
  then have "coerce_plain ty (DInt n) = Inl BuilderError" unfolding coerce_plain_int [OF assms] by (rule if_not_P)
  with False show ?thesis by (simp only: if_False)
qed

theorem metadata_integer_fits_witness:
  "\<exists>m bs. coerce_plain VM_INT32 (DInt 4294967295) = Inr (DInt m) \<and>
     serialize (write_plain (\<lambda>_. []) VM_INT32 (DInt m)) = Inr bs \<and>
     deserialize (read_plain VM_INT32) bs = Inr (DInt (- 1))"
  using metadata_integer_fits [of VM_INT32 32 4294967295 "\<lambda>_. []"] by (simp add: int_bits_def signed_value_def)

end
