(* ===== verification/TokenBuilder.thy ===== *)
theory TokenBuilder
  imports Metadata CarbonSign Json
begin

text \<open>
  The token, series and NFT builders of \<^verbatim>\<open>carbon.py\<close>: the standard schemas and their check, token and
  series descriptions, the ROM of an NFT, the transactions that create and mint, and the parsers of their
  results. The clock (\<open>now\<close>, in milliseconds), \<^verbatim>\<open>str.lower\<close> (\<open>lower\<close>), \<^verbatim>\<open>json.loads\<close> and the test whether
  \<^verbatim>\<open>base64.b64decode\<close> accepts a text are parameters of the functions that use them.
\<close>

unbundle bit_operations_syntax

section \<open>Standard schemas\<close>

definition STANDARD_META_ID :: pystr where
  "STANDARD_META_ID = str ''_i''"

definition schema_field :: "pystr \<Rightarrow> vm_type \<Rightarrow> named_schema" where
  "schema_field name ty = VMNamedVariableSchema name (VMVariableSchema ty None)"

definition standard_series_fields :: "named_schema list" where
  "standard_series_fields = [
     schema_field STANDARD_META_ID VM_INT256,
     schema_field (str ''mode'') VM_INT8,
     schema_field (str ''rom'') VM_BYTES]"

definition standard_nft_fields :: "named_schema list" where
  "standard_nft_fields = [
     schema_field STANDARD_META_ID VM_INT256,
     schema_field (str ''rom'') VM_BYTES]"

definition standard_metadata_fields :: "named_schema list" where
  "standard_metadata_fields = [
     schema_field (str ''name'') VM_STRING,
     schema_field (str ''description'') VM_STRING,
     schema_field (str ''imageURL'') VM_STRING,
     schema_field (str ''infoURL'') VM_STRING,
     schema_field (str ''royalties'') VM_INT32]"

definition DYNAMIC_EXTRAS :: int where
  "DYNAMIC_EXTRAS = 1"

definition prepare_standard_token_schemas :: "bool \<Rightarrow> TokenSchemas" where
  "prepare_standard_token_schemas shared_metadata = \<lparr>
     ts_series_metadata = VMStructSchema
       (standard_series_fields @ (if shared_metadata then standard_metadata_fields else [])) 0,
     ts_rom = VMStructSchema
       (standard_nft_fields @ (if shared_metadata then [] else standard_metadata_fields)) 0,
     ts_ram = VMStructSchema [] DYNAMIC_EXTRAS\<rparr>"

definition serialize_token_schemas :: "TokenSchemas \<Rightarrow> bytes result" where
  "serialize_token_schemas schemas = serialize (write_TokenSchemas schemas)"

definition serialize_token_schemas_hex :: "TokenSchemas \<Rightarrow> pystr result" where
  "serialize_token_schemas_hex schemas =
     rthen (serialize_token_schemas schemas) (\<lambda>bs. Inr (ascii_upper (bytes_hex bs)))"

definition build_and_serialize_token_schemas :: "TokenSchemas option \<Rightarrow> bytes result" where
  "build_and_serialize_token_schemas schemas = serialize_token_schemas
     (case schemas of Some s \<Rightarrow> s | None \<Rightarrow> prepare_standard_token_schemas False)"

section \<open>Names of VM types\<close>

definition vm_type_name_map :: "(string \<times> vm_type) list" where
  "vm_type_name_map = [
     (''Dynamic'', VM_DYNAMIC), (''Array'', VM_ARRAY_DYNAMIC), (''Bytes'', VM_BYTES), (''Struct'', VM_STRUCT),
     (''Int8'', VM_INT8), (''Int16'', VM_INT16), (''Int32'', VM_INT32), (''Int64'', VM_INT64),
     (''Int256'', VM_INT256), (''Bytes16'', VM_BYTES16), (''Bytes32'', VM_BYTES32), (''Bytes64'', VM_BYTES64),
     (''String'', VM_STRING), (''Array_Dynamic'', VM_ARRAY_DYNAMIC), (''Array_Bytes'', VM_ARRAY_BYTES),
     (''Array_Struct'', VM_ARRAY_STRUCT), (''Array_Int8'', VM_ARRAY_INT8), (''Array_Int16'', VM_ARRAY_INT16),
     (''Array_Int32'', VM_ARRAY_INT32), (''Array_Int64'', VM_ARRAY_INT64), (''Array_Int256'', VM_ARRAY_INT256),
     (''Array_Bytes16'', VM_ARRAY_BYTES16), (''Array_Bytes32'', VM_ARRAY_BYTES32),
     (''Array_Bytes64'', VM_ARRAY_BYTES64), (''Array_String'', VM_ARRAY_STRING),
     (''ArrayDynamic'', VM_ARRAY_DYNAMIC), (''ArrayBytes'', VM_ARRAY_BYTES), (''ArrayStruct'', VM_ARRAY_STRUCT),
     (''ArrayInt8'', VM_ARRAY_INT8), (''ArrayInt16'', VM_ARRAY_INT16), (''ArrayInt32'', VM_ARRAY_INT32),
     (''ArrayInt64'', VM_ARRAY_INT64), (''ArrayInt256'', VM_ARRAY_INT256), (''ArrayBytes16'', VM_ARRAY_BYTES16),
     (''ArrayBytes32'', VM_ARRAY_BYTES32), (''ArrayBytes64'', VM_ARRAY_BYTES64),
     (''ArrayString'', VM_ARRAY_STRING)]"

definition vm_type_canonical_names :: "(vm_type \<times> string) list" where
  "vm_type_canonical_names = [
     (VM_DYNAMIC, ''Dynamic''), (VM_ARRAY_DYNAMIC, ''Array''), (VM_BYTES, ''Bytes''), (VM_STRUCT, ''Struct''),
     (VM_INT8, ''Int8''), (VM_INT16, ''Int16''), (VM_INT32, ''Int32''), (VM_INT64, ''Int64''),
     (VM_INT256, ''Int256''), (VM_BYTES16, ''Bytes16''), (VM_BYTES32, ''Bytes32''), (VM_BYTES64, ''Bytes64''),
     (VM_STRING, ''String''), (VM_ARRAY_BYTES, ''Array_Bytes''), (VM_ARRAY_STRUCT, ''Array_Struct''),
     (VM_ARRAY_INT8, ''Array_Int8''), (VM_ARRAY_INT16, ''Array_Int16''), (VM_ARRAY_INT32, ''Array_Int32''),
     (VM_ARRAY_INT64, ''Array_Int64''), (VM_ARRAY_INT256, ''Array_Int256''),
     (VM_ARRAY_BYTES16, ''Array_Bytes16''), (VM_ARRAY_BYTES32, ''Array_Bytes32''),
     (VM_ARRAY_BYTES64, ''Array_Bytes64''), (VM_ARRAY_STRING, ''Array_String'')]"

definition vm_type_from_string :: "pystr \<Rightarrow> vm_type result" where
  "vm_type_from_string value =
     (case map_of (map (\<lambda>(n, t). (str n, t)) vm_type_name_map) (py_strip value) of
        None \<Rightarrow> Inl BuilderError | Some t \<Rightarrow> Inr t)"

definition vm_type_name :: "vm_type \<Rightarrow> pystr result" where
  "vm_type_name ty = (case map_of vm_type_canonical_names ty of None \<Rightarrow> Inl BuilderError | Some n \<Rightarrow> Inr (str n))"

section \<open>Schemas from field declarations\<close>

record TokenSchemaField =
  tf_name :: pystr
  tf_type :: vm_type

record TokenSchemasJSON =
  tj_series_metadata :: "TokenSchemaField list"
  tj_rom :: "TokenSchemaField list"
  tj_ram :: "TokenSchemaField list"

text \<open>\<^verbatim>\<open>SchemaFieldInput\<close>, and what a caller may pass instead: a tuple of any length, a mapping, anything else.\<close>

datatype field_part = PartText pystr | PartType vm_type | PartOther

datatype schema_field_input =
    FieldDeclared TokenSchemaField
  | FieldTuple "field_part list"
  | FieldMapping "pystr \<rightharpoonup> field_part"
  | FieldOther

definition field_from_parts :: "field_part \<Rightarrow> field_part \<Rightarrow> TokenSchemaField result" where
  "field_from_parts name ty = (case name of
     PartText n \<Rightarrow> (case ty of
         PartType t \<Rightarrow> Inr \<lparr>tf_name = n, tf_type = t\<rparr>
       | PartText t \<Rightarrow> rthen (vm_type_from_string t) (\<lambda>v. Inr \<lparr>tf_name = n, tf_type = v\<rparr>)
       | PartOther \<Rightarrow> Inl BuilderError)
   | _ \<Rightarrow> Inl BuilderError)"

definition coerce_token_schema_field :: "schema_field_input \<Rightarrow> TokenSchemaField result" where
  "coerce_token_schema_field value = (case value of
     FieldDeclared f \<Rightarrow> Inr f
   | FieldTuple [name, ty] \<Rightarrow> field_from_parts name ty
   | FieldMapping m \<Rightarrow> field_from_parts (case m (str ''name'') of Some p \<Rightarrow> p | None \<Rightarrow> PartOther)
       (case m (str ''type'') of Some p \<Rightarrow> p | None \<Rightarrow> PartOther)
   | _ \<Rightarrow> Inl BuilderError)"

definition token_schema_fields_to_schemas :: "schema_field_input list \<Rightarrow> named_schema list result" where
  "token_schema_fields_to_schemas = rmap (\<lambda>item. rthen (coerce_token_schema_field item) (\<lambda>f.
     VMNamedVariableSchema_make (tf_name f) (tf_type f) None))"

definition schema_to_public_fields :: "named_schema list \<Rightarrow> TokenSchemaField list" where
  "schema_to_public_fields = map (\<lambda>f. \<lparr>tf_name = ns_name f, tf_type = vs_type (ns_schema f)\<rparr>)"

text \<open>
  \<^verbatim>\<open>_assert_metadata_fields\<close>: for an expected field the schemas are scanned in order. The scan of one schema
  ends at the first field of that name; the flag notes a field that differs in case only.
\<close>

fun scan_fields :: "(pystr \<Rightarrow> pystr) \<Rightarrow> named_schema \<Rightarrow> bool \<Rightarrow> named_schema list \<Rightarrow> (bool \<times> bool) result" where
  "scan_fields lower expected case_mismatch [] = Inr (False, case_mismatch)"
| "scan_fields lower expected case_mismatch (actual # rest) =
     (if ns_name actual = ns_name expected then
        (if vs_type (ns_schema actual) \<noteq> vs_type (ns_schema expected) then Inl BuilderError else Inr (True, False))
      else scan_fields lower expected
        (if lower (ns_name actual) = lower (ns_name expected) then True else case_mismatch) rest)"

fun scan_schemas :: "(pystr \<Rightarrow> pystr) \<Rightarrow> named_schema \<Rightarrow> bool \<Rightarrow> struct_schema list \<Rightarrow> unit result" where
  "scan_schemas lower expected case_mismatch [] = (if case_mismatch then Inl BuilderError else Inl BuilderError)"
| "scan_schemas lower expected case_mismatch (schema # rest) =
     rthen (scan_fields lower expected case_mismatch (ss_fields schema)) (\<lambda>(found, case_mismatch').
       if found then Inr () else scan_schemas lower expected case_mismatch' rest)"

definition assert_metadata_fields ::
  "(pystr \<Rightarrow> pystr) \<Rightarrow> struct_schema list \<Rightarrow> named_schema list \<Rightarrow> unit result" where
  "assert_metadata_fields lower schemas expected =
     rthen (rmap (\<lambda>e. scan_schemas lower e False schemas) expected) (\<lambda>_. Inr ())"

definition verify_token_schemas :: "(pystr \<Rightarrow> pystr) \<Rightarrow> TokenSchemas \<Rightarrow> unit result" where
  "verify_token_schemas lower schemas =
     rthen (assert_metadata_fields lower [ts_series_metadata schemas, ts_rom schemas] standard_metadata_fields) (\<lambda>_.
     rthen (assert_metadata_fields lower [ts_series_metadata schemas] standard_series_fields) (\<lambda>_.
     assert_metadata_fields lower [ts_rom schemas] standard_nft_fields))"

definition build_token_schemas_from_fields ::
  "(pystr \<Rightarrow> pystr) \<Rightarrow> schema_field_input list \<Rightarrow> schema_field_input list \<Rightarrow> schema_field_input list \<Rightarrow>
   TokenSchemas result" where
  "build_token_schemas_from_fields lower series_metadata rom ram =
     rthen (token_schema_fields_to_schemas
       (map FieldDeclared (schema_to_public_fields standard_series_fields) @ series_metadata)) (\<lambda>series_fields.
     rthen (token_schema_fields_to_schemas
       (map FieldDeclared (schema_to_public_fields standard_nft_fields) @ rom)) (\<lambda>rom_fields.
     rthen (token_schema_fields_to_schemas ram) (\<lambda>ram_fields.
     let schemas = \<lparr>ts_series_metadata = VMStructSchema series_fields 0, ts_rom = VMStructSchema rom_fields 0,
       ts_ram = VMStructSchema ram_fields (if ram_fields = [] then DYNAMIC_EXTRAS else 0)\<rparr>
     in rthen (verify_token_schemas lower schemas) (\<lambda>_. Inr schemas))))"

definition parse_token_schema_field :: "json \<Rightarrow> TokenSchemaField result" where
  "parse_token_schema_field item = (case item of
     JObject kvs \<Rightarrow> (case (json_get kvs (str ''name''), json_get kvs (str ''type'')) of
         (JStr name, JStr raw_type) \<Rightarrow>
           rthen (vm_type_from_string raw_type) (\<lambda>t. Inr \<lparr>tf_name = name, tf_type = t\<rparr>)
       | _ \<Rightarrow> Inl BuilderError)
   | _ \<Rightarrow> Inl BuilderError)"

definition parse_token_schema_field_array :: "(pystr \<times> json) list \<Rightarrow> pystr \<Rightarrow> TokenSchemaField list result" where
  "parse_token_schema_field_array raw key = (case json_get raw key of
     JList items \<Rightarrow> rmap parse_token_schema_field items
   | _ \<Rightarrow> Inl BuilderError)"

definition parse_token_schemas_json :: "(pystr \<Rightarrow> json result) \<Rightarrow> pystr \<Rightarrow> TokenSchemasJSON result" where
  "parse_token_schemas_json json_loads data = rthen (json_loads data) (\<lambda>raw. case raw of
     JObject kvs \<Rightarrow>
       rthen (parse_token_schema_field_array kvs (str ''seriesMetadata'')) (\<lambda>series_metadata.
       rthen (parse_token_schema_field_array kvs (str ''rom'')) (\<lambda>rom.
       rthen (parse_token_schema_field_array kvs (str ''ram'')) (\<lambda>ram.
       Inr \<lparr>tj_series_metadata = series_metadata, tj_rom = rom, tj_ram = ram\<rparr>)))
   | _ \<Rightarrow> Inl BuilderError)"

definition token_schemas_from_json ::
  "(pystr \<Rightarrow> json result) \<Rightarrow> (pystr \<Rightarrow> pystr) \<Rightarrow> pystr \<Rightarrow> TokenSchemas result" where
  "token_schemas_from_json json_loads lower data = rthen (parse_token_schemas_json json_loads data) (\<lambda>parsed.
     build_token_schemas_from_fields lower (map FieldDeclared (tj_series_metadata parsed))
       (map FieldDeclared (tj_rom parsed)) (map FieldDeclared (tj_ram parsed)))"

section \<open>Token and series descriptions\<close>

definition check_token_symbol :: "pystr \<Rightarrow> unit result" where
  "check_token_symbol symbol =
     (if symbol = [] then Inl BuilderError
      else rthen (utf8_encode symbol) (\<lambda>raw.
        if length raw > 255 then Inl BuilderError
        else if list_all (\<lambda>c. 65 \<le> c \<and> c \<le> 90) symbol then Inr () else Inl BuilderError))"

text \<open>
  \<^verbatim>\<open>re.match\<close> of \<^verbatim>\<open>(?i)^data:image/(png|jpeg|webp);base64,\<close>. Ignoring case, Python also lets the dotted capital and the
  dotless i stand for i and the long s for s.
\<close>

definition char_matches :: "nat \<Rightarrow> nat \<Rightarrow> bool" where
  "char_matches p c \<longleftrightarrow> c = p \<or> (97 \<le> p \<and> p \<le> 122 \<and> c = p - 32) \<or>
     (p = 105 \<and> (c = 0x130 \<or> c = 0x131)) \<or> (p = 115 \<and> c = 0x17F)"

definition starts_with_pattern :: "pystr \<Rightarrow> pystr \<Rightarrow> bool" where
  "starts_with_pattern p s \<longleftrightarrow> length p \<le> length s \<and> list_all2 char_matches p (take (length p) s)"

definition validate_icon_data_uri :: "(pystr \<Rightarrow> bool) \<Rightarrow> pystr \<Rightarrow> unit result" where
  "validate_icon_data_uri base64_accepts value =
     (if \<not> list_ex (\<lambda>kind. starts_with_pattern (str ''data:image/'' @ kind @ str '';base64,'') value)
          [str ''png'', str ''jpeg'', str ''webp''] then Inl BuilderError
      else let payload = drop 1 (dropWhile (\<lambda>c. c \<noteq> 44) value)
        in if payload = [] then Inl BuilderError
           else if base64_accepts payload then Inr () else Inl BuilderError)"

text \<open>The argument is a dict, an association list with distinct keys.\<close>

definition build_token_metadata :: "(vm_data \<Rightarrow> pystr) \<Rightarrow> (pystr \<Rightarrow> bool) \<Rightarrow> (pystr \<times> pystr) list \<Rightarrow> bytes result" where
  "build_token_metadata py_text base64_accepts flds =
     (let required = [str ''name'', str ''icon'', str ''url'', str ''description''];
          get = (\<lambda>name. case map_of flds name of None \<Rightarrow> [] | Some v \<Rightarrow> v)
      in if length flds < length required then Inl BuilderError
         else if list_ex (\<lambda>name. py_strip (get name) = []) required then Inl BuilderError
         else rthen (validate_icon_data_uri base64_accepts (get (str ''icon''))) (\<lambda>_.
           rthen (rmap (\<lambda>(name, v). VMNamedDynamicVariable_make name VM_STRING (DStr v)) flds) (\<lambda>vars.
           serialize (write_dyn_struct py_text (VMDynamicStruct vars)))))"

definition build_token_info ::
  "pystr \<Rightarrow> int \<Rightarrow> bool \<Rightarrow> int \<Rightarrow> bytes \<Rightarrow> bytes option \<Rightarrow> bytes \<Rightarrow> TokenInfo result" where
  "build_token_info symbol max_supply is_nft decimals owner metadata token_schemas =
     rthen (check_token_symbol symbol) (\<lambda>_.
     case metadata of None \<Rightarrow> Inl BuilderError
     | Some md \<Rightarrow>
       rthen (if is_nft then
           (if \<not> is_8_byte_safe max_supply then Inl BuilderError
            else if token_schemas = [] then Inl BuilderError
            else Inr TokenFlags_NON_FUNGIBLE)
         else if \<not> is_8_byte_safe max_supply then Inr TokenFlags_BIG_FUNGIBLE
         else Inr 0) (\<lambda>flags.
       rthen (SmallString symbol) (\<lambda>sym.
       Inr \<lparr>ti_max_supply = max_supply, ti_flags = flags, ti_decimals = decimals, ti_owner = owner,
         ti_symbol = sym, ti_metadata = md, ti_token_schemas = token_schemas\<rparr>)))"

definition build_token_series_metadata ::
  "(vm_data \<Rightarrow> pystr) \<Rightarrow> (pystr \<Rightarrow> pystr) \<Rightarrow> struct_schema \<Rightarrow> vm_data \<Rightarrow> (pystr \<times> vm_data) list \<Rightarrow> bytes result" where
  "build_token_series_metadata py_text lower schema phantasma_series_id metadata =
     rthen (require_required_int phantasma_series_id) (\<lambda>series_id.
     rthen (metadata_bytes lower metadata (str ''rom'')) (\<lambda>rom.
     rthen (VMNamedDynamicVariable_make STANDARD_META_ID VM_INT256 (DInt series_id)) (\<lambda>a.
     rthen (VMNamedDynamicVariable_make (str ''mode'') VM_INT8 (DInt (if rom \<noteq> [] then 1 else 0))) (\<lambda>b.
     rthen (VMNamedDynamicVariable_make (str ''rom'') VM_BYTES (DBytes rom)) (\<lambda>c.
     rthen (metadata_dynamic_fields lower schema standard_series_fields metadata) (\<lambda>more.
     write_dynamic_struct_with_schema py_text (VMDynamicStruct ([a, b, c] @ more)) schema))))))"

definition build_series_info ::
  "(vm_data \<Rightarrow> pystr) \<Rightarrow> (pystr \<Rightarrow> pystr) \<Rightarrow> vm_data \<Rightarrow> int \<Rightarrow> int \<Rightarrow> bytes \<Rightarrow> SeriesInfo result" where
  "build_series_info py_text lower phantasma_series_id max_mint max_supply owner =
     rthen (require_required_int phantasma_series_id) (\<lambda>series_id.
     let schemas = prepare_standard_token_schemas False in
     rthen (build_token_series_metadata py_text lower (ts_series_metadata schemas) (DInt series_id) []) (\<lambda>metadata.
     Inr \<lparr>si_max_mint = max_mint, si_max_supply = max_supply, si_owner = owner, si_metadata = metadata,
       si_rom = empty_schema, si_ram = empty_schema\<rparr>))"

section \<open>The ROM of an NFT\<close>

definition build_nft_rom ::
  "(vm_data \<Rightarrow> pystr) \<Rightarrow> (pystr \<Rightarrow> pystr) \<Rightarrow> struct_schema \<Rightarrow> vm_data \<Rightarrow> (pystr \<times> vm_data) list \<Rightarrow> bytes result" where
  "build_nft_rom py_text lower schema phantasma_nft_id metadata =
     rthen (require_required_int phantasma_nft_id) (\<lambda>nft_id.
     rthen (metadata_bytes lower metadata (str ''rom'')) (\<lambda>rom.
     rthen (VMNamedDynamicVariable_make STANDARD_META_ID VM_INT256 (DInt nft_id)) (\<lambda>a.
     rthen (VMNamedDynamicVariable_make (str ''rom'') VM_BYTES (DBytes rom)) (\<lambda>b.
     rthen (metadata_dynamic_fields lower schema standard_nft_fields metadata) (\<lambda>more.
     write_dynamic_struct_with_schema py_text (VMDynamicStruct ([a, b] @ more)) schema)))))"

definition is_phantasma_nft_reserved_field :: "(pystr \<Rightarrow> pystr) \<Rightarrow> pystr \<Rightarrow> bool" where
  "is_phantasma_nft_reserved_field lower name \<longleftrightarrow> lower name \<in> {lower STANDARD_META_ID, str ''rom''}"

definition build_phantasma_nft_public_mint_schema :: "(pystr \<Rightarrow> pystr) \<Rightarrow> struct_schema \<Rightarrow> struct_schema" where
  "build_phantasma_nft_public_mint_schema lower nft_rom_schema = VMStructSchema
     (filter (\<lambda>f. \<not> is_phantasma_nft_reserved_field lower (ns_name f)) (ss_fields nft_rom_schema))
     (ss_flags nft_rom_schema)"

definition build_phantasma_nft_rom ::
  "(vm_data \<Rightarrow> pystr) \<Rightarrow> (pystr \<Rightarrow> pystr) \<Rightarrow> struct_schema \<Rightarrow> (pystr \<times> vm_data) list \<Rightarrow> bytes result" where
  "build_phantasma_nft_rom py_text lower nft_rom_schema metadata =
     (if metadata = [] then Inl BuilderError
      else if list_ex (\<lambda>kv. is_phantasma_nft_reserved_field lower (fst kv)) metadata then Inl BuilderError
      else let public_schema = build_phantasma_nft_public_mint_schema lower nft_rom_schema in
        rthen (metadata_dynamic_fields lower public_schema [] metadata) (\<lambda>flds.
        write_dynamic_struct_with_schema py_text (VMDynamicStruct flds) public_schema))"

section \<open>Transactions\<close>

definition ModuleID_TOKEN :: int where
  "ModuleID_TOKEN = 1"

definition CREATE_TOKEN :: int where
  "CREATE_TOKEN = 2"

definition CREATE_TOKEN_SERIES :: int where
  "CREATE_TOKEN_SERIES = 6"

definition MINT_PHANTASMA_NON_FUNGIBLE :: int where
  "MINT_PHANTASMA_NON_FUNGIBLE = 27"

text \<open>\<^verbatim>\<open>expiry or now_unix_millis() + 60 * 1000\<close>, and the common shape of the messages.\<close>

definition expiry_or :: "int \<Rightarrow> int \<Rightarrow> int" where
  "expiry_or now expiry = (if expiry \<noteq> 0 then expiry else now + 60 * 1000)"

definition token_call :: "int \<Rightarrow> bytes \<Rightarrow> tx_payload" where
  "token_call method args = PMsgCall \<lparr>cl_module_id = ModuleID_TOKEN, cl_method_id = method, cl_args = args,
     cl_sections = None\<rparr>"

definition default_mint_fee_options :: FeeOptions where
  "default_mint_fee_options = default_fee_options"

definition build_create_token_tx ::
  "int \<Rightarrow> TokenInfo \<Rightarrow> bytes \<Rightarrow> CreateTokenFeeOptions option \<Rightarrow> int \<Rightarrow> int \<Rightarrow> TxMsg result" where
  "build_create_token_tx now token_info creator fees max_data expiry =
     (let fees = (case fees of Some f \<Rightarrow> f | None \<Rightarrow> default_create_token_fee_options) in
      rthen (calculate_max_gas_for_symbol fees (ti_symbol token_info)) (\<lambda>max_gas.
      rthen (serialize (write_TokenInfo token_info)) (\<lambda>args.
      Inr \<lparr>tm_type = TX_CALL, tm_expiry = expiry_or now expiry, tm_max_gas = max_gas, tm_max_data = max_data,
        tm_gas_from = creator, tm_payload = [], tm_msg = token_call CREATE_TOKEN args\<rparr>)))"

definition build_create_token_series_tx ::
  "int \<Rightarrow> int \<Rightarrow> SeriesInfo \<Rightarrow> bytes \<Rightarrow> CreateSeriesFeeOptions option \<Rightarrow> int \<Rightarrow> int \<Rightarrow> TxMsg result" where
  "build_create_token_series_tx now token_id series_info creator fees max_data expiry =
     (let fees = (case fees of Some f \<Rightarrow> f | None \<Rightarrow> default_create_series_fee_options) in
      rthen (serialize (wseq [write8u token_id, write_SeriesInfo series_info])) (\<lambda>args.
      rthen (series_calculate_max_gas fees (CountInt 1)) (\<lambda>max_gas.
      Inr \<lparr>tm_type = TX_CALL, tm_expiry = expiry_or now expiry, tm_max_gas = max_gas, tm_max_data = max_data,
        tm_gas_from = creator, tm_payload = [], tm_msg = token_call CREATE_TOKEN_SERIES args\<rparr>)))"

definition build_mint_non_fungible_tx ::
  "int \<Rightarrow> int \<Rightarrow> int \<Rightarrow> bytes \<Rightarrow> bytes \<Rightarrow> bytes \<Rightarrow> bytes \<Rightarrow> FeeOptions option \<Rightarrow> int \<Rightarrow> int \<Rightarrow> TxMsg result" where
  "build_mint_non_fungible_tx now token_id series_id sender receiver rom ram fees max_data expiry =
     (let fees = (case fees of Some f \<Rightarrow> f | None \<Rightarrow> default_mint_fee_options) in
      rthen (mint_calculate_max_gas fees (CountInt 1)) (\<lambda>max_gas.
      Inr \<lparr>tm_type = TX_MINT_NON_FUNGIBLE, tm_expiry = expiry_or now expiry, tm_max_gas = max_gas,
        tm_max_data = max_data, tm_gas_from = sender, tm_payload = [],
        tm_msg = PMsgMintNonFungible \<lparr>xmn_token_id = token_id, xmn_to = receiver, xmn_series_id = series_id,
          xmn_rom = rom, xmn_ram = ram\<rparr>\<rparr>))"

definition build_mint_phantasma_non_fungible_tx ::
  "int \<Rightarrow> int \<Rightarrow> bytes \<Rightarrow> bytes \<Rightarrow> PhantasmaNFTMintInfo list \<Rightarrow> FeeOptions option \<Rightarrow> int \<Rightarrow> int \<Rightarrow> TxMsg result" where
  "build_mint_phantasma_non_fungible_tx now token_id sender receiver tokens fees max_data expiry =
     (let fees = (case fees of Some f \<Rightarrow> f | None \<Rightarrow> default_mint_fee_options);
          args = \<lparr>mp_token_id = token_id, mp_address = receiver, mp_tokens = tokens\<rparr> in
      rthen (mint_calculate_max_gas fees (CountSeq (length tokens))) (\<lambda>max_gas.
      rthen (serialize (write_MintPhantasmaNonFungibleArgs args)) (\<lambda>bs.
      Inr \<lparr>tm_type = TX_CALL, tm_expiry = expiry_or now expiry, tm_max_gas = max_gas, tm_max_data = max_data,
        tm_gas_from = sender, tm_payload = [], tm_msg = token_call MINT_PHANTASMA_NON_FUNGIBLE bs\<rparr>)))"

definition build_mint_phantasma_non_fungible_single_tx ::
  "int \<Rightarrow> int \<Rightarrow> vm_data \<Rightarrow> bytes \<Rightarrow> bytes \<Rightarrow> bytes \<Rightarrow> bytes \<Rightarrow> FeeOptions option \<Rightarrow> int \<Rightarrow> int \<Rightarrow> TxMsg result" where
  "build_mint_phantasma_non_fungible_single_tx now token_id phantasma_series_id sender receiver public_rom ram fees
       max_data expiry =
     rthen (require_required_int phantasma_series_id) (\<lambda>series_id.
     build_mint_phantasma_non_fungible_tx now token_id sender receiver
       [\<lparr>pm_phantasma_series_id = series_id, pm_rom = public_rom, pm_ram = ram\<rparr>] fees max_data expiry)"

text \<open>Built and signed with one key, as bytes and as hexadecimal text.\<close>

definition build_create_token_tx_and_sign ::
  "crypto_lib \<Rightarrow> int \<Rightarrow> TokenInfo \<Rightarrow> keys \<Rightarrow> CreateTokenFeeOptions option \<Rightarrow> int \<Rightarrow> int \<Rightarrow> bytes result" where
  "build_create_token_tx_and_sign L now token_info signer fees max_data expiry =
     rthen (bytes32_from_public_key (public_key L signer)) (\<lambda>creator.
     rthen (build_create_token_tx now token_info creator fees max_data expiry) (\<lambda>msg.
     sign_and_serialize_tx_msg L msg signer))"

definition build_create_token_tx_and_sign_hex ::
  "crypto_lib \<Rightarrow> int \<Rightarrow> TokenInfo \<Rightarrow> keys \<Rightarrow> CreateTokenFeeOptions option \<Rightarrow> int \<Rightarrow> int \<Rightarrow> pystr result" where
  "build_create_token_tx_and_sign_hex L now token_info signer fees max_data expiry =
     rthen (build_create_token_tx_and_sign L now token_info signer fees max_data expiry) (\<lambda>bs. Inr (bytes_hex bs))"

definition build_create_token_series_tx_and_sign ::
  "crypto_lib \<Rightarrow> int \<Rightarrow> int \<Rightarrow> SeriesInfo \<Rightarrow> keys \<Rightarrow> CreateSeriesFeeOptions option \<Rightarrow> int \<Rightarrow> int \<Rightarrow> bytes result" where
  "build_create_token_series_tx_and_sign L now token_id series_info signer fees max_data expiry =
     rthen (bytes32_from_public_key (public_key L signer)) (\<lambda>creator.
     rthen (build_create_token_series_tx now token_id series_info creator fees max_data expiry) (\<lambda>msg.
     sign_and_serialize_tx_msg L msg signer))"

definition build_create_token_series_tx_and_sign_hex ::
  "crypto_lib \<Rightarrow> int \<Rightarrow> int \<Rightarrow> SeriesInfo \<Rightarrow> keys \<Rightarrow> CreateSeriesFeeOptions option \<Rightarrow> int \<Rightarrow> int \<Rightarrow> pystr result" where
  "build_create_token_series_tx_and_sign_hex L now token_id series_info signer fees max_data expiry =
     rthen (build_create_token_series_tx_and_sign L now token_id series_info signer fees max_data expiry) (\<lambda>bs. Inr (bytes_hex bs))"

definition build_mint_non_fungible_tx_and_sign ::
  "crypto_lib \<Rightarrow> int \<Rightarrow> int \<Rightarrow> int \<Rightarrow> keys \<Rightarrow> bytes \<Rightarrow> bytes \<Rightarrow> bytes \<Rightarrow> FeeOptions option \<Rightarrow> int \<Rightarrow> int \<Rightarrow> bytes result" where
  "build_mint_non_fungible_tx_and_sign L now token_id series_id signer receiver rom ram fees max_data expiry =
     rthen (bytes32_from_public_key (public_key L signer)) (\<lambda>sender.
     rthen (build_mint_non_fungible_tx now token_id series_id sender receiver rom ram fees max_data expiry) (\<lambda>msg.
     sign_and_serialize_tx_msg L msg signer))"

definition build_mint_non_fungible_tx_and_sign_hex ::
  "crypto_lib \<Rightarrow> int \<Rightarrow> int \<Rightarrow> int \<Rightarrow> keys \<Rightarrow> bytes \<Rightarrow> bytes \<Rightarrow> bytes \<Rightarrow> FeeOptions option \<Rightarrow> int \<Rightarrow> int \<Rightarrow> pystr result" where
  "build_mint_non_fungible_tx_and_sign_hex L now token_id series_id signer receiver rom ram fees max_data expiry =
     rthen (build_mint_non_fungible_tx_and_sign L now token_id series_id signer receiver rom ram fees max_data expiry) (\<lambda>bs. Inr (bytes_hex bs))"

definition build_mint_phantasma_non_fungible_tx_and_sign ::
  "crypto_lib \<Rightarrow> int \<Rightarrow> int \<Rightarrow> keys \<Rightarrow> bytes \<Rightarrow> PhantasmaNFTMintInfo list \<Rightarrow> FeeOptions option \<Rightarrow> int \<Rightarrow> int \<Rightarrow> bytes result" where
  "build_mint_phantasma_non_fungible_tx_and_sign L now token_id signer receiver tokens fees max_data expiry =
     rthen (bytes32_from_public_key (public_key L signer)) (\<lambda>sender.
     rthen (build_mint_phantasma_non_fungible_tx now token_id sender receiver tokens fees max_data expiry) (\<lambda>msg.
     sign_and_serialize_tx_msg L msg signer))"

definition build_mint_phantasma_non_fungible_tx_and_sign_hex ::
  "crypto_lib \<Rightarrow> int \<Rightarrow> int \<Rightarrow> keys \<Rightarrow> bytes \<Rightarrow> PhantasmaNFTMintInfo list \<Rightarrow> FeeOptions option \<Rightarrow> int \<Rightarrow> int \<Rightarrow> pystr result" where
  "build_mint_phantasma_non_fungible_tx_and_sign_hex L now token_id signer receiver tokens fees max_data expiry =
     rthen (build_mint_phantasma_non_fungible_tx_and_sign L now token_id signer receiver tokens fees max_data expiry) (\<lambda>bs. Inr (bytes_hex bs))"

definition build_mint_phantasma_non_fungible_single_tx_and_sign ::
  "crypto_lib \<Rightarrow> int \<Rightarrow> int \<Rightarrow> vm_data \<Rightarrow> keys \<Rightarrow> bytes \<Rightarrow> bytes \<Rightarrow> bytes \<Rightarrow> FeeOptions option \<Rightarrow> int \<Rightarrow> int \<Rightarrow> bytes result" where
  "build_mint_phantasma_non_fungible_single_tx_and_sign L now token_id phantasma_series_id signer receiver public_rom ram fees max_data expiry =
     rthen (bytes32_from_public_key (public_key L signer)) (\<lambda>sender.
     rthen (build_mint_phantasma_non_fungible_single_tx now token_id phantasma_series_id sender receiver public_rom ram fees max_data expiry) (\<lambda>msg.
     sign_and_serialize_tx_msg L msg signer))"

definition build_mint_phantasma_non_fungible_single_tx_and_sign_hex ::
  "crypto_lib \<Rightarrow> int \<Rightarrow> int \<Rightarrow> vm_data \<Rightarrow> keys \<Rightarrow> bytes \<Rightarrow> bytes \<Rightarrow> bytes \<Rightarrow> FeeOptions option \<Rightarrow> int \<Rightarrow> int \<Rightarrow> pystr result" where
  "build_mint_phantasma_non_fungible_single_tx_and_sign_hex L now token_id phantasma_series_id signer receiver public_rom ram fees max_data expiry =
     rthen (build_mint_phantasma_non_fungible_single_tx_and_sign L now token_id phantasma_series_id signer receiver public_rom ram fees max_data expiry) (\<lambda>bs. Inr (bytes_hex bs))"

section \<open>Addresses of NFTs and results of calls\<close>

text \<open>Byte 15 is 1, then the token and the instance as eight bytes each.\<close>

definition get_nft_address :: "int \<Rightarrow> int \<Rightarrow> bytes result" where
  "get_nft_address carbon_token_id instance_id =
     rthen (to_bytes_le carbon_token_id 8) (\<lambda>a.
     rthen (to_bytes_le instance_id 8) (\<lambda>b.
     FixedBytes 32 (replicate 15 0 @ [1] @ a @ b)))"

definition unpack_nft_instance_id :: "int \<Rightarrow> int \<times> int" where
  "unpack_nft_instance_id instance_id =
     (instance_id AND 0xFFFFFFFF, drop_bit 32 instance_id AND 0xFFFFFFFF)"

definition parse_create_token_result :: "pystr \<Rightarrow> int result" where
  "parse_create_token_result result_hex = rthen (decode_hex result_hex) (deserialize read8u)"

definition parse_create_token_series_result :: "pystr \<Rightarrow> int result" where
  "parse_create_token_series_result result_hex = rthen (decode_hex result_hex) (deserialize read4u)"

definition parse_mint_non_fungible_result :: "int \<Rightarrow> pystr \<Rightarrow> bytes list result" where
  "parse_mint_non_fungible_result carbon_token_id result_hex = rthen (decode_hex result_hex)
     (deserialize (read_carbon_array (rbind read8u (\<lambda>instance_id. rlift (get_nft_address carbon_token_id instance_id)))))"

definition parse_mint_phantasma_non_fungible_result :: "pystr \<Rightarrow> PhantasmaNFTMintResult list result" where
  "parse_mint_phantasma_non_fungible_result result_hex = rthen (decode_hex result_hex)
     (deserialize (read_carbon_array read_PhantasmaNFTMintResult))"

section \<open>What is read back from a ROM\<close>

text \<open>
  A field read from a ROM: the metadata value of its name, coerced to its type, as that type reads it.
\<close>

definition rom_value :: "(pystr \<Rightarrow> pystr) \<Rightarrow> (pystr \<times> vm_data) list \<Rightarrow> named_schema \<Rightarrow> dyn_var option" where
  "rom_value lower metadata f = (case map_of metadata (ns_name f) of None \<Rightarrow> None
     | Some x \<Rightarrow> (case coerce_metadata_value lower (ns_schema f) x of Inl _ \<Rightarrow> None
         | Inr y \<Rightarrow> Some (VMDynamicVariable (vs_type (ns_schema f)) (read_back_as (vs_type (ns_schema f)) y))))"

text \<open>
  Fields of nested types (structs, dynamic values, arrays of them) have coerced values that come back unchanged from
  their wire form, as \<open>static_ok\<close> says: struct fields sorted by name, exactly the fields of the schema, and so on.
\<close>

definition nested_ok :: "nat \<Rightarrow> (pystr \<Rightarrow> pystr) \<Rightarrow> (pystr \<times> vm_data) list \<Rightarrow> struct_schema \<Rightarrow> bool" where
  "nested_ok depth lower metadata schema \<longleftrightarrow> list_all (\<lambda>f. flat_type (vs_type (ns_schema f)) \<or>
     (case rom_value lower metadata f of None \<Rightarrow> True
      | Some v \<Rightarrow> static_ok depth (vs_type (ns_schema f)) (vs_struct (ns_schema f)) (dv_data v))) (ss_fields schema)"

lemma find_named_map:
  "distinct (map ns_name fs) \<Longrightarrow> f \<in> set fs \<Longrightarrow> P f \<Longrightarrow>
   find (\<lambda>n. nv_name n = ns_name f) (map (\<lambda>f. VMNamedDynamicVariable (ns_name f) (h f)) (filter P fs)) =
     Some (VMNamedDynamicVariable (ns_name f) (h f))"
  by (induction fs) (auto simp: image_iff)

lemma no_extras_map:
  "(\<And>f. f \<in> set fs \<Longrightarrow> schema_has_field schema (ns_name f)) \<Longrightarrow>
   filter (\<lambda>n. \<not> schema_has_field schema (nv_name n)) (map (\<lambda>f. VMNamedDynamicVariable (ns_name f) (h f)) fs) = []"
  by (induction fs) auto

lemma has_field: "f \<in> set (ss_fields schema) \<Longrightarrow> schema_has_field schema (ns_name f)"
  by (auto simp: schema_has_field_def list_ex_iff)

text \<open>
  Fields with given values in front of those made from metadata, all within the schema. \<open>front\<close> are the
  fields with a default.
\<close>

lemma built_struct_reads_back:
  assumes d: "distinct (map ns_name (ss_fields schema))" and sizes: "list_all (\<lambda>kv. fixed_sizes (snd kv)) metadata"
    and nested: "nested_ok (Suc d) lower metadata schema"
    and defaults: "\<And>f. f \<in> set (ss_fields schema) \<Longrightarrow> has_default_field defaults (ns_name f) \<Longrightarrow>
      \<exists>v. struct_get (VMDynamicStruct front) (ns_name f) = Some v \<and> dv_type v = vs_type (ns_schema f) \<and>
        value_fits (Suc d) (ns_schema f) (dv_data v)"
    and front: "\<And>n. n \<in> set front \<Longrightarrow> has_default_field defaults (nv_name n) \<and> schema_has_field schema (nv_name n)"
    and vars: "metadata_dynamic_fields lower schema defaults metadata = Inr vars"
    and w: "write_dynamic_struct_with_schema py_text (VMDynamicStruct (front @ vars)) schema = Inr bs"
  obtains t where "deserialize (read_with_schema (Suc (Suc d)) (Some schema)) bs = Inr t"
    and "\<And>f. f \<in> set (ss_fields schema) \<Longrightarrow> struct_get t (ns_name f) =
      (if has_default_field defaults (ns_name f)
       then map_option read_var (struct_get (VMDynamicStruct front) (ns_name f)) else rom_value lower metadata f)"
    and "\<And>name. \<not> schema_has_field schema name \<Longrightarrow> struct_get t name = None"
    and "\<And>f. f \<in> set (ss_fields schema) \<Longrightarrow> \<not> has_default_field defaults (ns_name f) \<Longrightarrow>
      rom_value lower metadata f \<noteq> None"
proof -
  let ?s = "VMDynamicStruct (front @ vars)"
  from metadata_fields_given [OF vars] obtain g where
    g: "\<And>f. f \<in> set (ss_fields schema) \<Longrightarrow> \<not> has_default_field defaults (ns_name f) \<Longrightarrow>
       \<exists>x. map_of metadata (ns_name f) = Some x \<and> coerce_metadata_value lower (ns_schema f) x = Inr (g f)"
    and v: "vars = map (\<lambda>f. VMNamedDynamicVariable (ns_name f) (VMDynamicVariable (vs_type (ns_schema f)) (g f)))
       (filter (\<lambda>f. \<not> has_default_field defaults (ns_name f)) (ss_fields schema))" by blast
  have find_app: "find P (xs @ ys) = (case find P xs of None \<Rightarrow> find P ys | Some x \<Rightarrow> Some x)" for P and xs ys :: "named_var list"
    by (induction xs) auto
  have fronts: "find (\<lambda>n. nv_name n = name) front = None" if "\<not> has_default_field defaults name" for name
    using front that by (auto simp: find_None_iff)
  have get_given: "struct_get ?s (ns_name f) = Some (VMDynamicVariable (vs_type (ns_schema f)) (g f))"
    if "f \<in> set (ss_fields schema)" "\<not> has_default_field defaults (ns_name f)" for f
    using find_named_map [OF d that(1), of "\<lambda>f. \<not> has_default_field defaults (ns_name f)"
        "\<lambda>f. VMDynamicVariable (vs_type (ns_schema f)) (g f)"] that(2)
    by (simp add: struct_get_def v find_app fronts)
  have get_default: "struct_get ?s (ns_name f) = struct_get (VMDynamicStruct front) (ns_name f)"
    if "f \<in> set (ss_fields schema)" "has_default_field defaults (ns_name f)" for f
    using defaults [OF that] by (auto simp: struct_get_def find_app split: option.splits)
  have cls: "value_fits (Suc d) (ns_schema f) (g f)"
    if f: "f \<in> set (ss_fields schema)" "\<not> has_default_field defaults (ns_name f)" for f
  proof -
    from g [OF f] obtain x where x: "map_of metadata (ns_name f) = Some x"
      "coerce_metadata_value lower (ns_schema f) x = Inr (g f)" by blast
    show ?thesis
    proof (cases "flat_type (vs_type (ns_schema f))")
      case True
      from map_of_SomeD [OF x(1)] sizes have "fixed_sizes x" by (auto simp: list_all_iff)
      with True x(2) show ?thesis by (simp add: value_fits_def coerce_flat_class)
    next
      case False
      then have "rom_value lower metadata f = Some (VMDynamicVariable (vs_type (ns_schema f)) (g f))"
        by (simp add: rom_value_def x read_back_nested)
      with nested f(1) False show ?thesis by (auto simp: nested_ok_def value_fits_def list_all_iff simp del: static_ok.simps)
    qed
  qed
  have extras: "struct_extras schema ?s = []"
  proof -
    have "filter (\<lambda>n. \<not> schema_has_field schema (nv_name n)) front = []"
      using front by (auto simp: filter_empty_conv)
    moreover have "filter (\<lambda>n. \<not> schema_has_field schema (nv_name n)) vars = []"
      unfolding v by (rule no_extras_map) (simp add: has_field)
    ultimately show ?thesis by (simp add: struct_extras_def)
  qed
  have "fits (Suc d) schema ?s"
    unfolding fits_def list_all_iff
  proof (intro conjI extras ballI)
    fix f assume f: "f \<in> set (ss_fields schema)"
    show "case struct_get ?s (ns_name f) of None \<Rightarrow> False
       | Some v \<Rightarrow> dv_type v = vs_type (ns_schema f) \<and> value_fits (Suc d) (ns_schema f) (dv_data v)"
    proof (cases "has_default_field defaults (ns_name f)")
      case True
      with defaults [OF f] get_default [OF f] show ?thesis by auto
    qed (simp add: get_given cls f)
  qed
  from struct_reads_back [OF d this w] obtain t where
    t: "deserialize (read_with_schema (Suc (Suc d)) (Some schema)) bs = Inr t"
    "struct_map t = (\<lambda>name. if schema_has_field schema name then map_option read_var (struct_get ?s name) else None)" .
  have rv: "rom_value lower metadata f = map_option read_var (struct_get ?s (ns_name f))"
    if f: "f \<in> set (ss_fields schema)" "\<not> has_default_field defaults (ns_name f)" for f
    using g [OF f] get_given [OF f] by (auto simp: rom_value_def read_var_def)
  show ?thesis
    by (rule that [OF t(1)]) (auto simp: struct_get_map [of t] t(2) has_field rv get_default get_given)
qed

section \<open>The check of token schemas\<close>

text \<open>The type of the first field of a name, scanning the schemas in order.\<close>

definition first_type :: "named_schema list \<Rightarrow> pystr \<Rightarrow> vm_type option" where
  "first_type fs name = map_option (\<lambda>f. vs_type (ns_schema f)) (find (\<lambda>f. ns_name f = name) fs)"

definition field_present :: "named_schema list \<Rightarrow> named_schema \<Rightarrow> bool" where
  "field_present fs e \<longleftrightarrow> first_type fs (ns_name e) = Some (vs_type (ns_schema e))"

lemma find_append: "find P (xs @ ys) = (case find P xs of None \<Rightarrow> find P ys | Some x \<Rightarrow> Some x)"
  by (induction xs) auto

lemma scan_fields_found:
  "case scan_fields lower e c fs of
     Inl err \<Rightarrow> err = BuilderError \<and> first_type fs (ns_name e) \<noteq> None \<and> \<not> field_present fs e
   | Inr (found, _) \<Rightarrow> found = field_present fs e \<and> (\<not> found \<longrightarrow> first_type fs (ns_name e) = None)"
proof (induction fs arbitrary: c)
  case (Cons f fs)
  show ?case
  proof (cases "ns_name f = ns_name e")
    case False
    then have "field_present (f # fs) e = field_present fs e" "first_type (f # fs) (ns_name e) = first_type fs (ns_name e)"
      by (simp_all add: field_present_def first_type_def)
    with False show ?thesis by (simp only: scan_fields.simps if_False Cons.IH)
  qed (simp add: first_type_def field_present_def)
qed (simp add: first_type_def field_present_def)

lemma scan_schemas_found:
  "scan_schemas lower e c schemas =
     (if field_present (concat (map ss_fields schemas)) e then Inr () else Inl BuilderError)"
proof (induction schemas arbitrary: c)
  case Nil
  show ?case by (simp add: field_present_def first_type_def)
next
  case (Cons s schemas)
  show ?case
    using Cons scan_fields_found [where lower = lower and e = e and c = c and fs = "ss_fields s"]
    by (auto simp: field_present_def first_type_def find_append split: sum.splits option.splits)
qed

lemma assert_metadata_fields_eq:
  "assert_metadata_fields lower schemas expected =
     (if list_all (field_present (concat (map ss_fields schemas))) expected then Inr () else Inl BuilderError)"
proof -
  have "rmap (\<lambda>e. if P e then Inr () else Inl BuilderError) es =
      (if list_all P es then Inr (map (\<lambda>_. ()) es) else Inl BuilderError)" for P and es :: "named_schema list"
    by (induction es) auto
  then show ?thesis by (simp add: assert_metadata_fields_def scan_schemas_found)
qed

definition schemas_complete :: "TokenSchemas \<Rightarrow> bool" where
  "schemas_complete s \<longleftrightarrow>
     list_all (field_present (ss_fields (ts_series_metadata s) @ ss_fields (ts_rom s))) standard_metadata_fields \<and>
     list_all (field_present (ss_fields (ts_series_metadata s))) standard_series_fields \<and>
     list_all (field_present (ss_fields (ts_rom s))) standard_nft_fields"

lemma verify_token_schemas_eq:
  "verify_token_schemas lower s = (if schemas_complete s then Inr () else Inl BuilderError)"
  by (auto simp: verify_token_schemas_def assert_metadata_fields_eq schemas_complete_def)

lemma standard_schemas_complete: "schemas_complete (prepare_standard_token_schemas shared)"
  by (cases shared) (simp_all add: schemas_complete_def prepare_standard_token_schemas_def field_present_def
      first_type_def standard_metadata_fields_def standard_series_fields_def standard_nft_fields_def schema_field_def
      STANDARD_META_ID_def str_inject)

lemma find_by_name:
  "distinct (map ns_name fs) \<Longrightarrow> f \<in> set fs \<Longrightarrow> find (\<lambda>g. ns_name g = ns_name f) fs = Some f"
  by (induction fs) (auto simp: image_iff)

section \<open>Properties\<close>

lemma make_ascii:
  "is_ascii name \<Longrightarrow> length name \<le> 255 \<Longrightarrow>
   VMNamedDynamicVariable_make name ty x = Inr (VMNamedDynamicVariable name (VMDynamicVariable ty x))"
  by (simp add: VMNamedDynamicVariable_make_def SmallString_def utf8_encode_ascii)

lemma is_ascii_str: "list_all (\<lambda>c. of_char c < (128::nat)) s \<Longrightarrow> is_ascii (str s)"
  by (auto simp: is_ascii_def str_def list_all_iff)

lemma ascii_names [simp]: "is_ascii STANDARD_META_ID" "is_ascii (str ''rom'')" "is_ascii (str ''mode'')"
  "length STANDARD_META_ID \<le> 255" "length (str ''rom'') \<le> 255" "length (str ''mode'') \<le> 255"
  by (simp_all add: STANDARD_META_ID_def str_def)

lemma standard_names [simp]: "STANDARD_META_ID \<noteq> str ''rom''" "str ''rom'' \<noteq> STANDARD_META_ID"
  by (simp_all add: STANDARD_META_ID_def str_inject)

lemma nft_defaults: "has_default_field standard_nft_fields name \<longleftrightarrow> name = STANDARD_META_ID \<or> name = str ''rom''"
  by (auto simp: has_default_field_def standard_nft_fields_def schema_field_def)

lemma field_present_type:
  "field_present (ss_fields schema) e \<Longrightarrow> distinct (map ns_name (ss_fields schema)) \<Longrightarrow> f \<in> set (ss_fields schema) \<Longrightarrow>
   ns_name f = ns_name e \<Longrightarrow> vs_type (ns_schema f) = vs_type (ns_schema e)"
  using find_by_name [of "ss_fields schema" f] by (auto simp: field_present_def first_type_def)

lemma field_present_has: "field_present (ss_fields schema) e \<Longrightarrow> schema_has_field schema (ns_name e)"
  by (auto simp: field_present_def first_type_def schema_has_field_def list_ex_iff find_Some_iff)

text \<open>C30: The check of token schemas accepts exactly those in which the first field of each mandatory name has
  the mandatory type; letter case only chooses the text of the message, so it cannot change the outcome. The
  standard schemas pass, with the descriptive fields in either place.\<close>

theorem verify_token_schemas_spec:
  "verify_token_schemas lower schemas = (if schemas_complete schemas then Inr () else Inl BuilderError) \<and>
   verify_token_schemas lower (prepare_standard_token_schemas shared) = Inr ()"
  by (simp add: verify_token_schemas_eq standard_schemas_complete)

text \<open>C25: The ROM of an NFT, read with the schema it was made for, holds the id and the ROM bytes the caller
  gave and, for every other field, the metadata value of that name, coerced to the type of the field; the id
  comes back as a signed 256-bit number. The schema has each name once and the two mandatory fields with their types.
  Every type of integers, bytes, text and arrays of them is covered; a field that holds structs, dynamic values or
  arrays of them is covered when its coerced value is one that comes back unchanged (\<open>nested_ok\<close>), which leaves
  out structs whose fields are not in the order of their names and arrays of structs that take no bytes.\<close>

theorem nft_rom_reads_back:
  assumes "distinct (map ns_name (ss_fields schema))" "nested_ok (Suc d) lower metadata schema"
    and "list_all (field_present (ss_fields schema)) standard_nft_fields"
    and "list_all (\<lambda>kv. fixed_sizes (snd kv)) metadata"
    and "build_nft_rom py_text lower schema (DInt nft_id) metadata = Inr bs"
  shows "\<exists>t rom. deserialize (read_with_schema (Suc (Suc d)) (Some schema)) bs = Inr t \<and>
     metadata_bytes lower metadata (str ''rom'') = Inr rom \<and>
     struct_get t STANDARD_META_ID = Some (VMDynamicVariable VM_INT256 (DInt (wrap256 nft_id))) \<and>
     struct_get t (str ''rom'') = Some (VMDynamicVariable VM_BYTES (DBytes rom)) \<and>
     (\<forall>f \<in> set (ss_fields schema). ns_name f \<notin> {STANDARD_META_ID, str ''rom''} \<longrightarrow>
       struct_get t (ns_name f) = rom_value lower metadata f \<and> rom_value lower metadata f \<noteq> None)"
proof -
  let ?front = "\<lambda>rom. [VMNamedDynamicVariable STANDARD_META_ID (VMDynamicVariable VM_INT256 (DInt nft_id)),
      VMNamedDynamicVariable (str ''rom'') (VMDynamicVariable VM_BYTES (DBytes rom))]"
  let ?id = "schema_field STANDARD_META_ID VM_INT256" and ?rom = "schema_field (str ''rom'') VM_BYTES"
  from assms(5) obtain rom vars where b: "metadata_bytes lower metadata (str ''rom'') = Inr rom"
    "metadata_dynamic_fields lower schema standard_nft_fields metadata = Inr vars"
    "write_dynamic_struct_with_schema py_text (VMDynamicStruct (?front rom @ vars)) schema = Inr bs"
    by (auto simp: build_nft_rom_def require_required_int_def make_ascii rthen_Inr_iff)
  have p: "field_present (ss_fields schema) ?id" "field_present (ss_fields schema) ?rom"
    using assms(3) by (simp_all add: standard_nft_fields_def)
  note has = field_present_has [OF p(1)] field_present_has [OF p(2)]
  note ty = field_present_type [OF p(1) assms(1)] field_present_type [OF p(2) assms(1)]
  have default: "\<exists>v. struct_get (VMDynamicStruct (?front rom)) (ns_name f) = Some v \<and>
      dv_type v = vs_type (ns_schema f) \<and> value_fits (Suc d) (ns_schema f) (dv_data v)"
    if "f \<in> set (ss_fields schema)" "has_default_field standard_nft_fields (ns_name f)" for f
    using that ty [OF that(1)] by (auto simp: nft_defaults struct_get_def value_fits_def flat_type_def of_class_def plain_ok_def schema_field_def)
  have front: "has_default_field standard_nft_fields (nv_name n) \<and> schema_has_field schema (nv_name n)"
    if "n \<in> set (?front rom)" for n
    using that has by (auto simp: nft_defaults schema_field_def)
  obtain t where
    t: "deserialize (read_with_schema (Suc (Suc d)) (Some schema)) bs = Inr t"
    "\<And>f. f \<in> set (ss_fields schema) \<Longrightarrow> struct_get t (ns_name f) =
      (if has_default_field standard_nft_fields (ns_name f)
       then map_option read_var (struct_get (VMDynamicStruct (?front rom)) (ns_name f)) else rom_value lower metadata f)"
    "\<And>f. f \<in> set (ss_fields schema) \<Longrightarrow> \<not> has_default_field standard_nft_fields (ns_name f) \<Longrightarrow>
      rom_value lower metadata f \<noteq> None"
    using built_struct_reads_back [OF assms(1,4,2) default front b(2,3)] by metis
  from has obtain f g where "f \<in> set (ss_fields schema)" "ns_name f = STANDARD_META_ID"
    "g \<in> set (ss_fields schema)" "ns_name g = str ''rom''"
    by (auto simp: schema_has_field_def list_ex_iff schema_field_def)
  with t(2) [of f] t(2) [of g] t(1,2,3) b(1) show ?thesis
    by (auto simp: nft_defaults struct_get_def [of "VMDynamicStruct _"] read_var_def read_back_as_def STANDARD_META_ID_def
        simp del: read_with_schema.simps)
qed

definition example_rom_schema :: struct_schema where
  "example_rom_schema = VMStructSchema (standard_nft_fields @ [schema_field (str ''a'') VM_INT16]) 0"

definition example_metadata :: "(pystr \<times> vm_data) list" where
  "example_metadata = [(str ''rom'', DBytes [1, 2]), (str ''a'', DInt 65535)]"

lemma example_coerced: "coerce_metadata_value lower (VMVariableSchema VM_INT16 None) (DInt 65535) = Inr (DInt (- 1))"
  by (simp add: coerce_metadata_value.simps coerce_plain_def coerce_integer_for_vm_type_def ensure_metadata_integer_def)

lemma example_fields:
  "metadata_dynamic_fields lower example_rom_schema standard_nft_fields example_metadata =
     Inr [VMNamedDynamicVariable (str ''a'') (VMDynamicVariable VM_INT16 (DInt (- 1)))]"
  by (simp add: metadata_dynamic_fields.simps example_rom_schema_def example_metadata_def has_default_field_def
      standard_nft_fields_def schema_field_def STANDARD_META_ID_def find_metadata_field_def example_coerced)

lemma example_rom: "\<exists>bs. build_nft_rom py_text lower example_rom_schema (DInt 7) example_metadata = Inr bs"
proof -
  have b: "metadata_bytes lower example_metadata (str ''rom'') = Inr [1, 2]"
    by (simp add: metadata_bytes_def example_metadata_def find_metadata_field_def ensure_metadata_bytes_def)
  obtain bs where "serialize (write_big_int 7) = Inr bs"
    using write_big_int_written [of 7] by (cases "serialize (write_big_int 7)") auto
  then have "\<exists>bs. write_dynamic_struct_with_schema py_text (VMDynamicStruct
     [VMNamedDynamicVariable STANDARD_META_ID (VMDynamicVariable VM_INT256 (DInt 7)),
      VMNamedDynamicVariable (str ''rom'') (VMDynamicVariable VM_BYTES (DBytes [1, 2])),
      VMNamedDynamicVariable (str ''a'') (VMDynamicVariable VM_INT16 (DInt (- 1)))]) example_rom_schema = Inr bs"
    by (simp add: write_dynamic_struct_eq example_rom_schema_def standard_nft_fields_def schema_field_def
        STANDARD_META_ID_def write_with_schema_some write_field_def field_value_def struct_get_def extras_tail_def
        write_static_cases static_value_def write_scalar_typed serialize_wseq serialize_ints write_byte_array_def)
  then show ?thesis by (simp add: build_nft_rom_def require_required_int_def make_ascii b [simplified] example_fields [simplified])
qed

theorem nft_rom_reads_back_witness:
  "\<exists>bs t. build_nft_rom (\<lambda>_. []) ascii_lower example_rom_schema (DInt 7) example_metadata = Inr bs \<and>
     deserialize (read_with_schema 2 (Some example_rom_schema)) bs = Inr t \<and>
     struct_get t (str ''rom'') = Some (VMDynamicVariable VM_BYTES (DBytes [1, 2])) \<and>
     struct_get t (str ''a'') = Some (VMDynamicVariable VM_INT16 (DInt (- 1)))"
proof -
  obtain bs where w: "build_nft_rom (\<lambda>_. []) ascii_lower example_rom_schema (DInt 7) example_metadata = Inr bs"
    using example_rom by blast
  have h: "distinct (map ns_name (ss_fields example_rom_schema))" "nested_ok 1 ascii_lower example_metadata example_rom_schema"
    "list_all (field_present (ss_fields example_rom_schema)) standard_nft_fields"
    "list_all (\<lambda>kv. fixed_sizes (snd kv)) example_metadata"
    by (simp_all add: nested_ok_def example_rom_schema_def standard_nft_fields_def schema_field_def flat_type_def
        STANDARD_META_ID_def field_present_def first_type_def example_metadata_def)
  have b: "metadata_bytes ascii_lower example_metadata (str ''rom'') = Inr [1, 2]"
    by (simp add: metadata_bytes_def example_metadata_def find_metadata_field_def ensure_metadata_bytes_def)
  let ?f = "schema_field (str ''a'') VM_INT16"
  have f: "?f \<in> set (ss_fields example_rom_schema)" "ns_name ?f = str ''a''" "ns_name ?f \<notin> {STANDARD_META_ID, str ''rom''}"
    by (simp_all add: example_rom_schema_def schema_field_def STANDARD_META_ID_def)
  have v: "rom_value ascii_lower example_metadata ?f = Some (VMDynamicVariable VM_INT16 (DInt (- 1)))"
    by (simp add: rom_value_def example_metadata_def schema_field_def example_coerced read_back_as_def)
  from nft_rom_reads_back [where d = 0, simplified One_nat_def [symmetric], OF h w] f v b w show ?thesis by (auto simp: eval_nat_numeral simp del: read_with_schema.simps)
qed

text \<open>C26: The public ROM of a deterministic mint holds every field of the schema but the two the chain fills in,
  each with its metadata value coerced to the type of the field, and nothing else; metadata that names a
  chain-owned field, in whatever case, is refused. The schema has each name once; a field that holds structs, dynamic
  values or arrays of them is covered when its coerced value is one that comes back unchanged (\<open>nested_ok\<close>), as for
  the ROM of an NFT above.\<close>

theorem phantasma_nft_rom_reads_back:
  assumes "distinct (map ns_name (ss_fields schema))" "nested_ok (Suc d) lower metadata schema"
    and "list_all (\<lambda>kv. fixed_sizes (snd kv)) metadata"
    and "build_phantasma_nft_rom py_text lower schema metadata = Inr bs"
  shows "\<exists>t. deserialize (read_with_schema (Suc (Suc d)) (Some (build_phantasma_nft_public_mint_schema lower schema))) bs = Inr t \<and>
     (\<forall>f \<in> set (ss_fields schema). struct_get t (ns_name f) =
       (if is_phantasma_nft_reserved_field lower (ns_name f) then None else rom_value lower metadata f)) \<and>
     (\<forall>name. (struct_get t name \<noteq> None) = (\<not> is_phantasma_nft_reserved_field lower name \<and> schema_has_field schema name)) \<and>
     (\<forall>kv \<in> set metadata. \<not> is_phantasma_nft_reserved_field lower (fst kv))"
proof -
  let ?public = "build_phantasma_nft_public_mint_schema lower schema"
  from assms(4) obtain vars where b: "metadata_dynamic_fields lower ?public [] metadata = Inr vars"
    "write_dynamic_struct_with_schema py_text (VMDynamicStruct ([] @ vars)) ?public = Inr bs"
    and free: "\<forall>kv \<in> set metadata. \<not> is_phantasma_nft_reserved_field lower (fst kv)"
    by (auto simp: build_phantasma_nft_rom_def Let_def rthen_Inr_iff list_ex_iff split: if_splits)
  have names: "distinct (map ns_name (ss_fields ?public))" and nested: "nested_ok (Suc d) lower metadata ?public"
    using assms(1,2) by (auto simp: nested_ok_def build_phantasma_nft_public_mint_schema_def list_all_iff distinct_map_filter
        simp del: static_ok.simps)
  have has: "schema_has_field ?public name \<longleftrightarrow> \<not> is_phantasma_nft_reserved_field lower name \<and> schema_has_field schema name" for name
    by (auto simp: build_phantasma_nft_public_mint_schema_def schema_has_field_def list_ex_iff)
  have no_default: "has_default_field [] name = False" for name by (simp add: has_default_field_def)
  obtain t where t: "deserialize (read_with_schema (Suc (Suc d)) (Some ?public)) bs = Inr t"
    "\<And>f. f \<in> set (ss_fields ?public) \<Longrightarrow> struct_get t (ns_name f) = rom_value lower metadata f"
    "\<And>name. \<not> schema_has_field ?public name \<Longrightarrow> struct_get t name = None"
    "\<And>f. f \<in> set (ss_fields ?public) \<Longrightarrow> rom_value lower metadata f \<noteq> None"
    using built_struct_reads_back [OF names assms(3) nested _ _ b] by (auto simp: no_default simp del: read_with_schema.simps)
  have pub: "f \<in> set (ss_fields ?public) \<longleftrightarrow> f \<in> set (ss_fields schema) \<and> \<not> is_phantasma_nft_reserved_field lower (ns_name f)" for f
    by (auto simp: build_phantasma_nft_public_mint_schema_def)
  have fields: "\<forall>f \<in> set (ss_fields schema). struct_get t (ns_name f) =
       (if is_phantasma_nft_reserved_field lower (ns_name f) then None else rom_value lower metadata f)"
    using t(2,3) by (simp add: pub has)
  have "(struct_get t name \<noteq> None) = (\<not> is_phantasma_nft_reserved_field lower name \<and> schema_has_field schema name)" for name
  proof (cases "schema_has_field ?public name")
    case True
    then obtain f where "f \<in> set (ss_fields ?public)" "ns_name f = name"
      by (auto simp: schema_has_field_def list_ex_iff)
    with t(2,4) [of f] True show ?thesis by (simp add: has)
  qed (use t(3) [of name] in \<open>simp add: has\<close>)
  with t(1) fields free show ?thesis by blast
qed

text \<open>A schema with a struct field, whose value is given as a dict.\<close>

definition nested_rom_schema :: struct_schema where
  "nested_rom_schema = VMStructSchema (standard_nft_fields @ [schema_field (str ''a'') VM_INT16,
     VMNamedVariableSchema (str ''b'') (VMVariableSchema VM_STRUCT (Some (VMStructSchema [schema_field (str ''x'') VM_INT16] 0)))]) 0"

definition nested_metadata :: "(pystr \<times> vm_data) list" where
  "nested_metadata = [(str ''a'', DInt 65535), (str ''b'', DDict [(DStr (str ''x''), DInt 65535)])]"

definition nested_value :: vm_data where
  "nested_value = DStruct (VMDynamicStruct [VMNamedDynamicVariable (str ''x'') (VMDynamicVariable VM_INT16 (DInt (- 1)))])"

lemma nested_coerced:
  "coerce_metadata_value id (VMVariableSchema VM_STRUCT (Some (VMStructSchema [schema_field (str ''x'') VM_INT16] 0)))
     (DDict [(DStr (str ''x''), DInt 65535)]) = Inr nested_value"
  by (simp add: coerce_metadata_value.simps coerce_metadata_struct.simps metadata_dynamic_fields.simps schema_field_def
      metadata_struct_input_to_fields_def ensure_metadata_key_def has_default_field_def find_metadata_field_def
      example_coerced [unfolded coerce_metadata_value.simps, simplified] nested_value_def)

lemma nested_public:
  "build_phantasma_nft_public_mint_schema id nested_rom_schema = VMStructSchema (drop 2 (ss_fields nested_rom_schema)) 0"
  by (simp add: build_phantasma_nft_public_mint_schema_def nested_rom_schema_def standard_nft_fields_def
      schema_field_def is_phantasma_nft_reserved_field_def STANDARD_META_ID_def)

lemma nested_fields:
  "metadata_dynamic_fields id (VMStructSchema (drop 2 (ss_fields nested_rom_schema)) 0) [] nested_metadata =
     Inr [VMNamedDynamicVariable (str ''a'') (VMDynamicVariable VM_INT16 (DInt (- 1))),
       VMNamedDynamicVariable (str ''b'') (VMDynamicVariable VM_STRUCT nested_value)]"
  by (simp add: metadata_dynamic_fields.simps nested_rom_schema_def standard_nft_fields_def nested_metadata_def has_default_field_def
      find_metadata_field_def schema_field_def example_coerced nested_coerced [simplified schema_field_def, simplified])

lemma nested_built: "\<exists>bs. build_phantasma_nft_rom (\<lambda>_. []) id nested_rom_schema nested_metadata = Inr bs"
proof -
  have "\<exists>bs. write_dynamic_struct_with_schema (\<lambda>_. []) (VMDynamicStruct
      [VMNamedDynamicVariable (str ''a'') (VMDynamicVariable VM_INT16 (DInt (- 1))),
       VMNamedDynamicVariable (str ''b'') (VMDynamicVariable VM_STRUCT nested_value)])
      (VMStructSchema (drop 2 (ss_fields nested_rom_schema)) 0) = Inr bs"
    by (simp add: write_dynamic_struct_eq nested_rom_schema_def standard_nft_fields_def nested_value_def schema_field_def
        write_with_schema_some write_field_def field_value_def struct_get_def extras_tail_def write_static_cases
        static_value_def write_scalar_typed serialize_wseq serialize_ints)
  moreover have "nested_metadata \<noteq> []" by (simp add: nested_metadata_def)
  moreover have "\<not> list_ex (\<lambda>kv. is_phantasma_nft_reserved_field id (fst kv)) nested_metadata"
    by (simp add: nested_metadata_def is_phantasma_nft_reserved_field_def STANDARD_META_ID_def)
  ultimately show ?thesis by (auto simp: build_phantasma_nft_rom_def nested_public nested_fields)
qed

lemma nested_values:
  "rom_value id nested_metadata (schema_field (str ''a'') VM_INT16) = Some (VMDynamicVariable VM_INT16 (DInt (- 1)))"
  "rom_value id nested_metadata (VMNamedVariableSchema (str ''b'') (VMVariableSchema VM_STRUCT
     (Some (VMStructSchema [schema_field (str ''x'') VM_INT16] 0)))) = Some (VMDynamicVariable VM_STRUCT nested_value)"
  by (simp_all add: rom_value_def nested_metadata_def nested_coerced [simplified] example_coerced schema_field_def
      read_back_as_def nested_coerced [simplified schema_field_def, simplified])

lemma nested_rom_ok:
  "distinct (map ns_name (ss_fields nested_rom_schema))" "nested_ok (Suc 2) id nested_metadata nested_rom_schema"
  "list_all (\<lambda>kv. fixed_sizes (snd kv)) nested_metadata"
proof -
  show "distinct (map ns_name (ss_fields nested_rom_schema))"
    by (simp add: nested_rom_schema_def standard_nft_fields_def schema_field_def STANDARD_META_ID_def)
  show "list_all (\<lambda>kv. fixed_sizes (snd kv)) nested_metadata" by (simp add: nested_metadata_def)
  have "static_ok (Suc 2) VM_STRUCT (Some (VMStructSchema [schema_field (str ''x'') VM_INT16] 0)) nested_value"
    by (simp add: nested_value_def numeral_2_eq_2 struct_sorted_def the_field_def struct_extras_def schema_has_field_def
        schema_field_def plain_ok_def)
  then show "nested_ok (Suc 2) id nested_metadata nested_rom_schema"
    using nested_values(2)
    by (simp add: nested_ok_def nested_rom_schema_def standard_nft_fields_def schema_field_def flat_type_def del: static_ok.simps)
qed

theorem phantasma_nft_rom_reads_back_witness:
  "\<exists>bs t. build_phantasma_nft_rom (\<lambda>_. []) id nested_rom_schema nested_metadata = Inr bs \<and>
     deserialize (read_with_schema 4 (Some (build_phantasma_nft_public_mint_schema id nested_rom_schema))) bs = Inr t \<and>
     struct_get t (str ''a'') = Some (VMDynamicVariable VM_INT16 (DInt (- 1))) \<and>
     struct_get t (str ''b'') = Some (VMDynamicVariable VM_STRUCT nested_value) \<and> struct_get t (str ''rom'') = None"
proof -
  obtain bs where w: "build_phantasma_nft_rom (\<lambda>_. []) id nested_rom_schema nested_metadata = Inr bs" using nested_built by blast
  let ?a = "schema_field (str ''a'') VM_INT16"
  let ?b = "VMNamedVariableSchema (str ''b'') (VMVariableSchema VM_STRUCT (Some (VMStructSchema [schema_field (str ''x'') VM_INT16] 0)))"
  have f: "?a \<in> set (ss_fields nested_rom_schema)" "?b \<in> set (ss_fields nested_rom_schema)"
    "ns_name ?a = str ''a''" "ns_name ?b = str ''b''"
    by (simp_all add: nested_rom_schema_def schema_field_def)
  have r: "\<not> is_phantasma_nft_reserved_field id (str ''a'')" "\<not> is_phantasma_nft_reserved_field id (str ''b'')"
    "is_phantasma_nft_reserved_field id (str ''rom'')"
    by (simp_all add: is_phantasma_nft_reserved_field_def STANDARD_META_ID_def)
  have four: "Suc (Suc 2) = 4" by simp
  obtain t where t: "deserialize (read_with_schema 4 (Some (build_phantasma_nft_public_mint_schema id nested_rom_schema))) bs = Inr t"
    "\<forall>f \<in> set (ss_fields nested_rom_schema). struct_get t (ns_name f) =
       (if is_phantasma_nft_reserved_field id (ns_name f) then None else rom_value id nested_metadata f)"
    "\<forall>name. (struct_get t name \<noteq> None) = (\<not> is_phantasma_nft_reserved_field id name \<and> schema_has_field nested_rom_schema name)"
    using phantasma_nft_rom_reads_back [OF nested_rom_ok w] unfolding four by blast
  have "struct_get t (str ''a'') = Some (VMDynamicVariable VM_INT16 (DInt (- 1)))"
    using bspec [OF t(2) f(1)] r(1) nested_values(1) f(3) by simp
  moreover have "struct_get t (str ''b'') = Some (VMDynamicVariable VM_STRUCT nested_value)"
    using bspec [OF t(2) f(2)] r(2) nested_values(2) f(4) by simp
  moreover have "struct_get t (str ''rom'') = None" using t(3) r(3) by blast
  ultimately show ?thesis using w t(1) by blast
qed

text \<open>The address of an NFT, and addresses of ids read from a result.\<close>

definition nft_address :: "int \<Rightarrow> int \<Rightarrow> bytes" where
  "nft_address token_id instance_id = replicate 15 0 @ [1] @ le_bytes 8 token_id @ le_bytes 8 instance_id"

lemma get_nft_address_eq:
  "get_nft_address token_id instance_id =
     (if 0 \<le> token_id \<and> token_id < 2 ^ 64 \<and> 0 \<le> instance_id \<and> instance_id < 2 ^ 64
      then Inr (nft_address token_id instance_id) else Inl OverflowError)"
  by (simp add: get_nft_address_def to_bytes_le_def nft_address_def FixedBytes_length)

lemma nft_address_inject:
  assumes "0 \<le> t" "t < 2 ^ 64" "0 \<le> t'" "t' < 2 ^ 64" "0 \<le> i" "i < 2 ^ 64" "0 \<le> i'" "i' < 2 ^ 64"
  shows "nft_address t i = nft_address t' i' \<longleftrightarrow> t = t' \<and> i = i'"
  using assms by (simp add: nft_address_def le_bytes_eq_iff)

lemma rt_nft_ids:
  assumes "0 \<le> token_id" "token_id < 2 ^ 64" "list_all (\<lambda>i. 0 \<le> i \<and> i < 2 ^ 64) ids"
  shows "rt (write_carbon_array write8u ids)
    (read_carbon_array (rbind read8u (\<lambda>i. rlift (get_nft_address token_id i)))) (map (nft_address token_id) ids)"
proof (rule rt_carbon_array_map)
  fix i assume "i \<in> set ids"
  then have "get_nft_address token_id i = Inr (nft_address token_id i)"
    using assms by (simp add: get_nft_address_eq list_all_iff)
  then show "rt (write8u i) (rbind read8u (\<lambda>i. rlift (get_nft_address token_id i))) (nft_address token_id i)"
    by (intro rt_bind_lift [OF rt_write8u]) simp
qed simp_all

text \<open>From the result of a mint, the list of new ids, the parser makes one address per id, in order; ids of
  64 bits under one token give different addresses, and an address determines its token and its id.\<close>

theorem mint_result_addresses:
  assumes "0 \<le> token_id" "token_id < 2 ^ 64" "list_all (\<lambda>i. 0 \<le> i \<and> i < 2 ^ 64) ids"
    and "serialize (write_carbon_array write8u ids) = Inr bs"
  shows "\<exists>addresses. parse_mint_non_fungible_result token_id (bytes_hex bs) = Inr addresses \<and>
     rmap (get_nft_address token_id) ids = Inr addresses \<and> (distinct ids \<longrightarrow> distinct addresses) \<and>
     (\<forall>t i. get_nft_address t i \<in> Inr ` set addresses \<longrightarrow> t = token_id \<and> i \<in> set ids)"
proof -
  let ?addresses = "map (nft_address token_id) ids"
  have "parse_mint_non_fungible_result token_id (bytes_hex bs) = Inr ?addresses"
    using rt_deserialize [OF rt_nft_ids [OF assms(1-3)] assms(4)] decode_encode_hex [of bs]
    by (simp add: parse_mint_non_fungible_result_def encode_hex_def)
  moreover have "rmap (get_nft_address token_id) ids = Inr ?addresses"
    using assms(1-3) by (intro rmap_Inr) (simp add: get_nft_address_eq list_all_iff)
  moreover have "inj_on (nft_address token_id) (set ids)"
    using assms(1-3) by (auto simp: inj_on_def list_all_iff nft_address_inject)
  moreover have "t = token_id \<and> i \<in> set ids" if "get_nft_address t i \<in> Inr ` set ?addresses" for t i
    using that assms(1-3) by (auto simp: get_nft_address_eq list_all_iff nft_address_inject split: if_splits)
  ultimately show ?thesis by (auto simp: distinct_map)
qed

theorem mint_result_addresses_witness:
  "\<exists>bs addresses. serialize (write_carbon_array write8u [5, 9]) = Inr bs \<and>
     parse_mint_non_fungible_result 3 (bytes_hex bs) = Inr addresses \<and> distinct addresses"
proof -
  have "\<exists>bs. serialize (write_carbon_array write8u [5, 9]) = Inr bs"
    by (simp add: write_carbon_array_def serialize_wseq serialize_ints)
  then show ?thesis using mint_result_addresses [of 3 "[5, 9]"] by fastforce
qed

text \<open>C22: Creating a token, end to end: if the description can be written and the fee and the limits fit in
  their fields, building and signing returns bytes, and the receiver reads back one message with one witness,
  the signature of the owner of the key over that message; the call names the token contract, its arguments
  decode to the description, and the gas limit is the one of the fee options for the symbol.\<close>

theorem create_token_end_to_end:
  assumes "crypto_lib_ok L" "keys_ok k" "TokenInfo_ok info" "serialize (write_TokenInfo info) = Inr args"
    and "length args < 2 ^ 31" "calculate_max_gas_for_symbol fees (ti_symbol info) = Inr gas" "0 \<le> gas" "gas < 2 ^ 64"
    and "0 \<le> max_data" "max_data < 2 ^ 64" "- (2 ^ 63) \<le> expiry_or now expiry" "expiry_or now expiry < 2 ^ 63"
  shows "\<exists>bs m w message. build_create_token_tx_and_sign L now info k (Some fees) max_data expiry = Inr bs \<and>
     deserialize read_SignedTxMsg bs = Inr \<lparr>sm_msg = m, sm_witnesses = [w]\<rparr> \<and>
     tm_gas_from m = public_key L k \<and> tm_max_gas m = gas \<and> tm_max_data m = max_data \<and>
     tm_expiry m = expiry_or now expiry \<and> tm_msg m = token_call CREATE_TOKEN args \<and>
     deserialize read_TokenInfo args = Inr info \<and> serialize (write_TxMsg m) = Inr message \<and>
     wi_address w = public_key L k \<and> ed25519_verify L (wi_address w) (wi_signature w) message"
proof -
  note pk = keys_address_user(2) [OF assms(1,2)]
  let ?m = "\<lparr>tm_type = TX_CALL, tm_expiry = expiry_or now expiry, tm_max_gas = gas, tm_max_data = max_data,
    tm_gas_from = public_key L k, tm_payload = [], tm_msg = token_call CREATE_TOKEN args\<rparr>"
  have b: "build_create_token_tx_and_sign L now info k (Some fees) max_data expiry = sign_and_serialize_tx_msg L ?m k"
    using assms(4,6) pk by (simp add: build_create_token_tx_and_sign_def build_create_token_tx_def
        bytes32_from_public_key_def FixedBytes_length)
  have ok: "TxMsg_ok ?m" using pk by (simp add: TxMsg_ok_def token_call_def TxMsgCall_ok_def)
  have "\<exists>message. serialize (write_TxMsg ?m) = Inr message"
    using assms(5,7-12) pk by (simp add: write_TxMsg_def token_call_def write_TxMsgCall_def serialize_wseq serialize_ints
        serialize_fixed serialize_small_string ModuleID_TOKEN_def CREATE_TOKEN_def)
  then obtain message where message: "serialize (write_TxMsg ?m) = Inr message" ..
  have "one_signer_ok L ?m k" by (simp add: one_signer_ok_def witness_list_types_def)
  from sign_returns [OF assms(1,2) ok message this] b message token_info.roundtrip [OF assms(3,4)]
  show ?thesis by auto
qed

definition example_token :: TokenInfo where
  "example_token = \<lparr>ti_max_supply = 0, ti_flags = 0, ti_decimals = 8, ti_owner = replicate 32 1,
     ti_symbol = [65, 66], ti_metadata = [7], ti_token_schemas = []\<rparr>"

lemma example_token_written:
  "\<exists>args. serialize (write_TokenInfo example_token) = Inr args \<and> length args < 2 ^ 31"
  by (simp add: example_token_def write_TokenInfo_def write_int_x_def is_8_byte_safe_def serialize_wseq serialize_ints
      serialize_fixed serialize_small_string write_byte_array_def utf8_char_def)

theorem create_token_end_to_end_witness:
  "\<exists>bs m w. build_create_token_tx_and_sign example_lib 1000 example_token example_keys
       (Some default_create_token_fee_options) 100 0 = Inr bs \<and>
     deserialize read_SignedTxMsg bs = Inr \<lparr>sm_msg = m, sm_witnesses = [w]\<rparr> \<and>
     tm_expiry m = 61000 \<and> tm_max_gas m = 150000100000000"
proof -
  obtain args where a: "serialize (write_TokenInfo example_token) = Inr args" "length args < 2 ^ 31"
    using example_token_written by blast
  have ok: "TokenInfo_ok example_token" by (simp add: TokenInfo_ok_def example_token_def int256_def)
  have g: "calculate_max_gas_for_symbol default_create_token_fee_options (ti_symbol example_token) = Inr 150000100000000"
    by (simp add: calculate_max_gas_for_symbol_def default_create_token_fee_options_def example_token_def utf8_char_def
        py_shr_def)
  have e: "expiry_or 1000 0 = 61000" by (simp add: expiry_or_def)
  from create_token_end_to_end [OF example_lib_ok example_keys_ok ok a g, of 100 1000 0] show ?thesis by (auto simp: e)
qed

text \<open>Field declarations as the JSON the parser expects.\<close>

definition field_json :: "TokenSchemaField \<Rightarrow> json" where
  "field_json f = JObject [(str ''name'', JStr (tf_name f)),
     (str ''type'', case vm_type_name (tf_type f) of Inr n \<Rightarrow> JStr n | Inl _ \<Rightarrow> JNull)]"

definition schemas_json :: "TokenSchemasJSON \<Rightarrow> json" where
  "schemas_json s = JObject [(str ''seriesMetadata'', JList (map field_json (tj_series_metadata s))),
     (str ''rom'', JList (map field_json (tj_rom s))), (str ''ram'', JList (map field_json (tj_ram s)))]"

lemma str_no_space: "list_all (\<lambda>c. 0x21 \<le> (of_char c :: nat) \<and> of_char c < (0x7F :: nat)) s \<Longrightarrow> py_strip (str s) = str s"
  by (rule py_strip_none) (auto simp: str_def list_all_iff is_py_space_def)

lemma map_of_str: "map_of (map (\<lambda>(n, t). (str n, t)) xs) (str s) = map_of xs s"
  by (induction xs) (auto simp: str_inject)

lemma canonical_names_map:
  "list_all (\<lambda>(ty, n). list_all (\<lambda>c. 0x21 \<le> (of_char c :: nat) \<and> of_char c < (0x7F :: nat)) n \<and>
     map_of vm_type_name_map n = Some ty) vm_type_canonical_names"
  by code_simp

lemma canonical_name_total: "map_of vm_type_canonical_names ty \<noteq> None"
  by (cases ty) (simp_all add: vm_type_canonical_names_def)

lemma vm_type_name_back: "\<exists>name. vm_type_name ty = Inr name \<and> vm_type_from_string name = Inr ty"
proof -
  obtain n where n: "map_of vm_type_canonical_names ty = Some n" using canonical_name_total [of ty] by blast
  from map_of_SomeD [OF n] canonical_names_map show ?thesis
    by (auto simp: vm_type_name_def vm_type_from_string_def n list_all_iff [of _ vm_type_canonical_names]
        str_no_space map_of_str split: option.splits)
qed

lemma parse_field_json: "parse_token_schema_field (field_json f) = Inr f"
  using vm_type_name_back [of "tf_type f"]
  by (auto simp: parse_token_schema_field_def field_json_def json_get_def)

lemma parse_fields_json: "rmap parse_token_schema_field (map field_json fs) = Inr fs"
  by (induction fs) (simp_all add: parse_field_json)

text \<open>C37: Schemas given as JSON text are the ones built from the field declarations that text stands for, each
  type under its canonical name, and what is returned has passed the check of token schemas.\<close>

theorem token_schemas_json_reads_back:
  assumes "json_loads data = Inr (schemas_json s)"
  shows "parse_token_schemas_json json_loads data = Inr s \<and>
    token_schemas_from_json json_loads lower data = build_token_schemas_from_fields lower
      (map FieldDeclared (tj_series_metadata s)) (map FieldDeclared (tj_rom s)) (map FieldDeclared (tj_ram s)) \<and>
    (\<forall>schemas. token_schemas_from_json json_loads lower data = Inr schemas \<longrightarrow> schemas_complete schemas)"
proof -
  have "parse_token_schemas_json json_loads data = Inr s"
    using assms by (simp add: parse_token_schemas_json_def schemas_json_def parse_token_schema_field_array_def
        json_get_def parse_fields_json)
  then show ?thesis
    by (auto simp: token_schemas_from_json_def build_token_schemas_from_fields_def rthen_Inr_iff Let_def
        verify_token_schemas_eq split: if_splits)
qed

definition example_schemas_json :: TokenSchemasJSON where
  "example_schemas_json = \<lparr>tj_series_metadata = [],
     tj_rom = [\<lparr>tf_name = [97], tf_type = VM_ARRAY_INT16\<rparr>], tj_ram = []\<rparr>"

theorem token_schemas_json_reads_back_witness:
  "parse_token_schemas_json (\<lambda>_. Inr (schemas_json example_schemas_json)) [123] = Inr example_schemas_json"
  using token_schemas_json_reads_back [of "\<lambda>_. Inr (schemas_json example_schemas_json)" "[123]" example_schemas_json]
  by simp

section \<open>Token metadata as a map\<close>

text \<open>The struct made of a dict of texts.\<close>

definition text_var :: "pystr \<times> pystr \<Rightarrow> named_var" where
  "text_var f = VMNamedDynamicVariable (fst f) (VMDynamicVariable VM_STRING (DStr (snd f)))"

definition text_struct :: "(pystr \<times> pystr) list \<Rightarrow> dyn_struct" where
  "text_struct flds = VMDynamicStruct (map text_var flds)"

lemma text_vars:
  "rmap (\<lambda>(name, v). VMNamedDynamicVariable_make name VM_STRING (DStr v)) flds = Inr vars \<Longrightarrow> vars = map text_var flds"
  by (induction flds arbitrary: vars)
    (auto simp: VMNamedDynamicVariable_make_def SmallString_def text_var_def rthen_Inr_iff split: if_splits)

lemma text_struct_ok: "struct_ok (Suc (Suc (Suc (Suc depth)))) (struct_sort (text_struct flds))"
  by (auto simp: text_struct_def struct_sort_def struct_sorted_def list_all_iff text_var_def plain_ok_def)

lemma text_struct_get:
  assumes "distinct (map fst flds)"
  shows "struct_get (struct_sort (text_struct flds)) name = map_option (\<lambda>v. VMDynamicVariable VM_STRING (DStr v)) (map_of flds name)"
proof -
  have "struct_map (text_struct flds) name = map_option (\<lambda>v. VMDynamicVariable VM_STRING (DStr v)) (map_of flds name)"
    by (induction flds) (auto simp: struct_map_def text_struct_def text_var_def)
  moreover have "distinct (map nv_name (ds_fields (text_struct flds)))"
    using assms by (simp add: text_struct_def text_var_def comp_def)
  ultimately show ?thesis by (simp add: struct_get_map struct_sort_map)
qed

lemma struct_sort_idem [simp]: "struct_sort (struct_sort s) = struct_sort s"
  by (cases s) (simp add: struct_sort_def sort_key_id_if_sorted)

lemma metadata_written:
  "build_token_metadata py_text base64_accepts flds = Inr bs \<Longrightarrow> serialize (write_dyn_struct py_text (text_struct flds)) = Inr bs"
  by (auto simp: build_token_metadata_def text_struct_def Let_def rthen_Inr_iff dest: text_vars split: if_splits)

lemma text_struct_read:
  assumes "serialize (write_dyn_struct py_text (text_struct flds)) = Inr bs" "4 \<le> depth"
  shows "deserialize (read_dyn_struct depth) bs = Inr (struct_sort (text_struct flds))"
proof -
  obtain d where "depth = 4 + d" using assms(2) le_Suc_ex by blast
  then have d: "depth = Suc (Suc (Suc (Suc d)))" by simp
  have "serialize (write_dyn_struct py_text (struct_sort (text_struct flds))) = Inr bs"
    using assms(1) by (simp add: write_dyn_struct.simps)
  then show ?thesis unfolding d by (rule dyn_struct.roundtrip [OF text_struct_ok])
qed

lemma metadata_required:
  assumes "build_token_metadata py_text base64_accepts flds = Inr bs"
    and "name \<in> set [str ''name'', str ''icon'', str ''url'', str ''description'']"
  shows "\<exists>v. map_of flds name = Some v \<and> py_strip v \<noteq> []"
proof -
  have "py_strip (case map_of flds name of None \<Rightarrow> [] | Some v \<Rightarrow> v) \<noteq> []"
    using assms by (auto simp: build_token_metadata_def Let_def simp del: str_Cons split: if_splits)
  then show ?thesis by (cases "map_of flds name") (simp_all add: py_strip_def)
qed

text \<open>When the fields can be written.\<close>

lemma py_strip_nonblank: "\<not> is_py_space c \<Longrightarrow> py_strip (c # s) \<noteq> []"
  by (simp add: py_strip_def dropWhile_eq_Nil_conv)

lemma text_var_written:
  assumes "is_ascii (fst f)" "length (fst f) \<le> 255" "is_ascii (snd f)" "0 \<notin> set (snd f)"
  shows "\<exists>bs. serialize (write_named_dyn py_text (text_var f)) = Inr bs"
  using assms by (simp add: text_var_def write_named_dyn.simps write_dyn_var.simps write_static_cases write_scalar_typed
     serialize_wseq serialize_ints serialize_small_string utf8_encode_ascii static_value_def write_string_z_def dyn_appends)

lemma metadata_built:
  assumes "4 \<le> length flds" "length flds < 2 ^ 31"
    and "list_all (\<lambda>name. py_strip (case map_of flds name of None \<Rightarrow> [] | Some v \<Rightarrow> v) \<noteq> [])
      [str ''name'', str ''icon'', str ''url'', str ''description'']"
    and "validate_icon_data_uri base64_accepts (case map_of flds (str ''icon'') of None \<Rightarrow> [] | Some v \<Rightarrow> v) = Inr ()"
    and flds: "list_all (\<lambda>f. is_ascii (fst f) \<and> length (fst f) \<le> 255 \<and> is_ascii (snd f) \<and> 0 \<notin> set (snd f)) flds"
  shows "\<exists>bs. build_token_metadata py_text base64_accepts flds = Inr bs"
proof -
  have made: "rmap (\<lambda>(name, v). VMNamedDynamicVariable_make name VM_STRING (DStr v)) flds = Inr (map text_var flds)"
    using flds by (induction flds) (auto simp: VMNamedDynamicVariable_make_def SmallString_def utf8_encode_ascii text_var_def)
  have "\<exists>bs. serialize (write_named_dyn py_text n) = Inr bs" if "n \<in> set (ds_fields (struct_sort (text_struct flds)))" for n
    using that flds by (auto simp: struct_sort_def text_struct_def list_all_iff intro: text_var_written)
  moreover have "length (ds_fields (struct_sort (text_struct flds))) = length flds"
    by (simp add: struct_sort_def text_struct_def)
  ultimately have "\<exists>bs. serialize (write_dyn_struct py_text (text_struct flds)) = Inr bs"
    using assms(2) by (simp add: write_dyn_struct.simps write_carbon_array_def serialize_wseq_Inr list_all_iff dyn_appends serialize_ints)
  with made assms(1,3,4) show ?thesis
    by (simp add: build_token_metadata_def Let_def text_struct_def not_less del: str_Cons)
qed

text \<open>C23: The metadata of a token is a map of texts: what is built from a dict comes back as a struct sorted by name in
  which every name has the text it was given and no other name has a value, and it holds a name, an icon, a URL and
  a description that are not blank.
\<close>

theorem token_metadata_reads_back:
  assumes "build_token_metadata py_text base64_accepts flds = Inr bs" "distinct (map fst flds)" "4 \<le> depth"
  shows "\<exists>s. deserialize (read_dyn_struct depth) bs = Inr s \<and> sorted (map nv_name (ds_fields s)) \<and>
    (\<forall>name. struct_get s name = map_option (\<lambda>v. VMDynamicVariable VM_STRING (DStr v)) (map_of flds name)) \<and>
    list_all (\<lambda>name. \<exists>v. map_of flds name = Some v \<and> py_strip v \<noteq> []) [str ''name'', str ''icon'', str ''url'', str ''description'']"
  unfolding text_struct_read [OF metadata_written [OF assms(1)] assms(3)] list_all_iff
  using text_struct_get [OF assms(2)] metadata_required [OF assms(1)]
  by (auto simp: struct_sort_def simp del: str_Cons)

definition art_metadata :: "(pystr \<times> pystr) list" where
  "art_metadata = [(str ''name'', str ''Example Art Token''), (str ''icon'', str ''data:image/png;base64,AA==''),
     (str ''url'', str ''https://example.invalid/art''), (str ''description'', str ''Example token metadata'')]"

lemma art_metadata_built:
  assumes "base64_accepts (str ''AA=='')"
  shows "\<exists>bs. build_token_metadata py_text base64_accepts art_metadata = Inr bs"
proof (rule metadata_built)
  have "map_of art_metadata (str ''name'') = Some (str ''Example Art Token'')"
    "map_of art_metadata (str ''icon'') = Some (str ''data:image/png;base64,AA=='')"
    "map_of art_metadata (str ''url'') = Some (str ''https://example.invalid/art'')"
    "map_of art_metadata (str ''description'') = Some (str ''Example token metadata'')"
    by code_simp+
  moreover have "py_strip (str ''Example Art Token'') \<noteq> []" "py_strip (str ''data:image/png;base64,AA=='') \<noteq> []"
    "py_strip (str ''https://example.invalid/art'') \<noteq> []" "py_strip (str ''Example token metadata'') \<noteq> []"
    by (simp_all add: py_strip_nonblank is_py_space_def)
  ultimately show "list_all (\<lambda>name. py_strip (case map_of art_metadata name of None \<Rightarrow> [] | Some v \<Rightarrow> v) \<noteq> [])
      [str ''name'', str ''icon'', str ''url'', str ''description'']"
    by (simp del: str_Cons)
  let ?icon = "case map_of art_metadata (str ''icon'') of None \<Rightarrow> [] | Some v \<Rightarrow> v"
  have "list_ex (\<lambda>kind. starts_with_pattern (str ''data:image/'' @ kind @ str '';base64,'') ?icon) [str ''png'', str ''jpeg'', str ''webp'']"
    by code_simp
  moreover have "drop 1 (dropWhile (\<lambda>c. c \<noteq> 44) ?icon) = str ''AA==''" by code_simp
  ultimately show "validate_icon_data_uri base64_accepts ?icon = Inr ()"
    using assms unfolding validate_icon_data_uri_def by simp
  show "list_all (\<lambda>f. is_ascii (fst f) \<and> length (fst f) \<le> 255 \<and> is_ascii (snd f) \<and> 0 \<notin> set (snd f)) art_metadata"
    by code_simp
qed (simp_all add: art_metadata_def)

theorem token_metadata_reads_back_witness:
  "\<exists>bs s. build_token_metadata (\<lambda>_. []) (\<lambda>_. True) art_metadata = Inr bs \<and>
     deserialize (read_dyn_struct 4) bs = Inr s \<and>
     struct_get s (str ''url'') = Some (VMDynamicVariable VM_STRING (DStr (str ''https://example.invalid/art'')))"
proof -
  obtain bs where bs: "build_token_metadata (\<lambda>_. []) (\<lambda>_. True) art_metadata = Inr bs"
    using art_metadata_built [of "\<lambda>_. True"] by blast
  have "distinct (map fst art_metadata)" by code_simp
  moreover have "map_of art_metadata (str ''url'') = Some (str ''https://example.invalid/art'')" by code_simp
  ultimately show ?thesis using token_metadata_reads_back [OF bs, of 4] bs by auto
qed

end
