(* ===== verification/RpcMethods.thy ===== *)
theory RpcMethods
  imports RpcResults CarbonSign TokenBuilder
begin

text \<open>
  \<^verbatim>\<open>PhantasmaRPC\<close>: the typed methods of the client, each one call and the decoding of its result. A definition
  takes all arguments of its method in their order, so that a default stands at the caller's; deprecation warnings
  are not modelled. \<open>L\<close> is the session and the libraries, \<open>K\<close> the cryptographic primitives.
\<close>

section \<open>A call and what follows\<close>

definition rpc_decode :: "('a \<Rightarrow> 'b result) \<Rightarrow> ('w, 'a) rpc_op \<Rightarrow> ('w, 'b) rpc_op" where
  "rpc_decode f op c = (case op c of (Inl failure, c') \<Rightarrow> (Inl failure, c') | (Inr v, c') \<Rightarrow> (raised (f v), c'))"

text \<open>\<open>rpc_try r f\<close>: what the client computes before it calls; a failure leaves the client as it is.\<close>

definition rpc_try :: "'a result \<Rightarrow> ('a \<Rightarrow> ('w, 'b) rpc_op) \<Rightarrow> ('w, 'b) rpc_op" where
  "rpc_try r f c = (case r of Inl e \<Rightarrow> (Inl (Raised e), c) | Inr x \<Rightarrow> f x c)"

text \<open>A single text, or a sequence joined by commas.\<close>

fun join_commas :: "pystr list \<Rightarrow> pystr" where
  "join_commas [] = []"
| "join_commas [s] = s"
| "join_commas (s # ss) = s @ 44 # join_commas ss"

definition comma_text :: "pystr + pystr list \<Rightarrow> pystr" where
  "comma_text v = (case v of Inl s \<Rightarrow> s | Inr ss \<Rightarrow> join_commas ss)"

text \<open>A client of this class is the JSON-RPC client it holds.\<close>

definition new_rpc :: "pystr \<Rightarrow> 'w \<Rightarrow> pystr \<Rightarrow> int \<Rightarrow> pystr option \<Rightarrow> 'w client result" where
  "new_rpc endpoint session timeout max_response_bytes api_key =
     new_client endpoint session timeout max_response_bytes api_key"

definition mainnet :: "'w \<Rightarrow> 'w client result" where
  "mainnet session = new_rpc (str ''https://pharpc1.phantasma.info/rpc'') session (str ''30.0'')
     DEFAULT_MAX_RPC_RESPONSE_BYTES None"

definition testnet :: "'w \<Rightarrow> 'w client result" where
  "testnet session = new_rpc (str ''https://testnet.phantasma.info/rpc'') session (str ''30.0'')
     DEFAULT_MAX_RPC_RESPONSE_BYTES None"

section \<open>Queries\<close>

definition get_platforms :: "'w rpc_lib \<Rightarrow> ('w, response list) rpc_op" where
  "get_platforms L =
     rpc_decode (decode_list ''PlatformResult'')
       (call L (str ''getPlatforms'') [])"

definition get_account_info :: "'w rpc_lib \<Rightarrow> pystr \<Rightarrow> bool option \<Rightarrow> pystr option \<Rightarrow> ('w, response) rpc_op" where
  "get_account_info L address check_address_reserved_byte address_type =
     rpc_decode (decode_dataclass rpc_env ''AccountInfoResult'')
       (call L (str ''getAccountInfo'')
         (optional_params [JStr address, opt JBool check_address_reserved_byte, opt JStr address_type]))"

definition get_account :: "'w rpc_lib \<Rightarrow> pystr \<Rightarrow> bool \<Rightarrow> bool option \<Rightarrow> pystr option \<Rightarrow> ('w, response) rpc_op" where
  "get_account L address extended check_address_reserved_byte address_type =
     rpc_decode (decode_dataclass rpc_env ''AccountResult'')
       (call L (str ''getAccount'')
         (optional_params [JStr address, JBool extended, opt JBool check_address_reserved_byte, opt JStr address_type]))"

definition get_accounts :: "'w rpc_lib \<Rightarrow> (pystr + pystr list) \<Rightarrow> bool \<Rightarrow> bool option \<Rightarrow> pystr option \<Rightarrow> ('w, response list) rpc_op" where
  "get_accounts L addresses extended check_address_reserved_byte address_type =
     rpc_decode (decode_list ''AccountResult'')
       (call L (str ''getAccounts'')
         (optional_params [JStr (comma_text addresses), JBool extended, opt JBool check_address_reserved_byte, opt JStr address_type]))"

definition get_accounts_text :: "'w rpc_lib \<Rightarrow> pystr \<Rightarrow> bool \<Rightarrow> ('w, response list) rpc_op" where
  "get_accounts_text L addresses extended =
     get_accounts L (Inl addresses) extended None None"

definition get_account_with_address_type :: "'w rpc_lib \<Rightarrow> pystr \<Rightarrow> bool \<Rightarrow> bool \<Rightarrow> pystr \<Rightarrow> ('w, response) rpc_op" where
  "get_account_with_address_type L address extended check_address_reserved_byte address_type =
     get_account L address extended (Some check_address_reserved_byte) (Some address_type)"

definition get_accounts_with_address_type :: "'w rpc_lib \<Rightarrow> (pystr + pystr list) \<Rightarrow> bool \<Rightarrow> bool \<Rightarrow> pystr \<Rightarrow> ('w, response list) rpc_op" where
  "get_accounts_with_address_type L addresses extended check_address_reserved_byte address_type =
     get_accounts L addresses extended (Some check_address_reserved_byte) (Some address_type)"

definition lookup_name :: "'w rpc_lib \<Rightarrow> pystr \<Rightarrow> ('w, pystr) rpc_op" where
  "lookup_name L name =
     rpc_decode (json_str (rl_show L))
       (call L (str ''lookUpName'') [JStr name])"

definition look_up_name :: "'w rpc_lib \<Rightarrow> pystr \<Rightarrow> ('w, pystr) rpc_op" where
  "look_up_name L name =
     lookup_name L name"

definition get_address_transactions :: "'w rpc_lib \<Rightarrow> pystr \<Rightarrow> int \<Rightarrow> int \<Rightarrow> ('w, response paginated_result) rpc_op" where
  "get_address_transactions L address page page_size =
     rpc_decode (decode_paginated ''AddressTransactionsResult'')
       (call L (str ''getAddressTransactions'') [JStr address, JInt page, JInt page_size])"

definition get_address_transaction_count :: "'w rpc_lib \<Rightarrow> pystr \<Rightarrow> pystr \<Rightarrow> ('w, int) rpc_op" where
  "get_address_transaction_count L address chain =
     rpc_decode coerce_int
       (call L (str ''getAddressTransactionCount'') [JStr address, JStr chain])"

definition get_block_by_height :: "'w rpc_lib \<Rightarrow> pystr \<Rightarrow> json \<Rightarrow> ('w, response) rpc_op" where
  "get_block_by_height L chain height =
     rpc_decode (decode_dataclass rpc_env ''BlockResult'')
       (call L (str ''getBlockByHeight'') [JStr chain, height])"

definition get_block_height :: "'w rpc_lib \<Rightarrow> pystr \<Rightarrow> ('w, int) rpc_op" where
  "get_block_height L chain =
     rpc_decode coerce_int
       (call L (str ''getBlockHeight'') [JStr chain])"

definition get_block_transaction_count_by_hash :: "'w rpc_lib \<Rightarrow> pystr \<Rightarrow> pystr \<Rightarrow> ('w, int) rpc_op" where
  "get_block_transaction_count_by_hash L block_hash chain =
     rpc_decode coerce_int
       (call L (str ''getBlockTransactionCountByHash'') [JStr chain, JStr block_hash])"

definition get_block_transaction_count_by_hash_on_chain :: "'w rpc_lib \<Rightarrow> pystr \<Rightarrow> pystr \<Rightarrow> ('w, int) rpc_op" where
  "get_block_transaction_count_by_hash_on_chain L chain block_hash =
     get_block_transaction_count_by_hash L block_hash chain"

definition get_block_by_hash :: "'w rpc_lib \<Rightarrow> pystr \<Rightarrow> ('w, response) rpc_op" where
  "get_block_by_hash L block_hash =
     rpc_decode (decode_dataclass rpc_env ''BlockResult'')
       (call L (str ''getBlockByHash'') [JStr block_hash])"

definition get_latest_block :: "'w rpc_lib \<Rightarrow> pystr \<Rightarrow> ('w, response) rpc_op" where
  "get_latest_block L chain =
     rpc_decode (decode_dataclass rpc_env ''BlockResult'')
       (call L (str ''getLatestBlock'') [JStr chain])"

definition get_transaction_by_block_hash_and_index :: "'w rpc_lib \<Rightarrow> pystr \<Rightarrow> int \<Rightarrow> pystr \<Rightarrow> ('w, response) rpc_op" where
  "get_transaction_by_block_hash_and_index L block_hash index chain =
     rpc_decode (decode_dataclass rpc_env ''TransactionResult'')
       (call L (str ''getTransactionByBlockHashAndIndex'') [JStr chain, JStr block_hash, JInt index])"

definition get_transaction_by_block_hash_and_index_on_chain :: "'w rpc_lib \<Rightarrow> pystr \<Rightarrow> pystr \<Rightarrow> int \<Rightarrow> ('w, response) rpc_op" where
  "get_transaction_by_block_hash_and_index_on_chain L chain block_hash index =
     get_transaction_by_block_hash_and_index L block_hash index chain"

definition get_transaction :: "'w rpc_lib \<Rightarrow> pystr \<Rightarrow> ('w, response) rpc_op" where
  "get_transaction L hash_text =
     rpc_decode (decode_dataclass rpc_env ''TransactionResult'')
       (call L (str ''getTransaction'') [JStr hash_text])"

definition get_chains :: "'w rpc_lib \<Rightarrow> bool \<Rightarrow> ('w, response list) rpc_op" where
  "get_chains L extended =
     rpc_decode (decode_list ''ChainResult'')
       (call L (str ''getChains'') [JBool extended])"

definition get_chain :: "'w rpc_lib \<Rightarrow> pystr \<Rightarrow> bool \<Rightarrow> ('w, response) rpc_op" where
  "get_chain L name extended =
     rpc_decode (decode_dataclass rpc_env ''ChainResult'')
       (call L (str ''getChain'') [JStr name, JBool extended])"

definition get_gas_config :: "'w rpc_lib \<Rightarrow> ('w, response) rpc_op" where
  "get_gas_config L =
     rpc_decode (decode_dataclass rpc_env ''GasConfigResult'')
       (call L (str ''getGasConfig'') [])"

definition estimate_transaction :: "'w rpc_lib \<Rightarrow> pystr \<Rightarrow> ('w, response) rpc_op" where
  "estimate_transaction L tx_data =
     rpc_decode (decode_dataclass rpc_env ''EstimateTransactionResult'')
       (call L (str ''estimateTransaction'') [JStr tx_data])"

definition get_nexus :: "'w rpc_lib \<Rightarrow> bool \<Rightarrow> ('w, response) rpc_op" where
  "get_nexus L extended =
     rpc_decode (decode_dataclass rpc_env ''NexusResult'')
       (call L (str ''getNexus'') [JBool extended])"

definition get_contract :: "'w rpc_lib \<Rightarrow> pystr \<Rightarrow> pystr \<Rightarrow> ('w, response) rpc_op" where
  "get_contract L contract_name chain =
     rpc_decode (decode_dataclass rpc_env ''ContractResult'')
       (call L (str ''getContract'') [JStr chain, JStr contract_name])"

definition get_contract_by_name :: "'w rpc_lib \<Rightarrow> pystr \<Rightarrow> pystr \<Rightarrow> ('w, response) rpc_op" where
  "get_contract_by_name L chain contract_name =
     get_contract L contract_name chain"

definition get_contract_by_address :: "'w rpc_lib \<Rightarrow> pystr \<Rightarrow> pystr \<Rightarrow> ('w, response) rpc_op" where
  "get_contract_by_address L chain contract_address =
     rpc_decode (decode_dataclass rpc_env ''ContractResult'')
       (call L (str ''getContractByAddress'') [JStr chain, JStr contract_address])"

definition get_contracts :: "'w rpc_lib \<Rightarrow> pystr \<Rightarrow> bool \<Rightarrow> ('w, response list) rpc_op" where
  "get_contracts L chain extended =
     rpc_decode (decode_list ''ContractResult'')
       (call L (str ''getContracts'') [JStr chain, JBool extended])"

definition get_organization :: "'w rpc_lib \<Rightarrow> pystr \<Rightarrow> bool \<Rightarrow> ('w, response) rpc_op" where
  "get_organization L name include_member_count =
     rpc_decode (decode_dataclass rpc_env ''OrganizationResult'')
       (call L (str ''getOrganization'') [JStr name, JBool include_member_count])"

definition get_organizations :: "'w rpc_lib \<Rightarrow> int \<Rightarrow> pystr \<Rightarrow> bool \<Rightarrow> ('w, response list cursor_paginated_result) rpc_op" where
  "get_organizations L page_size cursor include_member_count =
     rpc_decode (decode_cursor (rl_show L) ''OrganizationResult'')
       (call L (str ''getOrganizations'') [JInt page_size, JStr cursor, JBool include_member_count])"

definition get_organization_members :: "'w rpc_lib \<Rightarrow> pystr \<Rightarrow> int \<Rightarrow> pystr \<Rightarrow> bool \<Rightarrow> ('w, response list cursor_paginated_result) rpc_op" where
  "get_organization_members L name page_size cursor include_member_time =
     rpc_decode (decode_cursor (rl_show L) ''OrganizationMemberResult'')
       (call L (str ''getOrganizationMembers'')
         [JStr name, JInt page_size, JStr cursor, JBool include_member_time])"

definition get_organization_member :: "'w rpc_lib \<Rightarrow> pystr \<Rightarrow> pystr \<Rightarrow> bool \<Rightarrow> pystr \<Rightarrow> ('w, response) rpc_op" where
  "get_organization_member L name address check_address_reserved_byte address_type =
     rpc_decode (decode_dataclass rpc_env ''OrganizationMemberResult'')
       (call L (str ''getOrganizationMember'')
         [JStr name, JStr address, JBool check_address_reserved_byte, JStr address_type])"

definition get_leaderboard :: "'w rpc_lib \<Rightarrow> pystr \<Rightarrow> ('w, response) rpc_op" where
  "get_leaderboard L name =
     rpc_decode (decode_dataclass rpc_env ''LeaderboardResult'')
       (call L (str ''getLeaderboard'') [JStr name])"

definition get_token :: "'w rpc_lib \<Rightarrow> pystr \<Rightarrow> bool \<Rightarrow> int \<Rightarrow> ('w, response) rpc_op" where
  "get_token L symbol extended carbon_token_id =
     rpc_decode (decode_dataclass rpc_env ''TokenResult'')
       (call L (str ''getToken'') [JStr symbol, JBool extended, JInt carbon_token_id])"

definition get_token_with_id :: "'w rpc_lib \<Rightarrow> pystr \<Rightarrow> bool \<Rightarrow> int \<Rightarrow> ('w, response) rpc_op" where
  "get_token_with_id L symbol extended carbon_token_id =
     get_token L symbol extended carbon_token_id"

definition get_tokens :: "'w rpc_lib \<Rightarrow> bool \<Rightarrow> pystr option \<Rightarrow> pystr option \<Rightarrow> ('w, response list) rpc_op" where
  "get_tokens L extended owner_address address_type =
     rpc_decode (decode_list ''TokenResult'')
       (call L (str ''getTokens'')
         (optional_params [JBool extended, opt JStr owner_address, opt JStr address_type]))"

definition get_tokens_by_owner :: "'w rpc_lib \<Rightarrow> pystr \<Rightarrow> bool \<Rightarrow> ('w, response list) rpc_op" where
  "get_tokens_by_owner L owner_address extended =
     get_tokens L extended (Some owner_address) None"

definition get_tokens_by_owner_with_address_type :: "'w rpc_lib \<Rightarrow> pystr \<Rightarrow> pystr \<Rightarrow> bool \<Rightarrow> ('w, response list) rpc_op" where
  "get_tokens_by_owner_with_address_type L owner_address address_type extended =
     get_tokens L extended (Some owner_address) (Some address_type)"

definition get_token_data :: "'w rpc_lib \<Rightarrow> pystr \<Rightarrow> pystr \<Rightarrow> ('w, response) rpc_op" where
  "get_token_data L symbol nft_id =
     rpc_decode (decode_dataclass rpc_env ''TokenDataResult'')
       (call L (str ''getTokenData'') [JStr symbol, JStr nft_id])"

definition get_token_balance :: "'w rpc_lib \<Rightarrow> pystr \<Rightarrow> pystr \<Rightarrow> pystr \<Rightarrow> bool option \<Rightarrow> pystr option \<Rightarrow> ('w, response) rpc_op" where
  "get_token_balance L address symbol chain check_address_reserved_byte address_type =
     rpc_decode (decode_dataclass rpc_env ''BalanceResult'')
       (call L (str ''getTokenBalance'')
         (optional_params [JStr address, JStr symbol, JStr chain, opt JBool check_address_reserved_byte, opt JStr address_type]))"

definition get_token_balance_checked :: "'w rpc_lib \<Rightarrow> pystr \<Rightarrow> pystr \<Rightarrow> pystr \<Rightarrow> bool \<Rightarrow> ('w, response) rpc_op" where
  "get_token_balance_checked L address symbol chain check_address_reserved_byte =
     get_token_balance L address symbol chain (Some check_address_reserved_byte) None"

definition get_token_balance_with_address_type :: "'w rpc_lib \<Rightarrow> pystr \<Rightarrow> pystr \<Rightarrow> pystr \<Rightarrow> bool \<Rightarrow> pystr \<Rightarrow> ('w, response) rpc_op" where
  "get_token_balance_with_address_type L address symbol chain check_address_reserved_byte address_type =
     get_token_balance L address symbol chain (Some check_address_reserved_byte) (Some address_type)"

definition get_token_series :: "'w rpc_lib \<Rightarrow> pystr \<Rightarrow> int \<Rightarrow> int \<Rightarrow> pystr \<Rightarrow> ('w, response list cursor_paginated_result) rpc_op" where
  "get_token_series L symbol carbon_token_id page_size cursor =
     rpc_decode (decode_cursor (rl_show L) ''TokenSeriesResult'')
       (call L (str ''getTokenSeries'') [JStr symbol, JInt carbon_token_id, JInt page_size, JStr cursor])"

definition get_token_series_by_id :: "'w rpc_lib \<Rightarrow> pystr \<Rightarrow> int \<Rightarrow> pystr \<Rightarrow> int \<Rightarrow> ('w, response) rpc_op" where
  "get_token_series_by_id L symbol carbon_token_id series_id carbon_series_id =
     rpc_decode (decode_dataclass rpc_env ''TokenSeriesResult'')
       (call L (str ''getTokenSeriesById'')
         [JStr symbol, JInt carbon_token_id, JStr series_id, JInt carbon_series_id])"

definition get_token_nfts :: "'w rpc_lib \<Rightarrow> int \<Rightarrow> int \<Rightarrow> pystr \<Rightarrow> int \<Rightarrow> pystr \<Rightarrow> bool \<Rightarrow> ('w, response list cursor_paginated_result) rpc_op" where
  "get_token_nfts L carbon_token_id carbon_series_id series_id page_size cursor extended =
     rpc_decode (decode_cursor (rl_show L) ''TokenDataResult'')
       (call L (str ''getTokenNFTs'')
         [JInt carbon_token_id, JInt carbon_series_id, JInt page_size, JStr cursor, JBool extended, JStr series_id])"

definition get_token_nfts_with_series_id :: "'w rpc_lib \<Rightarrow> int \<Rightarrow> int \<Rightarrow> pystr \<Rightarrow> int \<Rightarrow> pystr \<Rightarrow> bool \<Rightarrow> ('w, response list cursor_paginated_result) rpc_op" where
  "get_token_nfts_with_series_id L carbon_token_id carbon_series_id series_id page_size cursor extended =
     get_token_nfts L carbon_token_id carbon_series_id series_id page_size cursor extended"

definition get_account_fungible_tokens :: "'w rpc_lib \<Rightarrow> pystr \<Rightarrow> pystr \<Rightarrow> int \<Rightarrow> int \<Rightarrow> pystr \<Rightarrow> bool \<Rightarrow> pystr option \<Rightarrow> ('w, response list cursor_paginated_result) rpc_op" where
  "get_account_fungible_tokens L account token_symbol carbon_token_id page_size cursor check_address_reserved_byte address_type =
     rpc_decode (decode_cursor (rl_show L) ''BalanceResult'')
       (call L (str ''getAccountFungibleTokens'')
         (optional_params [JStr account, JStr token_symbol, JInt carbon_token_id, JInt page_size, JStr cursor, JBool check_address_reserved_byte, opt JStr address_type]))"

definition get_account_fungible_tokens_with_address_type :: "'w rpc_lib \<Rightarrow> pystr \<Rightarrow> pystr \<Rightarrow> int \<Rightarrow> int \<Rightarrow> pystr \<Rightarrow> bool \<Rightarrow> pystr \<Rightarrow> ('w, response list cursor_paginated_result) rpc_op" where
  "get_account_fungible_tokens_with_address_type L account token_symbol carbon_token_id page_size cursor check_address_reserved_byte address_type =
     get_account_fungible_tokens L account token_symbol carbon_token_id page_size cursor check_address_reserved_byte (Some address_type)"

definition get_account_nfts :: "'w rpc_lib \<Rightarrow> pystr \<Rightarrow> pystr \<Rightarrow> int \<Rightarrow> int \<Rightarrow> int \<Rightarrow> pystr \<Rightarrow> bool \<Rightarrow> bool \<Rightarrow> pystr option \<Rightarrow> ('w, response list cursor_paginated_result) rpc_op" where
  "get_account_nfts L account token_symbol carbon_token_id carbon_series_id page_size cursor extended check_address_reserved_byte address_type =
     rpc_decode (decode_cursor (rl_show L) ''TokenDataResult'')
       (call L (str ''getAccountNFTs'')
         (optional_params [JStr account, JStr token_symbol, JInt carbon_token_id, JInt carbon_series_id, JInt page_size, JStr cursor, JBool extended, JBool check_address_reserved_byte, opt JStr address_type]))"

definition get_account_nfts_with_address_type :: "'w rpc_lib \<Rightarrow> pystr \<Rightarrow> pystr \<Rightarrow> int \<Rightarrow> int \<Rightarrow> int \<Rightarrow> pystr \<Rightarrow> bool \<Rightarrow> bool \<Rightarrow> pystr \<Rightarrow> ('w, response list cursor_paginated_result) rpc_op" where
  "get_account_nfts_with_address_type L account token_symbol carbon_token_id carbon_series_id page_size cursor extended check_address_reserved_byte address_type =
     get_account_nfts L account token_symbol carbon_token_id carbon_series_id page_size cursor extended check_address_reserved_byte (Some address_type)"

definition get_account_owned_tokens :: "'w rpc_lib \<Rightarrow> pystr \<Rightarrow> pystr \<Rightarrow> int \<Rightarrow> int \<Rightarrow> pystr \<Rightarrow> bool \<Rightarrow> pystr option \<Rightarrow> ('w, response list cursor_paginated_result) rpc_op" where
  "get_account_owned_tokens L account token_symbol carbon_token_id page_size cursor check_address_reserved_byte address_type =
     rpc_decode (decode_cursor (rl_show L) ''TokenResult'')
       (call L (str ''getAccountOwnedTokens'')
         (optional_params [JStr account, JStr token_symbol, JInt carbon_token_id, JInt page_size, JStr cursor, JBool check_address_reserved_byte, opt JStr address_type]))"

definition get_account_owned_tokens_with_address_type :: "'w rpc_lib \<Rightarrow> pystr \<Rightarrow> pystr \<Rightarrow> int \<Rightarrow> int \<Rightarrow> pystr \<Rightarrow> bool \<Rightarrow> pystr \<Rightarrow> ('w, response list cursor_paginated_result) rpc_op" where
  "get_account_owned_tokens_with_address_type L account token_symbol carbon_token_id page_size cursor check_address_reserved_byte address_type =
     get_account_owned_tokens L account token_symbol carbon_token_id page_size cursor check_address_reserved_byte (Some address_type)"

definition get_account_owned_token_series :: "'w rpc_lib \<Rightarrow> pystr \<Rightarrow> pystr \<Rightarrow> int \<Rightarrow> int \<Rightarrow> pystr \<Rightarrow> bool \<Rightarrow> pystr option \<Rightarrow> ('w, response list cursor_paginated_result) rpc_op" where
  "get_account_owned_token_series L account token_symbol carbon_token_id page_size cursor check_address_reserved_byte address_type =
     rpc_decode (decode_cursor (rl_show L) ''TokenSeriesResult'')
       (call L (str ''getAccountOwnedTokenSeries'')
         (optional_params [JStr account, JStr token_symbol, JInt carbon_token_id, JInt page_size, JStr cursor, JBool check_address_reserved_byte, opt JStr address_type]))"

definition get_account_owned_token_series_with_address_type :: "'w rpc_lib \<Rightarrow> pystr \<Rightarrow> pystr \<Rightarrow> int \<Rightarrow> int \<Rightarrow> pystr \<Rightarrow> bool \<Rightarrow> pystr \<Rightarrow> ('w, response list cursor_paginated_result) rpc_op" where
  "get_account_owned_token_series_with_address_type L account token_symbol carbon_token_id page_size cursor check_address_reserved_byte address_type =
     get_account_owned_token_series L account token_symbol carbon_token_id page_size cursor check_address_reserved_byte (Some address_type)"

definition get_auctions_count :: "'w rpc_lib \<Rightarrow> pystr \<Rightarrow> pystr \<Rightarrow> ('w, int) rpc_op" where
  "get_auctions_count L chain symbol =
     rpc_decode coerce_int
       (call L (str ''getAuctionsCount'') [JStr chain, JStr symbol])"

definition get_auctions :: "'w rpc_lib \<Rightarrow> pystr \<Rightarrow> pystr \<Rightarrow> int \<Rightarrow> int \<Rightarrow> ('w, response list paginated_result) rpc_op" where
  "get_auctions L chain symbol page page_size =
     rpc_decode (decode_paginated_list ''AuctionResult'')
       (call L (str ''getAuctions'') [JStr chain, JStr symbol, JInt page, JInt page_size])"

definition get_auction :: "'w rpc_lib \<Rightarrow> pystr \<Rightarrow> pystr \<Rightarrow> pystr \<Rightarrow> ('w, response) rpc_op" where
  "get_auction L chain symbol token_id =
     rpc_decode (decode_dataclass rpc_env ''AuctionResult'')
       (call L (str ''getAuction'') [JStr chain, JStr symbol, JStr token_id])"

definition get_nft :: "'w rpc_lib \<Rightarrow> pystr \<Rightarrow> pystr \<Rightarrow> bool \<Rightarrow> ('w, response) rpc_op" where
  "get_nft L symbol nft_id extended =
     rpc_decode (decode_dataclass rpc_env ''TokenDataResult'')
       (call L (str ''getNFT'') [JStr symbol, JStr nft_id, JBool extended])"

definition get_nfts :: "'w rpc_lib \<Rightarrow> pystr \<Rightarrow> (pystr + pystr list) \<Rightarrow> bool \<Rightarrow> ('w, response list) rpc_op" where
  "get_nfts L symbol nft_ids extended =
     rpc_decode (decode_list ''TokenDataResult'')
       (call L (str ''getNFTs'') [JStr symbol, JStr (comma_text nft_ids), JBool extended])"

definition get_nfts_text :: "'w rpc_lib \<Rightarrow> pystr \<Rightarrow> pystr \<Rightarrow> bool \<Rightarrow> ('w, response list) rpc_op" where
  "get_nfts_text L symbol nft_ids extended =
     get_nfts L symbol (Inl nft_ids) extended"

definition get_archive :: "'w rpc_lib \<Rightarrow> pystr \<Rightarrow> ('w, response) rpc_op" where
  "get_archive L archive_hash =
     rpc_decode (decode_dataclass rpc_env ''ArchiveResult'')
       (call L (str ''getArchive'') [JStr archive_hash])"

definition read_archive :: "'w rpc_lib \<Rightarrow> pystr \<Rightarrow> int \<Rightarrow> ('w, pystr) rpc_op" where
  "read_archive L archive_hash block_index =
     rpc_decode (json_str (rl_show L))
       (call L (str ''readArchive'') [JStr archive_hash, JInt block_index])"

definition invoke_raw_script :: "'w rpc_lib \<Rightarrow> pystr \<Rightarrow> pystr \<Rightarrow> ('w, response) rpc_op" where
  "invoke_raw_script L chain script_hex =
     rpc_decode (decode_dataclass rpc_env ''ScriptResult'')
       (call L (str ''invokeRawScript'') [JStr chain, JStr script_hex])"

definition get_version :: "'w rpc_lib \<Rightarrow> ('w, response) rpc_op" where
  "get_version L =
     rpc_decode (decode_dataclass rpc_env ''BuildInfoResult'')
       (call L (str ''getVersion'') [])"

definition get_phantasma_vm_config :: "'w rpc_lib \<Rightarrow> pystr \<Rightarrow> ('w, response) rpc_op" where
  "get_phantasma_vm_config L chain =
     rpc_decode (decode_dataclass rpc_env ''PhantasmaVMConfigResult'')
       (call L (str ''getPhantasmaVmConfig'') [JStr chain])"

text \<open>The addresses of a batch: a single text is refused.\<close>

definition get_account_infos :: "'w rpc_lib \<Rightarrow> pystr + pystr list \<Rightarrow> bool option \<Rightarrow> pystr option \<Rightarrow> ('w, response list) rpc_op" where
  "get_account_infos L addresses check_address_reserved_byte address_type =
     rpc_try (case addresses of Inl _ \<Rightarrow> Inl TypeError | Inr xs \<Rightarrow> Inr xs) (\<lambda>xs.
       rpc_decode (decode_list ''AccountInfoResult'')
         (call L (str ''getAccountInfos'')
           (optional_params [JList (map JStr xs), opt JBool check_address_reserved_byte, opt JStr address_type])))"

text \<open>
  Keys of a dict: equal numbers are one key, lists and dicts are none. The float texts that stand for whole numbers
  end in \<^verbatim>\<open>.0\<close> or have a positive exponent.
\<close>

definition dict_key :: "response \<Rightarrow> response result" where
  "dict_key x = (case x of
     PBool b \<Rightarrow> Inr (PInt (of_bool b))
   | PFloat t \<Rightarrow>
       if (t \<noteq> [] \<and> drop (length t - 2) t = str ''.0'') \<or> 43 \<in> set (dropWhile (\<lambda>c. c \<noteq> 101) t)
       then rthen (float_int t) (\<lambda>n. Inr (PInt n)) else Inr x
   | PList _ \<Rightarrow> Inl TypeError
   | PDict _ \<Rightarrow> Inl TypeError
   | _ \<Rightarrow> Inr x)"

fun dict_put :: "response \<Rightarrow> 'a \<Rightarrow> (response \<times> 'a) list \<Rightarrow> (response \<times> 'a) list" where
  "dict_put k v [] = [(k, v)]"
| "dict_put k v ((k', v') # kvs) = (if dict_key k = dict_key k' then (k', v) # kvs else (k', v') # dict_put k v kvs)"

fun tokens_map :: "response list \<Rightarrow> (response \<times> response) list \<Rightarrow> (response \<times> response) list result" where
  "tokens_map [] acc = Inr acc"
| "tokens_map (token # tokens) acc =
     rthen (dict_key (attr token ''symbol'')) (\<lambda>_. tokens_map tokens (dict_put (attr token ''symbol'') token acc))"

definition get_tokens_as_map :: "'w rpc_lib \<Rightarrow> bool \<Rightarrow> ('w, (response \<times> response) list) rpc_op" where
  "get_tokens_as_map L extended = rpc_decode (\<lambda>tokens. tokens_map tokens []) (get_tokens L extended None None)"

section \<open>Archives and transactions\<close>

definition write_archive :: "'w rpc_lib \<Rightarrow> pystr \<Rightarrow> int \<Rightarrow> bytes + pystr \<Rightarrow> ('w, bool) rpc_op" where
  "write_archive L archive_hash block_index block_content =
     rpc_decode (coerce_bool (rl_lower L))
       (call L (str ''writeArchive'') [JStr archive_hash, JInt block_index,
         JStr (case block_content of Inl raw \<Rightarrow> b64encode raw | Inr s \<Rightarrow> s)])"

definition write_archive_base64 :: "'w rpc_lib \<Rightarrow> pystr \<Rightarrow> int \<Rightarrow> pystr \<Rightarrow> ('w, bool) rpc_op" where
  "write_archive_base64 L archive_hash block_index block_content =
     write_archive L archive_hash block_index (Inr block_content)"

datatype transaction_input = TxObject tx | TxBytes bytes | TxText pystr

definition send_raw_transaction :: "'w rpc_lib \<Rightarrow> transaction_input \<Rightarrow> ('w, pystr) rpc_op" where
  "send_raw_transaction L t =
     rpc_try (case t of
         TxObject t \<Rightarrow> rthen (to_bytes t True) (\<lambda>raw. Inr (bytes_hex raw))
       | TxBytes raw \<Rightarrow> Inr (bytes_hex raw)
       | TxText s \<Rightarrow> Inr s) (\<lambda>content.
     rpc_decode (extract_hash_result (rl_show L)) (call L (str ''sendRawTransaction'') [JStr content]))"

definition send_carbon_transaction :: "'w rpc_lib \<Rightarrow> bytes + pystr \<Rightarrow> ('w, pystr) rpc_op" where
  "send_carbon_transaction L t =
     rpc_decode (extract_hash_result (rl_show L))
       (call L (str ''sendCarbonTransaction'') [JStr (case t of Inl raw \<Rightarrow> bytes_hex raw | Inr s \<Rightarrow> s)])"

definition built_transaction ::
  "'w rpc_lib \<Rightarrow> 'w client \<Rightarrow> pystr \<Rightarrow> bytes \<Rightarrow> pystr \<Rightarrow> bytes \<Rightarrow> int option \<Rightarrow> tx" where
  "built_transaction L c nexus code chain raw_payload expires = \<lparr>nexus_name = nexus, chain_name = chain, script = code,
     expiration = (case expires of
         Some e \<Rightarrow> if e \<noteq> 0 then e else rl_clock L (cl_session c) + 20 * 60
       | None \<Rightarrow> rl_clock L (cl_session c) + 20 * 60),
     payload = raw_payload, signatures = []\<rparr>"

definition sign_and_send_transaction ::
  "'w rpc_lib \<Rightarrow> crypto_lib \<Rightarrow> keys \<Rightarrow> pystr \<Rightarrow> bytes \<Rightarrow> pystr \<Rightarrow> bytes + pystr \<Rightarrow> int option \<Rightarrow> ('w, pystr) rpc_op" where
  "sign_and_send_transaction L K key_pair nexus code chain content expires c =
     rpc_try (case content of Inl raw \<Rightarrow> Inr raw | Inr s \<Rightarrow> utf8_encode s) (\<lambda>raw_payload.
     rpc_try (tx_sign K (built_transaction L c nexus code chain raw_payload expires) key_pair) (\<lambda>(_, t).
     send_raw_transaction L (TxObject t))) c"

text \<open>The transaction object is signed in place: it comes back with the result.\<close>

definition sign_and_send_built_transaction ::
  "'w rpc_lib \<Rightarrow> crypto_lib \<Rightarrow> tx \<Rightarrow> keys \<Rightarrow> 'w client \<Rightarrow> ((rpc_failure + pystr) \<times> tx) \<times> 'w client" where
  "sign_and_send_built_transaction L K t key_pair c = (case tx_sign K t key_pair of
     Inl e \<Rightarrow> ((Inl (Raised e), t), c)
   | Inr (_, t') \<Rightarrow> (case send_raw_transaction L (TxObject t') c of (r, c') \<Rightarrow> ((r, t'), c')))"

definition sign_carbon_transaction :: "crypto_lib \<Rightarrow> TxMsg \<Rightarrow> keys \<Rightarrow> SignedTxMsg result" where
  "sign_carbon_transaction K msg key_pair = sign_tx_msg K msg key_pair"

definition sign_and_send_carbon_transaction :: "'w rpc_lib \<Rightarrow> crypto_lib \<Rightarrow> TxMsg \<Rightarrow> keys \<Rightarrow> ('w, pystr) rpc_op" where
  "sign_and_send_carbon_transaction L K msg key_pair =
     rpc_try (rthen (sign_carbon_transaction K msg key_pair) (\<lambda>s. serialize (write_SignedTxMsg s))) (\<lambda>raw.
     send_carbon_transaction L (Inl raw))"

definition rpc_parse_create_token_result :: "pystr \<Rightarrow> int result" where
  "rpc_parse_create_token_result result_hex = parse_create_token_result result_hex"

definition rpc_parse_create_token_series_result :: "pystr \<Rightarrow> int result" where
  "rpc_parse_create_token_series_result result_hex = parse_create_token_series_result result_hex"

section \<open>What a call sends\<close>

lemma decoded_session: "snd (rpc_decode f op c) = snd (op c)"
  by (simp add: rpc_decode_def split: prod.split sum.split)

lemma decoded_result: "fst (op c) = Inr v \<Longrightarrow> fst (rpc_decode f op c) = raised (f v)"
  by (cases "op c") (simp add: rpc_decode_def)

lemma logged_send:
  "\<exists>rq closed. fst (cl_session (snd (rpc_decode f (call (logging L) meth params) c))) =
      fst (cl_session c) @ Sent rq closed # (if closed then [Closed] else []) \<and>
    rq_method rq = meth \<and> rq_params rq = params"
proof -
  obtain r c' where c': "call (logging L) meth params c = (r, c')" by (cases "call (logging L) meth params c")
  from logged_call [OF c' refl] obtain rq where rq: "rq_method rq = meth" "rq_params rq = params"
    "fst (cl_session c') = fst (cl_session c) @ [Sent rq True, Closed] \<or> fst (cl_session c') = fst (cl_session c) @ [Sent rq False]" .
  from rq(3) show ?thesis
  proof
    assume "fst (cl_session c') = fst (cl_session c) @ [Sent rq True, Closed]"
    with rq(1,2) show ?thesis by (intro exI [of _ rq] exI [of _ True]) (simp add: decoded_session c')
  next
    assume "fst (cl_session c') = fst (cl_session c) @ [Sent rq False]"
    with rq(1,2) show ?thesis by (intro exI [of _ rq] exI [of _ False]) (simp add: decoded_session c')
  qed
qed

lemma signed_written:
  assumes "to_bytes t False = Inr m" "signatures t = []" "length (sig_data s) = 64"
  shows "\<exists>bs. to_bytes (t\<lparr>signatures := [s]\<rparr>) True = Inr bs"
proof -
  have "\<forall>f \<in> set (write_tx_body t). \<exists>bs. serialize f = Inr bs"
    using assms(1) serialize_wseq_Inr [of "write_tx_body t"]
    by (auto simp: to_bytes_def write_tx_def write_tx_body_def)
  moreover have "\<exists>bs. serialize (write_signature s) = Inr bs"
    using assms(3) by (simp add: write_signature_def serialize_wseq sig_kind_def serialize_write_u8
      write_var_bytes_def serialize_var_uint)
  moreover have "\<exists>bs. serialize (write_var_uint 1) = Inr bs" by (simp add: serialize_var_uint)
  ultimately show ?thesis
    using serialize_wseq_Inr [of "write_tx_body t @ [write_var_uint 1, write_signature s]"]
    by (simp add: to_bytes_def write_tx_def write_tx_body_def)
qed

text \<open>C17: Signing and sending a VM script transaction, with a payload that can be encoded, posts exactly one request,
  whose only parameter is the hexadecimal text of bytes the receiver decodes to that transaction with one signature,
  which verifies under the key. When the transaction cannot be written, nothing is posted and the client is left as
  it was.
\<close>

theorem sent_transaction:
  assumes "crypto_lib_ok K" "keys_ok k" "(case content of Inl raw \<Rightarrow> Inr raw | Inr s \<Rightarrow> utf8_encode s) = Inr raw"
    and "t = built_transaction (logging L) c nexus code chain raw expires" "tx_ok t"
  shows "case to_bytes t False of
      Inl e \<Rightarrow> sign_and_send_transaction (logging L) K k nexus code chain content expires c = (Inl (Raised e), c)
    | Inr _ \<Rightarrow> \<exists>rq closed bs t'.
        fst (cl_session (snd (sign_and_send_transaction (logging L) K k nexus code chain content expires c))) =
          fst (cl_session c) @ Sent rq closed # (if closed then [Closed] else []) \<and>
        rq_method rq = str ''sendRawTransaction'' \<and> rq_params rq = [JStr (bytes_hex bs)] \<and>
        from_bytes bs = Inr t' \<and> t'\<lparr>signatures := []\<rparr> = t \<and> length (signatures t') = 1 \<and>
        is_signed_by K t' k = Inr True"
proof (cases "to_bytes t False")
  case (Inl e)
  with assms(3,4) show ?thesis by (simp add: sign_and_send_transaction_def rpc_try_def tx_sign_def)
next
  case (Inr m)
  have none: "signatures t = []" by (simp add: assms(4) built_transaction_def)
  obtain s where s: "keys_sign K k m = Inr s" "length (sig_data s) = 64"
    using keys_sign_ok(1,3) [OF assms(1,2), of m] by auto
  let ?t = "t\<lparr>signatures := [s]\<rparr>"
  have signed: "tx_sign K t k = Inr (s, ?t)" by (simp add: tx_sign_def Inr s none)
  obtain bs where bs: "to_bytes ?t True = Inr bs" using signed_written [OF Inr none s(2)] by blast
  have "tx_ok ?t" using assms(5) s(2) by (simp add: tx_ok_def)
  then have read: "from_bytes bs = Inr ?t" using vm_tx.roundtrip bs unfolding from_bytes_def to_bytes_def by blast
  have verified: "is_signed_by K ?t k = Inr True" by (rule tx_sign_signed [OF assms(1,2) signed])
  have op: "sign_and_send_transaction (logging L) K k nexus code chain content expires c =
      rpc_decode (extract_hash_result (rl_show (logging L))) (call (logging L) (str ''sendRawTransaction'') [JStr (bytes_hex bs)]) c"
    using assms(3,4) signed bs by (simp add: sign_and_send_transaction_def rpc_try_def send_raw_transaction_def)
  obtain rq closed where "fst (cl_session (snd (sign_and_send_transaction (logging L) K k nexus code chain content expires c))) =
      fst (cl_session c) @ Sent rq closed # (if closed then [Closed] else [])"
    "rq_method rq = str ''sendRawTransaction''" "rq_params rq = [JStr (bytes_hex bs)]"
    unfolding op using logged_send by blast
  then show ?thesis unfolding Inr sum.case
    by (intro exI [of _ rq] exI [of _ closed] exI [of _ bs] exI [of _ ?t] conjI) (simp_all add: read verified none)
qed

definition example_client :: "'w \<Rightarrow> 'w client" where
  "example_client session = \<lparr>cl_endpoint = str ''u'', cl_session = session, cl_timeout = str ''30.0'',
     cl_max_response_bytes = 10, cl_api_key = None, cl_next_id = 0\<rparr>"

theorem sent_transaction_witness:
  "\<exists>rq closed. fst (cl_session (snd (sign_and_send_transaction (logging example_rpc_lib) example_lib example_keys
      (str ''mainnet'') [11] (str ''main'') (Inl [1, 2]) (Some 1700000000) (example_client ([], []))))) =
        Sent rq closed # (if closed then [Closed] else []) \<and> rq_method rq = str ''sendRawTransaction''"
proof -
  let ?c = "example_client ([], []) :: (traffic list \<times> request list) client"
  obtain m where m: "to_bytes example_tx False = Inr m" using example_tx_written(2) by blast
  have t: "example_tx = built_transaction (logging example_rpc_lib) ?c (str ''mainnet'') [11] (str ''main'') [1, 2] (Some 1700000000)"
    by (simp add: example_tx_def built_transaction_def)
  have "(case Inl [1, 2] of Inl raw \<Rightarrow> Inr raw | Inr s \<Rightarrow> utf8_encode s) = Inr [1, 2]" by simp
  from sent_transaction [OF example_lib_ok example_keys_ok this t example_tx_ok]
  obtain rq closed where "fst (cl_session (snd (sign_and_send_transaction (logging example_rpc_lib) example_lib example_keys
      (str ''mainnet'') [11] (str ''main'') (Inl [1, 2]) (Some 1700000000) ?c))) =
        fst (cl_session ?c) @ Sent rq closed # (if closed then [Closed] else [])"
    "rq_method rq = str ''sendRawTransaction''"
    unfolding m sum.case by (elim exE conjE) (rule that)
  moreover have "fst (cl_session ?c) = []" by (simp add: example_client_def)
  ultimately show ?thesis by (metis append_Nil)
qed

end
