(* ===== verification/RpcFees.thy ===== *)
theory RpcFees
  imports RpcMethods
begin

text \<open>
  From the answer of the node to the gas configuration the fee estimator works with, and from an estimate of the node
  to a fee estimate: the decoded objects, read with the types of their annotations, and what becomes of them.
\<close>

section \<open>Response objects with their declared types\<close>

definition int_of :: "response \<Rightarrow> int" where
  "int_of x = (case x of PInt n \<Rightarrow> n | _ \<Rightarrow> 0)"

definition bool_of :: "response \<Rightarrow> bool" where
  "bool_of x = (case x of PBool b \<Rightarrow> b | _ \<Rightarrow> False)"

definition text_of :: "response \<Rightarrow> pystr" where
  "text_of x = (case x of PStr s \<Rightarrow> s | _ \<Rightarrow> [])"

definition opt_int_of :: "response \<Rightarrow> int option" where
  "opt_int_of x = (case x of PInt n \<Rightarrow> Some n | _ \<Rightarrow> None)"

definition opt_text_of :: "response \<Rightarrow> pystr option" where
  "opt_text_of x = (case x of PStr s \<Rightarrow> Some s | _ \<Rightarrow> None)"

definition gas_config_data_of :: "response \<Rightarrow> gas_config_data" where
  "gas_config_data_of x = \<lparr>gd_version = int_of (attr x ''version''),
     gd_max_name_length = int_of (attr x ''max_name_length''),
     gd_max_token_symbol_length = int_of (attr x ''max_token_symbol_length''),
     gd_fee_shift = int_of (attr x ''fee_shift''),
     gd_max_structure_size = int_of (attr x ''max_structure_size''),
     gd_fee_multiplier = opt_text_of (attr x ''fee_multiplier''),
     gd_gas_token_id = opt_text_of (attr x ''gas_token_id''),
     gd_data_token_id = opt_text_of (attr x ''data_token_id''),
     gd_minimum_gas_offer = opt_text_of (attr x ''minimum_gas_offer''),
     gd_data_escrow_per_row = opt_text_of (attr x ''data_escrow_per_row''),
     gd_gas_fee_transfer = opt_text_of (attr x ''gas_fee_transfer''),
     gd_gas_fee_query = opt_text_of (attr x ''gas_fee_query''),
     gd_gas_fee_create_token_base = opt_text_of (attr x ''gas_fee_create_token_base''),
     gd_gas_fee_create_token_symbol = opt_text_of (attr x ''gas_fee_create_token_symbol''),
     gd_gas_fee_create_token_series = opt_text_of (attr x ''gas_fee_create_token_series''),
     gd_gas_fee_per_byte = opt_text_of (attr x ''gas_fee_per_byte''),
     gd_gas_fee_register_name = opt_text_of (attr x ''gas_fee_register_name''),
     gd_gas_burn_ratio_mul = opt_text_of (attr x ''gas_burn_ratio_mul''),
     gd_gas_burn_ratio_shift = int_of (attr x ''gas_burn_ratio_shift''),
     gd_minimum_gas_bill = opt_text_of (attr x ''minimum_gas_bill''),
     gd_gas_producer_ratio_mul = opt_text_of (attr x ''gas_producer_ratio_mul''),
     gd_gas_producer_ratio_shift = opt_int_of (attr x ''gas_producer_ratio_shift''),
     gd_gas_dapp_ratio_mul = opt_text_of (attr x ''gas_dapp_ratio_mul''),
     gd_gas_dapp_ratio_shift = opt_int_of (attr x ''gas_dapp_ratio_shift''),
     gd_policy_fee_create_token_base = opt_text_of (attr x ''policy_fee_create_token_base''),
     gd_policy_fee_create_token_symbol = opt_text_of (attr x ''policy_fee_create_token_symbol''),
     gd_policy_fee_create_token_series = opt_text_of (attr x ''policy_fee_create_token_series''),
     gd_policy_fee_register_name = opt_text_of (attr x ''policy_fee_register_name''),
     gd_legacy_data_escrow_per_row = opt_text_of (attr x ''legacy_data_escrow_per_row'')\<rparr>"

definition gas_config_result_of :: "response \<Rightarrow> gas_config_result" where
  "gas_config_result_of x = \<lparr>gr_gas_model_version = int_of (attr x ''gas_model_version''),
     gr_gas_config = (if attr x ''gas_config'' = PNone then None else Some (gas_config_data_of (attr x ''gas_config''))),
     gr_block_rate_target = int_of (attr x ''block_rate_target''),
     gr_expiry_window = int_of (attr x ''expiry_window''),
     gr_units_per_block_data_byte = opt_int_of (attr x ''units_per_block_data_byte'')\<rparr>"

definition estimate_result_of :: "response \<Rightarrow> estimate_transaction_result" where
  "estimate_result_of x = \<lparr>et_would_abort = bool_of (attr x ''would_abort''),
     et_abort_reason = text_of (attr x ''abort_reason''),
     et_gas_bill_kcal_base = opt_text_of (attr x ''gas_bill_kcal_base''),
     et_data_rows = opt_text_of (attr x ''data_rows''),
     et_data_escrow_atoms = opt_text_of (attr x ''data_escrow_atoms''),
     et_data_refund_atoms = opt_text_of (attr x ''data_refund_atoms''),
     et_recommended_max_gas = opt_text_of (attr x ''recommended_max_gas''),
     et_recommended_max_data = opt_text_of (attr x ''recommended_max_data'')\<rparr>"

section \<open>The answer for a configuration\<close>

text \<open>What the node answers for a configuration: the fields of the second gas model only from version 1 on.\<close>

definition v2_only :: "GasConfig \<Rightarrow> response \<Rightarrow> response" where
  "v2_only g x = (if gc_version g \<ge> 1 then x else PNone)"

definition gas_config_data_object :: "GasConfig \<Rightarrow> response" where
  "gas_config_data_object g = PObject ''GasConfigDataResult'' [
     (''version'', PInt (gc_version g)),
     (''max_name_length'', PInt (gc_max_name_length g)),
     (''max_token_symbol_length'', PInt (gc_max_token_symbol_length g)),
     (''fee_shift'', PInt (gc_fee_shift g)),
     (''max_structure_size'', PInt (gc_max_structure_size g)),
     (''fee_multiplier'', PStr (py_str_int (gc_fee_multiplier g))),
     (''gas_token_id'', PStr (py_str_int (gc_gas_token_id g))),
     (''data_token_id'', PStr (py_str_int (gc_data_token_id g))),
     (''minimum_gas_offer'', PStr (py_str_int (gc_minimum_gas_offer g))),
     (''data_escrow_per_row'', PStr (py_str_int (gc_data_escrow_per_row g))),
     (''gas_fee_transfer'', PStr (py_str_int (gc_gas_fee_transfer g))),
     (''gas_fee_query'', PStr (py_str_int (gc_gas_fee_query g))),
     (''gas_fee_create_token_base'', PStr (py_str_int (gc_gas_fee_create_token_base g))),
     (''gas_fee_create_token_symbol'', PStr (py_str_int (gc_gas_fee_create_token_symbol g))),
     (''gas_fee_create_token_series'', PStr (py_str_int (gc_gas_fee_create_token_series g))),
     (''gas_fee_per_byte'', PStr (py_str_int (gc_gas_fee_per_byte g))),
     (''gas_fee_register_name'', PStr (py_str_int (gc_gas_fee_register_name g))),
     (''gas_burn_ratio_mul'', PStr (py_str_int (gc_gas_burn_ratio_mul g))),
     (''gas_burn_ratio_shift'', PInt (gc_gas_burn_ratio_shift g)),
     (''minimum_gas_bill'', v2_only g (PStr (py_str_int (gc_minimum_gas_bill g)))),
     (''gas_producer_ratio_mul'', v2_only g (PStr (py_str_int (gc_gas_producer_ratio_mul g)))),
     (''gas_producer_ratio_shift'', v2_only g (PInt (gc_gas_producer_ratio_shift g))),
     (''gas_dapp_ratio_mul'', v2_only g (PStr (py_str_int (gc_gas_dapp_ratio_mul g)))),
     (''gas_dapp_ratio_shift'', v2_only g (PInt (gc_gas_dapp_ratio_shift g))),
     (''policy_fee_create_token_base'', v2_only g (PStr (py_str_int (gc_policy_fee_create_token_base g)))),
     (''policy_fee_create_token_symbol'', v2_only g (PStr (py_str_int (gc_policy_fee_create_token_symbol g)))),
     (''policy_fee_create_token_series'', v2_only g (PStr (py_str_int (gc_policy_fee_create_token_series g)))),
     (''policy_fee_register_name'', v2_only g (PStr (py_str_int (gc_policy_fee_register_name g)))),
     (''legacy_data_escrow_per_row'', v2_only g (PStr (py_str_int (gc_legacy_data_escrow_per_row g))))]"

definition gas_config_object :: "GasConfig \<Rightarrow> int \<Rightarrow> int \<Rightarrow> int option \<Rightarrow> response" where
  "gas_config_object g block_rate_target expiry_window units_per_block_data_byte = PObject ''GasConfigResult'' [
     (''gas_model_version'', PInt (gc_version g)), (''gas_config'', gas_config_data_object g),
     (''block_rate_target'', PInt block_rate_target), (''expiry_window'', PInt expiry_window),
     (''units_per_block_data_byte'', case units_per_block_data_byte of None \<Rightarrow> PNone | Some n \<Rightarrow> PInt n)]"

text \<open>64-bit prices, and none of the second model before version 1.\<close>

definition node_gas_config :: "GasConfig \<Rightarrow> bool" where
  "node_gas_config g \<longleftrightarrow> list_all (\<lambda>price. is_u64 (price g)) [
     gc_fee_multiplier, gc_gas_token_id, gc_data_token_id, gc_minimum_gas_offer, gc_data_escrow_per_row, gc_gas_fee_transfer, gc_gas_fee_query, gc_gas_fee_create_token_base, gc_gas_fee_create_token_symbol, gc_gas_fee_create_token_series, gc_gas_fee_per_byte, gc_gas_fee_register_name, gc_gas_burn_ratio_mul, gc_minimum_gas_bill, gc_gas_producer_ratio_mul, gc_gas_dapp_ratio_mul, gc_policy_fee_create_token_base, gc_policy_fee_create_token_symbol, gc_policy_fee_create_token_series, gc_policy_fee_register_name, gc_legacy_data_escrow_per_row] \<and>
   (gc_version g < 1 \<longrightarrow> list_all (\<lambda>price. price g = 0) [
     gc_minimum_gas_bill, gc_gas_producer_ratio_mul, gc_gas_producer_ratio_shift, gc_gas_dapp_ratio_mul, gc_gas_dapp_ratio_shift, gc_policy_fee_create_token_base, gc_policy_fee_create_token_symbol, gc_policy_fee_create_token_series, gc_policy_fee_register_name, gc_legacy_data_escrow_per_row])"

lemma gas_config_data_conforms: "WireShapes.conforms rpc_env event_self (AClass ''GasConfigDataResult'') (gas_config_data_object g)"
proof -
  have "rpc_env ''GasConfigDataResult'' = Some GasConfigDataResult" by (simp add: rpc_env_def response_classes_def)
  then show ?thesis by (simp add: gas_config_data_object_def GasConfigDataResult_def WireShapes.conforms.simps v2_only_def)
qed

lemma gas_config_conforms: "WireShapes.conforms rpc_env event_self (AClass ''GasConfigResult'') (gas_config_object g rate window units)"
proof -
  have "rpc_env ''GasConfigResult'' = Some GasConfigResult" by (simp add: rpc_env_def response_classes_def)
  then show ?thesis using gas_config_data_conforms [of g]
    by (cases units) (simp_all add: gas_config_object_def GasConfigResult_def WireShapes.conforms.simps(1,3,8))
qed

lemma is_u64_parsed: "is_u64 n \<Longrightarrow> parse_u64 (Some (py_str_int n)) = Inr n"
proof (rule parse_printed)
  assume "is_u64 n"
  then have n: "0 \<le> n" "n < 2 ^ 64" by (auto simp: is_u64_def)
  have "(2 :: int) ^ 64 \<le> 10 ^ 64" by (rule power_mono) simp_all
  also have "\<dots> < 10 ^ 4300" by (rule power_strict_increasing) simp_all
  finally show "n < 10 ^ 4300" using n(2) by (rule less_trans [rotated])
  show "0 \<le> n" by (rule n)
qed

lemma gas_config_object_read:
  assumes "node_gas_config g"
  shows "to_gas_config (gas_config_result_of (gas_config_object g rate window units)) = Inr g"
proof -
  have d: "gr_gas_config (gas_config_result_of (gas_config_object g rate window units)) =
      Some (gas_config_data_of (gas_config_data_object g))"
    by (simp add: gas_config_result_of_def gas_config_object_def attr_def gas_config_data_object_def)
  show ?thesis using assms
    by (simp add: to_gas_config_def d base_gas_config_def gas_config_tail_def gas_config_data_of_def
        gas_config_data_object_def attr_def int_of_def opt_text_of_def opt_int_of_def v2_only_def node_gas_config_def
        is_u64_parsed)
qed

section \<open>Properties\<close>

text \<open>Fetching the gas configuration: when the node answers with the response object of a configuration whose
  prices have 64 bits, the decoded answer converts to exactly that configuration, fields of the second gas model
  included from version 1 on.
\<close>

theorem gas_config_fetched:
  assumes "node_gas_config g"
    "fst (call L (str ''getGasConfig'') [] c) =
      Inr (shape_to_wire rpc_env event_to_wire (gas_config_object g rate window units))"
  shows "\<exists>x. fst (get_gas_config L c) = Inr x \<and> to_gas_config (gas_config_result_of x) = Inr g"
proof -
  let ?x = "gas_config_object g rate window units"
  have "decode_value rpc_env (AClass ''GasConfigResult'') (shape_to_wire rpc_env event_to_wire ?x) = Inr ?x"
    by (rule response.read_written_any [OF refl refl gas_config_conforms]) simp
  then have "fst (get_gas_config L c) = Inr ?x"
    using decoded_result [of "call L (str ''getGasConfig'') []" c, OF assms(2), of "decode_dataclass rpc_env ''GasConfigResult''"]
    by (simp add: get_gas_config_def raised_def del: str_Cons)
  with gas_config_object_read [OF assms(1)] show ?thesis by blast
qed

text \<open>A server that answers every request with the same result.\<close>

definition answering_lib :: "json \<Rightarrow> request list rpc_lib" where
  "answering_lib v = example_rpc_lib\<lparr>rl_post := \<lambda>w rq. (Inr (example_response\<lparr>hr_chunks := None,
     hr_json := Inr (JObject [(str ''id'', JStr (rq_id rq)), (str ''result'', v)])\<rparr>), w @ [rq])\<rparr>"

lemma answered_call: "fst (call (answering_lib v) meth params c) = Inr v"
  by (simp add: call_def answering_lib_def call_result_def read_response_json_def read_response_text_def
      content_length_def example_response_def json_str_def json_true_def Let_def str_inject del: str_Cons)

definition example_node_config :: GasConfig where
  "example_node_config = example_gas_config\<lparr>gc_version := 1\<rparr>"

lemma example_node_config: "node_gas_config example_node_config" "gc_version example_node_config = 1"
  by code_simp+

theorem gas_config_fetched_witness:
  "\<exists>x. fst (get_gas_config (answering_lib (shape_to_wire rpc_env event_to_wire (gas_config_object example_node_config 1 2 None)))
      (example_client [])) = Inr x \<and> to_gas_config (gas_config_result_of x) = Inr example_node_config"
  by (rule gas_config_fetched [OF example_node_config(1) answered_call])

text \<open>A configuration of version 1 or later is never filled up with zero prices: when the conversion succeeds,
  every field of the second gas model was in the answer and has the value given there.
\<close>

theorem gas_config_never_zeroed:
  assumes "gr_gas_config r = Some d" "to_gas_config r = Inr g" "1 \<le> gd_version d"
  shows "list_all (\<lambda>(text, price). parse_u64 text = Inr price) [
      (gd_minimum_gas_bill d, gc_minimum_gas_bill g), (gd_gas_producer_ratio_mul d, gc_gas_producer_ratio_mul g),
      (gd_gas_dapp_ratio_mul d, gc_gas_dapp_ratio_mul g),
      (gd_policy_fee_create_token_base d, gc_policy_fee_create_token_base g),
      (gd_policy_fee_create_token_symbol d, gc_policy_fee_create_token_symbol g),
      (gd_policy_fee_create_token_series d, gc_policy_fee_create_token_series g),
      (gd_policy_fee_register_name d, gc_policy_fee_register_name g),
      (gd_legacy_data_escrow_per_row d, gc_legacy_data_escrow_per_row g)] \<and>
    gd_gas_producer_ratio_shift d = Some (gc_gas_producer_ratio_shift g) \<and>
    gd_gas_dapp_ratio_shift d = Some (gc_gas_dapp_ratio_shift g)"
proof -
  obtain b where "base_gas_config d = Inr b" "gas_config_tail d b = Inr g"
    using assms by (auto simp: to_gas_config_def base_gas_config_def rthen_Inr_iff)
  then show ?thesis
    by (cases "gd_gas_producer_ratio_shift d"; cases "gd_gas_dapp_ratio_shift d")
      (auto simp: gas_config_tail_def rthen_Inr_iff)
qed

theorem gas_config_never_zeroed_witness:
  "parse_u64 (gd_minimum_gas_bill (gas_config_data_of (gas_config_data_object example_node_config))) =
     Inr (gc_minimum_gas_bill example_node_config)"
proof -
  let ?r = "gas_config_result_of (gas_config_object example_node_config 1 2 None)"
  have d: "gr_gas_config ?r = Some (gas_config_data_of (gas_config_data_object example_node_config))"
    by (simp add: gas_config_result_of_def gas_config_object_def attr_def gas_config_data_object_def)
  have "1 \<le> gd_version (gas_config_data_of (gas_config_data_object example_node_config))"
    by (simp add: gas_config_data_of_def gas_config_data_object_def attr_def int_of_def example_node_config(2))
  from gas_config_never_zeroed [OF d gas_config_object_read [OF example_node_config(1)] this] show ?thesis by simp
qed

end
