(* ===== verification/KeyText.thy ===== *)
theory KeyText
  imports CarbonSign
begin

text \<open>
  The rest of \<^verbatim>\<open>crypto.py\<close>: key generation and the text forms of addresses, hashes and key pairs. The random
  source of the operating system is the argument \<open>urandom\<close>, which draws a number of bytes and moves on; it is
  documented to return as many bytes as it is asked for.
\<close>

type_synonym 's random_source = "nat \<Rightarrow> 's \<Rightarrow> bytes \<times> 's"

definition urandom_ok :: "'s random_source \<Rightarrow> bool" where
  "urandom_ok urandom \<longleftrightarrow> (\<forall>n s. length (fst (urandom n s)) = n)"

definition generate :: "'s random_source \<Rightarrow> 's \<Rightarrow> keys result \<times> 's" where
  "generate urandom s = (case urandom PRIVATE_KEY_LENGTH s of (raw, s') \<Rightarrow> (PhantasmaKeys raw, s'))"

text \<open>The private key object of the \<^verbatim>\<open>cryptography\<close> package: its signing function.\<close>

definition private_object :: "crypto_lib \<Rightarrow> keys \<Rightarrow> bytes \<Rightarrow> bytes" where
  "private_object L k = ed25519_sign L (private_key k)"

lemma sign_with_object: "keys_sign L k message = Ed25519Signature (private_object L k message)"
  by (simp add: keys_sign_def private_object_def)

definition address_str :: "address \<Rightarrow> pystr" where
  "address_str a = addr_text a"

definition hash_str :: "hash \<Rightarrow> pystr" where
  "hash_str h = hash_hex h"

definition keys_str :: "crypto_lib \<Rightarrow> keys \<Rightarrow> pystr result" where
  "keys_str L k = rthen (keys_address L k) (\<lambda>a. Inr (addr_text a))"

definition NULL_ADDRESS :: address where
  "NULL_ADDRESS = null_address"

lemma null_address_text: "from_text (Some (address_str NULL_ADDRESS)) = Inr NULL_ADDRESS" "from_text None = Inr NULL_ADDRESS"
  by (simp_all add: address_str_def NULL_ADDRESS_def addr_text_def from_text_def ascii_upper_def)

text \<open>
  A generated key pair is usable: it holds the bytes drawn, signs for the address it prints, and its WIF and
  its address text are read back. Key pairs made of different bytes are different.
\<close>

lemma generated_keys:
  assumes "crypto_lib_ok L" "urandom_ok urandom"
  obtains k s' where "generate urandom s = (Inr k, s')" "keys_ok k" "private_key k = fst (urandom 32 s)"
    "from_wif L (to_wif L k) = Inr k"
proof -
  obtain raw s' where r: "urandom 32 s = (raw, s')" by (cases "urandom 32 s")
  then have l: "length raw = 32" using assms(2) unfolding urandom_ok_def by (metis fst_conv)
  let ?k = "\<lparr>private_key = raw\<rparr>"
  have k: "keys_ok ?k" using l by (simp add: keys_ok_def)
  show ?thesis
    by (rule that [of ?k s']) (use from_wif_to_wif [OF assms(1) k] k l r in \<open>simp_all add: generate_def PhantasmaKeys_32\<close>)
qed

lemma keys_text:
  assumes "crypto_lib_ok L" "keys_ok k"
  shows "\<exists>t a. keys_str L k = Inr t \<and> from_text (Some t) = Inr a \<and> keys_address L k = Inr a \<and>
    bytes32_from_phantasma_address a = Inr (public_key L k)"
proof -
  let ?a = "\<lparr>addr_data = [1, 0] @ public_key L k\<rparr>"
  have p: "length (public_key L k) = 32" using keys_address_user(2) [OF assms] .
  have a: "keys_address L k = Inr ?a" using p by (simp add: keys_address_def from_public_key_32)
  note u = user_address [OF p]
  have "from_text (Some (addr_text ?a)) = Inr ?a"
    by (rule from_text_addr_text) (use p in \<open>simp_all add: address_ok_def u [simplified]\<close>)
  moreover have "bytes32_from_phantasma_address ?a = Inr (public_key L k)"
    using u p by (simp add: bytes32_from_phantasma_address_def FixedBytes_length)
  ultimately show ?thesis using a by (simp add: keys_str_def)
qed

end
