(* ===== verification/ClientLife.thy ===== *)
theory ClientLife
  imports RpcFees KeyText
begin

text \<open>
  What a client does over time, and components together: a client in use against a server that answers only now and
  then, sending Carbon transactions, and a transaction whose gas offer comes from the configuration the node reports.
\<close>

section \<open>A client in use\<close>

text \<open>The client after the first \<open>n\<close> of a sequence of calls, whatever they return.\<close>

primrec in_use :: "'w rpc_lib \<Rightarrow> (nat \<Rightarrow> pystr \<times> json list) \<Rightarrow> 'w client \<Rightarrow> nat \<Rightarrow> 'w client" where
  "in_use L todo c 0 = c"
| "in_use L todo c (Suc n) = snd (call L (fst (todo n)) (snd (todo n)) (in_use L todo c n))"

text \<open>The request the call number \<open>n\<close> of a client has to make.\<close>

definition request_number :: "pystr \<Rightarrow> pystr \<Rightarrow> pystr option \<Rightarrow> nat \<Rightarrow> pystr \<times> json list \<Rightarrow> request" where
  "request_number endpoint timeout api_key n job = \<lparr>rq_url = endpoint, rq_id = py_str_int (int n), rq_method = fst job,
     rq_params = snd job, rq_timeout = timeout,
     rq_api_key = (case api_key of Some k \<Rightarrow> if k \<noteq> [] then Some k else None | None \<Rightarrow> None)\<rparr>"

text \<open>In a state \<open>w\<close> of the session, the server answers a request with a JSON-RPC object: the id of the request as
  text, a result, and no error that counts as true.\<close>

definition serves :: "'w rpc_lib \<Rightarrow> int \<Rightarrow> 'w \<Rightarrow> request \<Rightarrow> json \<Rightarrow> bool" where
  "serves L mx w rq result \<longleftrightarrow> (\<exists>response w' body. rl_post L w rq = (Inr response, w') \<and>
     read_response_json L response mx = Inr (JObject body) \<and> map_of body (str ''id'') = Some (JStr (rq_id rq)) \<and>
     \<not> json_true (json_get body (str ''error'')) \<and> map_of body (str ''result'') = Some result)"

lemma in_use_calls: "calls L c (in_use L todo c n)"
proof (induction n)
  case (Suc n)
  then show ?case by (auto intro: calls_more [OF _ surjective_pairing])
qed (simp add: calls_none)

lemma call_keeps:
  "cl_endpoint (snd (call L meth params c)) = cl_endpoint c" "cl_timeout (snd (call L meth params c)) = cl_timeout c"
  "cl_api_key (snd (call L meth params c)) = cl_api_key c" "cl_next_id (snd (call L meth params c)) = Suc (cl_next_id c)"
  "cl_max_response_bytes (snd (call L meth params c)) = cl_max_response_bytes c"
  by (simp_all add: call_def Let_def split: prod.split sum.split)

text \<open>Failures leave no trace in a client but the number of calls made.\<close>

lemma in_use_state:
  "cl_endpoint (in_use L todo c n) = cl_endpoint c \<and> cl_timeout (in_use L todo c n) = cl_timeout c \<and>
   cl_api_key (in_use L todo c n) = cl_api_key c \<and> cl_max_response_bytes (in_use L todo c n) = cl_max_response_bytes c \<and>
   cl_next_id (in_use L todo c n) = cl_next_id c + n"
  by (induction n) (simp_all add: call_keeps)

lemma served_call:
  assumes "serves L (cl_max_response_bytes c) (cl_session c) \<lparr>rq_url = cl_endpoint c, rq_id = py_str_int (int (cl_next_id c)),
      rq_method = meth, rq_params = params, rq_timeout = cl_timeout c, rq_api_key = cl_api_key c\<rparr> result"
  shows "fst (call L meth params c) = Inr result"
proof -
  let ?id = "py_str_int (int (cl_next_id c))"
  obtain response w' body where r: "rl_post L (cl_session c) \<lparr>rq_url = cl_endpoint c, rq_id = ?id, rq_method = meth,
      rq_params = params, rq_timeout = cl_timeout c, rq_api_key = cl_api_key c\<rparr> = (Inr response, w')"
    "read_response_json L response (cl_max_response_bytes c) = Inr (JObject body)"
    "map_of body (str ''id'') = Some (JStr ?id)" "\<not> json_true (json_get body (str ''error''))"
    "map_of body (str ''result'') = Some result"
    using assms unfolding serves_def by auto
  have "json_get body (str ''id'') = JStr ?id" using r(3) by (simp add: json_get_def)
  then have "call_result L (cl_max_response_bytes c) ?id response = Inr result"
    unfolding call_result_Inr using r(2,4,5) by (auto simp: json_str_def)
  then show ?thesis by (simp add: call_def Let_def r(1))
qed

text \<open>C12: A client keeps working: if the server properly answers again and again, at least now and then, the calls
  that it answers properly return its result, so results keep coming, whatever happened to the calls before: refused
  connections, HTTP errors, malformed or oversized answers, answers to other requests. What the server has to answer
  is said without the client: request number \<open>n\<close> is the \<open>n\<close>-th call made, to the endpoint the client was made for.
\<close>

theorem client_keeps_working:
  assumes "new_client endpoint w timeout mx api_key = Inr c"
    and "\<forall>n. \<exists>m\<ge>n. serves L mx (cl_session (in_use L todo c m)) (request_number endpoint timeout api_key m (todo m)) (result m)"
  shows "\<forall>n. \<exists>m\<ge>n. fst (call L (fst (todo m)) (snd (todo m)) (in_use L todo c m)) = Inr (result m)"
proof
  fix n
  obtain m where m: "m \<ge> n"
    "serves L mx (cl_session (in_use L todo c m)) (request_number endpoint timeout api_key m (todo m)) (result m)"
    using assms(2) by blast
  have "cl_endpoint c = endpoint" "cl_timeout c = timeout" "cl_max_response_bytes c = mx" "cl_next_id c = 0"
    "cl_api_key c = (case api_key of Some k \<Rightarrow> if k \<noteq> [] then Some k else None | None \<Rightarrow> None)"
    using assms(1) by (auto simp: new_client_def split: if_splits)
  with in_use_state [of L todo c m] have "fst (call L (fst (todo m)) (snd (todo m)) (in_use L todo c m)) = Inr (result m)"
    by (intro served_call) (use m(2) in \<open>simp add: request_number_def\<close>)
  with m(1) show "\<exists>m\<ge>n. fst (call L (fst (todo m)) (snd (todo m)) (in_use L todo c m)) = Inr (result m)" by blast
qed

text \<open>A server that drops every other connection.\<close>

definition flaky_lib :: "json \<Rightarrow> request list rpc_lib" where
  "flaky_lib v = answering_lib v\<lparr>rl_post := \<lambda>w rq.
     if even (length w) then (Inl OverflowError, w @ [rq]) else rl_post (answering_lib v) w rq\<rparr>"

lemma flaky_session: "length (cl_session (in_use (flaky_lib v) todo c n)) = length (cl_session c) + n"
  by (induction n) (auto simp: call_def Let_def flaky_lib_def answering_lib_def example_rpc_lib_def example_response_def)

theorem client_keeps_working_witness:
  "\<exists>c. new_client (str ''u'') [] (str ''30.0'') 10 None = Inr c \<and>
     (\<forall>n. \<exists>m\<ge>n. fst (call (flaky_lib (JInt 7)) (str ''getVersion'') [] (in_use (flaky_lib (JInt 7)) (\<lambda>_. (str ''getVersion'', [])) c m)) = Inr (JInt 7))"
proof -
  let ?todo = "\<lambda>_ :: nat. (str ''getVersion'', [] :: json list)"
  obtain c :: "request list client" where c: "new_client (str ''u'') [] (str ''30.0'') 10 None = Inr c"
    by (simp add: new_client_def)
  then have e: "cl_session c = []" by (auto simp: new_client_def)
  have "serves (flaky_lib (JInt 7)) 10 (cl_session (in_use (flaky_lib (JInt 7)) ?todo c (2 * n + 1)))
      (request_number (str ''u'') (str ''30.0'') None (2 * n + 1) (?todo (2 * n + 1))) (JInt 7)" for n
  proof -
    have o: "odd (length (cl_session (in_use (flaky_lib (JInt 7)) ?todo c (2 * n + 1))))"
      by (simp only: flaky_session e) simp
    then show ?thesis
      by (simp add: serves_def flaky_lib_def answering_lib_def read_response_json_def read_response_text_def
          content_length_def example_response_def json_get_def json_true_def str_inject del: str_Cons in_use.simps)
  qed
  then have "\<forall>n. \<exists>m\<ge>n. serves (flaky_lib (JInt 7)) 10 (cl_session (in_use (flaky_lib (JInt 7)) ?todo c m))
      (request_number (str ''u'') (str ''30.0'') None m (?todo m)) (JInt 7)"
    by (metis add.commute le_add2 mult_2 trans_le_add1)
  from client_keeps_working [OF c this] c show ?thesis by auto
qed

section \<open>Sending a Carbon transaction\<close>

lemma carbon_sent:
  assumes "sign_and_serialize_tx_msg K m k = Inr bs"
  shows "\<exists>rq closed. fst (cl_session (snd (sign_and_send_carbon_transaction (logging L) K m k c))) =
      fst (cl_session c) @ Sent rq closed # (if closed then [Closed] else []) \<and>
    rq_method rq = str ''sendCarbonTransaction'' \<and> rq_params rq = [JStr (bytes_hex bs)]"
proof -
  have "sign_and_send_carbon_transaction (logging L) K m k c =
      rpc_decode (extract_hash_result (rl_show (logging L))) (call (logging L) (str ''sendCarbonTransaction'') [JStr (bytes_hex bs)]) c"
    using assms by (simp add: sign_and_send_carbon_transaction_def sign_carbon_transaction_def sign_and_serialize_tx_msg_def
        rpc_try_def send_carbon_transaction_def)
  then show ?thesis using logged_send by metis
qed

lemma carbon_not_sent:
  "sign_and_serialize_tx_msg K m k = Inl e \<Longrightarrow> sign_and_send_carbon_transaction L K m k c = (Inl (Raised e), c)"
  by (simp add: sign_and_send_carbon_transaction_def sign_carbon_transaction_def sign_and_serialize_tx_msg_def rpc_try_def)

lemma sign_unserialisable:
  "serialize (write_TxMsg m) = Inl e \<Longrightarrow> sign_and_serialize_tx_msg K m k = Inl e"
  by (simp add: sign_and_serialize_tx_msg_def sign_tx_msg_def)

text \<open>C18: Signing and sending a Carbon transaction posts exactly one request, with the hexadecimal text of bytes
  the receiver decodes to the message with one witness: the address of the key and a signature of the message that
  verifies. It does so for exactly the messages one signature is enough for; for the others, and for messages that
  cannot be written, nothing is posted and the client is left as it was.
\<close>

theorem sent_carbon_transaction:
  assumes "crypto_lib_ok K" "keys_ok k" "TxMsg_ok m"
  shows "case serialize (write_TxMsg m) of
      Inl e \<Rightarrow> sign_and_send_carbon_transaction (logging L) K m k c = (Inl (Raised e), c)
    | Inr message \<Rightarrow> if one_signer_ok K m k
        then \<exists>rq closed bs w.
          fst (cl_session (snd (sign_and_send_carbon_transaction (logging L) K m k c))) =
            fst (cl_session c) @ Sent rq closed # (if closed then [Closed] else []) \<and>
          rq_method rq = str ''sendCarbonTransaction'' \<and> rq_params rq = [JStr (bytes_hex bs)] \<and>
          deserialize read_SignedTxMsg bs = Inr \<lparr>sm_msg = m, sm_witnesses = [w]\<rparr> \<and>
          wi_address w = public_key K k \<and> ed25519_verify K (wi_address w) (wi_signature w) message
        else sign_and_send_carbon_transaction (logging L) K m k c = (Inl (Raised SerializationError), c)"
proof (cases "serialize (write_TxMsg m)")
  case (Inl e)
  then show ?thesis using carbon_not_sent [OF sign_unserialisable [OF Inl]] by simp
next
  case (Inr message)
  show ?thesis
  proof (cases "one_signer_ok K m k")
    case True
    obtain bs w where s: "sign_and_serialize_tx_msg K m k = Inr bs"
      "deserialize read_SignedTxMsg bs = Inr \<lparr>sm_msg = m, sm_witnesses = [w]\<rparr>"
      "wi_address w = public_key K k" "ed25519_verify K (wi_address w) (wi_signature w) message"
      using sign_returns [OF assms Inr True] by blast
    obtain rq closed where "fst (cl_session (snd (sign_and_send_carbon_transaction (logging L) K m k c))) =
        fst (cl_session c) @ Sent rq closed # (if closed then [Closed] else [])"
      "rq_method rq = str ''sendCarbonTransaction''" "rq_params rq = [JStr (bytes_hex bs)]"
      using carbon_sent [OF s(1)] by blast
    then show ?thesis unfolding Inr sum.case if_P [OF True] using s(2-4) by (intro exI conjI)
  next
    case False
    then have "sign_and_serialize_tx_msg K m k = Inl SerializationError"
      using one_witness [OF assms(1,2), of m message]
      by (auto simp: sign_and_serialize_eq [OF assms(1,2) Inr] one_signer_ok_def)
    then show ?thesis using False Inr carbon_not_sent by simp
  qed
qed

lemma example_msg_signer: "one_signer_ok example_lib example_msg example_keys"
  by (simp add: one_signer_ok_def example_msg_def single_witness_types_def public_key_def example_lib_def example_keys_def)

theorem sent_carbon_transaction_witness:
  "\<exists>rq closed bs w. fst (cl_session (snd (sign_and_send_carbon_transaction (logging example_rpc_lib) example_lib example_msg
      example_keys (example_client ([], []))))) = Sent rq closed # (if closed then [Closed] else []) \<and>
    rq_params rq = [JStr (bytes_hex bs)] \<and> deserialize read_SignedTxMsg bs = Inr \<lparr>sm_msg = example_msg, sm_witnesses = [w]\<rparr>"
proof -
  let ?c = "example_client ([], []) :: (traffic list \<times> request list) client"
  obtain message where m: "serialize (write_TxMsg example_msg) = Inr message" using example_msg_written by blast
  have c: "fst (cl_session ?c) = []" by (simp add: example_client_def)
  have "\<exists>rq closed bs w. fst (cl_session (snd (sign_and_send_carbon_transaction (logging example_rpc_lib) example_lib example_msg
      example_keys ?c))) = fst (cl_session ?c) @ Sent rq closed # (if closed then [Closed] else []) \<and>
    rq_params rq = [JStr (bytes_hex bs)] \<and> deserialize read_SignedTxMsg bs = Inr \<lparr>sm_msg = example_msg, sm_witnesses = [w]\<rparr>"
    using sent_carbon_transaction [OF example_lib_ok example_keys_ok example_msg_ok, of example_rpc_lib ?c]
    unfolding m sum.case if_P [OF example_msg_signer] by blast
  then show ?thesis unfolding c append_Nil .
qed

section \<open>From the configuration of the node to the transaction it receives\<close>

lemma logged_answer: "fst (call (logging (answering_lib v)) meth params (c\<lparr>cl_session := ([], w)\<rparr>)) = Inr v"
  by (simp add: call_def logging_def answering_lib_def call_result_def read_response_json_def read_response_text_def
      content_length_def example_response_def json_str_def json_true_def Let_def str_inject del: str_Cons)

text \<open>The message with the gas and data an estimate offers.\<close>

definition offering :: "fee_estimate \<Rightarrow> TxMsg \<Rightarrow> TxMsg" where
  "offering e m = m\<lparr>tm_max_gas := fe_max_gas e, tm_max_data := fe_max_data e\<rparr>"

lemma offering_same:
  "tm_type (offering e m) = tm_type m" "TxMsg_ok (offering e m) = TxMsg_ok m"
  "one_signer_ok K (offering e m) k = one_signer_ok K m k"
  by (simp_all add: offering_def TxMsg_ok_def one_signer_ok_def)

text \<open>Gas and data have a fixed width, so the offer does not change the size of the message.\<close>

lemma offering_length:
  assumes "serialize (write_TxMsg m) = Inr draft" "is_u64 (fe_max_gas e)" "is_u64 (fe_max_data e)"
  shows "\<exists>message. serialize (write_TxMsg (offering e m)) = Inr message \<and> length message = length draft"
proof -
  have w: "serialize (write8u v) = (if is_u64 v then Inr (le_bytes 8 v) else Inl SerializationError)" for v
    by (simp add: write8u_def pack_unsigned_if is_u64_def)
  show ?thesis using assms
    by (auto simp: write_TxMsg_def offering_def serialize_wseq wire_appends payload_appends rthen_Inr_iff w split: if_splits)
qed

text \<open>The size of a message signed with one key is the envelope size of its kind.\<close>

lemma signed_size:
  assumes "crypto_lib_ok K" "keys_ok k" "serialize (write_TxMsg m) = Inr message" "sign_and_serialize_tx_msg K m k = Inr bs"
    and "kind \<in> native_signature_kinds \<longleftrightarrow> tm_type m \<notin> witness_list_types"
  shows "envelope_bytes_for kind (int (length message)) 1 = Inr (int (length bs))"
proof -
  have "length (ed25519_sign K (private_key k) message) = 64" using keys_sign_ok(3) [OF assms(1,2)] .
  moreover have "length (public_key K k) = 32" using keys_address_user(2) [OF assms(1,2)] .
  ultimately show ?thesis
    using assms(4,5) one_witness [OF assms(1,2), of m message]
    by (auto simp: sign_and_serialize_eq [OF assms(1-3)] envelope_bytes_for_def NATIVE_SIGNATURE_BYTES_def
        WITNESS_ARRAY_ENTRY_BYTES_def split: if_splits)
qed

text \<open>C6: From the node and back: when the node answers with the configuration it bills by, the estimate made
  from that answer for the envelope of a drafted message, put into the message, signed and sent, arrives at the node as
  the drafted message with the offer. The request carries exactly as many bytes as the estimate was made for, and the
  gas offered covers the bill the estimate expects, the minimum bill and the minimum offer of the node.
\<close>

theorem fees_reach_node:
  assumes "crypto_lib_ok K" "keys_ok k" "node_gas_config g" "gas_config_ranges g"
    and "fst (call (logging L) (str ''getGasConfig'') [] c) =
      Inr (shape_to_wire rpc_env event_to_wire (gas_config_object g rate window units))"
    and "TxMsg_ok m" "serialize (write_TxMsg m) = Inr draft" "one_signer_ok K m k"
    and "kind \<in> native_signature_kinds \<longleftrightarrow> tm_type m \<notin> witness_list_types"
    and "envelope_bytes_for kind (int (length draft)) 1 = Inr envelope" "fee_inputs_ok i"
    and "estimate_native_fee kind g (i\<lparr>in_envelope_bytes := envelope\<rparr>) = Inr e"
  shows "\<exists>x c' rq closed bs w. get_gas_config (logging L) c = (Inr x, c') \<and>
    rthen (to_gas_config (gas_config_result_of x)) (\<lambda>config.
      estimate_native_fee kind config (i\<lparr>in_envelope_bytes := envelope\<rparr>)) = Inr e \<and>
    fst (cl_session (snd (sign_and_send_carbon_transaction (logging L) K (offering e m) k c'))) =
      fst (cl_session c') @ Sent rq closed # (if closed then [Closed] else []) \<and>
    rq_method rq = str ''sendCarbonTransaction'' \<and> rq_params rq = [JStr (bytes_hex bs)] \<and>
    deserialize read_SignedTxMsg bs = Inr \<lparr>sm_msg = offering e m, sm_witnesses = [w]\<rparr> \<and>
    int (length bs) = envelope \<and> fe_expected_gas_bill e \<le> tm_max_gas (offering e m) \<and>
    (has_gas_model_v2 g \<longrightarrow>
       gc_minimum_gas_bill g \<le> tm_max_gas (offering e m) \<and> gc_minimum_gas_offer g \<le> tm_max_gas (offering e m))"
proof -
  let ?x = "gas_config_object g rate window units" and ?i = "i\<lparr>in_envelope_bytes := envelope\<rparr>"
  have "decode_value rpc_env (AClass ''GasConfigResult'') (shape_to_wire rpc_env event_to_wire ?x) = Inr ?x"
    by (rule response.read_written_any [OF refl refl gas_config_conforms]) simp
  then have "fst (get_gas_config (logging L) c) = Inr ?x"
    using decoded_result [of "call (logging L) (str ''getGasConfig'') []" c, OF assms(5), of "decode_dataclass rpc_env ''GasConfigResult''"]
    by (simp add: get_gas_config_def raised_def del: str_Cons)
  then obtain c' where x: "get_gas_config (logging L) c = (Inr ?x, c')" by (metis surjective_pairing)
  have i: "fee_inputs_ok ?i" using assms(11) by (simp add: fee_inputs_ok_def)
  note facts = estimate_facts [OF assms(4) i assms(12)]
  obtain message where message: "serialize (write_TxMsg (offering e m)) = Inr message" "length message = length draft"
    using offering_length [OF assms(7)] facts by blast
  obtain bs w where s: "sign_and_serialize_tx_msg K (offering e m) k = Inr bs"
    "deserialize read_SignedTxMsg bs = Inr \<lparr>sm_msg = offering e m, sm_witnesses = [w]\<rparr>"
    using sign_returns [OF assms(1,2) _ message(1)] assms(6,8) by (auto simp: offering_same)
  have size: "int (length bs) = envelope"
    using signed_size [OF assms(1,2) message(1) s(1), of kind] assms(9,10) message(2) by (simp add: offering_same)
  obtain rq closed where sent: "fst (cl_session (snd (sign_and_send_carbon_transaction (logging L) K (offering e m) k c'))) =
      fst (cl_session c') @ Sent rq closed # (if closed then [Closed] else [])"
    "rq_method rq = str ''sendCarbonTransaction''" "rq_params rq = [JStr (bytes_hex bs)]"
    using carbon_sent [OF s(1)] by blast
  have estimated: "rthen (to_gas_config (gas_config_result_of ?x)) (\<lambda>config. estimate_native_fee kind config ?i) = Inr e"
    by (simp add: gas_config_object_read [OF assms(3)] assms(12))
  have offered: "fe_expected_gas_bill e \<le> tm_max_gas (offering e m)" "has_gas_model_v2 g \<longrightarrow>
      gc_minimum_gas_bill g \<le> tm_max_gas (offering e m) \<and> gc_minimum_gas_offer g \<le> tm_max_gas (offering e m)"
    using facts by (auto simp: offering_def)
  show ?thesis by (rule exI conjI x estimated sent s(2) size offered)+
qed

theorem fees_reach_node_witness:
  "\<exists>(L :: request list rpc_lib) x c' rq closed bs w e. get_gas_config (logging L) (example_client ([], [])) = (Inr x, c') \<and>
    fst (cl_session (snd (sign_and_send_carbon_transaction (logging L) example_lib (offering e example_msg) example_keys c'))) =
      fst (cl_session c') @ Sent rq closed # (if closed then [Closed] else []) \<and>
    rq_params rq = [JStr (bytes_hex bs)] \<and> deserialize read_SignedTxMsg bs = Inr \<lparr>sm_msg = offering e example_msg, sm_witnesses = [w]\<rparr> \<and>
    gc_minimum_gas_offer example_node_config \<le> tm_max_gas (offering e example_msg)"
proof -
  let ?L = "answering_lib (shape_to_wire rpc_env event_to_wire (gas_config_object example_node_config 1 2 None))"
  let ?c = "example_client ([], []) :: (traffic list \<times> request list) client"
  obtain draft where draft: "serialize (write_TxMsg example_msg) = Inr draft" using example_msg_written by blast
  have ranges: "gas_config_ranges example_node_config" using example_ranges(2) by (simp add: example_node_config_def)
  have kind: "FK_TRANSFER_FUNGIBLE \<in> native_signature_kinds \<longleftrightarrow> tm_type example_msg \<notin> witness_list_types"
    by (simp add: native_signature_kinds_def example_msg_def witness_list_types_def)
  obtain envelope where envelope: "envelope_bytes_for FK_TRANSFER_FUNGIBLE (int (length draft)) 1 = Inr envelope"
    by (cases "FK_TRANSFER_FUNGIBLE \<in> native_signature_kinds") (auto simp: envelope_bytes_for_def)
  let ?i = "default_inputs\<lparr>in_envelope_bytes := envelope\<rparr>"
  have "\<exists>e. estimate_native_fee FK_TRANSFER_FUNGIBLE example_node_config ?i = Inr e"
    using estimate_errors [OF ranges, of FK_TRANSFER_FUNGIBLE ?i]
    by (cases "estimate_native_fee FK_TRANSFER_FUNGIBLE example_node_config ?i") (auto simp: default_inputs_def)
  then obtain e where e: "estimate_native_fee FK_TRANSFER_FUNGIBLE example_node_config ?i = Inr e" by blast
  have answer: "fst (call (logging ?L) (str ''getGasConfig'') [] ?c) =
      Inr (shape_to_wire rpc_env event_to_wire (gas_config_object example_node_config 1 2 None))"
    using logged_answer [where c = ?c and w = "[]" and meth = "str ''getGasConfig''" and params = "[]"] by (simp add: example_client_def del: str_Cons)
  have "has_gas_model_v2 example_node_config" by (simp add: has_gas_model_v2_def example_node_config(2))
  with fees_reach_node [OF example_lib_ok example_keys_ok example_node_config(1) ranges answer example_msg_ok draft
      example_msg_signer kind envelope default_inputs_ok e] show ?thesis by blast
qed

end
