(* ===== verification/ScriptBuilder.thy ===== *)
theory ScriptBuilder
  imports Crypto "HOL-Library.AList"
begin

text \<open>
  \<^verbatim>\<open>ScriptBuilder\<close> of \<^verbatim>\<open>vm.py\<close>. The builder is the writer's buffer, the jumps to patch, the
  labels seen and the first retained error. An operation \<open>sbop\<close> returns the builder it leaves
  behind next to its result, also when it raises: the \<open>_text\<close> operations catch the exception and go
  on with that builder.

  \<open>sb_ok\<close> is what every operation keeps: bytes are only appended, a retained error stays, and every
  recorded jump has its two bytes inside the buffer (\<open>sb_inv\<close>). \<open>sb_reachable\<close> are the builders any
  sequence of public operations can lead to, exceptions included. \<^verbatim>\<open>str.lower\<close> is a parameter of
  the two operations that normalise labels.
\<close>

unbundle bit_operations_syntax

section \<open>Opcodes\<close>

definition opcodes :: "(string \<times> int) list" where
  "opcodes = [
     (''NOP'', 0), (''MOVE'', 1), (''COPY'', 2), (''PUSH'', 3), (''POP'', 4), (''SWAP'', 5),
     (''CALL'', 6), (''EXTCALL'', 7), (''JMP'', 8), (''JMPIF'', 9), (''JMPNOT'', 10),
     (''RET'', 11), (''THROW'', 12), (''LOAD'', 13), (''CAST'', 14), (''CAT'', 15),
     (''RANGE'', 16), (''LEFT'', 17), (''RIGHT'', 18), (''SIZE'', 19), (''COUNT'', 20),
     (''NOT'', 21), (''AND'', 22), (''OR'', 23), (''XOR'', 24), (''EQUAL'', 25), (''LT'', 26),
     (''GT'', 27), (''LTE'', 28), (''GTE'', 29), (''INC'', 30), (''DEC'', 31), (''SIGN'', 32),
     (''NEGATE'', 33), (''ABS'', 34), (''ADD'', 35), (''SUB'', 36), (''MUL'', 37),
     (''DIV'', 38), (''MOD'', 39), (''SHL'', 40), (''SHR'', 41), (''MIN'', 42), (''MAX'', 43),
     (''POW'', 44), (''CTX'', 45), (''SWITCH'', 46), (''PUT'', 47), (''GET'', 48),
     (''CLEAR'', 49), (''UNPACK'', 50), (''PACK'', 51), (''DEBUG'', 52), (''SUBSTR'', 53),
     (''REMOVE'', 54), (''EVM'', 255)]"

definition op :: "string \<Rightarrow> int" where
  "op name = (case map_of opcodes name of Some c \<Rightarrow> c | None \<Rightarrow> -1)"

lemma opcodes_bytes: "list_all (\<lambda>(n, c). 0 \<le> c \<and> c \<le> 255) opcodes"
  by (simp add: opcodes_def)

lemma opcodes_distinct: "distinct (map fst opcodes) \<and> distinct (map snd opcodes)"
  by (simp add: opcodes_def)

lemma op_simps [simp]:
  "op ''NOP'' = 0" "op ''MOVE'' = 1" "op ''COPY'' = 2" "op ''PUSH'' = 3" "op ''POP'' = 4" "op ''CALL'' = 6"
  "op ''EXTCALL'' = 7" "op ''JMP'' = 8" "op ''JMPIF'' = 9" "op ''JMPNOT'' = 10" "op ''RET'' = 11"
  "op ''THROW'' = 12" "op ''LOAD'' = 13" "op ''CAST'' = 14" "op ''CTX'' = 45" "op ''SWITCH'' = 46" "op ''PUT'' = 47"
  by (simp_all add: op_def opcodes_def)

text \<open>The members of \<^verbatim>\<open>VMType\<close> the builder uses.\<close>

definition VM_NONE :: int where "VM_NONE = 0"
definition VM_BYTES :: int where "VM_BYTES = 2"
definition VM_NUMBER :: int where "VM_NUMBER = 3"
definition VM_STRING :: int where "VM_STRING = 4"
definition VM_TIMESTAMP :: int where "VM_TIMESTAMP = 5"
definition VM_BOOL :: int where "VM_BOOL = 6"

section \<open>State and exceptions\<close>

record builder =
  sb_buffer :: bytes
  jump_locations :: "(nat \<times> pystr) list"
  label_locations :: "(pystr \<times> nat) list"
  sb_error :: "py_error option"

type_synonym sbop = "builder \<Rightarrow> unit result \<times> builder"

definition MAX_REGISTER_COUNT :: int where
  "MAX_REGISTER_COUNT = 32"

definition sb_begin :: builder where
  "sb_begin = \<lparr>sb_buffer = [], jump_locations = [], label_locations = [], sb_error = None\<rparr>"

definition current_size :: "builder \<Rightarrow> nat" where
  "current_size s = length (sb_buffer s)"

definition sb_skip :: sbop where
  "sb_skip s = (Inr (), s)"

definition sb_raise :: "py_error \<Rightarrow> sbop" where
  "sb_raise e s = (Inl e, s)"

definition sb_then :: "sbop \<Rightarrow> sbop \<Rightarrow> sbop" where
  "sb_then f g s = (case f s of (Inl e, s') \<Rightarrow> (Inl e, s') | (Inr _, s') \<Rightarrow> g s')"

fun sb_seq :: "sbop list \<Rightarrow> sbop" where
  "sb_seq [] = sb_skip"
| "sb_seq (f # fs) = sb_then f (sb_seq fs)"

text \<open>A value computed before the call, which may raise.\<close>

definition sb_bind :: "'a result \<Rightarrow> ('a \<Rightarrow> sbop) \<Rightarrow> sbop" where
  "sb_bind m f s = (case m of Inl e \<Rightarrow> (Inl e, s) | Inr x \<Rightarrow> f x s)"

definition sb_fail :: sbop where
  "sb_fail s = (Inr (), if sb_error s = None then s\<lparr>sb_error := Some BuilderError\<rparr> else s)"

text \<open>\<^verbatim>\<open>try: ... except Exception as exc: return self._fail(str(exc))\<close>\<close>

definition sb_try :: "sbop \<Rightarrow> sbop" where
  "sb_try f s = (case f s of (Inl e, s') \<Rightarrow> sb_fail s' | (Inr _, s') \<Rightarrow> (Inr (), s'))"

definition sb_addr :: "pystr \<Rightarrow> (address \<Rightarrow> sbop) \<Rightarrow> sbop" where
  "sb_addr t f = sb_bind (from_text (Some t)) f"

definition sb_write :: "bytes result \<Rightarrow> sbop" where
  "sb_write m = sb_bind m (\<lambda>bs s. (Inr (), s\<lparr>sb_buffer := sb_buffer s @ bs\<rparr>))"

definition sb_byte :: "int \<Rightarrow> sbop" where
  "sb_byte v = sb_write (serialize (write_u8 v))"

text \<open>\<^verbatim>\<open>write_var_uint\<close> on the builder's writer: the prefix byte stays when the value is too large.\<close>

definition sb_var_uint :: "int \<Rightarrow> sbop" where
  "sb_var_uint v =
     (if v < 0 then sb_raise SerializationError
      else if v < 0xFD then sb_byte v
      else if v \<le> 0xFFFF then sb_seq [sb_byte 0xFD, sb_write (serialize (write_u16_le v))]
      else if v \<le> 0xFFFFFFFF then sb_seq [sb_byte 0xFE, sb_write (serialize (write_u32_le v))]
      else sb_seq [sb_byte 0xFF, sb_write (serialize (write_u64_le v))])"

section \<open>Operations\<close>

definition emit_op :: "int \<Rightarrow> sbop" where
  "emit_op opcode = sb_byte opcode"

definition emit_raw :: "bytes \<Rightarrow> sbop" where
  "emit_raw raw = sb_write (Inr raw)"

definition emit_push :: "int \<Rightarrow> sbop" where
  "emit_push reg = sb_seq [emit_op (op ''PUSH''), sb_byte reg]"

definition emit_pop :: "int \<Rightarrow> sbop" where
  "emit_pop reg = sb_seq [emit_op (op ''POP''), sb_byte reg]"

definition emit_throw :: "int \<Rightarrow> sbop" where
  "emit_throw reg = sb_seq [emit_op (op ''THROW''), sb_byte reg]"

definition emit_load :: "int \<Rightarrow> bytes \<Rightarrow> int \<Rightarrow> sbop" where
  "emit_load reg raw vm_type =
     (if length raw > 0xFFFF then sb_fail
      else sb_seq [emit_op (op ''LOAD''), sb_byte reg, sb_byte vm_type,
                   sb_var_uint (int (length raw)), sb_write (Inr raw)])"

definition emit_load_string :: "int \<Rightarrow> pystr \<Rightarrow> sbop" where
  "emit_load_string reg v = sb_bind (utf8_encode v) (\<lambda>raw. emit_load reg raw VM_STRING)"

definition emit_load_bool :: "int \<Rightarrow> bool \<Rightarrow> sbop" where
  "emit_load_bool reg v = emit_load reg (if v then [1] else [0]) VM_BOOL"

definition emit_load_number :: "int \<Rightarrow> int \<Rightarrow> sbop" where
  "emit_load_number reg v = sb_bind (big_int_to_csharp_bytes v) (\<lambda>raw. emit_load reg raw VM_NUMBER)"

text \<open>A \<^verbatim>\<open>datetime\<close> argument is its truncated POSIX time.\<close>

definition emit_load_time :: "int \<Rightarrow> int \<Rightarrow> sbop" where
  "emit_load_time reg unix_seconds =
     (if unix_seconds < 0 \<or> unix_seconds > 0xFFFFFFFF then sb_fail
      else sb_bind (to_bytes_le unix_seconds 4) (\<lambda>raw. emit_load reg raw VM_TIMESTAMP))"

definition emit_ext_call :: "pystr \<Rightarrow> int \<Rightarrow> sbop" where
  "emit_ext_call mthd reg = sb_seq [emit_load_string reg mthd, emit_op (op ''EXTCALL''), sb_byte reg]"

definition emit_move :: "int \<Rightarrow> int \<Rightarrow> sbop" where
  "emit_move src_reg dst_reg = sb_seq [emit_op (op ''MOVE''), sb_byte src_reg, sb_byte dst_reg]"

definition emit_copy :: "int \<Rightarrow> int \<Rightarrow> sbop" where
  "emit_copy src_reg dst_reg = sb_seq [emit_op (op ''COPY''), sb_byte src_reg, sb_byte dst_reg]"

definition emit_label :: "(pystr \<Rightarrow> pystr) \<Rightarrow> pystr \<Rightarrow> sbop" where
  "emit_label lower label = sb_seq [emit_op (op ''NOP''),
     \<lambda>s. (Inr (), s\<lparr>label_locations := AList.update (lower label) (current_size s) (label_locations s)\<rparr>)]"

text \<open>The two bytes a jump target is patched into, and the entry that says so.\<close>

definition sb_jump_slot :: "pystr \<Rightarrow> sbop" where
  "sb_jump_slot label s =
     (let offset = current_size s in
      sb_seq [sb_write (serialize (write_u16_le 0)),
        \<lambda>s. (Inr (), s\<lparr>jump_locations := AList.update offset label (jump_locations s)\<rparr>)] s)"

definition emit_jump :: "int \<Rightarrow> pystr \<Rightarrow> int \<Rightarrow> sbop" where
  "emit_jump opcode label reg =
     (if opcode \<notin> {op ''JMP'', op ''JMPIF'', op ''JMPNOT''} then sb_fail
      else sb_seq [emit_op opcode, if opcode \<noteq> op ''JMP'' then sb_byte reg else sb_skip, sb_jump_slot label])"

definition emit_call :: "pystr \<Rightarrow> int \<Rightarrow> sbop" where
  "emit_call label register_count =
     (if register_count < 1 \<or> register_count > MAX_REGISTER_COUNT then sb_fail
      else sb_seq [emit_op (op ''CALL''), sb_byte register_count, sb_jump_slot label])"

definition emit_conditional_jump :: "int \<Rightarrow> int \<Rightarrow> pystr \<Rightarrow> sbop" where
  "emit_conditional_jump opcode src_reg label =
     (if opcode \<notin> {op ''JMPIF'', op ''JMPNOT''} then sb_fail else emit_jump opcode label src_reg)"

definition emit_var_bytes :: "int \<Rightarrow> sbop" where
  "emit_var_bytes v = sb_var_uint v"

text \<open>The Python values an argument of a call can be.\<close>

datatype vm_arg =
    ArgNone
  | ArgAddress address
  | ArgStr pystr
  | ArgBool bool
  | ArgBytes bytes
  | ArgInt int
  | ArgTime int
  | ArgList "vm_arg list"
  | ArgOther

function load_into_register :: "int \<Rightarrow> vm_arg \<Rightarrow> sbop"
  and load_items :: "int \<Rightarrow> int \<Rightarrow> vm_arg list \<Rightarrow> sbop" where
  "load_into_register reg ArgNone = sb_fail"
| "load_into_register reg (ArgAddress a) = sb_bind (prefixed_bytes a) (\<lambda>raw. emit_load reg raw VM_BYTES)"
| "load_into_register reg (ArgStr v) = emit_load_string reg v"
| "load_into_register reg (ArgBool v) = emit_load_bool reg v"
| "load_into_register reg (ArgBytes raw) = emit_load reg raw VM_BYTES"
| "load_into_register reg (ArgInt v) = emit_load_number reg v"
| "load_into_register reg (ArgTime t) = emit_load_time reg t"
| "load_into_register reg (ArgList items) =
     (if reg > MAX_REGISTER_COUNT - 3 then sb_fail
      else sb_seq [emit_op (op ''CAST''), sb_byte reg, sb_byte reg, sb_byte VM_NONE, load_items reg 0 items])"
| "load_into_register reg ArgOther = sb_fail"
| "load_items reg index [] = sb_skip"
| "load_items reg index (item # items) =
     sb_seq [load_into_register (reg + 1) item, emit_load_number (reg + 2) index,
       emit_op (op ''PUT''), sb_byte (reg + 1), sb_byte reg, sb_byte (reg + 2),
       load_items reg (index + 1) items]"
  by pat_completeness auto
termination
  by (relation "measure (\<lambda>x. case x of Inl (_, a) \<Rightarrow> size a | Inr (_, _, as) \<Rightarrow> size_list size as)") auto

definition insert_method_args :: "vm_arg list \<Rightarrow> sbop" where
  "insert_method_args args =
     sb_seq (concat (map (\<lambda>arg. [load_into_register 0 arg, emit_push 0]) (rev args)))"

definition call_interop :: "pystr \<Rightarrow> vm_arg list \<Rightarrow> sbop" where
  "call_interop mthd args =
     sb_seq [insert_method_args args, emit_load_string 0 mthd, emit_op (op ''EXTCALL''), sb_byte 0]"

definition call_contract :: "pystr \<Rightarrow> pystr \<Rightarrow> vm_arg list \<Rightarrow> sbop" where
  "call_contract contract_name mthd args =
     sb_seq [insert_method_args args, emit_load_string 0 mthd, emit_push 0, emit_load_string 0 contract_name,
       emit_op (op ''CTX''), sb_byte 0, sb_byte 1, emit_op (op ''SWITCH''), sb_byte 1]"

definition allow_gas :: "address \<Rightarrow> address \<Rightarrow> int \<Rightarrow> int \<Rightarrow> sbop" where
  "allow_gas from_address to_address gas_price gas_limit = call_contract (str ''gas'') (str ''AllowGas'') [ArgAddress from_address, ArgAddress to_address, ArgInt gas_price, ArgInt gas_limit]"

definition allow_gas_text :: "pystr \<Rightarrow> pystr \<Rightarrow> int \<Rightarrow> int \<Rightarrow> sbop" where
  "allow_gas_text from_address to_address gas_price gas_limit = sb_try (sb_addr from_address (\<lambda>from_address'. sb_addr to_address (\<lambda>to_address'. allow_gas from_address' to_address' gas_price gas_limit)))"

definition spend_gas :: "address \<Rightarrow> sbop" where
  "spend_gas address = call_contract (str ''gas'') (str ''SpendGas'') [ArgAddress address]"

definition spend_gas_text :: "pystr \<Rightarrow> sbop" where
  "spend_gas_text address = sb_try (sb_addr address (\<lambda>address'. spend_gas address'))"

definition transfer_tokens :: "pystr \<Rightarrow> address \<Rightarrow> address \<Rightarrow> int \<Rightarrow> sbop" where
  "transfer_tokens symbol from_address to_address amount = call_interop (str ''Runtime.TransferTokens'') [ArgAddress from_address, ArgAddress to_address, ArgStr symbol, ArgInt amount]"

definition transfer_tokens_text :: "pystr \<Rightarrow> pystr \<Rightarrow> pystr \<Rightarrow> int \<Rightarrow> sbop" where
  "transfer_tokens_text symbol from_address to_address amount = sb_try (sb_addr from_address (\<lambda>from_address'. sb_addr to_address (\<lambda>to_address'. transfer_tokens symbol from_address' to_address' amount)))"

definition mint_tokens :: "pystr \<Rightarrow> address \<Rightarrow> address \<Rightarrow> int \<Rightarrow> sbop" where
  "mint_tokens symbol from_address to_address amount = call_interop (str ''Runtime.MintTokens'') [ArgAddress from_address, ArgAddress to_address, ArgStr symbol, ArgInt amount]"

definition mint_tokens_text :: "pystr \<Rightarrow> pystr \<Rightarrow> pystr \<Rightarrow> int \<Rightarrow> sbop" where
  "mint_tokens_text symbol from_address to_address amount = sb_try (sb_addr from_address (\<lambda>from_address'. sb_addr to_address (\<lambda>to_address'. mint_tokens symbol from_address' to_address' amount)))"

definition transfer_tokens_to_text :: "pystr \<Rightarrow> address \<Rightarrow> pystr \<Rightarrow> int \<Rightarrow> sbop" where
  "transfer_tokens_to_text symbol from_address to_address amount = sb_try (sb_addr to_address (\<lambda>to_address'. transfer_tokens symbol from_address to_address' amount))"

definition transfer_balance :: "pystr \<Rightarrow> address \<Rightarrow> address \<Rightarrow> sbop" where
  "transfer_balance symbol from_address to_address = call_interop (str ''Runtime.TransferBalance'') [ArgAddress from_address, ArgAddress to_address, ArgStr symbol]"

definition transfer_balance_text :: "pystr \<Rightarrow> pystr \<Rightarrow> pystr \<Rightarrow> sbop" where
  "transfer_balance_text symbol from_address to_address = sb_try (sb_addr from_address (\<lambda>from_address'. sb_addr to_address (\<lambda>to_address'. transfer_balance symbol from_address' to_address')))"

definition transfer_nft :: "pystr \<Rightarrow> address \<Rightarrow> address \<Rightarrow> int \<Rightarrow> sbop" where
  "transfer_nft symbol from_address to_address token_id = call_interop (str ''Runtime.TransferToken'') [ArgAddress from_address, ArgAddress to_address, ArgStr symbol, ArgInt token_id]"

definition transfer_nft_text :: "pystr \<Rightarrow> pystr \<Rightarrow> pystr \<Rightarrow> int \<Rightarrow> sbop" where
  "transfer_nft_text symbol from_address to_address token_id = sb_try (sb_addr from_address (\<lambda>from_address'. sb_addr to_address (\<lambda>to_address'. transfer_nft symbol from_address' to_address' token_id)))"

definition transfer_nft_to_text :: "pystr \<Rightarrow> address \<Rightarrow> pystr \<Rightarrow> int \<Rightarrow> sbop" where
  "transfer_nft_to_text symbol from_address to_address token_id = sb_try (sb_addr to_address (\<lambda>to_address'. transfer_nft symbol from_address to_address' token_id))"

definition cross_transfer_token :: "address \<Rightarrow> pystr \<Rightarrow> address \<Rightarrow> address \<Rightarrow> int \<Rightarrow> sbop" where
  "cross_transfer_token destination_chain symbol from_address to_address amount = call_interop (str ''Runtime.SendTokens'') [ArgAddress destination_chain, ArgAddress from_address, ArgAddress to_address, ArgStr symbol, ArgInt amount]"

definition cross_transfer_token_text :: "pystr \<Rightarrow> pystr \<Rightarrow> pystr \<Rightarrow> pystr \<Rightarrow> int \<Rightarrow> sbop" where
  "cross_transfer_token_text destination_chain symbol from_address to_address amount = sb_try (sb_addr destination_chain (\<lambda>destination_chain'. sb_addr from_address (\<lambda>from_address'. sb_addr to_address (\<lambda>to_address'. cross_transfer_token destination_chain' symbol from_address' to_address' amount))))"

definition cross_transfer_token_to_text :: "address \<Rightarrow> pystr \<Rightarrow> address \<Rightarrow> pystr \<Rightarrow> int \<Rightarrow> sbop" where
  "cross_transfer_token_to_text destination_chain symbol from_address to_address amount = sb_try (sb_addr to_address (\<lambda>to_address'. cross_transfer_token destination_chain symbol from_address to_address' amount))"

definition cross_transfer_nft :: "address \<Rightarrow> pystr \<Rightarrow> address \<Rightarrow> address \<Rightarrow> int \<Rightarrow> sbop" where
  "cross_transfer_nft destination_chain symbol from_address to_address token_id = call_interop (str ''Runtime.SendToken'') [ArgAddress destination_chain, ArgAddress from_address, ArgAddress to_address, ArgStr symbol, ArgInt token_id]"

definition cross_transfer_nft_text :: "pystr \<Rightarrow> pystr \<Rightarrow> pystr \<Rightarrow> pystr \<Rightarrow> int \<Rightarrow> sbop" where
  "cross_transfer_nft_text destination_chain symbol from_address to_address token_id = sb_try (sb_addr destination_chain (\<lambda>destination_chain'. sb_addr from_address (\<lambda>from_address'. sb_addr to_address (\<lambda>to_address'. cross_transfer_nft destination_chain' symbol from_address' to_address' token_id))))"

definition cross_transfer_nft_to_text :: "address \<Rightarrow> pystr \<Rightarrow> address \<Rightarrow> pystr \<Rightarrow> int \<Rightarrow> sbop" where
  "cross_transfer_nft_to_text destination_chain symbol from_address to_address token_id = sb_try (sb_addr to_address (\<lambda>to_address'. cross_transfer_nft destination_chain symbol from_address to_address' token_id))"

definition stake :: "address \<Rightarrow> int \<Rightarrow> sbop" where
  "stake address amount = call_contract (str ''stake'') (str ''Stake'') [ArgAddress address, ArgInt amount]"

definition stake_text :: "pystr \<Rightarrow> int \<Rightarrow> sbop" where
  "stake_text address amount = sb_try (sb_addr address (\<lambda>address'. stake address' amount))"

definition unstake :: "address \<Rightarrow> int \<Rightarrow> sbop" where
  "unstake address amount = call_contract (str ''stake'') (str ''Unstake'') [ArgAddress address, ArgInt amount]"

definition unstake_text :: "pystr \<Rightarrow> int \<Rightarrow> sbop" where
  "unstake_text address amount = sb_try (sb_addr address (\<lambda>address'. unstake address' amount))"

definition call_nft :: "pystr \<Rightarrow> int \<Rightarrow> pystr \<Rightarrow> vm_arg list \<Rightarrow> sbop" where
  "call_nft symbol series_id mthd args = sb_bind (py_str series_id) (\<lambda>n. call_contract (symbol @ str ''#'' @ n) mthd args)"

section \<open>Ending a script\<close>

text \<open>The patch loop of \<^verbatim>\<open>to_script\<close>, over the recorded jumps in order.\<close>

fun patch_jumps :: "(pystr \<Rightarrow> pystr) \<Rightarrow> (pystr \<times> nat) list \<Rightarrow> (nat \<times> pystr) list \<Rightarrow> bytes \<Rightarrow> bytes result" where
  "patch_jumps lower labels [] scr = Inr scr"
| "patch_jumps lower labels ((offset, label) # jumps) scr =
     (case map_of labels (lower label) of
        None \<Rightarrow> Inl BuilderError
      | Some target \<Rightarrow>
          if offset + 1 \<ge> length scr then Inl BuilderError
          else rthen (to_bytes_le (int target) 2) (\<lambda>bs.
            patch_jumps lower labels jumps (take offset scr @ bs @ drop (offset + 2) scr)))"

definition to_script :: "(pystr \<Rightarrow> pystr) \<Rightarrow> builder \<Rightarrow> bytes result" where
  "to_script lower s = patch_jumps lower (label_locations s) (jump_locations s) (sb_buffer s)"

definition end_script_with_error ::
  "(pystr \<Rightarrow> pystr) \<Rightarrow> builder \<Rightarrow> (bytes \<times> py_error option) result \<times> builder" where
  "end_script_with_error lower s =
     (case emit_op (op ''RET'') s of
        (Inl e, s') \<Rightarrow> (Inl e, s')
      | (Inr _, s') \<Rightarrow>
          (Inr (case sb_error s' of
             Some e \<Rightarrow> ([], Some e)
           | None \<Rightarrow> (case to_script lower s' of Inr scr \<Rightarrow> (scr, None) | Inl exc \<Rightarrow> ([], Some exc))), s'))"

definition end_script :: "(pystr \<Rightarrow> pystr) \<Rightarrow> builder \<Rightarrow> bytes result \<times> builder" where
  "end_script lower s =
     (case end_script_with_error lower s of
        (Inl e, s') \<Rightarrow> (Inl e, s')
      | (Inr (scr, err), s') \<Rightarrow> (case err of Some e \<Rightarrow> (Inl e, s') | None \<Rightarrow> (Inr scr, s')))"

definition end_script_hex :: "(pystr \<Rightarrow> pystr) \<Rightarrow> builder \<Rightarrow> pystr result \<times> builder" where
  "end_script_hex lower s =
     (case end_script lower s of (m, s') \<Rightarrow> (rthen m (\<lambda>scr. Inr (ascii_upper (bytes_hex scr))), s'))"

section \<open>Reachable builders\<close>

text \<open>The public operations.\<close>

inductive sb_public :: "(pystr \<Rightarrow> pystr) \<Rightarrow> sbop \<Rightarrow> bool" for lower where
  "sb_public lower (emit_op i0)"
| "sb_public lower (emit_raw bs0)"
| "sb_public lower (emit_push i0)"
| "sb_public lower (emit_pop i0)"
| "sb_public lower (emit_throw i0)"
| "sb_public lower (emit_ext_call t0 i1)"
| "sb_public lower (emit_load i0 bs1 i2)"
| "sb_public lower (emit_load_string i0 t1)"
| "sb_public lower (emit_load_bool i0 b1)"
| "sb_public lower (emit_load_number i0 i1)"
| "sb_public lower (emit_load_time i0 i1)"
| "sb_public lower (emit_move i0 i1)"
| "sb_public lower (emit_copy i0 i1)"
| "sb_public lower (emit_label lower t0)"
| "sb_public lower (emit_jump i0 t1 i2)"
| "sb_public lower (emit_call t0 i1)"
| "sb_public lower (emit_conditional_jump i0 i1 t2)"
| "sb_public lower (emit_var_bytes i0)"
| "sb_public lower (call_interop t0 args)"
| "sb_public lower (call_contract t0 t1 args)"
| "sb_public lower (allow_gas a0 a1 i2 i3)"
| "sb_public lower (allow_gas_text t0 t1 i2 i3)"
| "sb_public lower (spend_gas a0)"
| "sb_public lower (spend_gas_text t0)"
| "sb_public lower (transfer_tokens t0 a1 a2 i3)"
| "sb_public lower (transfer_tokens_text t0 t1 t2 i3)"
| "sb_public lower (mint_tokens t0 a1 a2 i3)"
| "sb_public lower (mint_tokens_text t0 t1 t2 i3)"
| "sb_public lower (transfer_tokens_to_text t0 a1 t2 i3)"
| "sb_public lower (transfer_balance t0 a1 a2)"
| "sb_public lower (transfer_balance_text t0 t1 t2)"
| "sb_public lower (transfer_nft t0 a1 a2 i3)"
| "sb_public lower (transfer_nft_text t0 t1 t2 i3)"
| "sb_public lower (transfer_nft_to_text t0 a1 t2 i3)"
| "sb_public lower (cross_transfer_token a0 t1 a2 a3 i4)"
| "sb_public lower (cross_transfer_token_text t0 t1 t2 t3 i4)"
| "sb_public lower (cross_transfer_token_to_text a0 t1 a2 t3 i4)"
| "sb_public lower (cross_transfer_nft a0 t1 a2 a3 i4)"
| "sb_public lower (cross_transfer_nft_text t0 t1 t2 t3 i4)"
| "sb_public lower (cross_transfer_nft_to_text a0 t1 a2 t3 i4)"
| "sb_public lower (stake a0 i1)"
| "sb_public lower (stake_text t0 i1)"
| "sb_public lower (unstake a0 i1)"
| "sb_public lower (unstake_text t0 i1)"
| "sb_public lower (call_nft t0 i1 t2 args)"

inductive sb_reachable :: "(pystr \<Rightarrow> pystr) \<Rightarrow> builder \<Rightarrow> bool" for lower where
  start: "sb_reachable lower sb_begin"
| step: "sb_reachable lower s \<Longrightarrow> sb_public lower f \<Longrightarrow> sb_reachable lower (snd (f s))"
| end_step: "sb_reachable lower s \<Longrightarrow> sb_reachable lower (snd (end_script lower s))"

inductive_cases sb_reachableE: "sb_reachable lower s"

section \<open>What every operation keeps\<close>

text \<open>Every recorded jump owns two bytes of the buffer, no two jumps share one, every label is a
  position of the buffer, and a retained error is a builder error.\<close>

definition sb_inv :: "builder \<Rightarrow> bool" where
  "sb_inv s \<longleftrightarrow>
     (\<forall>(o1, l) \<in> set (jump_locations s). o1 + 2 \<le> length (sb_buffer s)) \<and>
     sorted_wrt (\<lambda>(o1, _) (o2, _). o1 + 2 \<le> o2) (jump_locations s) \<and>
     (\<forall>(l, t) \<in> set (label_locations s). t \<le> length (sb_buffer s)) \<and>
     sb_error s \<in> {None, Some BuilderError}"

definition sb_ok :: "sbop \<Rightarrow> bool" where
  "sb_ok f \<longleftrightarrow> (\<forall>s. sb_inv s \<longrightarrow>
     sb_inv (snd (f s)) \<and> (\<exists>bs. sb_buffer (snd (f s)) = sb_buffer s @ bs) \<and>
     (sb_error s \<noteq> None \<longrightarrow> sb_error (snd (f s)) = sb_error s))"

named_theorems sb_rules \<open>operations that keep the builder's invariant\<close>

lemma sb_inv_begin: "sb_inv sb_begin"
  by (simp add: sb_inv_def sb_begin_def)

lemma sb_okD:
  assumes "sb_ok f" "sb_inv s"
  shows "sb_inv (snd (f s))" "\<exists>bs. sb_buffer (snd (f s)) = sb_buffer s @ bs"
    "sb_error s \<noteq> None \<Longrightarrow> sb_error (snd (f s)) = sb_error s"
  using assms by (simp_all add: sb_ok_def)

lemma sb_ok_skip [sb_rules]: "sb_ok sb_skip"
  by (simp add: sb_ok_def sb_skip_def)

lemma sb_ok_raise [sb_rules]: "sb_ok (sb_raise e)"
  by (simp add: sb_ok_def sb_raise_def)

lemma sb_ok_fail [sb_rules]: "sb_ok sb_fail"
  by (auto simp: sb_ok_def sb_fail_def sb_inv_def)

lemma sb_ok_then [sb_rules]: "sb_ok f \<Longrightarrow> sb_ok g \<Longrightarrow> sb_ok (sb_then f g)"
proof -
  assume f: "sb_ok f" and g: "sb_ok g"
  show ?thesis
    unfolding sb_ok_def
  proof (intro allI impI)
    fix s
    assume s: "sb_inv s"
    obtain r s' where fs: "f s = (r, s')" by (cases "f s") auto
    note F = sb_okD [OF f s, unfolded fs snd_conv]
    note G = sb_okD [OF g F(1)]
    show "sb_inv (snd (sb_then f g s)) \<and> (\<exists>bs. sb_buffer (snd (sb_then f g s)) = sb_buffer s @ bs) \<and>
      (sb_error s \<noteq> None \<longrightarrow> sb_error (snd (sb_then f g s)) = sb_error s)"
      using F G by (cases r) (auto simp: sb_then_def fs)
  qed
qed

lemma sb_ok_seq [sb_rules]: "(\<And>f. f \<in> set fs \<Longrightarrow> sb_ok f) \<Longrightarrow> sb_ok (sb_seq fs)"
  by (induction fs) (auto intro: sb_ok_skip sb_ok_then)

lemma sb_ok_bind [sb_rules]: "(\<And>x. m = Inr x \<Longrightarrow> sb_ok (f x)) \<Longrightarrow> sb_ok (sb_bind m f)"
  by (cases m) (auto simp: sb_ok_def sb_bind_def)

lemma sb_ok_try [sb_rules]: "sb_ok f \<Longrightarrow> sb_ok (sb_try f)"
proof -
  assume f: "sb_ok f"
  show ?thesis
    unfolding sb_ok_def
  proof (intro allI impI)
    fix s
    assume s: "sb_inv s"
    obtain r s' where fs: "f s = (r, s')" by (cases "f s") auto
    note F = sb_okD [OF f s, unfolded fs snd_conv]
    note G = sb_okD [OF sb_ok_fail F(1)]
    show "sb_inv (snd (sb_try f s)) \<and> (\<exists>bs. sb_buffer (snd (sb_try f s)) = sb_buffer s @ bs) \<and>
      (sb_error s \<noteq> None \<longrightarrow> sb_error (snd (sb_try f s)) = sb_error s)"
      using F G by (cases r) (auto simp: sb_try_def fs)
  qed
qed

lemma sb_ok_addr [sb_rules]: "(\<And>a. sb_ok (f a)) \<Longrightarrow> sb_ok (sb_addr t f)"
  unfolding sb_addr_def by (rule sb_ok_bind)

lemma sb_ok_write [sb_rules]: "sb_ok (sb_write m)"
  by (cases m) (fastforce simp: sb_ok_def sb_write_def sb_bind_def sb_inv_def)+

lemma sb_ok_byte [sb_rules]: "sb_ok (sb_byte v)"
  unfolding sb_byte_def by (rule sb_ok_write)

lemma sb_ok_var_uint [sb_rules]: "sb_ok (sb_var_uint v)"
  unfolding sb_var_uint_def by (auto intro!: sb_rules)

lemma sb_ok_label: "sb_ok (\<lambda>s. (Inr (), s\<lparr>label_locations := AList.update k (current_size s) (label_locations s)\<rparr>))"
proof -
  have u: "p \<in> set (AList.update k v xs) \<Longrightarrow> p = (k, v) \<or> p \<in> set xs" for p :: "pystr \<times> nat" and v xs
    by (induction xs) (auto split: if_splits)
  show ?thesis
    by (auto simp: sb_ok_def sb_inv_def current_size_def dest!: u)
qed

text \<open>A jump slot starts at the end of the buffer, so its key is new.\<close>

lemma update_new: "k \<notin> fst ` set xs \<Longrightarrow> AList.update k v xs = xs @ [(k, v)]"
  by (induction xs) auto

lemma sb_ok_jump_slot [sb_rules]: "sb_ok (sb_jump_slot label)"
  unfolding sb_ok_def
proof (intro allI impI)
  fix s
  assume s: "sb_inv s"
  have w: "serialize (write_u16_le 0) = Inr [0, 0]"
    by (simp add: write_u16_le_def pack_unsigned_if numeral_2_eq_2)
  have n: "current_size s \<notin> fst ` set (jump_locations s)"
    using s by (fastforce simp: sb_inv_def current_size_def)
  have e: "snd (sb_jump_slot label s) = s\<lparr>sb_buffer := sb_buffer s @ [0, 0],
      jump_locations := jump_locations s @ [(current_size s, label)]\<rparr>"
    using n by (simp add: sb_jump_slot_def Let_def sb_then_def sb_write_def sb_bind_def w update_new sb_skip_def)
  show "sb_inv (snd (sb_jump_slot label s)) \<and>
    (\<exists>bs. sb_buffer (snd (sb_jump_slot label s)) = sb_buffer s @ bs) \<and>
    (sb_error s \<noteq> None \<longrightarrow> sb_error (snd (sb_jump_slot label s)) = sb_error s)"
    using s unfolding e by (fastforce simp: sb_inv_def current_size_def sorted_wrt_append)
qed

lemma sb_ok_emit [sb_rules]:
  "sb_ok (emit_op c)" "sb_ok (emit_raw bs)" "sb_ok (emit_push reg)" "sb_ok (emit_pop reg)"
  "sb_ok (emit_throw reg)" "sb_ok (emit_load reg bs t)" "sb_ok (emit_move a b)" "sb_ok (emit_copy a b)"
  "sb_ok (emit_label lower label)" "sb_ok (emit_var_bytes v)"
  unfolding emit_op_def emit_raw_def emit_push_def emit_pop_def emit_throw_def emit_load_def
    emit_move_def emit_copy_def emit_label_def emit_var_bytes_def
  by (auto intro!: sb_rules sb_ok_label)

lemma sb_ok_loads [sb_rules]:
  "sb_ok (emit_load_string reg v)" "sb_ok (emit_load_bool reg b)" "sb_ok (emit_load_number reg i)"
  "sb_ok (emit_load_time reg t)"
  unfolding emit_load_string_def emit_load_bool_def emit_load_number_def emit_load_time_def
  by (auto intro!: sb_rules)

lemma sb_ok_jumps [sb_rules]:
  "sb_ok (emit_ext_call mthd reg)" "sb_ok (emit_jump opcode label reg)" "sb_ok (emit_call label n)"
  "sb_ok (emit_conditional_jump opcode reg label)"
  unfolding emit_ext_call_def emit_jump_def emit_call_def emit_conditional_jump_def
  by (auto intro!: sb_rules)

lemma sb_ok_load_into_register:
  "sb_ok (load_into_register reg a)" "sb_ok (load_items reg i as)"
  by (induction reg a and reg i as rule: load_into_register_load_items.induct) (auto intro!: sb_rules)

lemma sb_ok_calls [sb_rules]:
  "sb_ok (call_interop mthd args)" "sb_ok (call_contract contract mthd args)"
proof -
  have "sb_ok (insert_method_args args)"
    unfolding insert_method_args_def by (auto intro!: sb_rules sb_ok_load_into_register)
  then show "sb_ok (call_interop mthd args)" "sb_ok (call_contract contract mthd args)"
    unfolding call_interop_def call_contract_def by (auto intro!: sb_rules)
qed

lemma sb_ok_commands [sb_rules]:
  "sb_ok (allow_gas a0 a1 i2 i3)"
  "sb_ok (allow_gas_text t0 t1 i2 i3)"
  "sb_ok (spend_gas a0)"
  "sb_ok (spend_gas_text t0)"
  "sb_ok (transfer_tokens t0 a1 a2 i3)"
  "sb_ok (transfer_tokens_text t0 t1 t2 i3)"
  "sb_ok (mint_tokens t0 a1 a2 i3)"
  "sb_ok (mint_tokens_text t0 t1 t2 i3)"
  "sb_ok (transfer_tokens_to_text t0 a1 t2 i3)"
  "sb_ok (transfer_balance t0 a1 a2)"
  "sb_ok (transfer_balance_text t0 t1 t2)"
  "sb_ok (transfer_nft t0 a1 a2 i3)"
  "sb_ok (transfer_nft_text t0 t1 t2 i3)"
  "sb_ok (transfer_nft_to_text t0 a1 t2 i3)"
  "sb_ok (cross_transfer_token a0 t1 a2 a3 i4)"
  "sb_ok (cross_transfer_token_text t0 t1 t2 t3 i4)"
  "sb_ok (cross_transfer_token_to_text a0 t1 a2 t3 i4)"
  "sb_ok (cross_transfer_nft a0 t1 a2 a3 i4)"
  "sb_ok (cross_transfer_nft_text t0 t1 t2 t3 i4)"
  "sb_ok (cross_transfer_nft_to_text a0 t1 a2 t3 i4)"
  "sb_ok (stake a0 i1)"
  "sb_ok (stake_text t0 i1)"
  "sb_ok (unstake a0 i1)"
  "sb_ok (unstake_text t0 i1)"
  "sb_ok (call_nft t0 i1 t2 args)"
  unfolding allow_gas_def allow_gas_text_def spend_gas_def spend_gas_text_def transfer_tokens_def transfer_tokens_text_def mint_tokens_def mint_tokens_text_def transfer_tokens_to_text_def transfer_balance_def transfer_balance_text_def transfer_nft_def transfer_nft_text_def transfer_nft_to_text_def cross_transfer_token_def cross_transfer_token_text_def cross_transfer_token_to_text_def cross_transfer_nft_def cross_transfer_nft_text_def cross_transfer_nft_to_text_def stake_def stake_text_def unstake_def unstake_text_def call_nft_def
  by (auto intro!: sb_rules)

lemma sb_ok_public: "sb_public lower f \<Longrightarrow> sb_ok f"
  by (induction rule: sb_public.induct) (rule sb_rules)+

lemma end_script_state: "snd (end_script lower s) = snd (emit_op (op ''RET'') s)"
  by (simp add: end_script_def end_script_with_error_def split: prod.splits sum.splits option.splits)

lemma sb_reachable_inv: "sb_reachable lower s \<Longrightarrow> sb_inv s"
proof (induction rule: sb_reachable.induct)
  case start
  show ?case by (rule sb_inv_begin)
next
  case (step s f)
  show ?case by (rule sb_okD(1) [OF sb_ok_public [OF step.hyps(2)] step.IH])
next
  case (end_step s)
  show ?case unfolding end_script_state by (rule sb_okD(1) [OF sb_ok_emit(1) end_step.IH])
qed

section \<open>The patched script\<close>

text \<open>The two bytes of every jump hold the position of its label, every other byte is untouched.\<close>

definition patched :: "(pystr \<Rightarrow> pystr) \<Rightarrow> (pystr \<times> nat) list \<Rightarrow> (nat \<times> pystr) list \<Rightarrow> bytes \<Rightarrow> bytes \<Rightarrow> bool" where
  "patched lower labels jumps before after \<longleftrightarrow>
     length after = length before \<and>
     (\<forall>(o1, l) \<in> set jumps. \<exists>t. map_of labels (lower l) = Some t \<and> t < 65536 \<and>
        after ! o1 = word_of_nat (t mod 256) \<and> after ! (o1 + 1) = word_of_nat (t div 256)) \<and>
     (\<forall>i < length before. (\<forall>(o1, l) \<in> set jumps. i \<noteq> o1 \<and> i \<noteq> o1 + 1) \<longrightarrow> after ! i = before ! i)"

definition jumps_inside :: "(nat \<times> pystr) list \<Rightarrow> nat \<Rightarrow> bool" where
  "jumps_inside jumps n \<longleftrightarrow>
     (\<forall>(o1, l) \<in> set jumps. o1 + 2 \<le> n) \<and> sorted_wrt (\<lambda>(o1, _) (o2, _). o1 + 2 \<le> o2) jumps"

lemma target_bytes: "t < 65536 \<Longrightarrow> to_bytes_le (int t) 2 = Inr [word_of_nat (t mod 256), word_of_nat (t div 256)]"
proof -
  assume t: "t < 65536"
  let ?b = "[word_of_nat (t mod 256), word_of_nat (t div 256)] :: bytes"
  have u: "uint (word_of_nat n :: byte) = int n" if "n < 256" for n
    using word_of_nat_unat_byte [OF that] by (simp add: uint_nat)
  have "int (t mod 256) + 256 * int (t div 256) = int t"
    by (metis mod_mult_div_eq of_nat_add of_nat_mult of_nat_numeral)
  then have "le_int ?b = int t" using t by (simp add: u)
  moreover have "length ?b = 2" by simp
  moreover have "le_bytes (length ?b) (le_int ?b) = ?b" by (rule le_bytes_le_int)
  ultimately have "le_bytes 2 (int t) = ?b" by (simp only:)
  then show ?thesis using t by (simp add: to_bytes_le_def)
qed

lemma patch_jumps_spec:
  "jumps_inside jumps (length scr) \<Longrightarrow>
   (case patch_jumps lower labels jumps scr of
      Inr after \<Rightarrow> patched lower labels jumps scr after
    | Inl e \<Rightarrow> \<exists>(o1, l) \<in> set jumps. case map_of labels (lower l) of
        None \<Rightarrow> e = BuilderError | Some t \<Rightarrow> e = OverflowError \<and> 65536 \<le> t)"
proof (induction jumps arbitrary: scr)
  case Nil
  show ?case by (simp add: patched_def)
next
  case (Cons j jumps)
  obtain o1 l where j: "j = (o1, l)" by (cases j) auto
  have o1: "o1 + 2 \<le> length scr" and later: "\<forall>(o2, l2) \<in> set jumps. o1 + 2 \<le> o2"
    using Cons.prems by (auto simp: j jumps_inside_def)
  show ?case
  proof (cases "map_of labels (lower l)")
    case None
    then show ?thesis by (simp add: j)
  next
    case (Some t)
    show ?thesis
    proof (cases "t < 65536")
      case False
      then have "to_bytes_le (int t) 2 = Inl OverflowError" by (simp add: to_bytes_le_def)
      with Some o1 False show ?thesis by (simp add: j)
    next
      case True
      let ?b = "[word_of_nat (t mod 256), word_of_nat (t div 256)] :: bytes"
      let ?scr = "take o1 scr @ ?b @ drop (o1 + 2) scr"
      have len: "length ?scr = length scr" using o1 by simp
      have step: "patch_jumps lower labels (j # jumps) scr = patch_jumps lower labels jumps ?scr"
        using Some o1 target_bytes [OF True] by (simp add: j)
      have inside: "jumps_inside jumps (length ?scr)"
        using Cons.prems unfolding len by (auto simp: j jumps_inside_def)
      have at: "?scr ! o1 = word_of_nat (t mod 256)" "?scr ! (o1 + 1) = word_of_nat (t div 256)"
        using o1 by (simp_all add: nth_append)
      have other: "?scr ! i = scr ! i" if b: "i < length scr" and n: "i \<noteq> o1" "i \<noteq> o1 + 1" for i
      proof (cases "i < o1")
        case False
        then obtain k where "i = o1 + 2 + k" using n by (metis Suc_eq_plus1 add_2_eq_Suc' le_Suc_ex not_less_eq_eq nat_less_le not_le)
        then show ?thesis using b o1 by (simp add: nth_append)
      qed (use o1 in \<open>simp add: nth_append\<close>)
      show ?thesis
      proof (cases "patch_jumps lower labels jumps ?scr")
        case (Inl e)
        with Cons.IH [OF inside] step show ?thesis by (auto simp: j)
      next
        case (Inr after)
        with Cons.IH [OF inside] have p: "patched lower labels jumps ?scr after" by simp
        then have la: "length after = length scr" and keep: "\<And>i. i < length scr \<Longrightarrow>
            (\<forall>(o2, l2) \<in> set jumps. i \<noteq> o2 \<and> i \<noteq> o2 + 1) \<Longrightarrow> after ! i = ?scr ! i"
          unfolding patched_def len by blast+
        have "\<forall>(o2, l2) \<in> set jumps. o1 \<noteq> o2 \<and> o1 \<noteq> o2 + 1" "\<forall>(o2, l2) \<in> set jumps. o1 + 1 \<noteq> o2 \<and> o1 + 1 \<noteq> o2 + 1"
          using later by fastforce+
        with keep [of o1] keep [of "o1 + 1"] o1 at
        have "after ! o1 = word_of_nat (t mod 256)" "after ! (o1 + 1) = word_of_nat (t div 256)" by simp_all
        with Some True have head: "\<exists>t. map_of labels (lower l) = Some t \<and> t < 65536 \<and>
            after ! o1 = word_of_nat (t mod 256) \<and> after ! (o1 + 1) = word_of_nat (t div 256)" by blast
        have tail: "\<forall>(o2, l2) \<in> set jumps. \<exists>t. map_of labels (lower l2) = Some t \<and> t < 65536 \<and>
            after ! o2 = word_of_nat (t mod 256) \<and> after ! (o2 + 1) = word_of_nat (t div 256)"
          using p unfolding patched_def by blast
        have "after ! i = scr ! i" if "i < length scr" "\<forall>(o2, l2) \<in> set (j # jumps). i \<noteq> o2 \<and> i \<noteq> o2 + 1" for i
          using that keep [of i] other [of i] by (simp add: j)
        with head tail la show ?thesis unfolding step Inr by (simp add: patched_def j)
      qed
    qed
  qed
qed

lemma sb_inv_jumps: "sb_inv s \<Longrightarrow> jumps_inside (jump_locations s) (length (sb_buffer s))"
  by (simp add: sb_inv_def jumps_inside_def)

lemma to_script_spec:
  assumes "sb_inv s"
  shows "case to_script lower s of
      Inr after \<Rightarrow> patched lower (label_locations s) (jump_locations s) (sb_buffer s) after
    | Inl e \<Rightarrow> \<exists>(o1, l) \<in> set (jump_locations s). case map_of (label_locations s) (lower l) of
        None \<Rightarrow> e = BuilderError | Some t \<Rightarrow> e = OverflowError \<and> 65536 \<le> t"
  unfolding to_script_def by (rule patch_jumps_spec [OF sb_inv_jumps [OF assms]])

lemma emit_ret: "emit_op (op ''RET'') s = (Inr (), s\<lparr>sb_buffer := sb_buffer s @ [11]\<rparr>)"
  by (simp add: emit_op_def sb_byte_def sb_write_def sb_bind_def write_u8_def)

lemma end_script_eq:
  "fst (end_script lower s) =
     (case sb_error s of Some e \<Rightarrow> Inl e
      | None \<Rightarrow> to_script lower (s\<lparr>sb_buffer := sb_buffer s @ [11]\<rparr>))"
  unfolding end_script_def end_script_with_error_def emit_ret
  by (simp split: option.splits sum.splits)

section \<open>Operations that do not raise\<close>

definition sb_total :: "sbop \<Rightarrow> bool" where
  "sb_total f \<longleftrightarrow> (\<forall>s. fst (f s) = Inr ())"

named_theorems sb_total_rules \<open>operations that return normally\<close>

lemma sb_total_basic [sb_total_rules]: "sb_total sb_skip" "sb_total sb_fail"
  by (simp_all add: sb_total_def sb_skip_def sb_fail_def)

lemma sb_total_then [sb_total_rules]: "sb_total f \<Longrightarrow> sb_total g \<Longrightarrow> sb_total (sb_then f g)"
  by (auto simp: sb_total_def sb_then_def split: prod.splits sum.splits) (metis fst_conv sum.simps(4))

lemma sb_total_seq [sb_total_rules]: "(\<And>f. f \<in> set fs \<Longrightarrow> sb_total f) \<Longrightarrow> sb_total (sb_seq fs)"
  by (induction fs) (auto intro: sb_total_rules)

lemma sb_total_bind: "m = Inr x \<Longrightarrow> sb_total (f x) \<Longrightarrow> sb_total (sb_bind m f)"
  by (simp add: sb_total_def sb_bind_def)

lemma sb_total_write [sb_total_rules]: "sb_total (sb_write (Inr bs))"
  by (simp add: sb_total_def sb_write_def sb_bind_def)

lemma sb_total_byte [sb_total_rules]: "0 \<le> v \<Longrightarrow> v \<le> 255 \<Longrightarrow> sb_total (sb_byte v)"
  unfolding sb_byte_def write_u8_def by (auto intro: sb_total_write)

lemma sb_total_load:
  "0 \<le> reg \<Longrightarrow> reg \<le> 255 \<Longrightarrow> 0 \<le> t \<Longrightarrow> t \<le> 255 \<Longrightarrow> sb_total (emit_load reg raw t)"
  unfolding emit_load_def emit_op_def sb_var_uint_def
  by (auto intro!: sb_total_rules simp: write_u16_le_def pack_unsigned_if)

text \<open>Arguments whose strings Python can encode and whose addresses are well formed.\<close>

fun arg_ok :: "vm_arg \<Rightarrow> bool" where
  "arg_ok (ArgStr v) \<longleftrightarrow> (\<exists>bs. utf8_encode v = Inr bs)"
| "arg_ok (ArgAddress a) \<longleftrightarrow> address_ok a"
| "arg_ok (ArgList items) \<longleftrightarrow> list_all arg_ok items"
| "arg_ok _ \<longleftrightarrow> True"

lemma csharp_total: "\<exists>bs. big_int_to_csharp_bytes v = Inr bs"
  by (rule csharp_bytes_total)

lemma sb_total_string: "0 \<le> reg \<Longrightarrow> reg \<le> 255 \<Longrightarrow> utf8_encode v = Inr bs \<Longrightarrow> sb_total (emit_load_string reg v)"
  unfolding emit_load_string_def
  by (rule sb_total_bind, assumption) (rule sb_total_load, simp_all add: VM_STRING_def)

lemma sb_total_number: "0 \<le> reg \<Longrightarrow> reg \<le> 255 \<Longrightarrow> sb_total (emit_load_number reg v)"
proof -
  assume r: "0 \<le> reg" "reg \<le> 255"
  obtain bs where "big_int_to_csharp_bytes v = Inr bs" using csharp_total by blast
  then show ?thesis
    unfolding emit_load_number_def
    by (rule sb_total_bind) (rule sb_total_load, simp_all add: r VM_NUMBER_def)
qed

lemma prefixed_bytes_total: "address_ok a \<Longrightarrow> \<exists>bs. prefixed_bytes a = Inr bs"
  using rt_var_uint [THEN rt_appends, of 34]
  by (simp add: prefixed_bytes_def write_var_bytes_def address_ok_def serialize_wseq serialize_var_uint)

lemma sb_total_load_into_register:
  "0 \<le> reg \<Longrightarrow> reg \<le> 31 \<Longrightarrow> arg_ok a \<Longrightarrow> sb_total (load_into_register reg a)"
  "0 \<le> reg \<Longrightarrow> reg \<le> 29 \<Longrightarrow> list_all arg_ok as \<Longrightarrow> sb_total (load_items reg i as)"
proof (induction reg a and reg i as rule: load_into_register_load_items.induct)
  case (2 reg a)
  then obtain bs where "prefixed_bytes a = Inr bs" using prefixed_bytes_total by auto
  then have "sb_total (sb_bind (prefixed_bytes a) (\<lambda>raw. emit_load reg raw VM_BYTES))"
    by (rule sb_total_bind) (rule sb_total_load, use 2 in \<open>simp_all add: VM_BYTES_def\<close>)
  then show ?case by simp
next
  case (3 reg v)
  then show ?case using sb_total_string by auto
next
  case (4 reg v)
  then show ?case by (simp add: emit_load_bool_def sb_total_load VM_BOOL_def)
next
  case (5 reg raw)
  then show ?case by (simp add: sb_total_load VM_BYTES_def)
next
  case (6 reg v)
  then show ?case by (simp add: sb_total_number)
next
  case (7 reg t)
  have "sb_total (emit_load_time reg t)"
  proof (cases "t < 0 \<or> t > 0xFFFFFFFF")
    case False
    then have "to_bytes_le t 4 = Inr (le_bytes 4 t)" by (simp add: to_bytes_le_def)
    then have "sb_total (sb_bind (to_bytes_le t 4) (\<lambda>raw. emit_load reg raw VM_TIMESTAMP))"
      by (rule sb_total_bind) (rule sb_total_load, use 7 in \<open>simp_all add: VM_TIMESTAMP_def\<close>)
    with False show ?thesis by (simp add: emit_load_time_def)
  qed (simp add: emit_load_time_def sb_total_rules)
  then show ?case by simp
next
  case (8 reg items)
  then show ?case
    by (auto simp: MAX_REGISTER_COUNT_def VM_NONE_def emit_op_def intro!: sb_total_rules)
next
  case (11 reg index item items)
  then show ?case by (auto simp: emit_op_def intro!: sb_total_rules sb_total_number)
qed (auto intro: sb_total_rules)

lemma sb_total_call_interop:
  assumes "list_all arg_ok args" "utf8_encode mthd = Inr bs"
  shows "sb_total (call_interop mthd args)"
proof -
  have "sb_total (insert_method_args args)"
    unfolding insert_method_args_def
  proof (rule sb_total_seq)
    fix f
    assume "f \<in> set (concat (map (\<lambda>arg. [load_into_register 0 arg, emit_push 0]) (rev args)))"
    then obtain a where "a \<in> set args" "f = load_into_register 0 a \<or> f = emit_push 0" by auto
    moreover have "sb_total (emit_push 0)"
      unfolding emit_push_def emit_op_def by (auto intro!: sb_total_rules)
    ultimately show "sb_total f"
      using sb_total_load_into_register(1) [of 0 a] assms(1) by (auto simp: list_all_iff)
  qed
  then show ?thesis
    unfolding call_interop_def emit_op_def
    using sb_total_string [OF _ _ assms(2), of 0] by (auto intro!: sb_total_rules)
qed

section \<open>Properties\<close>

text \<open>C35: Every builder that any sequence of public operations leads to, exceptions and ended scripts
  included, keeps its jump slots inside the buffer and apart from each other, its labels inside the buffer,
  and no retained error but a builder error.\<close>

theorem builder_invariant:
  assumes "sb_reachable lower s"
  shows "sb_inv s"
  by (rule sb_reachable_inv [OF assms])

theorem builder_invariant_witness:
  "sb_inv (snd (emit_jump (op ''JMP'') (str ''end'') 0 (snd (emit_push 300 sb_begin))))"
  by (rule builder_invariant) (intro sb_reachable.intros sb_public.intros)

text \<open>A public operation, whether it returns or raises, only appends to the script and never replaces
  an error the builder has already retained.\<close>

theorem builder_append_only:
  assumes "sb_reachable lower s" "sb_public lower f"
  shows "(\<exists>bs. sb_buffer (snd (f s)) = sb_buffer s @ bs) \<and>
    (\<forall>e. sb_error s = Some e \<longrightarrow> sb_error (snd (f s)) = Some e)"
  using sb_okD(2,3) [OF sb_ok_public [OF assms(2)] sb_reachable_inv [OF assms(1)]] by auto

theorem builder_append_only_witness:
  "sb_error (snd (emit_load_time 0 (-1) (snd (emit_call (str ''f'') 0 sb_begin)))) = Some BuilderError"
proof -
  have r: "sb_reachable id (snd (emit_call (str ''f'') 0 sb_begin))"
    by (intro sb_reachable.intros sb_public.intros)
  have p: "sb_public id (emit_load_time 0 (-1))" by (rule sb_public.intros)
  have "sb_error (snd (emit_call (str ''f'') 0 sb_begin)) = Some BuilderError"
    by (simp add: emit_call_def sb_fail_def sb_begin_def)
  with builder_append_only [OF r p] show ?thesis by blast
qed

text \<open>C4: Ending a script yields the buffer and a final RET with exactly the jump slots patched, each to the
  little-endian position of its label inside the script; it fails only with the retained error, for a label
  that was never emitted, or for a label beyond 65535.\<close>

theorem end_script_patches_jumps:
  assumes "sb_reachable lower s"
  shows "case fst (end_script lower s) of
      Inr after \<Rightarrow> sb_error s = None \<and>
        patched lower (label_locations s) (jump_locations s) (sb_buffer s @ [11]) after \<and>
        (\<forall>(l, t) \<in> set (label_locations s). t < length after)
    | Inl e \<Rightarrow> sb_error s = Some e \<or>
        (\<exists>(o1, l) \<in> set (jump_locations s). case map_of (label_locations s) (lower l) of
           None \<Rightarrow> e = BuilderError | Some t \<Rightarrow> e = OverflowError \<and> 65536 \<le> t)"
proof (cases "sb_error s")
  case (Some e)
  then show ?thesis by (simp add: end_script_eq)
next
  case None
  let ?s = "s\<lparr>sb_buffer := sb_buffer s @ [11]\<rparr>"
  have i: "sb_inv s" by (rule sb_reachable_inv [OF assms])
  then have "sb_inv ?s" by (fastforce simp: sb_inv_def)
  note spec0 = to_script_spec [OF this, of lower]
  have e: "label_locations ?s = label_locations s" "jump_locations ?s = jump_locations s"
    "sb_buffer ?s = sb_buffer s @ [11]" by simp_all
  note spec = spec0 [unfolded e]
  show ?thesis
  proof (cases "to_script lower ?s")
    case (Inl e)
    with spec None show ?thesis by (simp add: end_script_eq)
  next
    case (Inr after)
    with spec have p: "patched lower (label_locations s) (jump_locations s) (sb_buffer s @ [11]) after" by simp
    then have "length after = Suc (length (sb_buffer s))" by (simp add: patched_def)
    then have "\<forall>(l, t) \<in> set (label_locations s). t < length after" using i by (fastforce simp: sb_inv_def)
    with p Inr None show ?thesis by (simp add: end_script_eq)
  qed
qed

theorem end_script_patches_jumps_witness:
  "fst (end_script id (snd (emit_label id (str ''x'') (snd (emit_jump 8 (str ''x'') 0 sb_begin))))) =
     Inr [8, 4, 0, 0, 11]"
proof -
  let ?s = "snd (emit_label id (str ''x'') (snd (emit_jump 8 (str ''x'') 0 sb_begin)))"
  have r: "sb_reachable id ?s" by (intro sb_reachable.intros sb_public.intros)
  have w: "serialize (write_u16_le 0) = Inr [0, 0]"
    by (simp add: write_u16_le_def pack_unsigned_if numeral_2_eq_2)
  have s: "?s = \<lparr>sb_buffer = [8, 0, 0, 0], jump_locations = [(1, str ''x'')], label_locations = [(str ''x'', 4)], sb_error = None\<rparr>"
    by (simp add: emit_label_def emit_jump_def emit_op_def sb_byte_def sb_write_def sb_bind_def sb_then_def
        sb_skip_def sb_jump_slot_def Let_def current_size_def sb_begin_def serialize_write_u8 w)
  let ?r = "\<lparr>sb_buffer = [8, 0, 0, 0], jump_locations = [(1, str ''x'')], label_locations = [(str ''x'', 4)], sb_error = None\<rparr>"
  note e = end_script_patches_jumps [OF r, unfolded s]
  have "fst (end_script id ?r) = Inr [8, 4, 0, 0, 11]"
  proof (cases "fst (end_script id ?r)")
    case (Inr after)
    with e have p: "patched id [(str ''x'', 4)] [(1, str ''x'')] [8, 0, 0, 0, 11] after" by simp
    then have "length after = 5" "after ! 1 = 4" "after ! 2 = 0" "after ! 0 = 8" "after ! 3 = 0" "after ! 4 = 11"
      by (auto simp: patched_def numeral_2_eq_2)
    then have "after = [8, 4, 0, 0, 11]" by (auto simp: list_eq_iff_nth_eq less_Suc_eq numeral_eq_Suc)
    with Inr show ?thesis by simp
  qed (use e in simp)
  then show ?thesis unfolding s .
qed

text \<open>A call whose strings can be encoded and whose addresses are well formed never raises, whatever is
  nested in its arguments: what it cannot load is recorded as the builder's error.\<close>

theorem call_interop_returns:
  assumes "list_all arg_ok args" "utf8_encode mthd = Inr bs"
  shows "fst (call_interop mthd args s) = Inr ()"
  using sb_total_call_interop [OF assms] by (simp add: sb_total_def)

theorem call_interop_returns_witness:
  "fst (call_interop (str ''f'') [ArgList [ArgInt 5, ArgNone], ArgOther] sb_begin) = Inr ()"
  by (rule call_interop_returns [where bs = "[102]"]) (simp_all add: utf8_char_def byte_of_def)

end
