(* ===== verification/CarbonNames.thy ===== *)
theory CarbonNames
  imports TokenBuilder
begin

text \<open>
  The enumerations and constants of \<^verbatim>\<open>carbon.py\<close> that name the modules, contract methods and flags of the chain,
  with what Python's \<^verbatim>\<open>IntEnum\<close> makes of a class body: a member per value, later names of a value being aliases.
  The theorems tie the numbers used by the builders and message types of the other theories to these names.
\<close>

unbundle bit_operations_syntax

section \<open>Enumerations\<close>

text \<open>The assignments of a class body, in their order.\<close>

type_synonym enum_class = "(string \<times> int) list"

text \<open>\<^verbatim>\<open>E.NAME\<close>, \<^verbatim>\<open>E(value)\<close> of an \<^verbatim>\<open>IntEnum\<close>, and the names \<^verbatim>\<open>list(E)\<close> gives.\<close>

definition enum_value :: "enum_class \<Rightarrow> string \<Rightarrow> int result" where
  "enum_value E name = (case map_of E name of None \<Rightarrow> Inl AttributeError | Some v \<Rightarrow> Inr v)"

definition enum_call :: "enum_class \<Rightarrow> int \<Rightarrow> string result" where
  "enum_call E v = (case map_of (map (\<lambda>(n, c). (c, n)) E) v of None \<Rightarrow> Inl ValueError | Some n \<Rightarrow> Inr n)"

definition enum_members :: "enum_class \<Rightarrow> string list" where
  "enum_members E = map fst (filter (\<lambda>(n, v). enum_call E v = Inr n) E)"

text \<open>Every value of a class body has a member, its first name; a member has the value it is called with.\<close>

lemma enum_call_value:
  assumes "distinct (map fst E)" "enum_call E v = Inr n"
  shows "enum_value E n = Inr v"
proof -
  have "(v, n) \<in> set (map (\<lambda>(n, c). (c, n)) E)"
    using assms(2) by (auto simp: enum_call_def split: option.splits dest: map_of_SomeD)
  then have "(n, v) \<in> set E" by auto
  then show ?thesis using assms(1) by (simp add: enum_value_def)
qed

lemma enum_value_call:
  assumes "distinct (map snd E)" "enum_value E n = Inr v"
  shows "enum_call E v = Inr n"
proof -
  have "(n, v) \<in> set E" using assms(2) by (auto simp: enum_value_def split: option.splits dest: map_of_SomeD)
  then have "(v, n) \<in> set (map (\<lambda>(n, c). (c, n)) E)" by force
  moreover have "map fst (map (\<lambda>(n, c). (c, n)) E) = map snd E" by (induction E) auto
  ultimately have "map_of (map (\<lambda>(n, c). (c, n)) E) v = Some n"
    using assms(1) by (metis map_of_is_SomeI)
  then show ?thesis by (simp add: enum_call_def)
qed

section \<open>Modules and contract methods\<close>

definition ModuleID :: enum_class where
  "ModuleID = [(''GOVERNANCE'', 0), (''TOKEN'', 1), (''PHANTASMA'', 2), (''PHANTASMA_VM'', 2), (''ORG'', 3),
     (''MARKET'', 4), (''INTERNAL'', 0xFFFFFFFF)]"

definition TokenContractMethod :: enum_class where
  "TokenContractMethod = [(''TRANSFER_FUNGIBLE'', 0), (''TRANSFER_NON_FUNGIBLE'', 1), (''CREATE_TOKEN'', 2),
     (''MINT_FUNGIBLE'', 3), (''BURN_FUNGIBLE'', 4), (''GET_BALANCE'', 5), (''CREATE_TOKEN_SERIES'', 6),
     (''DELETE_TOKEN_SERIES'', 7), (''MINT_NON_FUNGIBLE'', 8), (''BURN_NON_FUNGIBLE'', 9), (''GET_INSTANCES'', 10),
     (''GET_NON_FUNGIBLE_INFO'', 11), (''GET_NON_FUNGIBLE_INFO_BY_ROM_ID'', 12), (''GET_SERIES_INFO'', 13),
     (''GET_SERIES_INFO_BY_META_ID'', 14), (''GET_TOKEN_INFO'', 15), (''GET_TOKEN_INFO_BY_SYMBOL'', 16),
     (''GET_TOKEN_SUPPLY'', 17), (''GET_SERIES_SUPPLY'', 18), (''GET_TOKEN_ID_BY_SYMBOL'', 19),
     (''GET_BALANCES'', 20), (''CREATE_MINTED_TOKEN_SERIES'', 21), (''APPLY_INFLATION'', 22),
     (''UPDATE_TOKEN_METADATA'', 23), (''GET_NEXT_TOKEN_INFLATION'', 24), (''SET_TOKENS_CONFIG'', 25),
     (''UPDATE_SERIES_METADATA'', 26), (''MINT_PHANTASMA_NON_FUNGIBLE'', 27)]"

definition MarketContractMethod :: enum_class where
  "MarketContractMethod = [(''SELL_TOKEN'', 0), (''SELL_TOKEN_BY_ID'', 1), (''CANCEL_SALE'', 2),
     (''CANCEL_SALE_BY_ID'', 3), (''BUY_TOKEN'', 4), (''BUY_TOKEN_BY_ID'', 5), (''GET_TOKEN_LISTING_COUNT'', 6),
     (''GET_TOKEN_LISTING_INFO'', 7), (''GET_TOKEN_LISTING_INFO_BY_ID'', 8)]"

definition ListingType_members :: enum_class where
  "ListingType_members = [(''FIXED_PRICE'', 0)]"

section \<open>Flags\<close>

definition TokenFlags :: enum_class where
  "TokenFlags = [(''NONE'', 0), (''BIG_FUNGIBLE'', push_bit 0 1), (''NON_FUNGIBLE'', push_bit 1 1)]"

definition TokensConfigFlags :: enum_class where
  "TokensConfigFlags = [(''NONE'', 0), (''REQUIRE_METADATA'', push_bit 0 1), (''REQUIRE_SYMBOL'', push_bit 1 1),
     (''REQUIRE_NFT_META_ID'', push_bit 2 1), (''REQUIRE_NFT_STANDARD'', push_bit 3 1),
     (''ALLOW_EXPLICIT_NFT_META_ID_MINT'', push_bit 4 1)]"

definition MarketConfigFlags :: enum_class where
  "MarketConfigFlags = [(''NONE'', 0), (''PRICE_REQUIRED'', push_bit 0 1), (''ENFORCE_ROYALTIES'', push_bit 1 1),
     (''CAN_CANCEL_EARLY'', push_bit 2 1), (''CAN_PURCHASE_LATE'', push_bit 3 1)]"

definition VMStructFlags :: enum_class where
  "VMStructFlags = [(''NONE'', 0), (''DYNAMIC_EXTRAS'', push_bit 0 1), (''IS_SORTED'', push_bit 1 1)]"

text \<open>The union of the flags with the given names, and the names set in a value.\<close>

definition flags_of :: "enum_class \<Rightarrow> string list \<Rightarrow> int" where
  "flags_of E names = foldr (\<lambda>n acc. (case map_of E n of None \<Rightarrow> 0 | Some v \<Rightarrow> v) OR acc) names 0"

definition flags_in :: "enum_class \<Rightarrow> int \<Rightarrow> string list" where
  "flags_in E v = map fst (filter (\<lambda>(n, c). c \<noteq> 0 \<and> v AND c = c) E)"

section \<open>Market constants\<close>

definition MARKET_MINIMUM_LISTING_TIME_MS :: int where
  "MARKET_MINIMUM_LISTING_TIME_MS = 1000"

definition MARKET_MAXIMUM_LISTING_TIME_MS :: int where
  "MARKET_MAXIMUM_LISTING_TIME_MS = 1000 * 60 * 60 * 24 * 90"

definition MARKET_DELISTING_GRACE_MS :: int where
  "MARKET_DELISTING_GRACE_MS = 1000 * 60 * 60 * 24"

definition MARKET_ROYALTY_ONE_PERCENT :: int where
  "MARKET_ROYALTY_ONE_PERCENT = 10000000"

definition MARKET_ROYALTY_HUNDRED_PERCENT :: int where
  "MARKET_ROYALTY_HUNDRED_PERCENT = 100 * MARKET_ROYALTY_ONE_PERCENT"

section \<open>The names against the numbers\<close>

lemma enum_names_distinct:
  "list_all (\<lambda>E. distinct (map fst E)) [ModuleID, TokenContractMethod, MarketContractMethod, ListingType_members,
     TokenFlags, TokensConfigFlags, MarketConfigFlags, VMStructFlags]"
  by code_simp

lemma enum_values_distinct:
  "list_all (\<lambda>E. distinct (map snd E)) [TokenContractMethod, MarketContractMethod, ListingType_members,
     TokenFlags, TokensConfigFlags, MarketConfigFlags, VMStructFlags]"
  by code_simp

text \<open>\<^verbatim>\<open>PHANTASMA_VM\<close> is a second name of the module \<^verbatim>\<open>PHANTASMA\<close>; the methods are numbered without gaps.\<close>

lemma module_alias:
  "enum_members ModuleID = [''GOVERNANCE'', ''TOKEN'', ''PHANTASMA'', ''ORG'', ''MARKET'', ''INTERNAL'']"
  "rthen (enum_value ModuleID ''PHANTASMA_VM'') (enum_call ModuleID) = Inr ''PHANTASMA''"
  by code_simp+

lemma methods_numbered:
  "map snd TokenContractMethod = map int [0..<28]" "map snd MarketContractMethod = map int [0..<9]"
  by code_simp+

text \<open>The numbers in the builders and message types are those of the names.\<close>

lemma builder_names:
  "enum_value ModuleID ''TOKEN'' = Inr ModuleID_TOKEN"
  "enum_value TokenContractMethod ''CREATE_TOKEN'' = Inr CREATE_TOKEN"
  "enum_value TokenContractMethod ''CREATE_TOKEN_SERIES'' = Inr CREATE_TOKEN_SERIES"
  "enum_value TokenContractMethod ''MINT_PHANTASMA_NON_FUNGIBLE'' = Inr MINT_PHANTASMA_NON_FUNGIBLE"
  "enum_value TokenFlags ''BIG_FUNGIBLE'' = Inr TokenFlags_BIG_FUNGIBLE"
  "enum_value TokenFlags ''NON_FUNGIBLE'' = Inr TokenFlags_NON_FUNGIBLE"
  "enum_value VMStructFlags ''DYNAMIC_EXTRAS'' = Inr DYNAMIC_EXTRAS"
  by code_simp+

lemma listing_type_member: "ListingType v = rthen (enum_call ListingType_members v) (enum_value ListingType_members)"
  by (simp add: ListingType_def enum_call_def enum_value_def ListingType_members_def)

text \<open>Module and method numbers are 32-bit, flags 8-bit values, so the fields that carry them are always written.\<close>

lemma call_numbers_written:
  assumes "v \<in> set (map snd (ModuleID @ TokenContractMethod @ MarketContractMethod))"
  shows "serialize (write4u v) = Inr (le_bytes 4 v)"
proof -
  have "list_all (\<lambda>v. 0 \<le> v \<and> v < 2 ^ 32) (map snd (ModuleID @ TokenContractMethod @ MarketContractMethod))" by code_simp
  with assms have "0 \<le> v" "v < 2 ^ 32" unfolding list_all_iff by blast+
  then show ?thesis by (simp add: write4u_def pack_unsigned_if)
qed

text \<open>The names set in a union of flags are the names it was made of.\<close>

lemma flags_named:
  "list_all (\<lambda>E. list_all (\<lambda>names. flags_in E (flags_of E names) = names \<and> flags_of E names \<in> {0..<256})
       (subseqs (tl (map fst E)))) [TokenFlags, TokensConfigFlags, MarketConfigFlags, VMStructFlags]"
  by code_simp

lemma default_market_config_named:
  "default_market_config = \<lparr>mc_minimum_listing_time = MARKET_MINIMUM_LISTING_TIME_MS,
     mc_maximum_listing_time = MARKET_MAXIMUM_LISTING_TIME_MS, mc_delisting_grace = MARKET_DELISTING_GRACE_MS,
     mc_flags = flags_of MarketConfigFlags [''PRICE_REQUIRED'', ''ENFORCE_ROYALTIES'']\<rparr>"
  by code_simp

text \<open>A token configuration with any flags is read back with the flags it was written with.\<close>

lemma tokens_config_flags:
  assumes "names \<in> set (subseqs (tl (map fst TokensConfigFlags)))"
    "serialize (write_TokensConfig \<lparr>tc_flags = flags_of TokensConfigFlags names\<rparr>) = Inr bs"
  shows "\<exists>x. deserialize read_TokensConfig bs = Inr x \<and> flags_in TokensConfigFlags (tc_flags x) = names"
proof -
  have "flags_in TokensConfigFlags (flags_of TokensConfigFlags names) = names"
    using flags_named assms(1) unfolding list_all_iff by auto
  moreover have "deserialize read_TokensConfig bs = Inr \<lparr>tc_flags = flags_of TokensConfigFlags names\<rparr>"
    by (rule tokens_config.roundtrip [OF _ assms(2)]) (simp add: TokensConfig_ok_def)
  ultimately show ?thesis by simp
qed

end
