(* ===== verification/CarbonById.thy ===== *)
theory CarbonById
  imports CarbonDyn
begin

text \<open>
  The contract arguments of \<^verbatim>\<open>carbon.py\<close> that carry dynamic values: the metadata update of a token, and the
  market calls that name a token by its symbol and an instance by a dynamic variable. Each is a codec in the
  sense of \<open>carbon_codec\<close>.
\<close>

lemmas dyn_wire [wire_rt] = rt_dyn(1) rt_dyn(4)
lemmas dyn_safe [wire_safe] = safe_dyn(1) safe_dyn(4)
lemmas dyn_raises [wire_raises] = raises_dyn(1) raises_dyn(4)
lemmas dyn_writers_append [simp] = dyn_appends(1) dyn_appends(5)

record UpdateTokenMetadataArgs =
  um_token_id :: int
  um_metadata :: dyn_struct

definition UpdateTokenMetadataArgs_ok :: "nat \<Rightarrow> UpdateTokenMetadataArgs \<Rightarrow> bool" where
  "UpdateTokenMetadataArgs_ok depth x \<longleftrightarrow> struct_ok depth (um_metadata x)"

definition write_UpdateTokenMetadataArgs :: "(vm_data \<Rightarrow> pystr) \<Rightarrow> UpdateTokenMetadataArgs \<Rightarrow> wop" where
  "write_UpdateTokenMetadataArgs py_text x = wseq [
     write8u (um_token_id x),
     write_dyn_struct py_text (um_metadata x)]"

definition read_UpdateTokenMetadataArgs :: "nat \<Rightarrow> UpdateTokenMetadataArgs rop" where
  "read_UpdateTokenMetadataArgs depth =
     rbind read8u (\<lambda>token_id.
     rbind (read_dyn_struct depth) (\<lambda>metadata.
     rret \<lparr>um_token_id = token_id, um_metadata = metadata\<rparr>))"

interpretation update_token_metadata_args: carbon_codec "write_UpdateTokenMetadataArgs py_text" "read_UpdateTokenMetadataArgs depth" "UpdateTokenMetadataArgs_ok depth" for py_text depth
  by unfold_locales (auto simp: write_UpdateTokenMetadataArgs_def read_UpdateTokenMetadataArgs_def UpdateTokenMetadataArgs_ok_def intro!: wire_rt wire_safe wire_raises)

record MarketSellTokenByIDArgs =
  msi_from_address :: bytes
  msi_symbol :: small_string
  msi_instance_id :: dyn_var
  msi_quote_symbol :: small_string
  msi_price :: int
  msi_end_date :: int

definition MarketSellTokenByIDArgs_ok :: "nat \<Rightarrow> MarketSellTokenByIDArgs \<Rightarrow> bool" where
  "MarketSellTokenByIDArgs_ok depth x \<longleftrightarrow> length (msi_from_address x) = 32 \<and> var_ok depth (msi_instance_id x) \<and> int256 (msi_price x)"

definition write_MarketSellTokenByIDArgs :: "(vm_data \<Rightarrow> pystr) \<Rightarrow> MarketSellTokenByIDArgs \<Rightarrow> wop" where
  "write_MarketSellTokenByIDArgs py_text x = wseq [
     write32 (msi_from_address x),
     write_small_string (msi_symbol x),
     write_dyn_var py_text (msi_instance_id x),
     write_small_string (msi_quote_symbol x),
     write_int_x (msi_price x),
     write8 (msi_end_date x)]"

definition read_MarketSellTokenByIDArgs :: "nat \<Rightarrow> MarketSellTokenByIDArgs rop" where
  "read_MarketSellTokenByIDArgs depth =
     rbind read32 (\<lambda>from_address.
     rbind read_small_string (\<lambda>symbol.
     rbind (read_dyn_var depth) (\<lambda>instance_id.
     rbind read_small_string (\<lambda>quote_symbol.
     rbind read_int_x (\<lambda>price.
     rbind read8 (\<lambda>end_date.
     rret \<lparr>msi_from_address = from_address, msi_symbol = symbol, msi_instance_id = instance_id, msi_quote_symbol = quote_symbol, msi_price = price, msi_end_date = end_date\<rparr>))))))"

interpretation market_sell_token_by_id_args: carbon_codec "write_MarketSellTokenByIDArgs py_text" "read_MarketSellTokenByIDArgs depth" "MarketSellTokenByIDArgs_ok depth" for py_text depth
  by unfold_locales (auto simp: write_MarketSellTokenByIDArgs_def read_MarketSellTokenByIDArgs_def MarketSellTokenByIDArgs_ok_def intro!: wire_rt wire_safe wire_raises)

record MarketCancelSaleByIDArgs =
  mci_symbol :: small_string
  mci_instance_id :: dyn_var

definition MarketCancelSaleByIDArgs_ok :: "nat \<Rightarrow> MarketCancelSaleByIDArgs \<Rightarrow> bool" where
  "MarketCancelSaleByIDArgs_ok depth x \<longleftrightarrow> var_ok depth (mci_instance_id x)"

definition write_MarketCancelSaleByIDArgs :: "(vm_data \<Rightarrow> pystr) \<Rightarrow> MarketCancelSaleByIDArgs \<Rightarrow> wop" where
  "write_MarketCancelSaleByIDArgs py_text x = wseq [
     write_small_string (mci_symbol x),
     write_dyn_var py_text (mci_instance_id x)]"

definition read_MarketCancelSaleByIDArgs :: "nat \<Rightarrow> MarketCancelSaleByIDArgs rop" where
  "read_MarketCancelSaleByIDArgs depth =
     rbind read_small_string (\<lambda>symbol.
     rbind (read_dyn_var depth) (\<lambda>instance_id.
     rret \<lparr>mci_symbol = symbol, mci_instance_id = instance_id\<rparr>))"

interpretation market_cancel_sale_by_id_args: carbon_codec "write_MarketCancelSaleByIDArgs py_text" "read_MarketCancelSaleByIDArgs depth" "MarketCancelSaleByIDArgs_ok depth" for py_text depth
  by unfold_locales (auto simp: write_MarketCancelSaleByIDArgs_def read_MarketCancelSaleByIDArgs_def MarketCancelSaleByIDArgs_ok_def intro!: wire_rt wire_safe wire_raises)

record MarketBuyTokenByIDArgs =
  mbi_from_address :: bytes
  mbi_symbol :: small_string
  mbi_instance_id :: dyn_var

definition MarketBuyTokenByIDArgs_ok :: "nat \<Rightarrow> MarketBuyTokenByIDArgs \<Rightarrow> bool" where
  "MarketBuyTokenByIDArgs_ok depth x \<longleftrightarrow> length (mbi_from_address x) = 32 \<and> var_ok depth (mbi_instance_id x)"

definition write_MarketBuyTokenByIDArgs :: "(vm_data \<Rightarrow> pystr) \<Rightarrow> MarketBuyTokenByIDArgs \<Rightarrow> wop" where
  "write_MarketBuyTokenByIDArgs py_text x = wseq [
     write32 (mbi_from_address x),
     write_small_string (mbi_symbol x),
     write_dyn_var py_text (mbi_instance_id x)]"

definition read_MarketBuyTokenByIDArgs :: "nat \<Rightarrow> MarketBuyTokenByIDArgs rop" where
  "read_MarketBuyTokenByIDArgs depth =
     rbind read32 (\<lambda>from_address.
     rbind read_small_string (\<lambda>symbol.
     rbind (read_dyn_var depth) (\<lambda>instance_id.
     rret \<lparr>mbi_from_address = from_address, mbi_symbol = symbol, mbi_instance_id = instance_id\<rparr>)))"

interpretation market_buy_token_by_id_args: carbon_codec "write_MarketBuyTokenByIDArgs py_text" "read_MarketBuyTokenByIDArgs depth" "MarketBuyTokenByIDArgs_ok depth" for py_text depth
  by unfold_locales (auto simp: write_MarketBuyTokenByIDArgs_def read_MarketBuyTokenByIDArgs_def MarketBuyTokenByIDArgs_ok_def intro!: wire_rt wire_safe wire_raises)

record MarketGetTokenListingInfoByIDArgs =
  mgi_symbol :: small_string
  mgi_instance_id :: dyn_var

definition MarketGetTokenListingInfoByIDArgs_ok :: "nat \<Rightarrow> MarketGetTokenListingInfoByIDArgs \<Rightarrow> bool" where
  "MarketGetTokenListingInfoByIDArgs_ok depth x \<longleftrightarrow> var_ok depth (mgi_instance_id x)"

definition write_MarketGetTokenListingInfoByIDArgs :: "(vm_data \<Rightarrow> pystr) \<Rightarrow> MarketGetTokenListingInfoByIDArgs \<Rightarrow> wop" where
  "write_MarketGetTokenListingInfoByIDArgs py_text x = wseq [
     write_small_string (mgi_symbol x),
     write_dyn_var py_text (mgi_instance_id x)]"

definition read_MarketGetTokenListingInfoByIDArgs :: "nat \<Rightarrow> MarketGetTokenListingInfoByIDArgs rop" where
  "read_MarketGetTokenListingInfoByIDArgs depth =
     rbind read_small_string (\<lambda>symbol.
     rbind (read_dyn_var depth) (\<lambda>instance_id.
     rret \<lparr>mgi_symbol = symbol, mgi_instance_id = instance_id\<rparr>))"

interpretation market_get_token_listing_info_by_id_args: carbon_codec "write_MarketGetTokenListingInfoByIDArgs py_text" "read_MarketGetTokenListingInfoByIDArgs depth" "MarketGetTokenListingInfoByIDArgs_ok depth" for py_text depth
  by unfold_locales (auto simp: write_MarketGetTokenListingInfoByIDArgs_def read_MarketGetTokenListingInfoByIDArgs_def MarketGetTokenListingInfoByIDArgs_ok_def intro!: wire_rt wire_safe wire_raises)

end
