(* ===== verification/CarbonHelpers.thy ===== *)
theory CarbonHelpers
  imports CarbonNames CarbonById
begin

text \<open>
  The small parts of \<^verbatim>\<open>carbon.py\<close> under the codecs: the buffer of \<^verbatim>\<open>CarbonWriter\<close> and the bounds-checked
  window of \<^verbatim>\<open>CarbonReader\<close>, the range checks, the text forms of values, the fixed-width classes and the system
  addresses, and the helpers for lists of variables. The theorems tie them to the operations the codecs use.
\<close>

section \<open>The buffer and the window\<close>

definition CarbonWriter_init :: writer where
  "CarbonWriter_init = \<lparr>buffer = []\<rparr>"

definition CarbonWriter_write :: "bytes \<Rightarrow> wop" where
  "CarbonWriter_write data w = Inr (w\<lparr>buffer := buffer w @ data\<rparr>)"

definition CarbonWriter_bytes :: "writer \<Rightarrow> bytes" where
  "CarbonWriter_bytes w = buffer w"

definition CarbonReader_init :: "bytes \<Rightarrow> reader" where
  "CarbonReader_init data = \<lparr>rdata = data, roffset = 0\<rparr>"

definition CarbonReader_remaining :: "reader \<Rightarrow> int" where
  "CarbonReader_remaining r = int (length (rdata r)) - int (roffset r)"

definition CarbonReader_assert_eof :: "reader \<Rightarrow> unit result" where
  "CarbonReader_assert_eof r = (if CarbonReader_remaining r \<noteq> 0 then Inl SerializationError else Inr ())"

definition CarbonReader_read :: "int \<Rightarrow> bytes rop" where
  "CarbonReader_read number r =
     (if number < 0 \<or> number > CarbonReader_remaining r then Inl SerializationError
      else let start = roffset r; r' = r\<lparr>roffset := start + nat number\<rparr>
           in Inr (drop start (take (start + nat number) (rdata r')), r'))"

definition carbon_check_unsigned :: "int \<Rightarrow> nat \<Rightarrow> int result" where
  "carbon_check_unsigned value bits =
     (if value < 0 \<or> value \<ge> push_bit bits 1 then Inl SerializationError else Inr value)"

definition carbon_check_signed :: "int \<Rightarrow> nat \<Rightarrow> int result" where
  "carbon_check_signed value bits =
     (let minimum = - push_bit (bits - 1) 1; maximum = push_bit (bits - 1) 1 - 1
      in if value < minimum \<or> value > maximum then Inl SerializationError else Inr value)"

text \<open>They are the operations the codecs are made of, and \<^verbatim>\<open>serialize\<close> and \<^verbatim>\<open>deserialize\<close> run on them.\<close>

lemma carbon_writer: "CarbonWriter_write = w_write" "CarbonWriter_init = new_writer"
  by (simp_all add: fun_eq_iff CarbonWriter_write_def w_write_def CarbonWriter_init_def new_writer_def)

lemma carbon_reader:
  "CarbonReader_init = new_reader" "CarbonReader_remaining = remaining" "CarbonReader_read = read"
  "assert_eof r = rthen (CarbonReader_assert_eof r) (\<lambda>_. Inr ((), r))"
  by (simp_all add: fun_eq_iff CarbonReader_init_def new_reader_def CarbonReader_remaining_def remaining_def
      CarbonReader_read_def read_def Let_def drop_take assert_eof_def CarbonReader_assert_eof_def)

lemma serialize_on_writer:
  "serialize f = rthen (f CarbonWriter_init) (\<lambda>w. Inr (CarbonWriter_bytes w))"
  "deserialize p bs = rthen (p (CarbonReader_init bs)) (\<lambda>(x, r). rthen (CarbonReader_assert_eof r) (\<lambda>_. Inr x))"
  by (simp_all add: serialize_def carbon_writer CarbonWriter_bytes_def deserialize_def carbon_reader rthen_assoc
      case_prod_unfold)

lemma carbon_checks:
  "carbon_check_unsigned value bits = check_unsigned value bits"
  "carbon_check_signed value bits = check_signed value bits"
  by (auto simp: carbon_check_unsigned_def check_unsigned_def carbon_check_signed_def check_signed_def push_bit_eq_mult)

lemma checked_writes:
  "write2 value = w_bind (carbon_check_signed value 16) (\<lambda>v. CarbonWriter_write (le_bytes 2 v))"
  "write4 value = w_bind (carbon_check_signed value 32) (\<lambda>v. CarbonWriter_write (le_bytes 4 v))"
  "write8 value = w_bind (carbon_check_signed value 64) (\<lambda>v. CarbonWriter_write (le_bytes 8 v))"
  "write4u value = w_bind (carbon_check_unsigned value 32) (\<lambda>v. CarbonWriter_write (le_bytes 4 v))"
  "write8u value = w_bind (carbon_check_unsigned value 64) (\<lambda>v. CarbonWriter_write (le_bytes 8 v))"
  by (simp_all add: fun_eq_iff write2_def write4_def write8_def write4u_def write8u_def w_result_def w_bind_def
      pack_signed_def pack_unsigned_def rthen_assoc carbon_checks carbon_writer)

text \<open>The window never leaves the data: what is read is a piece of it, and the offset stays inside.\<close>

definition reader_ok :: "reader \<Rightarrow> bool" where
  "reader_ok r \<longleftrightarrow> roffset r \<le> length (rdata r)"

lemma carbon_read_window:
  assumes "reader_ok r"
  shows "CarbonReader_read number r = Inr (bs, r') \<longleftrightarrow>
    0 \<le> number \<and> length bs = nat number \<and> rdata r' = rdata r \<and> roffset r' = roffset r + nat number \<and> reader_ok r' \<and>
    rdata r = take (roffset r) (rdata r) @ bs @ drop (roffset r') (rdata r)"
proof
  assume h: "CarbonReader_read number r = Inr (bs, r')"
  then have c: "0 \<le> number" "nat number + roffset r \<le> length (rdata r)"
    and e: "bs = take (nat number) (drop (roffset r) (rdata r))" "r' = r\<lparr>roffset := roffset r + nat number\<rparr>"
    by (auto simp: carbon_reader read_def remaining_def split: if_splits)
  moreover have "rdata r = take (roffset r) (rdata r) @ bs @ drop (roffset r + nat number) (rdata r)"
    unfolding e(1) by (metis add.commute append_take_drop_id drop_drop)
  ultimately show "0 \<le> number \<and> length bs = nat number \<and> rdata r' = rdata r \<and> roffset r' = roffset r + nat number \<and>
      reader_ok r' \<and> rdata r = take (roffset r) (rdata r) @ bs @ drop (roffset r') (rdata r)"
    by (simp add: reader_ok_def)
next
  assume h: "0 \<le> number \<and> length bs = nat number \<and> rdata r' = rdata r \<and> roffset r' = roffset r + nat number \<and>
      reader_ok r' \<and> rdata r = take (roffset r) (rdata r) @ bs @ drop (roffset r') (rdata r)"
  then have "take (nat number) (drop (roffset r) (rdata r)) = bs"
    using assms by (metis append_eq_conv_conj length_take min.absorb2 reader_ok_def)
  moreover have "r' = r\<lparr>roffset := roffset r + nat number\<rparr>" using h by (cases r; cases r') auto
  ultimately show "CarbonReader_read number r = Inr (bs, r')"
    using h by (auto simp: carbon_reader read_def remaining_def reader_ok_def)
qed

section \<open>Fixed-width values and system addresses\<close>

definition Bytes16 :: "bytes \<Rightarrow> bytes result" where
  "Bytes16 value = FixedBytes 16 value"

definition Bytes32 :: "bytes \<Rightarrow> bytes result" where
  "Bytes32 value = FixedBytes 32 value"

definition Bytes64 :: "bytes \<Rightarrow> bytes result" where
  "Bytes64 value = FixedBytes 64 value"

definition EMPTY_BYTES16 :: "bytes result" where
  "EMPTY_BYTES16 = Bytes16 []"

definition EMPTY_BYTES64 :: "bytes result" where
  "EMPTY_BYTES64 = Bytes64 []"

definition SYSTEM_ADDRESS_NULL :: "bytes result" where
  "SYSTEM_ADDRESS_NULL = Bytes32 []"

definition SYSTEM_ADDRESS_GAS_POOL :: "bytes result" where
  "SYSTEM_ADDRESS_GAS_POOL = Bytes32 (replicate 31 0 @ [1])"

definition SYSTEM_ADDRESS_DATA_POOL :: "bytes result" where
  "SYSTEM_ADDRESS_DATA_POOL = Bytes32 (replicate 31 0 @ [2])"

text \<open>\<^verbatim>\<open>str(x)\<close> of a fixed-width value, a small string and an \<^verbatim>\<open>IntX\<close>.\<close>

definition FixedBytes_str :: "bytes \<Rightarrow> pystr" where
  "FixedBytes_str x = bytes_hex x"

definition SmallString_str :: "small_string \<Rightarrow> pystr" where
  "SmallString_str x = x"

definition IntX_str :: "int \<Rightarrow> pystr result" where
  "IntX_str x = py_str x"

text \<open>The text of a fixed-width value and of an \<^verbatim>\<open>IntX\<close> are read back to it; the empty values are zeros.\<close>

lemma fixed_text_read:
  assumes "FixedBytes n value = Inr x"
  shows "FixedBytes_text n (FixedBytes_str x) = Inr x"
proof -
  have "length x = n" by (rule FixedBytes_Inr [OF assms])
  then have "FixedBytes n x = Inr x" by (auto simp: FixedBytes_def Let_def)
  then show ?thesis
    using decode_encode_hex [of x] by (simp add: FixedBytes_text_def FixedBytes_str_def encode_hex_def)
qed

lemma int_x_text_read: "IntX_str x = Inr s \<Longrightarrow> py_int_text s = Inr x"
  unfolding IntX_str_def by (rule py_int_text_str)

lemma empty_fixed:
  "EMPTY_BYTES16 = Inr (replicate 16 0)" "Bytes32 [] = Inr EMPTY_BYTES32" "EMPTY_BYTES64 = Inr (replicate 64 0)"
  by (simp_all add: EMPTY_BYTES16_def Bytes16_def EMPTY_BYTES32_def Bytes32_def EMPTY_BYTES64_def Bytes64_def FixedBytes_def)

text \<open>The null address of the SDK and the null system account are the same account; the pools are other ones.\<close>

lemma system_addresses:
  "bytes32_from_phantasma_address null_address = SYSTEM_ADDRESS_NULL"
  "distinct [SYSTEM_ADDRESS_NULL, SYSTEM_ADDRESS_GAS_POOL, SYSTEM_ADDRESS_DATA_POOL]"
  by code_simp+

section \<open>Lists of schema fields and of variables\<close>

definition clone_schema_fields :: "named_schema list \<Rightarrow> named_schema list" where
  "clone_schema_fields flds = map (\<lambda>f. VMNamedVariableSchema (ns_name f) (ns_schema f)) flds"

definition write_named_dynamic_variables :: "(vm_data \<Rightarrow> pystr) \<Rightarrow> named_var list \<Rightarrow> wop" where
  "write_named_dynamic_variables py_text values =
     wseq (write4 (int (length values)) # map (\<lambda>value. write_named_dyn py_text value) values)"

definition read_named_dynamic_variables :: "nat \<Rightarrow> named_var list rop" where
  "read_named_dynamic_variables depth = rbind read_length (\<lambda>n. read_n (nat n) (read_named_dyn depth))"

definition write_dynamic_variables :: "(vm_data \<Rightarrow> pystr) \<Rightarrow> vm_data list \<Rightarrow> wop" where
  "write_dynamic_variables py_text values =
     wseq (write4 (int (length values)) # map (\<lambda>value. write_dyn_item py_text value) values)"

definition read_dynamic_variables :: "nat \<Rightarrow> dyn_var list rop" where
  "read_dynamic_variables depth = rbind read_length (\<lambda>n. read_n (nat n) (read_dyn_var depth))"

definition write_and_true :: "('a \<Rightarrow> wop) \<Rightarrow> 'a \<Rightarrow> bool \<times> wop" where
  "write_and_true wr value = (True, wr value)"

lemma cloned_fields: "clone_schema_fields flds = flds"
proof -
  have "VMNamedVariableSchema (ns_name f) (ns_schema f) = f" for f by (cases f) simp
  then show ?thesis by (simp add: clone_schema_fields_def)
qed

lemma standard_schemas_cloned:
  "prepare_standard_token_schemas shared =
     (let series_fields = clone_schema_fields standard_series_fields;
          metadata_fields = clone_schema_fields standard_metadata_fields;
          rom_fields = clone_schema_fields standard_nft_fields
      in \<lparr>ts_series_metadata = VMStructSchema (if shared then series_fields @ metadata_fields else series_fields) 0,
          ts_rom = VMStructSchema (if shared then rom_fields else rom_fields @ metadata_fields) 0,
          ts_ram = VMStructSchema [] DYNAMIC_EXTRAS\<rparr>)"
  by (simp add: prepare_standard_token_schemas_def cloned_fields)

lemma struct_on_variables:
  "write_dyn_struct py_text s = write_named_dynamic_variables py_text (ds_fields (struct_sort s))"
  "write_with_schema py_text None s = write_and_true (write_dyn_struct py_text) s"
  "read_dyn_struct (Suc depth) = rbind (read_named_dynamic_variables depth) (\<lambda>flds.
     rret (struct_sort (VMDynamicStruct flds)))"
  by (simp_all add: write_dyn_struct.simps write_with_schema.simps write_named_dynamic_variables_def write_carbon_array_def
      write_and_true_def read_dyn_struct.simps read_named_dynamic_variables_def read_carbon_array_def)

lemma array_on_variables:
  "write_dynamic_variables py_text values = write_carbon_array (write_dyn_item py_text) values"
  "read_dynamic_variables depth = read_carbon_array (read_dyn_var depth)"
  by (simp_all add: write_dynamic_variables_def write_carbon_array_def read_dynamic_variables_def read_carbon_array_def)

text \<open>A list of named variables is read back from what was written for it.\<close>

lemma named_variables_read_back:
  assumes "list_all (\<lambda>n. rt (write_named_dyn py_text n) (read_named_dyn depth) n) values"
  shows "rt (write_named_dynamic_variables py_text values) (read_named_dynamic_variables depth) values"
  unfolding write_named_dynamic_variables_def read_named_dynamic_variables_def
    write_carbon_array_def [symmetric] read_carbon_array_def [symmetric]
  by (rule rt_carbon_array) (use assms in \<open>auto simp: list_all_iff\<close>)

end
