(* ===== verification/Examples.thy ===== *)
theory Examples
  imports ClientLife ScriptBuilder CarbonHelpers
begin

text \<open>
  The programs of \<^verbatim>\<open>examples\<close>, each a use of several components from end to end: a VM script transaction built and
  signed, the payload of a Carbon token, and the balances of an account read page by page. A program is the
  function from what it takes from outside (random bytes, clock, environment, session) to the lines it prints.
\<close>

section \<open>Building a VM script transaction\<close>

definition vm_example_script :: "(pystr \<Rightarrow> pystr) \<Rightarrow> bytes result" where
  "vm_example_script lower = (case call_interop (str ''Runtime.Time'') [] sb_begin of
     (Inl e, _) \<Rightarrow> Inl e
   | (Inr _, b) \<Rightarrow> fst (end_script lower b))"

definition build_vm_transaction ::
  "crypto_lib \<Rightarrow> 's random_source \<Rightarrow> (pystr \<Rightarrow> pystr) \<Rightarrow> pystr \<Rightarrow> int \<Rightarrow> 's \<Rightarrow> pystr list result \<times> 's" where
  "build_vm_transaction K urandom lower version now s = (case generate urandom s of (made, s') \<Rightarrow>
     (rthen made (\<lambda>k.
      rthen (vm_example_script lower) (\<lambda>code.
      rthen (SDK_PAYLOAD version) (\<lambda>tag.
      rthen (tx_sign K \<lparr>nexus_name = str ''mainnet'', chain_name = str ''main'', script = code, expiration = now + 300,
         payload = tag, signatures = []\<rparr> k) (\<lambda>(_, t).
      rthen (keys_address K k) (\<lambda>a.
      rthen (tx_hash K t) (\<lambda>h.
      rthen (to_bytes t True) (\<lambda>raw.
      Inr [str ''address: '' @ addr_text a, str ''transaction hash: '' @ hash_str h,
           str ''raw transaction: '' @ bytes_hex raw]))))))), s'))"

lemma vm_example_script: "vm_example_script lower = Inr ([13, 0, 4, 12] @ map of_nat (str ''Runtime.Time'') @ [7, 0, 11])"
proof -
  have u: "utf8_encode (str ''Runtime.Time'') = Inr (map of_nat (str ''Runtime.Time''))" by code_simp
  have n: "length (str ''Runtime.Time'') = 12" by simp
  show ?thesis
    by (simp add: vm_example_script_def call_interop_def insert_method_args_def emit_load_string_def emit_load_def u n
        sb_bind_def sb_then_def sb_skip_def emit_op_def sb_byte_def sb_write_def sb_var_uint_def serialize_write_u8
        sb_begin_def VM_STRING_def end_script_def end_script_with_error_def to_script_def del: str_Cons)
qed

section \<open>A Carbon token payload\<close>

definition build_carbon_token_payload :: "(vm_data \<Rightarrow> pystr) \<Rightarrow> (pystr \<Rightarrow> bool) \<Rightarrow> pystr result" where
  "build_carbon_token_payload py_text base64_accepts =
     rthen (Bytes32 []) (\<lambda>owner.
     let schemas = prepare_standard_token_schemas False in
     rthen (build_token_metadata py_text base64_accepts [
         (str ''name'', str ''Example Art Token''),
         (str ''icon'', str ''data:image/png;base64,AA==''),
         (str ''url'', str ''https://example.invalid/art''),
         (str ''description'', str ''Example token metadata'')]) (\<lambda>metadata.
     rthen (serialize (write_TokenSchemas schemas)) (\<lambda>token_schemas.
     rthen (build_token_info (str ''ART'') 0 True 0 owner (Some metadata) token_schemas) (\<lambda>token.
     rthen (serialize (write_TokenInfo token)) (\<lambda>raw.
     Inr (bytes_hex raw))))))"

lemma wseq_bounded:
  "list_all appends fs \<Longrightarrow> list_all (\<lambda>f. \<exists>bs. serialize f = Inr bs \<and> length bs \<le> n) fs \<Longrightarrow>
   \<exists>bs. serialize (wseq fs) = Inr bs \<and> length bs \<le> length fs * n"
  by (induction fs) (auto simp: serialize_wseq)

lemma text_var_size:
  "is_ascii (fst f) \<Longrightarrow> length (fst f) \<le> 255 \<Longrightarrow> is_ascii (snd f) \<Longrightarrow> 0 \<notin> set (snd f) \<Longrightarrow>
   \<exists>bs. serialize (write_named_dyn py_text (text_var f)) = Inr bs \<and> length bs = 3 + length (fst f) + length (snd f)"
  by (simp add: text_var_def write_named_dyn.simps write_dyn_var.simps write_static_cases write_scalar_typed
      serialize_wseq serialize_ints serialize_small_string utf8_encode_ascii static_value_def write_string_z_def dyn_appends)

lemma art_metadata_size:
  assumes "build_token_metadata py_text base64_accepts art_metadata = Inr bs"
  shows "length bs \<le> 404"
proof -
  let ?ns = "ds_fields (struct_sort (text_struct art_metadata))"
  have "list_all (\<lambda>f. is_ascii (fst f) \<and> length (fst f) \<le> 20 \<and> is_ascii (snd f) \<and> 0 \<notin> set (snd f) \<and> length (snd f) \<le> 77) art_metadata"
    by code_simp
  then have "\<exists>cs. serialize (write_named_dyn py_text (text_var f)) = Inr cs \<and> length cs \<le> 100" if "f \<in> set art_metadata" for f
    using that text_var_size [of f py_text] by (fastforce simp: list_all_iff)
  then have each: "list_all (\<lambda>w. \<exists>cs. serialize w = Inr cs \<and> length cs \<le> 100) (map (write_named_dyn py_text) ?ns)"
    by (auto simp: list_all_iff struct_sort_def text_struct_def)
  have four: "length ?ns = 4" by (simp add: struct_sort_def text_struct_def art_metadata_def)
  have "list_all appends (map (write_named_dyn py_text) ?ns)" by (simp add: list_all_iff dyn_appends)
  with wseq_bounded [OF this each] four metadata_written [OF assms] show ?thesis
    by (auto simp: write_dyn_struct.simps write_carbon_array_def serialize_wseq serialize_ints list_all_iff dyn_appends)
qed

text \<open>
  What the program prints is the text of bytes that are read back as the description of a non-fungible token
  \<^verbatim>\<open>ART\<close> of unlimited supply without an owner, with the four texts as metadata and the standard schemas.
\<close>

theorem token_payload_example:
  assumes "base64_accepts (str ''AA=='')" "4 \<le> d" "2000 \<le> depth"
  shows "\<exists>raw info metadata. build_carbon_token_payload py_text base64_accepts = Inr (bytes_hex raw) \<and>
    deserialize read_TokenInfo raw = Inr info \<and> ti_symbol info = str ''ART'' \<and> ti_flags info = TokenFlags_NON_FUNGIBLE \<and>
    ti_max_supply info = 0 \<and> ti_decimals info = 0 \<and> ti_owner info = EMPTY_BYTES32 \<and>
    deserialize (read_dyn_struct d) (ti_metadata info) = Inr metadata \<and>
    (\<forall>name. struct_get metadata name = map_option (\<lambda>v. VMDynamicVariable vm_type.VM_STRING (DStr v)) (map_of art_metadata name)) \<and>
    deserialize (read_TokenSchemas depth) (ti_token_schemas info) = Inr (prepare_standard_token_schemas False)"
proof -
  let ?schemas = "prepare_standard_token_schemas False"
  have "case serialize (write_TokenSchemas ?schemas) of Inl e \<Rightarrow> False | Inr ts \<Rightarrow> ts \<noteq> [] \<and> length ts < 2000"
    by code_simp
  then obtain ts where ts: "serialize (write_TokenSchemas ?schemas) = Inr ts" "ts \<noteq> []" "length ts < 2000"
    by (auto split: sum.splits)
  have ok: "struct_schema_ok (ts_series_metadata ?schemas)" "struct_schema_ok (ts_rom ?schemas)" "struct_schema_ok (ts_ram ?schemas)"
    by code_simp+
  obtain md where md: "build_token_metadata py_text base64_accepts art_metadata = Inr md"
    using art_metadata_built [of base64_accepts py_text] assms(1) by blast
  let ?info = "\<lparr>ti_max_supply = 0, ti_flags = TokenFlags_NON_FUNGIBLE, ti_decimals = 0, ti_owner = EMPTY_BYTES32,
     ti_symbol = str ''ART'', ti_metadata = md, ti_token_schemas = ts\<rparr>"
  have "check_token_symbol (str ''ART'') = Inr ()" "SmallString (str ''ART'') = Inr (str ''ART'')" by code_simp+
  then have built: "build_token_info (str ''ART'') 0 True 0 EMPTY_BYTES32 (Some md) ts = Inr ?info"
    using ts(2) by (simp add: build_token_info_def is_8_byte_safe_def del: str_Cons)
  have "utf8_encode (str ''ART'') = Inr [65, 82, 84]" by code_simp
  then have "\<exists>raw. serialize (write_TokenInfo ?info) = Inr raw"
    using art_metadata_size [OF md] ts(3)
    by (simp add: write_TokenInfo_def serialize_wseq serialize_ints serialize_fixed serialize_small_string write_int_x_def
        is_8_byte_safe_def write_byte_array_def EMPTY_BYTES32_def TokenFlags_NON_FUNGIBLE_def del: str_Cons)
  then obtain raw where raw: "serialize (write_TokenInfo ?info) = Inr raw" by blast
  have "TokenInfo_ok ?info" by (simp add: TokenInfo_ok_def int256_def EMPTY_BYTES32_def TokenFlags_NON_FUNGIBLE_def)
  then have read: "deserialize read_TokenInfo raw = Inr ?info" using raw by (rule token_info.roundtrip)
  have printed: "build_carbon_token_payload py_text base64_accepts = Inr (bytes_hex raw)"
    using md by (simp add: build_carbon_token_payload_def art_metadata_def [symmetric] empty_fixed(2)
        ts(1) built raw del: str_Cons)
  have "distinct (map fst art_metadata)" by code_simp
  note metadata = text_struct_read [OF metadata_written [OF md] assms(2)] text_struct_get [OF this]
  have "deserialize (read_TokenSchemas depth) ts = Inr ?schemas"
    by (rule token_schemas_roundtrip [OF ok ts(1)]) (use ts(3) assms(3) in simp)
  with read printed metadata show ?thesis by (intro exI conjI allI) (assumption | simp)+
qed

section \<open>Reading an account\<close>







section \<open>What the loop over the pages does\<close>




















section \<open>Properties\<close>













text \<open>C9: The example that builds and signs a VM transaction prints the address of the generated key, the hash of the
  transaction, and the text of bytes the receiver decodes to that transaction: with the script that calls the
  interop method, valid for 300 seconds, tagged with the SDK version, with one signature that verifies under the key
  of the printed address.
\<close>

theorem vm_transaction_example:
  assumes "crypto_lib_ok K" "urandom_ok urandom" "0 \<le> now + 300" "now + 300 < 2 ^ 32"
    and "SDK_PAYLOAD version = Inr tag" "int (length tag) \<le> MAX_ARRAY_SIZE"
  shows "\<exists>k a h raw t. fst (build_vm_transaction K urandom lower version now s) =
      Inr [str ''address: '' @ addr_text a, str ''transaction hash: '' @ hash_hex h, str ''raw transaction: '' @ bytes_hex raw] \<and>
    private_key k = fst (urandom 32 s) \<and> keys_address K k = Inr a \<and>
    from_bytes raw = Inr t \<and> tx_hash K t = Inr h \<and> is_signed_by K t k = Inr True \<and> length (signatures t) = 1 \<and>
    script t = [13, 0, 4, 12] @ map of_nat (str ''Runtime.Time'') @ [7, 0, 11] \<and>
    expiration t = now + 300 \<and> payload t = tag \<and> nexus_name t = str ''mainnet'' \<and> chain_name t = str ''main''"
proof -
  obtain k s' where k: "generate urandom s = (Inr k, s')" "keys_ok k" "private_key k = fst (urandom 32 s)"
    by (rule generated_keys [OF assms(1,2)])
  let ?code = "[13, 0, 4, 12] @ map of_nat (str ''Runtime.Time'') @ [7, 0, 11] :: bytes"
  let ?t = "\<lparr>nexus_name = str ''mainnet'', chain_name = str ''main'', script = ?code, expiration = now + 300,
    payload = tag, signatures = []\<rparr>"
  have ok: "tx_ok ?t" using assms(6) by (simp add: tx_ok_def MAX_ARRAY_SIZE_def utf8_char_def)
  have "int (length tag) < 2 ^ 64" using assms(6) by (simp add: MAX_ARRAY_SIZE_def)
  then have "\<exists>m. to_bytes ?t False = Inr m"
    using assms(3,4) by (simp add: to_bytes_def write_tx_def write_tx_body_def serialize_wseq write_string_def utf8_char_def
        serialize_w_bind write_var_bytes_def serialize_var_uint write_u32_le_def pack_unsigned_if)
  with ok obtain t m where t: "t = ?t" "tx_ok t" and m: "to_bytes t False = Inr m" by blast
  have none: "signatures t = []" by (simp add: t(1))
  obtain sg where sg: "keys_sign K k m = Inr sg" "length (sig_data sg) = 64"
    using keys_sign_ok(1,3) [OF assms(1) k(2), of m] by auto
  let ?t' = "t\<lparr>signatures := [sg]\<rparr>"
  have signed: "tx_sign K t k = Inr (sg, ?t')" by (simp add: tx_sign_def m sg none)
  obtain raw where raw: "to_bytes ?t' True = Inr raw" using signed_written [OF m none sg(2)] by blast
  have "tx_ok ?t'" using t(2) sg(2) by (simp add: tx_ok_def)
  then have read: "from_bytes raw = Inr ?t'" using vm_tx.roundtrip raw unfolding from_bytes_def to_bytes_def by blast
  obtain a where a: "keys_address K k = Inr a" using keys_address_user(1) [OF assms(1) k(2)] by blast
  have "to_bytes ?t' False = Inr m" using m by (simp add: to_bytes_def write_tx_def write_tx_body_def)
  then obtain h where h: "tx_hash K ?t' = Inr h"
    using assms(1) by (auto simp: tx_hash_def hash_sha256_def Hash_def crypto_lib_ok_def)
  have "fst (build_vm_transaction K urandom lower version now s) =
      Inr [str ''address: '' @ addr_text a, str ''transaction hash: '' @ hash_hex h, str ''raw transaction: '' @ bytes_hex raw]"
    unfolding build_vm_transaction_def k(1) prod.case vm_example_script assms(5) rthen_simps t(1) [symmetric]
    by (simp add: signed raw a h hash_str_def del: str_Cons)
  moreover have "is_signed_by K ?t' k = Inr True" by (rule tx_sign_signed [OF assms(1) k(2) signed])
  moreover have "script ?t' = ?code \<and> expiration ?t' = now + 300 \<and> payload ?t' = tag \<and>
      nexus_name ?t' = str ''mainnet'' \<and> chain_name ?t' = str ''main'' \<and> length (signatures ?t') = 1"
    by (simp only: t(1) tx.select_convs tx.update_convs) simp
  ultimately show ?thesis using k(3) a read h by blast
qed

theorem vm_transaction_example_witness:
  "\<exists>k a h raw t. fst (build_vm_transaction example_lib (\<lambda>n (s :: unit). (replicate n 1, s)) ascii_lower (str ''1.0'') 1700000000 ()) =
      Inr [str ''address: '' @ addr_text a, str ''transaction hash: '' @ hash_hex h, str ''raw transaction: '' @ bytes_hex raw] \<and>
    from_bytes raw = Inr t \<and> is_signed_by example_lib t k = Inr True \<and> payload t = map of_nat (str ''PY-SDK-v1.0'')"
proof -
  have tag: "SDK_PAYLOAD (str ''1.0'') = Inr (map of_nat (str ''PY-SDK-v1.0''))" by code_simp
  have u: "urandom_ok (\<lambda>n (s :: unit). (replicate n 1, s))" by (simp add: urandom_ok_def)
  have "int (length (map of_nat (str ''PY-SDK-v1.0'') :: bytes)) \<le> MAX_ARRAY_SIZE" by (simp add: MAX_ARRAY_SIZE_def)
  from vm_transaction_example [OF example_lib_ok u _ _ tag this, of 1700000000 ascii_lower "()"] show ?thesis
    by (simp del: str_Cons) blast
qed

end
