(* ===== verification/Spec2Isabelle.thy ===== *)
theory Spec2Isabelle
  imports VmObject ArgumentUnion Package Examples
begin

text \<open>
  A verification library for the Phantasma Python SDK (\<^verbatim>\<open>src/src/phantasma_py\<close>).

  The SDK has two transaction formats. VM script transactions are built by \<^verbatim>\<open>vm.ScriptBuilder\<close>,
  wrapped in \<^verbatim>\<open>transaction.Transaction\<close>, and use the byte formats of \<^verbatim>\<open>binary.py\<close>.
  Carbon transactions are dataclasses of \<^verbatim>\<open>carbon.py\<close>, each with \<^verbatim>\<open>write_carbon\<close> and
  \<^verbatim>\<open>read_carbon\<close>. Both are signed with the key pairs of \<^verbatim>\<open>crypto.py\<close>, whose addresses
  are Base58 text (\<^verbatim>\<open>encoding.py\<close>).

  Theories, in the order of their imports:

  \<^item> Prelude, PyInt, PyStr: exceptions as \<open>py_error\<close>, results as sums, Python bytes as lists of
    8-bit words, Python integers as \<open>int\<close> with \<open>int.to_bytes\<close>, \<open>int.from_bytes\<close> and
    \<open>bit_length\<close>, Python strings as lists of code points with the UTF-8 codec, \<open>strip\<close>,
    \<open>bytes.fromhex\<close> and \<open>str(int)\<close>.
  \<^item> Encoding: Base58 and hexadecimal text (\<^verbatim>\<open>encoding.py\<close>).
  \<^item> ByteIO: what \<^verbatim>\<open>BinaryWriter\<close> and \<^verbatim>\<open>CarbonWriter\<close>, \<^verbatim>\<open>BinaryReader\<close> and
    \<^verbatim>\<open>CarbonReader\<close> share. A write call is a function on the buffer that may raise, a read call
    returns a value and the moved reader or raises. The locale \<open>codec\<close> is the contract of a
    write/read pair; it gives the round trip, the rejection of trailing bytes and of truncated bytes, and
    prefix freedom. \<open>element_codec\<close> adds what a counted array needs of its elements.
  \<^item> VmBinary: every operation of \<^verbatim>\<open>binary.py\<close>.
  \<^item> CarbonWire: \<^verbatim>\<open>CarbonWriter\<close>, \<^verbatim>\<open>CarbonReader\<close>, \<^verbatim>\<open>FixedBytes\<close>,
    \<^verbatim>\<open>SmallString\<close>, \<^verbatim>\<open>IntX\<close> and the arrays. The locale \<open>carbon_codec\<close> adds the
    exceptions a reader can raise; it is interpreted for every Carbon type below.
  \<^item> CarbonMsg, CarbonSchema, CarbonTx: the records of \<^verbatim>\<open>carbon.py\<close>, named as in the source, each
    with its \<open>write_\<close> and \<open>read_\<close> operation and the predicate \<open>_ok\<close> of the values that come
    back. Field names carry a two-letter prefix. Schemas and the messages made of them are nested, so their
    readers take the recursion allowance of the interpreter and raise \<open>RecursionError\<close> at its end;
    an allowance of the number of bytes is shown to be enough. \<^verbatim>\<open>TxPayload\<close> is a datatype,
    and the dispatch on \<^verbatim>\<open>TxType\<close> is a function on it.
  \<^item> Fees: the fee options and \<^verbatim>\<open>estimate_native_fee\<close> with both gas models.
  \<^item> Crypto: \<^verbatim>\<open>Address\<close>, \<^verbatim>\<open>Hash\<close>, \<^verbatim>\<open>Ed25519Signature\<close>,
    \<^verbatim>\<open>PhantasmaKeys\<close>. SHA-256 and Ed25519 are not under \<^verbatim>\<open>src/\<close>: they are the record
    \<open>crypto_lib\<close>, an argument of the operations, and \<open>crypto_lib_ok\<close> states their documented
    behaviour (sizes, and that a signature verifies under the key that made it); \<open>example_lib\<close>
    satisfies it.
  \<^item> CarbonSign: \<^verbatim>\<open>sign_tx_msg\<close> and the account bytes of a key or address.
  \<^item> Transaction: \<^verbatim>\<open>Transaction\<close> with signing and proof of work. The mining loop ends because
    the nonce has 32 bits.
  \<^item> ScriptBuilder: the state of the builder (buffer, jumps, labels, first error), every public operation
    on it, also what it leaves behind when it raises, and the patching of jumps. \<open>sb_reachable\<close> are
    the builders any sequence of operations leads to. \<^verbatim>\<open>str.lower\<close> is a parameter.
  \<^item> VmObject: \<^verbatim>\<open>VMObject\<close> with its wire form, conversions and casts; \<^verbatim>\<open>int(text)\<close> is a
    parameter, and the reader takes the recursion allowance.

  \<^item> PyNum: \<^verbatim>\<open>int(text)\<close> and \<^verbatim>\<open>int(bytes)\<close>. Json: what \<^verbatim>\<open>json.loads\<close> returns.
  \<^item> CarbonDyn: \<^verbatim>\<open>VMDynamicVariable\<close>, \<^verbatim>\<open>VMNamedDynamicVariable\<close>,
    \<^verbatim>\<open>VMDynamicStruct\<close> and \<^verbatim>\<open>VMStructArray\<close>, self-describing and under a schema. A value is a
    \<open>vm_data\<close>, one constructor per Python class the code tells apart; the conversions
    (\<^verbatim>\<open>int(x)\<close>, \<^verbatim>\<open>bytes(x)\<close>, \<^verbatim>\<open>x or y\<close>, indexing) are functions on it. The readers take the
    recursion allowance. \<open>struct_map\<close> is the abstract view of a struct as a finite map.
  \<^item> CarbonById: the token and market arguments that hold such a value.
  \<^item> Metadata: the coercion of user-supplied metadata to VM values. TokenBuilder: schemas and their check,
    token and series descriptions, ROMs, the creating and minting transactions, the parsers of results.

  \<^item> VmValue: \<^verbatim>\<open>vm_value.py\<close>. WireShapes: \<^verbatim>\<open>_wire_shapes.py\<close>. The code reads the fields of a
    dataclass and their annotations at run time, so a class is data here (\<open>pyclass\<close>, a list of fields) and an
    object a \<open>pyval\<close>; the locale \<open>shape_decoder\<close> is the contract of a decoder of annotated values, and
    gives that what is written is read back. It is interpreted three times: for arguments, for event payloads
    and for responses. WireReads: the relation \<open>denotes\<close> between JSON and the value it stands for under an
    annotation; the strict decoder is shown to be that relation.
  \<^item> ArgumentClasses, SpecialResolution: \<^verbatim>\<open>special_resolution_arguments.py\<close>, the argument classes of every module and
    method and the dispatch. ExtendedEvents: \<^verbatim>\<open>extended_events.py\<close>, event payloads by kind, special
    resolutions with nested calls.
  \<^item> PyFloat: \<^verbatim>\<open>int(x)\<close>, \<^verbatim>\<open>str(x)\<close> and truth of JSON values. RpcModels: the response classes of
    \<^verbatim>\<open>rpc.py\<close>. RpcDecode: the lenient decoder \<^verbatim>\<open>_decode_dataclass\<close>. RpcClient: \<^verbatim>\<open>JsonRpcClient\<close>; the
    session is a value that posting and closing change, and a call returns the client it leaves. The relation
    \<open>calls\<close> are the clients any calls lead to, \<open>logging\<close> a session that records the traffic. RpcResults:
    decimal amounts, pages, gas configuration, fee estimate, flags, hashes. RpcMethods: every method of
    \<^verbatim>\<open>PhantasmaRPC\<close>, from the call to the decoded result, and the sending of transactions. RpcFees: from the
    node's answer to the configuration the fee estimator takes.

  \<^item> CarbonNames: the enumerations and constants of \<^verbatim>\<open>carbon.py\<close>, an \<open>IntEnum\<close> as its members
    with their numbers, a flag as the sum of its bits. CarbonHelpers: the buffers, fixed-size values, system
    addresses and list helpers that the codec theories use under one name; they are shown equal to what is used.
  \<^item> KeyText: generating a key pair from a random source (an argument with a state of its own), the texts of
    addresses, hashes and keys, \<^verbatim>\<open>NULL_ADDRESS\<close>. ArgumentUnion: the union type of call arguments has a member for
    every class the dispatch can yield.
  \<^item> ClientLife: a client over time (\<open>in_use\<close>, the client after the first \<open>n\<close> of a sequence of calls), sending
    Carbon transactions, and the path from the node's gas configuration through the estimate to the transaction
    the node receives.
  \<^item> Package: \<^verbatim>\<open>__init__.py\<close>, its import statements run in order over a namespace, the groups of
    \<^verbatim>\<open>__all__\<close>, and the version of \<^verbatim>\<open>_version.py\<close>.
  \<^item> Examples: the three programs of \<^verbatim>\<open>src/examples\<close> as functions from environment, clock and random
    bytes to the lines they print. The page loop of \<^verbatim>\<open>read_account.py\<close> is a partial function, because nothing
    but the server ends it.

  What the theorems show: what is written is read back, and nothing longer or shorter is accepted
  (Base58, integers of both formats, schemas, configurations, messages, transactions, VM values); which
  exceptions reading arbitrary bytes can raise; signing gives signatures the receiver verifies, and for
  which types; the fee offer covers the bill within 64 bits; mining ends with the difficulty reached or
  every nonce tried; scripts have all jumps resolved; addresses and keys have one text each. A ROM read
  under its schema holds the metadata it was built from, coerced to the field types; a struct of another shape
  than its schema is written with defaults; creating a token yields a transaction whose arguments decode to its
  description. Extended events and call arguments are read without raising, whatever the node answers, to exactly
  what the JSON denotes (relations without a decoder, \<open>denotes\<close>, \<open>arguments_denoted\<close>, \<open>event_denoted\<close>), and
  typed data comes back as it was written. The requests of a client carry different ids, a response is accepted
  only by the request it answers, within the size bound, and is closed; an answer that denotes a response object, in whatever order and
  spelling (\<open>answers\<close>), is decoded to it; a transaction sent is the one that was built and signed; the gas configuration of the node arrives unchanged;
  amounts are printed exactly; which exceptions a call, a decoder and a conversion raise. Components together:
  a client whose server answers properly now and then keeps returning results, whatever failed in between; an
  estimate made from the node's own configuration reaches the node in a transaction of the size it was made for and
  covers the bill; a Carbon transaction is posted exactly when one signature is enough for it; token metadata is the
  map of texts it was built from; the example programs print a transaction and a token description that decode to
  what they say, and every balance of every page, once and in order, stopping at the last page and not before. Every name the package
  exports is bound, by the module that defines it.

  Bounds: recursion allowances are the number of bytes of the input, shown to be enough; the functions on JSON are
  structural and need none, the interpreter's own recursion limit on nested JSON is the parser's and not modelled.

  Not modelled: the HTTP transport itself, \<^verbatim>\<open>json.loads\<close>, text codecs other than UTF-8 and the \<^verbatim>\<open>repr\<close> of
  containers (parameters, record \<open>rpc_lib\<close>); the floating-point clock behind \<^verbatim>\<open>now_unix_millis\<close> (the milliseconds are
  an argument); protocols and type variables, which have no run-time meaning; deprecation warnings; exception
  messages, except what a server reports. The remaining lines of the sources are docstrings, comments and imports.
\<close>

end
